(* ===== verification/Js_Json.thy ===== *)
theory Js_Json
  imports Js_Prelude
begin

text \<open>
  JSON values, \<open>JSON.stringify\<close> and \<open>JSON.parse\<close>, as the client uses them on the browser's
  storage and on request bodies. Integers are \<open>JNum\<close>; a number with a fraction or an exponent
  is kept as its lexeme (\<open>JDec\<close>), because the modelled code never computes with one. The
  parser is by recursive descent; its fuel bounds the nesting of calls, and twice the length of the
  input plus two is enough for every text the printer produces (\<open>json_parse_stringify\<close>).
\<close>

section \<open>Values\<close>

datatype json =
    JNull
  | JBool bool
  | JNum int
  | JDec string
  | JStr string
  | JArr "json list"
  | JObj "(string \<times> json) list"

text \<open>
  Property access \<open>x.k\<close>: the last entry wins, as it does when \<open>JSON.parse\<close> reads a repeated
  key; a value that is no object has no such property (\<open>undefined\<close>).
\<close>

fun json_field :: "json \<Rightarrow> string \<Rightarrow> json option" where
  "json_field (JObj kvs) k = map_of (rev kvs) k"
| "json_field _ k = None"

fun json_string :: "json option \<Rightarrow> string option" where
  "json_string (Some (JStr s)) = Some s"
| "json_string _ = None"

text \<open>\<open>typeof v === 'string'\<close> elements of an array, as the code's type guards filter them.\<close>

fun json_strings :: "json list \<Rightarrow> string list" where
  "json_strings [] = []"
| "json_strings (JStr s # vs) = s # json_strings vs"
| "json_strings (_ # vs) = json_strings vs"

definition str_array :: "string list \<Rightarrow> json" where
  "str_array xs = JArr (map JStr xs)"

lemma json_strings_map [simp]: "json_strings (map JStr xs) = xs"
  by (induction xs) auto

lemma json_strings_append [simp]: "json_strings (xs @ ys) = json_strings xs @ json_strings ys"
  by (induction xs rule: json_strings.induct) auto

section \<open>Printing\<close>

definition hex_digits :: string where
  "hex_digits = ''0123456789abcdef''"

definition esc_char :: "char \<Rightarrow> string" where
  "esc_char c =
     (if c = CHR 0x22 then [CHR 0x5C, CHR 0x22]
      else if c = CHR 0x5C then [CHR 0x5C, CHR 0x5C]
      else if c = CHR 0x08 then [CHR 0x5C, CHR ''b'']
      else if c = CHR 0x0C then [CHR 0x5C, CHR ''f'']
      else if c = CHR 0x0A then [CHR 0x5C, CHR ''n'']
      else if c = CHR 0x0D then [CHR 0x5C, CHR ''r'']
      else if c = CHR 0x09 then [CHR 0x5C, CHR ''t'']
      else if (of_char c :: nat) < 32
      then [CHR 0x5C, CHR ''u'', CHR ''0'', CHR ''0'',
            hex_digits ! (of_char c div 16), hex_digits ! (of_char c mod 16)]
      else [c])"

fun esc_string :: "string \<Rightarrow> string" where
  "esc_string [] = []"
| "esc_string (c # s) = esc_char c @ esc_string s"

definition quote :: "string \<Rightarrow> string" where
  "quote s = CHR 0x22 # esc_string s @ [CHR 0x22]"

fun json_stringify :: "json \<Rightarrow> string"
and stringify_elems :: "json list \<Rightarrow> string"
and stringify_members :: "(string \<times> json) list \<Rightarrow> string" where
  "json_stringify JNull = ''null''"
| "json_stringify (JBool b) = (if b then ''true'' else ''false'')"
| "json_stringify (JNum i) = int_str i"
| "json_stringify (JDec l) = l"
| "json_stringify (JStr s) = quote s"
| "json_stringify (JArr vs) = CHR ''['' # stringify_elems vs @ '']''"
| "json_stringify (JObj kvs) = CHR ''{'' # stringify_members kvs @ ''}''"
| "stringify_elems [] = []"
| "stringify_elems (v # vs) =
     json_stringify v @ (case vs of [] \<Rightarrow> [] | _ \<Rightarrow> CHR '','' # stringify_elems vs)"
| "stringify_members [] = []"
| "stringify_members ((k, v) # kvs) =
     quote k @ CHR '':'' # json_stringify v
       @ (case kvs of [] \<Rightarrow> [] | _ \<Rightarrow> CHR '','' # stringify_members kvs)"

section \<open>Parsing\<close>

definition json_ws :: "char \<Rightarrow> bool" where
  "json_ws c \<longleftrightarrow> c \<in> {CHR 0x20, CHR 0x09, CHR 0x0A, CHR 0x0D}"

definition skip_ws :: "string \<Rightarrow> string" where
  "skip_ws s = dropWhile json_ws s"

fun hex_index :: "string \<Rightarrow> char \<Rightarrow> nat option" where
  "hex_index [] c = None"
| "hex_index (d # ds) c = (if lower_char c = d then Some 0 else map_option Suc (hex_index ds c))"

definition hex_val :: "char \<Rightarrow> nat option" where
  "hex_val c = hex_index hex_digits c"

definition hex4 :: "char \<Rightarrow> char \<Rightarrow> char \<Rightarrow> char \<Rightarrow> nat option" where
  "hex4 a b c d =
     Option.bind (hex_val a) (\<lambda>x. Option.bind (hex_val b) (\<lambda>y.
       Option.bind (hex_val c) (\<lambda>z. Option.bind (hex_val d) (\<lambda>w.
         Some (((x * 16 + y) * 16 + z) * 16 + w)))))"

text \<open>The text after an opening quote: the characters up to the closing quote and the rest.\<close>

fun parse_chars :: "string \<Rightarrow> (string \<times> string) option" where
  "parse_chars [] = None"
| "parse_chars (c # s) =
     (if c = CHR 0x22 then Some ([], s)
      else if c = CHR 0x5C
      then (case s of
              [] \<Rightarrow> None
            | e # s' \<Rightarrow>
                if e = CHR ''u''
                then (case s' of
                        a # b # d # f # s'' \<Rightarrow>
                          (case hex4 a b d f of
                             None \<Rightarrow> None
                           | Some n \<Rightarrow>
                               if n < 256
                               then map_option (\<lambda>(t, r). (char_of n # t, r)) (parse_chars s'')
                               else None)
                      | _ \<Rightarrow> None)
                else (case map_of
                        [(CHR 0x22, CHR 0x22), (CHR 0x5C, CHR 0x5C), (CHR ''/'', CHR ''/''),
                         (CHR ''b'', CHR 0x08), (CHR ''f'', CHR 0x0C), (CHR ''n'', CHR 0x0A),
                         (CHR ''r'', CHR 0x0D), (CHR ''t'', CHR 0x09)] e of
                        None \<Rightarrow> None
                      | Some x \<Rightarrow> map_option (\<lambda>(t, r). (x # t, r)) (parse_chars s')))
      else if (of_char c :: nat) < 32 then None
      else map_option (\<lambda>(t, r). (c # t, r)) (parse_chars s))"

definition parse_string :: "string \<Rightarrow> (string \<times> string) option" where
  "parse_string s = (case s of [] \<Rightarrow> None | c # s' \<Rightarrow> if c = CHR 0x22 then parse_chars s' else None)"

definition parse_lit :: "string \<Rightarrow> json \<Rightarrow> string \<Rightarrow> (json \<times> string) option" where
  "parse_lit l v s = (if starts_with s l then Some (v, drop (length l) s) else None)"

text \<open>Fraction and exponent of a number: their lexeme and the rest, \<open>None\<close> on a syntax error.\<close>

definition parse_frac :: "string \<Rightarrow> (string \<times> string) option" where
  "parse_frac s =
     (case s of
        [] \<Rightarrow> Some ([], s)
      | c # s' \<Rightarrow>
          if c = CHR ''.''
          then (let ds = takeWhile is_digit s' in
                if ds = [] then None else Some (c # ds, drop (length ds) s'))
          else Some ([], s))"

definition parse_exp :: "string \<Rightarrow> (string \<times> string) option" where
  "parse_exp s =
     (case s of
        [] \<Rightarrow> Some ([], s)
      | c # s' \<Rightarrow>
          if c = CHR ''e'' \<or> c = CHR ''E''
          then (let (sg, t) = (case s' of
                     x # s'' \<Rightarrow> if x = CHR ''+'' \<or> x = CHR ''-'' then ([x], s'') else ([], s')
                   | [] \<Rightarrow> ([], s'));
                    ds = takeWhile is_digit t in
                if ds = [] then None else Some (c # sg @ ds, drop (length ds) t))
          else Some ([], s))"

definition parse_number :: "string \<Rightarrow> (json \<times> string) option" where
  "parse_number s =
     (let neg = (starts_with s ''-'');
          t = (if neg then drop 1 s else s);
          ds = takeWhile is_digit t;
          rest = drop (length ds) t
      in if ds = [] \<or> (hd ds = CHR ''0'' \<and> length ds > 1) then None
         else case parse_frac rest of
                None \<Rightarrow> None
              | Some (fr, r1) \<Rightarrow>
                  (case parse_exp r1 of
                     None \<Rightarrow> None
                   | Some (ex, r2) \<Rightarrow>
                       if fr = [] \<and> ex = []
                       then Some (JNum (if neg then - int (parse_digits ds) else int (parse_digits ds)), r2)
                       else Some (JDec ((if neg then ''-'' else []) @ ds @ fr @ ex), r2)))"

fun parse_value :: "nat \<Rightarrow> string \<Rightarrow> (json \<times> string) option"
and parse_elems :: "nat \<Rightarrow> string \<Rightarrow> (json list \<times> string) option"
and parse_members :: "nat \<Rightarrow> string \<Rightarrow> ((string \<times> json) list \<times> string) option" where
  "parse_value 0 s = None"
| "parse_value (Suc n) s =
     (case skip_ws s of
        [] \<Rightarrow> None
      | c # s' \<Rightarrow>
          if c = CHR 0x22 then map_option (\<lambda>(t, r). (JStr t, r)) (parse_chars s')
          else if c = CHR ''[''
          then (if starts_with (skip_ws s') '']'' then Some (JArr [], drop 1 (skip_ws s'))
                else map_option (\<lambda>(vs, r). (JArr vs, r)) (parse_elems n s'))
          else if c = CHR ''{''
          then (if starts_with (skip_ws s') ''}'' then Some (JObj [], drop 1 (skip_ws s'))
                else map_option (\<lambda>(kvs, r). (JObj kvs, r)) (parse_members n s'))
          else if c = CHR ''n'' then parse_lit ''null'' JNull (c # s')
          else if c = CHR ''t'' then parse_lit ''true'' (JBool True) (c # s')
          else if c = CHR ''f'' then parse_lit ''false'' (JBool False) (c # s')
          else parse_number (c # s'))"
| "parse_elems 0 s = None"
| "parse_elems (Suc n) s =
     (case parse_value n s of
        None \<Rightarrow> None
      | Some (v, r) \<Rightarrow>
          (case skip_ws r of
             [] \<Rightarrow> None
           | c # r' \<Rightarrow>
               if c = CHR '']'' then Some ([v], r')
               else if c = CHR '','' then map_option (\<lambda>(vs, r''). (v # vs, r'')) (parse_elems n r')
               else None))"
| "parse_members 0 s = None"
| "parse_members (Suc n) s =
     (case parse_string (skip_ws s) of
        None \<Rightarrow> None
      | Some (k, r) \<Rightarrow>
          (case skip_ws r of
             [] \<Rightarrow> None
           | c # r' \<Rightarrow>
               if c \<noteq> CHR '':'' then None
               else (case parse_value n r' of
                       None \<Rightarrow> None
                     | Some (v, q) \<Rightarrow>
                         (case skip_ws q of
                            [] \<Rightarrow> None
                          | d # q' \<Rightarrow>
                              if d = CHR ''}'' then Some ([(k, v)], q')
                              else if d = CHR '',''
                              then map_option (\<lambda>(kvs, q''). ((k, v) # kvs, q'')) (parse_members n q')
                              else None))))"

text \<open>\<open>None\<close> is the \<open>SyntaxError\<close> that \<open>JSON.parse\<close> throws.\<close>

definition json_parse :: "string \<Rightarrow> json option" where
  "json_parse s =
     (case parse_value (2 * length s + 2) s of
        None \<Rightarrow> None
      | Some (v, r) \<Rightarrow> if skip_ws r = [] then Some v else None)"

section \<open>The parser reads what the printer writes\<close>

fun json_plain :: "json \<Rightarrow> bool" where
  "json_plain (JDec l) = False"
| "json_plain (JArr vs) = list_all json_plain vs"
| "json_plain (JObj kvs) = list_all (\<lambda>kv. json_plain (snd kv)) kvs"
| "json_plain _ = True"

fun jcost :: "json \<Rightarrow> nat" and ecost :: "json list \<Rightarrow> nat"
  and mcost :: "(string \<times> json) list \<Rightarrow> nat" where
  "jcost (JArr vs) = Suc (ecost vs)"
| "jcost (JObj kvs) = Suc (mcost kvs)"
| "jcost _ = 1"
| "ecost [] = 0"
| "ecost (v # vs) = Suc (max (jcost v) (ecost vs))"
| "mcost [] = 0"
| "mcost ((k, v) # kvs) = Suc (max (jcost v) (mcost kvs))"

definition follows :: "string \<Rightarrow> bool" where
  "follows r \<longleftrightarrow> r = [] \<or> hd r \<in> {CHR '','', CHR '']'', CHR ''}''}"

lemma follows_simps [simp]:
  "follows []" "follows (CHR '','' # r)" "follows (CHR '']'' # r)" "follows (CHR ''}'' # r)"
  by (simp_all add: follows_def)

lemma skip_ws_Cons [simp]: "\<not> json_ws c \<Longrightarrow> skip_ws (c # s) = c # s"
  by (simp add: skip_ws_def)

lemma skip_ws_follow [simp]:
  "skip_ws (CHR '','' # r) = CHR '','' # r" "skip_ws (CHR '']'' # r) = CHR '']'' # r"
  "skip_ws (CHR ''}'' # r) = CHR ''}'' # r" "skip_ws (CHR '':'' # r) = CHR '':'' # r"
  "skip_ws (CHR 0x22 # r) = CHR 0x22 # r" "skip_ws [] = []"
  by (simp_all add: skip_ws_def json_ws_def)

lemma hex_val_all: "list_all (\<lambda>n. hex_val (hex_digits ! n) = Some n) [0..<16]"
  by code_simp

lemma hex_val_nth: "n < 16 \<Longrightarrow> hex_val (hex_digits ! n) = Some n"
  using hex_val_all by (simp add: list_all_iff)

lemma hex4_control:
  assumes "(n::nat) < 32"
  shows "hex4 (CHR ''0'') (CHR ''0'') (hex_digits ! (n div 16)) (hex_digits ! (n mod 16)) = Some n"
proof -
  have z: "hex_val (CHR ''0'') = Some 0" using hex_val_nth [of 0] by (simp add: hex_digits_def)
  have a: "hex_val (hex_digits ! (n div 16)) = Some (n div 16)" using assms by (intro hex_val_nth) simp
  have b: "hex_val (hex_digits ! (n mod 16)) = Some (n mod 16)" by (intro hex_val_nth) simp
  show ?thesis by (simp add: hex4_def z a b)
qed

lemma parse_chars_esc_char:
  "parse_chars (esc_char c @ s) = map_option (\<lambda>(t, r). (c # t, r)) (parse_chars s)"
proof (cases "c \<in> {CHR 0x22, CHR 0x5C, CHR 0x08, CHR 0x0C, CHR 0x0A, CHR 0x0D, CHR 0x09}")
  case True
  then show ?thesis by (auto simp: esc_char_def)
next
  case False
  show ?thesis
  proof (cases "(of_char c :: nat) < 32")
    case True
    then have h: "hex4 (CHR ''0'') (CHR ''0'') (hex_digits ! (of_char c div 16))
        (hex_digits ! (of_char c mod 16)) = Some (of_char c)"
      by (rule hex4_control)
    have e: "esc_char c = [CHR 0x5C, CHR ''u'', CHR ''0'', CHR ''0'',
            hex_digits ! (of_char c div 16), hex_digits ! (of_char c mod 16)]"
      using False True by (simp add: esc_char_def)
    show ?thesis using True by (simp add: e h)
  next
    case nf: False
    with False show ?thesis by (simp add: esc_char_def)
  qed
qed

lemma parse_chars_esc [simp]: "parse_chars (esc_string s @ CHR 0x22 # r) = Some (s, r)"
  by (induction s) (simp_all add: parse_chars_esc_char)

lemma parse_string_quote [simp]: "parse_string (quote s @ r) = Some (s, r)"
  by (simp add: parse_string_def quote_def)

lemma takeWhile_digits_nat_str:
  assumes "follows r"
  shows "takeWhile is_digit (nat_str n @ r) = nat_str n"
proof -
  have "r = [] \<or> \<not> is_digit (hd r)" using assms
    by (auto simp: follows_def is_digit_def digits_def)
  then have "takeWhile is_digit r = []" by (cases r) auto
  then show ?thesis using nat_str_digits by (simp add: takeWhile_append2)
qed

lemma nat_str_single_zero: "hd (nat_str n) = CHR ''0'' \<Longrightarrow> length (nat_str n) = 1"
  using nat_str_hd_zero [of n] by (simp add: nat_str.simps [of 0])

lemma parse_frac_follows: "follows r \<Longrightarrow> parse_frac r = Some ([], r)"
  by (cases r) (auto simp: parse_frac_def follows_def)

lemma parse_exp_follows: "follows r \<Longrightarrow> parse_exp r = Some ([], r)"
  by (cases r) (auto simp: parse_exp_def follows_def)

lemma nat_str_no_dash: "\<not> starts_with (nat_str n @ r) ''-''"
proof -
  have "is_digit (hd (nat_str n))" using nat_str_digits by (metis hd_in_set nat_str_nonempty)
  then show ?thesis by (cases "nat_str n") (auto simp: starts_with_def)
qed

lemma parse_number_nat_str:
  assumes "follows r"
  shows "parse_number (nat_str n @ r) = Some (JNum (int n), r)"
    and "parse_number (CHR ''-'' # nat_str n @ r) = Some (JNum (- int n), r)"
proof -
  note f = parse_frac_follows [OF assms] parse_exp_follows [OF assms]
    takeWhile_digits_nat_str [OF assms, of n]
  have z: "\<not> (hd (nat_str n) = CHR ''0'' \<and> 1 < length (nat_str n))"
    using nat_str_single_zero [of n] by auto
  show "parse_number (nat_str n @ r) = Some (JNum (int n), r)"
    unfolding parse_number_def Let_def using z by (simp add: nat_str_no_dash f)
  have d: "starts_with (CHR ''-'' # nat_str n @ r) ''-''" by (simp add: starts_with_def)
  show "parse_number (CHR ''-'' # nat_str n @ r) = Some (JNum (- int n), r)"
    unfolding parse_number_def Let_def using z by (simp add: d f)
qed

lemma parse_number_int_str:
  assumes "follows r"
  shows "parse_number (int_str i @ r) = Some (JNum i, r)"
  using parse_number_nat_str [OF assms] by (simp add: int_str_def)

definition num_start :: "char \<Rightarrow> bool" where
  "num_start c \<longleftrightarrow> is_digit c \<or> c = CHR ''-''"

lemma int_str_start: "\<exists>c s. int_str i = c # s \<and> num_start c"
proof (cases "i < 0")
  case True
  then show ?thesis by (simp add: int_str_def num_start_def)
next
  case False
  then show ?thesis using nat_str_digits [of "nat i"] nat_str_nonempty [of "nat i"]
    by (cases "nat_str (nat i)") (auto simp: int_str_def num_start_def)
qed

lemma num_start_other:
  assumes "num_start c"
  shows "\<not> json_ws c" "c \<noteq> CHR 0x22" "c \<noteq> CHR ''[''" "c \<noteq> CHR ''{''" "c \<noteq> CHR ''n''"
    "c \<noteq> CHR ''t''" "c \<noteq> CHR ''f''" "c \<noteq> CHR '']''" "c \<noteq> CHR ''}''"
  using assms by (auto simp: num_start_def is_digit_def digits_def json_ws_def)

lemma stringify_start:
  "json_plain v \<Longrightarrow> \<exists>c s. json_stringify v = c # s \<and> \<not> json_ws c \<and> c \<noteq> CHR '']'' \<and> c \<noteq> CHR ''}''"
proof (cases v)
  case (JNum i)
  then show ?thesis using int_str_start [of i] num_start_other by fastforce
next
  case (JBool b)
  then show ?thesis by (cases b) (auto simp: json_ws_def)
qed (auto simp: json_ws_def quote_def)

lemma parse_value_num:
  assumes "follows r"
  shows "parse_value (Suc n) (int_str i @ r) = Some (JNum i, r)"
proof -
  obtain c s where cs: "int_str i = c # s" "num_start c" using int_str_start by blast
  show ?thesis
    using parse_number_int_str [OF assms, of i] num_start_other [OF cs(2)] by (simp add: cs(1))
qed

lemma skip_ws_stringify [simp]:
  "json_plain v \<Longrightarrow> skip_ws (json_stringify v @ r) = json_stringify v @ r"
  using stringify_start [of v] by fastforce

lemma elems_start:
  assumes "list_all json_plain vs" and "vs \<noteq> []"
  shows "\<exists>c s. stringify_elems vs @ r = c # s \<and> \<not> json_ws c \<and> c \<noteq> CHR '']''"
  using assms stringify_start by (cases vs) fastforce+

lemma members_start:
  "kvs \<noteq> [] \<Longrightarrow> \<exists>s. stringify_members kvs @ r = CHR 0x22 # s"
  by (cases kvs) (auto simp: quote_def)

lemma parse_stringify:
  "json_plain v \<Longrightarrow> follows r \<Longrightarrow> jcost v \<le> n \<Longrightarrow>
     parse_value n (json_stringify v @ r) = Some (v, r)"
and parse_stringify_elems:
  "list_all json_plain vs \<Longrightarrow> vs \<noteq> [] \<Longrightarrow> ecost vs \<le> n \<Longrightarrow>
     parse_elems n (stringify_elems vs @ CHR '']'' # r) = Some (vs, r)"
and parse_stringify_members:
  "list_all (\<lambda>kv. json_plain (snd kv)) kvs \<Longrightarrow> kvs \<noteq> [] \<Longrightarrow> mcost kvs \<le> n \<Longrightarrow>
     parse_members n (stringify_members kvs @ CHR ''}'' # r) = Some (kvs, r)"
proof (induction v and vs and kvs arbitrary: n r and n r and n r
    rule: json_stringify_stringify_elems_stringify_members.induct)
  case 1
  then show ?case by (cases n) (auto simp: parse_lit_def starts_with_def json_ws_def)
next
  case (2 b)
  then show ?case by (cases n) (auto simp: parse_lit_def starts_with_def json_ws_def)
next
  case (3 i)
  then show ?case using parse_value_num by (cases n) auto
next
  case (4 l)
  then show ?case by simp
next
  case (5 s)
  then show ?case by (cases n) (auto simp: quote_def)
next
  case (6 vs)
  obtain m where n: "n = Suc m" "ecost vs \<le> m" using 6 by (cases n) auto
  show ?case
  proof (cases "vs = []")
    case True
    then show ?thesis by (simp add: n(1) json_ws_def starts_with_def)
  next
    case False
    obtain c s where cs: "stringify_elems vs @ CHR '']'' # r = c # s" "\<not> json_ws c" "c \<noteq> CHR '']''"
      using elems_start [of vs "CHR '']'' # r"] 6 False by auto
    have "parse_elems m (c # s) = Some (vs, r)" using 6 n(2) False unfolding cs(1) [symmetric] by simp
    with cs show ?thesis by (simp add: n(1) json_ws_def starts_with_def)
  qed
next
  case (7 kvs)
  obtain m where n: "n = Suc m" "mcost kvs \<le> m" using 7 by (cases n) auto
  show ?case
  proof (cases "kvs = []")
    case True
    then show ?thesis by (simp add: n(1) json_ws_def starts_with_def)
  next
    case False
    obtain s where cs: "stringify_members kvs @ CHR ''}'' # r = CHR 0x22 # s"
      using members_start [of kvs "CHR ''}'' # r"] False by auto
    have "parse_members m (CHR 0x22 # s) = Some (kvs, r)"
      using 7 n(2) False unfolding cs(1) [symmetric] by simp
    with cs show ?thesis by (simp add: n(1) json_ws_def starts_with_def)
  qed
next
  case 8
  then show ?case by simp
next
  case (9 v vs)
  obtain m where n: "n = Suc m" "jcost v \<le> m" "ecost vs \<le> m" using 9 by (cases n) auto
  show ?case
  proof (cases vs)
    case Nil
    then show ?thesis using 9 n by simp
  next
    case (Cons w ws)
    have e: "stringify_elems (v # vs) = json_stringify v @ CHR '','' # stringify_elems vs"
      by (simp add: Cons)
    have t: "parse_elems m (stringify_elems vs @ CHR '']'' # r) = Some (vs, r)"
      using "9.IH"(2) [of w ws m r] "9.prems"(1) n(3) by (simp add: Cons)
    have v: "parse_value m (json_stringify v @ CHR '','' # q) = Some (v, CHR '','' # q)" for q
      using "9.IH"(1) "9.prems"(1) n(2) by simp
    show ?thesis by (simp add: n(1) e v t del: stringify_elems.simps)
  qed
next
  case 10
  then show ?case by simp
next
  case (11 k v kvs)
  obtain m where n: "n = Suc m" "jcost v \<le> m" "mcost kvs \<le> m" using 11 by (cases n) auto
  have q: "skip_ws (quote k @ t) = quote k @ t" for t by (simp add: quote_def)
  show ?case
  proof (cases kvs)
    case Nil
    then show ?thesis using 11 n by (simp add: q)
  next
    case (Cons w ws)
    have e: "stringify_members ((k, v) # kvs) =
        quote k @ CHR '':'' # json_stringify v @ CHR '','' # stringify_members kvs"
      by (simp add: Cons)
    have t: "parse_members m (stringify_members kvs @ CHR ''}'' # r) = Some (kvs, r)"
      using "11.IH"(2) [of w ws m r] "11.prems"(1) n(3) by (simp add: Cons)
    have v: "parse_value m (json_stringify v @ CHR '','' # q) = Some (v, CHR '','' # q)" for q
      using "11.IH"(1) "11.prems"(1) n(2) by simp
    show ?thesis by (simp add: n(1) e q v t del: stringify_members.simps)
  qed
qed

lemma stringify_length: "json_plain v \<Longrightarrow> 0 < length (json_stringify v)"
  using stringify_start by fastforce

lemma stringify_nonempty [simp]: "json_plain v \<Longrightarrow> json_stringify v \<noteq> []"
  using stringify_length by fastforce

lemma jcost_bound: "json_plain v \<Longrightarrow> jcost v \<le> 2 * length (json_stringify v)"
and ecost_bound: "list_all json_plain vs \<Longrightarrow> ecost vs \<le> 2 * length (stringify_elems vs) + 1"
and mcost_bound:
  "list_all (\<lambda>kv. json_plain (snd kv)) kvs \<Longrightarrow> mcost kvs \<le> 2 * length (stringify_members kvs) + 1"
proof (induction v and vs and kvs rule: json_stringify_stringify_elems_stringify_members.induct)
  case (3 i)
  then show ?case using stringify_length [of "JNum i"] by (simp add: Suc_le_eq)
next
  case (9 v vs)
  then show ?case by (cases vs) auto
next
  case (11 k v kvs)
  then show ?case by (cases kvs) auto
qed (auto simp: quote_def)

theorem json_parse_stringify: "json_plain v \<Longrightarrow> json_parse (json_stringify v) = Some v"
proof -
  assume p: "json_plain v"
  then have "jcost v \<le> 2 * length (json_stringify v) + 2" using jcost_bound [of v] by simp
  then have "parse_value (2 * length (json_stringify v) + 2) (json_stringify v @ []) = Some (v, [])"
    by (intro parse_stringify) (use p in simp_all)
  then show ?thesis by (simp add: json_parse_def)
qed

lemma json_plain_str_array [simp]: "json_plain (str_array xs)"
  by (simp add: str_array_def list_all_iff)

lemma json_parse_str_array: "json_parse (json_stringify (str_array xs)) = Some (str_array xs)"
  by (rule json_parse_stringify) simp

text \<open>The empty text is a syntax error.\<close>

lemma json_parse_Nil [simp]: "json_parse [] = None"
  by (simp add: json_parse_def numeral_2_eq_2)

end
