(* ===== verification/Hub_Types.thy ===== *)
theory Hub_Types
  imports Complex_Main Js_Json
begin

text \<open>
  The data of the client (\<open>web/src/types.ts\<close> and the response schemas of
  \<open>web/src/openapi/schema.gen.ts\<close> it aliases), as records with the fields of the source.
  Field names carry a prefix where two types share one. An optional or nullable field is an
  \<open>option\<close>; a free-form object (\<open>Record<string, unknown>\<close>) is a partial map from keys to
  JSON values; a \<open>number\<close> is an \<open>int\<close> where it counts something and a \<open>rat\<close> where it
  measures something.
\<close>

section \<open>Preferences\<close>

datatype date_time_format_id = Eu_24h | Us_12h | Iso | Relative

datatype pref_source = SourceUser | SourceInstance | SourceOrg | SourceDefault

record date_time_prefs =
  dtp_format :: date_time_format_id
  dtp_timezone :: string
  dtp_format_source :: pref_source
  dtp_timezone_source :: pref_source
  dtp_instance_format :: date_time_format_id
  dtp_instance_timezone :: string

record dispatchable_pair =
  pair_asr :: string
  pair_diarization :: "string option"

record transcribe_prefs =
  tp_asr_model :: string
  tp_diarization_model :: "string option"
  tp_asr_source :: pref_source
  tp_diarization_source :: pref_source
  tp_instance_asr_model :: string
  tp_instance_diarization_model :: "string option"

record transcribe_models =
  tm_asr_models :: "string list"
  tm_diarization_models :: "string list"
  tm_dispatchable_pairs :: "dispatchable_pair list option"

record summarize_prefs =
  sp_summarize_model :: "string option"
  sp_source :: pref_source
  sp_instance_summarize_model :: "string option"

record summarize_models =
  sm_models :: "string list"

record capture_prefs =
  cp_capture_enabled :: bool
  cp_bot_display_name :: string
  cp_source :: pref_source
  cp_org_bot_display_name :: string

section \<open>Users, tariffs, organisations and the session\<close>

record legal_acceptance =
  la_key :: string
  la_accepted_version :: int
  la_current_version :: int
  la_pending :: bool

record user =
  user_id :: string
  user_email :: string
  user_first_name :: "string option"
  user_last_name :: "string option"
  user_display_name :: string
  user_locale :: string
  user_default_route :: string
  user_date_time_format :: "string option"
  user_timezone :: "string option"
  user_asr_model :: "string option"
  user_diarization_model :: "string option"
  user_tone_analytics :: "bool option"
  user_summarize_model :: "string option"
  user_capture_bot_name :: "string option"
  user_show_only_my_items :: bool
  user_shell_show_mic :: bool
  user_shell_show_telegram :: "bool option"
  user_disabled :: bool
  user_must_change_password :: bool
  user_mfa_enabled :: bool
  user_mfa_configured :: "bool option"
  user_is_instance_admin :: bool
  user_role :: "string option"
  user_auth_provider :: string
  user_agreement_status :: "string option"
  user_legal_acceptance :: "legal_acceptance list option"

text \<open>
  \<open>tone_analytics_enabled\<close> and \<open>shell_show_telegram_link\<close> are options although the schema
  makes them mandatory: the client guards both with \<open>?? true\<close>.
\<close>

record tariff =
  tariff_id :: string
  tariff_name :: string
  tariff_unlimited :: bool
  tariff_available_on_signup :: bool
  tariff_archived :: bool
  tariff_price_per_audio_sec :: string
  tariff_price_per_1k_chars :: string
  tariff_audio_retention_days :: int
  tariff_api_enabled :: bool
  tariff_signup_credit :: string
  tariff_max_upload_bytes :: int
  tariff_tone_analytics :: bool
  tariff_org_count :: "int option"

record org_sso =
  sso_configured :: bool
  sso_enabled :: bool
  sso_login_url :: "string option"

record org =
  org_id :: string
  org_name :: string
  org_is_personal :: bool
  org_password_ttl_days :: int
  org_mfa_required :: bool
  org_balance :: string
  org_unlimited :: bool
  org_tariff :: tariff
  org_sso_public :: "org_sso option"
  org_usage :: "json option"
  org_public_base_url_set :: bool
  org_allow_public_links :: bool
  org_members :: "user list option"
  org_hidden :: "bool option"

record legal_document =
  ld_key :: string
  ld_version :: int
  ld_text :: string
  ld_accepted_version :: int
  ld_pending :: bool

record me =
  me_user :: user
  me_org :: "org option"
  me_impersonating :: bool
  me_actor :: "user option"
  me_date_time_prefs :: date_time_prefs
  me_transcribe_prefs :: transcribe_prefs
  me_transcribe_models :: transcribe_models
  me_summarize_prefs :: summarize_prefs
  me_summarize_models :: summarize_models
  me_capture_prefs :: capture_prefs
  me_must_change_password :: bool
  me_mfa_enabled :: bool
  me_mfa_required :: bool
  me_mfa_enrollment_required :: bool
  me_user_agreement_required :: bool
  me_user_agreement :: "(int \<times> string) option"
  me_user_agreement_version :: "int option"
  me_legal_documents :: "legal_document list option"
  me_csrf_token :: "string option"

section \<open>Tasks and pipelines\<close>

type_synonym meta = "string \<rightharpoonup> json"

record task =
  task_id :: string
  task_type :: string
  task_status :: string
  task_meta :: meta
  task_max_upload_bytes :: "int option"
  task_transcript_id :: "string option"
  task_summary_id :: "string option"
  task_error :: "string option"
  task_org_id :: "string option"
  task_user_id :: "string option"
  task_audio_id :: "string option"
  task_source_transcript_id :: "string option"
  task_created_at :: "string option"
  task_updated_at :: "string option"
  task_owner_email :: "string option"
  task_org_name :: "string option"
  task_audio_filename :: "string option"
  task_skill_ids :: "json option"

text \<open>
  \<open>error\<close> holds the code of the error object. \<open>skill_ids\<close> stays a JSON value: the code
  checks that it is an array and that its elements are strings before it uses them.
\<close>

definition meta_string :: "task \<Rightarrow> string \<Rightarrow> string option" where
  "meta_string t k = json_string (task_meta t k)"

section \<open>Library\<close>

record user_tag =
  tag_id :: string
  tag_name :: string
  tag_usage_count :: "int option"

record share_record =
  share_id :: string
  share_to_user_id :: string
  share_email :: string
  share_display_name :: string

record share_badge =
  sb_share_kind :: "string option"
  sb_shared_by :: "string option"
  sb_shared_with :: "string list option"
  sb_shares :: "share_record list option"
  sb_share_id :: "string option"
  sb_hidden :: "bool option"
  sb_owner_email :: "string option"
  sb_owner_display_name :: "string option"
  sb_edited :: "bool option"
  sb_user_tags :: "user_tag list option"

record utterance_tone =
  tone_valence :: "rat option"
  tone_emotions :: "(string \<times> rat) list option"

record utterance =
  utt_speaker :: "string option"
  utt_text :: "string option"
  utt_start :: "json option"
  utt_end :: "rat option"
  utt_tone :: "utterance_tone option"

record summary = share_badge +
  summary_id :: string
  summary_org_id :: string
  summary_owner_user_id :: string
  summary_source_transcript_id :: "string option"
  summary_source_transcript_title :: "string option"
  summary_source_audio_id :: "string option"
  summary_skill_ids :: "string list"
  summary_title :: "string option"
  summary_display_title :: "string option"
  summary_was_edited :: bool
  summary_created_at :: string
  summary_body :: "string option"

record transcript = share_badge +
  transcript_id :: string
  transcript_org_id :: string
  transcript_owner_user_id :: string
  transcript_source_audio_id :: "string option"
  transcript_source_filename :: "string option"
  transcript_title :: "string option"
  transcript_display_title :: "string option"
  transcript_created_at :: string
  transcript_utterances :: "utterance list option"
  transcript_summaries :: "summary list option"
  transcript_has_summary :: "bool option"
  transcript_has_tone_analytics :: "bool option"
  transcript_call_summary :: "json option"
  transcript_tone_layers :: "string list option"

record audio = share_badge +
  audio_id :: string
  audio_org_id :: string
  audio_owner_user_id :: string
  audio_filename :: string
  audio_source_url :: "string option"
  audio_duration_sec :: "rat option"
  audio_created_at :: string
  audio_transcripts :: "transcript list option"
  audio_can_transcribe :: "bool option"
  audio_has_transcript :: "bool option"
  audio_has_summary :: "bool option"
  audio_transcript_id :: "string option"
  audio_summary_transcript_id :: "string option"

section \<open>Workers\<close>

record worker =
  worker_id :: string
  worker_type :: string
  worker_name :: string
  worker_base_url :: string
  worker_weight :: int
  worker_enabled :: bool
  worker_last_health :: "meta option"
  worker_last_seen_version :: "string option"
  worker_last_health_at :: "string option"
  worker_asr_models :: "string list"
  worker_diarization_models :: "string list"
  worker_capture_connectors :: "string list"
  worker_summarize_model :: "string option"
  worker_dispatch_available :: "bool option"

end
