(* ===== verification/Js_Url.thy ===== *)
theory Js_Url
  imports Js_Prelude
begin

text \<open>
  \<open>URLSearchParams\<close>: the ordered list of parameters, \<open>set\<close>, \<open>delete\<close>, \<open>get\<close> and
  \<open>toString\<close> (the form-urlencoded serialiser), with the parser of a query string. Code units
  from 128 to 255 are written as their two UTF-8 bytes. A byte sequence outside of the model's
  alphabet is read as a question mark; the serialiser never writes one.
\<close>

type_synonym params = "(string \<times> string) list"

text \<open>\<open>set\<close> replaces the first entry of that name and drops the others, or appends.\<close>

fun params_set :: "string \<Rightarrow> string \<Rightarrow> params \<Rightarrow> params" where
  "params_set k v [] = [(k, v)]"
| "params_set k v ((k', v') # ps) =
     (if k' = k then (k, v) # filter (\<lambda>p. fst p \<noteq> k) ps else (k', v') # params_set k v ps)"

definition params_delete :: "string \<Rightarrow> params \<Rightarrow> params" where
  "params_delete k ps = filter (\<lambda>p. fst p \<noteq> k) ps"

definition params_get :: "params \<Rightarrow> string \<Rightarrow> string option" where
  "params_get ps k = map_of ps k"

section \<open>Percent encoding\<close>

definition hex_upper :: string where
  "hex_upper = ''0123456789ABCDEF''"

definition unreserved :: "char \<Rightarrow> bool" where
  "unreserved c \<longleftrightarrow>
     (let n = of_char c :: nat in
      48 \<le> n \<and> n \<le> 57 \<or> 65 \<le> n \<and> n \<le> 90 \<or> 97 \<le> n \<and> n \<le> 122
      \<or> c = CHR ''*'' \<or> c = CHR ''-'' \<or> c = CHR ''.'' \<or> c = CHR ''_'')"

definition pct :: "nat \<Rightarrow> string" where
  "pct n = [CHR ''%'', hex_upper ! (n div 16), hex_upper ! (n mod 16)]"

definition utf8 :: "char \<Rightarrow> nat list" where
  "utf8 c = (let n = of_char c :: nat in
     if n < 128 then [n] else [192 + n div 64, 128 + n mod 64])"

definition form_char :: "char \<Rightarrow> string" where
  "form_char c =
     (if unreserved c then [c] else if c = CHR 0x20 then ''+'' else concat (map pct (utf8 c)))"

definition form_encode :: "string \<Rightarrow> string" where
  "form_encode s = concat (map form_char s)"

definition params_to_string :: "params \<Rightarrow> string" where
  "params_to_string ps = join ''&'' (map (\<lambda>(k, v). form_encode k @ ''='' @ form_encode v) ps)"

section \<open>Parsing a query string\<close>

fun hex_pos :: "string \<Rightarrow> char \<Rightarrow> nat option" where
  "hex_pos [] c = None"
| "hex_pos (d # ds) c = (if upper_char c = d then Some 0 else map_option Suc (hex_pos ds c))"

fun pct_bytes :: "string \<Rightarrow> nat list" where
  "pct_bytes [] = []"
| "pct_bytes (c # s) =
     (if c = CHR ''+'' then 32 # pct_bytes s
      else if c = CHR ''%''
      then (case s of
              a # b # s' \<Rightarrow>
                (case (hex_pos hex_upper a, hex_pos hex_upper b) of
                   (Some x, Some y) \<Rightarrow> (16 * x + y) # pct_bytes s'
                 | _ \<Rightarrow> 37 # pct_bytes s)
            | _ \<Rightarrow> 37 # pct_bytes s)
      else utf8 c @ pct_bytes s)"

fun utf8_decode :: "nat list \<Rightarrow> string" where
  "utf8_decode [] = []"
| "utf8_decode [b] = (if b < 128 then [char_of b] else [CHR ''?''])"
| "utf8_decode (b # d # bs) =
     (if b < 128 then char_of b # utf8_decode (d # bs)
      else if 194 \<le> b \<and> b \<le> 195 \<and> 128 \<le> d \<and> d < 192
      then char_of ((b - 192) * 64 + (d - 128)) # utf8_decode bs
      else CHR ''?'' # utf8_decode (d # bs))"

definition form_decode :: "string \<Rightarrow> string" where
  "form_decode s = utf8_decode (pct_bytes s)"

definition parse_pair :: "string \<Rightarrow> string \<times> string" where
  "parse_pair s =
     (form_decode (takeWhile (\<lambda>c. c \<noteq> CHR ''='') s),
      form_decode (drop 1 (dropWhile (\<lambda>c. c \<noteq> CHR ''='') s)))"

definition params_parse :: "string \<Rightarrow> params" where
  "params_parse s = map parse_pair (filter (\<lambda>x. x \<noteq> []) (split_on (CHR ''&'') s))"

section \<open>The parser reads what the serialiser writes\<close>

lemma hex_pos_all: "list_all (\<lambda>n. hex_pos hex_upper (hex_upper ! n) = Some n) [0..<16]"
  by code_simp

lemma hex_pos_nth: "n < 16 \<Longrightarrow> hex_pos hex_upper (hex_upper ! n) = Some n"
  using hex_pos_all by (simp add: list_all_iff)

lemma pct_bytes_pct: "n < 256 \<Longrightarrow> pct_bytes (pct n @ s) = n # pct_bytes s"
proof -
  assume n: "n < 256"
  have "hex_pos hex_upper (hex_upper ! (n div 16)) = Some (n div 16)"
    using n by (intro hex_pos_nth) simp
  moreover have "hex_pos hex_upper (hex_upper ! (n mod 16)) = Some (n mod 16)"
    by (intro hex_pos_nth) simp
  ultimately show ?thesis by (simp add: pct_def)
qed

lemma of_char_less: "(of_char c :: nat) < 256"
  using range_nat_of_char by auto

lemma of_char_div64: "(of_char c :: nat) div 64 < 4"
  by (rule less_mult_imp_div_less) (simp add: of_char_less)

lemma pct_bytes_form_char: "pct_bytes (form_char c @ s) = utf8 c @ pct_bytes s"
proof -
  let ?n = "of_char c :: nat"
  have n: "?n < 256" by (rule of_char_less)
  have q: "?n div 64 < 4" by (rule of_char_div64)
  have r: "?n mod 64 < 64" by simp
  from q r have d: "192 + ?n div 64 < 256" "128 + ?n mod 64 < 256" by linarith+
  consider "unreserved c" | "\<not> unreserved c" "c = CHR 0x20"
    | "\<not> unreserved c" "c \<noteq> CHR 0x20" by blast
  then show ?thesis
  proof cases
    case 1
    then have "c \<noteq> CHR ''+''" "c \<noteq> CHR ''%''" by (auto simp: unreserved_def Let_def)
    with 1 show ?thesis by (simp add: form_char_def)
  next
    case 2
    then show ?thesis by (simp add: form_char_def utf8_def)
  next
    case 3
    then show ?thesis using n d
      by (simp add: form_char_def utf8_def Let_def pct_bytes_pct)
  qed
qed

lemma pct_bytes_form_encode: "pct_bytes (form_encode s) = concat (map utf8 s)"
  by (induction s) (simp_all add: form_encode_def pct_bytes_form_char)

lemma utf8_decode_utf8: "utf8_decode (utf8 c @ bs) = c # utf8_decode bs"
proof -
  let ?n = "of_char c :: nat"
  have n: "?n < 256" by (rule of_char_less)
  show ?thesis
  proof (cases "?n < 128")
    case True
    then show ?thesis by (cases bs) (simp_all add: utf8_def)
  next
    case False
    then have "128 div 64 \<le> ?n div 64" by (intro div_le_mono) simp
    then have b: "194 \<le> 192 + ?n div 64" "192 + ?n div 64 \<le> 195"
      using of_char_div64 [of c] by simp_all
    have m: "(192 + ?n div 64 - 192) * 64 + (128 + ?n mod 64 - 128) = ?n" by simp
    show ?thesis using False b m by (simp add: utf8_def Let_def)
  qed
qed

theorem form_decode_encode [simp]: "form_decode (form_encode s) = s"
  unfolding form_decode_def pct_bytes_form_encode
  by (induction s) (simp_all add: utf8_decode_utf8)

lemma pct_clean_all:
  "list_all (\<lambda>n. CHR ''='' \<notin> set (pct n) \<and> CHR ''&'' \<notin> set (pct n)) [0..<256]"
  by code_simp

lemma pct_clean: "n < 256 \<Longrightarrow> CHR ''='' \<notin> set (pct n) \<and> CHR ''&'' \<notin> set (pct n)"
  using pct_clean_all unfolding list_all_iff by simp

lemma utf8_less: "b \<in> set (utf8 c) \<Longrightarrow> b < 256"
  using of_char_less [of c] of_char_div64 [of c] mod_less_divisor [of 64 "of_char c :: nat"]
  by (auto simp: utf8_def Let_def simp del: mod_less_divisor split: if_splits)

lemma unreserved_clean: "unreserved c \<Longrightarrow> c \<noteq> CHR ''='' \<and> c \<noteq> CHR ''&''"
  by (auto simp: unreserved_def Let_def)

lemma form_char_clean: "CHR ''='' \<notin> set (form_char c) \<and> CHR ''&'' \<notin> set (form_char c)"
proof -
  have "b \<in> set (utf8 c) \<Longrightarrow> CHR ''='' \<notin> set (pct b) \<and> CHR ''&'' \<notin> set (pct b)" for b
    by (rule pct_clean [OF utf8_less])
  then show ?thesis using unreserved_clean [of c] by (auto simp: form_char_def)
qed

lemma form_encode_clean: "CHR ''='' \<notin> set (form_encode s) \<and> CHR ''&'' \<notin> set (form_encode s)"
  using form_char_clean by (auto simp: form_encode_def)

lemma split_on_clean: "d \<notin> set s \<Longrightarrow> split_on d s = [s]"
  by (induction s) auto

lemma split_on_append: "d \<notin> set s \<Longrightarrow> split_on d (s @ d # t) = s # split_on d t"
  by (induction s) auto

lemma parse_pair_encode: "parse_pair (form_encode k @ CHR ''='' # form_encode v) = (k, v)"
proof -
  have k: "\<And>c. c \<in> set (form_encode k) \<Longrightarrow> c \<noteq> CHR ''=''" using form_encode_clean by blast
  then show ?thesis by (simp add: parse_pair_def takeWhile_append dropWhile_append)
qed

lemma split_join_amp:
  "ps \<noteq> [] \<Longrightarrow> split_on (CHR ''&'') (params_to_string ps) =
     map (\<lambda>(k, v). form_encode k @ ''='' @ form_encode v) ps"
proof (induction ps)
  case Nil
  then show ?case by simp
next
  case (Cons p ps)
  obtain k v where p: "p = (k, v)" by (cases p)
  have c: "CHR ''&'' \<notin> set (form_encode k @ CHR ''='' # form_encode v)"
    using form_encode_clean by auto
  show ?case
  proof (cases ps)
    case Nil
    then show ?thesis using c by (simp add: params_to_string_def p split_on_clean)
  next
    case (Cons q qs)
    have j: "params_to_string (p # ps) =
        (form_encode k @ CHR ''='' # form_encode v) @ CHR ''&'' # params_to_string ps"
      by (simp add: params_to_string_def p Cons)
    show ?thesis unfolding j split_on_append [OF c] using Cons.IH Cons by (simp add: p)
  qed
qed

theorem params_parse_to_string: "params_parse (params_to_string ps) = ps"
proof (cases "ps = []")
  case True
  then show ?thesis by (simp add: params_parse_def params_to_string_def)
next
  case False
  have "map parse_pair (filter (\<lambda>x. x \<noteq> [])
      (map (\<lambda>(k, v). form_encode k @ ''='' @ form_encode v) qs)) = qs" for qs :: params
    by (induction qs) (auto simp: parse_pair_encode)
  then show ?thesis by (simp only: params_parse_def split_join_amp [OF False])
qed

lemma params_to_string_Nil [simp]: "params_to_string [] = []"
  by (simp add: params_to_string_def)

lemma params_to_string_eq_Nil [simp]: "params_to_string ps = [] \<longleftrightarrow> ps = []"
  by (metis params_parse_to_string params_to_string_Nil)

lemma params_get_set [simp]:
  "params_get (params_set k v ps) k' = (if k' = k then Some v else params_get ps k')"
proof (induction ps)
  case (Cons p ps)
  have "k' \<noteq> k \<Longrightarrow> map_of (filter (\<lambda>p. fst p \<noteq> k) qs) k' = map_of qs k'" for qs :: params
    by (induction qs) auto
  with Cons show ?case by (cases p) (auto simp: params_get_def)
qed (simp add: params_get_def)

lemma params_get_Nil [simp]: "params_get [] k = None"
  by (simp add: params_get_def)

text \<open>The part of a path after its first question mark, as \<open>location.search\<close> gives it.\<close>

definition query_of :: "string \<Rightarrow> string" where
  "query_of url = drop 1 (dropWhile (\<lambda>c. c \<noteq> CHR ''?'') url)"

lemma query_of_append:
  "CHR ''?'' \<notin> set base \<Longrightarrow> query_of (base @ CHR ''?'' # q) = q"
  by (induction base) (auto simp: query_of_def)

lemma query_of_none: "CHR ''?'' \<notin> set base \<Longrightarrow> query_of base = []"
  by (induction base) (auto simp: query_of_def)

end
