(* ===== verification/Hub_Effects.thy ===== *)
theory Hub_Effects
  imports Hub_Types Js_Url
begin

text \<open>
  The effects of the client. A handler of a component is a function from the component's state to
  a result and the next state; a rejected promise or a thrown exception is \<open>Inl\<close>. The state
  of every component extends \<open>browser\<close>: the two web storages and the log of what the program
  did to its environment (requests, toasts, navigation), oldest first. The environment answers a
  request by a function that is an argument of the handler.

  One run of a handler is one execution of the asynchronous function, with its awaited calls in
  program order. Where the code guards against another run in between (sequence numbers, stop
  flags, generations), the component theories use step relations instead.
\<close>

section \<open>Exceptions and actions\<close>

text \<open>\<open>ApiError\<close> of \<open>api.ts\<close> (code, message, retry-after) and every other \<open>Error\<close>.\<close>

datatype exn = ApiError string string "int option" | JsError string

type_synonym ('s, 'a) act = "'s \<Rightarrow> (exn + 'a) \<times> 's"

definition ret :: "'a \<Rightarrow> ('s, 'a) act" where
  "ret x s = (Inr x, s)"

definition throw :: "exn \<Rightarrow> ('s, 'a) act" where
  "throw e s = (Inl e, s)"

definition await :: "(exn + 'a) \<Rightarrow> ('s, 'a) act" where
  "await r s = (r, s)"

definition bindA :: "('s, 'a) act \<Rightarrow> ('a \<Rightarrow> ('s, 'b) act) \<Rightarrow> ('s, 'b) act" where
  "bindA m f s = (case m s of (Inl e, s') \<Rightarrow> (Inl e, s') | (Inr x, s') \<Rightarrow> f x s')"

definition thenA :: "('s, unit) act \<Rightarrow> ('s, 'b) act \<Rightarrow> ('s, 'b) act" where
  "thenA m k = bindA m (\<lambda>_. k)"

definition tryA :: "('s, 'a) act \<Rightarrow> (exn \<Rightarrow> ('s, 'a) act) \<Rightarrow> ('s, 'a) act" where
  "tryA m h s = (case m s of (Inl e, s') \<Rightarrow> h e s' | (Inr x, s') \<Rightarrow> (Inr x, s'))"

definition finallyA :: "('s, 'a) act \<Rightarrow> ('s \<Rightarrow> 's) \<Rightarrow> ('s, 'a) act" where
  "finallyA m f s = (case m s of (r, s') \<Rightarrow> (r, f s'))"

definition upd :: "('s \<Rightarrow> 's) \<Rightarrow> ('s, unit) act" where
  "upd f s = (Inr (), f s)"

definition getsA :: "('s \<Rightarrow> 'a) \<Rightarrow> ('s, 'a) act" where
  "getsA f s = (Inr (f s), s)"

definition whenA :: "bool \<Rightarrow> ('s, unit) act \<Rightarrow> ('s, unit) act" where
  "whenA b m = (if b then m else ret ())"

fun seqA :: "('s, unit) act list \<Rightarrow> ('s, unit) act" where
  "seqA [] = ret ()"
| "seqA (m # ms) = thenA m (seqA ms)"

lemma ret_run [run_simps]: "ret x s = (Inr x, s)"
  by (simp add: ret_def)

lemma throw_run [run_simps]: "throw e s = (Inl e, s)"
  by (simp add: throw_def)

lemma await_run [run_simps]: "await r s = (r, s)"
  by (simp add: await_def)

lemma bindA_run [run_simps]:
  "bindA m f s = (case m s of (Inl e, s') \<Rightarrow> (Inl e, s') | (Inr x, s') \<Rightarrow> f x s')"
  by (simp add: bindA_def)

lemma thenA_run [run_simps]:
  "thenA m k s = (case m s of (Inl e, s') \<Rightarrow> (Inl e, s') | (Inr x, s') \<Rightarrow> k s')"
  by (simp add: thenA_def bindA_def)

lemma tryA_run [run_simps]:
  "tryA m h s = (case m s of (Inl e, s') \<Rightarrow> h e s' | (Inr x, s') \<Rightarrow> (Inr x, s'))"
  by (simp add: tryA_def)

lemma finallyA_run [run_simps]: "finallyA m f s = (fst (m s), f (snd (m s)))"
  by (simp add: finallyA_def split: prod.splits)

lemma upd_run [run_simps]: "upd f s = (Inr (), f s)"
  by (simp add: upd_def)

lemma getsA_run [run_simps]: "getsA f s = (Inr (f s), s)"
  by (simp add: getsA_def)

lemma whenA_run [run_simps]: "whenA b m s = (if b then m s else (Inr (), s))"
  by (simp add: whenA_def ret_def)

lemma bindA_assoc: "bindA (bindA m f) g = bindA m (\<lambda>x. bindA (f x) g)"
  by (rule ext) (simp add: bindA_def split: prod.splits sum.splits)

section \<open>Preserved facts\<close>

text \<open>
  \<open>keeps P m\<close>: the action keeps \<open>P\<close> whether it returns or throws. The rules below reduce
  it to the primitive updates of a handler.
\<close>

definition keeps :: "('s \<Rightarrow> bool) \<Rightarrow> ('s, 'a) act \<Rightarrow> bool" where
  "keeps P m \<longleftrightarrow> (\<forall>s. P s \<longrightarrow> P (snd (m s)))"

lemma keepsI: "(\<And>s. P s \<Longrightarrow> P (snd (m s))) \<Longrightarrow> keeps P m"
  by (simp add: keeps_def)

lemma keepsD: "keeps P m \<Longrightarrow> P s \<Longrightarrow> P (snd (m s))"
  by (simp add: keeps_def)

lemma keeps_ret [wf_intros]: "keeps P (ret x)"
  by (simp add: keeps_def ret_def)

lemma keeps_throw [wf_intros]: "keeps P (throw e)"
  by (simp add: keeps_def throw_def)

lemma keeps_await [wf_intros]: "keeps P (await r)"
  by (simp add: keeps_def await_def)

lemma keeps_getsA [wf_intros]: "keeps P (getsA f)"
  by (simp add: keeps_def getsA_def)

lemma keeps_upd [wf_intros]: "(\<And>s. P s \<Longrightarrow> P (f s)) \<Longrightarrow> keeps P (upd f)"
  by (simp add: keeps_def upd_def)

lemma keeps_bindA [wf_intros]:
  assumes "keeps P m" and "\<And>x. keeps P (f x)"
  shows "keeps P (bindA m f)"
proof (rule keepsI)
  fix s assume "P s"
  then have m: "P (snd (m s))" by (rule keepsD [OF assms(1)])
  show "P (snd (bindA m f s))"
  proof (cases "m s")
    case (Pair r s')
    then show ?thesis using m keepsD [OF assms(2)] by (cases r) (auto simp: bindA_def)
  qed
qed

lemma keeps_thenA [wf_intros]: "keeps P m \<Longrightarrow> keeps P k \<Longrightarrow> keeps P (thenA m k)"
  unfolding thenA_def by (rule keeps_bindA)

lemma keeps_tryA [wf_intros]:
  assumes "keeps P m" and "\<And>e. keeps P (h e)"
  shows "keeps P (tryA m h)"
proof (rule keepsI)
  fix s assume "P s"
  then have m: "P (snd (m s))" by (rule keepsD [OF assms(1)])
  show "P (snd (tryA m h s))"
  proof (cases "m s")
    case (Pair r s')
    then show ?thesis using m keepsD [OF assms(2)] by (cases r) (auto simp: tryA_def)
  qed
qed

lemma keeps_finallyA [wf_intros]:
  "keeps P m \<Longrightarrow> (\<And>s. P s \<Longrightarrow> P (f s)) \<Longrightarrow> keeps P (finallyA m f)"
  by (auto simp: keeps_def finallyA_run)

lemma keeps_whenA [wf_intros]: "keeps P m \<Longrightarrow> keeps P (whenA b m)"
  by (simp add: keeps_def whenA_run)

section \<open>The browser\<close>

record ingest_pipeline =
  pl_transcribe :: bool
  pl_skill_ids :: "string list"

record nav_state =
  ns_pipeline :: ingest_pipeline
  ns_task :: "task option"

datatype form_part = FormField string string | FormFile string string

text \<open>
  What the program did: a JSON request (method, path under \<open>/api/v1\<close>, body), a multipart
  upload, a toast with its optional id, a navigation (path, replace, router state), a full page
  load, a file download.
\<close>

datatype event =
    EvRequest string string "json option"
  | EvUpload string "form_part list"
  | EvToast exn "string option"
  | EvNavigate string bool "nav_state option"
  | EvLocation string
  | EvDownload string string

record browser =
  local_store :: "string \<rightharpoonup> string"
  session_store :: "string \<rightharpoonup> string"
  events :: "event list"

definition emit :: "event \<Rightarrow> 'z browser_scheme \<Rightarrow> 'z browser_scheme" where
  "emit e s = s\<lparr>events := events s @ [e]\<rparr>"

lemma emit_fields [simp]:
  "events (emit e s) = events s @ [e]" "local_store (emit e s) = local_store s"
  "session_store (emit e s) = session_store s" "browser.more (emit e s) = browser.more s"
  by (simp_all add: emit_def)

text \<open>\<open>await api(path, { method, body })\<close>: logged, then answered by the environment.\<close>

definition api_call ::
  "(string \<Rightarrow> string \<Rightarrow> json option \<Rightarrow> exn + 'r) \<Rightarrow> string \<Rightarrow> string \<Rightarrow> json option
     \<Rightarrow> ('z browser_scheme, 'r) act" where
  "api_call srv mth path body s = (srv mth path body, emit (EvRequest mth path body) s)"

lemma api_call_run [run_simps]:
  "api_call srv mth path body s = (srv mth path body, emit (EvRequest mth path body) s)"
  by (simp add: api_call_def)

lemma keeps_api_call [wf_intros]:
  "(\<And>s. P s \<Longrightarrow> P (emit (EvRequest mth path body) s)) \<Longrightarrow> keeps P (api_call srv mth path body)"
  by (simp add: keeps_def api_call_def)

definition show_error :: "exn \<Rightarrow> ('z browser_scheme, unit) act" where
  "show_error e = upd (emit (EvToast e None))"

definition navigate :: "string \<Rightarrow> bool \<Rightarrow> nav_state option \<Rightarrow> ('z browser_scheme, unit) act" where
  "navigate path repl st = upd (emit (EvNavigate path repl st))"

lemmas effect_defs = show_error_def navigate_def

section \<open>Web storage as an interface\<close>

text \<open>
  The contract of \<open>getItem\<close>, \<open>setItem\<close> and \<open>removeItem\<close>, on any state that holds a storage,
  and, on top of it, of a slot that holds an encoded value.
\<close>

locale kv_store =
  fixes get_item :: "'s \<Rightarrow> string \<Rightarrow> string option"
    and set_item :: "string \<Rightarrow> string \<Rightarrow> 's \<Rightarrow> 's"
    and remove_item :: "string \<Rightarrow> 's \<Rightarrow> 's"
  assumes get_set: "get_item (set_item k v s) k' = (if k' = k then Some v else get_item s k')"
    and get_remove: "get_item (remove_item k s) k' = (if k' = k then None else get_item s k')"
begin

lemma get_set_same: "get_item (set_item k v s) k = Some v"
  by (simp add: get_set)

lemma get_set_other: "k' \<noteq> k \<Longrightarrow> get_item (set_item k v s) k' = get_item s k'"
  by (simp add: get_set)

lemma last_write_wins: "get_item (set_item k v (set_item k u s)) k' = get_item (set_item k v s) k'"
  by (simp add: get_set)

lemma removed: "get_item (remove_item k s) k = None"
  by (simp add: get_remove)

end

locale json_store = kv_store get_item set_item remove_item
  for get_item :: "'s \<Rightarrow> string \<Rightarrow> string option"
    and set_item :: "string \<Rightarrow> string \<Rightarrow> 's \<Rightarrow> 's"
    and remove_item :: "string \<Rightarrow> 's \<Rightarrow> 's" +
  fixes enc :: "json \<Rightarrow> string" and dec :: "string \<Rightarrow> json option" and ok :: "json \<Rightarrow> bool"
  assumes dec_enc: "ok j \<Longrightarrow> dec (enc j) = Some j"
begin

definition read_json :: "string \<Rightarrow> 's \<Rightarrow> json option" where
  "read_json k s = Option.bind (get_item s k) dec"

lemma read_written: "ok j \<Longrightarrow> read_json k (set_item k (enc j) s) = Some j"
  by (simp add: read_json_def get_set dec_enc)

lemma read_other: "k' \<noteq> k \<Longrightarrow> read_json k' (set_item k v s) = read_json k' s"
  by (simp add: read_json_def get_set)

lemma read_removed: "read_json k (remove_item k s) = None"
  by (simp add: read_json_def get_remove)

end

definition local_get :: "'z browser_scheme \<Rightarrow> string \<Rightarrow> string option" where
  "local_get s k = local_store s k"

definition local_set :: "string \<Rightarrow> string \<Rightarrow> 'z browser_scheme \<Rightarrow> 'z browser_scheme" where
  "local_set k v s = s\<lparr>local_store := (local_store s)(k \<mapsto> v)\<rparr>"

definition local_remove :: "string \<Rightarrow> 'z browser_scheme \<Rightarrow> 'z browser_scheme" where
  "local_remove k s = s\<lparr>local_store := (local_store s)(k := None)\<rparr>"

definition session_get :: "'z browser_scheme \<Rightarrow> string \<Rightarrow> string option" where
  "session_get s k = session_store s k"

definition session_set :: "string \<Rightarrow> string \<Rightarrow> 'z browser_scheme \<Rightarrow> 'z browser_scheme" where
  "session_set k v s = s\<lparr>session_store := (session_store s)(k \<mapsto> v)\<rparr>"

definition session_remove :: "string \<Rightarrow> 'z browser_scheme \<Rightarrow> 'z browser_scheme" where
  "session_remove k s = s\<lparr>session_store := (session_store s)(k := None)\<rparr>"

lemmas storage_defs = local_get_def local_set_def local_remove_def
  session_get_def session_set_def session_remove_def

interpretation ls: json_store local_get local_set local_remove json_stringify json_parse json_plain
  by unfold_locales (auto simp: storage_defs json_parse_stringify)

interpretation ss: json_store session_get session_set session_remove
  json_stringify json_parse json_plain
  by unfold_locales (auto simp: storage_defs json_parse_stringify)

lemma storage_frames [simp]:
  "session_get (local_set k v s) k' = session_get s k'"
  "session_get (local_remove k s) k' = session_get s k'"
  "local_get (session_set k v s) k' = local_get s k'"
  "local_get (session_remove k s) k' = local_get s k'"
  "local_get (emit e s) k' = local_get s k'"
  "session_get (emit e s) k' = session_get s k'"
  "events (local_set k v s) = events s" "events (local_remove k s) = events s"
  "events (session_set k v s) = events s" "events (session_remove k s) = events s"
  by (simp_all add: storage_defs)

end
