(* ===== verification/Pipeline.thy ===== *)
theory Pipeline
  imports Hub_Effects
begin

text \<open>
  \<open>web/src/pipeline.ts\<close> and \<open>web/src/toneAnalytics.ts\<close>: the ingest pipeline the user
  configures (transcribe, then at most one summary skill), its copy in local storage, the run of
  the current upload in session storage, and the request bodies built from it.

  \<open>normalizePipeline\<close> and the two loaders filter an array of unknown values with
  \<open>typeof id === 'string' && id.length > 0\<close>; here the array is a list of JSON values until
  \<open>usable_skills\<close> has filtered it.
\<close>

section \<open>The configured pipeline\<close>

definition pipeline_key :: string where
  "pipeline_key = ''idigest-ingest-pipeline''"

definition summarize_skills_key :: string where
  "summarize_skills_key = ''idigest-summarize-skills''"

definition run_key :: string where
  "run_key = ''idigest-ingest-pipeline-run''"

lemmas pipeline_keys = pipeline_key_def summarize_skills_key_def run_key_def

definition mk_pipeline :: "bool \<Rightarrow> string list \<Rightarrow> ingest_pipeline" where
  "mk_pipeline t ids = \<lparr>pl_transcribe = t, pl_skill_ids = ids\<rparr>"

definition default_pipeline :: ingest_pipeline where
  "default_pipeline = mk_pipeline False []"

definition read_skill_ids :: "json \<Rightarrow> json list" where
  "read_skill_ids raw =
     (case json_field raw ''skillIds'' of
        Some (JArr vs) \<Rightarrow> vs
      | _ \<Rightarrow> (case json_field raw ''skill_ids'' of Some (JArr vs) \<Rightarrow> vs | _ \<Rightarrow> []))"

definition usable_skills :: "json list \<Rightarrow> string list" where
  "usable_skills vs = filter (\<lambda>x. x \<noteq> []) (json_strings vs)"

definition normalize_raw :: "bool \<Rightarrow> json list \<Rightarrow> ingest_pipeline" where
  "normalize_raw t ids =
     (if \<not> t then mk_pipeline False [] else mk_pipeline True (take 1 (usable_skills ids)))"

definition normalize_pipeline :: "ingest_pipeline \<Rightarrow> ingest_pipeline" where
  "normalize_pipeline p = normalize_raw (pl_transcribe p) (map JStr (pl_skill_ids p))"

text \<open>\<open>JSON.stringify\<close> of a pipeline.\<close>

definition pipeline_json :: "ingest_pipeline \<Rightarrow> json" where
  "pipeline_json p =
     JObj [(''transcribe'', JBool (pl_transcribe p)), (''skillIds'', str_array (pl_skill_ids p))]"

text \<open>
  The value read back: \<open>JSON.parse\<close> failing and the property access on \<open>null\<close> both end in
  the \<open>catch\<close> branch.
\<close>

definition parsed_object :: "string \<Rightarrow> json option" where
  "parsed_object raw = (case json_parse raw of Some JNull \<Rightarrow> None | r \<Rightarrow> r)"

definition load_pipeline :: "'z browser_scheme \<Rightarrow> ingest_pipeline" where
  "load_pipeline s =
     (case local_get s pipeline_key of
        None \<Rightarrow> default_pipeline
      | Some raw \<Rightarrow>
          if raw = [] then default_pipeline
          else (case parsed_object raw of
                  None \<Rightarrow> default_pipeline
                | Some v \<Rightarrow>
                    normalize_raw (json_field v ''transcribe'' = Some (JBool True)) (read_skill_ids v)))"

definition save_pipeline :: "ingest_pipeline \<Rightarrow> 'z browser_scheme \<Rightarrow> 'z browser_scheme" where
  "save_pipeline p = local_set pipeline_key (json_stringify (pipeline_json (normalize_pipeline p)))"

definition load_summarize_skill_ids :: "'z browser_scheme \<Rightarrow> string list" where
  "load_summarize_skill_ids s =
     (case Option.bind (local_get s summarize_skills_key)
             (\<lambda>raw. if raw = [] then None else json_parse raw) of
        Some (JArr vs) \<Rightarrow> take 1 (usable_skills vs)
      | _ \<Rightarrow> pl_skill_ids (load_pipeline s))"

definition save_summarize_skill_ids :: "string list \<Rightarrow> 'z browser_scheme \<Rightarrow> 'z browser_scheme" where
  "save_summarize_skill_ids ids =
     local_set summarize_skills_key
       (json_stringify (str_array (take 1 (filter (\<lambda>x. x \<noteq> []) ids))))"

section \<open>The run in progress\<close>

definition begin_pipeline_run ::
  "ingest_pipeline option \<Rightarrow> 'z browser_scheme \<Rightarrow> ingest_pipeline \<times> 'z browser_scheme" where
  "begin_pipeline_run p s =
     (let run = normalize_pipeline (nullish p (load_pipeline s)) in
      (run, session_set run_key (json_stringify (pipeline_json run)) s))"

definition begin_summarize_pipeline_run ::
  "string list \<Rightarrow> 'z browser_scheme \<Rightarrow> ingest_pipeline \<times> 'z browser_scheme" where
  "begin_summarize_pipeline_run ids s =
     (let run = mk_pipeline False (take 1 (filter (\<lambda>x. x \<noteq> []) ids)) in
      (run, session_set run_key (json_stringify (pipeline_json run)) s))"

definition load_pipeline_run :: "'z browser_scheme \<Rightarrow> ingest_pipeline option" where
  "load_pipeline_run s =
     (case session_get s run_key of
        None \<Rightarrow> None
      | Some raw \<Rightarrow>
          if raw = [] then None
          else (case parsed_object raw of
                  None \<Rightarrow> None
                | Some v \<Rightarrow>
                    Some (mk_pipeline (json_field v ''transcribe'' = Some (JBool True))
                            (take 1 (usable_skills (read_skill_ids v))))))"

definition end_pipeline_run :: "'z browser_scheme \<Rightarrow> 'z browser_scheme" where
  "end_pipeline_run = session_remove run_key"

definition active_pipeline :: "'z browser_scheme \<Rightarrow> ingest_pipeline" where
  "active_pipeline s = nullish (load_pipeline_run s) (load_pipeline s)"

section \<open>The pipeline of a task\<close>

definition read_task_skill_ids :: "task \<Rightarrow> string list" where
  "read_task_skill_ids t =
     (case task_skill_ids t of Some (JArr vs) \<Rightarrow> usable_skills vs | _ \<Rightarrow> [])"

definition pipeline_for_task :: "task option \<Rightarrow> ingest_pipeline" where
  "pipeline_for_task x =
     (case x of
        None \<Rightarrow> default_pipeline
      | Some t \<Rightarrow>
          if task_type t = ''summarize'' then mk_pipeline False (read_task_skill_ids t)
          else if task_type t = ''transcribe'' then mk_pipeline True (read_task_skill_ids t)
          else if task_type t = ''import'' \<or> task_type t = ''capture''
          then (if task_meta t ''pipeline_transcribe'' \<noteq> Some (JBool True) then mk_pipeline False []
                else mk_pipeline True (read_task_skill_ids t))
          else default_pipeline)"

definition pipeline_for_progress :: "task option \<Rightarrow> 'z browser_scheme \<Rightarrow> ingest_pipeline" where
  "pipeline_for_progress x s = nullish (load_pipeline_run s) (pipeline_for_task x)"

definition pipeline_should_transcribe :: "ingest_pipeline \<Rightarrow> bool" where
  "pipeline_should_transcribe p = pl_transcribe p"

definition pipeline_should_summarize :: "ingest_pipeline \<Rightarrow> bool" where
  "pipeline_should_summarize p \<longleftrightarrow> 0 < length (pl_skill_ids p)"

definition pipeline_nav_state ::
  "ingest_pipeline \<Rightarrow> task option \<Rightarrow> 'z browser_scheme \<Rightarrow> nav_state" where
  "pipeline_nav_state p x s =
     \<lparr>ns_pipeline = nullish (load_pipeline_run s)
        (if 0 < length (pl_skill_ids p) \<and> \<not> pl_transcribe p then p else normalize_pipeline p),
      ns_task = x\<rparr>"

definition initial_task_from_nav :: "nav_state option \<Rightarrow> string option \<Rightarrow> task option" where
  "initial_task_from_nav nav tid =
     (case Option.bind nav ns_task of
        None \<Rightarrow> None
      | Some t \<Rightarrow> if truthy tid \<and> tid = Some (task_id t) then Some t else None)"

section \<open>Request bodies\<close>

definition request_tone :: "me option \<Rightarrow> bool" where
  "request_tone m =
     (case m of
        None \<Rightarrow> False
      | Some me \<Rightarrow>
          (case me_org me of
             None \<Rightarrow> False
           | Some org \<Rightarrow>
               if \<not> tariff_tone_analytics (org_tariff org) then False
               else nullish (user_tone_analytics (me_user me)) True))"

definition tone_analytics_label_key :: "me option \<Rightarrow> string" where
  "tone_analytics_label_key m =
     (if request_tone m then ''library.pipeline.toneOn'' else ''library.pipeline.toneOff'')"

definition skill_fields :: "ingest_pipeline \<Rightarrow> (string \<times> json) list" where
  "skill_fields p =
     (if 0 < length (pl_skill_ids p) then [(''skill_ids'', str_array (pl_skill_ids p))] else [])"

definition transcribe_request ::
  "string \<Rightarrow> ingest_pipeline option \<Rightarrow> me option \<Rightarrow> 'z browser_scheme \<Rightarrow> json" where
  "transcribe_request aid p m s =
     JObj ([(''audio_id'', JStr aid), (''tone'', JBool (request_tone m))]
           @ skill_fields (nullish p (active_pipeline s)))"

definition tag_fields :: "string list \<Rightarrow> (string \<times> json) list" where
  "tag_fields tags = (if 0 < length tags then [(''user_tags'', str_array tags)] else [])"

definition pipeline_fields :: "ingest_pipeline \<Rightarrow> me option \<Rightarrow> (string \<times> json) list" where
  "pipeline_fields p m =
     (if pipeline_should_transcribe p
      then [(''transcribe'', JBool True), (''tone'', JBool (request_tone m))] @ skill_fields p
      else [])"

definition capture_request ::
  "string \<Rightarrow> string \<Rightarrow> ingest_pipeline option \<Rightarrow> me option \<Rightarrow> string list
     \<Rightarrow> 'z browser_scheme \<Rightarrow> json" where
  "capture_request url pin p m tags s =
     JObj ([(''meeting_url'', JStr url), (''pin'', JStr pin)] @ tag_fields tags
           @ pipeline_fields (nullish p (active_pipeline s)) m)"

definition import_request ::
  "string \<Rightarrow> ingest_pipeline option \<Rightarrow> me option \<Rightarrow> string list \<Rightarrow> 'z browser_scheme \<Rightarrow> json" where
  "import_request url p m tags s =
     JObj ([(''url'', JStr url)] @ tag_fields tags @ pipeline_fields (nullish p (active_pipeline s)) m)"

section \<open>Well-formed pipelines\<close>

text \<open>At most one skill, never the empty one, and none without a transcription.\<close>

definition pipeline_wf :: "ingest_pipeline \<Rightarrow> bool" where
  "pipeline_wf p \<longleftrightarrow>
     length (pl_skill_ids p) \<le> 1 \<and> [] \<notin> set (pl_skill_ids p)
       \<and> (pl_transcribe p \<or> pl_skill_ids p = [])"

lemma mk_pipeline_sel [simp]:
  "pl_transcribe (mk_pipeline t ids) = t" "pl_skill_ids (mk_pipeline t ids) = ids"
  by (simp_all add: mk_pipeline_def)

lemma mk_pipeline_eq: "mk_pipeline (pl_transcribe p) (pl_skill_ids p) = p"
  by (simp add: mk_pipeline_def)

lemma usable_map [simp]: "usable_skills (map JStr xs) = filter (\<lambda>x. x \<noteq> []) xs"
  by (simp add: usable_skills_def)

lemma Nil_not_usable [simp]: "[] \<notin> set (usable_skills vs)"
  by (simp add: usable_skills_def)

lemma take_usable: "[] \<notin> set (take n (usable_skills vs))"
  using Nil_not_usable in_set_takeD by metis

lemma filter_take_usable [simp]:
  "filter (\<lambda>x. x \<noteq> []) (take n (usable_skills vs)) = take n (usable_skills vs)"
  using take_usable by (intro filter_True) auto

lemma filter_take_filter [simp]:
  "filter P (take n (filter P xs)) = take n (filter P xs)"
  by (intro filter_True) (auto dest: in_set_takeD)

lemma normalize_raw_wf [wf_intros]: "pipeline_wf (normalize_raw t vs)"
  by (auto simp: normalize_raw_def pipeline_wf_def dest: in_set_takeD)

lemma default_wf [wf_intros]: "pipeline_wf default_pipeline"
  by (simp add: default_pipeline_def pipeline_wf_def)

lemma normalize_wf [wf_intros]: "pipeline_wf (normalize_pipeline p)"
  unfolding normalize_pipeline_def by (rule normalize_raw_wf)

lemma normalize_fix: "pipeline_wf p \<Longrightarrow> normalize_pipeline p = p"
  by (cases "pl_skill_ids p")
     (auto simp: pipeline_wf_def normalize_pipeline_def normalize_raw_def mk_pipeline_def
        usable_skills_def intro!: ingest_pipeline.equality)

lemma normalize_idem [simp]: "normalize_pipeline (normalize_pipeline p) = normalize_pipeline p"
  by (rule normalize_fix [OF normalize_wf])

lemma load_wf [wf_intros]: "pipeline_wf (load_pipeline s)"
  by (auto simp: load_pipeline_def intro: wf_intros split: option.splits)

section \<open>What is stored is what is read\<close>

lemma str_array_not_null [simp]: "json_field v k = Some (str_array xs) \<Longrightarrow> v \<noteq> JNull"
  by auto

lemma pipeline_json_fields [simp]:
  "json_field (pipeline_json p) ''transcribe'' = Some (JBool (pl_transcribe p))"
  "read_skill_ids (pipeline_json p) = map JStr (pl_skill_ids p)"
  by (simp_all add: pipeline_json_def read_skill_ids_def str_array_def)

lemma pipeline_json_plain [simp]: "json_plain (pipeline_json p)"
  by (simp add: pipeline_json_def)

lemma parsed_pipeline [simp]: "parsed_object (json_stringify (pipeline_json p)) = Some (pipeline_json p)"
  by (simp add: parsed_object_def json_parse_stringify) (simp add: pipeline_json_def)

text \<open>The read functions see a slot only through \<open>getItem\<close>.\<close>

lemma load_pipeline_written:
  "load_pipeline (local_set pipeline_key (json_stringify (pipeline_json p)) s) = normalize_pipeline p"
  by (simp add: load_pipeline_def ls.get_set_same normalize_pipeline_def)

lemma load_run_written:
  "load_pipeline_run (session_set run_key (json_stringify (pipeline_json p)) s)
     = Some (mk_pipeline (pl_transcribe p) (take 1 (filter (\<lambda>x. x \<noteq> []) (pl_skill_ids p))))"
  by (simp add: load_pipeline_run_def ss.get_set_same)

lemma load_pipeline_frame:
  "local_get s' pipeline_key = local_get s pipeline_key \<Longrightarrow> load_pipeline s' = load_pipeline s"
  by (simp add: load_pipeline_def)

lemma load_run_frame:
  "session_get s' run_key = session_get s run_key \<Longrightarrow> load_pipeline_run s' = load_pipeline_run s"
  by (simp add: load_pipeline_run_def)

lemma run_of_wf: "pipeline_wf p \<Longrightarrow>
    load_pipeline_run (session_set run_key (json_stringify (pipeline_json p)) s) = Some p"
  by (cases "pl_skill_ids p")
     (auto simp: load_run_written pipeline_wf_def mk_pipeline_def intro!: ingest_pipeline.equality)

section \<open>Properties\<close>

text \<open>C1: Saving a pipeline and loading it again, whatever else the storage holds, gives exactly
  the normalised pipeline: without transcription no skill is kept, with it the first non-empty
  skill id only; saving what was loaded changes nothing more.\<close>

theorem save_load_pipeline:
  "load_pipeline (save_pipeline p s) = normalize_pipeline p
   \<and> load_pipeline (save_pipeline (load_pipeline (save_pipeline p s)) s') = normalize_pipeline p
   \<and> load_pipeline_run (save_pipeline p s) = load_pipeline_run s"
  by (simp add: save_pipeline_def load_pipeline_written load_pipeline_run_def)

text \<open>C2: Whatever text local storage holds under the pipeline key (older formats, other
  values, no JSON at all), the loaded pipeline has at most one skill, never an empty id, and no
  skill without a transcription; the same holds for the skill list of the summarise form.\<close>

theorem load_pipeline_wf:
  "pipeline_wf (load_pipeline s)
   \<and> length (load_summarize_skill_ids s) \<le> 1 \<and> [] \<notin> set (load_summarize_skill_ids s)"
  using load_wf [of s]
  by (auto simp: load_summarize_skill_ids_def pipeline_wf_def take_usable
       split: option.splits json.splits)

text \<open>C3: A run takes precedence from its start to its end. After \<open>beginPipelineRun\<close> the active
  pipeline and the pipeline of the progress display are the normalised run, even when the user saves
  another configuration meanwhile; \<open>endPipelineRun\<close> gives the configured pipeline back and
  the progress display falls back to the task.\<close>

theorem run_precedence:
  assumes "begin_pipeline_run x s = (run, s1)"
  shows "run = normalize_pipeline (nullish x (load_pipeline s))
    \<and> active_pipeline (save_pipeline q s1) = run
    \<and> pipeline_for_progress t (save_pipeline q s1) = run
    \<and> active_pipeline (end_pipeline_run (save_pipeline q s1)) = normalize_pipeline q
    \<and> pipeline_for_progress t (end_pipeline_run s1) = pipeline_for_task t"
proof -
  have run: "run = normalize_pipeline (nullish x (load_pipeline s))"
    using assms by (simp add: begin_pipeline_run_def Let_def)
  have s1: "s1 = session_set run_key (json_stringify (pipeline_json run)) s"
    using assms run by (simp add: begin_pipeline_run_def Let_def)
  have wf: "pipeline_wf run" unfolding run by (rule normalize_wf)
  have r: "load_pipeline_run (save_pipeline q s1) = Some run"
    using run_of_wf [OF wf, of s] unfolding s1 save_pipeline_def
    by (simp add: load_pipeline_run_def)
  have n: "load_pipeline_run (end_pipeline_run u) = None" for u :: "'a browser_scheme"
    by (simp add: load_pipeline_run_def end_pipeline_run_def ss.removed)
  have l: "load_pipeline (end_pipeline_run (save_pipeline q s1)) = normalize_pipeline q"
    by (subst load_pipeline_frame [of _ "save_pipeline q s1"])
       (simp_all add: end_pipeline_run_def save_pipeline_def load_pipeline_written)
  show ?thesis using run r n l by (simp add: active_pipeline_def pipeline_for_progress_def)
qed

theorem run_precedence_witness:
  "let (run, s1) = begin_pipeline_run (Some (mk_pipeline True [''a'', ''b'']))
        \<lparr>local_store = Map.empty, session_store = Map.empty, events = []\<rparr>
   in run = mk_pipeline True [''a''] \<and> active_pipeline (save_pipeline default_pipeline s1) = run"
proof -
  define s :: browser
    where "s = \<lparr>local_store = Map.empty, session_store = Map.empty, events = []\<rparr>"
  obtain run s1 where b: "begin_pipeline_run (Some (mk_pipeline True [''a'', ''b''])) s = (run, s1)"
    by (cases "begin_pipeline_run (Some (mk_pipeline True [''a'', ''b''])) s")
  have "normalize_pipeline (mk_pipeline True [''a'', ''b'']) = mk_pipeline True [''a'']"
    by (simp add: normalize_pipeline_def normalize_raw_def usable_skills_def)
  then show ?thesis using run_precedence [OF b, of default_pipeline] b by (simp add: s_def)
qed

text \<open>C4: The optional fields of an import and of a capture request are exactly those the
  pipeline and the tags ask for: \<open>transcribe\<close> and \<open>tone\<close> only with a transcription,
  \<open>skill_ids\<close> only with a transcription and a skill, \<open>user_tags\<close> only when there are
  tags; \<open>tone\<close> carries the user's choice and is false whenever the tariff has no tone
  analytics. A transcribe request always carries the tone flag.\<close>

theorem request_body_fields:
  "(\<forall>b \<in> {import_request url (Some p) m tags s, capture_request mu pin (Some p) m tags s}.
      json_field b ''transcribe'' = (if pl_transcribe p then Some (JBool True) else None)
      \<and> json_field b ''tone'' = (if pl_transcribe p then Some (JBool (request_tone m)) else None)
      \<and> json_field b ''skill_ids'' =
          (if pl_transcribe p \<and> pl_skill_ids p \<noteq> [] then Some (str_array (pl_skill_ids p)) else None)
      \<and> json_field b ''user_tags'' = (if tags = [] then None else Some (str_array tags)))
   \<and> json_field (import_request url (Some p) m tags s) ''url'' = Some (JStr url)
   \<and> json_field (capture_request mu pin (Some p) m tags s) ''pin'' = Some (JStr pin)
   \<and> json_field (transcribe_request aid (Some p) m s) ''tone'' = Some (JBool (request_tone m))
   \<and> json_field (transcribe_request aid (Some p) m s) ''skill_ids'' =
       (if pl_skill_ids p = [] then None else Some (str_array (pl_skill_ids p)))
   \<and> request_tone m = (\<exists>me o'. m = Some me \<and> me_org me = Some o'
        \<and> tariff_tone_analytics (org_tariff o') \<and> user_tone_analytics (me_user me) \<noteq> Some False)"
  (is "?fields \<and> ?url \<and> ?pin \<and> ?tone \<and> ?skills \<and> ?req")
proof -
  have ?req
    by (auto simp: request_tone_def nullish_def split: option.splits)
  moreover have ?fields ?url ?pin ?tone ?skills
    by (simp_all add: import_request_def capture_request_def transcribe_request_def tag_fields_def
          pipeline_fields_def skill_fields_def pipeline_should_transcribe_def)
  ultimately show ?thesis by iprover
qed

definition blank_browser :: browser where
  "blank_browser = \<lparr>local_store = Map.empty, session_store = Map.empty, events = []\<rparr>"

theorem request_body_fields_witness:
  "json_field (import_request ''https://x/a'' (Some \<lparr>pl_transcribe = True, pl_skill_ids = [''s1'']\<rparr>)
       None [''t''] blank_browser) ''skill_ids'' = Some (str_array [''s1''])
   \<and> json_field (capture_request ''https://x/b'' ''12'' (Some \<lparr>pl_transcribe = False, pl_skill_ids = [''s1'']\<rparr>)
       None [] blank_browser) ''transcribe'' = None"
  using request_body_fields [where url = "''https://x/a''" and tags = "[''t'']" and m = None
      and p = "\<lparr>pl_transcribe = True, pl_skill_ids = [''s1'']\<rparr>" and s = blank_browser]
    request_body_fields [where mu = "''https://x/b''" and pin = "''12''" and tags = "[]" and m = None
      and p = "\<lparr>pl_transcribe = False, pl_skill_ids = [''s1'']\<rparr>" and s = blank_browser]
  by simp

end
