(* ===== verification/Task_Stage.thy ===== *)
theory Task_Stage
  imports Pipeline
begin

text \<open>
  How a task is shown: \<open>web/src/taskStage.ts\<close> (which stage a task is in, its label and its
  badge), the status helpers of \<open>web/src/taskPoll.ts\<close>, the task error texts and the small
  formatters of \<open>web/src/util.tsx\<close>, and the step list of
  \<open>web/src/components/PipelineProgress.tsx\<close>.

  The translation function is an argument \<open>tr\<close>: the text of a key with its interpolated
  values, \<open>None\<close> for a key the dictionary lacks. \<open>tr_or\<close> is \<open>t (key, { defaultValue })\<close>,
  \<open>tr_key\<close> is \<open>t (key)\<close>, which shows the key itself when it is missing.
\<close>

type_synonym translate = "string \<Rightarrow> (string \<times> string) list \<Rightarrow> string option"

definition tr_or :: "translate \<Rightarrow> string \<Rightarrow> (string \<times> string) list \<Rightarrow> string \<Rightarrow> string" where
  "tr_or tr k opts d = nullish (tr k opts) d"

definition tr_key :: "translate \<Rightarrow> string \<Rightarrow> (string \<times> string) list \<Rightarrow> string" where
  "tr_key tr k opts = nullish (tr k opts) k"

section \<open>Stages\<close>

definition hub_wait_stages :: "string list" where
  "hub_wait_stages = [''queued'', ''waiting_engine'', ''queue_full'']"

definition hub_config_stages :: "string list" where
  "hub_config_stages = [''no_matching_worker'']"

definition task_work_stage :: "task \<Rightarrow> string option" where
  "task_work_stage t =
     (if task_type t \<noteq> ''transcribe'' \<and> task_type t \<noteq> ''summarize'' then None
      else if task_status t \<noteq> ''queued'' \<and> task_status t \<noteq> ''running'' then None
      else if truthy (meta_string t ''stage'') then meta_string t ''stage''
      else Some (task_status t))"

definition is_task_missing_worker_for_models :: "task \<Rightarrow> bool" where
  "is_task_missing_worker_for_models t \<longleftrightarrow> task_work_stage t = Some ''no_matching_worker''"

definition is_task_waiting_on_workers :: "task \<Rightarrow> bool" where
  "is_task_waiting_on_workers t =
     (if task_type t \<noteq> ''transcribe'' \<and> task_type t \<noteq> ''summarize'' then False
      else if task_status t = ''queued''
      then (case task_work_stage t of None \<Rightarrow> False | Some st \<Rightarrow> st \<in> set hub_wait_stages)
      else if task_status t = ''running''
      then task_work_stage t = Some ''queued'' \<or> task_work_stage t = Some ''dispatched''
      else False)"

definition is_task_processing_on_worker :: "task \<Rightarrow> bool" where
  "is_task_processing_on_worker t =
     (if task_type t \<noteq> ''transcribe'' \<and> task_type t \<noteq> ''summarize'' then False
      else if task_status t \<noteq> ''running'' then False
      else task_work_stage t = Some ''running'' \<or> task_work_stage t = None)"

definition can_cancel_task :: "task \<Rightarrow> bool" where
  "can_cancel_task t =
     (if task_type t = ''import'' \<or> task_type t = ''capture''
      then task_status t = ''queued'' \<or> task_status t = ''running''
      else task_status t = ''queued'')"

definition capture_stage :: "task \<Rightarrow> string" where
  "capture_stage t =
     (let stage = nullish (meta_string t ''stage'') (task_status t) in
      if meta_string t ''worker_capture_status'' = Some ''success''
         \<and> (stage = ''finalizing'' \<or> stage = ''capturing'' \<or> stage = ''running'')
      then ''downloading'' else stage)"

definition running_label_key :: "task \<Rightarrow> string" where
  "running_label_key t =
     (if task_type t = ''transcribe'' then ''task.pipeline.transcribing''
      else ''task.pipeline.summarizing'')"

definition task_stage_label_key :: "task \<Rightarrow> string option" where
  "task_stage_label_key t =
     (if task_type t = ''import''
      then Some (''task.importStage.'' @ nullish (meta_string t ''stage'') (task_status t))
      else if task_type t = ''capture'' then Some (''task.captureStage.'' @ capture_stage t)
      else if task_type t \<noteq> ''transcribe'' \<and> task_type t \<noteq> ''summarize'' then None
      else if task_status t \<noteq> ''queued'' \<and> task_status t \<noteq> ''running'' then None
      else (let stage = task_work_stage t in
        if task_status t = ''running'' \<and> stage = Some ''running'' then Some (running_label_key t)
        else if task_status t = ''running'' \<and> stage = Some ''queued''
        then Some ''task.workerStage.worker_queue''
        else if task_status t = ''running'' \<and> stage = Some ''dispatched''
        then Some ''task.workerStage.dispatched''
        else if truthy stage
                \<and> (str_or_empty stage \<in> set hub_wait_stages \<or> str_or_empty stage \<in> set hub_config_stages)
        then Some (''task.workerStage.'' @ str_or_empty stage)
        else if task_status t = ''queued'' then Some ''task.workerStage.queued''
        else if task_status t = ''running'' then Some (running_label_key t)
        else None))"

definition none_if_empty :: "string \<Rightarrow> string option" where
  "none_if_empty s = (if s = [] then None else Some s)"

definition task_stage_label :: "task \<Rightarrow> translate \<Rightarrow> string option" where
  "task_stage_label t tr =
     (case task_stage_label_key t of
        None \<Rightarrow> None
      | Some key \<Rightarrow>
          if starts_with key ''task.importStage.'' \<or> starts_with key ''task.captureStage.''
          then none_if_empty (tr_or tr key
                 [(''title'', if truthy (meta_string t ''title'')
                              then '': '' @ str_or_empty (meta_string t ''title'') else [])] [])
          else none_if_empty (tr_or tr key [] []))"

definition task_status_badge_label :: "task \<Rightarrow> translate \<Rightarrow> string" where
  "task_status_badge_label t tr =
     (if task_status t = ''error'' then tr_key tr ''task.status.error'' []
      else if task_status t = ''success'' then tr_key tr ''task.status.success'' []
      else (case task_stage_label t tr of
              Some l \<Rightarrow> l
            | None \<Rightarrow> tr_or tr (''task.status.'' @ task_status t) [] (task_status t)))"

datatype badge_tone = ToneSuccess | ToneWarning | TonePending | ToneMuted

definition task_status_badge_tone :: "task \<Rightarrow> badge_tone" where
  "task_status_badge_tone t =
     (if task_status t = ''success'' then ToneSuccess
      else if task_status t = ''error'' then ToneWarning
      else if task_work_stage t = Some ''no_matching_worker'' then ToneWarning
      else if is_task_waiting_on_workers t then TonePending
      else if task_status t = ''running'' then TonePending
      else ToneMuted)"

section \<open>Status helpers of the poll\<close>

definition default_task_poll_ms :: nat where "default_task_poll_ms = 1500"
definition task_list_idle_poll_ms :: nat where "task_list_idle_poll_ms = 8000"
definition task_list_active_poll_ms :: nat where "task_list_active_poll_ms = 1500"

definition is_active_task_status :: "string \<Rightarrow> bool" where
  "is_active_task_status st \<longleftrightarrow> st = ''queued'' \<or> st = ''running''"

definition is_terminal_task_status :: "string \<Rightarrow> bool" where
  "is_terminal_task_status st \<longleftrightarrow> \<not> is_active_task_status st"

definition follow_up_task_id :: "task \<Rightarrow> string option" where
  "follow_up_task_id t =
     (case task_meta t ''follow_up_task_id'' of
        Some (JStr i) \<Rightarrow> if 0 < length i then Some i else None
      | _ \<Rightarrow> None)"

definition redirect_target :: "task \<Rightarrow> string option" where
  "redirect_target t =
     (if truthy (task_summary_id t) then Some (''/app/summary/'' @ str_or_empty (task_summary_id t))
      else if (task_type t = ''import'' \<or> task_type t = ''capture'') \<and> truthy (task_audio_id t)
      then Some (''/app/audio/'' @ str_or_empty (task_audio_id t))
      else if truthy (task_transcript_id t)
      then Some (''/app/transcript/'' @ str_or_empty (task_transcript_id t))
      else None)"

definition redirect_after_task_success :: "task \<Rightarrow> ('z browser_scheme, unit) act" where
  "redirect_after_task_success t =
     (case redirect_target t of None \<Rightarrow> ret () | Some path \<Rightarrow> navigate path True None)"

section \<open>The steps of the progress display\<close>

datatype pipeline_step_id = StepImport | StepCapture | StepTranscribe | StepSummarize

record pipeline_step =
  step_id :: pipeline_step_id
  step_label_key :: string

datatype step_status = StPending | StWaiting | StActive | StDone

definition mk_step :: "pipeline_step_id \<Rightarrow> string \<Rightarrow> pipeline_step" where
  "mk_step i k = \<lparr>step_id = i, step_label_key = k\<rparr>"

definition pipeline_ingest_step_id :: "task option \<Rightarrow> bool \<Rightarrow> pipeline_step_id option" where
  "pipeline_ingest_step_id x show_import =
     (if map_option task_type x = Some ''capture'' then Some StepCapture
      else if show_import \<or> map_option task_type x = Some ''import'' then Some StepImport
      else None)"

definition build_pipeline_steps ::
  "ingest_pipeline \<Rightarrow> bool \<Rightarrow> task option \<Rightarrow> pipeline_step list" where
  "build_pipeline_steps p show_import x =
     (let ingest = pipeline_ingest_step_id x show_import in
      (if ingest = Some StepCapture then [mk_step StepCapture ''task.type.capture'']
       else if ingest = Some StepImport then [mk_step StepImport ''task.type.import''] else [])
      @ (if pl_transcribe p then [mk_step StepTranscribe ''task.type.transcribe''] else [])
      @ (if 0 < length (pl_skill_ids p) then [mk_step StepSummarize ''task.type.summarize''] else []))"

definition pipeline_current_step_id :: "task \<Rightarrow> pipeline_step_id" where
  "pipeline_current_step_id t =
     (if task_type t = ''capture'' then StepCapture
      else if task_type t = ''import'' then StepImport
      else if task_type t = ''summarize'' then StepSummarize
      else StepTranscribe)"

definition pipeline_step_status ::
  "pipeline_step_id \<Rightarrow> task option \<Rightarrow> pipeline_step list \<Rightarrow> step_status" where
  "pipeline_step_status step x steps =
     (case x of
        None \<Rightarrow> StPending
      | Some t \<Rightarrow>
          (let idx = find_index (\<lambda>s. step_id s = step) steps;
               cur = find_index (\<lambda>s. step_id s = pipeline_current_step_id t) steps in
           if cur < 0 then (if task_status t = ''success'' then StDone else StPending)
           else if idx < cur then StDone
           else if cur < idx then StPending
           else if task_status t = ''success'' then StDone
           else if is_task_waiting_on_workers t then StWaiting
           else if task_status t = ''queued'' \<or> task_status t = ''running''
           then (if task_type t = ''import'' \<or> task_type t = ''capture'' then StActive
                 else if is_task_processing_on_worker t \<or> task_status t = ''running'' then StActive
                 else StWaiting)
           else StPending))"

definition should_show_pipeline_progress ::
  "pipeline_step list \<Rightarrow> bool \<Rightarrow> task option \<Rightarrow> bool" where
  "should_show_pipeline_progress steps in_run x =
     (if length steps = 0 then False
      else if length steps \<le> 1 \<and> \<not> in_run
      then (case x of None \<Rightarrow> False
            | Some t \<Rightarrow> task_status t = ''queued'' \<or> task_status t = ''running'')
      else True)"

text \<open>
  The component: \<open>showImport\<close> is its state, set for good by the effect once the task is an
  import or a capture; the rendered list pairs each step with its status.
\<close>

definition progress_effect :: "task option \<Rightarrow> bool \<Rightarrow> bool" where
  "progress_effect x show_import =
     (show_import \<or> map_option task_type x = Some ''import'' \<or> map_option task_type x = Some ''capture'')"

definition pipeline_progress ::
  "task option \<Rightarrow> bool \<Rightarrow> 'z browser_scheme \<Rightarrow> (pipeline_step_id \<times> string \<times> step_status) list option" where
  "pipeline_progress x show_import s =
     (let steps = build_pipeline_steps (pipeline_for_progress x s) show_import x in
      if \<not> should_show_pipeline_progress steps (load_pipeline_run s \<noteq> None) x then None
      else Some (map (\<lambda>st. (step_id st, step_label_key st,
                           pipeline_step_status (step_id st) x steps)) steps))"

section \<open>Formatters and error texts of \<open>util.tsx\<close>\<close>

definition json_dirty :: "json \<Rightarrow> json \<Rightarrow> bool" where
  "json_dirty current saved \<longleftrightarrow> json_stringify current \<noteq> json_stringify saved"

text \<open>The ellipsis (one code unit, U+2026) is the argument \<open>dots\<close>.\<close>

definition truncate_label :: "char \<Rightarrow> string \<Rightarrow> nat \<Rightarrow> string" where
  "truncate_label dots txt max_len =
     (let v = trim txt in
      if length v \<le> max_len then v else take (max 1 (max_len - 1)) v @ [dots])"

text \<open>Seconds: \<open>None\<close> stands for what \<open>Number\<close> turns into NaN.\<close>

definition fmt_media_time :: "rat option \<Rightarrow> string" where
  "fmt_media_time sec =
     (let total = nat (max 0 \<lfloor>nullish sec 0\<rfloor>);
          h = total div 3600; m = (total mod 3600) div 60; s = total mod 60;
          pad = (\<lambda>n. pad2 (nat_str n)) in
      if 0 < h then nat_str h @ '':'' @ pad m @ '':'' @ pad s else pad m @ '':'' @ pad s)"

definition js_round :: "rat \<Rightarrow> int" where
  "js_round x = \<lfloor>x + 1 / 2\<rfloor>"

text \<open>The key and the interpolated values of the three duration texts.\<close>

definition format_audio_time :: "rat option \<Rightarrow> string \<times> (string \<times> nat) list" where
  "format_audio_time sec =
     (let total = nat (max 0 (js_round (nullish sec 0)));
          h = total div 3600; m = (total mod 3600) div 60; s = total mod 60 in
      if 0 < h then (''instance.durationHms'', [(''h'', h), (''m'', m), (''s'', s)])
      else if 0 < m then (''instance.durationMs'', [(''m'', m), (''s'', s)])
      else (''instance.durationS'', [(''s'', s)]))"

text \<open>\<open>(n / u).toFixed (n % u === 0 ? 0 : 1)\<close>: half up, exact because \<open>u\<close> is a power of two.\<close>

definition to_fixed_unit :: "nat \<Rightarrow> nat \<Rightarrow> string" where
  "to_fixed_unit n u =
     (if n mod u = 0 then nat_str (n div u)
      else (let tenths = (20 * n + u) div (2 * u) in
            nat_str (tenths div 10) @ ''.'' @ nat_str (tenths mod 10)))"

definition format_bytes :: "int \<Rightarrow> string" where
  "format_bytes bytes =
     (let n = nat (max 0 bytes) in
      if n < 1024 then nat_str n @ '' B''
      else if n < 1024 * 1024 then nat_str ((2 * n + 1024) div 2048) @ '' KB''
      else if n < 1024 * 1024 * 1024 then to_fixed_unit n (1024 * 1024) @ '' MB''
      else to_fixed_unit n (1024 * 1024 * 1024) @ '' GB'')"

definition non_retriable_task_errors :: "string list" where
  "non_retriable_task_errors =
     [''canceled'', ''source_deleted'', ''text_too_long'', ''payload_too_large'', ''invalid_file'',
      ''invalid_url'', ''proxy_unavailable'']"

definition task_is_retriable :: "task \<Rightarrow> bool" where
  "task_is_retriable t \<longleftrightarrow>
     task_status t = ''error'' \<and> truthy (task_error t)
       \<and> str_or_empty (task_error t) \<notin> set non_retriable_task_errors"

text \<open>\<open>typeof x === 'number' && x > 0 ? x : null\<close>; the sizes are whole numbers of bytes.\<close>

fun positive_number :: "json option \<Rightarrow> int option" where
  "positive_number (Some (JNum n)) = (if 0 < n then Some n else None)"
| "positive_number _ = None"

definition payload_limit :: "task \<Rightarrow> int option" where
  "payload_limit t =
     (case task_max_upload_bytes t of
        Some n \<Rightarrow> if 0 < n then Some n else positive_number (task_meta t ''max_bytes'')
      | None \<Rightarrow> positive_number (task_meta t ''max_bytes''))"

definition task_error_message :: "task \<Rightarrow> translate \<Rightarrow> string option" where
  "task_error_message t tr =
     (case task_error t of
        None \<Rightarrow> None
      | Some code \<Rightarrow>
          let fallback = or_default (Some (tr_or tr (''errors.'' @ code) [] [])) (tr_key tr ''task.failed'' []) in
          Some
           (if code = ''video_unavailable'' \<and> meta_string t ''reason'' = Some ''blocked_403''
            then tr_key tr ''task.blocked403'' []
            else if code = ''video_unavailable'' \<and> meta_string t ''reason'' = Some ''proxy_misconfigured''
            then tr_key tr ''task.proxyMisconfigured'' []
            else if code = ''unsupported_host''
            then (if meta_string t ''reason'' = Some ''disabled_by_admin'' \<and> meta_string t ''platform'' \<noteq> None
                  then tr_key tr ''task.unsupportedHostAdmin''
                         [(''platform'', str_or_empty (meta_string t ''platform''))]
                  else tr_key tr ''task.unsupportedHostUnknown''
                         [(''host'', nullish (meta_string t ''host'')
                                       (str_or_empty (meta_string t ''platform'')))])
            else if code = ''payload_too_large''
            then (case payload_limit t of
                    None \<Rightarrow> fallback
                  | Some l \<Rightarrow>
                      (case positive_number (task_meta t ''bytes'') of
                         Some sz \<Rightarrow> tr_key tr ''task.payloadTooLargeWithSize''
                                     [(''limit'', format_bytes l), (''size'', format_bytes sz)]
                       | None \<Rightarrow> tr_key tr ''task.payloadTooLargeLimit'' [(''limit'', format_bytes l)]))
            else fallback))"

definition task_error_detail :: "task \<Rightarrow> string option" where
  "task_error_detail t =
     (case meta_string t ''error_detail'' of
        None \<Rightarrow> None
      | Some d \<Rightarrow> if trim d \<noteq> [] then Some (trim d) else None)"

definition task_error_detail_brief :: "task \<Rightarrow> nat \<Rightarrow> string option" where
  "task_error_detail_brief t max_len =
     (case task_error_detail t of
        None \<Rightarrow> None
      | Some d \<Rightarrow> if length d \<le> max_len then Some d else Some (take (max_len - 3) d @ ''...''))"

text \<open>\<open>errorText\<close>: the translation of the code, the generic text when the key comes back.\<close>

definition error_text :: "exn \<Rightarrow> translate \<Rightarrow> string" where
  "error_text e tr =
     (case e of
        ApiError code msg _ \<Rightarrow>
          if msg \<noteq> [] then msg
          else (let key = ''errors.'' @ code; translated = tr_key tr key [] in
                if translated = key then tr_key tr ''errors.generic'' [] else translated)
      | JsError msg \<Rightarrow> if msg \<noteq> [] then msg else tr_key tr ''errors.generic'' [])"

section \<open>Badges of \<open>util.tsx\<close>\<close>

datatype hub_badge =
    BadgeSharedBy string | BadgeSharedWith string | BadgeSharedWithCount nat
  | BadgeYouShared | BadgeHidden | BadgeEdited

definition share_names :: "'z share_badge_scheme \<Rightarrow> string" where
  "share_names item =
     (case sb_shares item of
        None \<Rightarrow> []
      | Some xs \<Rightarrow> join '', '' (map (\<lambda>x. or_default (Some (share_display_name x)) (share_email x)) xs))"

definition shared_with_badge :: "'z share_badge_scheme \<Rightarrow> hub_badge option" where
  "shared_with_badge item =
     (if share_names item \<noteq> [] then Some (BadgeSharedWith (share_names item))
      else (case sb_shared_with item of
              None \<Rightarrow> None
            | Some xs \<Rightarrow> if length xs = 0 then None else Some (BadgeSharedWithCount (length xs))))"

definition share_badges :: "'z share_badge_scheme \<Rightarrow> bool \<Rightarrow> hub_badge list" where
  "share_badges item show_hidden =
     (if sb_share_kind item = Some ''incoming'' \<and> truthy (sb_shared_by item)
      then [BadgeSharedBy (str_or_empty (sb_shared_by item))] else [])
     @ (if sb_share_kind item = Some ''outgoing''
        then (case shared_with_badge item of Some b \<Rightarrow> [b] | None \<Rightarrow> [BadgeYouShared]) else [])
     @ (if show_hidden \<and> sb_hidden item = Some True then [BadgeHidden] else [])
     @ (if sb_edited item = Some True then [BadgeEdited] else [])"

definition user_tag_badges :: "user_tag list option \<Rightarrow> nat \<Rightarrow> (string list \<times> nat) option" where
  "user_tag_badges tags mx =
     (case tags of
        None \<Rightarrow> None
      | Some ts \<Rightarrow>
          if length ts = 0 then None
          else Some (map tag_name (take mx ts), length ts - length (take mx ts)))"

section \<open>Lemmas\<close>

lemmas stage_defs = task_work_stage_def is_task_missing_worker_for_models_def
  is_task_waiting_on_workers_def is_task_processing_on_worker_def

lemma work_stage_none:
  "task_work_stage t = None \<longleftrightarrow>
     \<not> (task_type t \<in> {''transcribe'', ''summarize''} \<and> is_active_task_status (task_status t))"
  by (auto simp: task_work_stage_def is_active_task_status_def truthy_def split: option.splits)

lemma waiting_stage:
  "is_task_waiting_on_workers t \<Longrightarrow>
     task_work_stage t \<in> Some ` {''queued'', ''waiting_engine'', ''queue_full'', ''dispatched''}"
  by (auto simp: is_task_waiting_on_workers_def hub_wait_stages_def split: if_splits option.splits)

lemma processing_stage:
  "is_task_processing_on_worker t \<Longrightarrow> task_work_stage t = Some ''running''"
  by (auto simp: is_task_processing_on_worker_def work_stage_none is_active_task_status_def
      split: if_splits)

lemma status_distinct:
  "task_status t = ''success'' \<or> task_status t = ''error'' \<Longrightarrow> task_work_stage t = None"
  by (auto simp: work_stage_none is_active_task_status_def)

definition worker_label_keys :: "string list" where
  "worker_label_keys =
     [''task.pipeline.transcribing'', ''task.pipeline.summarizing'', ''task.workerStage.worker_queue'',
      ''task.workerStage.dispatched'', ''task.workerStage.queued'', ''task.workerStage.waiting_engine'',
      ''task.workerStage.queue_full'', ''task.workerStage.no_matching_worker'']"

lemma set_option_if:
  "(P \<Longrightarrow> set_option x \<subseteq> S) \<Longrightarrow> (\<not> P \<Longrightarrow> set_option y \<subseteq> S)
     \<Longrightarrow> set_option (if P then x else y) \<subseteq> S"
  by simp

lemma running_keys: "running_label_key t \<in> set worker_label_keys"
  by (simp add: running_label_key_def worker_label_keys_def)

lemma worker_label_keys_complete:
  assumes "task_type t \<in> {''transcribe'', ''summarize''}"
  shows "set_option (task_stage_label_key t) \<subseteq> set worker_label_keys"
  unfolding task_stage_label_key_def Let_def
  apply (intro set_option_if)
  using assms apply (simp_all add: running_keys)
  apply (simp_all add: worker_label_keys_def)
  apply (auto simp: hub_wait_stages_def hub_config_stages_def)
  done

lemma if_not_none:
  "(P \<Longrightarrow> x \<noteq> None) \<Longrightarrow> (\<not> P \<Longrightarrow> y \<noteq> None) \<Longrightarrow> (if P then x else y) \<noteq> None"
  by simp

lemma worker_label_key_active:
  assumes "task_type t \<in> {''transcribe'', ''summarize''}"
  shows "task_stage_label_key t \<noteq> None \<longleftrightarrow> is_active_task_status (task_status t)"
proof
  assume "is_active_task_status (task_status t)"
  then show "task_stage_label_key t \<noteq> None"
    using assms unfolding task_stage_label_key_def Let_def is_active_task_status_def
    by (intro if_not_none) simp_all
next
  have n: "task_type t \<noteq> ''import'' \<and> task_type t \<noteq> ''capture''" using assms by auto
  assume "task_stage_label_key t \<noteq> None"
  then show "is_active_task_status (task_status t)"
    using assms n unfolding task_stage_label_key_def is_active_task_status_def
    by (metis (no_types, lifting))
qed

section \<open>Properties\<close>

text \<open>C5: Waiting for a worker, being processed by one and lacking one for the chosen models
  exclude each other. The badge shows a warning exactly for failed tasks and tasks without a matching
  worker, is pending exactly when the task waits or runs (and has a worker), and shows success
  exactly for finished tasks.\<close>

theorem task_phase_exclusive:
  "\<not> (is_task_waiting_on_workers t \<and> is_task_processing_on_worker t)
   \<and> \<not> (is_task_waiting_on_workers t \<and> is_task_missing_worker_for_models t)
   \<and> \<not> (is_task_processing_on_worker t \<and> is_task_missing_worker_for_models t)
   \<and> (task_status_badge_tone t = ToneSuccess \<longleftrightarrow> task_status t = ''success'')
   \<and> (task_status_badge_tone t = ToneWarning \<longleftrightarrow>
        task_status t = ''error'' \<or> is_task_missing_worker_for_models t)
   \<and> (task_status_badge_tone t = TonePending \<longleftrightarrow>
        is_task_waiting_on_workers t
        \<or> task_status t = ''running'' \<and> \<not> is_task_missing_worker_for_models t)"
proof -
  have w: "is_task_waiting_on_workers t \<Longrightarrow> task_work_stage t \<noteq> Some ''running''
      \<and> task_work_stage t \<noteq> Some ''no_matching_worker'' \<and> task_work_stage t \<noteq> None"
    using waiting_stage [of t] by auto
  show ?thesis
    using w processing_stage [of t] status_distinct [of t]
    by (auto simp: task_status_badge_tone_def is_task_missing_worker_for_models_def)
qed

text \<open>A transcribe or summarise task has a stage label exactly while it is queued or
  running, whatever stage text the backend sends, and the label is one of eight fixed keys, so an
  unknown stage never reaches the user.\<close>

theorem worker_stage_label_total:
  assumes "task_type t \<in> {''transcribe'', ''summarize''}"
  shows "(task_stage_label_key t \<noteq> None \<longleftrightarrow> is_active_task_status (task_status t))
    \<and> set_option (task_stage_label_key t) \<subseteq> set worker_label_keys
    \<and> (is_task_processing_on_worker t \<longleftrightarrow>
         task_status t = ''running'' \<and> task_work_stage t = Some ''running'')"
proof -
  have k: "task_stage_label_key t \<noteq> None \<longleftrightarrow> is_active_task_status (task_status t)"
    by (rule worker_label_key_active [OF assms])
  have s: "set_option (task_stage_label_key t) \<subseteq> set worker_label_keys"
    by (rule worker_label_keys_complete [OF assms])
  have p: "is_task_processing_on_worker t \<longleftrightarrow>
         task_status t = ''running'' \<and> task_work_stage t = Some ''running''"
    using assms by (auto simp: is_task_processing_on_worker_def work_stage_none
        is_active_task_status_def)
  from k s p show ?thesis by blast
qed

definition example_task :: "string \<Rightarrow> string \<Rightarrow> task" where
  "example_task ty st =
     \<lparr>task_id = ''t1'', task_type = ty, task_status = st, task_meta = Map.empty,
      task_max_upload_bytes = None, task_transcript_id = None, task_summary_id = None,
      task_error = None, task_org_id = None, task_user_id = None, task_audio_id = None,
      task_source_transcript_id = None, task_created_at = None, task_updated_at = None,
      task_owner_email = None, task_org_name = None, task_audio_filename = None,
      task_skill_ids = None\<rparr>"

theorem worker_stage_label_total_witness:
  "task_stage_label_key (example_task ''transcribe'' ''queued'') \<noteq> None
   \<and> set_option (task_stage_label_key (example_task ''transcribe'' ''queued'')) \<subseteq> set worker_label_keys"
  using worker_stage_label_total [of "example_task ''transcribe'' ''queued''"]
  by (simp add: example_task_def is_active_task_status_def)

section \<open>The order of the steps\<close>

text \<open>The step lists are the sublists of three positions.\<close>

lemma build_step_ids:
  "map step_id (build_pipeline_steps p si x) =
     (if pipeline_ingest_step_id x si = Some StepCapture then [StepCapture]
      else if pipeline_ingest_step_id x si = Some StepImport then [StepImport] else [])
     @ (if pl_transcribe p then [StepTranscribe] else [])
     @ (if pl_skill_ids p = [] then [] else [StepSummarize])"
  by (simp add: build_pipeline_steps_def mk_step_def Let_def)

lemma build_steps_distinct: "distinct (map step_id (build_pipeline_steps p si x))"
  unfolding build_step_ids by simp

lemma build_steps_sorted:
  "sorted_wrt (\<lambda>a b. b \<noteq> StepImport \<and> b \<noteq> StepCapture \<and> a \<noteq> StepSummarize)
     (map step_id (build_pipeline_steps p si x))"
  unfolding build_step_ids by simp

lemma find_index_ids:
  "find_index (\<lambda>s. step_id s = i) steps = find_index (\<lambda>j. j = i) (map step_id steps)"
  by (induction steps) (auto simp: Let_def)

text \<open>The status of the current step of a task that is not finished.\<close>

definition own_status :: "task \<Rightarrow> step_status" where
  "own_status t =
     (if task_status t = ''success'' then StDone
      else if is_task_waiting_on_workers t then StWaiting
      else if task_status t = ''queued'' \<or> task_status t = ''running''
      then (if task_type t = ''import'' \<or> task_type t = ''capture'' then StActive
            else if is_task_processing_on_worker t \<or> task_status t = ''running'' then StActive
            else StWaiting)
      else StPending)"

lemma step_status_alt:
  "pipeline_step_status i (Some t) steps =
     (let idx = find_index (\<lambda>j. j = i) (map step_id steps);
          cur = find_index (\<lambda>j. j = pipeline_current_step_id t) (map step_id steps) in
      if cur < 0 then (if task_status t = ''success'' then StDone else StPending)
      else if idx < cur then StDone else if cur < idx then StPending else own_status t)"
  by (simp add: pipeline_step_status_def own_status_def find_index_ids Let_def)

lemma find_index_nth:
  "distinct xs \<Longrightarrow> i < length xs \<Longrightarrow> find_index (\<lambda>j. j = xs ! i) xs = int i"
proof (induction xs arbitrary: i)
  case (Cons a xs)
  then show ?case by (cases i) (auto simp: Let_def)
qed simp

lemma statuses_split:
  assumes d: "distinct (map step_id steps)"
    and n: "n < length steps" and c: "step_id (steps ! n) = pipeline_current_step_id t"
  shows "map (\<lambda>s. pipeline_step_status (step_id s) (Some t) steps) steps
    = replicate n StDone @ own_status t # replicate (length steps - n - 1) StPending"
proof (rule nth_equalityI)
  show "length (map (\<lambda>s. pipeline_step_status (step_id s) (Some t) steps) steps)
    = length (replicate n StDone @ own_status t # replicate (length steps - n - 1) StPending)"
    using n by simp
next
  fix i
  assume "i < length (map (\<lambda>s. pipeline_step_status (step_id s) (Some t) steps) steps)"
  then have i: "i < length steps" by simp
  have cur: "find_index (\<lambda>j. j = pipeline_current_step_id t) (map step_id steps) = int n"
    using find_index_nth [OF d, of n] n c by simp
  have idx: "find_index (\<lambda>j. j = step_id (steps ! i)) (map step_id steps) = int i"
    using find_index_nth [OF d, of i] i by simp
  show "map (\<lambda>s. pipeline_step_status (step_id s) (Some t) steps) steps ! i
    = (replicate n StDone @ own_status t # replicate (length steps - n - 1) StPending) ! i"
    using i n by (auto simp: step_status_alt cur idx nth_append nth_Cons split: nat.split)
qed

lemma statuses_absent:
  assumes "pipeline_current_step_id t \<notin> set (map step_id steps)"
  shows "map (\<lambda>s. pipeline_step_status (step_id s) (Some t) steps) steps
    = replicate (length steps) (if task_status t = ''success'' then StDone else StPending)"
proof -
  have "find_index (\<lambda>j. j = pipeline_current_step_id t) (map step_id steps) < 0"
    using assms unfolding find_index_none by blast
  then show ?thesis by (simp add: step_status_alt Let_def map_replicate_const)
qed

lemma step_statuses_shape:
  assumes d: "distinct (map step_id steps)"
  shows "\<exists>k mid m. map (\<lambda>s. pipeline_step_status (step_id s) (Some t) steps) steps
      = replicate k StDone @ mid @ replicate m StPending
      \<and> length mid \<le> 1 \<and> set mid \<subseteq> {StWaiting, StActive}
      \<and> \<not> (mid \<noteq> [] \<and> task_status t = ''success'')" (is "\<exists>k mid m. ?st = _ \<and> _")
proof (cases "pipeline_current_step_id t \<in> set (map step_id steps)")
  case True
  then obtain n where n: "n < length steps" "step_id (steps ! n) = pipeline_current_step_id t"
    by (auto simp: in_set_conv_nth)
  define m where "m = length steps - n - 1"
  have st: "?st = replicate n StDone @ own_status t # replicate m StPending"
    unfolding m_def by (rule statuses_split [OF d n])
  have s: "own_status t \<noteq> StDone \<Longrightarrow> task_status t \<noteq> ''success''"
    by (auto simp: own_status_def)
  have running: ?thesis if "own_status t \<in> {StWaiting, StActive}"
  proof (intro exI conjI)
    show "?st = replicate n StDone @ [own_status t] @ replicate m StPending" using st by simp
    show "\<not> ([own_status t] \<noteq> [] \<and> task_status t = ''success'')" using s that by auto
  qed (use that in auto)
  show ?thesis
  proof (cases "own_status t")
    case StDone
    then have "?st = replicate (Suc n) StDone @ [] @ replicate m StPending"
      using st by (simp add: replicate_append_same [symmetric])
    then show ?thesis by (intro exI [of _ "Suc n"] exI [of _ "[]"] exI [of _ m]) simp
  next
    case StPending
    then have "?st = replicate n StDone @ [] @ replicate (Suc m) StPending" using st by simp
    then show ?thesis by (intro exI [of _ n] exI [of _ "[]"] exI [of _ "Suc m"]) simp
  qed (use running in auto)
next
  case False
  define m where "m = length steps"
  have st: "?st = replicate m (if task_status t = ''success'' then StDone else StPending)"
    unfolding m_def by (rule statuses_absent [OF False])
  show ?thesis
  proof (cases "task_status t = ''success''")
    case True
    then show ?thesis using st by (intro exI [of _ m] exI [of _ "[]"] exI [of _ 0]) simp
  next
    case False
    then show ?thesis using st by (intro exI [of _ 0] exI [of _ "[]"] exI [of _ m]) simp
  qed
qed

text \<open>C7: The steps of the progress display are distinct and in pipeline order, and for a
  given task their statuses read from left to right: finished steps, then at most one step in
  progress, then steps to come. A finished task has no step in progress.\<close>

theorem progress_steps_ordered:
  "distinct (map step_id (build_pipeline_steps p si x))
   \<and> sorted_wrt (\<lambda>a b. b \<noteq> StepImport \<and> b \<noteq> StepCapture \<and> a \<noteq> StepSummarize)
       (map step_id (build_pipeline_steps p si x))
   \<and> (\<exists>k mid m. map (\<lambda>s. pipeline_step_status (step_id s) (Some t) (build_pipeline_steps p si x))
                 (build_pipeline_steps p si x)
              = replicate k StDone @ mid @ replicate m StPending
        \<and> length mid \<le> 1 \<and> set mid \<subseteq> {StWaiting, StActive}
        \<and> \<not> (mid \<noteq> [] \<and> task_status t = ''success''))"
proof -
  note d = build_steps_distinct [of p si x]
  from step_statuses_shape [OF d, of t] d build_steps_sorted [of p si x] show ?thesis by iprover
qed

section \<open>Clock texts\<close>

lemma digit_not_colon: "is_digit c \<Longrightarrow> c \<noteq> CHR '':''"
  by (auto simp: is_digit_def digits_def)

lemma colon_free: "CHR '':'' \<notin> set (nat_str n)" "CHR '':'' \<notin> set (pad2 (nat_str n))"
  using nat_str_digits [of n] digit_not_colon by (auto simp: pad2_def)

lemma digit_val_zero [simp]: "digit_val (CHR ''0'') = 0"
  by (simp add: digit_val_def)

lemma parse_digits_zeros: "parse_digits (replicate k (CHR ''0'') @ s) = parse_digits s"
  by (induction k) (simp_all add: parse_digits_def)

lemma parse_pad2 [simp]: "parse_digits (pad2 (nat_str n)) = n"
  by (simp add: pad2_def parse_digits_zeros)

lemma length_nat_str: "n < 100 \<Longrightarrow> length (nat_str n) \<le> 2"
  by (simp add: nat_str.simps [of n] nat_str.simps [of "n div 10"]) presburger

lemma length_pad2: "n < 100 \<Longrightarrow> length (pad2 (nat_str n)) = 2"
  using length_nat_str [of n] by (simp add: pad2_def)

definition clock_seconds :: "string \<Rightarrow> nat" where
  "clock_seconds s = foldl (\<lambda>a x. 60 * a + parse_digits x) 0 (split_on (CHR '':'') s)"

lemma clock_decompose: "60 * (60 * (n div 3600) + n mod 3600 div 60) + n mod 60 = (n::nat)"
proof -
  have "n div 3600 = n div 60 div 60" by (simp add: div_mult2_eq [symmetric])
  moreover have "n mod 3600 div 60 = n div 60 mod 60"
    using mod_mult2_eq [of n 60 60] by simp
  ultimately show ?thesis by (metis mult.commute div_mult_mod_eq)
qed

text \<open>C8: The clock text of a position in a recording loses nothing but the fraction: reading
  its fields in base 60 gives the whole seconds back (0 for a negative or missing value), the minutes
  and seconds fields have two digits, and the hour field is there exactly from one hour on.\<close>

theorem fmt_media_time_reads_back:
  "clock_seconds (fmt_media_time sec) = nat \<lfloor>nullish sec 0\<rfloor>
   \<and> (length (split_on (CHR '':'') (fmt_media_time sec)) = 3 \<longleftrightarrow> 3600 \<le> \<lfloor>nullish sec 0\<rfloor>)
   \<and> list_all (\<lambda>f. length f = 2 \<and> parse_digits f < 60)
       (rev (take 2 (rev (split_on (CHR '':'') (fmt_media_time sec)))))"
proof -
  define n where "n = nat \<lfloor>nullish sec 0\<rfloor>"
  let ?h = "n div 3600" let ?m = "n mod 3600 div 60" let ?s = "n mod 60"
  have m: "?m < 60" and s: "?s < 60" by (simp_all add: less_mult_imp_div_less)
  have f: "fmt_media_time sec =
      (if 0 < ?h then nat_str ?h @ '':'' @ pad2 (nat_str ?m) @ '':'' @ pad2 (nat_str ?s)
       else pad2 (nat_str ?m) @ '':'' @ pad2 (nat_str ?s))"
    by (simp add: fmt_media_time_def n_def Let_def max_def)
  then have sp: "split_on (CHR '':'') (fmt_media_time sec) =
      (if 0 < ?h then [nat_str ?h] else []) @ [pad2 (nat_str ?m), pad2 (nat_str ?s)]"
    by (simp add: split_on_append split_on_clean colon_free)
  have h: "0 < ?h \<longleftrightarrow> 3600 \<le> \<lfloor>nullish sec 0\<rfloor>"
    unfolding n_def div_greater_zero_iff by linarith
  have v: "clock_seconds (fmt_media_time sec) = n"
    using clock_decompose [of n] by (simp add: clock_seconds_def sp)
  show ?thesis unfolding v unfolding sp using m s h
    by (simp add: length_pad2 n_def [symmetric])
qed

lemma truncate_label_bound:
  "length (truncate_label dots txt n) \<le> max 2 n
   \<and> take (n - 1) (truncate_label dots txt n) = take (n - 1) (trim txt)"
  by (auto simp: truncate_label_def Let_def)

end
