(* ===== verification/Routes.thy ===== *)
theory Routes
  imports Hub_Effects
begin

text \<open>
  Where the client sends its user: \<open>web/src/routes.ts\<close> (tabs, start routes, the paths that
  interrupt a sign-in), the tab tables of \<open>pages/instance/constants.ts\<close> and
  \<open>pages/security/constants.ts\<close>, the route table and the gate of \<open>App.tsx\<close>, and the
  redirecting guards at the top of the pages.
\<close>

section \<open>Tabs and their paths\<close>

definition library_tabs :: "string list" where
  "library_tabs = [''summaries'', ''transcripts'', ''audio'', ''links'', ''skills'']"

definition library_first_tab :: string where
  "library_first_tab = library_tabs ! 0"

definition library_path :: "string \<Rightarrow> string option \<Rightarrow> string option \<Rightarrow> string" where
  "library_path tab source tag =
     (let base = ''/app/library/'' @ tab;
          p1 = (if truthy source then params_set ''source'' (str_or_empty source) [] else []);
          p2 = (if truthy tag then params_set ''tag'' (str_or_empty tag) p1 else p1);
          q = params_to_string p2 in
      if q \<noteq> [] then base @ ''?'' @ q else base)"

definition library_default :: string where
  "library_default = library_path library_first_tab None None"

definition is_library_tab :: "string option \<Rightarrow> bool" where
  "is_library_tab v \<longleftrightarrow> v \<in> Some ` set library_tabs"

definition instance_tabs :: "string list" where
  "instance_tabs =
     [''stats'', ''workers'', ''tariffs'', ''orgs'', ''baseSkills'', ''settings'', ''legalDocuments'']"

definition security_tabs :: "string list" where
  "security_tabs = [''audit'', ''encryption'']"

definition resolve_instance_tab :: "string option \<Rightarrow> string" where
  "resolve_instance_tab p = (case p of Some t \<Rightarrow> if t \<in> set instance_tabs then t else ''stats''
                                     | None \<Rightarrow> ''stats'')"

definition resolve_security_tab :: "string option \<Rightarrow> string" where
  "resolve_security_tab p = (case p of Some t \<Rightarrow> if t \<in> set security_tabs then t else ''audit''
                                     | None \<Rightarrow> ''audit'')"

definition instance_path :: "string \<Rightarrow> string" where
  "instance_path tab = (if tab = ''stats'' then ''/app/instance'' else ''/app/instance?tab='' @ tab)"

definition is_instance_tab :: "string option \<Rightarrow> bool" where
  "is_instance_tab v \<longleftrightarrow> v \<in> Some ` set instance_tabs"

definition security_path :: "string \<Rightarrow> string" where
  "security_path tab = (if tab = ''audit'' then ''/app/security'' else ''/app/security?tab='' @ tab)"

definition is_security_tab :: "string option \<Rightarrow> bool" where
  "is_security_tab v \<longleftrightarrow> v \<in> Some ` set security_tabs"

section \<open>Start routes\<close>

definition ingest_default :: string where
  "ingest_default = ''/app/ingest''"

definition default_routes :: "string list" where
  "default_routes =
     [''ingest'', ''library/summaries'', ''library/transcripts'', ''library/audio'', ''library/links'',
      ''library/skills'', ''skills'', ''org'', ''stats'', ''tasks'', ''instance/stats'',
      ''instance/workers'', ''instance/tariffs'', ''instance/orgs'', ''instance/baseSkills'',
      ''instance/settings'', ''instance/legalDocuments'', ''instance'', ''security/audit'',
      ''security/encryption'']"

definition is_default_route :: "string option \<Rightarrow> bool" where
  "is_default_route v \<longleftrightarrow> v \<in> Some ` set default_routes"

definition normalize_default_route :: "string option \<Rightarrow> string option" where
  "normalize_default_route v =
     (if v = Some ''library'' then Some ''library/audio''
      else if v = Some ''skills'' then Some ''library/skills''
      else if v = Some ''instance'' then Some ''instance/stats''
      else if is_default_route v then v else None)"

text \<open>The part after a prefix, when the prefix is there and the rest passes the test.\<close>

definition tab_after :: "string \<Rightarrow> (string option \<Rightarrow> bool) \<Rightarrow> string \<Rightarrow> string option" where
  "tab_after pre ok route =
     (if starts_with route pre
      then (let tab = drop (length pre) route in if ok (Some tab) then Some tab else None)
      else None)"

definition default_route_path :: "string \<Rightarrow> string" where
  "default_route_path route =
     (case tab_after ''library/'' is_library_tab route of
        Some tab \<Rightarrow> library_path tab None None
      | None \<Rightarrow>
     (case tab_after ''instance/'' is_instance_tab route of
        Some tab \<Rightarrow> instance_path tab
      | None \<Rightarrow>
     (case tab_after ''security/'' is_security_tab route of
        Some tab \<Rightarrow> security_path tab
      | None \<Rightarrow>
        if route = ''skills'' then library_path ''skills'' None None
        else if route = ''org'' then ''/app/org''
        else if route = ''stats'' then ''/app/stats''
        else if route = ''tasks'' then ''/app/tasks''
        else if route = ''ingest'' then ingest_default
        else if route = ''instance'' then instance_path ''stats''
        else ingest_default)))"

definition default_route_label :: "string \<Rightarrow> (string \<Rightarrow> string) \<Rightarrow> string" where
  "default_route_label route t =
     (let sep = [CHR 0x20, CHR 0xB7, CHR 0x20] in
      case tab_after ''library/'' is_library_tab route of
        Some tab \<Rightarrow> t ''nav.library'' @ sep @ t (''library.'' @ tab)
      | None \<Rightarrow>
     (case tab_after ''instance/'' is_instance_tab route of
        Some tab \<Rightarrow> t ''nav.instance'' @ sep @ t (''instance.'' @ tab)
      | None \<Rightarrow>
     (case tab_after ''security/'' is_security_tab route of
        Some tab \<Rightarrow> t ''nav.security'' @ sep @ t (''security.'' @ tab)
      | None \<Rightarrow> t (''nav.'' @ route))))"

definition is_org_admin :: "me option \<Rightarrow> bool" where
  "is_org_admin m \<longleftrightarrow> Option.bind m (\<lambda>x. user_role (me_user x)) = Some ''org_admin''"

definition is_instance_admin :: "me option \<Rightarrow> bool" where
  "is_instance_admin m =
     (case m of None \<Rightarrow> False | Some x \<Rightarrow> user_is_instance_admin (me_user x) \<and> \<not> me_impersonating x)"

definition me_has_org :: "me option \<Rightarrow> bool" where
  "me_has_org m \<longleftrightarrow> Option.bind m me_org \<noteq> None"

definition allowed_default_routes :: "me option \<Rightarrow> string list" where
  "allowed_default_routes m =
     (if me_has_org m
      then [''ingest''] @ map (\<lambda>tab. ''library/'' @ tab) library_tabs @ [''org'']
           @ (if is_org_admin m then [''stats''] else [])
      else [])
     @ (if is_instance_admin m
        then map (\<lambda>tab. ''instance/'' @ tab) instance_tabs
             @ map (\<lambda>tab. ''security/'' @ tab) security_tabs
        else [])
     @ [''tasks'']"

section \<open>Sign-in paths\<close>

definition org_sso_enabled :: "me option \<Rightarrow> bool" where
  "org_sso_enabled m =
     (case Option.bind (Option.bind m me_org) org_sso_public of
        None \<Rightarrow> False | Some sso \<Rightarrow> sso_enabled sso)"

definition resolve_login_path :: "me option \<Rightarrow> string" where
  "resolve_login_path m =
     (case Option.bind m me_org of
        None \<Rightarrow> ''/login''
      | Some o' \<Rightarrow> if org_id o' \<noteq> [] \<and> org_sso_enabled m then ''/sso/'' @ org_id o' else ''/login'')"

definition local_auth_profile_visible :: "me option \<Rightarrow> bool" where
  "local_auth_profile_visible m =
     (case m of
        None \<Rightarrow> False
      | Some x \<Rightarrow>
          (let u = me_user x; sso = org_sso_enabled m in
           if user_auth_provider u = ''oidc'' then \<not> sso
           else if user_auth_provider u \<noteq> ''local'' then False
           else if user_is_instance_admin u then True
           else if \<not> sso then True
           else user_role u = Some ''org_admin''))"

definition resolve_auth_block_path :: "me option \<Rightarrow> string option" where
  "resolve_auth_block_path m =
     (case m of
        None \<Rightarrow> Some ''/login''
      | Some x \<Rightarrow>
          if me_must_change_password x then Some ''/change-password''
          else if me_mfa_enrollment_required x then Some ''/enroll-2fa''
          else if me_user_agreement_required x then Some ''/accept-agreement''
          else None)"

definition resolve_home_path :: "me option \<Rightarrow> string" where
  "resolve_home_path m =
     (let allowed = allowed_default_routes m;
          stored = normalize_default_route (map_option (\<lambda>x. user_default_route (me_user x)) m) in
      if truthy stored \<and> str_or_empty stored \<in> set allowed
      then default_route_path (str_or_empty stored)
      else if me_has_org m then ingest_default
      else if is_instance_admin m then instance_path ''stats''
      else ''/app/tasks'')"

definition resolve_auth_continuation_path :: "me option \<Rightarrow> string" where
  "resolve_auth_continuation_path m =
     (case resolve_auth_block_path m of
        Some b \<Rightarrow> if b \<noteq> ''/login'' then b else resolve_home_path m
      | None \<Rightarrow> resolve_home_path m)"

section \<open>The route table of the application\<close>

datatype (plugins only: code) page =
    PgSetup | PgLogin | PgSso | PgSignup | PgForgot | PgReset | PgPublicSummary | PgChangePassword
  | PgVerify2fa | PgEnroll2fa | PgAcceptAgreement | PgLegal | PgLanding
  | PgHome | PgLibraryIndex | PgLibrary | PgIngest | PgAudio | PgTranscript | PgSummary
  | PgSkillsIndex | PgSkillNew | PgSkill | PgOrg | PgPublicLinks | PgStats | PgProfile
  | PgInstance | PgSecurity | PgAudit | PgTasks | PgTask

text \<open>
  A pattern is a list of segments; one that starts with a colon matches any segment and binds it.
  More specific patterns stand first, which is the order in which the router ranks them. Every
  other path shows the landing page. (The router also accepts static segments typed in another case;
  the paths the client itself produces are all in the case of the table.)
\<close>

fun match_segs :: "string list \<Rightarrow> string list \<Rightarrow> string list option" where
  "match_segs [] [] = Some []"
| "match_segs (p # ps) (x # xs) =
     (if starts_with p '':'' then map_option (\<lambda>bs. x # bs) (match_segs ps xs)
      else if p = x then match_segs ps xs else None)"
| "match_segs _ _ = None"

definition route_table :: "(string list \<times> page) list" where
  "route_table =
     [([''setup''], PgSetup), ([''login''], PgLogin), ([''sso'', '':orgId''], PgSso),
      ([''signup''], PgSignup), ([''forgot''], PgForgot), ([''reset''], PgReset),
      ([''public'', ''summary'', '':token''], PgPublicSummary),
      ([''change-password''], PgChangePassword), ([''verify-2fa''], PgVerify2fa),
      ([''enroll-2fa''], PgEnroll2fa), ([''accept-agreement''], PgAcceptAgreement),
      ([''app''], PgHome), ([''app'', ''library''], PgLibraryIndex),
      ([''app'', ''library'', '':tab''], PgLibrary), ([''app'', ''ingest''], PgIngest),
      ([''app'', ''audio'', '':id''], PgAudio), ([''app'', ''transcript'', '':id''], PgTranscript),
      ([''app'', ''summary'', '':id''], PgSummary), ([''app'', ''skills''], PgSkillsIndex),
      ([''app'', ''skill'', ''new''], PgSkillNew), ([''app'', ''skill'', '':id''], PgSkill),
      ([''app'', ''org''], PgOrg), ([''app'', ''public-links''], PgPublicLinks),
      ([''app'', ''stats''], PgStats), ([''app'', ''profile''], PgProfile),
      ([''app'', ''instance''], PgInstance), ([''app'', ''security''], PgSecurity),
      ([''app'', ''audit''], PgAudit), ([''app'', ''tasks''], PgTasks),
      ([''app'', ''task'', '':id''], PgTask), ([''legal'', '':slug''], PgLegal), ([], PgLanding)]"

definition path_segments :: "string \<Rightarrow> string list" where
  "path_segments path =
     filter (\<lambda>x. x \<noteq> []) (split_on (CHR ''/'') (takeWhile (\<lambda>c. c \<noteq> CHR ''?'') path))"

fun first_match :: "(string list \<times> page) list \<Rightarrow> string list \<Rightarrow> page \<times> string list" where
  "first_match [] segs = (PgLanding, [])"
| "first_match ((pat, pg) # rs) segs =
     (case match_segs pat segs of Some bs \<Rightarrow> (pg, bs) | None \<Rightarrow> first_match rs segs)"

definition route_of :: "string \<Rightarrow> page \<times> string list" where
  "route_of path = first_match route_table (path_segments path)"

text \<open>The routes nested under the gate.\<close>

definition gated :: "page \<Rightarrow> bool" where
  "gated pg \<longleftrightarrow> pg \<in> {PgHome, PgLibraryIndex, PgLibrary, PgIngest, PgAudio, PgTranscript, PgSummary,
     PgSkillsIndex, PgSkillNew, PgSkill, PgOrg, PgPublicLinks, PgStats, PgProfile, PgInstance,
     PgSecurity, PgAudit, PgTasks, PgTask}"

section \<open>What a location renders\<close>

record auth_view =
  av_ready :: bool
  av_bootstrap_done :: bool
  av_me :: "me option"
  av_challenge :: "string option"
  av_legal_missing :: bool

datatype view = Loading | Redirect string | Content page

definition gate :: "auth_view \<Rightarrow> view \<Rightarrow> view" where
  "gate av child =
     (if \<not> av_ready av then Loading
      else if \<not> av_bootstrap_done av then Redirect ''/setup''
      else if av_me av = None then Redirect ''/login''
      else (let block = resolve_auth_block_path (av_me av) in
        if block = Some ''/change-password'' then Redirect ''/change-password''
        else if block = Some ''/enroll-2fa'' then Redirect ''/enroll-2fa''
        else if block = Some ''/accept-agreement'' then Redirect ''/accept-agreement''
        else child))"

definition library_page_guard :: "me option \<Rightarrow> string \<Rightarrow> view" where
  "library_page_guard m tab =
     (if \<not> me_has_org m
      then Redirect (if \<exists>x \<in> set_option m. user_is_instance_admin (me_user x)
                     then ''/app/instance'' else ''/app/profile'')
      else if tab \<noteq> [] \<and> \<not> is_library_tab (Some tab) then Redirect library_default
      else Content PgLibrary)"

definition ingest_page_guard :: "me option \<Rightarrow> view" where
  "ingest_page_guard m =
     (if \<not> me_has_org m
      then Redirect (if \<exists>x \<in> set_option m. user_is_instance_admin (me_user x)
                     then ''/app/instance'' else ''/app/profile'')
      else Content PgIngest)"

definition stats_page_guard :: "me option \<Rightarrow> view" where
  "stats_page_guard m =
     (if \<not> me_has_org m then Redirect ''/app/profile''
      else if \<not> is_org_admin m then Redirect library_default else Content PgStats)"

definition org_only_guard :: "me option \<Rightarrow> page \<Rightarrow> view" where
  "org_only_guard m pg = (if \<not> me_has_org m then Redirect ''/app/profile'' else Content pg)"

definition instance_only_guard :: "me option \<Rightarrow> page \<Rightarrow> view" where
  "instance_only_guard m pg =
     (if \<not> is_instance_admin m then Redirect library_default else Content pg)"

text \<open>The child of the gate: the page component with its own guard.\<close>

definition app_page :: "me option \<Rightarrow> page \<Rightarrow> string list \<Rightarrow> view" where
  "app_page m pg bs =
     (case pg of
        PgHome \<Rightarrow> Redirect (resolve_home_path m)
      | PgLibraryIndex \<Rightarrow> Redirect library_default
      | PgLibrary \<Rightarrow> library_page_guard m (concat (take 1 bs))
      | PgIngest \<Rightarrow> ingest_page_guard m
      | PgSkillsIndex \<Rightarrow> Redirect (library_path ''skills'' None None)
      | PgSkillNew \<Rightarrow> org_only_guard m PgSkillNew
      | PgOrg \<Rightarrow> org_only_guard m PgOrg
      | PgPublicLinks \<Rightarrow> Redirect (library_path ''links'' None None)
      | PgStats \<Rightarrow> stats_page_guard m
      | PgInstance \<Rightarrow> instance_only_guard m PgInstance
      | PgSecurity \<Rightarrow> instance_only_guard m PgSecurity
      | PgAudit \<Rightarrow> Redirect ''/app/security''
      | _ \<Rightarrow> Content pg)"

definition change_password_guard :: "auth_view \<Rightarrow> view" where
  "change_password_guard av =
     (if \<not> av_ready av then Loading
      else if av_me av = None then Redirect ''/login''
      else (let block = resolve_auth_block_path (av_me av) in
        if block = Some ''/enroll-2fa'' then Redirect ''/enroll-2fa''
        else if block = Some ''/accept-agreement'' then Redirect ''/accept-agreement''
        else if block = Some ''/login'' then Redirect ''/login''
        else if block \<noteq> Some ''/change-password''
        then Redirect (resolve_auth_continuation_path (av_me av))
        else Content PgChangePassword))"

definition accept_agreement_guard :: "auth_view \<Rightarrow> view" where
  "accept_agreement_guard av =
     (if \<not> av_ready av then Loading
      else (case av_me av of
        None \<Rightarrow> Redirect ''/login''
      | Some x \<Rightarrow>
          let block = resolve_auth_block_path (Some x) in
          if block = Some ''/change-password'' then Redirect ''/change-password''
          else if block = Some ''/enroll-2fa'' then Redirect ''/enroll-2fa''
          else if block = Some ''/login'' then Redirect ''/login''
          else if \<not> me_user_agreement_required x
          then Redirect (resolve_auth_continuation_path (Some x))
          else Content PgAcceptAgreement))"

definition enroll_2fa_guard :: "auth_view \<Rightarrow> view" where
  "enroll_2fa_guard av =
     (if \<not> av_ready av then Loading
      else (case av_me av of
        None \<Rightarrow> Redirect ''/login''
      | Some x \<Rightarrow>
          let block = resolve_auth_block_path (Some x) in
          if block = Some ''/change-password'' then Redirect ''/change-password''
          else if block = Some ''/login'' then Redirect ''/login''
          else if \<not> me_mfa_enrollment_required x \<and> me_mfa_enabled x
          then Redirect (resolve_auth_continuation_path (Some x))
          else if \<not> me_mfa_enrollment_required x \<and> \<not> me_mfa_enabled x
          then Redirect ''/app/profile''
          else Content PgEnroll2fa))"

definition verify_2fa_guard :: "auth_view \<Rightarrow> view" where
  "verify_2fa_guard av =
     (if \<not> av_ready av then Loading
      else if \<not> av_bootstrap_done av then Redirect ''/setup''
      else if av_me av \<noteq> None then Redirect (resolve_auth_continuation_path (av_me av))
      else if \<not> truthy (av_challenge av) then Redirect ''/login''
      else Content PgVerify2fa)"

text \<open>The guard that the login, sign-up and SSO pages share.\<close>

definition signed_out_guard :: "auth_view \<Rightarrow> page \<Rightarrow> view" where
  "signed_out_guard av pg =
     (if av_ready av \<and> \<not> av_bootstrap_done av then Redirect ''/setup''
      else if av_ready av \<and> av_me av \<noteq> None
      then Redirect (resolve_auth_continuation_path (av_me av))
      else Content pg)"

definition setup_guard :: "auth_view \<Rightarrow> view" where
  "setup_guard av = (if av_ready av \<and> av_bootstrap_done av then Redirect ''/login'' else Content PgSetup)"

definition reset_guard :: "auth_view \<Rightarrow> page \<Rightarrow> view" where
  "reset_guard av pg =
     (if av_ready av \<and> \<not> av_bootstrap_done av then Redirect ''/setup'' else Content pg)"

definition landing_guard :: "auth_view \<Rightarrow> view" where
  "landing_guard av =
     (if \<not> av_ready av then Loading
      else if \<not> av_bootstrap_done av then Redirect ''/setup'' else Content PgLanding)"

definition legal_guard :: "auth_view \<Rightarrow> view" where
  "legal_guard av =
     (if \<not> av_ready av then Loading
      else if \<not> av_bootstrap_done av then Redirect ''/setup''
      else if av_legal_missing av then Redirect ''/'' else Content PgLegal)"

definition render_path :: "auth_view \<Rightarrow> string \<Rightarrow> view" where
  "render_path av path =
     (case route_of path of (pg, bs) \<Rightarrow>
        if gated pg then gate av (app_page (av_me av) pg bs)
        else (case pg of
            PgSetup \<Rightarrow> setup_guard av
          | PgLogin \<Rightarrow> signed_out_guard av PgLogin
          | PgSso \<Rightarrow> signed_out_guard av PgSso
          | PgSignup \<Rightarrow> signed_out_guard av PgSignup
          | PgForgot \<Rightarrow> reset_guard av PgForgot
          | PgReset \<Rightarrow> reset_guard av PgReset
          | PgChangePassword \<Rightarrow> change_password_guard av
          | PgVerify2fa \<Rightarrow> verify_2fa_guard av
          | PgEnroll2fa \<Rightarrow> enroll_2fa_guard av
          | PgAcceptAgreement \<Rightarrow> accept_agreement_guard av
          | PgLegal \<Rightarrow> legal_guard av
          | PgLanding \<Rightarrow> landing_guard av
          | _ \<Rightarrow> Content pg))"

text \<open>Following redirects: at most \<open>n\<close> of them, \<open>None\<close> when more are needed.\<close>

fun follow :: "nat \<Rightarrow> auth_view \<Rightarrow> string \<Rightarrow> view option" where
  "follow 0 av path = (case render_path av path of Redirect _ \<Rightarrow> None | v \<Rightarrow> Some v)"
| "follow (Suc n) av path =
     (case render_path av path of Redirect p \<Rightarrow> follow n av p | v \<Rightarrow> Some v)"

section \<open>Where the fixed paths lead\<close>

lemma fixed_routes [simp]:
  "route_of ''/setup'' = (PgSetup, [])" "route_of ''/login'' = (PgLogin, [])"
  "route_of ''/change-password'' = (PgChangePassword, [])"
  "route_of ''/enroll-2fa'' = (PgEnroll2fa, [])"
  "route_of ''/accept-agreement'' = (PgAcceptAgreement, [])"
  "route_of ''/app/profile'' = (PgProfile, [])" "route_of ''/app/instance'' = (PgInstance, [])"
  "route_of ''/app/security'' = (PgSecurity, [])" "route_of ''/app/org'' = (PgOrg, [])"
  "route_of ''/app/stats'' = (PgStats, [])" "route_of ''/app/tasks'' = (PgTasks, [])"
  "route_of ingest_default = (PgIngest, [])" "route_of ''/'' = (PgLanding, [])"
  "route_of library_default = (PgLibrary, [''summaries''])"
  "route_of (library_path ''skills'' None None) = (PgLibrary, [''skills''])"
  "route_of (library_path ''links'' None None) = (PgLibrary, [''links''])"
  by code_simp+

lemma library_routes_all:
  "list_all (\<lambda>t. default_route_path (''library/'' @ t) = library_path t None None
      \<and> route_of (library_path t None None) = (PgLibrary, [t])) library_tabs"
  by code_simp

lemma instance_routes_all:
  "list_all (\<lambda>t. default_route_path (''instance/'' @ t) = instance_path t
      \<and> route_of (instance_path t) = (PgInstance, [])
      \<and> params_get (params_parse (query_of (instance_path t))) ''tab''
          = (if t = ''stats'' then None else Some t)) instance_tabs"
  by code_simp

lemma security_routes_all:
  "list_all (\<lambda>t. default_route_path (''security/'' @ t) = security_path t
      \<and> route_of (security_path t) = (PgSecurity, [])
      \<and> params_get (params_parse (query_of (security_path t))) ''tab''
          = (if t = ''audit'' then None else Some t)) security_tabs"
  by code_simp

lemma plain_default_routes:
  "default_route_path ''ingest'' = ingest_default" "default_route_path ''org'' = ''/app/org''"
  "default_route_path ''stats'' = ''/app/stats''" "default_route_path ''tasks'' = ''/app/tasks''"
  by code_simp+

lemma allowed_cases:
  assumes "r \<in> set (allowed_default_routes m)"
  shows "r = ''ingest'' \<and> me_has_org m \<or> r \<in> (\<lambda>t. ''library/'' @ t) ` set library_tabs \<and> me_has_org m
    \<or> r = ''org'' \<and> me_has_org m \<or> r = ''stats'' \<and> me_has_org m \<and> is_org_admin m
    \<or> r \<in> (\<lambda>t. ''instance/'' @ t) ` set instance_tabs \<and> is_instance_admin m
    \<or> r \<in> (\<lambda>t. ''security/'' @ t) ` set security_tabs \<and> is_instance_admin m
    \<or> r = ''tasks''"
proof -
  have set_if: "r \<in> set (if b then xs else []) \<longleftrightarrow> b \<and> r \<in> set xs" for b and xs :: "string list"
    by simp
  from assms show ?thesis
    unfolding allowed_default_routes_def set_append Un_iff set_if set_map list.set insert_iff empty_iff
    by blast
qed

lemma allowed_route_content:
  assumes "r \<in> set (allowed_default_routes m)"
  shows "\<exists>pg bs c. route_of (default_route_path r) = (pg, bs) \<and> gated pg \<and> app_page m pg bs = Content c"
proof -
  have c: ?thesis if "r = ''ingest'' \<and> me_has_org m \<or> r = ''org'' \<and> me_has_org m
      \<or> r = ''stats'' \<and> me_has_org m \<and> is_org_admin m \<or> r = ''tasks''"
    using that by (auto simp: plain_default_routes gated_def app_page_def ingest_page_guard_def
        org_only_guard_def stats_page_guard_def)
  have l: ?thesis if "r = ''library/'' @ t" "t \<in> set library_tabs" "me_has_org m" for t
    using that library_routes_all
    by (auto simp: list_all_iff gated_def app_page_def library_page_guard_def is_library_tab_def)
  have i: ?thesis if "r = ''instance/'' @ t" "t \<in> set instance_tabs" "is_instance_admin m" for t
    using that instance_routes_all
    by (auto simp: list_all_iff gated_def app_page_def instance_only_guard_def)
  have s: ?thesis if "r = ''security/'' @ t" "t \<in> set security_tabs" "is_instance_admin m" for t
    using that security_routes_all
    by (auto simp: list_all_iff gated_def app_page_def instance_only_guard_def)
  show ?thesis using allowed_cases [OF assms] c l i s by (elim disjE imageE conjE) blast+
qed

lemma home_content:
  "\<exists>pg bs c. route_of (resolve_home_path m) = (pg, bs) \<and> gated pg \<and> app_page m pg bs = Content c"
proof -
  have i: "route_of (instance_path ''stats'') = (PgInstance, [])" by code_simp
  have "\<exists>pg bs c. route_of p = (pg, bs) \<and> gated pg \<and> app_page m pg bs = Content c"
    if "p = ingest_default \<and> me_has_org m \<or> p = instance_path ''stats'' \<and> is_instance_admin m
        \<or> p = ''/app/tasks''" for p
    using that i
    by (auto simp: gated_def app_page_def ingest_page_guard_def instance_only_guard_def)
  then show ?thesis using allowed_route_content unfolding resolve_home_path_def Let_def by presburger
qed

section \<open>Redirects settle\<close>

lemmas guard_defs = gate_def setup_guard_def signed_out_guard_def change_password_guard_def
  enroll_2fa_guard_def accept_agreement_guard_def

lemma render_fixed:
  "render_path av ''/setup'' = setup_guard av"
  "render_path av ''/login'' = signed_out_guard av PgLogin"
  "render_path av ''/change-password'' = change_password_guard av"
  "render_path av ''/enroll-2fa'' = enroll_2fa_guard av"
  "render_path av ''/accept-agreement'' = accept_agreement_guard av"
  "render_path av ''/app/profile'' = gate av (Content PgProfile)"
  "render_path av ''/app/instance'' = gate av (instance_only_guard (av_me av) PgInstance)"
  "render_path av ''/app/security'' = gate av (instance_only_guard (av_me av) PgSecurity)"
  "render_path av library_default = gate av (library_page_guard (av_me av) ''summaries'')"
  "render_path av (library_path ''skills'' None None) = gate av (library_page_guard (av_me av) ''skills'')"
  "render_path av (library_path ''links'' None None) = gate av (library_page_guard (av_me av) ''links'')"
  "render_path av ''/'' = landing_guard av"
  by (simp_all add: render_path_def gated_def app_page_def)

text \<open>Reaching content (or the loading note) within \<open>n\<close> redirects.\<close>

definition settles :: "nat \<Rightarrow> auth_view \<Rightarrow> view \<Rightarrow> bool" where
  "settles n av v =
     (case v of Redirect p \<Rightarrow> 0 < n \<and> follow (n - 1) av p \<noteq> None | _ \<Rightarrow> True)"

lemma follow_settles: "follow n av p \<noteq> None \<longleftrightarrow> settles n av (render_path av p)"
proof (cases n)
  case 0
  show ?thesis unfolding 0 by (cases "render_path av p") (simp_all add: settles_def)
next
  case (Suc k)
  show ?thesis unfolding Suc by (cases "render_path av p") (simp_all add: settles_def)
qed

lemma settles_simps [simp]: "settles n av Loading" "settles n av (Content c)"
  by (simp_all add: settles_def)

lemma settles_Suc [simp]:
  "settles (Suc n) av (Redirect p) \<longleftrightarrow> settles n av (render_path av p)"
  unfolding follow_settles [symmetric] by (simp add: settles_def)

lemma settles_redirect [simp]:
  "settles 2 av (Redirect p) \<longleftrightarrow> settles 1 av (render_path av p)"
  "settles 3 av (Redirect p) \<longleftrightarrow> settles 2 av (render_path av p)"
  by (simp_all add: numeral_2_eq_2 numeral_3_eq_3)

lemma settles_mono: "settles n av v \<Longrightarrow> n \<le> m \<Longrightarrow> settles m av v"
proof (induction n arbitrary: m v)
  case 0
  then show ?case by (cases v) (auto simp: settles_def)
next
  case (Suc n)
  then obtain k where m: "m = Suc k" "n \<le> k" by (cases m) auto
  with Suc show ?case by (cases v) auto
qed

definition signed_in :: "auth_view \<Rightarrow> me \<Rightarrow> bool" where
  "signed_in av x \<longleftrightarrow> av_ready av \<and> av_bootstrap_done av \<and> av_me av = Some x"

lemma block_values:
  "resolve_auth_block_path (Some x) \<in> {None, Some ''/change-password'', Some ''/enroll-2fa'', Some ''/accept-agreement''}"
  by (simp add: resolve_auth_block_path_def)

lemma blocked_content:
  assumes "av_ready av" "av_me av = Some x" and "resolve_auth_block_path (Some x) = Some b"
  shows "\<exists>c. render_path av b = Content c"
  using assms
  by (auto simp: resolve_auth_block_path_def render_fixed guard_defs split: if_splits)

lemma continuation_content:
  assumes "signed_in av x"
  shows "\<exists>c. render_path av (resolve_auth_continuation_path (Some x)) = Content c"
proof (cases "resolve_auth_block_path (Some x)")
  case None
  obtain pg bs c where h: "route_of (resolve_home_path (Some x)) = (pg, bs)" "gated pg"
      "app_page (Some x) pg bs = Content c"
    using home_content by blast
  have "gate av (Content c) = Content c" using assms None by (simp add: signed_in_def gate_def)
  then show ?thesis using h assms None
    by (simp add: resolve_auth_continuation_path_def render_path_def signed_in_def)
next
  case (Some b)
  then have "b \<noteq> ''/login''" using block_values [of x] by auto
  then show ?thesis using blocked_content [of av x b] Some assms
    by (simp add: signed_in_def resolve_auth_continuation_path_def)
qed

lemma continuation_settles:
  "signed_in av x \<Longrightarrow> settles n av (render_path av (resolve_auth_continuation_path (Some x)))"
  using continuation_content by force

text \<open>The gate is open for a user without pending sign-in steps; else it redirects once.\<close>

definition gate_open :: "auth_view \<Rightarrow> bool" where
  "gate_open av \<longleftrightarrow> (\<exists>x. signed_in av x \<and> resolve_auth_block_path (Some x) = None)"

lemma gate_open_child: "gate_open av \<Longrightarrow> gate av child = child"
  by (auto simp: gate_open_def signed_in_def gate_def)

lemma gate_closed_settles:
  assumes "\<not> gate_open av"
  shows "settles (Suc 0) av (gate av child)"
proof -
  consider "\<not> av_ready av" | "av_ready av" "\<not> av_bootstrap_done av"
    | "av_ready av" "av_bootstrap_done av" "av_me av = None"
    | x where "signed_in av x" by (auto simp: signed_in_def)
  then show ?thesis
  proof cases
    case (4 x)
    then obtain b where b: "resolve_auth_block_path (Some x) = Some b"
      using assms by (auto simp: gate_open_def)
    then have "gate av child = Redirect b"
      using 4 block_values [of x] by (auto simp: gate_def signed_in_def)
    then show ?thesis using blocked_content [of av x b] b 4 by (auto simp: signed_in_def)
  qed (simp_all add: gate_def render_fixed setup_guard_def signed_out_guard_def)
qed

text \<open>The backend lets nobody impersonate an instance administrator
  (\<open>app/routers/instance/impersonate.py\<close>).\<close>

definition impersonation_ok :: "me option \<Rightarrow> bool" where
  "impersonation_ok m =
     (case m of None \<Rightarrow> True | Some x \<Rightarrow> \<not> (me_impersonating x \<and> user_is_instance_admin (me_user x)))"

lemma library_guard_settles:
  assumes "gate_open av" and "impersonation_ok (av_me av)"
  shows "settles (if is_library_tab (Some tab) then 1 else 2) av (library_page_guard (av_me av) tab)"
proof -
  obtain x where x: "av_me av = Some x" using assms(1) by (auto simp: gate_open_def signed_in_def)
  then have i: "is_instance_admin (Some x) \<longleftrightarrow> user_is_instance_admin (me_user x)"
    using assms(2) by (auto simp: is_instance_admin_def impersonation_ok_def)
  have d: "is_library_tab (Some ''summaries'')"
    by (simp add: is_library_tab_def library_tabs_def)
  show ?thesis
    by (auto simp: library_page_guard_def render_fixed gate_open_child [OF assms(1)]
        instance_only_guard_def x i d)
qed

lemma app_page_settles:
  assumes "gate_open av" and "impersonation_ok (av_me av)"
  shows "settles 3 av (app_page (av_me av) pg bs)"
proof -
  obtain x where x: "av_me av = Some x" "signed_in av x" "resolve_auth_block_path (Some x) = None"
    using assms(1) by (auto simp: gate_open_def signed_in_def)
  have g: "gate av v = v" for v by (rule gate_open_child [OF assms(1)])
  have l1: "settles 1 av (library_page_guard (av_me av) ''summaries'')"
    using library_guard_settles [OF assms, of "''summaries''"]
    by (simp add: is_library_tab_def library_tabs_def)
  have l: "settles 2 av (library_page_guard (av_me av) tab)" for tab
    by (rule settles_mono [OF library_guard_settles [OF assms]]) simp
  have l3: "settles 3 av (library_page_guard (av_me av) tab)" for tab
    by (rule settles_mono [OF l]) simp
  have i2: "settles 2 av (instance_only_guard (av_me av) c)" for c
    using l1 by (simp add: instance_only_guard_def render_fixed g)
  have i: "settles 3 av (instance_only_guard (av_me av) c)" for c
    by (rule settles_mono [OF i2]) simp
  have p: "settles 2 av (render_path av ''/app/profile'')" by (simp add: render_fixed g)
  have inst: "settles 2 av (render_path av ''/app/instance'')"
    using i2 by (simp add: render_fixed g)
  have home: "settles 2 av (render_path av (resolve_home_path (av_me av)))"
    using continuation_settles [OF x(2), of 2] x by (simp add: resolve_auth_continuation_path_def)
  show ?thesis
    using l l3 i p inst home i2
    by (cases pg) (auto simp: app_page_def ingest_page_guard_def stats_page_guard_def org_only_guard_def
        render_fixed g)
qed

text \<open>The pages outside of the gate.\<close>

lemma continuation_settles_ready:
  assumes "av_ready av" and "av_me av = Some x"
  shows "settles (Suc 0) av (render_path av (resolve_auth_continuation_path (Some x)))"
proof (cases "resolve_auth_block_path (Some x)")
  case None
  obtain pg bs c where h: "route_of (resolve_home_path (Some x)) = (pg, bs)" "gated pg"
      "app_page (Some x) pg bs = Content c"
    using home_content by blast
  have "settles (Suc 0) av (gate av (Content c))"
    by (cases "gate_open av") (simp_all add: gate_open_child gate_closed_settles)
  then show ?thesis using None h assms
    by (simp add: resolve_auth_continuation_path_def render_path_def)
next
  case (Some b)
  then have "b \<noteq> ''/login''" using block_values [of x] by auto
  then show ?thesis using blocked_content [OF assms Some] Some
    by (auto simp: resolve_auth_continuation_path_def)
qed

lemma outside_settles:
  "settles 3 av (signed_out_guard av pg)" "settles 3 av (setup_guard av)"
  "settles 3 av (change_password_guard av)" "settles 3 av (enroll_2fa_guard av)"
  "settles 3 av (accept_agreement_guard av)" "settles 3 av (verify_2fa_guard av)"
  "settles 3 av (reset_guard av pg)" "settles 3 av (landing_guard av)" "settles 3 av (legal_guard av)"
proof -
  have s: "settles n av (setup_guard av)" if "\<not> av_bootstrap_done av" for n
    using that by (simp add: setup_guard_def)
  have c2: "settles 2 av (render_path av (resolve_auth_continuation_path (Some x)))"
    if "av_ready av" "av_me av = Some x" for x
    using settles_mono [OF continuation_settles_ready [OF that]] by simp
  have so: "settles 2 av (signed_out_guard av pg)" for pg
    by (cases "av_me av") (auto simp: signed_out_guard_def render_fixed s continuation_settles_ready)
  show "settles 3 av (signed_out_guard av pg)" by (rule settles_mono [OF so]) simp
  show "settles 3 av (setup_guard av)" using so by (simp add: setup_guard_def render_fixed)
  have block: "settles 2 av (render_path av b)"
    if "av_ready av" "av_me av = Some x" "resolve_auth_block_path (Some x) = Some b" for x b
    using blocked_content [OF that] by auto
  have profile: "settles 2 av (render_path av ''/app/profile'')"
    using gate_closed_settles [of av "Content PgProfile"]
    by (cases "gate_open av") (auto simp: render_fixed gate_open_child intro: settles_mono)
  show "settles 3 av (change_password_guard av)"
    by (cases "av_me av") (auto simp: change_password_guard_def Let_def render_fixed(2) so block intro: c2)
  show "settles 3 av (enroll_2fa_guard av)"
    by (cases "av_me av") (auto simp: enroll_2fa_guard_def Let_def render_fixed(2) so block profile intro: c2)
  show "settles 3 av (accept_agreement_guard av)"
    by (cases "av_me av") (auto simp: accept_agreement_guard_def Let_def render_fixed(2) so block intro: c2)
  show "settles 3 av (verify_2fa_guard av)"
    by (cases "av_me av") (auto simp: verify_2fa_guard_def render_fixed(1,2) so s intro: c2)
  show "settles 3 av (reset_guard av pg)" by (simp add: reset_guard_def render_fixed s)
  show l: "settles 3 av (landing_guard av)" by (simp add: landing_guard_def render_fixed s)
  have "settles 2 av (landing_guard av)" if "av_bootstrap_done av"
    using that by (simp add: landing_guard_def)
  then show "settles 3 av (legal_guard av)" by (simp add: legal_guard_def render_fixed s)
qed

lemma path_segments_query:
  "CHR ''?'' \<notin> set base \<Longrightarrow> path_segments (base @ CHR ''?'' # q) = path_segments base"
proof -
  assume "CHR ''?'' \<notin> set base"
  then have "takeWhile (\<lambda>c. c \<noteq> CHR ''?'') (base @ CHR ''?'' # q) = base"
      "takeWhile (\<lambda>c. c \<noteq> CHR ''?'') base = base"
    by (induction base) auto
  then show ?thesis unfolding path_segments_def by (simp only:)
qed

section \<open>Properties\<close>

text \<open>C9: Opening any path of the application ends in at most three redirects at a page or at
  the loading note, for every state of the session (loading, before setup, signed out, blocked by a
  pending password change, second factor or agreement, with or without an organisation), as long
  as nobody impersonates an instance administrator.\<close>

theorem redirects_settle:
  assumes "impersonation_ok (av_me av)"
  shows "\<exists>v. follow 3 av path = Some v \<and> (v = Loading \<or> (\<exists>pg. v = Content pg))"
proof -
  obtain pg bs where r: "route_of path = (pg, bs)" by (cases "route_of path")
  have "settles 3 av (render_path av path)"
  proof (cases "gated pg")
    case True
    have "settles 3 av (gate av (app_page (av_me av) pg bs))"
      using app_page_settles [OF _ assms] settles_mono [OF gate_closed_settles, of av 3]
      by (cases "gate_open av") (simp_all add: gate_open_child)
    then show ?thesis using True r by (simp add: render_path_def)
  next
    case False
    then show ?thesis using outside_settles r
      by (cases pg) (simp_all add: render_path_def)
  qed
  then have "follow 3 av path \<noteq> None" by (simp only: follow_settles)
  moreover have "v = Loading \<or> (\<exists>pg. v = Content pg)" if "follow n av p = Some v" for n p v
    using that
  proof (induction n av p rule: follow.induct)
    case (1 av path)
    then show ?case by (cases "render_path av path") auto
  next
    case (2 n av path)
    then show ?case by (cases "render_path av path") auto
  qed
  ultimately show ?thesis by blast
qed

definition example_user :: user where
  "example_user =
     \<lparr>user_id = ''u1'', user_email = ''u@example.org'', user_first_name = None, user_last_name = None,
      user_display_name = ''U'', user_locale = ''en'', user_default_route = ''library'',
      user_date_time_format = None, user_timezone = None, user_asr_model = None,
      user_diarization_model = None, user_tone_analytics = None, user_summarize_model = None,
      user_capture_bot_name = None, user_show_only_my_items = False, user_shell_show_mic = False,
      user_shell_show_telegram = None, user_disabled = False, user_must_change_password = False,
      user_mfa_enabled = False, user_mfa_configured = None, user_is_instance_admin = False,
      user_role = None, user_auth_provider = ''local'', user_agreement_status = None,
      user_legal_acceptance = None\<rparr>"

definition example_me :: "bool \<Rightarrow> bool \<Rightarrow> me" where
  "example_me admin impersonating =
     \<lparr>me_user = example_user\<lparr>user_is_instance_admin := admin\<rparr>, me_org = None,
      me_impersonating = impersonating, me_actor = None,
      me_date_time_prefs = \<lparr>dtp_format = Iso, dtp_timezone = ''UTC'', dtp_format_source = SourceDefault,
        dtp_timezone_source = SourceDefault, dtp_instance_format = Iso, dtp_instance_timezone = ''UTC''\<rparr>,
      me_transcribe_prefs = \<lparr>tp_asr_model = [], tp_diarization_model = None,
        tp_asr_source = SourceInstance, tp_diarization_source = SourceInstance,
        tp_instance_asr_model = [], tp_instance_diarization_model = None\<rparr>,
      me_transcribe_models = \<lparr>tm_asr_models = [], tm_diarization_models = [],
        tm_dispatchable_pairs = None\<rparr>,
      me_summarize_prefs = \<lparr>sp_summarize_model = None, sp_source = SourceInstance,
        sp_instance_summarize_model = None\<rparr>,
      me_summarize_models = \<lparr>sm_models = []\<rparr>,
      me_capture_prefs = \<lparr>cp_capture_enabled = False, cp_bot_display_name = [], cp_source = SourceInstance,
        cp_org_bot_display_name = []\<rparr>,
      me_must_change_password = False, me_mfa_enabled = False, me_mfa_required = False,
      me_mfa_enrollment_required = False, me_user_agreement_required = False,
      me_user_agreement = None, me_user_agreement_version = None, me_legal_documents = None,
      me_csrf_token = None\<rparr>"

definition example_view :: "me option \<Rightarrow> auth_view" where
  "example_view m =
     \<lparr>av_ready = True, av_bootstrap_done = True, av_me = m, av_challenge = None,
      av_legal_missing = False\<rparr>"

theorem redirects_settle_witness:
  "\<exists>v. follow 3 (example_view (Some (example_me True False))) ''/app/audit'' = Some v
     \<and> (v = Loading \<or> (\<exists>pg. v = Content pg))"
  by (rule redirects_settle) (simp add: example_view_def impersonation_ok_def example_me_def)

text \<open>The hypothesis is needed: for an impersonated instance administrator without organisation
  the library and the instance page redirect to each other for ever.\<close>

lemma impersonated_admin_loops:
  "follow n (example_view (Some (example_me True True))) library_default = None
   \<and> follow n (example_view (Some (example_me True True))) ''/app/instance'' = None"
proof -
  let ?av = "example_view (Some (example_me True True))"
  have g: "gate ?av v = v" for v
    by (rule gate_open_child)
       (simp add: gate_open_def signed_in_def example_view_def example_me_def
         resolve_auth_block_path_def)
  have l: "render_path ?av library_default = Redirect ''/app/instance''"
    unfolding render_fixed g
    by (simp add: library_page_guard_def me_has_org_def example_view_def example_me_def)
  have i: "render_path ?av ''/app/instance'' = Redirect library_default"
    unfolding render_fixed g
    by (simp add: instance_only_guard_def is_instance_admin_def example_view_def example_me_def)
  show ?thesis by (induction n) (simp_all add: l i)
qed

section \<open>Where a start route leads\<close>

text \<open>The page of a start route with the bound segments of its path, and who may open a page.\<close>

definition start_target :: "string \<Rightarrow> page \<times> string list" where
  "start_target r =
     (if starts_with r ''library/'' then (PgLibrary, [drop 8 r])
      else if starts_with r ''instance/'' then (PgInstance, [])
      else if starts_with r ''security/'' then (PgSecurity, [])
      else if r = ''org'' then (PgOrg, [])
      else if r = ''stats'' then (PgStats, [])
      else if r = ''tasks'' then (PgTasks, [])
      else (PgIngest, []))"

definition page_open_to :: "me option \<Rightarrow> page \<Rightarrow> bool" where
  "page_open_to m pg \<longleftrightarrow>
     (case pg of
        PgLibrary \<Rightarrow> me_has_org m | PgIngest \<Rightarrow> me_has_org m | PgOrg \<Rightarrow> me_has_org m
      | PgStats \<Rightarrow> me_has_org m \<and> is_org_admin m
      | PgInstance \<Rightarrow> is_instance_admin m | PgSecurity \<Rightarrow> is_instance_admin m
      | PgTasks \<Rightarrow> True | _ \<Rightarrow> False)"

definition route_opens :: "me option \<Rightarrow> string \<Rightarrow> bool" where
  "route_opens m r \<longleftrightarrow>
     route_of (default_route_path r) = start_target r \<and> gated (fst (start_target r))
     \<and> app_page m (fst (start_target r)) (snd (start_target r)) = Content (fst (start_target r))
     \<and> page_open_to m (fst (start_target r))"

lemma start_targets:
  "list_all (\<lambda>t. start_target (''library/'' @ t) = (PgLibrary, [t])) library_tabs"
  "list_all (\<lambda>t. start_target (''instance/'' @ t) = (PgInstance, [])) instance_tabs"
  "list_all (\<lambda>t. start_target (''security/'' @ t) = (PgSecurity, [])) security_tabs"
  "start_target ''ingest'' = (PgIngest, [])" "start_target ''org'' = (PgOrg, [])"
  "start_target ''stats'' = (PgStats, [])" "start_target ''tasks'' = (PgTasks, [])"
  by code_simp+

lemma allowed_route_opens:
  assumes "r \<in> set (allowed_default_routes m)"
  shows "route_opens m r"
proof -
  note defs = route_opens_def gated_def app_page_def page_open_to_def
  have c: ?thesis if "r = ''ingest'' \<and> me_has_org m \<or> r = ''org'' \<and> me_has_org m
      \<or> r = ''stats'' \<and> me_has_org m \<and> is_org_admin m \<or> r = ''tasks''"
    using that by (auto simp: defs start_targets plain_default_routes ingest_page_guard_def
        org_only_guard_def stats_page_guard_def)
  have l: ?thesis if "r = ''library/'' @ t" "t \<in> set library_tabs" "me_has_org m" for t
  proof -
    have "start_target r = (PgLibrary, [t])" "route_of (default_route_path r) = (PgLibrary, [t])"
      using that(1,2) library_routes_all start_targets(1) unfolding list_all_iff by force+
    then show ?thesis using that(2,3)
      by (simp add: defs library_page_guard_def is_library_tab_def)
  qed
  have i: ?thesis if "r = ''instance/'' @ t" "t \<in> set instance_tabs" "is_instance_admin m" for t
  proof -
    have "start_target r = (PgInstance, [])" "route_of (default_route_path r) = (PgInstance, [])"
      using that(1,2) instance_routes_all start_targets(2) unfolding list_all_iff by force+
    then show ?thesis using that(3) by (simp add: defs instance_only_guard_def)
  qed
  have s: ?thesis if "r = ''security/'' @ t" "t \<in> set security_tabs" "is_instance_admin m" for t
  proof -
    have "start_target r = (PgSecurity, [])" "route_of (default_route_path r) = (PgSecurity, [])"
      using that(1,2) security_routes_all start_targets(3) unfolding list_all_iff by force+
    then show ?thesis using that(3) by (simp add: defs instance_only_guard_def)
  qed
  show ?thesis using allowed_cases [OF assms] c l i s by (elim disjE imageE conjE) blast+
qed

text \<open>The start route in force: the stored one in its normal form, if the user may choose it.\<close>

definition fallback_route :: "me option \<Rightarrow> string" where
  "fallback_route m =
     (if me_has_org m then ''ingest'' else if is_instance_admin m then ''instance/stats'' else ''tasks'')"

definition home_route :: "me option \<Rightarrow> string" where
  "home_route m =
     (case normalize_default_route (map_option (\<lambda>x. user_default_route (me_user x)) m) of
        None \<Rightarrow> fallback_route m
      | Some r \<Rightarrow> if r \<in> set (allowed_default_routes m) then r else fallback_route m)"

lemma fallback_allowed: "fallback_route m \<in> set (allowed_default_routes m)"
  by (simp add: fallback_route_def allowed_default_routes_def instance_tabs_def)

lemma home_route_allowed: "home_route m \<in> set (allowed_default_routes m)"
  using fallback_allowed by (simp add: home_route_def split: option.split)

lemma home_path_of_route: "resolve_home_path m = default_route_path (home_route m)"
proof -
  have f: "default_route_path (fallback_route m) =
      (if me_has_org m then ingest_default else if is_instance_admin m then instance_path ''stats'' else ''/app/tasks'')"
    using instance_routes_all
    by (simp add: fallback_route_def plain_default_routes instance_tabs_def)
  have n: "normalize_default_route v \<noteq> Some []" for v
    by (auto simp: normalize_default_route_def is_default_route_def default_routes_def)
  show ?thesis unfolding resolve_home_path_def Let_def home_route_def f [symmetric]
    using n by (auto simp: truthy_def str_or_empty_def split: option.split)
qed

text \<open>C10: Once the session is ready and set up, the path a signed-in user is sent to opens without a further
  redirect, at the right page. With a step pending it is the page of the first pending one: the change of the
  password, then the second factor, then the agreement. With none it is the home path, which is the path of a start route the
  user may choose; the page that opens is the page of that route (for the library with the tab of the route),
  and one this user may see.\<close>

theorem home_path_opens:
  assumes "av_ready av" and "av_bootstrap_done av" and "av_me av = Some x"
    and p: "p = resolve_auth_continuation_path (Some x)"
  shows "if me_must_change_password x then p = ''/change-password'' \<and> render_path av p = Content PgChangePassword
    else if me_mfa_enrollment_required x then p = ''/enroll-2fa'' \<and> render_path av p = Content PgEnroll2fa
    else if me_user_agreement_required x then p = ''/accept-agreement'' \<and> render_path av p = Content PgAcceptAgreement
    else p = resolve_home_path (Some x)
      \<and> (\<exists>r \<in> set (allowed_default_routes (Some x)). p = default_route_path r
           \<and> route_of p = start_target r \<and> render_path av p = Content (fst (start_target r))
           \<and> page_open_to (Some x) (fst (start_target r)))"
proof (cases "resolve_auth_block_path (Some x)")
  case None
  then have h: "p = resolve_home_path (Some x)" by (simp add: p resolve_auth_continuation_path_def)
  have "gate av v = v" for v using assms(1-3) None by (simp add: gate_def)
  then have "render_path av p = Content (fst (start_target (home_route (Some x))))"
    using allowed_route_opens [OF home_route_allowed, of "Some x"] assms(3)
    by (cases "start_target (home_route (Some x))") (simp add: render_path_def h home_path_of_route route_opens_def)
  then show ?thesis
    using None h home_route_allowed [of "Some x"] allowed_route_opens [OF home_route_allowed, of "Some x"]
    by (auto simp: home_path_of_route route_opens_def resolve_auth_block_path_def split: if_splits)
next
  case (Some b)
  then show ?thesis using assms(1,3)
    by (auto simp: p resolve_auth_continuation_path_def resolve_auth_block_path_def render_fixed guard_defs
        split: if_splits)
qed

theorem home_path_opens_witness:
  "render_path (example_view (Some (example_me True False)))
      (resolve_auth_continuation_path (Some (example_me True False))) \<noteq> Content PgLanding"
proof -
  have c: "render_path (example_view (Some (example_me True False)))
      (resolve_auth_continuation_path (Some (example_me True False))) = Content pg \<Longrightarrow> page_open_to m pg \<Longrightarrow> ?thesis" for pg m
    by (auto simp: page_open_to_def)
  show ?thesis
    using home_path_opens [of "example_view (Some (example_me True False))" "example_me True False", OF _ _ _ refl] c
    by (fastforce simp: example_view_def example_me_def)
qed

text \<open>C11: The home path is that of the stored start route, in its normal form, exactly when this is one of the routes the user may
  choose, and else that of the user's first page (ingest with an organisation, the instance for its administrator, the tasks); so
  it is always the path of a route the user may choose. Different routes have different paths. The routes a
  user may choose are known, in normal form and listed once. The legacy names \<open>library\<close>, \<open>skills\<close> and \<open>instance\<close>
  become \<open>library/audio\<close>, \<open>library/skills\<close> and \<open>instance/stats\<close>; every other known route stays as it is, and any other text
  is no route.\<close>

theorem start_routes_known:
  "resolve_home_path m =
     (case normalize_default_route (map_option (\<lambda>x. user_default_route (me_user x)) m) of
        Some r \<Rightarrow> default_route_path (if r \<in> set (allowed_default_routes m) then r else fallback_route m)
      | None \<Rightarrow> default_route_path (fallback_route m))
   \<and> fallback_route m \<in> set (allowed_default_routes m)
   \<and> inj_on default_route_path (set (allowed_default_routes m))
   \<and> (\<forall>r \<in> set (allowed_default_routes m).
        is_default_route (Some r) \<and> normalize_default_route (Some r) = Some r)
   \<and> distinct (allowed_default_routes m)
   \<and> normalize_default_route v =
       (if v = Some ''library'' then Some ''library/audio''
        else if v = Some ''skills'' then Some ''library/skills''
        else if v = Some ''instance'' then Some ''instance/stats''
        else if v \<in> Some ` set default_routes then v else None)"
proof -
  have all: "list_all (\<lambda>r. normalize_default_route (Some r) \<in> Some ` set default_routes
      \<and> (r \<notin> {''skills'', ''instance''} \<longrightarrow> normalize_default_route (Some r) = Some r)) default_routes"
    by code_simp
  have lists: "list_all (\<lambda>t. ''library/'' @ t \<in> set default_routes) library_tabs"
      "list_all (\<lambda>t. ''instance/'' @ t \<in> set default_routes) instance_tabs"
      "list_all (\<lambda>t. ''security/'' @ t \<in> set default_routes) security_tabs"
      "list_all (\<lambda>r. r \<in> set default_routes) [''ingest'', ''org'', ''stats'', ''tasks'']"
    by code_simp+
  have known: "r \<in> set default_routes \<and> r \<notin> {''skills'', ''instance''}"
    if "r \<in> set (allowed_default_routes m)" for r
    using allowed_cases [OF that] lists by (elim disjE conjE imageE) (auto simp: list_all_iff)
  have norm: "normalize_default_route (Some r) = Some r"
    if "r \<in> set default_routes" "r \<notin> {''skills'', ''instance''}" for r
    using all that by (auto simp: list_all_iff)
  have "distinct (map default_route_path (filter (\<lambda>r. r \<notin> {''skills'', ''instance''}) default_routes))"
    by code_simp
  then have "inj_on default_route_path (set (filter (\<lambda>r. r \<notin> {''skills'', ''instance''}) default_routes))"
    by (simp add: distinct_map)
  then have "inj_on default_route_path (set (allowed_default_routes m))"
    using known by (auto elim!: inj_on_subset)
  moreover have "distinct (allowed_default_routes m)"
    unfolding allowed_default_routes_def
    by (cases "me_has_org m"; cases "is_org_admin m"; cases "is_instance_admin m";
        simp only: if_True if_False; code_simp)
  ultimately show ?thesis using known norm home_path_of_route [of m] fallback_allowed [of m]
    by (auto simp: is_default_route_def normalize_default_route_def home_route_def split: option.split)
qed

text \<open>C12: A library path carries its filters unchanged: whatever characters the source id and
  the tag contain, reading the query of the path gives them back, the path leads to the library page
  with its tab, and empty filters leave no parameter. The instance and security paths open on the tab
  they were built for.\<close>

theorem tab_paths_read_back:
  assumes "tab \<in> set library_tabs"
  shows "params_get (params_parse (query_of (library_path tab source tag))) ''source''
      = (if truthy source then source else None)
    \<and> params_get (params_parse (query_of (library_path tab source tag))) ''tag''
      = (if truthy tag then tag else None)
    \<and> route_of (library_path tab source tag) = (PgLibrary, [tab])
    \<and> (\<forall>t \<in> set instance_tabs.
         resolve_instance_tab (params_get (params_parse (query_of (instance_path t))) ''tab'') = t)
    \<and> (\<forall>t \<in> set security_tabs.
         resolve_security_tab (params_get (params_parse (query_of (security_path t))) ''tab'') = t)"
proof -
  define p1 where "p1 = (if truthy source then params_set ''source'' (str_or_empty source) [] else [])"
  define p2 where "p2 = (if truthy tag then params_set ''tag'' (str_or_empty tag) p1 else p1)"
  let ?base = "''/app/library/'' @ tab"
  have path: "library_path tab source tag =
      (if params_to_string p2 \<noteq> [] then ?base @ CHR ''?'' # params_to_string p2 else ?base)"
    by (simp add: library_path_def Let_def p1_def p2_def)
  have clean: "CHR ''?'' \<notin> set ?base" using assms by (auto simp: library_tabs_def)
  have q: "params_parse (query_of (library_path tab source tag)) = p2"
    using params_parse_to_string [of p2] query_of_append [OF clean] query_of_none [OF clean]
    by (cases "p2 = []") (simp_all add: path del: append_Cons append_assoc)
  have "route_of (library_path tab source tag) = route_of ?base"
    using path_segments_query [OF clean] by (simp add: path route_of_def)
  moreover have "library_path tab None None = ?base" by (simp add: library_path_def)
  moreover have "route_of (library_path tab None None) = (PgLibrary, [tab])"
    using library_routes_all assms unfolding list_all_iff by blast
  ultimately have r: "route_of (library_path tab source tag) = (PgLibrary, [tab])" by (simp only:)
  have it: "resolve_instance_tab (params_get (params_parse (query_of (instance_path t))) ''tab'') = t"
    if "t \<in> set instance_tabs" for t
    using that instance_routes_all by (auto simp: list_all_iff resolve_instance_tab_def)
  have st: "resolve_security_tab (params_get (params_parse (query_of (security_path t))) ''tab'') = t"
    if "t \<in> set security_tabs" for t
    using that security_routes_all by (auto simp: list_all_iff resolve_security_tab_def)
  show ?thesis unfolding q
    using r it st by (cases source; cases tag) (simp_all add: p1_def p2_def params_get_def)
qed

theorem tab_paths_read_back_witness:
  "params_get (params_parse (query_of (library_path ''audio'' (Some ''a&b=c'') None))) ''source''
     = Some ''a&b=c''
   \<and> route_of (library_path ''audio'' (Some ''a&b=c'') None) = (PgLibrary, [''audio''])"
  using tab_paths_read_back [of "''audio''" "Some ''a&b=c''" None] by (simp add: library_tabs_def)

theorem start_routes_known_witness:
  "is_default_route (Some ''tasks'') \<and> normalize_default_route (Some ''tasks'') = Some ''tasks''"
proof -
  have "''tasks'' \<in> set (allowed_default_routes None)" by (simp add: allowed_default_routes_def)
  then show ?thesis using start_routes_known [of None None] by blast
qed

end
