(* ===== verification/Api_Client.thy ===== *)
theory Api_Client
  imports Hub_Effects
begin

text \<open>
  \<open>web/src/api.ts\<close>: every HTTP request of the client. The state holds the cached CSRF token,
  the readable cookies, the stored locale, the log of requests sent and of files saved. The
  server answers a request by a function of the whole log up to that request, so it may answer
  the same request differently each time; \<open>None\<close> is a network failure. The other theories
  use \<open>api_call\<close> of \<open>Hub_Effects\<close>, one logical request with its final answer.
\<close>

section \<open>Requests and responses\<close>

datatype http_body = NoBody | TextBody string | FormBody "form_part list"

record http_request =
  rq_method :: string
  rq_url :: string
  rq_headers :: "(string \<times> string) list"
  rq_body :: http_body

text \<open>Header names are in lower case (they compare without case). \<open>rs_cookie\<close> is the new value
  of \<open>document.cookie\<close> when the response changes it.\<close>

record http_response =
  rs_status :: nat
  rs_status_text :: string
  rs_text :: string
  rs_retry_after :: "string option"
  rs_disposition :: "string option"
  rs_cookie :: "string option"

record request_init =
  ri_method :: "string option"
  ri_headers :: "(string \<times> string) list"
  ri_body :: http_body

record http_state =
  hs_cached_csrf :: "string option"
  hs_cookie :: string
  hs_locale :: "string option"
  hs_log :: "http_request list"
  hs_saved :: "(string \<times> string) list"

type_synonym server = "http_request list \<Rightarrow> http_response option"

definition no_init :: request_init where
  "no_init = \<lparr>ri_method = None, ri_headers = [], ri_body = NoBody\<rparr>"

section \<open>The CSRF token\<close>

definition remember_csrf_token :: "json \<Rightarrow> http_state \<Rightarrow> http_state" where
  "remember_csrf_token data s =
     (let token = json_string (json_field data ''csrf_token'') in
      if truthy token then s\<lparr>hs_cached_csrf := token\<rparr> else s)"

text \<open>\<open>decodeURIComponent\<close>, \<open>None\<close> where it throws; a character beyond the model's alphabet
  counts as malformed.\<close>

fun decode_uri_component :: "string \<Rightarrow> string option" where
  "decode_uri_component [] = Some []"
| "decode_uri_component (c # s) =
     (if c \<noteq> CHR ''%'' then map_option (\<lambda>r. c # r) (decode_uri_component s)
      else (case s of
              a # b # s' \<Rightarrow>
                (case (hex_pos hex_upper a, hex_pos hex_upper b) of
                   (Some x, Some y) \<Rightarrow>
                     (if 16 * x + y < 128
                      then map_option (\<lambda>r. char_of (16 * x + y) # r) (decode_uri_component s')
                      else (case s' of
                              p # d # e # s'' \<Rightarrow>
                                (case (hex_pos hex_upper d, hex_pos hex_upper e) of
                                   (Some z, Some w) \<Rightarrow>
                                     (if p = CHR ''%'' \<and> x = 12 \<and> 2 \<le> y \<and> y \<le> 3 \<and> 8 \<le> z \<and> z < 12
                                      then map_option
                                             (\<lambda>r. char_of ((16 * x + y - 192) * 64 + (16 * z + w - 128)) # r)
                                             (decode_uri_component s'')
                                      else None)
                                 | _ \<Rightarrow> None)
                            | _ \<Rightarrow> None))
                 | _ \<Rightarrow> None)
            | _ \<Rightarrow> None))"

text \<open>The match of \<open>/(?:^|; )hub_csrf=([^;]*)/\<close>: the flag says whether a cookie may start here.\<close>

fun csrf_match :: "bool \<Rightarrow> string \<Rightarrow> string option" where
  "csrf_match start [] = None"
| "csrf_match start (c # s) =
     (if start \<and> starts_with (c # s) ''hub_csrf=''
      then Some (takeWhile (\<lambda>d. d \<noteq> CHR '';'') (drop 9 (c # s)))
      else if starts_with (c # s) ''; hub_csrf=''
      then Some (takeWhile (\<lambda>d. d \<noteq> CHR '';'') (drop 11 (c # s)))
      else csrf_match False s)"

definition csrf_from_cookie :: "http_state \<Rightarrow> exn + string option" where
  "csrf_from_cookie s =
     (case csrf_match True (hs_cookie s) of
        None \<Rightarrow> Inr None
      | Some v \<Rightarrow> (case decode_uri_component v of
                    Some t \<Rightarrow> Inr (Some t) | None \<Rightarrow> Inl (JsError ''URI malformed'')))"

definition csrf_token :: "http_state \<Rightarrow> exn + string option" where
  "csrf_token s = (if truthy (hs_cached_csrf s) then Inr (hs_cached_csrf s) else csrf_from_cookie s)"

definition has_header :: "string \<Rightarrow> (string \<times> string) list \<Rightarrow> bool" where
  "has_header k hs \<longleftrightarrow> k \<in> fst ` set hs"

definition unsafe_methods :: "string list" where
  "unsafe_methods = [''POST'', ''PUT'', ''PATCH'', ''DELETE'']"

definition apply_csrf_header ::
  "(string \<times> string) list \<Rightarrow> string \<Rightarrow> http_state \<Rightarrow> exn + (string \<times> string) list" where
  "apply_csrf_header hs mth s =
     (if to_upper mth \<notin> set unsafe_methods then Inr hs
      else (case csrf_token s of
              Inl e \<Rightarrow> Inl e
            | Inr token \<Rightarrow>
                Inr (if truthy token \<and> \<not> has_header ''x-csrf-token'' hs
                     then hs @ [(''x-csrf-token'', str_or_empty token)] else hs)))"

section \<open>One request\<close>

definition init_headers :: "request_init \<Rightarrow> http_state \<Rightarrow> (string \<times> string) list" where
  "init_headers opts s =
     (let h0 = ri_headers opts;
          h1 = (case ri_body opts of
                  TextBody b \<Rightarrow> if b \<noteq> [] \<and> \<not> has_header ''content-type'' h0
                               then h0 @ [(''content-type'', ''application/json'')] else h0
                | _ \<Rightarrow> h0) in
      if \<not> has_header ''accept-language'' h1
      then h1 @ [(''accept-language'', or_default (hs_locale s) ''en'')] else h1)"

definition send_request ::
  "server \<Rightarrow> http_request \<Rightarrow> http_state \<Rightarrow> http_response option \<times> http_state" where
  "send_request srv rq s =
     (let log = hs_log s @ [rq]; r = srv log; s1 = s\<lparr>hs_log := log\<rparr> in
      (r, (case Option.bind r rs_cookie of None \<Rightarrow> s1 | Some c \<Rightarrow> s1\<lparr>hs_cookie := c\<rparr>)))"

definition parse_json :: "string \<Rightarrow> json" where
  "parse_json txt = (if txt = [] then JNull else nullish (json_parse txt) JNull)"

definition status_ok :: "http_response \<Rightarrow> bool" where
  "status_ok r \<longleftrightarrow> 200 \<le> rs_status r \<and> rs_status r < 300"

text \<open>A code or message that is no text counts as absent; the code passes such a value on.\<close>

definition error_field :: "json \<Rightarrow> string \<Rightarrow> string option" where
  "error_field body k = json_string (Option.bind (json_field body ''error'') (\<lambda>e. json_field e k))"

definition error_code :: "json \<Rightarrow> http_response \<Rightarrow> string" where
  "error_code body r = or_default (error_field body ''code'') (''http_'' @ nat_str (rs_status r))"

definition error_message :: "json \<Rightarrow> http_response \<Rightarrow> string" where
  "error_message body r = or_default (error_field body ''message'') (rs_status_text r)"

text \<open>\<open>Number.parseInt (s, 10)\<close>, kept when it is positive.\<close>

definition positive_int :: "string \<Rightarrow> int option" where
  "positive_int s =
     (let t = trim_left s;
          neg = starts_with t ''-'';
          u = (if neg \<or> starts_with t ''+'' then drop 1 t else t);
          ds = takeWhile is_digit u in
      if ds = [] \<or> neg \<or> parse_digits ds = 0 then None else Some (int (parse_digits ds)))"

definition retry_after :: "http_response \<Rightarrow> int option" where
  "retry_after r = (if truthy (rs_retry_after r) then positive_int (str_or_empty (rs_retry_after r)) else None)"

definition network_failure :: exn where
  "network_failure = JsError ''Failed to fetch''"

text \<open>
  \<open>api\<close>: at most one retry, after a fresh token from \<open>/me\<close>. The retry is the value of the
  function (a promise that is returned, not awaited), so its failure is not caught.
\<close>

function api ::
  "server \<Rightarrow> string \<Rightarrow> request_init \<Rightarrow> bool \<Rightarrow> http_state \<Rightarrow> (exn + json) \<times> http_state" where
  "api srv path opts retried s =
     (case apply_csrf_header (init_headers opts s) (nullish (ri_method opts) ''GET'') s of
        Inl e \<Rightarrow> (Inl e, s)
      | Inr headers \<Rightarrow>
          (case send_request srv
                  \<lparr>rq_method = nullish (ri_method opts) ''GET'', rq_url = ''/api/v1'' @ path,
                   rq_headers = headers, rq_body = ri_body opts\<rparr> s of
             (None, s1) \<Rightarrow> (Inl network_failure, s1)
           | (Some res, s1) \<Rightarrow>
               (let body = parse_json (rs_text res) in
                if \<not> status_ok res
                then (let code = error_code body res;
                          err = ApiError code (error_message body res) (retry_after res) in
                      if \<not> retried \<and> code = ''csrf_invalid'' \<and> path \<noteq> ''/me''
                      then (case api srv ''/me'' no_init False (s1\<lparr>hs_cached_csrf := None\<rparr>) of
                              (Inr _, s2) \<Rightarrow> api srv path opts True s2
                            | (Inl _, s2) \<Rightarrow> (Inl err, s2))
                      else (Inl err, s1))
                else (Inr body, remember_csrf_token body s1))))"
  by pat_completeness auto

termination
  by (relation "measure (\<lambda>(srv, path, opts, retried, s).
        if path = ''/me'' then 0 else if retried then 1 else (2::nat))") auto

declare api.simps [simp del]

section \<open>Downloads\<close>

text \<open>First match of a case-insensitive prefix followed by a non-empty run without \<open>stop\<close>.\<close>

fun search_group :: "string \<Rightarrow> char \<Rightarrow> bool \<Rightarrow> string \<Rightarrow> string option" where
  "search_group pre stop quoted [] = None"
| "search_group pre stop quoted (c # s) =
     (let rest = drop (length pre) (c # s); g = takeWhile (\<lambda>d. d \<noteq> stop) rest in
      if starts_with (to_lower (c # s)) pre \<and> g \<noteq> [] \<and> (\<not> quoted \<or> length g < length rest)
      then Some g else search_group pre stop quoted s)"

definition filename_from_disposition :: "string option \<Rightarrow> string option" where
  "filename_from_disposition header =
     (if \<not> truthy header then None
      else (let h = str_or_empty header in
        case search_group (''filename*=utf-8'' @ [CHR 0x27, CHR 0x27]) (CHR '';'') False h of
          Some g \<Rightarrow> Some (nullish (decode_uri_component g) g)
        | None \<Rightarrow> search_group (''filename='' @ [CHR 0x22]) (CHR 0x22) True h))"

definition api_download ::
  "server \<Rightarrow> string \<Rightarrow> string option \<Rightarrow> http_state \<Rightarrow> (exn + unit) \<times> http_state" where
  "api_download srv path filename s =
     (case send_request srv
             \<lparr>rq_method = ''GET'', rq_url = ''/api/v1'' @ path,
              rq_headers = [(''accept-language'', or_default (hs_locale s) ''en'')], rq_body = NoBody\<rparr> s of
        (None, s1) \<Rightarrow> (Inl network_failure, s1)
      | (Some res, s1) \<Rightarrow>
          if \<not> status_ok res
          then (let body = parse_json (rs_text res) in
                (Inl (ApiError (error_code body res) (error_message body res) None), s1))
          else (let name = or_default filename
                             (or_default (filename_from_disposition (rs_disposition res)) ''download'') in
                (Inr (), s1\<lparr>hs_saved := hs_saved s1 @ [(name, rs_text res)]\<rparr>)))"

section \<open>Uploads\<close>

text \<open>The progress callbacks for the events of \<open>xhr.upload\<close>: (computable, loaded, total).\<close>

definition upload_progress :: "(bool \<times> nat \<times> nat) list \<Rightarrow> (nat \<times> nat) list" where
  "upload_progress evs =
     (let calls = map snd (filter fst evs);
          last_total = (if calls = [] then 0 else snd (last calls)) in
      calls @ (if 0 < last_total then [(last_total, last_total)] else []))"

definition upload_headers :: "http_state \<Rightarrow> string option \<Rightarrow> (string \<times> string) list" where
  "upload_headers s token =
     [(''accept-language'', or_default (hs_locale s) ''en'')]
     @ (if truthy token then [(''x-csrf-token'', str_or_empty token)] else [])"

text \<open>
  \<open>apiUpload\<close>: on a rejected token it refreshes the token and starts over, as often as the
  server rejects it; \<open>None\<close> is an upload that never settles.
\<close>

partial_function (option) api_upload ::
  "server \<Rightarrow> string \<Rightarrow> form_part list \<Rightarrow> http_state \<Rightarrow> ((exn + json) \<times> http_state) option" where
  "api_upload srv path body s =
     (case csrf_token s of
        Inl e \<Rightarrow> Some (Inl e, s)
      | Inr token \<Rightarrow>
          (case send_request srv
                  \<lparr>rq_method = ''POST'', rq_url = ''/api/v1'' @ path,
                   rq_headers = upload_headers s token, rq_body = FormBody body\<rparr> s of
             (None, s1) \<Rightarrow> Some (Inl (ApiError ''network_error'' ''Network error'' None), s1)
           | (Some res, s1) \<Rightarrow>
               (let data = parse_json (rs_text res); s2 = remember_csrf_token data s1 in
                if \<not> status_ok res
                then (if rs_status res = 403 \<and> error_field data ''code'' = Some ''csrf_invalid''
                      then (case api srv ''/me'' no_init False s2 of
                              (Inr _, s3) \<Rightarrow> api_upload srv path body s3
                            | (Inl _, s3) \<Rightarrow>
                                Some (Inl (ApiError ''csrf_invalid'' (error_message data res) None), s3))
                      else Some (Inl (ApiError (error_code data res) (error_message data res) None), s2))
                else Some (Inr data, s2))))"

section \<open>Lemmas\<close>

lemma send_request_log:
  "send_request srv rq s = (r, s1) \<Longrightarrow> hs_log s1 = hs_log s @ [rq] \<and> r = srv (hs_log s @ [rq])
     \<and> hs_cached_csrf s1 = hs_cached_csrf s \<and> hs_saved s1 = hs_saved s \<and> hs_locale s1 = hs_locale s"
  by (auto simp: send_request_def Let_def split: option.splits)

lemma remember_frames [simp]:
  "hs_log (remember_csrf_token d s) = hs_log s" "hs_cookie (remember_csrf_token d s) = hs_cookie s"
  "hs_saved (remember_csrf_token d s) = hs_saved s" "hs_locale (remember_csrf_token d s) = hs_locale s"
  by (simp_all add: remember_csrf_token_def Let_def)

text \<open>A retried call, and a call of \<open>/me\<close>, is a single request; every other call is one or two
  of them around a refresh.\<close>

definition plain_request :: "string \<Rightarrow> request_init \<Rightarrow> (string \<times> string) list \<Rightarrow> http_request" where
  "plain_request path opts hs =
     \<lparr>rq_method = nullish (ri_method opts) ''GET'', rq_url = ''/api/v1'' @ path,
      rq_headers = hs, rq_body = ri_body opts\<rparr>"

lemma api_me: "api srv ''/me'' opts retried s = api srv ''/me'' opts True s"
  by (simp add: api.simps [of srv "''/me''" opts retried s] api.simps [of srv "''/me''" opts True s]
        Let_def split: sum.split option.split prod.split)

lemma api_retry:
  assumes "path \<noteq> ''/me''"
  shows "api srv path opts False s =
    (case api srv path opts True s of
       (Inl (ApiError c m ra), s1) \<Rightarrow>
         if c = ''csrf_invalid''
         then (case api srv ''/me'' no_init False (s1\<lparr>hs_cached_csrf := None\<rparr>) of
                 (Inr _, s2) \<Rightarrow> api srv path opts True s2
               | (Inl _, s2) \<Rightarrow> (Inl (ApiError c m ra), s2))
         else (Inl (ApiError c m ra), s1)
     | x \<Rightarrow> x)"
proof -
  have e: "apply_csrf_header hs m u = Inl e \<Longrightarrow> \<exists>t. e = JsError t" for hs m u e
    by (auto simp: apply_csrf_header_def csrf_token_def csrf_from_cookie_def
        split: if_splits option.splits sum.splits)
  show ?thesis
    using assms
    by (simp only: api.simps [of srv path opts False s] api.simps [of srv path opts True s])
       (auto simp: Let_def network_failure_def dest: e split: sum.splits option.splits prod.splits)
qed

definition answered :: "server \<Rightarrow> http_state \<Rightarrow> exn + json \<Rightarrow> bool" where
  "answered srv s' r =
     (case srv (hs_log s') of
        None \<Rightarrow> r = Inl network_failure
      | Some res \<Rightarrow>
          (let d = parse_json (rs_text res) in
           if status_ok res
           then r = Inr d \<and> (truthy (json_string (json_field d ''csrf_token''))
                  \<longrightarrow> hs_cached_csrf s' = json_string (json_field d ''csrf_token''))
           else r = Inl (ApiError (error_code d res) (error_message d res) (retry_after res))))"

lemma api_single:
  assumes "api srv path opts True s = (r, s')"
  shows "(\<exists>e. apply_csrf_header (init_headers opts s) (nullish (ri_method opts) ''GET'') s = Inl e
            \<and> r = Inl e \<and> s' = s)
    \<or> (\<exists>hs. apply_csrf_header (init_headers opts s) (nullish (ri_method opts) ''GET'') s = Inr hs
        \<and> hs_log s' = hs_log s @ [plain_request path opts hs] \<and> answered srv s' r)"
proof (cases "apply_csrf_header (init_headers opts s) (nullish (ri_method opts) ''GET'') s")
  case (Inl e)
  then show ?thesis using assms by (subst (asm) api.simps) simp
next
  case (Inr hs)
  obtain q s1 where q: "send_request srv (plain_request path opts hs) s = (q, s1)" by fastforce
  note l = send_request_log [OF q]
  show ?thesis
    using assms Inr q l
    by (subst (asm) api.simps)
       (auto simp: answered_def plain_request_def Let_def remember_csrf_token_def
         split: option.splits if_splits)
qed

lemma has_header_append [simp]: "has_header k (hs @ hs') \<longleftrightarrow> has_header k hs \<or> has_header k hs'"
  by (auto simp: has_header_def)

lemma has_header_single [simp]: "has_header k [(k', v)] \<longleftrightarrow> k = k'"
  by (auto simp: has_header_def)

lemma init_headers_csrf:
  "has_header ''x-csrf-token'' (init_headers opts s) \<longleftrightarrow> has_header ''x-csrf-token'' (ri_headers opts)"
  by (auto simp: init_headers_def Let_def split: http_body.splits)

lemma apply_csrf_safe:
  "apply_csrf_header hs m s = Inr hs' \<Longrightarrow> to_upper m \<notin> set unsafe_methods \<Longrightarrow> hs' = hs"
  by (simp add: apply_csrf_header_def split: if_splits)

text \<open>A request that may not carry the token does not carry it.\<close>

definition csrf_clean :: "request_init \<Rightarrow> http_request \<Rightarrow> bool" where
  "csrf_clean opts rq \<longleftrightarrow>
     (to_upper (rq_method rq) \<notin> set unsafe_methods \<and> \<not> has_header ''x-csrf-token'' (ri_headers opts)
        \<longrightarrow> \<not> has_header ''x-csrf-token'' (rq_headers rq))"

lemma apply_csrf_js: "apply_csrf_header hs m s = Inl e \<Longrightarrow> \<exists>t. e = JsError t"
  by (auto simp: apply_csrf_header_def csrf_token_def csrf_from_cookie_def
      split: if_splits option.splits sum.splits)

lemma single_log:
  assumes "api srv path opts True s = (r, s')"
  shows "(hs_log s' = hs_log s \<and> (\<exists>e. r = Inl (JsError e)))
    \<or> (\<exists>rq. hs_log s' = hs_log s @ [rq] \<and> rq_url rq = ''/api/v1'' @ path \<and> csrf_clean opts rq)"
proof -
  have c: "csrf_clean opts (plain_request path opts hs)"
    if "apply_csrf_header (init_headers opts s) (nullish (ri_method opts) ''GET'') s = Inr hs" for hs
    using apply_csrf_safe [OF that] init_headers_csrf [of opts s]
    by (auto simp: csrf_clean_def plain_request_def)
  show ?thesis
    using api_single [OF assms] c apply_csrf_js
    by (elim disjE exE conjE) (force simp: plain_request_def)+
qed

lemma me_log:
  assumes "api srv ''/me'' no_init False s = (r, s')"
  shows "\<exists>rq. hs_log s' = hs_log s @ [rq] \<and> rq_url rq = ''/api/v1/me''
    \<and> \<not> has_header ''x-csrf-token'' (rq_headers rq)"
proof -
  have g: "to_upper (nullish (ri_method no_init) ''GET'') \<notin> set unsafe_methods"
    by code_simp
  have h: "apply_csrf_header (init_headers no_init s) (nullish (ri_method no_init) ''GET'') s
      = Inr (init_headers no_init s)"
    using g by (simp add: apply_csrf_header_def)
  have n: "\<not> has_header ''x-csrf-token'' (init_headers no_init s)"
    unfolding init_headers_csrf by (simp add: no_init_def has_header_def)
  have "api srv ''/me'' no_init True s = (r, s')" using assms by (metis api_me)
  from api_single [OF this] show ?thesis using h n by (auto simp: plain_request_def)
qed

text \<open>What a result owes to the answers of the server.\<close>

definition failed_answer ::
  "server \<Rightarrow> http_state \<Rightarrow> http_state \<Rightarrow> string \<Rightarrow> string \<Rightarrow> int option \<Rightarrow> bool" where
  "failed_answer srv s s' c m ra \<longleftrightarrow>
     (\<exists>n res. length (hs_log s) < n \<and> n \<le> length (hs_log s') \<and> srv (take n (hs_log s')) = Some res
        \<and> \<not> status_ok res \<and> c = error_code (parse_json (rs_text res)) res
        \<and> m = error_message (parse_json (rs_text res)) res \<and> ra = retry_after res)"

definition final_answer :: "server \<Rightarrow> http_state \<Rightarrow> json \<Rightarrow> bool" where
  "final_answer srv s' d \<longleftrightarrow>
     (\<exists>res. srv (hs_log s') = Some res \<and> status_ok res \<and> d = parse_json (rs_text res)
        \<and> (\<forall>t. json_string (json_field d ''csrf_token'') = Some t \<and> t \<noteq> []
             \<longrightarrow> hs_cached_csrf s' = Some t))"

lemma single_final:
  assumes "api srv path opts True s = (Inr d, s')"
  shows "final_answer srv s' d"
proof -
  have "answered srv s' (Inr d)" using api_single [OF assms] by blast
  then show ?thesis unfolding answered_def final_answer_def
    by (cases "srv (hs_log s')") (auto simp: Let_def truthy_def split: if_splits option.splits)
qed

lemma single_failed:
  "api srv path opts True s = (Inl (ApiError c m ra), s') \<Longrightarrow> failed_answer srv s s' c m ra"
proof -
  assume a: "api srv path opts True s = (Inl (ApiError c m ra), s')"
  from single_log [OF a] obtain rq where l: "hs_log s' = hs_log s @ [rq]" by auto
  have "answered srv s' (Inl (ApiError c m ra))" using api_single [OF a] l apply_csrf_js by fastforce
  then obtain res where
    "srv (hs_log s') = Some res" "\<not> status_ok res" "c = error_code (parse_json (rs_text res)) res"
    "m = error_message (parse_json (rs_text res)) res" "ra = retry_after res"
    unfolding answered_def
    by (cases "srv (hs_log s')") (auto simp: Let_def network_failure_def split: if_splits)
  then show ?thesis unfolding failed_answer_def
    by (intro exI [of _ "length (hs_log s')"] exI [of _ res]) (simp add: l)
qed

lemma failed_answer_later:
  assumes "failed_answer srv s s1 c m ra" and "hs_log s2 = hs_log s1 @ rqs"
  shows "failed_answer srv s s2 c m ra"
proof -
  from assms(1) obtain n res where "length (hs_log s) < n \<and> n \<le> length (hs_log s1)
      \<and> srv (take n (hs_log s1)) = Some res \<and> \<not> status_ok res
      \<and> c = error_code (parse_json (rs_text res)) res
      \<and> m = error_message (parse_json (rs_text res)) res \<and> ra = retry_after res"
    unfolding failed_answer_def by blast
  then show ?thesis unfolding failed_answer_def
    by (intro exI [of _ n] exI [of _ res]) (simp add: assms(2))
qed

lemma failed_answer_earlier:
  assumes "failed_answer srv s1 s2 c m ra" and "length (hs_log s) \<le> length (hs_log s1)"
  shows "failed_answer srv s s2 c m ra"
proof -
  from assms(1) obtain n where n: "length (hs_log s1) < n" and
    r: "\<exists>res. n \<le> length (hs_log s2) \<and> srv (take n (hs_log s2)) = Some res \<and> \<not> status_ok res
      \<and> c = error_code (parse_json (rs_text res)) res
      \<and> m = error_message (parse_json (rs_text res)) res \<and> ra = retry_after res"
    unfolding failed_answer_def by blast
  have "length (hs_log s) < n" using assms(2) n by simp
  then show ?thesis using r unfolding failed_answer_def by blast
qed

lemma api_cases:
  assumes "api srv path opts retried s = (r, s')"
  obtains (single) "api srv path opts True s = (r, s')"
  | (refresh_failed) m ra s1 e where "api srv path opts True s = (r, s1)"
      "r = Inl (ApiError ''csrf_invalid'' m ra)"
      "api srv ''/me'' no_init False (s1\<lparr>hs_cached_csrf := None\<rparr>) = (Inl e, s')"
  | (again) m ra s1 j s2 where "api srv path opts True s = (Inl (ApiError ''csrf_invalid'' m ra), s1)"
      "api srv ''/me'' no_init False (s1\<lparr>hs_cached_csrf := None\<rparr>) = (Inr j, s2)"
      "api srv path opts True s2 = (r, s')"
proof (cases "retried \<or> path = ''/me''")
  case True
  then show ?thesis using assms single by (metis api_me)
next
  case False
  obtain r1 s1 where 1: "api srv path opts True s = (r1, s1)" by fastforce
  note u = api_retry [of path srv opts s]
  show ?thesis
  proof (cases "\<exists>m ra. r1 = Inl (ApiError ''csrf_invalid'' m ra)")
    case True
    then obtain m ra where r1: "r1 = Inl (ApiError ''csrf_invalid'' m ra)" by blast
    obtain r2 s2 where 2: "api srv ''/me'' no_init False (s1\<lparr>hs_cached_csrf := None\<rparr>) = (r2, s2)"
      by fastforce
    show ?thesis
      using assms u False 1 2 r1 refresh_failed again by (cases r2) auto
  next
    case f: False
    then have "r = r1 \<and> s' = s1"
      using assms u False 1 by (cases r1) (auto split: exn.splits if_splits)
    then show ?thesis using single 1 by simp
  qed
qed

section \<open>Properties\<close>

text \<open>The server rejected the token of the last of these requests.\<close>

definition token_rejected :: "server \<Rightarrow> http_request list \<Rightarrow> bool" where
  "token_rejected srv rqs \<longleftrightarrow>
     (case srv rqs of
        None \<Rightarrow> False
      | Some res \<Rightarrow> \<not> status_ok res \<and> error_code (parse_json (rs_text res)) res = ''csrf_invalid'')"

lemma single_rejected:
  assumes "api srv path opts True s = (r, s')" "hs_log s' \<noteq> hs_log s"
  shows "token_rejected srv (hs_log s') \<longleftrightarrow> (\<exists>m ra. r = Inl (ApiError ''csrf_invalid'' m ra))"
proof -
  have "answered srv s' r" using api_single [OF assms(1)] assms(2) by auto
  then show ?thesis
    by (auto simp: token_rejected_def answered_def Let_def network_failure_def split: option.splits if_splits)
qed

lemma single_answered:
  assumes "api srv path opts retried s = (Inr d, s')" "path = ''/me''"
  shows "\<exists>res. srv (hs_log s') = Some res \<and> status_ok res"
proof -
  have "api srv path opts True s = (Inr d, s')" using assms by (metis api_me)
  from single_final [OF this] show ?thesis by (auto simp: final_answer_def)
qed


definition json_response :: "nat \<Rightarrow> string \<Rightarrow> http_response" where
  "json_response st txt =
     \<lparr>rs_status = st, rs_status_text = ''status'', rs_text = txt, rs_retry_after = None,
      rs_disposition = None, rs_cookie = None\<rparr>"

definition csrf_error_text :: string where
  "csrf_error_text =
     json_stringify (JObj [(''error'', JObj [(''code'', JStr ''csrf_invalid'')])])"

text \<open>A server that answers \<open>/me\<close> and rejects the token of everything else.\<close>

definition rejecting_server :: server where
  "rejecting_server rqs =
     (if rqs \<noteq> [] \<and> rq_url (last rqs) = ''/api/v1/me'' then Some (json_response 200 ''null'')
      else Some (json_response 403 csrf_error_text))"

definition fresh_http :: http_state where
  "fresh_http = \<lparr>hs_cached_csrf = None, hs_cookie = [], hs_locale = None, hs_log = [], hs_saved = []\<rparr>"


text \<open>C14: A call of \<open>api\<close> succeeds only with the server's own answer: the value is the parsed
  text of the last answer of the call, which has a success status, and a CSRF token in it is the one cached for
  the next call. An API error carries the code, message and retry delay of one failing answer among
  those the call received. Any other failure is a network failure, when the last request got no answer, or, for
  a method that needs the token, a cookie whose token cannot be decoded.\<close>

theorem api_result_from_server:
  assumes "api srv path opts retried s = (r, s')"
  shows "case r of
      Inr d \<Rightarrow> (\<exists>res. length (hs_log s) < length (hs_log s') \<and> srv (hs_log s') = Some res \<and> status_ok res
        \<and> d = parse_json (rs_text res)
        \<and> (\<forall>t. json_string (json_field d ''csrf_token'') = Some t \<and> t \<noteq> [] \<longrightarrow> hs_cached_csrf s' = Some t))
    | Inl (ApiError c m ra) \<Rightarrow>
        (\<exists>n res. length (hs_log s) < n \<and> n \<le> length (hs_log s') \<and> srv (take n (hs_log s')) = Some res
          \<and> \<not> status_ok res \<and> c = error_code (parse_json (rs_text res)) res
          \<and> m = error_message (parse_json (rs_text res)) res \<and> ra = retry_after res)
    | Inl (JsError t) \<Rightarrow>
        length (hs_log s) < length (hs_log s') \<and> srv (hs_log s') = None \<and> JsError t = network_failure
        \<or> to_upper (nullish (ri_method opts) ''GET'') \<in> set unsafe_methods \<and> csrf_from_cookie s' = Inl (JsError t)"
proof -
  have grows: "length (hs_log s) \<le> length (hs_log s2)"
    if "api srv path opts True s = (r1, s1)" "api srv ''/me'' no_init False (s1\<lparr>hs_cached_csrf := None\<rparr>) = (r2, s2)"
    for r1 s1 r2 s2
    using single_log [OF that(1)] me_log [OF that(2)] by fastforce
  have one: "length (hs_log u) < length (hs_log u')" if "api srv path opts True u = (Inr d, u')" for u u' d
    using single_log [OF that] by auto
  have ok: "final_answer srv s' d \<and> length (hs_log s) < length (hs_log s')" if "r = Inr d" for d
    using assms that
    by (cases rule: api_cases) (use single_final one grows le_less_trans in \<open>blast+\<close>)
  have bad: "failed_answer srv s s' c m ra" if "r = Inl (ApiError c m ra)" for c m ra
    using assms
  proof (cases rule: api_cases)
    case single
    then show ?thesis using that single_failed by blast
  next
    case (refresh_failed m' ra' s1 e)
    then show ?thesis using that single_failed failed_answer_later me_log [of srv "s1\<lparr>hs_cached_csrf := None\<rparr>"]
      by fastforce
  next
    case (again m' ra' s1 j s2)
    then show ?thesis using that single_failed failed_answer_earlier grows by blast
  qed
  have js: "length (hs_log u) < length (hs_log u') \<and> srv (hs_log u') = None \<and> JsError t = network_failure
      \<or> to_upper (nullish (ri_method opts) ''GET'') \<in> set unsafe_methods \<and> csrf_from_cookie u' = Inl (JsError t)"
    if "api srv path opts True u = (Inl (JsError t), u')" for u u' t
    using api_single [OF that]
    by (auto simp: answered_def apply_csrf_header_def csrf_token_def Let_def split: option.splits if_splits sum.splits)
  have other: "length (hs_log s) < length (hs_log s') \<and> srv (hs_log s') = None \<and> JsError t = network_failure
      \<or> to_upper (nullish (ri_method opts) ''GET'') \<in> set unsafe_methods \<and> csrf_from_cookie s' = Inl (JsError t)"
    if "r = Inl (JsError t)" for t
    using assms
  proof (cases rule: api_cases)
    case (again m' ra' s1 j s2)
    then show ?thesis using js [of s2 t s'] that grows [OF again(1,2)] by auto
  qed (use js that in auto)
  show ?thesis
    using ok bad other unfolding final_answer_def failed_answer_def
    by (cases r) (auto split: exn.split)
qed

theorem api_result_from_server_witness:
  "\<exists>res. rejecting_server (hs_log (snd (api rejecting_server ''/me'' no_init False fresh_http))) = Some res
     \<and> status_ok res"
proof -
  obtain r s' where a: "api rejecting_server ''/me'' no_init False fresh_http = (r, s')" by fastforce
  have "fst (api rejecting_server ''/me'' no_init False fresh_http) = Inr JNull" by code_simp
  then have "r = Inr JNull" using a by simp
  then show ?thesis using api_result_from_server [OF a] a by auto
qed

section \<open>Uploads without end\<close>

text \<open>A server that rejects the token of every request except the refresh, which it answers.\<close>

definition stubborn_server :: "server \<Rightarrow> bool" where
  "stubborn_server srv \<longleftrightarrow>
     (\<forall>rqs rq. if rq_url rq = ''/api/v1/me''
        then \<exists>res. srv (rqs @ [rq]) = Some res \<and> status_ok res \<and> rs_cookie res = None
        else \<exists>res. srv (rqs @ [rq]) = Some res \<and> rs_status res = 403 \<and> rs_cookie res = None
                 \<and> error_field (parse_json (rs_text res)) ''code'' = Some ''csrf_invalid'')"

lemma stubborn_rejects:
  "stubborn_server srv \<Longrightarrow> rq_url rq \<noteq> ''/api/v1/me'' \<Longrightarrow>
     \<exists>res. srv (rqs @ [rq]) = Some res \<and> rs_status res = 403 \<and> rs_cookie res = None
       \<and> error_field (parse_json (rs_text res)) ''code'' = Some ''csrf_invalid''"
  unfolding stubborn_server_def by simp

lemma stubborn_me:
  assumes "stubborn_server srv"
  shows "\<exists>j s'. api srv ''/me'' no_init False s = (Inr j, s') \<and> hs_cookie s' = hs_cookie s
    \<and> (truthy (hs_cached_csrf s) \<longrightarrow> truthy (hs_cached_csrf s'))"
proof -
  let ?hs = "init_headers no_init s"
  let ?rq = "\<lparr>rq_method = nullish (ri_method no_init) ''GET'', rq_url = ''/api/v1'' @ ''/me'',
               rq_headers = ?hs, rq_body = ri_body no_init\<rparr>"
  have "to_upper (nullish (ri_method no_init) ''GET'') \<notin> set unsafe_methods" by code_simp
  then have h: "apply_csrf_header ?hs (nullish (ri_method no_init) ''GET'') s = Inr ?hs"
    by (simp add: apply_csrf_header_def)
  have "\<exists>res. srv (hs_log s @ [?rq]) = Some res \<and> status_ok res \<and> rs_cookie res = None"
    using assms [unfolded stubborn_server_def, rule_format, of ?rq "hs_log s"] by simp
  then obtain res where res: "srv (hs_log s @ [?rq]) = Some res" "status_ok res" "rs_cookie res = None"
    by blast
  then have "send_request srv ?rq s = (Some res, s\<lparr>hs_log := hs_log s @ [?rq]\<rparr>)"
    by (simp add: send_request_def)
  then show ?thesis using h res by (subst api.simps) (simp add: Let_def remember_csrf_token_def)
qed

text \<open>The induction rule of the upload with separate arguments.\<close>

lemma upload_induct [consumes 1, case_names step]:
  assumes "api_upload srv path body s = Some y"
    and "\<And>upload srv path body s y. (\<And>srv' path' body' s' y'.
        upload srv' path' body' s' = Some y' \<Longrightarrow> P srv' path' body' s' y') \<Longrightarrow>
      (case csrf_token s of
        Inl e \<Rightarrow> Some (Inl e, s)
      | Inr token \<Rightarrow>
          (case send_request srv
                  \<lparr>rq_method = ''POST'', rq_url = ''/api/v1'' @ path,
                   rq_headers = upload_headers s token, rq_body = FormBody body\<rparr> s of
             (None, s1) \<Rightarrow> Some (Inl (ApiError ''network_error'' ''Network error'' None), s1)
           | (Some res, s1) \<Rightarrow>
               (let data = parse_json (rs_text res); s2 = remember_csrf_token data s1 in
                if \<not> status_ok res
                then (if rs_status res = 403 \<and> error_field data ''code'' = Some ''csrf_invalid''
                      then (case api srv ''/me'' no_init False s2 of
                              (Inr _, s3) \<Rightarrow> upload srv path body s3
                            | (Inl _, s3) \<Rightarrow>
                                Some (Inl (ApiError ''csrf_invalid'' (error_message data res) None), s3))
                      else Some (Inl (ApiError (error_code data res) (error_message data res) None), s2))
                else Some (Inr data, s2)))) = Some y \<Longrightarrow> P srv path body s y"
  shows "P srv path body s y"
proof -
  have "(case (srv, path, body, s) of (a, b, c, d) \<Rightarrow> P a b c d) y"
    apply (rule api_upload.raw_induct)
    subgoal premises p for f a b c d z
      unfolding prod.case by (rule assms(2) [of f], rule p(1) [unfolded prod.case], assumption, rule p(2))
    by (simp add: assms(1))
  then show ?thesis by simp
qed

text \<open>C15: An upload has no bound on its retries. Against a server that changes no cookie, rejects the token of
  every upload and answers every \<open>/me\<close>, the promise of \<open>apiUpload\<close> never settles, whatever the form, the state and the
  path (other than \<open>/me\<close> itself); only where the token cannot be read from the cookie at the start does the upload fail, at once and without a
  request.\<close>

theorem api_upload_never_settles:
  assumes "stubborn_server srv" and "path \<noteq> ''/me''"
  shows "api_upload srv path body s = (case csrf_token s of Inl e \<Rightarrow> Some (Inl e, s) | Inr _ \<Rightarrow> None)"
proof (cases "csrf_token s")
  case (Inl e)
  then show ?thesis by (subst api_upload.simps) simp
next
  case (Inr tok)
  have "api_upload srv path body s = None"
  proof (rule ccontr)
    assume "api_upload srv path body s \<noteq> None"
    then obtain y where y: "api_upload srv path body s = Some y" by blast
    have "\<not> (stubborn_server srv \<and> path \<noteq> ''/me'' \<and> (\<exists>tok. csrf_token s = Inr tok))"
      using y
    proof (induction rule: upload_induct)
      case (step upload srv path body s y)
      show ?case
      proof
        assume h: "stubborn_server srv \<and> path \<noteq> ''/me'' \<and> (\<exists>tok. csrf_token s = Inr tok)"
        then have st: "stubborn_server srv" by blast
        obtain tok where c: "csrf_token s = Inr tok" using h by blast
        let ?rq = "\<lparr>rq_method = ''POST'', rq_url = ''/api/v1'' @ path,
                     rq_headers = upload_headers s tok, rq_body = FormBody body\<rparr>"
        have "rq_url ?rq \<noteq> ''/api/v1/me''" using h by simp
        then obtain res where res: "srv (hs_log s @ [?rq]) = Some res" "rs_status res = 403"
            "rs_cookie res = None"
            "error_field (parse_json (rs_text res)) ''code'' = Some ''csrf_invalid''"
          using stubborn_rejects [OF st, of ?rq "hs_log s"] by blast
        let ?s2 = "remember_csrf_token (parse_json (rs_text res)) (s\<lparr>hs_log := hs_log s @ [?rq]\<rparr>)"
        have sent: "send_request srv ?rq s = (Some res, s\<lparr>hs_log := hs_log s @ [?rq]\<rparr>)"
          using res by (simp add: send_request_def)
        have k: "truthy (hs_cached_csrf s) \<Longrightarrow> truthy (hs_cached_csrf ?s2)"
          by (simp add: remember_csrf_token_def Let_def)
        obtain j s3 where m: "api srv ''/me'' no_init False ?s2 = (Inr j, s3)"
            "hs_cookie s3 = hs_cookie ?s2" "truthy (hs_cached_csrf ?s2) \<longrightarrow> truthy (hs_cached_csrf s3)"
          using stubborn_me [OF st] by blast
        have "upload srv path body s3 = Some y"
          using step(2) c sent res m by (simp add: status_ok_def Let_def)
        moreover have "\<exists>tok. csrf_token s3 = Inr tok"
          using c m(2,3) k by (auto simp: csrf_token_def csrf_from_cookie_def split: if_splits)
        ultimately show False using step(1) [of srv path body s3 y] h by blast
      qed
    qed
    then show False using assms Inr by blast
  qed
  then show ?thesis using Inr by simp
qed

theorem api_upload_never_settles_witness:
  "api_upload rejecting_server ''/audio'' [FormField ''title'' ''x''] fresh_http = None"
proof -
  have ok: "status_ok (json_response 200 ''null'')" by code_simp
  have e: "error_field (parse_json (rs_text (json_response 403 csrf_error_text))) ''code''
      = Some ''csrf_invalid''" by code_simp
  have st: "stubborn_server rejecting_server"
    unfolding stubborn_server_def rejecting_server_def using ok e
    by (auto simp: json_response_def)
  have "csrf_token fresh_http = Inr None" by code_simp
  then show ?thesis using api_upload_never_settles [OF st, of "''/audio''"] by simp
qed

end
