(* ===== verification/Auth.thy ===== *)
theory Auth
  imports Routes Task_Stage
begin

text \<open>
  The session: \<open>web/src/auth.tsx\<close> (loading and refreshing the current user, the organisation's
  wallet, the user's locale and formats, signing out), \<open>web/src/mfa.ts\<close> (the pending
  second-factor challenge), and the submit handlers of the sign-in pages. The provider's React
  state is the record \<open>auth_state\<close>; the state of a page extends it. The answers of the server
  are arguments: one per request the handler may send.
\<close>

section \<open>State\<close>

record auth_state = browser +
  au_ready :: bool
  au_bootstrap_done :: bool
  au_bootstrap_error :: "exn option"
  au_me :: "me option"
  au_language :: string
  au_prefs :: "date_time_prefs option"

text \<open>\<open>i18n.language\<close> and the module variable of \<open>setDateTimePrefs\<close> are the last two fields.\<close>

definition get_json :: "(exn + 'r) \<Rightarrow> string \<Rightarrow> ('z browser_scheme, 'r) act" where
  "get_json r path = api_call (\<lambda>_ _ _. r) ''GET'' path None"

definition send_json ::
  "(exn + 'r) \<Rightarrow> string \<Rightarrow> string \<Rightarrow> json option \<Rightarrow> ('z browser_scheme, 'r) act" where
  "send_json r mth path body = api_call (\<lambda>_ _ _. r) mth path body"

lemma get_json_run [run_simps]: "get_json r path s = (r, emit (EvRequest ''GET'' path None) s)"
  by (simp add: get_json_def api_call_def)

lemma send_json_run [run_simps]: "send_json r mth path body s = (r, emit (EvRequest mth path body) s)"
  by (simp add: send_json_def api_call_def)

lemma emit_auth [simp]:
  "au_me (emit e s) = au_me s" "au_prefs (emit e s) = au_prefs s" "au_ready (emit e s) = au_ready s"
  "au_bootstrap_done (emit e s) = au_bootstrap_done s" "au_language (emit e s) = au_language s"
  by (simp_all add: emit_def)

section \<open>The provider\<close>

definition me_from_api :: "me \<Rightarrow> ('z auth_state_scheme, me) act" where
  "me_from_api next = thenA (upd (\<lambda>s. s\<lparr>au_prefs := Some (me_date_time_prefs next)\<rparr>)) (ret next)"

definition set_me :: "me option \<Rightarrow> ('z auth_state_scheme, unit) act" where
  "set_me m = upd (\<lambda>s. s\<lparr>au_me := m\<rparr>)"

definition change_language :: "string \<Rightarrow> ('z auth_state_scheme, unit) act" where
  "change_language l = thenA (upd (local_set ''locale'' l)) (upd (\<lambda>s. s\<lparr>au_language := l\<rparr>))"

definition sync_locale :: "me \<Rightarrow> ('z auth_state_scheme, unit) act" where
  "sync_locale next =
     bindA (getsA au_language) (\<lambda>lang.
       whenA (user_locale (me_user next) \<noteq> [] \<and> user_locale (me_user next) \<noteq> lang)
         (change_language (user_locale (me_user next))))"

definition is_unauthorized :: "exn \<Rightarrow> bool" where
  "is_unauthorized e = (case e of ApiError code _ _ \<Rightarrow> code = ''unauthorized'' | JsError _ \<Rightarrow> False)"

definition refresh ::
  "(exn + bool) \<Rightarrow> (exn + me) \<Rightarrow> ('z auth_state_scheme, me option) act" where
  "refresh status_r me_r =
     thenA (upd (\<lambda>s. s\<lparr>au_bootstrap_error := None\<rparr>))
       (bindA (get_json status_r ''/setup/status'') (\<lambda>bootstrapped.
         thenA (upd (\<lambda>s. s\<lparr>au_bootstrap_done := bootstrapped\<rparr>))
           (if \<not> bootstrapped then thenA (set_me None) (ret None)
            else tryA
              (bindA (get_json me_r ''/me'') (\<lambda>raw.
                 bindA (me_from_api raw) (\<lambda>next.
                   thenA (set_me (Some next)) (thenA (sync_locale next) (ret (Some next))))))
              (\<lambda>err. if is_unauthorized err then thenA (set_me None) (ret None) else throw err))))"

definition wallet_update :: "org \<Rightarrow> me \<Rightarrow> me" where
  "wallet_update o' prev =
     (case me_org prev of
        None \<Rightarrow> prev
      | Some po \<Rightarrow>
          prev\<lparr>me_org := Some (po\<lparr>org_balance := org_balance o', org_unlimited := org_unlimited o',
             org_usage := (case org_usage o' of None \<Rightarrow> org_usage po | u \<Rightarrow> u),
             org_tariff := org_tariff o'\<rparr>)\<rparr>)"

definition refresh_org_wallet :: "(exn + org) \<Rightarrow> ('z auth_state_scheme, unit) act" where
  "refresh_org_wallet org_r =
     tryA (bindA (get_json org_r ''/org'') (\<lambda>o'.
             upd (\<lambda>s. s\<lparr>au_me := map_option (wallet_update o') (au_me s)\<rparr>)))
       (\<lambda>_. ret ())"

text \<open>The effect of mounting the provider.\<close>

definition mount_auth :: "(exn + bool) \<Rightarrow> (exn + me) \<Rightarrow> ('z auth_state_scheme, unit) act" where
  "mount_auth status_r me_r =
     finallyA
       (tryA (bindA (refresh status_r me_r) (\<lambda>_. ret ()))
          (\<lambda>err. thenA (upd (\<lambda>s. s\<lparr>au_bootstrap_error := Some err\<rparr>))
                   (thenA (show_error err) (set_me None))))
       (\<lambda>s. s\<lparr>au_ready := True\<rparr>)"

text \<open>\<open>PATCH /me\<close> when somebody is signed in; the four setters differ in the body only.\<close>

definition patch_me :: "json \<Rightarrow> (exn + me) \<Rightarrow> ('z auth_state_scheme, unit) act" where
  "patch_me body me_r =
     bindA (getsA au_me) (\<lambda>m.
       whenA (m \<noteq> None)
         (bindA (send_json me_r ''PATCH'' ''/me'' (Some body)) (\<lambda>raw.
            bindA (me_from_api raw) (\<lambda>next. set_me (Some next)))))"

definition opt_json :: "string option \<Rightarrow> json" where
  "opt_json v = (case v of None \<Rightarrow> JNull | Some s \<Rightarrow> JStr s)"

definition set_locale :: "string \<Rightarrow> (exn + me) \<Rightarrow> ('z auth_state_scheme, unit) act" where
  "set_locale locl me_r =
     thenA (change_language locl) (patch_me (JObj [(''locale'', JStr locl)]) me_r)"

definition set_default_route :: "string \<Rightarrow> (exn + me) \<Rightarrow> ('z auth_state_scheme, unit) act" where
  "set_default_route route me_r = patch_me (JObj [(''default_route'', JStr route)]) me_r"

definition set_date_time_format :: "string option \<Rightarrow> (exn + me) \<Rightarrow> ('z auth_state_scheme, unit) act" where
  "set_date_time_format fmt me_r = patch_me (JObj [(''date_time_format'', opt_json fmt)]) me_r"

definition set_timezone :: "string option \<Rightarrow> (exn + me) \<Rightarrow> ('z auth_state_scheme, unit) act" where
  "set_timezone tz me_r = patch_me (JObj [(''timezone'', opt_json tz)]) me_r"

definition logout :: "(exn + unit) \<Rightarrow> ('z auth_state_scheme, unit) act" where
  "logout r =
     bindA (getsA au_me) (\<lambda>m.
       bindA (send_json r ''POST'' ''/auth/logout'' None) (\<lambda>_.
         upd (emit (EvLocation (resolve_login_path m)))))"

section \<open>The second-factor challenge\<close>

datatype mfa_member_state = MfaOff | MfaPending | MfaOn

definition mfa_member_state_of :: "user \<Rightarrow> mfa_member_state option" where
  "mfa_member_state_of u =
     (if user_auth_provider u \<noteq> ''local'' then None
      else if user_mfa_enabled u then Some MfaOn
      else if user_mfa_configured u = Some True then Some MfaPending
      else Some MfaOff)"

definition can_admin_reset_member_mfa :: "user \<Rightarrow> bool \<Rightarrow> bool \<Rightarrow> bool" where
  "can_admin_reset_member_mfa u sso_blocks allow_instance_admin =
     (if user_disabled u then False
      else if user_is_instance_admin u \<and> \<not> allow_instance_admin then False
      else if \<not> (user_auth_provider u = ''local'' \<or> \<not> sso_blocks) then False
      else user_mfa_configured u = Some True)"

definition challenge_key :: string where
  "challenge_key = ''mfa_challenge_id''"

text \<open>\<open>allowed\<close>: the browser grants access to the session storage (otherwise it throws, which
  the three functions catch).\<close>

definition read_mfa_challenge_id :: "bool \<Rightarrow> 'z browser_scheme \<Rightarrow> string option" where
  "read_mfa_challenge_id allowed s = (if allowed then session_get s challenge_key else None)"

definition clear_mfa_challenge_id :: "bool \<Rightarrow> 'z browser_scheme \<Rightarrow> 'z browser_scheme" where
  "clear_mfa_challenge_id allowed s = (if allowed then session_remove challenge_key s else s)"

definition store_mfa_challenge_id :: "bool \<Rightarrow> string \<Rightarrow> 'z browser_scheme \<Rightarrow> 'z browser_scheme" where
  "store_mfa_challenge_id allowed i s = (if allowed then session_set challenge_key i s else s)"

section \<open>Forms that submit\<close>

text \<open>
  \<open>setBusy (true); try { body } catch (e) { showError (e) } finally { setBusy (false) }\<close>: the
  frame of every submit handler below, and the contract the handlers share.
\<close>

definition busy_submit ::
  "(bool \<Rightarrow> 'z browser_scheme \<Rightarrow> 'z browser_scheme) \<Rightarrow> ('z browser_scheme, unit) act
     \<Rightarrow> ('z browser_scheme, unit) act" where
  "busy_submit set_busy body =
     thenA (upd (set_busy True)) (finallyA (tryA body show_error) (set_busy False))"

locale busy_form =
  fixes set_busy :: "bool \<Rightarrow> 'z browser_scheme \<Rightarrow> 'z browser_scheme"
    and busy :: "'z browser_scheme \<Rightarrow> bool"
  assumes busy_set: "busy (set_busy b s) = b"
    and events_set: "events (set_busy b s) = events s"
begin

lemma submit_run:
  "busy_submit set_busy body s =
     (case body (set_busy True s) of
        (Inl e, s1) \<Rightarrow> (Inr (), set_busy False (emit (EvToast e None) s1))
      | (Inr u, s1) \<Rightarrow> (Inr (), set_busy False s1))"
  by (auto simp: busy_submit_def run_simps show_error_def split: prod.splits sum.splits)

lemma submit_settles: "fst (busy_submit set_busy body s) = Inr () \<and> \<not> busy (snd (busy_submit set_busy body s))"
  by (auto simp: submit_run busy_set split: prod.splits sum.splits)

lemma submit_failed:
  "body (set_busy True s) = (Inl e, s1) \<Longrightarrow>
     events (snd (busy_submit set_busy body s)) = events s1 @ [EvToast e None]"
  by (simp add: submit_run events_set)

lemma submit_done:
  "body (set_busy True s) = (Inr u, s1) \<Longrightarrow> events (snd (busy_submit set_busy body s)) = events s1"
  by (simp add: submit_run events_set)

end

record login_page = auth_state +
  lp_email :: string
  lp_password :: string
  lp_org_id :: string
  lp_org_id_error :: string
  lp_busy :: bool

record verify_page = auth_state +
  vp_code :: string
  vp_recovery :: string
  vp_use_recovery :: bool
  vp_busy :: bool

record password_page = auth_state +
  pp_current :: string
  pp_next :: string
  pp_busy :: bool

record accept_page = auth_state +
  ap_checked :: "string \<rightharpoonup> bool"
  ap_busy :: bool

record signup_page = auth_state +
  su_email :: string
  su_password :: string
  su_tariff_id :: string
  su_tariffs :: "tariff list"
  su_legal_docs :: "legal_document list"
  su_legal_docs_loading :: bool
  su_checked :: "string \<rightharpoonup> bool"
  su_tariffs_loading :: bool
  su_busy :: bool

record setup_page = auth_state +
  st_email :: string
  st_password :: string
  st_token :: string
  st_busy :: bool

record forgot_page = auth_state +
  fp_email :: string
  fp_ok :: bool
  fp_busy :: bool
  fp_cooldown :: nat

record reset_page = auth_state +
  rp_token :: string
  rp_password :: string
  rp_ok :: bool
  rp_busy :: bool

definition lp_set_busy :: "bool \<Rightarrow> 'z login_page_scheme \<Rightarrow> 'z login_page_scheme" where
  "lp_set_busy b s = s\<lparr>lp_busy := b\<rparr>"

definition vp_set_busy :: "bool \<Rightarrow> 'z verify_page_scheme \<Rightarrow> 'z verify_page_scheme" where
  "vp_set_busy b s = s\<lparr>vp_busy := b\<rparr>"

definition pp_set_busy :: "bool \<Rightarrow> 'z password_page_scheme \<Rightarrow> 'z password_page_scheme" where
  "pp_set_busy b s = s\<lparr>pp_busy := b\<rparr>"

definition ap_set_busy :: "bool \<Rightarrow> 'z accept_page_scheme \<Rightarrow> 'z accept_page_scheme" where
  "ap_set_busy b s = s\<lparr>ap_busy := b\<rparr>"

definition su_set_busy :: "bool \<Rightarrow> 'z signup_page_scheme \<Rightarrow> 'z signup_page_scheme" where
  "su_set_busy b s = s\<lparr>su_busy := b\<rparr>"

definition st_set_busy :: "bool \<Rightarrow> 'z setup_page_scheme \<Rightarrow> 'z setup_page_scheme" where
  "st_set_busy b s = s\<lparr>st_busy := b\<rparr>"

definition fp_set_busy :: "bool \<Rightarrow> 'z forgot_page_scheme \<Rightarrow> 'z forgot_page_scheme" where
  "fp_set_busy b s = s\<lparr>fp_busy := b\<rparr>"

definition rp_set_busy :: "bool \<Rightarrow> 'z reset_page_scheme \<Rightarrow> 'z reset_page_scheme" where
  "rp_set_busy b s = s\<lparr>rp_busy := b\<rparr>"

lemmas set_busy_defs = lp_set_busy_def vp_set_busy_def pp_set_busy_def ap_set_busy_def
  su_set_busy_def st_set_busy_def fp_set_busy_def rp_set_busy_def

interpretation login_form: busy_form lp_set_busy lp_busy
  by unfold_locales (simp_all add: set_busy_defs)

interpretation verify_form: busy_form vp_set_busy vp_busy
  by unfold_locales (simp_all add: set_busy_defs)

interpretation password_form: busy_form pp_set_busy pp_busy
  by unfold_locales (simp_all add: set_busy_defs)

interpretation accept_form: busy_form ap_set_busy ap_busy
  by unfold_locales (simp_all add: set_busy_defs)

interpretation signup_form: busy_form su_set_busy su_busy
  by unfold_locales (simp_all add: set_busy_defs)

interpretation setup_form: busy_form st_set_busy st_busy
  by unfold_locales (simp_all add: set_busy_defs)

interpretation forgot_form: busy_form fp_set_busy fp_busy
  by unfold_locales (simp_all add: set_busy_defs)

interpretation reset_form: busy_form rp_set_busy rp_busy
  by unfold_locales (simp_all add: set_busy_defs)

section \<open>The sign-in pages\<close>

text \<open>\<open>const next = await refresh (); nav (resolveAuthContinuationPath (next), { replace })\<close>.\<close>

definition refresh_and_continue ::
  "(exn + bool) \<Rightarrow> (exn + me) \<Rightarrow> ('z auth_state_scheme, unit) act" where
  "refresh_and_continue status_r me_r =
     bindA (refresh status_r me_r) (\<lambda>profile.
       navigate (resolve_auth_continuation_path profile) True None)"

definition sso_org_id_key :: string where
  "sso_org_id_key = ''lastSsoOrgId''"

definition read_stored_org_id :: "bool \<Rightarrow> 'z browser_scheme \<Rightarrow> string" where
  "read_stored_org_id allowed s = (if allowed then str_or_empty (local_get s sso_org_id_key) else [])"

text \<open>\<open>UUID_RE\<close>.\<close>

definition is_hex_char :: "char \<Rightarrow> bool" where
  "is_hex_char c \<longleftrightarrow> lower_char c \<in> set hex_digits"

definition is_uuid :: "string \<Rightarrow> bool" where
  "is_uuid s \<longleftrightarrow>
     map length (split_on (CHR ''-'') s) = [8, 4, 4, 4, 12]
       \<and> list_all (list_all is_hex_char) (split_on (CHR ''-'') s)"

text \<open>\<open>login_r\<close> answers with the status and the challenge id.\<close>

definition on_email_submit ::
  "bool \<Rightarrow> (exn + string \<times> string option) \<Rightarrow> (exn + bool) \<Rightarrow> (exn + me)
     \<Rightarrow> ('z login_page_scheme, unit) act" where
  "on_email_submit allowed login_r status_r me_r s =
     busy_submit lp_set_busy
       (bindA (send_json login_r ''POST'' ''/auth/login''
                (Some (JObj [(''email'', JStr (lp_email s)), (''password'', JStr (lp_password s))])))
          (\<lambda>(status, challenge).
             if status = ''mfa_required'' \<and> truthy challenge
             then thenA (upd (store_mfa_challenge_id allowed (str_or_empty challenge)))
                    (navigate ''/verify-2fa'' True None)
             else refresh_and_continue status_r me_r)) s"

definition on_sso_submit :: "bool \<Rightarrow> string \<Rightarrow> ('z login_page_scheme, unit) act" where
  "on_sso_submit allowed invalid_text s =
     (let trimmed = trim (lp_org_id s) in
      if \<not> is_uuid trimmed then (Inr (), s\<lparr>lp_org_id_error := invalid_text\<rparr>)
      else (let s1 = s\<lparr>lp_org_id_error := []\<rparr>;
                s2 = (if allowed then local_set sso_org_id_key trimmed s1 else s1) in
            navigate (''/sso/'' @ trimmed) True None s2))"

text \<open>\<open>challenge\<close> is the id read when the page was rendered.\<close>

definition on_verify_submit ::
  "bool \<Rightarrow> string option \<Rightarrow> (exn + unit) \<Rightarrow> (exn + bool) \<Rightarrow> (exn + me)
     \<Rightarrow> ('z verify_page_scheme, unit) act" where
  "on_verify_submit allowed challenge r status_r me_r s =
     (if \<not> truthy challenge then (Inr (), s)
      else busy_submit vp_set_busy
        (thenA
          (if vp_use_recovery s
           then send_json r ''POST'' ''/auth/mfa/recover''
                  (Some (JObj [(''challenge_id'', JStr (str_or_empty challenge)),
                               (''recovery_code'', JStr (trim (vp_recovery s)))]))
           else send_json r ''POST'' ''/auth/mfa/verify''
                  (Some (JObj [(''challenge_id'', JStr (str_or_empty challenge)),
                               (''code'', JStr (trim (vp_code s)))])))
          (thenA (upd (clear_mfa_challenge_id allowed)) (refresh_and_continue status_r me_r))) s)"

definition password_forced :: "'z auth_state_scheme \<Rightarrow> bool" where
  "password_forced s = (case au_me s of None \<Rightarrow> False | Some x \<Rightarrow> me_must_change_password x)"

text \<open>\<open>JSON.stringify\<close> leaves out the member whose value is \<open>undefined\<close>.\<close>

definition on_change_password_submit ::
  "(exn + unit) \<Rightarrow> (exn + bool) \<Rightarrow> (exn + me) \<Rightarrow> ('z password_page_scheme, unit) act" where
  "on_change_password_submit r status_r me_r s =
     busy_submit pp_set_busy
       (thenA (send_json r ''POST'' ''/auth/password/change''
                (Some (JObj ((if password_forced s then []
                              else [(''current_password'', JStr (pp_current s))])
                             @ [(''new_password'', JStr (pp_next s))]))))
          (refresh_and_continue status_r me_r)) s"

definition change_password_ready :: "'z password_page_scheme \<Rightarrow> bool" where
  "change_password_ready s \<longleftrightarrow>
     (password_forced s \<or> 0 < length (trim (pp_current s))) \<and> 8 \<le> length (trim (pp_next s))"

definition pending_docs :: "'z auth_state_scheme \<Rightarrow> legal_document list" where
  "pending_docs s =
     filter ld_pending (nullish (Option.bind (au_me s) me_legal_documents) [])"

definition accept_all_checked :: "'z accept_page_scheme \<Rightarrow> bool" where
  "accept_all_checked s \<longleftrightarrow>
     0 < length (pending_docs s) \<and> list_all (\<lambda>d. ap_checked s (ld_key d) = Some True) (pending_docs s)"

definition on_accept ::
  "(exn + unit) \<Rightarrow> (exn + bool) \<Rightarrow> (exn + me) \<Rightarrow> ('z accept_page_scheme, unit) act" where
  "on_accept r status_r me_r s =
     (if \<not> accept_all_checked s then (Inr (), s)
      else busy_submit ap_set_busy
        (thenA (send_json r ''POST'' ''/auth/agreement/accept'' None)
           (refresh_and_continue status_r me_r)) s)"

definition on_enroll_complete :: "(exn + bool) \<Rightarrow> (exn + me) \<Rightarrow> ('z auth_state_scheme, unit) act" where
  "on_enroll_complete status_r me_r = refresh_and_continue status_r me_r"

text \<open>The sign-up page: the tariff named in the address is preselected when it is on offer.\<close>

definition select_tariff :: "string \<Rightarrow> tariff list \<Rightarrow> string" where
  "select_tariff wanted items =
     (case find (\<lambda>t. tariff_id t = wanted) items of
        Some t \<Rightarrow> tariff_id t
      | None \<Rightarrow> (case items of [] \<Rightarrow> [] | t # _ \<Rightarrow> tariff_id t))"

definition load_signup_tariffs :: "string \<Rightarrow> (exn + tariff list option) \<Rightarrow> ('z signup_page_scheme, unit) act" where
  "load_signup_tariffs wanted r =
     thenA (upd (\<lambda>s. s\<lparr>su_tariffs_loading := True\<rparr>))
       (finallyA
         (tryA (bindA (get_json r ''/auth/signup-tariffs'') (\<lambda>items.
                  upd (\<lambda>s. s\<lparr>su_tariffs := nullish items [],
                            su_tariff_id := select_tariff wanted (nullish items [])\<rparr>)))
            show_error)
         (\<lambda>s. s\<lparr>su_tariffs_loading := False\<rparr>))"

definition load_signup_legal_docs ::
  "(exn + legal_document list option) \<Rightarrow> ('z signup_page_scheme, unit) act" where
  "load_signup_legal_docs r =
     thenA (upd (\<lambda>s. s\<lparr>su_legal_docs_loading := True\<rparr>))
       (finallyA
         (tryA (bindA (get_json r ''/public/legal-documents'') (\<lambda>items.
                  upd (\<lambda>s. s\<lparr>su_legal_docs := nullish items []\<rparr>)))
            show_error)
         (\<lambda>s. s\<lparr>su_legal_docs_loading := False\<rparr>))"

definition all_legal_checked :: "'z signup_page_scheme \<Rightarrow> bool" where
  "all_legal_checked s \<longleftrightarrow>
     length (su_legal_docs s) = 0
       \<or> list_all (\<lambda>d. su_checked s (ld_key d) = Some True) (su_legal_docs s)"

definition on_signup_submit ::
  "(exn + unit) \<Rightarrow> (exn + bool) \<Rightarrow> (exn + me) \<Rightarrow> ('z signup_page_scheme, unit) act" where
  "on_signup_submit r status_r me_r s =
     (if \<not> all_legal_checked s then (Inr (), s)
      else busy_submit su_set_busy
        (thenA (send_json r ''POST'' ''/auth/signup''
                 (Some (JObj [(''email'', JStr (su_email s)), (''password'', JStr (su_password s)),
                              (''tariff_id'', JStr (su_tariff_id s)), (''locale'', JStr (au_language s)),
                              (''accept_legal_documents'', JBool (0 < length (su_legal_docs s)))])))
           (refresh_and_continue status_r me_r)) s)"

definition signup_ready :: "'z signup_page_scheme \<Rightarrow> bool" where
  "signup_ready s \<longleftrightarrow>
     all_legal_checked s \<and> trim (su_email s) \<noteq> [] \<and> 8 \<le> length (su_password s) \<and> su_tariff_id s \<noteq> []"

definition on_setup_submit ::
  "(exn + unit) \<Rightarrow> (exn + bool) \<Rightarrow> (exn + me) \<Rightarrow> ('z setup_page_scheme, unit) act" where
  "on_setup_submit r status_r me_r s =
     busy_submit st_set_busy
       (thenA (send_json r ''POST'' ''/setup''
                (Some (JObj [(''email'', JStr (st_email s)), (''password'', JStr (st_password s)),
                             (''bootstrap_token'', JStr (st_token s)), (''locale'', JStr (au_language s))])))
          (bindA (refresh status_r me_r) (\<lambda>_. navigate ''/app'' True None))) s"

definition reset_cooldown_sec :: nat where
  "reset_cooldown_sec = 900"

definition cooldown_minutes :: "nat \<Rightarrow> nat" where
  "cooldown_minutes sec = max 1 ((sec + 59) div 60)"

definition cooldown_tick :: "nat \<Rightarrow> nat" where
  "cooldown_tick v = (if v \<le> 1 then 0 else v - 1)"

definition note_rate_limit :: "exn \<Rightarrow> 'z forgot_page_scheme \<Rightarrow> 'z forgot_page_scheme" where
  "note_rate_limit e s =
     (case e of
        ApiError code _ (Some n) \<Rightarrow>
          if code = ''rate_limited'' \<and> n \<noteq> 0 then s\<lparr>fp_cooldown := nat n\<rparr> else s
      | _ \<Rightarrow> s)"

definition on_forgot_submit :: "(exn + unit) \<Rightarrow> ('z forgot_page_scheme, unit) act" where
  "on_forgot_submit r s =
     (if fp_busy s \<or> 0 < fp_cooldown s then (Inr (), s)
      else busy_submit fp_set_busy
        (tryA (thenA (send_json r ''POST'' ''/auth/password/reset/request''
                        (Some (JObj [(''email'', JStr (fp_email s))])))
                 (thenA (upd (\<lambda>s. s\<lparr>fp_ok := True\<rparr>))
                    (upd (\<lambda>s. s\<lparr>fp_cooldown := reset_cooldown_sec\<rparr>))))
           (\<lambda>e. thenA (upd (note_rate_limit e)) (throw e))) s)"

definition on_reset_submit :: "(exn + unit) \<Rightarrow> ('z reset_page_scheme, unit) act" where
  "on_reset_submit r s =
     busy_submit rp_set_busy
       (thenA (send_json r ''POST'' ''/auth/password/reset/confirm''
                (Some (JObj [(''token'', JStr (rp_token s)), (''new_password'', JStr (rp_password s))])))
          (upd (\<lambda>s. s\<lparr>rp_ok := True\<rparr>))) s"

text \<open>The banner of an impersonated session (\<open>components/Shell.tsx\<close>).\<close>

definition stop_impersonate ::
  "(exn + unit) \<Rightarrow> (exn + bool) \<Rightarrow> (exn + me) \<Rightarrow> ('z auth_state_scheme, unit) act" where
  "stop_impersonate r status_r me_r s =
     (let back = (case Option.bind (au_me s) me_actor of
                    Some a \<Rightarrow> if user_is_instance_admin a then ''/app/instance'' else ''/app/org''
                  | None \<Rightarrow> ''/app/org'') in
      tryA (thenA (send_json r ''DELETE'' ''/impersonate'' None)
              (bindA (refresh status_r me_r) (\<lambda>_. navigate back False None)))
        show_error s)"

section \<open>The session invariant\<close>

text \<open>Nobody is signed in before the set-up is done, and the formats in force are the user's.\<close>

definition session_ok :: "'z auth_state_scheme \<Rightarrow> bool" where
  "session_ok s \<longleftrightarrow>
     (\<forall>x. au_me s = Some x \<longrightarrow> au_bootstrap_done s \<and> au_prefs s = Some (me_date_time_prefs x))"

lemma session_ok_frames [simp]:
  "session_ok (emit e s) = session_ok s" "session_ok (local_set k v s) = session_ok s"
  "session_ok (session_set k v s) = session_ok s" "session_ok (session_remove k s) = session_ok s"
  "session_ok (s\<lparr>au_ready := b\<rparr>) = session_ok s" "session_ok (s\<lparr>au_language := l\<rparr>) = session_ok s"
  "session_ok (s\<lparr>au_bootstrap_error := e'\<rparr>) = session_ok s" "session_ok (s\<lparr>au_me := None\<rparr>)"
  by (simp_all add: session_ok_def emit_def storage_defs)

lemma keeps_get_json [wf_intros]: "(\<And>e s. P s \<Longrightarrow> P (emit e s)) \<Longrightarrow> keeps P (get_json r path)"
  by (simp add: keeps_def run_simps)

lemma keeps_send_json [wf_intros]:
  "(\<And>e s. P s \<Longrightarrow> P (emit e s)) \<Longrightarrow> keeps P (send_json r mth path body)"
  by (simp add: keeps_def run_simps)

lemma keeps_navigate [wf_intros]: "(\<And>e s. P s \<Longrightarrow> P (emit e s)) \<Longrightarrow> keeps P (navigate p b n)"
  by (simp add: keeps_def navigate_def run_simps)

lemma keeps_show_error [wf_intros]: "(\<And>e s. P s \<Longrightarrow> P (emit e s)) \<Longrightarrow> keeps P (show_error err)"
  by (simp add: keeps_def show_error_def run_simps)

lemma wallet_update_prefs [simp]: "me_date_time_prefs (wallet_update o' x) = me_date_time_prefs x"
  by (simp add: wallet_update_def split: option.splits)

lemma keeps_change_language: "keeps session_ok (change_language l)"
  unfolding change_language_def by (intro wf_intros) simp_all

lemma keeps_patch_me: "keeps session_ok (patch_me body r)"
proof (rule keepsI)
  fix s :: "'a auth_state_scheme"
  assume "session_ok s"
  then show "session_ok (snd (patch_me body r s))"
    by (cases r; cases "au_me s")
       (simp_all add: patch_me_def me_from_api_def set_me_def run_simps session_ok_def emit_def)
qed

lemma refresh_run:
  "refresh status_r me_r s =
     (let s0 = emit (EvRequest ''GET'' ''/setup/status'' None) (s\<lparr>au_bootstrap_error := None\<rparr>) in
      case status_r of
        Inl e \<Rightarrow> (Inl e, s0)
      | Inr False \<Rightarrow> (Inr None, s0\<lparr>au_bootstrap_done := False, au_me := None\<rparr>)
      | Inr True \<Rightarrow>
          (let s1 = emit (EvRequest ''GET'' ''/me'' None) (s0\<lparr>au_bootstrap_done := True\<rparr>) in
           case me_r of
             Inl e \<Rightarrow> if is_unauthorized e then (Inr None, s1\<lparr>au_me := None\<rparr>) else (Inl e, s1)
           | Inr x \<Rightarrow>
               (let s2 = s1\<lparr>au_prefs := Some (me_date_time_prefs x), au_me := Some x\<rparr>;
                    l = user_locale (me_user x) in
                (Inr (Some x), if l \<noteq> [] \<and> l \<noteq> au_language s
                               then (local_set ''locale'' l s2)\<lparr>au_language := l\<rparr> else s2))))"
  by (auto simp: refresh_def run_simps me_from_api_def set_me_def sync_locale_def change_language_def
      Let_def emit_def split: sum.splits bool.splits)

lemma keeps_refresh: "keeps session_ok (refresh status_r me_r)"
proof (rule keepsI)
  fix s :: "'a auth_state_scheme"
  assume "session_ok s"
  then show "session_ok (snd (refresh status_r me_r s))"
    unfolding refresh_run
    by (cases status_r; cases me_r)
       (auto simp: Let_def session_ok_def emit_def storage_defs split: bool.splits)
qed

lemma keeps_wallet: "keeps session_ok (refresh_org_wallet r)"
proof (rule keepsI)
  fix s :: "'a auth_state_scheme"
  assume "session_ok s"
  then show "session_ok (snd (refresh_org_wallet r s))"
    by (cases r; cases "au_me s") (simp_all add: refresh_org_wallet_def run_simps session_ok_def emit_def)
qed

lemma keeps_mount: "keeps session_ok (mount_auth status_r me_r)"
  unfolding mount_auth_def set_me_def by (intro wf_intros keeps_refresh) simp_all

lemma keeps_logout: "keeps session_ok (logout r)"
  unfolding logout_def by (intro wf_intros) simp_all

lemma keeps_setters:
  "keeps session_ok (set_locale l r)" "keeps session_ok (set_default_route route r)"
  "keeps session_ok (set_date_time_format fmt r)" "keeps session_ok (set_timezone tz r)"
  by (auto simp: set_locale_def set_default_route_def set_date_time_format_def set_timezone_def
      intro: wf_intros keeps_change_language keeps_patch_me)

lemma keeps_continue: "keeps session_ok (refresh_and_continue status_r me_r)"
  unfolding refresh_and_continue_def by (intro wf_intros keeps_refresh) simp_all

lemma keeps_stop_impersonate: "keeps session_ok (stop_impersonate r status_r me_r)"
proof (rule keepsI)
  fix s :: "'a auth_state_scheme"
  assume s: "session_ok s"
  have "keeps session_ok (tryA (thenA (send_json r ''DELETE'' ''/impersonate'' None)
      (bindA (refresh status_r me_r) (\<lambda>_. navigate target False None))) show_error
      :: ('a auth_state_scheme, unit) act)" for target
    by (intro wf_intros keeps_refresh) simp_all
  from keepsD [OF this s] show "session_ok (snd (stop_impersonate r status_r me_r s))"
    by (simp add: stop_impersonate_def Let_def)
qed

section \<open>Properties\<close>

text \<open>C16: Every operation of the session keeps its invariant, whether the server answers, refuses
  or fails: nobody is signed in while the set-up is not done, and the date and time formats in force are
  those of the signed-in user.\<close>

theorem session_invariant:
  assumes "session_ok s"
  shows "session_ok (snd (refresh status_r me_r s))
    \<and> session_ok (snd (mount_auth status_r me_r s))
    \<and> session_ok (snd (refresh_org_wallet org_r s))
    \<and> session_ok (snd (set_locale l me_r s)) \<and> session_ok (snd (set_default_route rt me_r s))
    \<and> session_ok (snd (set_date_time_format fmt me_r s)) \<and> session_ok (snd (set_timezone tz me_r s))
    \<and> session_ok (snd (logout unit_r s)) \<and> session_ok (snd (refresh_and_continue status_r me_r s))
    \<and> session_ok (snd (stop_impersonate unit_r status_r me_r s))"
  using assms
  by (auto intro: keepsD [OF keeps_refresh] keepsD [OF keeps_mount] keepsD [OF keeps_wallet]
      keepsD [OF keeps_setters(1)] keepsD [OF keeps_setters(2)] keepsD [OF keeps_setters(3)]
      keepsD [OF keeps_setters(4)] keepsD [OF keeps_logout] keepsD [OF keeps_continue]
      keepsD [OF keeps_stop_impersonate])

definition signed_out :: auth_state where
  "signed_out =
     \<lparr>local_store = Map.empty, session_store = Map.empty, events = [], au_ready = False,
      au_bootstrap_done = False, au_bootstrap_error = None, au_me = None, au_language = ''en'',
      au_prefs = None\<rparr>"

theorem session_invariant_witness:
  "session_ok (snd (refresh (Inr True) (Inr (example_me False False)) signed_out))"
  using session_invariant [of signed_out "Inr True" "Inr (example_me False False)"]
  by (simp add: session_ok_def signed_out_def)

text \<open>C17: What \<open>refresh\<close> does depends on the two answers alone. When the set-up status fails, it fails with that error and
  leaves the signed-in user; when the set-up is open, nobody is signed in and \<open>/me\<close> is not asked for; when it is done
  and \<open>/me\<close> answers, that user is signed in, with his date and time formats; when \<open>/me\<close> is refused as
  \<open>unauthorized\<close> (the session has expired), nobody is signed in and the call succeeds; any other failure of \<open>/me\<close> is passed
  on and leaves the user as he was. The interface language changes exactly when the loaded user has another one, which is then
  stored.\<close>

theorem refresh_outcome:
  "let (r, s') = refresh status_r me_r s in
     (case status_r of
        Inl e \<Rightarrow> r = Inl e \<and> au_me s' = au_me s \<and> au_bootstrap_done s' = au_bootstrap_done s
      | Inr False \<Rightarrow> r = Inr None \<and> au_me s' = None \<and> \<not> au_bootstrap_done s'
      | Inr True \<Rightarrow> au_bootstrap_done s'
          \<and> (case me_r of
               Inr x \<Rightarrow> r = Inr (Some x) \<and> au_me s' = Some x \<and> au_prefs s' = Some (me_date_time_prefs x)
             | Inl e \<Rightarrow>
                 if \<exists>m ra. e = ApiError ''unauthorized'' m ra then r = Inr None \<and> au_me s' = None
                 else r = Inl e \<and> au_me s' = au_me s))
     \<and> events s' = events s @ [EvRequest ''GET'' ''/setup/status'' None]
          @ (if status_r = Inr True then [EvRequest ''GET'' ''/me'' None] else [])
     \<and> (case (status_r, me_r) of
          (Inr True, Inr x) \<Rightarrow>
            if user_locale (me_user x) \<noteq> [] \<and> user_locale (me_user x) \<noteq> au_language s
            then au_language s' = user_locale (me_user x) \<and> local_store s' = (local_store s)(''locale'' \<mapsto> user_locale (me_user x))
            else au_language s' = au_language s \<and> local_store s' = local_store s
        | _ \<Rightarrow> au_language s' = au_language s \<and> local_store s' = local_store s)"
proof -
  have u: "is_unauthorized e \<longleftrightarrow> (\<exists>m ra. e = ApiError ''unauthorized'' m ra)" for e
    by (cases e) (auto simp: is_unauthorized_def)
  consider e where "status_r = Inl e" | "status_r = Inr False"
    | e where "status_r = Inr True" "me_r = Inl e" | x where "status_r = Inr True" "me_r = Inr x"
    by (cases status_r; cases me_r) auto
  then show ?thesis
    by cases (simp_all add: refresh_run Let_def emit_def storage_defs u)
qed

text \<open>C18: Refreshing the wallet asks for the organisation, shows no error and navigates nowhere. When the request succeeds for
  a user with an organisation it replaces the balance, the unlimited flag and the tariff, and the usage where the answer
  has one; nothing else changes: no other field of the organisation, of the user, of the session or of the storages. When it
  fails, or nobody with an organisation is signed in, only the request is seen.\<close>

theorem wallet_refresh_frame:
  "refresh_org_wallet org_r s =
     (Inr (),
      (emit (EvRequest ''GET'' ''/org'' None) s)\<lparr>au_me :=
         (case (org_r, au_me s) of
            (Inr o', Some x) \<Rightarrow>
              (case me_org x of
                 None \<Rightarrow> Some x
               | Some po \<Rightarrow>
                   Some (x\<lparr>me_org := Some (po\<lparr>org_balance := org_balance o', org_unlimited := org_unlimited o',
                            org_tariff := org_tariff o',
                            org_usage := (if org_usage o' = None then org_usage po else org_usage o')\<rparr>)\<rparr>))
          | (_, m) \<Rightarrow> m)\<rparr>)
   \<and> resolve_auth_block_path (au_me (snd (refresh_org_wallet org_r s))) = resolve_auth_block_path (au_me s)"
  by (cases org_r; cases "au_me s"; cases s)
    (auto simp: refresh_org_wallet_def run_simps emit_def wallet_update_def resolve_auth_block_path_def
      split: option.splits)

section \<open>Signing in\<close>

lemma refresh_events:
  "events (snd (refresh status_r me_r s)) = events s @ [EvRequest ''GET'' ''/setup/status'' None]
     @ (if status_r = Inr True then [EvRequest ''GET'' ''/me'' None] else [])"
proof -
  consider e where "status_r = Inl e" | "status_r = Inr False"
    | e where "status_r = Inr True" "me_r = Inl e" | x where "status_r = Inr True" "me_r = Inr x"
    by (cases status_r; cases me_r) auto
  then show ?thesis by cases (auto simp: refresh_run Let_def emit_def storage_defs)
qed

lemma refresh_session_store [simp]:
  "session_store (snd (refresh status_r me_r s)) = session_store s"
proof -
  consider e where "status_r = Inl e" | "status_r = Inr False"
    | e where "status_r = Inr True" "me_r = Inl e" | x where "status_r = Inr True" "me_r = Inr x"
    by (cases status_r; cases me_r) auto
  then show ?thesis by cases (auto simp: refresh_run Let_def emit_def storage_defs)
qed

definition is_navigation :: "event \<Rightarrow> bool" where
  "is_navigation e = (case e of EvNavigate _ _ _ \<Rightarrow> True | EvLocation _ \<Rightarrow> True | _ \<Rightarrow> False)"

lemma continue_failed_events:
  "fst (refresh_and_continue status_r me_r s) = Inl e \<Longrightarrow>
     events (snd (refresh_and_continue status_r me_r s)) = events (snd (refresh status_r me_r s))"
  by (auto simp: refresh_and_continue_def run_simps navigate_def split: prod.splits sum.splits)

text \<open>The rest of a successful sign-in, whatever the two requests of \<open>refresh\<close> are answered.\<close>

definition refresh_log :: "(exn + bool) \<Rightarrow> (exn + me) \<Rightarrow> (exn + me option) \<Rightarrow> event list" where
  "refresh_log status_r me_r outcome =
     [EvRequest ''GET'' ''/setup/status'' None]
     @ (if status_r = Inr True then [EvRequest ''GET'' ''/me'' None] else [])
     @ (case outcome of
          Inl e \<Rightarrow> [EvToast e None]
        | Inr m \<Rightarrow> [EvNavigate (resolve_auth_continuation_path m) True None])"

text \<open>What \<open>refresh\<close> returns from its two answers.\<close>

definition refreshed :: "(exn + bool) \<Rightarrow> (exn + me) \<Rightarrow> exn + me option" where
  "refreshed status_r me_r =
     (case status_r of
        Inl e \<Rightarrow> Inl e
      | Inr False \<Rightarrow> Inr None
      | Inr True \<Rightarrow>
          (case me_r of
             Inr x \<Rightarrow> Inr (Some x)
           | Inl e \<Rightarrow> if \<exists>m ra. e = ApiError ''unauthorized'' m ra then Inr None else Inl e))"

lemma refresh_returns:
  "fst (refresh status_r me_r s) = refreshed status_r me_r"
  "au_me (snd (refresh status_r me_r s)) = (case refreshed status_r me_r of Inr m \<Rightarrow> m | Inl _ \<Rightarrow> au_me s)"
proof -
  have u: "is_unauthorized e \<longleftrightarrow> (\<exists>m ra. e = ApiError ''unauthorized'' m ra)" for e
    by (cases e) (auto simp: is_unauthorized_def)
  consider e where "status_r = Inl e" | "status_r = Inr False"
    | e where "status_r = Inr True" "me_r = Inl e" | x where "status_r = Inr True" "me_r = Inr x"
    by (cases status_r; cases me_r) auto
  then show "fst (refresh status_r me_r s) = refreshed status_r me_r"
    "au_me (snd (refresh status_r me_r s)) = (case refreshed status_r me_r of Inr m \<Rightarrow> m | Inl _ \<Rightarrow> au_me s)"
    by (cases, simp_all add: refresh_run refreshed_def Let_def storage_defs u)+
qed

lemma continue_run:
  "refresh_and_continue status_r me_r s =
     (case refreshed status_r me_r of
        Inl e \<Rightarrow> (Inl e, snd (refresh status_r me_r s))
      | Inr m \<Rightarrow> (Inr (), emit (EvNavigate (resolve_auth_continuation_path m) True None) (snd (refresh status_r me_r s))))"
  using refresh_returns(1) [of status_r me_r s]
  by (cases "refresh status_r me_r s") (auto simp: refresh_and_continue_def run_simps navigate_def split: sum.split)

text \<open>C19: The email form signs in, or hands over to the second factor, or fails, whatever the server answers to the login, the
  set-up status and \<open>/me\<close>. With a challenge it stores exactly that challenge, if the browser allows it, opens the
  verification page and asks for no profile. Without one it loads the profile and opens the continuation path of what it found:
  of the user, or of nobody when the set-up is open or the session has expired at once; when the profile cannot be loaded it
  shows that error, navigates nowhere and leaves the session. When the server refuses the login, it shows one error and leaves the session as it was.
  In each case the button is released.\<close>

theorem email_login_outcomes:
  "let s' = snd (on_email_submit allowed login_r status_r me_r s);
       rq = EvRequest ''POST'' ''/auth/login''
              (Some (JObj [(''email'', JStr (lp_email s)), (''password'', JStr (lp_password s))])) in
   \<not> lp_busy s'
   \<and> (case login_r of
        Inl e \<Rightarrow> events s' = events s @ [rq, EvToast e None] \<and> au_me s' = au_me s
          \<and> session_store s' = session_store s
      | Inr (status, challenge) \<Rightarrow>
          if status = ''mfa_required'' \<and> truthy challenge
          then events s' = events s @ [rq, EvNavigate ''/verify-2fa'' True None] \<and> au_me s' = au_me s
            \<and> session_store s' =
                (if allowed then (session_store s)(''mfa_challenge_id'' := challenge) else session_store s)
          else events s' = events s @ [rq] @ refresh_log status_r me_r (refreshed status_r me_r)
            \<and> au_me s' = (case refreshed status_r me_r of Inr m \<Rightarrow> m | Inl _ \<Rightarrow> au_me s)
            \<and> session_store s' = session_store s)"
proof (cases login_r)
  case (Inl e)
  then show ?thesis
    by (simp add: on_email_submit_def login_form.submit_run run_simps lp_set_busy_def emit_def)
next
  case (Inr q)
  obtain status challenge where q: "q = (status, challenge)" by (cases q)
  show ?thesis
  proof (cases "status = ''mfa_required'' \<and> truthy challenge")
    case True
    then obtain c where "challenge = Some c" by (cases challenge) auto
    then show ?thesis using True Inr q
      by (simp add: on_email_submit_def login_form.submit_run run_simps lp_set_busy_def emit_def
          navigate_def store_mfa_challenge_id_def storage_defs challenge_key_def)
  next
    case False
    then show ?thesis using Inr q
      by (cases "refreshed status_r me_r")
         (auto simp: on_email_submit_def login_form.submit_run run_simps lp_set_busy_def
          continue_run refresh_events refresh_returns refresh_log_def Let_def emit_def)
  qed
qed

text \<open>C20: The second-factor form sends the challenge of the login with the trimmed code (or recovery code), and only a
  server that accepts it ends the challenge: then it is forgotten, if the browser allows it, and the form goes on as after a login:
  it loads the profile and opens the continuation path of what it found, or shows the error of the loading and leaves the session. A
  refused code shows one error and leaves the challenge and the session for another attempt; without a challenge nothing is sent.\<close>

theorem verify_challenge_flow:
  "let s' = snd (on_verify_submit allowed challenge r status_r me_r s);
       rq = EvRequest ''POST'' (if vp_use_recovery s then ''/auth/mfa/recover'' else ''/auth/mfa/verify'')
              (Some (JObj [(''challenge_id'', JStr (str_or_empty challenge)),
                 (if vp_use_recovery s then (''recovery_code'', JStr (trim (vp_recovery s)))
                  else (''code'', JStr (trim (vp_code s))))])) in
   if \<not> truthy challenge then s' = s
   else \<not> vp_busy s'
     \<and> (case r of
          Inl e \<Rightarrow> events s' = events s @ [rq, EvToast e None] \<and> session_store s' = session_store s
            \<and> au_me s' = au_me s
        | Inr _ \<Rightarrow> events s' = events s @ [rq] @ refresh_log status_r me_r (refreshed status_r me_r)
            \<and> session_store s' =
                (if allowed then (session_store s)(''mfa_challenge_id'' := None) else session_store s)
            \<and> au_me s' = (case refreshed status_r me_r of Inr m \<Rightarrow> m | Inl _ \<Rightarrow> au_me s))"
proof (cases "truthy challenge")
  case False
  then show ?thesis by (simp add: on_verify_submit_def)
next
  case True
  show ?thesis
  proof (cases r)
    case (Inl e)
    then show ?thesis using True
      by (auto simp: on_verify_submit_def verify_form.submit_run run_simps vp_set_busy_def Let_def emit_def)
  next
    case (Inr u)
    then show ?thesis using True
      by (cases "refreshed status_r me_r")
         (auto simp: on_verify_submit_def verify_form.submit_run run_simps vp_set_busy_def Let_def continue_run
          refresh_events refresh_returns refresh_log_def clear_mfa_challenge_id_def challenge_key_def storage_defs emit_def)
  qed
qed

text \<open>C21: Every submit handler of the sign-in pages returns normally and releases its button
  whatever the server does (a handler that does nothing leaves it as it was). The consent forms send
  nothing before every document is ticked, and the reset form sends nothing while its cool-down runs.\<close>

theorem submit_handlers_settle:
  "(let (r, s') = on_email_submit al login_r st m s1 in r = Inr () \<and> \<not> lp_busy s')
   \<and> (let (r, s') = on_verify_submit al ch u st m s2 in r = Inr () \<and>
        (if truthy ch then \<not> vp_busy s' else s' = s2))
   \<and> (let (r, s') = on_change_password_submit u st m s3 in r = Inr () \<and> \<not> pp_busy s')
   \<and> (let (r, s') = on_accept u st m s4 in r = Inr () \<and>
        (if accept_all_checked s4 then \<not> ap_busy s' else s' = s4))
   \<and> (let (r, s') = on_signup_submit u st m s5 in r = Inr () \<and>
        (if all_legal_checked s5 then \<not> su_busy s' else s' = s5))
   \<and> (let (r, s') = on_setup_submit u st m s6 in r = Inr () \<and> \<not> st_busy s')
   \<and> (let (r, s') = on_forgot_submit u s7 in r = Inr () \<and>
        (if fp_busy s7 \<or> 0 < fp_cooldown s7 then s' = s7 else \<not> fp_busy s'))
   \<and> (let (r, s') = on_reset_submit u s8 in r = Inr () \<and> \<not> rp_busy s')"
  by (intro conjI)
     (simp_all add: on_email_submit_def on_verify_submit_def on_change_password_submit_def on_accept_def
      on_signup_submit_def on_setup_submit_def on_forgot_submit_def on_reset_submit_def case_prod_beta
      login_form.submit_settles verify_form.submit_settles password_form.submit_settles
      accept_form.submit_settles signup_form.submit_settles setup_form.submit_settles
      forgot_form.submit_settles reset_form.submit_settles)

text \<open>The waiting time shown is never zero and covers the seconds left.\<close>

lemma cooldown_minutes_covers: "1 \<le> cooldown_minutes n \<and> n \<le> 60 * cooldown_minutes n"
proof -
  have "(n + 59) mod 60 \<le> 59" by (simp add: less_Suc_eq_le [symmetric])
  then have "n \<le> 60 * ((n + 59) div 60)" using div_mult_mod_eq [of "n + 59" 60] by linarith
  then show ?thesis unfolding cooldown_minutes_def by (simp add: max_def)
qed

theorem wallet_refresh_frame_witness:
  "me_user (the (au_me (snd (refresh_org_wallet (Inl (JsError ''x''))
      (signed_out\<lparr>au_me := Some (example_me True False)\<rparr>))))) = me_user (example_me True False)"
  using wallet_refresh_frame [of "Inl (JsError ''x'')" "signed_out\<lparr>au_me := Some (example_me True False)\<rparr>"]
  by simp

end
