(* ===== verification/Task_Poll.thy ===== *)
theory Task_Poll
  imports Auth
begin

text \<open>
  Following one task: \<open>web/src/hooks/useTaskPoll.ts\<close> as a step relation, because its loop runs
  between awaits while the effect may be torn down, and the handlers of
  \<open>web/src/pages/TaskPage.tsx\<close>.

  A state is one run of the effect. \<open>Fetching\<close> waits for the answer of \<open>fetchTask\<close>,
  \<open>Sleeping\<close> for the timer, \<open>Returned\<close> is the moment between the end of
  \<open>pollUntilTerminal\<close> and the continuation of \<open>run\<close>. The trace lists what the run did, oldest
  first; the wallet refresh is started and not awaited.
\<close>

section \<open>The loop\<close>

datatype poll_phase = Fetching string | Sleeping string | Returned "task option" | Finished

datatype poll_event =
    PollFetch string | PollTask task | PollTerminal task | PollWallet | PollError exn
  | PollSuccess task

record poll_state =
  ps_stop :: bool
  ps_phase :: poll_phase
  ps_shown :: "task option"
  ps_trace :: "poll_event list"

definition poll_emit :: "poll_event list \<Rightarrow> poll_state \<Rightarrow> poll_state" where
  "poll_emit es s = s\<lparr>ps_trace := ps_trace s @ es\<rparr>"

definition poll_goto :: "poll_phase \<Rightarrow> poll_state \<Rightarrow> poll_state" where
  "poll_goto ph s = s\<lparr>ps_phase := ph\<rparr>"

definition poll_start :: "string \<Rightarrow> task option \<Rightarrow> poll_state" where
  "poll_start i initial =
     \<lparr>ps_stop = False, ps_phase = Fetching i, ps_shown = initial, ps_trace = [PollFetch i]\<rparr>"

text \<open>The answer to \<open>fetchTask (id)\<close>.\<close>

definition on_fetched :: "string \<Rightarrow> task \<Rightarrow> poll_state \<Rightarrow> poll_state" where
  "on_fetched i next s =
     (if ps_stop s then poll_goto (Returned None) s
      else (let s1 = poll_emit [PollTask next] (s\<lparr>ps_shown := Some next\<rparr>) in
            if \<not> is_active_task_status (task_status next)
            then poll_goto (Returned (Some next))
                   (poll_emit (PollTerminal next # (if task_status next = ''success'' then [PollWallet] else []))
                      s1)
            else poll_goto (Sleeping i) s1))"

definition on_fetch_error :: "string \<Rightarrow> exn \<Rightarrow> poll_state \<Rightarrow> poll_state" where
  "on_fetch_error i e s =
     poll_goto (Sleeping i) (if \<not> ps_stop s then poll_emit [PollError e] s else s)"

definition on_wake :: "string \<Rightarrow> poll_state \<Rightarrow> poll_state" where
  "on_wake i s =
     (if ps_stop s then poll_goto (Returned None) s
      else poll_goto (Fetching i) (poll_emit [PollFetch i] s))"

definition on_returned :: "bool \<Rightarrow> task option \<Rightarrow> poll_state \<Rightarrow> poll_state" where
  "on_returned follow_up_chain result s =
     (case result of
        None \<Rightarrow> poll_goto Finished s
      | Some t \<Rightarrow>
          if ps_stop s then poll_goto Finished s
          else if task_status t = ''success'' \<and> follow_up_chain
          then (case follow_up_task_id t of
                  Some n \<Rightarrow> poll_goto (Fetching n) (poll_emit [PollFetch n] s)
                | None \<Rightarrow> poll_goto Finished (poll_emit [PollSuccess t] s))
          else if task_status t = ''success''
          then poll_goto Finished (poll_emit [PollSuccess t] s)
          else poll_goto Finished s)"

text \<open>The run, for a given value of \<open>followUpChain\<close>; the clean-up of the effect may come at any
  time.\<close>

inductive poll_step :: "bool \<Rightarrow> poll_state \<Rightarrow> poll_state \<Rightarrow> bool" for fc where
  fetched: "ps_phase s = Fetching i \<Longrightarrow> poll_step fc s (on_fetched i next s)"
| fetch_failed: "ps_phase s = Fetching i \<Longrightarrow> poll_step fc s (on_fetch_error i e s)"
| wake: "ps_phase s = Sleeping i \<Longrightarrow> poll_step fc s (on_wake i s)"
| returned: "ps_phase s = Returned r \<Longrightarrow> poll_step fc s (on_returned fc r s)"
| cleanup: "poll_step fc s (s\<lparr>ps_stop := True\<rparr>)"

inductive poll_run :: "bool \<Rightarrow> string \<Rightarrow> task option \<Rightarrow> poll_state \<Rightarrow> bool" for fc i ini where
  run_start: "poll_run fc i ini (poll_start i ini)"
| run_step: "poll_run fc i ini s \<Longrightarrow> poll_step fc s s' \<Longrightarrow> poll_run fc i ini s'"

lemmas poll_defs = poll_emit_def poll_goto_def on_fetched_def on_fetch_error_def on_wake_def
  on_returned_def poll_start_def

section \<open>The task page\<close>

record task_page = auth_state +
  tk_id :: string
  tk_task :: "task option"
  tk_poll_generation :: nat

text \<open>\<open>onSuccess\<close> of the page.\<close>

definition on_task_success :: "task \<Rightarrow> ('z task_page_scheme, unit) act" where
  "on_task_success finished = thenA (upd end_pipeline_run) (redirect_after_task_success finished)"

definition task_path :: "string \<Rightarrow> string" where
  "task_path i = ''/tasks/'' @ i"

definition stop_capture :: "(exn + task) \<Rightarrow> ('z task_page_scheme, unit) act" where
  "stop_capture r s =
     (if tk_id s = [] then (Inr (), s)
      else tryA (bindA (send_json r ''POST'' (task_path (tk_id s) @ ''/stop'') None)
                   (\<lambda>next. upd (\<lambda>s. s\<lparr>tk_task := Some next\<rparr>)))
             show_error s)"

definition cancel_task :: "(exn + unit) \<Rightarrow> ('z task_page_scheme, unit) act" where
  "cancel_task r s =
     (if tk_id s = [] then (Inr (), s)
      else tryA (thenA (send_json r ''DELETE'' (task_path (tk_id s)) None)
                   (thenA (upd end_pipeline_run) (navigate ''/app/tasks'' False None)))
             show_error s)"

definition retry_task :: "(exn + task) \<Rightarrow> ('z task_page_scheme, unit) act" where
  "retry_task r s =
     (if tk_id s = [] then (Inr (), s)
      else tryA (bindA (send_json r ''POST'' (task_path (tk_id s) @ ''/retry'') None)
                   (\<lambda>next. thenA (upd (\<lambda>s. s\<lparr>tk_task := Some next\<rparr>))
                             (upd (\<lambda>s. s\<lparr>tk_poll_generation := tk_poll_generation s + 1\<rparr>))))
             show_error s)"

text \<open>\<open>refresh\<close> of the hook.\<close>

definition refresh_task :: "(exn + task) \<Rightarrow> ('z task_page_scheme, task option) act" where
  "refresh_task r s =
     (if tk_id s = [] then (Inr None, s)
      else tryA (bindA (get_json r (task_path (tk_id s)))
                   (\<lambda>next. thenA (upd (\<lambda>s. s\<lparr>tk_task := Some next\<rparr>)) (ret (Some next))))
             (\<lambda>e. thenA (show_error e) (ret None)) s)"

definition task_heading :: "translate \<Rightarrow> task option \<Rightarrow> string" where
  "task_heading tr x =
     (case x of
        None \<Rightarrow> tr_key tr ''task.pipeline.loading'' []
      | Some t \<Rightarrow>
          (case task_stage_label t tr of
             Some l \<Rightarrow> l
           | None \<Rightarrow>
               tr_key tr ''task.working''
                 [(''status'', if task_status t = ''queued'' \<or> task_status t = ''running''
                               then tr_or tr (''task.status.'' @ task_status t) [] (task_status t)
                               else task_status t)]))"

definition can_manage_task :: "me option \<Rightarrow> task option \<Rightarrow> bool" where
  "can_manage_task m x =
     (case x of
        None \<Rightarrow> False
      | Some t \<Rightarrow> is_org_admin m \<or> task_user_id t = map_option (\<lambda>u. user_id (me_user u)) m)"

definition shows_capture_stop :: "task option \<Rightarrow> bool" where
  "shows_capture_stop x =
     (case x of
        None \<Rightarrow> False
      | Some t \<Rightarrow> task_type t = ''capture'' \<and> task_status t = ''running''
          \<and> meta_string t ''worker_capture_status'' \<noteq> Some ''success''
          \<and> meta_string t ''stage'' \<noteq> Some ''downloading'')"

section \<open>Invariants of the run\<close>

lemma poll_emit_sel [simp]:
  "ps_trace (poll_emit es s) = ps_trace s @ es" "ps_stop (poll_emit es s) = ps_stop s"
  "ps_phase (poll_emit es s) = ps_phase s" "ps_shown (poll_emit es s) = ps_shown s"
  by (simp_all add: poll_emit_def)

lemma poll_goto_sel [simp]:
  "ps_trace (poll_goto ph s) = ps_trace s" "ps_stop (poll_goto ph s) = ps_stop s"
  "ps_phase (poll_goto ph s) = ph" "ps_shown (poll_goto ph s) = ps_shown s"
  by (simp_all add: poll_goto_def)

fun successes :: "poll_event list \<Rightarrow> task list" where
  "successes [] = []"
| "successes (PollSuccess t # es) = t # successes es"
| "successes (_ # es) = successes es"

lemma successes_append [simp]: "successes (es @ es') = successes es @ successes es'"
  by (induction es rule: successes.induct) auto

fun shown_of :: "task option \<Rightarrow> poll_event list \<Rightarrow> task option" where
  "shown_of ini [] = ini"
| "shown_of ini (PollTask t # es) = shown_of (Some t) es"
| "shown_of ini (_ # es) = shown_of ini es"

lemma shown_of_append [simp]: "shown_of ini (es @ es') = shown_of (shown_of ini es) es'"
  by (induction ini es rule: shown_of.induct) auto

text \<open>A task whose success may be announced.\<close>

definition chain_end :: "bool \<Rightarrow> task \<Rightarrow> bool" where
  "chain_end fc t \<longleftrightarrow> task_status t = ''success'' \<and> (fc \<longrightarrow> follow_up_task_id t = None)"

definition poll_inv :: "bool \<Rightarrow> string \<Rightarrow> task option \<Rightarrow> poll_state \<Rightarrow> bool" where
  "poll_inv fc i ini s \<longleftrightarrow>
     ps_shown s = shown_of ini (ps_trace s)
     \<and> (\<forall>j. ps_phase s = Fetching j \<or> ps_phase s = Sleeping j \<longrightarrow> PollFetch j \<in> set (ps_trace s))
     \<and> (\<forall>t. ps_phase s = Returned (Some t) \<longrightarrow>
          PollTerminal t \<in> set (ps_trace s) \<and> \<not> is_active_task_status (task_status t))
     \<and> (\<forall>t. PollTerminal t \<in> set (ps_trace s) \<longrightarrow> \<not> is_active_task_status (task_status t))
     \<and> (\<forall>j. PollFetch j \<in> set (ps_trace s) \<longrightarrow>
          j = i \<or> fc \<and> (\<exists>t. PollTerminal t \<in> set (ps_trace s) \<and> task_status t = ''success''
                         \<and> follow_up_task_id t = Some j))
     \<and> (successes (ps_trace s) = []
        \<or> (\<exists>t. ps_phase s = Finished \<and> successes (ps_trace s) = [t]
              \<and> last (ps_trace s) = PollSuccess t \<and> chain_end fc t
              \<and> PollTerminal t \<in> set (ps_trace s)))"

lemma poll_inv_start: "poll_inv fc i ini (poll_start i ini)"
  by (simp add: poll_inv_def poll_start_def)

lemma poll_inv_step:
  assumes "poll_step fc s s'" and "poll_inv fc i ini s"
  shows "poll_inv fc i ini s'"
  using assms
proof (cases rule: poll_step.cases)
  case (fetched j t)
  then show ?thesis using assms(2)
    by (auto simp: poll_inv_def on_fetched_def Let_def)
next
  case (fetch_failed j e)
  then show ?thesis using assms(2) by (auto simp: poll_inv_def on_fetch_error_def)
next
  case (wake j)
  then show ?thesis using assms(2) by (auto simp: poll_inv_def on_wake_def)
next
  case (returned r)
  then show ?thesis using assms(2)
    by (cases r) (auto simp: poll_inv_def on_returned_def chain_end_def split: option.splits)
next
  case cleanup
  then show ?thesis using assms(2) by (auto simp: poll_inv_def)
qed

lemma poll_inv_run: "poll_run fc i ini s \<Longrightarrow> poll_inv fc i ini s"
  by (induction rule: poll_run.induct) (auto intro: poll_inv_start poll_inv_step)

text \<open>A stopped run does nothing visible any more.\<close>

lemma stopped_silent:
  assumes "poll_step fc s s'" and "ps_stop s"
  shows "ps_stop s' \<and> ps_trace s' = ps_trace s \<and> ps_shown s' = ps_shown s"
  using assms
  by (cases rule: poll_step.cases)
     (auto simp: on_fetched_def on_fetch_error_def on_wake_def on_returned_def split: option.splits)

inductive poll_steps :: "bool \<Rightarrow> poll_state \<Rightarrow> poll_state \<Rightarrow> bool" for fc where
  steps_none: "poll_steps fc s s"
| steps_more: "poll_steps fc s s' \<Longrightarrow> poll_step fc s' s'' \<Longrightarrow> poll_steps fc s s''"

section \<open>Driving the run by a list of answers\<close>

text \<open>The answers to the successive requests; the timer fires and the continuation runs in
  between.\<close>

definition poll_answer :: "string \<Rightarrow> exn + task \<Rightarrow> poll_state \<Rightarrow> poll_state" where
  "poll_answer i r s = (case r of Inl e \<Rightarrow> on_fetch_error i e s | Inr t \<Rightarrow> on_fetched i t s)"

definition poll_settle :: "bool \<Rightarrow> poll_state \<Rightarrow> poll_state" where
  "poll_settle fc s =
     (case ps_phase s of
        Sleeping i \<Rightarrow> on_wake i s
      | Returned r \<Rightarrow> on_returned fc r s
      | _ \<Rightarrow> s)"

fun poll_drive :: "bool \<Rightarrow> poll_state \<Rightarrow> (exn + task) list \<Rightarrow> poll_state" where
  "poll_drive fc s [] = s"
| "poll_drive fc s (r # rs) =
     (case ps_phase s of
        Fetching i \<Rightarrow> poll_drive fc (poll_settle fc (poll_answer i r s)) rs
      | _ \<Rightarrow> s)"

lemma poll_answer_step: "ps_phase s = Fetching i \<Longrightarrow> poll_step fc s (poll_answer i r s)"
  by (cases r) (auto simp: poll_answer_def intro: poll_step.intros)

lemma poll_settle_steps: "poll_steps fc s (poll_settle fc s)"
  by (auto simp: poll_settle_def split: poll_phase.splits
      intro: poll_steps.intros poll_step.intros)

lemma poll_steps_trans: "poll_steps fc s2 s3 \<Longrightarrow> poll_steps fc s1 s2 \<Longrightarrow> poll_steps fc s1 s3"
  by (induction rule: poll_steps.induct) (auto intro: steps_more)

lemma poll_drive_steps: "poll_steps fc s (poll_drive fc s rs)"
proof (induction fc s rs rule: poll_drive.induct)
  case (1 fc s)
  then show ?case by (simp add: steps_none)
next
  case (2 fc s r rs)
  show ?case
  proof (cases "ps_phase s")
    case (Fetching i)
    have "poll_steps fc s (poll_answer i r s)"
      using steps_more [OF steps_none poll_answer_step [OF Fetching]] .
    then have "poll_steps fc s (poll_settle fc (poll_answer i r s))"
      using poll_steps_trans poll_settle_steps by blast
    then show ?thesis using 2 Fetching poll_steps_trans by fastforce
  qed (simp_all add: steps_none)
qed

lemma run_steps: "poll_steps fc s s' \<Longrightarrow> poll_run fc i ini s \<Longrightarrow> poll_run fc i ini s'"
  by (induction rule: poll_steps.induct) (auto intro: run_step)

text \<open>Answers that keep the run going: failures and tasks still active.\<close>

definition keeps_polling :: "exn + task \<Rightarrow> bool" where
  "keeps_polling r = (case r of Inl _ \<Rightarrow> True | Inr t \<Rightarrow> is_active_task_status (task_status t))"

lemma drive_waiting:
  assumes "ps_phase s = Fetching i" and "\<not> ps_stop s" and "list_all keeps_polling rs"
  shows "\<exists>s'. poll_drive fc s (rs @ qs) = poll_drive fc s' qs \<and> ps_phase s' = Fetching i \<and> \<not> ps_stop s'
    \<and> length (ps_trace s) \<le> length (ps_trace s')"
  using assms
proof (induction rs arbitrary: s)
  case Nil
  then show ?case by auto
next
  case (Cons r rs)
  let ?s1 = "poll_settle fc (poll_answer i r s)"
  have "ps_phase ?s1 = Fetching i \<and> \<not> ps_stop ?s1 \<and> length (ps_trace s) \<le> length (ps_trace ?s1)"
    using Cons.prems
    by (cases r) (auto simp: poll_answer_def poll_settle_def keeps_polling_def on_fetched_def
        on_fetch_error_def on_wake_def Let_def)
  with Cons show ?case by (fastforce intro: le_trans)
qed

section \<open>Properties\<close>

text \<open>C22: Once the effect is torn down, its run is silent for good: whatever answers and timers
  still arrive, it sets no task, calls no callback, shows no error, sends no request and refreshes no
  wallet.\<close>

theorem stopped_poll_is_silent:
  assumes "ps_stop s" and "poll_steps fc s s'"
  shows "ps_trace s' = ps_trace s \<and> ps_shown s' = ps_shown s \<and> ps_stop s'"
  using assms(2,1) by (induction rule: poll_steps.induct) (use stopped_silent in auto)

theorem stopped_poll_is_silent_witness:
  "ps_trace ((poll_start ''a'' None)\<lparr>ps_stop := True\<rparr>) = [PollFetch ''a'']
   \<and> ps_trace (on_fetched ''a'' (example_task ''import'' ''success'')
        ((poll_start ''a'' None)\<lparr>ps_stop := True\<rparr>)) = [PollFetch ''a'']"
proof -
  let ?s = "(poll_start ''a'' None)\<lparr>ps_stop := True\<rparr>"
  have "poll_steps True ?s (on_fetched ''a'' (example_task ''import'' ''success'') ?s)"
    by (rule steps_more [OF steps_none]) (rule fetched, simp add: poll_start_def)
  from stopped_poll_is_silent [OF _ this] show ?thesis by (simp add: poll_start_def)
qed

text \<open>C23: In every interleaving of answers, timers, continuations and the clean-up, \<open>onSuccess\<close>
  is called at most once, as the last thing the run does, with a finished task for which
  \<open>onTerminal\<close> was called before and which, when chains are followed, names no further task; the
  run requests no task but its own and, when chains are followed, the follow-ups of tasks that
  succeeded; and what it shows is the last task it received.\<close>

theorem poll_success_once:
  assumes "poll_run fc i ini s"
  shows "(\<forall>t. PollSuccess t \<in> set (ps_trace s) \<longrightarrow>
        successes (ps_trace s) = [t] \<and> last (ps_trace s) = PollSuccess t \<and> ps_phase s = Finished
        \<and> PollTerminal t \<in> set (ps_trace s) \<and> task_status t = ''success''
        \<and> \<not> (fc \<and> follow_up_task_id t \<noteq> None))
    \<and> (\<forall>j. PollFetch j \<in> set (ps_trace s) \<longrightarrow> j = i \<or>
        fc \<and> (\<exists>t. PollTerminal t \<in> set (ps_trace s) \<and> task_status t = ''success''
                \<and> follow_up_task_id t = Some j))
    \<and> (\<forall>t. PollTerminal t \<in> set (ps_trace s) \<longrightarrow> is_terminal_task_status (task_status t))
    \<and> ps_shown s = shown_of ini (ps_trace s)"
proof -
  have m: "PollSuccess t \<in> set es \<Longrightarrow> t \<in> set (successes es)" for t es
    by (induction es rule: successes.induct) auto
  have inv: "poll_inv fc i ini s" by (rule poll_inv_run [OF assms])
  have s: "successes (ps_trace s) = [t] \<and> last (ps_trace s) = PollSuccess t \<and> ps_phase s = Finished
        \<and> PollTerminal t \<in> set (ps_trace s) \<and> task_status t = ''success''
        \<and> \<not> (fc \<and> follow_up_task_id t \<noteq> None)" if "PollSuccess t \<in> set (ps_trace s)" for t
    using m [OF that] inv unfolding poll_inv_def chain_end_def by auto
  show ?thesis
    using s inv unfolding poll_inv_def is_terminal_task_status_def by blast
qed

theorem poll_success_once_witness:
  "successes (ps_trace (poll_drive True (poll_start ''a'' None)
      [Inr (example_task ''import'' ''success'')])) = [example_task ''import'' ''success'']"
proof -
  let ?s = "poll_drive True (poll_start ''a'' None) [Inr (example_task ''import'' ''success'')]"
  have "PollSuccess (example_task ''import'' ''success'') \<in> set (ps_trace ?s)"
    by (simp add: poll_start_def poll_answer_def poll_settle_def on_fetched_def on_returned_def
        is_active_task_status_def example_task_def follow_up_task_id_def)
  moreover have "poll_run True ''a'' None ?s" by (rule run_steps [OF poll_drive_steps run_start])
  ultimately show ?thesis using poll_success_once [of True "''a''" None ?s] by blast
qed

text \<open>C24: The poll comes to an end: after any number of failed requests and of answers with an
  active task, the first answer with a finished task ends the run, unless it has to follow its chain;
  a success is announced exactly then, an error status ends the run without an announcement.\<close>

theorem poll_reaches_the_end:
  assumes "list_all keeps_polling rs" and "is_terminal_task_status (task_status t)"
    and "\<not> (fc \<and> task_status t = ''success'' \<and> follow_up_task_id t \<noteq> None)"
  shows "let s = poll_drive fc (poll_start i ini) (rs @ [Inr t]) in
    poll_run fc i ini s \<and> ps_phase s = Finished \<and> ps_shown s = Some t
    \<and> successes (ps_trace s) = (if task_status t = ''success'' then [t] else [])"
proof -
  let ?s = "poll_drive fc (poll_start i ini) (rs @ [Inr t])"
  have r: "poll_run fc i ini ?s" by (rule run_steps [OF poll_drive_steps run_start])
  obtain s' where s': "?s = poll_drive fc s' [Inr t]" "ps_phase s' = Fetching i" "\<not> ps_stop s'"
    using drive_waiting [of "poll_start i ini" i rs fc "[Inr t]"] assms(1)
    by (auto simp: poll_start_def)
  have f: "ps_phase ?s = Finished \<and> ps_shown ?s = Some t
      \<and> (if task_status t = ''success'' then PollSuccess t \<in> set (ps_trace ?s)
         else last (ps_trace ?s) = PollTerminal t)"
    unfolding s'(1) using s'(2,3) assms(2,3)
    by (auto simp: poll_answer_def poll_settle_def on_fetched_def on_returned_def Let_def
        is_terminal_task_status_def split: option.splits)
  have inv: "poll_inv fc i ini ?s" by (rule poll_inv_run [OF r])
  have "successes (ps_trace ?s) = (if task_status t = ''success'' then [t] else [])"
  proof (cases "task_status t = ''success''")
    case True
    have m: "PollSuccess t \<in> set es \<Longrightarrow> t \<in> set (successes es)" for es
      by (induction es rule: successes.induct) auto
    from m f True inv show ?thesis unfolding poll_inv_def by fastforce
  next
    case False
    then show ?thesis using f inv unfolding poll_inv_def by auto
  qed
  with r f show ?thesis by (simp add: Let_def)
qed

theorem poll_reaches_the_end_witness:
  "ps_phase (poll_drive False (poll_start ''a'' None)
      ([Inl (JsError ''offline''), Inr (example_task ''import'' ''running'')]
       @ [Inr (example_task ''import'' ''error'')])) = Finished"
  using poll_reaches_the_end [of "[Inl (JsError ''offline''), Inr (example_task ''import'' ''running'')]"
      "example_task ''import'' ''error''" False "''a''" None]
  by (simp add: Let_def keeps_polling_def is_active_task_status_def is_terminal_task_status_def
      example_task_def)

end
