(* ===== verification/Lists.thy ===== *)
theory Lists
  imports Auth
begin

text \<open>
  Paginated lists: the page arithmetic of \<open>components/app/selectOptions.ts\<close> and
  \<open>AppListPagination.tsx\<close>, user labels (\<open>userDisplay.ts\<close>), the task list with its poll
  (\<open>hooks/useTasksListPoll.ts\<close>, \<open>pages/TasksPage.tsx\<close>) and the library list
  (\<open>libraryList.ts\<close>, \<open>hooks/useLibraryList.ts\<close>, \<open>pages/LibraryPage.tsx\<close>).

  The poll and the library list are step relations, because their requests overlap: a request in
  flight carries what its closure captured, and its answer may come at any later time.
\<close>

section \<open>Pages\<close>

definition list_page_sizes :: "nat list" where
  "list_page_sizes = [5, 10, 50, 100]"

definition default_list_page_size :: nat where
  "default_list_page_size = 10"

definition page_size_options :: "nat list \<Rightarrow> (string \<times> string) list" where
  "page_size_options sizes = map (\<lambda>n. (nat_str n, nat_str n)) sizes"

text \<open>\<open>Math.max (1, Math.ceil (total / pageSize))\<close> for a positive page size.\<close>

definition page_count :: "nat \<Rightarrow> nat \<Rightarrow> nat" where
  "page_count cnt sz = max 1 ((cnt + sz - 1) div sz)"

definition safe_page :: "nat \<Rightarrow> nat \<Rightarrow> nat \<Rightarrow> nat" where
  "safe_page cnt page sz = min page (page_count cnt sz - 1)"

definition list_page_bounds :: "nat \<Rightarrow> nat \<Rightarrow> nat \<Rightarrow> nat \<times> nat \<times> nat" where
  "list_page_bounds cnt page sz =
     (page_count cnt sz, safe_page cnt page sz, safe_page cnt page sz * sz)"

text \<open>The range shown by the pager and its two buttons.\<close>

definition page_range :: "nat \<Rightarrow> nat \<Rightarrow> nat \<Rightarrow> nat \<times> nat" where
  "page_range cnt page sz =
     (if cnt = 0 then 0 else page * sz + 1, min cnt ((page + 1) * sz))"

definition prev_disabled :: "nat \<Rightarrow> bool" where
  "prev_disabled page \<longleftrightarrow> page = 0"

definition next_disabled :: "nat \<Rightarrow> nat \<Rightarrow> nat \<Rightarrow> bool" where
  "next_disabled cnt page sz \<longleftrightarrow> page_count cnt sz \<le> page + 1"

section \<open>User labels\<close>

record user_label =
  ul_display_name :: "string option"
  ul_email :: "string option"

definition user_shown_name :: "user_label option \<Rightarrow> string" where
  "user_shown_name x =
     (case x of
        None \<Rightarrow> []
      | Some u \<Rightarrow>
          (let name = trim (str_or_empty (ul_display_name u)) in
           if name \<noteq> [] then name else trim (str_or_empty (ul_email u))))"

text \<open>\<open>split (/\s+/).filter (Boolean)\<close>.\<close>

fun words_of :: "string \<Rightarrow> string \<Rightarrow> string list" where
  "words_of acc [] = (if acc = [] then [] else [rev acc])"
| "words_of acc (c # s) =
     (if is_ws c then (if acc = [] then [] else [rev acc]) @ words_of [] s else words_of (c # acc) s)"

definition user_initials :: "user_label option \<Rightarrow> string" where
  "user_initials x =
     (case x of
        None \<Rightarrow> ''?''
      | Some u \<Rightarrow>
          (case words_of [] (trim (str_or_empty (ul_display_name u))) of
             p # q # _ \<Rightarrow> to_upper (take 1 p @ take 1 q)
           | parts \<Rightarrow>
               (let single = (case parts of [] \<Rightarrow> trim (str_or_empty (ul_email u)) | p # _ \<Rightarrow> p) in
                if 2 \<le> length single then to_upper (take 2 single)
                else (case single of [] \<Rightarrow> ''?'' | c # _ \<Rightarrow> to_upper [c]))))"

definition user_has_distinct_display_name :: "user_label option \<Rightarrow> bool" where
  "user_has_distinct_display_name x =
     (case x of
        None \<Rightarrow> False
      | Some u \<Rightarrow>
          (if \<not> truthy (ul_email u) then False
           else (let name = trim (str_or_empty (ul_display_name u)) in
                 name \<noteq> [] \<and> name \<noteq> trim (str_or_empty (ul_email u)))))"

definition user_picker_label :: "user_label option \<Rightarrow> string" where
  "user_picker_label x =
     (case x of
        None \<Rightarrow> []
      | Some u \<Rightarrow>
          (let email = trim (str_or_empty (ul_email u)) in
           if user_has_distinct_display_name x
           then user_shown_name x @ '' ('' @ email @ '')''
           else if email \<noteq> [] then email else user_shown_name x))"

text \<open>\<open>localeCompare\<close> with base sensitivity is the argument \<open>cmp\<close>.\<close>

definition label_of_user :: "user \<Rightarrow> user_label" where
  "label_of_user u = \<lparr>ul_display_name = Some (user_display_name u), ul_email = Some (user_email u)\<rparr>"

definition compare_users :: "(string \<Rightarrow> string \<Rightarrow> int) \<Rightarrow> user_label \<Rightarrow> user_label \<Rightarrow> int" where
  "compare_users cmp a b =
     (let left = cmp (user_shown_name (Some a)) (user_shown_name (Some b)) in
      if left \<noteq> 0 then left else cmp (str_or_empty (ul_email a)) (str_or_empty (ul_email b)))"

definition owner_list_label :: "string option \<Rightarrow> string option \<Rightarrow> string" where
  "owner_list_label name email =
     (if trim (str_or_empty name) \<noteq> [] then trim (str_or_empty name) else trim (str_or_empty email))"

definition nonempty_parts :: "string option list \<Rightarrow> string list" where
  "nonempty_parts xs = filter (\<lambda>x. x \<noteq> []) (map str_or_empty xs)"

definition member_matches_query :: "user \<Rightarrow> string \<Rightarrow> bool" where
  "member_matches_query u query =
     (let q = to_lower (trim query) in
      if q = [] then True
      else str_includes (to_lower (join '' '' (nonempty_parts
             [Some (user_display_name u), Some (user_email u), user_first_name u, user_last_name u]))) q)"

section \<open>The task list\<close>

definition opt_param :: "string \<Rightarrow> string \<Rightarrow> params \<Rightarrow> params" where
  "opt_param k v ps = (if v \<noteq> [] then params_set k v ps else ps)"

definition tasks_list_params :: "string \<Rightarrow> string \<Rightarrow> string \<Rightarrow> nat \<Rightarrow> nat \<Rightarrow> params" where
  "tasks_list_params oid uid status offset sz =
     params_set ''done_offset'' (nat_str offset)
       (params_set ''done_limit'' (nat_str sz)
         (opt_param ''status'' status (opt_param ''user_id'' uid (opt_param ''org_id'' oid []))))"

definition tasks_list_path :: "string \<Rightarrow> string \<Rightarrow> string \<Rightarrow> nat \<Rightarrow> nat \<Rightarrow> string" where
  "tasks_list_path oid uid status offset sz =
     ''/tasks?'' @ params_to_string (tasks_list_params oid uid status offset sz)"

record task_list_response =
  tr_active :: "task list"
  tr_done :: "task list"
  tr_done_total :: nat

text \<open>
  A request in flight: its sequence number, and whether it is the tick of the effect with that
  number or a reload. \<open>tl_effect\<close> numbers the effect in force: a tick of an older effect finds
  its \<open>stop\<close> set. \<open>tl_timer\<close> is the delay of the pending timer of the effect in force.
  \<open>tl_wallet\<close> counts the calls of \<open>refreshOrgWallet\<close>.
\<close>

datatype list_request = Tick nat | Reload

record task_list = browser +
  tl_org_id :: string
  tl_user_id :: string
  tl_status :: string
  tl_page_size :: nat
  tl_page :: nat
  tl_enabled :: bool
  tl_seq :: nat
  tl_effect :: nat
  tl_flight :: "(nat \<times> list_request) list"
  tl_timer :: "nat option"
  tl_prev_active :: "string list"
  tl_active :: "task list"
  tl_done :: "task list"
  tl_done_total :: nat
  tl_wallet :: nat

definition tl_done_offset :: "'z task_list_scheme \<Rightarrow> nat" where
  "tl_done_offset s = safe_page (tl_done_total s) (tl_page s) (tl_page_size s) * tl_page_size s"

text \<open>The dependencies of the effect.\<close>

definition tl_deps :: "'z task_list_scheme \<Rightarrow> string \<times> string \<times> string \<times> nat \<times> nat \<times> bool" where
  "tl_deps s = (tl_org_id s, tl_user_id s, tl_status s, tl_page_size s, tl_done_offset s, tl_enabled s)"

definition tl_send :: "list_request \<Rightarrow> nat \<Rightarrow> nat \<Rightarrow> 'z task_list_scheme \<Rightarrow> 'z task_list_scheme" where
  "tl_send r offset sz s =
     emit (EvRequest ''GET''
         (tasks_list_path (tl_org_id s) (tl_user_id s) (tl_status s) offset sz) None)
       (s\<lparr>tl_seq := tl_seq s + 1, tl_flight := tl_flight s @ [(tl_seq s + 1, r)]\<rparr>)"

definition tl_show :: "task_list_response \<Rightarrow> 'z task_list_scheme \<Rightarrow> 'z task_list_scheme" where
  "tl_show r s = s\<lparr>tl_active := tr_active r, tl_done := tr_done r, tl_done_total := tr_done_total r\<rparr>"

definition tl_tick :: "'z task_list_scheme \<Rightarrow> 'z task_list_scheme" where
  "tl_tick s = tl_send (Tick (tl_effect s)) (tl_done_offset s) (tl_page_size s) s"

text \<open>The effect runs: the cleanup of the old one, then the first tick of the new one.\<close>

definition tl_restart :: "'z task_list_scheme \<Rightarrow> 'z task_list_scheme" where
  "tl_restart s =
     (let s1 = s\<lparr>tl_effect := tl_effect s + 1, tl_timer := None\<rparr> in
      if tl_enabled s then tl_tick s1 else s1)"

text \<open>A rendering after a change of state or props.\<close>

definition tl_render :: "'z task_list_scheme \<Rightarrow> 'z task_list_scheme \<Rightarrow> 'z task_list_scheme" where
  "tl_render old s = (if tl_deps s = tl_deps old then s else tl_restart s)"

definition tl_timer_fires :: "'z task_list_scheme \<Rightarrow> 'z task_list_scheme" where
  "tl_timer_fires s = tl_tick (s\<lparr>tl_timer := None\<rparr>)"

definition tl_reload :: "nat \<Rightarrow> nat \<Rightarrow> 'z task_list_scheme \<Rightarrow> 'z task_list_scheme" where
  "tl_reload offset sz s = tl_send Reload offset sz s"

text \<open>The rest of a tick: \<open>n\<close> is its \<open>seq\<close>, \<open>k\<close> the number of its effect.\<close>

definition tl_tick_answer ::
  "nat \<Rightarrow> nat \<Rightarrow> exn + task_list_response \<Rightarrow> 'z task_list_scheme \<Rightarrow> 'z task_list_scheme" where
  "tl_tick_answer n k q s =
     (if k \<noteq> tl_effect s \<or> n \<noteq> tl_seq s then s
      else (case q of
              Inr r \<Rightarrow>
                (let ids = map task_id (tr_active r);
                     gone = list_ex (\<lambda>i. i \<notin> set ids) (tl_prev_active s) in
                 (tl_show r s)\<lparr>tl_wallet := tl_wallet s + (if gone then 1 else 0),
                    tl_prev_active := ids,
                    tl_timer := Some (if 0 < length (tr_active r) then task_list_active_poll_ms
                                      else task_list_idle_poll_ms)\<rparr>)
            | Inl e \<Rightarrow>
                (emit (EvToast e (Some ''tasks-poll'')) s)\<lparr>tl_timer := Some task_list_idle_poll_ms\<rparr>))"

definition tl_reload_answer ::
  "nat \<Rightarrow> exn + task_list_response \<Rightarrow> 'z task_list_scheme \<Rightarrow> 'z task_list_scheme" where
  "tl_reload_answer n q s =
     (if n \<noteq> tl_seq s then s
      else (case q of Inr r \<Rightarrow> tl_show r s | Inl e \<Rightarrow> emit (EvToast e None) s))"

definition tl_answer ::
  "nat \<Rightarrow> list_request \<Rightarrow> exn + task_list_response \<Rightarrow> 'z task_list_scheme \<Rightarrow> 'z task_list_scheme" where
  "tl_answer n r q s =
     (let s1 = s\<lparr>tl_flight := filter (\<lambda>x. x \<noteq> (n, r)) (tl_flight s)\<rparr> in
      tl_render s (case r of Tick k \<Rightarrow> tl_tick_answer n k q s1 | Reload \<Rightarrow> tl_reload_answer n q s1))"

text \<open>The filters and the pager set the props of the hook.\<close>

definition tl_set_query ::
  "string \<Rightarrow> string \<Rightarrow> string \<Rightarrow> nat \<Rightarrow> nat \<Rightarrow> 'z task_list_scheme \<Rightarrow> 'z task_list_scheme" where
  "tl_set_query oid uid status sz page s =
     tl_render s (s\<lparr>tl_org_id := oid, tl_user_id := uid, tl_status := status,
                    tl_page_size := sz, tl_page := page\<rparr>)"

definition tl_initial :: "bool \<Rightarrow> task_list" where
  "tl_initial en =
     \<lparr>local_store = Map.empty, session_store = Map.empty, events = [],
      tl_org_id = [], tl_user_id = [], tl_status = [], tl_page_size = default_list_page_size,
      tl_page = 0, tl_enabled = en, tl_seq = 0, tl_effect = 0, tl_flight = [], tl_timer = None,
      tl_prev_active = [], tl_active = [], tl_done = [], tl_done_total = 0, tl_wallet = 0\<rparr>"

text \<open>What may happen to a mounted list. The flag tells whether handlers call \<open>reload\<close>.\<close>

inductive tl_step :: "bool \<Rightarrow> task_list \<Rightarrow> task_list \<Rightarrow> bool" where
  queried: "tl_step rl s (tl_set_query oid uid status sz page s)"
| timer: "tl_timer s = Some d \<Longrightarrow> tl_step rl s (tl_timer_fires s)"
| reloaded: "tl_step True s (tl_reload offset sz s)"
| answered: "(n, r) \<in> set (tl_flight s) \<Longrightarrow> tl_step rl s (tl_answer n r q s)"

inductive tl_reach :: "bool \<Rightarrow> bool \<Rightarrow> task_list \<Rightarrow> bool" for rl en where
  reach_mount: "tl_reach rl en (tl_restart (tl_initial en))"
| reach_step: "tl_reach rl en s \<Longrightarrow> tl_step rl s s' \<Longrightarrow> tl_reach rl en s'"

section \<open>The tasks page\<close>

definition task_href :: "task \<Rightarrow> string" where
  "task_href t =
     (if task_status t = ''success'' \<and> (task_type t = ''import'' \<or> task_type t = ''capture'')
         \<and> truthy (task_audio_id t)
      then ''/app/audio/'' @ str_or_empty (task_audio_id t)
      else if task_status t = ''success'' \<and> truthy (task_transcript_id t)
      then ''/app/transcript/'' @ str_or_empty (task_transcript_id t)
      else if task_status t = ''success'' \<and> truthy (task_summary_id t)
      then ''/app/summary/'' @ str_or_empty (task_summary_id t)
      else ''/app/task/'' @ task_id t)"

text \<open>The loop with its \<open>seen\<close> set.\<close>

fun unseen_users :: "string list \<Rightarrow> user list \<Rightarrow> user list" where
  "unseen_users seen [] = []"
| "unseen_users seen (u # us) =
     (if user_id u \<in> set seen then unseen_users seen us
      else u # unseen_users (user_id u # seen) us)"

definition unique_users :: "(string \<Rightarrow> string \<Rightarrow> int) \<Rightarrow> org list \<Rightarrow> string \<Rightarrow> user list" where
  "unique_users cmp orgs oid =
     (let members = (if oid \<noteq> []
                     then (case find (\<lambda>x. org_id x = oid) orgs of
                             None \<Rightarrow> [] | Some x \<Rightarrow> nullish (org_members x) [])
                     else concat (map (\<lambda>x. nullish (org_members x) []) orgs)) in
      sort_by (\<lambda>a b. compare_users cmp (label_of_user a) (label_of_user b)) (unseen_users [] members))"

record tasks_page = task_list +
  tp_orgs :: "org list"
  tp_org_users :: "user list"
  tp_confirm_purge :: bool
  tp_purge_busy :: bool

definition user_options :: "(string \<Rightarrow> string \<Rightarrow> int) \<Rightarrow> me option \<Rightarrow> 'z tasks_page_scheme \<Rightarrow> user list" where
  "user_options cmp m s =
     (if is_instance_admin m then unique_users cmp (tp_orgs s) (tl_org_id s)
      else sort_by (\<lambda>a b. compare_users cmp (label_of_user a) (label_of_user b)) (tp_org_users s))"

definition load_filters ::
  "me option \<Rightarrow> exn + org list option \<Rightarrow> exn + user list option \<Rightarrow> ('z tasks_page_scheme, unit) act" where
  "load_filters m orgs_r users_r =
     (if \<not> (is_instance_admin m \<or> is_org_admin m) then ret ()
      else tryA
        (if is_instance_admin m
         then bindA (get_json orgs_r ''/orgs'') (\<lambda>r. upd (tp_orgs_update (\<lambda>_. nullish r [])))
         else bindA (get_json users_r ''/org/users'') (\<lambda>r. upd (tp_org_users_update (\<lambda>_. nullish r []))))
        show_error)"

text \<open>\<open>await reload (offset, sz)\<close> when nothing else happens meanwhile.\<close>

definition reload_run ::
  "nat \<Rightarrow> nat \<Rightarrow> exn + task_list_response \<Rightarrow> ('z task_list_scheme, unit) act" where
  "reload_run offset sz q =
     upd (\<lambda>s. let s1 = tl_reload offset sz s in tl_answer (tl_seq s1) Reload q s1)"

definition tasks_cancel ::
  "string \<Rightarrow> exn + unit \<Rightarrow> exn + task_list_response \<Rightarrow> ('z tasks_page_scheme, unit) act" where
  "tasks_cancel tid del q =
     tryA (thenA (api_call (\<lambda>_ _ _. del) ''DELETE'' (''/tasks/'' @ tid) None)
             (bindA (getsA (\<lambda>s. (tl_done_offset s, tl_page_size s))) (\<lambda>(a, b). reload_run a b q)))
       show_error"

definition tasks_retry ::
  "string \<Rightarrow> exn + unit \<Rightarrow> exn + task_list_response \<Rightarrow> ('z tasks_page_scheme, unit) act" where
  "tasks_retry tid post q =
     tryA (thenA (api_call (\<lambda>_ _ _. post) ''POST'' (''/tasks/'' @ tid @ ''/retry'') None)
             (bindA (getsA (\<lambda>s. (tl_done_offset s, tl_page_size s))) (\<lambda>(a, b). reload_run a b q)))
       show_error"

definition purge_path :: "string \<Rightarrow> string \<Rightarrow> string \<Rightarrow> string" where
  "purge_path oid uid status =
     (let suffix = params_to_string
            (opt_param ''status'' status (opt_param ''user_id'' uid (opt_param ''org_id'' oid []))) in
      if suffix \<noteq> [] then ''/tasks/purge?'' @ suffix else ''/tasks/purge'')"

definition set_tl_page :: "nat \<Rightarrow> 'z task_list_scheme \<Rightarrow> 'z task_list_scheme" where
  "set_tl_page p s = tl_set_query (tl_org_id s) (tl_user_id s) (tl_status s) (tl_page_size s) p s"

text \<open>The page is rendered after the handler has called \<open>reload\<close>, so a restarted effect asks last.\<close>

definition purge_reload ::
  "nat \<Rightarrow> exn + task_list_response \<Rightarrow> ('z task_list_scheme, unit) act" where
  "purge_reload sz q =
     upd (\<lambda>s. let s1 = tl_reload 0 sz s in tl_answer (tl_seq s1) Reload q (set_tl_page 0 s1))"

definition purge_history ::
  "exn + unit \<Rightarrow> exn + task_list_response \<Rightarrow> ('z tasks_page_scheme, unit) act" where
  "purge_history post q =
     thenA (upd (tp_purge_busy_update (\<lambda>_. True)))
       (finallyA
         (tryA
           (bindA (getsA (\<lambda>s. (purge_path (tl_org_id s) (tl_user_id s) (tl_status s), tl_page_size s)))
             (\<lambda>(path, sz).
               thenA (api_call (\<lambda>_ _ _. post) ''POST'' path None)
                 (thenA (upd (tp_confirm_purge_update (\<lambda>_. False)))
                   (purge_reload sz q))))
           show_error)
         (tp_purge_busy_update (\<lambda>_. False)))"

text \<open>The filter fields.\<close>

definition set_status_filter :: "string \<Rightarrow> 'z task_list_scheme \<Rightarrow> 'z task_list_scheme" where
  "set_status_filter v s = tl_set_query (tl_org_id s) (tl_user_id s) v (tl_page_size s) 0 s"

definition set_user_filter :: "string \<Rightarrow> 'z task_list_scheme \<Rightarrow> 'z task_list_scheme" where
  "set_user_filter v s = tl_set_query (tl_org_id s) v (tl_status s) (tl_page_size s) 0 s"

definition set_org_filter ::
  "(string \<Rightarrow> string \<Rightarrow> int) \<Rightarrow> string \<Rightarrow> 'z tasks_page_scheme \<Rightarrow> 'z tasks_page_scheme" where
  "set_org_filter cmp v s =
     (let allowed = map user_id (unique_users cmp (tp_orgs s) v) in
      tl_set_query v (if tl_user_id s \<noteq> [] \<and> tl_user_id s \<notin> set allowed then [] else tl_user_id s)
        (tl_status s) (tl_page_size s) 0 s)"

definition change_page_size :: "nat \<Rightarrow> 'z task_list_scheme \<Rightarrow> 'z task_list_scheme" where
  "change_page_size n s = tl_set_query (tl_org_id s) (tl_user_id s) (tl_status s) n 0 s"

text \<open>A row of the list: its buttons and the line below its title.\<close>

datatype row_hint = RowError | NoWorker | Waiting | NoHint

definition row_can_manage :: "me option \<Rightarrow> task \<Rightarrow> bool" where
  "row_can_manage m t \<longleftrightarrow> is_org_admin m \<or> task_user_id t = map_option (\<lambda>x. user_id (me_user x)) m"

definition row_can_cancel :: "me option \<Rightarrow> task \<Rightarrow> bool" where
  "row_can_cancel m t \<longleftrightarrow> can_cancel_task t \<and> row_can_manage m t"

definition row_can_retry :: "me option \<Rightarrow> task \<Rightarrow> bool" where
  "row_can_retry m t \<longleftrightarrow> task_is_retriable t \<and> row_can_manage m t"

definition row_title :: "translate \<Rightarrow> task \<Rightarrow> string" where
  "row_title tr t =
     or_default (task_audio_filename t) (tr_or tr (''task.type.'' @ task_type t) [] (task_type t))"

definition row_hint :: "task \<Rightarrow> row_hint" where
  "row_hint t =
     (if task_error t \<noteq> None then RowError
      else if is_task_missing_worker_for_models t then NoWorker
      else if is_task_waiting_on_workers t then Waiting else NoHint)"

section \<open>The library list\<close>

record library_query =
  lq_include_hidden :: bool
  lq_tag :: "string option"
  lq_owner_user_id :: "string option"
  lq_q :: "string option"
  lq_group_by_source :: bool
  lq_limit :: "nat option"
  lq_offset :: "nat option"

definition library_list_params :: "library_query \<Rightarrow> params" where
  "library_list_params q =
     (let p1 = (if lq_include_hidden q then [(''include_hidden'', ''true'')] else []);
          p2 = opt_param ''tag'' (str_or_empty (lq_tag q)) p1;
          p3 = opt_param ''owner_user_id'' (str_or_empty (lq_owner_user_id q)) p2;
          p4 = opt_param ''q'' (str_or_empty (lq_q q)) p3;
          p5 = (if lq_group_by_source q then params_set ''group_by'' ''source'' p4 else p4);
          p6 = (case lq_limit q of None \<Rightarrow> p5 | Some n \<Rightarrow> params_set ''limit'' (nat_str n) p5) in
      case lq_offset q of
        None \<Rightarrow> p6
      | Some n \<Rightarrow> if 0 < n then params_set ''offset'' (nat_str n) p6 else p6)"

definition library_list_path :: "string \<Rightarrow> library_query \<Rightarrow> string" where
  "library_list_path tab q =
     (let base = (if tab = ''audio'' then ''/audios''
                  else if tab = ''transcripts'' then ''/transcripts'' else ''/summaries'');
          qs = params_to_string (library_list_params q) in
      if qs \<noteq> [] then base @ ''?'' @ qs else base)"

datatype library_item = ItemAudio audio | ItemTranscript transcript | ItemSummary summary

text \<open>The code casts the item by the tab; here the item knows its kind, as the server sends it.\<close>

fun library_search_haystack :: "library_item \<Rightarrow> string" where
  "library_search_haystack (ItemAudio a) =
     to_lower (join '' '' [audio_filename a, str_or_empty (sb_owner_display_name a),
                           str_or_empty (sb_owner_email a)])"
| "library_search_haystack (ItemTranscript t) =
     to_lower (join '' '' (nonempty_parts [transcript_display_title t, transcript_title t,
       transcript_source_filename t, sb_owner_display_name t, sb_owner_email t]))"
| "library_search_haystack (ItemSummary m) =
     to_lower (join '' '' (nonempty_parts [summary_display_title m, summary_title m,
       summary_source_transcript_title m, sb_owner_display_name m, sb_owner_email m]))"

fun item_owner :: "library_item \<Rightarrow> string" where
  "item_owner (ItemAudio a) = audio_owner_user_id a"
| "item_owner (ItemTranscript t) = transcript_owner_user_id t"
| "item_owner (ItemSummary m) = summary_owner_user_id m"

definition filter_library_items :: "library_item list \<Rightarrow> string \<Rightarrow> string \<Rightarrow> library_item list" where
  "filter_library_items items query uid =
     (let q = to_lower (trim query) in
      filter (\<lambda>i. if uid \<noteq> [] \<and> item_owner i \<noteq> uid then False
                  else if q = [] then True else str_includes (library_search_haystack i) q) items)"

definition library_server_source_grouping :: "string \<Rightarrow> bool \<Rightarrow> bool" where
  "library_server_source_grouping tab g \<longleftrightarrow> g \<and> (tab = ''transcripts'' \<or> tab = ''summaries'')"

type_synonym source_group = "string option \<times> library_item list"

record library_response =
  lr_items :: "library_item list"
  lr_groups :: "source_group list option"
  lr_total :: "nat option"
  lr_hidden_count :: "nat option"

text \<open>
  The state of \<open>useLibraryList\<close>: what it shows, the query of the last rendering, and the
  paths of the requests in flight.
\<close>

record library_list = browser +
  ll_tab :: string
  ll_query :: library_query
  ll_enabled :: bool
  ll_items :: "library_item list"
  ll_groups :: "source_group list option"
  ll_total :: nat
  ll_hidden_count :: nat
  ll_loading :: bool
  ll_flight :: "string list"

definition ll_path :: "'z library_list_scheme \<Rightarrow> string" where
  "ll_path s = library_list_path (ll_tab s) (ll_query s)"

definition ll_reload :: "'z library_list_scheme \<Rightarrow> 'z library_list_scheme" where
  "ll_reload s =
     (if \<not> ll_enabled s then s
      else emit (EvRequest ''GET'' (ll_path s) None)
             (s\<lparr>ll_loading := True, ll_flight := ll_flight s @ [ll_path s]\<rparr>))"

definition ll_show :: "library_response \<Rightarrow> 'z library_list_scheme \<Rightarrow> 'z library_list_scheme" where
  "ll_show r s =
     s\<lparr>ll_groups := lr_groups r,
       ll_items := (if lr_groups r = None then lr_items r else []),
       ll_total := nullish (lr_total r) (length (lr_items r)),
       ll_hidden_count := nullish (lr_hidden_count r) 0\<rparr>"

definition ll_answer ::
  "string \<Rightarrow> exn + library_response \<Rightarrow> 'z library_list_scheme \<Rightarrow> 'z library_list_scheme" where
  "ll_answer path q s =
     (let s1 = s\<lparr>ll_flight := remove1 path (ll_flight s)\<rparr>;
          s2 = (case q of Inr r \<Rightarrow> ll_show r s1 | Inl e \<Rightarrow> emit (EvToast e None) s1) in
      s2\<lparr>ll_loading := False\<rparr>)"

text \<open>A rendering with other options reloads.\<close>

definition ll_set_query ::
  "string \<Rightarrow> library_query \<Rightarrow> bool \<Rightarrow> 'z library_list_scheme \<Rightarrow> 'z library_list_scheme" where
  "ll_set_query tab q en s =
     (if (tab, q, en) = (ll_tab s, ll_query s, ll_enabled s) then s
      else ll_reload (s\<lparr>ll_tab := tab, ll_query := q, ll_enabled := en\<rparr>))"

text \<open>The options \<open>LibraryPage\<close> gives the hook, and its links.\<close>

record library_view =
  lv_tab :: string
  lv_hidden :: bool
  lv_tag :: string
  lv_query :: string
  lv_user :: string
  lv_group :: bool
  lv_page_size :: nat
  lv_page :: nat

definition page_library_query :: "me option \<Rightarrow> library_view \<Rightarrow> library_query" where
  "page_library_query m v =
     \<lparr>lq_include_hidden = lv_hidden v,
      lq_tag = (if lv_tag v = [] then None else Some (lv_tag v)),
      lq_owner_user_id =
        (if (is_org_admin m \<or> is_instance_admin m) \<and> lv_user v \<noteq> [] then Some (lv_user v) else None),
      lq_q = (if trim (lv_query v) = [] then None else Some (trim (lv_query v))),
      lq_group_by_source = library_server_source_grouping (lv_tab v) (lv_group v),
      lq_limit = Some (lv_page_size v),
      lq_offset = Some (lv_page v * lv_page_size v)\<rparr>"

definition library_enabled :: "me option \<Rightarrow> library_view \<Rightarrow> bool" where
  "library_enabled m v \<longleftrightarrow> me_has_org m \<and> lv_tab v \<noteq> ''skills'' \<and> lv_tab v \<noteq> ''links''"

definition source_groups_shown ::
  "string \<Rightarrow> library_view \<Rightarrow> source_group list option \<Rightarrow> (string \<times> string option \<times> library_item list) list" where
  "source_groups_shown tab v gs =
     (if lv_tab v \<noteq> tab \<or> \<not> lv_group v then []
      else map (\<lambda>(sid, items). (or_default sid ''none'', sid, items)) (nullish gs []))"

definition tag_filter_path :: "string \<Rightarrow> params \<Rightarrow> string \<Rightarrow> string" where
  "tag_filter_path tab ps v =
     (let qs = params_to_string (if v \<noteq> [] then params_set ''tag'' v ps else params_delete ''tag'' ps) in
      if qs \<noteq> [] then library_path tab None None @ ''?'' @ qs else library_path tab None None)"

definition library_nav_path :: "params \<Rightarrow> string \<Rightarrow> string" where
  "library_nav_path ps next_tab =
     library_path next_tab (params_get ps ''source'')
       (let v = or_default (params_get ps ''tag'') [] in if v = [] then None else Some v)"


section \<open>Properties of pages\<close>

lemma page_count_pos: "0 < page_count cnt sz"
  by (simp add: page_count_def)

lemma page_count_less:
  assumes "0 < sz"
  shows "p < page_count cnt sz \<longleftrightarrow> p = 0 \<or> p * sz < cnt"
proof -
  have "p < (cnt + sz - 1) div sz \<longleftrightarrow> (p + 1) * sz \<le> cnt + sz - 1"
    using assms by (metis Suc_eq_plus1 less_eq_Suc_le less_eq_div_iff_mult_less_eq)
  also have "\<dots> \<longleftrightarrow> p * sz < cnt" using assms by (auto simp: algebra_simps)
  finally show ?thesis by (auto simp: page_count_def less_max_iff_disj)
qed

text \<open>C25: The pager and the list agree. Every row number from 1 to the total lies in the range
  "from - to" of exactly one page; the clamped page always exists and starts inside the list; it is
  the requested page whenever that exists; the next button is disabled exactly on the last page, and
  while it is enabled the following page is not empty.\<close>

theorem pages_cover_the_list:
  assumes "0 < sz"
  shows "(1 \<le> j \<and> j \<le> cnt \<longleftrightarrow>
      (\<exists>!p. p < page_count cnt sz \<and> 1 \<le> j \<and> fst (page_range cnt p sz) \<le> j
            \<and> j \<le> snd (page_range cnt p sz)))
    \<and> safe_page cnt page sz < page_count cnt sz
    \<and> (cnt = 0 \<or> safe_page cnt page sz * sz < cnt)
    \<and> (page < page_count cnt sz \<longrightarrow> safe_page cnt page sz = page)
    \<and> (next_disabled cnt (safe_page cnt page sz) sz \<longleftrightarrow>
         safe_page cnt page sz = page_count cnt sz - 1)
    \<and> (\<not> next_disabled cnt page sz \<longrightarrow> (page + 1) * sz < cnt)"
proof (intro conjI)
  let ?in = "\<lambda>p. p < page_count cnt sz \<and> 1 \<le> j \<and> fst (page_range cnt p sz) \<le> j
            \<and> j \<le> snd (page_range cnt p sz)"
  have uniq: "?in p \<Longrightarrow> p = (j - 1) div sz" for p
  proof -
    assume p: "?in p"
    then have "p * sz \<le> j - 1" and "j - 1 < (p + 1) * sz"
      by (auto simp: page_range_def split: if_splits)
    then show "p = (j - 1) div sz"
      by (metis Suc_eq_plus1 div_nat_eqI mult.commute)
  qed
  have ex: "?in ((j - 1) div sz)" if "1 \<le> j \<and> j \<le> cnt"
  proof -
    have lo: "(j - 1) div sz * sz \<le> j - 1" by simp
    have hi: "j - 1 < ((j - 1) div sz + 1) * sz"
      using assms by (metis Suc_eq_plus1 dividend_less_div_times mult.commute mult_Suc add.commute)
    have "(j - 1) div sz * sz < cnt" and "(j - 1) div sz * sz + 1 \<le> j"
      using that lo by linarith+
    then show ?thesis using that hi by (simp add: page_count_less [OF assms] page_range_def)
  qed
  have "?in p \<Longrightarrow> 1 \<le> j \<and> j \<le> cnt" for p by (auto simp: page_range_def split: if_splits)
  then show "1 \<le> j \<and> j \<le> cnt \<longleftrightarrow> (\<exists>!p. ?in p)" using uniq ex by blast
  show "safe_page cnt page sz < page_count cnt sz"
    using page_count_pos [of cnt sz] by (auto simp: safe_page_def)
  then show "cnt = 0 \<or> safe_page cnt page sz * sz < cnt"
    by (auto simp: page_count_less [OF assms])
  show "page < page_count cnt sz \<longrightarrow> safe_page cnt page sz = page"
    by (auto simp: safe_page_def)
  show "next_disabled cnt (safe_page cnt page sz) sz \<longleftrightarrow>
      safe_page cnt page sz = page_count cnt sz - 1"
    by (auto simp: next_disabled_def safe_page_def)
  show "\<not> next_disabled cnt page sz \<longrightarrow> (page + 1) * sz < cnt"
    using page_count_less [OF assms, of "page + 1" cnt] by (auto simp: next_disabled_def)
qed

theorem pages_cover_the_list_witness:
  "safe_page 23 9 10 < page_count 23 10 \<and> page_range 23 2 10 = (21, 23)
   \<and> next_disabled 23 (safe_page 23 9 10) 10"
  using pages_cover_the_list [of 10 1 23 9]
  by (auto simp: page_range_def safe_page_def page_count_def next_disabled_def)

section \<open>Properties of the list requests\<close>

lemma params_get_opt [simp]:
  "params_get (opt_param k v ps) k' = (if k' = k \<and> v \<noteq> [] then Some v else params_get ps k')"
  by (simp add: opt_param_def)

lemma tasks_list_query: "query_of (tasks_list_path oid uid status offset sz)
    = params_to_string (tasks_list_params oid uid status offset sz)"
  using query_of_append [of "''/tasks''" "params_to_string (tasks_list_params oid uid status offset sz)"]
  by (simp add: tasks_list_path_def)

definition library_base :: "string \<Rightarrow> string" where
  "library_base tab = (if tab = ''audio'' then ''/audios''
                  else if tab = ''transcripts'' then ''/transcripts'' else ''/summaries'')"

lemma library_base_clean: "CHR ''?'' \<notin> set (library_base tab)"
  by (simp add: library_base_def)

lemma library_list_query:
  "params_parse (query_of (library_list_path tab q)) = library_list_params q"
proof -
  have path: "library_list_path tab q =
      (if params_to_string (library_list_params q) \<noteq> []
       then library_base tab @ CHR ''?'' # params_to_string (library_list_params q) else library_base tab)"
    by (simp add: library_list_path_def Let_def library_base_def)
  show ?thesis
    using params_parse_to_string [of "library_list_params q"]
      query_of_append [OF library_base_clean, of tab] query_of_none [OF library_base_clean, of tab]
    by (cases "library_list_params q = []") (simp_all add: path)
qed

text \<open>C26: The list requests say what was asked. Reading the query string of a task list path gives
  back the organisation, user and status filters exactly when they are set, and always the page size
  and the offset; reading a library path gives back the tag, owner, search text, grouping, limit and a
  positive offset, whatever characters the search text has, so an unset filter never reaches the server.\<close>

theorem list_queries_read_back:
  "map (params_get (params_parse (query_of (tasks_list_path oid uid status offset sz))))
     [''org_id'', ''user_id'', ''status'', ''done_limit'', ''done_offset'']
   = map none_if_empty [oid, uid, status] @ [Some (nat_str sz), Some (nat_str offset)]
   \<and> map (params_get (params_parse (query_of (library_list_path tab q))))
     [''include_hidden'', ''tag'', ''owner_user_id'', ''q'', ''group_by'', ''limit'', ''offset'']
   = [if lq_include_hidden q then Some ''true'' else None,
      none_if_empty (str_or_empty (lq_tag q)), none_if_empty (str_or_empty (lq_owner_user_id q)),
      none_if_empty (str_or_empty (lq_q q)), if lq_group_by_source q then Some ''source'' else None,
      map_option nat_str (lq_limit q),
      if nullish (lq_offset q) 0 = 0 then None else map_option nat_str (lq_offset q)]"
proof (rule conjI)
  show "map (params_get (params_parse (query_of (tasks_list_path oid uid status offset sz))))
     [''org_id'', ''user_id'', ''status'', ''done_limit'', ''done_offset'']
   = map none_if_empty [oid, uid, status] @ [Some (nat_str sz), Some (nat_str offset)]"
    by (simp add: tasks_list_query params_parse_to_string tasks_list_params_def none_if_empty_def)
  have hidden: "params_get [(''include_hidden'', ''true'')] k
      = (if k = ''include_hidden'' then Some ''true'' else None)" for k
    by (simp add: params_get_def)
  show "map (params_get (params_parse (query_of (library_list_path tab q))))
     [''include_hidden'', ''tag'', ''owner_user_id'', ''q'', ''group_by'', ''limit'', ''offset'']
   = [if lq_include_hidden q then Some ''true'' else None,
      none_if_empty (str_or_empty (lq_tag q)), none_if_empty (str_or_empty (lq_owner_user_id q)),
      none_if_empty (str_or_empty (lq_q q)), if lq_group_by_source q then Some ''source'' else None,
      map_option nat_str (lq_limit q),
      if nullish (lq_offset q) 0 = 0 then None else map_option nat_str (lq_offset q)]"
    unfolding library_list_query library_list_params_def Let_def
    by (cases "lq_limit q"; cases "lq_offset q"; cases "lq_group_by_source q")
       (simp_all add: hidden none_if_empty_def nullish_def)
qed

section \<open>Properties of the poll\<close>

lemma tl_send_fields [simp]:
  "tl_seq (tl_send r a b s) = Suc (tl_seq s)"
  "tl_flight (tl_send r a b s) = tl_flight s @ [(Suc (tl_seq s), r)]"
  "tl_enabled (tl_send r a b s) = tl_enabled s" "tl_effect (tl_send r a b s) = tl_effect s"
  "tl_timer (tl_send r a b s) = tl_timer s" "tl_active (tl_send r a b s) = tl_active s"
  "tl_done (tl_send r a b s) = tl_done s" "tl_done_total (tl_send r a b s) = tl_done_total s"
  by (simp_all add: tl_send_def emit_def)

lemma tl_restart_fields [simp]:
  "tl_enabled (tl_restart s) = tl_enabled s" "tl_active (tl_restart s) = tl_active s"
  "tl_done (tl_restart s) = tl_done s" "tl_done_total (tl_restart s) = tl_done_total s"
  by (simp_all add: tl_restart_def tl_tick_def Let_def)

text \<open>
  The numbers of the requests in flight never exceed the last number given out. Without reloads,
  an enabled list waits for its timer or for the tick that carries the last number.
\<close>

definition tl_numbered :: "task_list \<Rightarrow> bool" where
  "tl_numbered s \<longleftrightarrow> (\<forall>(n, r) \<in> set (tl_flight s). n \<le> tl_seq s) \<and> distinct (map fst (tl_flight s))"

definition tl_alive :: "task_list \<Rightarrow> bool" where
  "tl_alive s \<longleftrightarrow> (\<exists>d. tl_timer s = Some d) \<or> (tl_seq s, Tick (tl_effect s)) \<in> set (tl_flight s)"

definition tl_only_ticks :: "task_list \<Rightarrow> bool" where
  "tl_only_ticks s \<longleftrightarrow> (\<forall>(n, r) \<in> set (tl_flight s). r \<noteq> Reload)"

lemmas tl_inv_defs = tl_numbered_def tl_alive_def tl_only_ticks_def

lemma tl_numbered_send: "tl_numbered s \<Longrightarrow> tl_numbered (tl_send r a b s)"
  by (force simp: tl_numbered_def)

lemma tl_numbered_upd:
  "tl_numbered s \<Longrightarrow> tl_seq s' = tl_seq s \<Longrightarrow> tl_flight s' = filter P (tl_flight s) \<Longrightarrow> tl_numbered s'"
  by (auto simp: tl_numbered_def distinct_map_filter)

lemma tl_numbered_tick: "tl_numbered s \<Longrightarrow> tl_numbered (tl_tick s)"
  by (simp add: tl_tick_def tl_numbered_send)

lemma tl_numbered_restart: "tl_numbered s \<Longrightarrow> tl_numbered (tl_restart s)"
  by (auto simp: tl_restart_def Let_def intro!: tl_numbered_tick) (auto simp: tl_numbered_def)

lemma tl_numbered_render: "tl_numbered s \<Longrightarrow> tl_numbered (tl_render old s)"
  by (simp add: tl_render_def tl_numbered_restart)

lemma tl_tick_answer_fields [simp]:
  "tl_seq (tl_tick_answer n k q s) = tl_seq s" "tl_flight (tl_tick_answer n k q s) = tl_flight s"
  "tl_effect (tl_tick_answer n k q s) = tl_effect s"
  "tl_enabled (tl_tick_answer n k q s) = tl_enabled s"
  by (simp_all add: tl_tick_answer_def tl_show_def Let_def emit_def split: sum.splits)

lemma tl_reload_answer_fields [simp]:
  "tl_seq (tl_reload_answer n q s) = tl_seq s" "tl_flight (tl_reload_answer n q s) = tl_flight s"
  "tl_effect (tl_reload_answer n q s) = tl_effect s"
  "tl_enabled (tl_reload_answer n q s) = tl_enabled s"
  by (simp_all add: tl_reload_answer_def tl_show_def emit_def split: sum.splits)

lemma tl_numbered_step: "tl_step rl s s' \<Longrightarrow> tl_numbered s \<Longrightarrow> tl_numbered s'"
proof (induction rule: tl_step.induct)
  case (queried rl s oid uid status sz page)
  then show ?case unfolding tl_set_query_def by (intro tl_numbered_render) (simp add: tl_numbered_def)
next
  case (timer s d rl)
  then show ?case unfolding tl_timer_fires_def by (intro tl_numbered_tick) (simp add: tl_numbered_def)
next
  case (reloaded offset sz s)
  then show ?case by (simp add: tl_reload_def tl_numbered_send)
next
  case (answered n r s rl q)
  then show ?case unfolding tl_answer_def Let_def
    by (cases r) (auto intro!: tl_numbered_render tl_numbered_upd [where s = s])
qed

lemma tl_numbered_reach: "tl_reach rl en s \<Longrightarrow> tl_numbered s"
proof (induction rule: tl_reach.induct)
  case reach_mount
  show ?case by (rule tl_numbered_restart) (simp add: tl_numbered_def tl_initial_def)
qed (rule tl_numbered_step)

lemma tl_stale_answer:
  "n \<noteq> tl_seq s \<Longrightarrow>
     tl_answer n r q s = s\<lparr>tl_flight := filter (\<lambda>x. x \<noteq> (n, r)) (tl_flight s)\<rparr>"
  by (cases r) (simp_all add: tl_answer_def Let_def tl_tick_answer_def tl_reload_answer_def
      tl_render_def tl_deps_def tl_done_offset_def)

text \<open>C27: Overlapping requests never mix. Whatever the order in which ticks, reloads and filter
  changes send their requests and the server answers them, no two requests in flight have the same number, and an answer that changes
  the shown tasks, the timer or the toasts is the one of the newest request of the page: every other request in flight is
  strictly older, and its answer, whatever it is and whenever it comes, changes nothing but the list of requests in flight.\<close>

theorem newest_answer_shown:
  assumes "tl_reach rl en s" and "(n, r) \<in> set (tl_flight s)"
    and "(tl_active s', tl_done s', tl_done_total s', tl_timer s', events s')
         \<noteq> (tl_active s, tl_done s, tl_done_total s, tl_timer s, events s)"
    and "s' = tl_answer n r q s"
  shows "n = tl_seq s \<and> distinct (map fst (tl_flight s))
    \<and> (\<forall>(k, x) \<in> set (tl_flight s). (k, x) = (n, r)
         \<or> k < n \<and> (\<forall>p. tl_answer k x p s = s\<lparr>tl_flight := filter (\<lambda>y. y \<noteq> (k, x)) (tl_flight s)\<rparr>))"
proof -
  have n: "n = tl_seq s"
    using assms(3,4) by (cases "n = tl_seq s") (auto simp: tl_stale_answer)
  have num: "\<forall>(k, x) \<in> set (tl_flight s). k \<le> tl_seq s" "distinct (map fst (tl_flight s))"
    using tl_numbered_reach [OF assms(1)] by (simp_all add: tl_numbered_def)
  have "k < n \<and> (\<forall>p. tl_answer k x p s = s\<lparr>tl_flight := filter (\<lambda>y. y \<noteq> (k, x)) (tl_flight s)\<rparr>)"
    if "(k, x) \<in> set (tl_flight s)" "(k, x) \<noteq> (n, r)" for k x
  proof -
    have "k \<noteq> n" using that num(2) assms(2) by (auto dest: eq_key_imp_eq_value)
    then show ?thesis using num(1) that(1) n tl_stale_answer [of k s x] by fastforce
  qed
  then show ?thesis using n num(2) by blast
qed

lemma tl_alive_tick: "tl_alive (tl_tick s)"
  by (simp add: tl_alive_def tl_tick_def)

lemma tl_alive_restart: "tl_enabled s \<Longrightarrow> tl_alive (tl_restart s)"
  by (simp add: tl_restart_def Let_def tl_alive_tick)

lemma tl_alive_render: "tl_enabled s \<Longrightarrow> tl_alive s \<Longrightarrow> tl_alive (tl_render old s)"
  by (simp add: tl_render_def tl_alive_restart)

lemma tl_only_ticks_tick: "tl_only_ticks s \<Longrightarrow> tl_only_ticks (tl_tick s)"
  by (auto simp: tl_only_ticks_def tl_tick_def)

lemma tl_only_ticks_render: "tl_only_ticks s \<Longrightarrow> tl_only_ticks (tl_render old s)"
  by (auto simp: tl_render_def tl_restart_def Let_def intro!: tl_only_ticks_tick)
     (simp_all add: tl_only_ticks_def)

lemma tl_render_enabled [simp]: "tl_enabled (tl_render old s) = tl_enabled s"
  by (simp add: tl_render_def)

lemma tl_answer_alive:
  assumes "tl_alive s" and "tl_enabled s"
  shows "tl_alive (tl_answer n (Tick k) q s)"
proof -
  define s1 where "s1 = s\<lparr>tl_flight := filter (\<lambda>x. x \<noteq> (n, Tick k)) (tl_flight s)\<rparr>"
  have "tl_alive (tl_tick_answer n k q s1)"
  proof (cases "k \<noteq> tl_effect s \<or> n \<noteq> tl_seq s")
    case True
    then show ?thesis using assms(1) by (auto simp: tl_tick_answer_def s1_def tl_alive_def)
  next
    case False
    then show ?thesis
      by (simp add: tl_tick_answer_def s1_def tl_alive_def Let_def split: sum.splits)
  qed
  moreover have "tl_enabled (tl_tick_answer n k q s1)" using assms(2) by (simp add: s1_def)
  ultimately show ?thesis by (simp add: tl_answer_def Let_def s1_def tl_alive_render)
qed

lemma tl_step_alive:
  "tl_step rl s s' \<Longrightarrow> \<not> rl \<Longrightarrow> tl_enabled s \<and> tl_alive s \<and> tl_only_ticks s
     \<Longrightarrow> tl_enabled s' \<and> tl_alive s' \<and> tl_only_ticks s'"
proof (induction rule: tl_step.induct)
  case (queried rl s oid uid status sz page)
  then show ?case unfolding tl_set_query_def
    by (auto intro!: tl_alive_render tl_only_ticks_render) (simp_all add: tl_inv_defs)
next
  case (timer s d rl)
  then show ?case unfolding tl_timer_fires_def
    by (auto intro!: tl_alive_tick tl_only_ticks_tick) (simp_all add: tl_only_ticks_def tl_tick_def)
next
  case (answered n r s rl q)
  then obtain k where r: "r = Tick k" by (cases r) (auto simp: tl_only_ticks_def)
  have "tl_only_ticks (tl_answer n r q s)"
    using answered r unfolding tl_answer_def Let_def
    by (auto intro!: tl_only_ticks_render) (auto simp: tl_only_ticks_def)
  moreover have "tl_enabled (tl_answer n r q s)" using answered r by (simp add: tl_answer_def Let_def)
  ultimately show ?case using tl_answer_alive [of s n k q] answered r by simp
qed simp

lemma tl_reach_alive:
  "tl_reach rl en s \<Longrightarrow> \<not> rl \<Longrightarrow> en \<Longrightarrow> tl_enabled s \<and> tl_alive s \<and> tl_only_ticks s"
proof (induction rule: tl_reach.induct)
  case reach_mount
  then show ?case
    by (simp add: tl_alive_restart tl_initial_def)
       (simp add: tl_restart_def tl_tick_def Let_def tl_only_ticks_def)
next
  case (reach_step s s')
  then show ?case using tl_step_alive by blast
qed

text \<open>The run of the finding: a tick is out, a handler reloads, both answers arrive.\<close>

definition no_tasks :: task_list_response where
  "no_tasks = \<lparr>tr_active = [], tr_done = [], tr_done_total = 0\<rparr>"

definition tick_and_reload :: task_list where
  "tick_and_reload = tl_reload 0 10 (tl_restart (tl_initial True))"

definition overtaken_tick :: task_list where
  "overtaken_tick =
     tl_answer 2 Reload (Inr no_tasks) (tl_answer 1 (Tick 1) (Inr no_tasks) tick_and_reload)"

lemma tick_and_reload_fields:
  "tl_seq tick_and_reload = 2" "tl_flight tick_and_reload = [(1, Tick 1), (2, Reload)]"
  "tl_enabled tick_and_reload" "tl_timer tick_and_reload = None" "tl_done_total tick_and_reload = 0"
  by (simp_all add: tick_and_reload_def tl_reload_def tl_restart_def tl_tick_def tl_initial_def Let_def)

lemma late_tick:
  "tl_answer (Suc 0) (Tick (Suc 0)) q tick_and_reload = tick_and_reload\<lparr>tl_flight := [(2, Reload)]\<rparr>"
  by (simp add: tl_stale_answer tick_and_reload_fields)

lemma overtaken_tick_idle:
  "tl_timer overtaken_tick = None" "tl_flight overtaken_tick = []" "tl_enabled overtaken_tick"
  unfolding overtaken_tick_def One_nat_def late_tick
  by (simp_all add: tl_answer_def Let_def tl_reload_answer_def
      tick_and_reload_fields tl_render_def tl_show_def no_tasks_def tl_deps_def tl_done_offset_def)

lemma overtaken_tick_reachable: "tl_reach True True overtaken_tick"
proof -
  have "tl_reach True True tick_and_reload"
    unfolding tick_and_reload_def by (rule reach_step [OF reach_mount tl_step.reloaded])
  then have "tl_reach True True (tl_answer 1 (Tick 1) (Inr no_tasks) tick_and_reload)"
    by (rule reach_step) (rule tl_step.answered, simp add: tick_and_reload_fields)
  then show ?thesis unfolding overtaken_tick_def
    by (rule reach_step) (rule tl_step.answered, simp add: late_tick)
qed

text \<open>C28: The task list polls for ever, unless a handler reloads. While ticks and filter changes
  are all that happens, an enabled list always has a pending timer or waits for the answer of its newest
  tick. A reload (after a cancel, a retry or a purge) that overtakes a tick in flight ends this: the
  tick returns without setting the next timer, and a reachable state of the mounted list has no timer
  and no request in flight, so nothing will refresh it any more.\<close>

theorem polling_lives_until_overtaken:
  "(tl_reach False True s \<longrightarrow>
      (\<exists>d. tl_timer s = Some d) \<or> (tl_seq s, Tick (tl_effect s)) \<in> set (tl_flight s))
   \<and> (\<exists>s. tl_reach True True s \<and> tl_enabled s \<and> tl_timer s = None \<and> tl_flight s = [])"
proof (intro conjI impI)
  assume "tl_reach False True s"
  then show "(\<exists>d. tl_timer s = Some d) \<or> (tl_seq s, Tick (tl_effect s)) \<in> set (tl_flight s)"
    using tl_reach_alive [of False True s] by (simp add: tl_alive_def)
next
  show "\<exists>s. tl_reach True True s \<and> tl_enabled s \<and> tl_timer s = None \<and> tl_flight s = []"
    using overtaken_tick_reachable overtaken_tick_idle by blast
qed

section \<open>Properties of the tasks page\<close>

lemma purge_query:
  "params_parse (query_of (purge_path oid uid status))
     = opt_param ''status'' status (opt_param ''user_id'' uid (opt_param ''org_id'' oid []))"
proof -
  let ?ps = "opt_param ''status'' status (opt_param ''user_id'' uid (opt_param ''org_id'' oid []))"
  have path: "purge_path oid uid status =
      (if params_to_string ?ps \<noteq> [] then ''/tasks/purge'' @ CHR ''?'' # params_to_string ?ps
       else ''/tasks/purge'')"
    by (simp add: purge_path_def Let_def)
  have clean: "CHR ''?'' \<notin> set ''/tasks/purge''" by simp
  show ?thesis
    using params_parse_to_string [of ?ps] query_of_append [OF clean] query_of_none [OF clean]
    by (cases "?ps = []") (simp_all only: path params_to_string_eq_Nil simp_thms
        if_True if_False params_to_string_Nil)
qed

lemma tl_set_query_fields [simp]:
  "tl_page (tl_set_query a b c d e s) = e" "tl_page_size (tl_set_query a b c d e s) = d"
  "tp_purge_busy (tl_set_query a b c d e t) = tp_purge_busy t"
  "tp_confirm_purge (tl_set_query a b c d e t) = tp_confirm_purge t"
  by (simp_all add: tl_set_query_def tl_render_def tl_restart_def tl_tick_def tl_send_def emit_def Let_def)

lemma tl_answer_frame [simp]:
  "tl_page (tl_answer n Reload q s) = tl_page s"
  "tp_purge_busy (tl_answer n Reload q t) = tp_purge_busy t"
  "tp_confirm_purge (tl_answer n Reload q t) = tp_confirm_purge t"
  by (simp_all add: tl_answer_def tl_render_def tl_restart_def tl_tick_def tl_send_def emit_def Let_def
      tl_reload_answer_def tl_show_def split: sum.splits)

lemma tl_reload_frame [simp]:
  "tl_page (tl_reload a b s) = tl_page s" "tp_purge_busy (tl_reload a b t) = tp_purge_busy t"
  "tp_confirm_purge (tl_reload a b t) = tp_confirm_purge t"
  by (simp_all add: tl_reload_def tl_send_def emit_def)

text \<open>C29: Purging the task history asks for what the filters select and leaves the page ready. One purge is sent, as the
  first request, with exactly the organisation, user and status filters the list is asked for with, an empty filter being left out;
  everything after it reads. For every answer of the server and of the following reload the handler settles with the busy flag
  cleared, and the confirmation stays open exactly when the purge failed, which is shown; a successful purge ends on the first page.\<close>

theorem purge_matches_filters:
  "map (params_get (params_parse (query_of (purge_path oid uid status)))) [''org_id'', ''user_id'', ''status'']
     = map (params_get (params_parse (query_of (tasks_list_path oid uid status offset sz))))
         [''org_id'', ''user_id'', ''status'']
   \<and> params_parse (query_of (purge_path oid uid status))
       = filter (\<lambda>(k, v). v \<noteq> []) [(''org_id'', oid), (''user_id'', uid), (''status'', status)]
   \<and> (\<exists>rest. events (snd (purge_history post q s))
          = events s @ EvRequest ''POST'' (purge_path (tl_org_id s) (tl_user_id s) (tl_status s)) None # rest
        \<and> list_all (\<lambda>e. case e of EvRequest m p b \<Rightarrow> m = ''GET'' \<and> b = None | EvToast _ _ \<Rightarrow> True | _ \<Rightarrow> False) rest
        \<and> (case post of Inl e \<Rightarrow> rest = [EvToast e None] | Inr _ \<Rightarrow> True))
   \<and> fst (purge_history post q s) = Inr ()
   \<and> \<not> tp_purge_busy (snd (purge_history post q s))
   \<and> tp_confirm_purge (snd (purge_history post q s)) = (tp_confirm_purge s \<and> isl post)
   \<and> (isl post \<or> tl_page (snd (purge_history post q s)) = 0)"
proof -
  have "map (params_get (params_parse (query_of (purge_path oid uid status)))) [''org_id'', ''user_id'', ''status'']
     = map (params_get (params_parse (query_of (tasks_list_path oid uid status offset sz))))
         [''org_id'', ''user_id'', ''status'']"
    by (simp add: purge_query tasks_list_query params_parse_to_string tasks_list_params_def)
  moreover have "params_parse (query_of (purge_path oid uid status))
       = filter (\<lambda>(k, v). v \<noteq> []) [(''org_id'', oid), (''user_id'', uid), (''status'', status)]"
    by (simp add: purge_query opt_param_def)
  moreover have "\<exists>rest. events (snd (purge_history post q s))
          = events s @ EvRequest ''POST'' (purge_path (tl_org_id s) (tl_user_id s) (tl_status s)) None # rest
        \<and> list_all (\<lambda>e. case e of EvRequest m p b \<Rightarrow> m = ''GET'' \<and> b = None | EvToast _ _ \<Rightarrow> True | _ \<Rightarrow> False) rest
        \<and> (case post of Inl e \<Rightarrow> rest = [EvToast e None] | Inr _ \<Rightarrow> True)"
    by (cases post; cases q) (auto simp: purge_history_def run_simps show_error_def purge_reload_def Let_def
        set_tl_page_def emit_def tl_set_query_def tl_render_def tl_restart_def tl_tick_def tl_send_def tl_reload_def
        tl_answer_def tl_reload_answer_def tl_show_def)
  moreover have "fst (purge_history post q s) = Inr ()
     \<and> \<not> tp_purge_busy (snd (purge_history post q s))
     \<and> tp_confirm_purge (snd (purge_history post q s)) = (tp_confirm_purge s \<and> isl post)
     \<and> (isl post \<or> tl_page (snd (purge_history post q s)) = 0)"
    by (cases post) (simp_all add: purge_history_def run_simps show_error_def purge_reload_def Let_def
        set_tl_page_def emit_def)
  ultimately show ?thesis by blast
qed

lemma unseen_users_spec:
  "set (map user_id (unseen_users seen us)) = set (map user_id us) - set seen
   \<and> distinct (map user_id (unseen_users seen us)) \<and> set (unseen_users seen us) \<subseteq> set us"
  by (induction seen us rule: unseen_users.induct) auto

lemma distinct_ids_sort_by:
  "distinct (map user_id us) \<Longrightarrow> distinct (map user_id (sort_by cmp us))"
  by (metis card_distinct distinct_card distinct_map length_map list.set_map length_sort_by set_sort_by)

lemma unique_users_distinct: "distinct (map user_id (unique_users cmp orgs oid))"
  unfolding unique_users_def Let_def by (rule distinct_ids_sort_by) (simp only: unseen_users_spec)

lemma org_filter_user_ok:
  "tl_user_id (set_org_filter cmp v s) = []
   \<or> tl_user_id (set_org_filter cmp v s) \<in> user_id ` set (unique_users cmp (tp_orgs s) v)"
  by (simp add: set_org_filter_def tl_set_query_def tl_render_def tl_restart_def tl_tick_def tl_send_def
      emit_def Let_def)

section \<open>Properties of the library list\<close>

definition empty_library :: library_list where
  "empty_library =
     \<lparr>local_store = Map.empty, session_store = Map.empty, events = [], ll_tab = [],
      ll_query = \<lparr>lq_include_hidden = False, lq_tag = None, lq_owner_user_id = None, lq_q = None,
                  lq_group_by_source = False, lq_limit = None, lq_offset = None\<rparr>,
      ll_enabled = False, ll_items = [], ll_groups = None, ll_total = 0, ll_hidden_count = 0,
      ll_loading = False, ll_flight = []\<rparr>"

lemma ll_answer_fields [simp]:
  "ll_path (ll_answer p q s) = ll_path s" "ll_loading (ll_answer p q s) = False"
  "ll_flight (ll_answer p q s) = remove1 p (ll_flight s)"
  by (simp_all add: ll_answer_def ll_show_def ll_path_def emit_def Let_def split: sum.splits)

lemma ll_reload_fields [simp]:
  "ll_path (ll_reload s) = ll_path s" "ll_total (ll_reload s) = ll_total s"
  "ll_items (ll_reload s) = ll_items s" "ll_groups (ll_reload s) = ll_groups s"
  by (simp_all add: ll_reload_def ll_path_def emit_def)

text \<open>C30: The library shows the answer that arrives last, not the answer to the query on screen. When
  a second query is sent before the first is answered and the answers cross, the page ends with the
  second query selected, no request in flight, the loading flag off, and the items, groups and total of
  the first.\<close>

theorem library_last_answer_wins:
  fixes ra rb :: library_response
  assumes "qa \<noteq> qb" and "tab \<noteq> []"
  defines "s2 \<equiv> ll_set_query tab qb True (ll_set_query tab qa True empty_library)"
  defines "s \<equiv> ll_answer (library_list_path tab qa) (Inr ra) (ll_answer (library_list_path tab qb) (Inr rb) s2)"
  shows "ll_flight s2 = [library_list_path tab qa, library_list_path tab qb]
    \<and> ll_path s = library_list_path tab qb \<and> ll_flight s = [] \<and> \<not> ll_loading s
    \<and> ll_groups s = lr_groups ra \<and> ll_items s = (if lr_groups ra = None then lr_items ra else [])
    \<and> ll_total s = nullish (lr_total ra) (length (lr_items ra))"
proof -
  have s2: "ll_flight s2 = [library_list_path tab qa, library_list_path tab qb]"
    "ll_path s2 = library_list_path tab qb"
    using assms(1,2) unfolding s2_def
    by (auto simp: ll_set_query_def ll_reload_def ll_path_def empty_library_def emit_def)
  then show ?thesis unfolding s_def
    by (simp add: s2) (simp add: ll_answer_def ll_show_def Let_def)
qed

definition library_search :: "string \<Rightarrow> library_query" where
  "library_search q = (ll_query empty_library)\<lparr>lq_q := Some q, lq_limit := Some 10\<rparr>"

theorem library_last_answer_wins_witness:
  "ll_total (ll_answer (library_list_path ''audio'' (library_search ''a''))
       (Inr \<lparr>lr_items = [], lr_groups = None, lr_total = Some 7, lr_hidden_count = None\<rparr>)
       (ll_answer (library_list_path ''audio'' (library_search ''ab''))
         (Inr \<lparr>lr_items = [], lr_groups = None, lr_total = Some 1, lr_hidden_count = None\<rparr>)
         (ll_set_query ''audio'' (library_search ''ab'') True
           (ll_set_query ''audio'' (library_search ''a'') True empty_library)))) = 7"
  using library_last_answer_wins [where qa = "library_search ''a''" and qb = "library_search ''ab''"
      and tab = "''audio''"
      and ra = "\<lparr>lr_items = [], lr_groups = None, lr_total = Some 7, lr_hidden_count = None\<rparr>"
      and rb = "\<lparr>lr_items = [], lr_groups = None, lr_total = Some 1, lr_hidden_count = None\<rparr>"]
  by (simp add: library_search_def empty_library_def nullish_def)

theorem newest_answer_shown_witness:
  "(2, Reload) \<in> set (tl_flight tick_and_reload) \<and> 2 = tl_seq tick_and_reload
     \<and> distinct (map fst (tl_flight tick_and_reload))"
proof -
  let ?e = "Inl (JsError ''x'')"
  have r: "tl_reach True True tick_and_reload"
    unfolding tick_and_reload_def by (rule reach_step [OF reach_mount tl_step.reloaded])
  have f: "(2, Reload) \<in> set (tl_flight tick_and_reload)" by (simp add: tick_and_reload_fields)
  have "events (tl_answer 2 Reload ?e tick_and_reload) \<noteq> events tick_and_reload"
    by (simp add: tl_answer_def Let_def tl_reload_answer_def tick_and_reload_fields tl_render_def
        tl_restart_def tl_tick_def tl_send_def emit_def)
  then have c: "(tl_active (tl_answer 2 Reload ?e tick_and_reload), tl_done (tl_answer 2 Reload ?e tick_and_reload),
      tl_done_total (tl_answer 2 Reload ?e tick_and_reload), tl_timer (tl_answer 2 Reload ?e tick_and_reload),
      events (tl_answer 2 Reload ?e tick_and_reload))
    \<noteq> (tl_active tick_and_reload, tl_done tick_and_reload, tl_done_total tick_and_reload, tl_timer tick_and_reload,
      events tick_and_reload)" by simp
  show ?thesis using newest_answer_shown [OF r f c refl] f by simp
qed

theorem polling_lives_until_overtaken_witness:
  "(Suc 0, Tick (Suc 0)) \<in> set (tl_flight (tl_restart (tl_initial True)))"
  using polling_lives_until_overtaken [of "tl_restart (tl_initial True)"] reach_mount [of False True]
  by (simp add: tl_restart_def tl_initial_def tl_tick_def Let_def)

end
