(* ===== verification/Tags.thy ===== *)
theory Tags
  imports Hub_Effects
begin

text \<open>
  User tags: the name rules of \<open>constants/userTags.ts\<close>, the extra tags an upload carries
  (\<open>ingestExtraTags.ts\<close>, \<open>ingestUserTagsForm.ts\<close>, \<open>hooks/useIngestExtraTagsSlot.ts\<close>) and
  the three places where tags are edited (\<open>UserTagsEditor.tsx\<close>,
  \<open>IngestExtraTagsMultiSelect.tsx\<close>, \<open>TagManageDialog.tsx\<close>).

  All of them drop or refuse invalid names and compare names without case. \<open>tag_set\<close> is what
  their results have in common.
\<close>

section \<open>Names\<close>

definition user_tag_max_per_object :: nat where
  "user_tag_max_per_object = 32"

definition user_tag_max_name_len :: nat where
  "user_tag_max_name_len = 64"

lemma length_dropWhile_less [termination_simp]: "length (dropWhile P s) < Suc (length s)"
  by (simp add: length_dropWhile_le less_Suc_eq_le)

text \<open>\<open>replace (/\s+/g, ' ')\<close>.\<close>

fun collapse_ws :: "string \<Rightarrow> string" where
  "collapse_ws [] = []"
| "collapse_ws (c # s) =
     (if is_ws c then CHR '' '' # collapse_ws (dropWhile is_ws s) else c # collapse_ws s)"

definition normalize_user_tag_name :: "string \<Rightarrow> string" where
  "normalize_user_tag_name raw = collapse_ws (trim raw)"

definition user_tag_name_error_key :: "string \<Rightarrow> string option" where
  "user_tag_name_error_key name =
     (let normalized = normalize_user_tag_name name in
      if normalized = [] \<or> user_tag_max_name_len < length normalized
      then Some ''user_tag_name_invalid'' else None)"

text \<open>The message of the toast is given by its translation key.\<close>

definition tag_error :: "string \<Rightarrow> exn" where
  "tag_error code = ApiError code (''errors.'' @ code) None"

section \<open>Extra tags of an upload\<close>

datatype tags_slot = SlotLink | SlotFile | SlotMic

definition legacy_tags_key :: string where
  "legacy_tags_key = ''idigest-ingest-extra-tags''"

fun tags_key :: "tags_slot \<Rightarrow> string" where
  "tags_key SlotLink = ''idigest-ingest-extra-tags-link''"
| "tags_key SlotFile = ''idigest-ingest-extra-tags-file''"
| "tags_key SlotMic = ''idigest-ingest-extra-tags-mic''"

text \<open>The loop over the stored array, with its \<open>seen\<close> set.\<close>

fun stored_tags :: "string list \<Rightarrow> json list \<Rightarrow> string list" where
  "stored_tags seen [] = []"
| "stored_tags seen (JStr item # js) =
     (if user_tag_name_error_key item \<noteq> None then stored_tags seen js
      else (let name = normalize_user_tag_name item; key = to_lower name in
            if key \<in> set seen then stored_tags seen js else name # stored_tags (key # seen) js))"
| "stored_tags seen (_ # js) = stored_tags seen js"

definition parse_stored_tag_names :: "string option \<Rightarrow> string list" where
  "parse_stored_tag_names raw =
     (if \<not> truthy raw then []
      else (case json_parse (str_or_empty raw) of Some (JArr js) \<Rightarrow> stored_tags [] js | _ \<Rightarrow> []))"

definition migrate_legacy_link_tags :: "'z browser_scheme \<Rightarrow> string list \<times> 'z browser_scheme" where
  "migrate_legacy_link_tags s =
     (case local_get s legacy_tags_key of
        None \<Rightarrow> ([], s)
      | Some legacy \<Rightarrow>
          (parse_stored_tag_names (Some legacy),
           local_remove legacy_tags_key (local_set (tags_key SlotLink) legacy s)))"

definition load_ingest_extra_tags :: "tags_slot \<Rightarrow> 'z browser_scheme \<Rightarrow> string list \<times> 'z browser_scheme" where
  "load_ingest_extra_tags slot s =
     (let stored = local_get s (tags_key slot) in
      if slot = SlotLink \<and> stored = None then migrate_legacy_link_tags s
      else (parse_stored_tag_names stored, s))"

definition save_ingest_extra_tags :: "tags_slot \<Rightarrow> string list \<Rightarrow> 'z browser_scheme \<Rightarrow> 'z browser_scheme" where
  "save_ingest_extra_tags slot names s = local_set (tags_key slot) (json_stringify (str_array names)) s"

definition append_user_tags :: "form_part list \<Rightarrow> string list \<Rightarrow> form_part list" where
  "append_user_tags body tags = body @ map (FormField ''user_tags'') tags"

text \<open>The hook keeps its list next to the stored one; \<open>ex_tags\<close> is the state of the three slots.\<close>

record extra_tags = browser +
  ex_tags :: "tags_slot \<Rightarrow> string list"

definition mount_extra_tags :: "tags_slot \<Rightarrow> 'z extra_tags_scheme \<Rightarrow> 'z extra_tags_scheme" where
  "mount_extra_tags slot s =
     (let (names, s1) = load_ingest_extra_tags slot s in s1\<lparr>ex_tags := (ex_tags s1)(slot := names)\<rparr>)"

definition set_extra_tags :: "tags_slot \<Rightarrow> string list \<Rightarrow> 'z extra_tags_scheme \<Rightarrow> 'z extra_tags_scheme" where
  "set_extra_tags slot names s =
     save_ingest_extra_tags slot names (s\<lparr>ex_tags := (ex_tags s)(slot := names)\<rparr>)"

definition reset_extra_tags :: "tags_slot \<Rightarrow> 'z extra_tags_scheme \<Rightarrow> 'z extra_tags_scheme" where
  "reset_extra_tags slot s = set_extra_tags slot [] s"

section \<open>The picker of extra tags\<close>

record tag_picker = browser +
  pk_open :: bool
  pk_draft_selected :: "string list"
  pk_draft :: string
  pk_pick_id :: string
  pk_selected :: "string list"
  pk_catalog :: "user_tag list"

definition tag_options :: "user_tag list \<Rightarrow> string list \<Rightarrow> (string \<times> string) list" where
  "tag_options catalog names =
     (let assigned = map to_lower names in
      map (\<lambda>t. (tag_id t, tag_name t)) (filter (\<lambda>t. to_lower (tag_name t) \<notin> set assigned) catalog))"

definition picker_open :: "'z tag_picker_scheme \<Rightarrow> 'z tag_picker_scheme" where
  "picker_open s =
     s\<lparr>pk_open := True, pk_draft_selected := pk_selected s, pk_draft := [], pk_pick_id := []\<rparr>"

definition try_add :: "string \<Rightarrow> 'z tag_picker_scheme \<Rightarrow> 'z tag_picker_scheme" where
  "try_add name s =
     (case user_tag_name_error_key name of
        Some code \<Rightarrow> emit (EvToast (tag_error code) None) s
      | None \<Rightarrow>
          (let normalized = normalize_user_tag_name name in
           if list_ex (\<lambda>x. to_lower x = to_lower normalized) (pk_draft_selected s) then s
           else (let nxt = pk_draft_selected s @ [normalized] in
                 if user_tag_max_per_object - 1 < length nxt
                 then emit (EvToast (tag_error ''user_tag_limit_per_object'') None) s
                 else s\<lparr>pk_draft_selected := nxt\<rparr>)))"

definition picker_add_existing :: "string \<Rightarrow> 'z tag_picker_scheme \<Rightarrow> 'z tag_picker_scheme" where
  "picker_add_existing tid s =
     (if tid = [] then s
      else (case find (\<lambda>t. tag_id t = tid) (pk_catalog s) of
              None \<Rightarrow> s
            | Some t \<Rightarrow> try_add (tag_name t) (s\<lparr>pk_pick_id := []\<rparr>)))"

definition picker_add_draft :: "'z tag_picker_scheme \<Rightarrow> 'z tag_picker_scheme" where
  "picker_add_draft s =
     (if trim (pk_draft s) = [] then s else (try_add (pk_draft s) s)\<lparr>pk_draft := []\<rparr>)"

definition picker_remove :: "string \<Rightarrow> 'z tag_picker_scheme \<Rightarrow> 'z tag_picker_scheme" where
  "picker_remove name s = s\<lparr>pk_draft_selected := filter (\<lambda>x. x \<noteq> name) (pk_draft_selected s)\<rparr>"

text \<open>\<open>applyAndClose\<close>: the parent's \<open>onChange\<close> stores the names and hands them back.\<close>

definition picker_apply :: "tags_slot \<Rightarrow> 'z tag_picker_scheme \<Rightarrow> 'z tag_picker_scheme" where
  "picker_apply slot s =
     save_ingest_extra_tags slot (pk_draft_selected s)
       (s\<lparr>pk_selected := pk_draft_selected s, pk_open := False\<rparr>)"

datatype picker_op = PkOpen | PkAddExisting string | PkAddDraft string | PkRemove string | PkApply tags_slot

fun picker_run :: "picker_op \<Rightarrow> tag_picker \<Rightarrow> tag_picker" where
  "picker_run PkOpen s = picker_open s"
| "picker_run (PkAddExisting tid) s = picker_add_existing tid s"
| "picker_run (PkAddDraft d) s = picker_add_draft (s\<lparr>pk_draft := d\<rparr>)"
| "picker_run (PkRemove name) s = picker_remove name s"
| "picker_run (PkApply slot) s = picker_apply slot s"

section \<open>The tags of an item\<close>

record tags_editor = browser +
  te_draft :: string
  te_pick_id :: string
  te_catalog :: "user_tag list"
  te_busy :: bool
  te_tags :: "user_tag list"

fun cleaned_tag_names :: "string list \<Rightarrow> string list \<Rightarrow> exn + string list" where
  "cleaned_tag_names seen [] = Inr []"
| "cleaned_tag_names seen (raw # rs) =
     (case user_tag_name_error_key raw of
        Some code \<Rightarrow> Inl (tag_error code)
      | None \<Rightarrow>
          (let name = normalize_user_tag_name raw; key = to_lower name in
           if key \<in> set seen then cleaned_tag_names seen rs
           else (case cleaned_tag_names (key # seen) rs of
                   Inl e \<Rightarrow> Inl e | Inr names \<Rightarrow> Inr (name # names))))"

definition cleaned_tags :: "string list \<Rightarrow> exn + string list" where
  "cleaned_tags nxt =
     (case cleaned_tag_names [] nxt of
        Inl e \<Rightarrow> Inl e
      | Inr names \<Rightarrow>
          if user_tag_max_per_object < length names
          then Inl (tag_error ''user_tag_limit_per_object'') else Inr names)"

definition object_tags_body :: "string \<Rightarrow> string \<Rightarrow> string list \<Rightarrow> json" where
  "object_tags_body otype oid names =
     JObj [(''object_type'', JStr otype), (''object_id'', JStr oid), (''tags'', str_array names)]"

definition save_tags ::
  "string \<Rightarrow> string \<Rightarrow> exn + user_tag list option \<Rightarrow> exn + user_tag list option \<Rightarrow> string list
     \<Rightarrow> ('z tags_editor_scheme, unit) act" where
  "save_tags otype oid put_r list_r nxt =
     (case cleaned_tags nxt of
        Inl e \<Rightarrow> show_error e
      | Inr names \<Rightarrow>
          thenA (upd (te_busy_update (\<lambda>_. True)))
            (finallyA
              (tryA
                (bindA (api_call (\<lambda>_ _ _. put_r) ''PUT'' ''/object-tags''
                          (Some (object_tags_body otype oid names)))
                  (\<lambda>r. thenA (upd (te_tags_update (\<lambda>_. nullish r [])))
                    (bindA (api_call (\<lambda>_ _ _. list_r) ''GET'' ''/tags'' None)
                      (\<lambda>q. upd (te_catalog_update (\<lambda>_. nullish q []))))))
                show_error)
              (te_busy_update (\<lambda>_. False))))"

definition editor_add_existing ::
  "string \<Rightarrow> string \<Rightarrow> exn + user_tag list option \<Rightarrow> exn + user_tag list option \<Rightarrow> string
     \<Rightarrow> ('z tags_editor_scheme, unit) act" where
  "editor_add_existing otype oid put_r list_r tid =
     bindA (getsA (\<lambda>s. (te_busy s, find (\<lambda>t. tag_id t = tid) (te_catalog s), map tag_name (te_tags s))))
       (\<lambda>(busy, found, names).
         if tid = [] \<or> busy then ret ()
         else (case found of
                 None \<Rightarrow> ret ()
               | Some t \<Rightarrow> thenA (upd (te_pick_id_update (\<lambda>_. [])))
                             (save_tags otype oid put_r list_r (names @ [tag_name t]))))"

definition editor_add_tag ::
  "string \<Rightarrow> string \<Rightarrow> exn + user_tag list option \<Rightarrow> exn + user_tag list option
     \<Rightarrow> ('z tags_editor_scheme, unit) act" where
  "editor_add_tag otype oid put_r list_r =
     bindA (getsA (\<lambda>s. (te_busy s, te_draft s, map tag_name (te_tags s))))
       (\<lambda>(busy, draft, names).
         if busy then ret ()
         else (case user_tag_name_error_key draft of
                 Some code \<Rightarrow> show_error (tag_error code)
               | None \<Rightarrow>
                   (let name = normalize_user_tag_name draft in
                    if list_ex (\<lambda>x. to_lower x = to_lower name) names
                    then upd (te_draft_update (\<lambda>_. []))
                    else thenA (save_tags otype oid put_r list_r (names @ [name]))
                           (upd (te_draft_update (\<lambda>_. []))))))"

definition editor_remove_tag ::
  "string \<Rightarrow> string \<Rightarrow> exn + user_tag list option \<Rightarrow> exn + user_tag list option \<Rightarrow> string
     \<Rightarrow> ('z tags_editor_scheme, unit) act" where
  "editor_remove_tag otype oid put_r list_r tid =
     bindA (getsA (\<lambda>s. (te_busy s, map tag_name (filter (\<lambda>t. tag_id t \<noteq> tid) (te_tags s)))))
       (\<lambda>(busy, names). if busy then ret () else save_tags otype oid put_r list_r names)"

section \<open>The dialog of all tags\<close>

record tag_dialog = browser +
  td_items :: "user_tag list"
  td_loading :: bool
  td_rename_id :: "string option"
  td_rename_draft :: string
  td_delete_id :: "string option"
  td_busy :: bool
  td_updated :: nat

definition td_load :: "exn + user_tag list option \<Rightarrow> ('z tag_dialog_scheme, unit) act" where
  "td_load list_r =
     thenA (upd (td_loading_update (\<lambda>_. True)))
       (finallyA
         (tryA (bindA (api_call (\<lambda>_ _ _. list_r) ''GET'' ''/tags'' None)
                  (\<lambda>r. upd (td_items_update (\<lambda>_. nullish r []))))
           show_error)
         (td_loading_update (\<lambda>_. False)))"

definition td_rename_ready :: "'z tag_dialog_scheme \<Rightarrow> bool" where
  "td_rename_ready s =
     (case Option.bind (td_rename_id s) (\<lambda>i. if i = [] then None else find (\<lambda>t. tag_id t = i) (td_items s)) of
        None \<Rightarrow> False
      | Some target \<Rightarrow>
          user_tag_name_error_key (td_rename_draft s) = None
          \<and> normalize_user_tag_name (td_rename_draft s) \<noteq> tag_name target)"

definition td_save_rename ::
  "exn + unit \<Rightarrow> exn + user_tag list option \<Rightarrow> string \<Rightarrow> ('z tag_dialog_scheme, unit) act" where
  "td_save_rename patch_r list_r tid =
     bindA (getsA (\<lambda>s. (td_rename_draft s, find (\<lambda>t. tag_id t = tid) (td_items s))))
       (\<lambda>(draft, target).
         case user_tag_name_error_key draft of
           Some code \<Rightarrow> show_error (tag_error code)
         | None \<Rightarrow>
             (let name = normalize_user_tag_name draft in
              if target = None \<or> map_option tag_name target = Some name
              then upd (td_rename_id_update (\<lambda>_. None))
              else thenA (upd (td_busy_update (\<lambda>_. True)))
                (finallyA
                  (tryA
                    (thenA (api_call (\<lambda>_ _ _. patch_r) ''PATCH'' (''/tags/'' @ tid)
                             (Some (JObj [(''name'', JStr name)])))
                      (thenA (upd (td_rename_id_update (\<lambda>_. None)))
                        (thenA (td_load list_r) (upd (td_updated_update Suc)))))
                    show_error)
                  (td_busy_update (\<lambda>_. False)))))"

definition td_confirm_delete ::
  "exn + unit \<Rightarrow> exn + user_tag list option \<Rightarrow> ('z tag_dialog_scheme, unit) act" where
  "td_confirm_delete delete_r list_r =
     bindA (getsA td_delete_id)
       (\<lambda>did. if \<not> truthy did then ret ()
         else thenA (upd (td_busy_update (\<lambda>_. True)))
           (finallyA
             (tryA
               (thenA (api_call (\<lambda>_ _ _. delete_r) ''DELETE'' (''/tags/'' @ str_or_empty did) None)
                 (thenA (upd (td_delete_id_update (\<lambda>_. None)))
                   (thenA (td_load list_r) (upd (td_updated_update Suc)))))
               show_error)
             (td_busy_update (\<lambda>_. False))))"

section \<open>Properties of names\<close>

text \<open>A list the server accepts: clean names, no two of them equal without case.\<close>

definition tag_ok :: "string \<Rightarrow> bool" where
  "tag_ok name \<longleftrightarrow> normalize_user_tag_name name = name \<and> name \<noteq> [] \<and> length name \<le> user_tag_max_name_len"

definition tag_set :: "string list \<Rightarrow> bool" where
  "tag_set names \<longleftrightarrow> list_all tag_ok names \<and> distinct (map to_lower names)"

lemma space_is_ws [simp]: "is_ws (CHR '' '')"
  by (simp add: is_ws_def)

lemma collapse_ws_Nil [simp]: "collapse_ws s = [] \<longleftrightarrow> s = []"
  by (cases s) auto

lemma collapse_ws_hd: "s \<noteq> [] \<Longrightarrow> \<not> is_ws (hd s) \<Longrightarrow> hd (collapse_ws s) = hd s"
  by (cases s) auto

lemma collapse_ws_last: "s \<noteq> [] \<Longrightarrow> \<not> is_ws (last s) \<Longrightarrow> \<not> is_ws (last (collapse_ws s))"
proof (induction s rule: collapse_ws.induct)
  case (2 c s)
  show ?case
  proof (cases "is_ws c")
    case True
    then have s: "s \<noteq> []" "\<not> is_ws (last s)" using 2(4) by (auto split: if_splits)
    then have d: "dropWhile is_ws s \<noteq> []" by (auto simp: dropWhile_eq_Nil_conv)
    then have "last (dropWhile is_ws s) = last s" by (metis last_appendR takeWhile_dropWhile_id)
    then show ?thesis using 2(1) True d s by simp
  next
    case False
    then show ?thesis using 2 by (cases "s = []") auto
  qed
qed simp

lemma collapse_ws_idem [simp]: "collapse_ws (collapse_ws s) = collapse_ws s"
proof (induction s rule: collapse_ws.induct)
  case (2 c s)
  have "dropWhile is_ws (collapse_ws (dropWhile is_ws s)) = collapse_ws (dropWhile is_ws s)"
    by (rule dropWhile_fix) (metis collapse_ws_Nil collapse_ws_hd dropWhile_hd)
  with 2 show ?case by (cases "is_ws c") auto
qed simp

lemma trim_collapse: "trim (collapse_ws (trim s)) = collapse_ws (trim s)"
  by (rule trim_fix) (metis collapse_ws_Nil collapse_ws_hd collapse_ws_last trim_hd trim_last)

lemma tag_name_idem [simp]:
  "normalize_user_tag_name (normalize_user_tag_name s) = normalize_user_tag_name s"
  by (simp add: normalize_user_tag_name_def trim_collapse)

lemma valid_name_ok: "user_tag_name_error_key name = None \<Longrightarrow> tag_ok (normalize_user_tag_name name)"
  by (auto simp: user_tag_name_error_key_def tag_ok_def Let_def split: if_splits)

lemma ok_name_valid: "tag_ok name \<Longrightarrow> user_tag_name_error_key name = None"
  by (simp add: user_tag_name_error_key_def tag_ok_def Let_def)

lemma tag_set_Nil [simp]: "tag_set []"
  by (simp add: tag_set_def)

lemma tag_set_filter: "tag_set names \<Longrightarrow> tag_set (filter P names)"
  by (auto simp: tag_set_def list_all_iff distinct_map_filter)

lemma tag_set_snoc:
  "tag_set names \<Longrightarrow> tag_ok name \<Longrightarrow> \<not> list_ex (\<lambda>x. to_lower x = to_lower name) names
     \<Longrightarrow> tag_set (names @ [name])"
  by (force simp: tag_set_def list_all_iff list_ex_iff)

section \<open>Properties of the stored tags\<close>

lemma stored_tags_spec:
  "list_all tag_ok (stored_tags seen js) \<and> distinct (map to_lower (stored_tags seen js))
   \<and> set (map to_lower (stored_tags seen js)) \<inter> set seen = {}"
  by (induction seen js rule: stored_tags.induct) (auto simp: Let_def valid_name_ok)

lemma stored_tags_fix:
  "list_all tag_ok names \<Longrightarrow> distinct (map to_lower names) \<Longrightarrow> set (map to_lower names) \<inter> set seen = {}
     \<Longrightarrow> stored_tags seen (map JStr names) = names"
proof (induction names arbitrary: seen)
  case (Cons n ns)
  then have "user_tag_name_error_key n = None" "normalize_user_tag_name n = n"
    by (auto simp: ok_name_valid tag_ok_def)
  with Cons show ?case by (auto simp: Let_def)
qed simp

lemma parse_stored_tag_set: "tag_set (parse_stored_tag_names raw)"
  using stored_tags_spec by (auto simp: parse_stored_tag_names_def tag_set_def split: option.split json.split)

lemma parse_stored_saved:
  "tag_set names \<Longrightarrow> parse_stored_tag_names (Some (json_stringify (str_array names))) = names"
  using stored_tags_fix [of names "[]"]
  by (auto simp: parse_stored_tag_names_def json_parse_str_array tag_set_def)
     (simp add: str_array_def)

lemma tags_key_inj: "tags_key a = tags_key b \<longleftrightarrow> a = b"
  by (cases a; cases b; simp)

lemma tags_key_legacy: "tags_key a \<noteq> legacy_tags_key"
  by (cases a) (simp_all add: legacy_tags_key_def)

lemma load_tag_set: "tag_set (fst (load_ingest_extra_tags slot s))"
  by (auto simp: load_ingest_extra_tags_def migrate_legacy_link_tags_def Let_def parse_stored_tag_set
      split: option.split)

lemma load_saved:
  "tag_set names \<Longrightarrow> load_ingest_extra_tags slot (save_ingest_extra_tags slot names s)
     = (names, save_ingest_extra_tags slot names s)"
  by (simp add: load_ingest_extra_tags_def save_ingest_extra_tags_def Let_def ls.get_set_same parse_stored_saved)

lemma load_again:
  "fst (load_ingest_extra_tags slot (snd (load_ingest_extra_tags slot s)))
     = fst (load_ingest_extra_tags slot s)"
  by (auto simp: load_ingest_extra_tags_def migrate_legacy_link_tags_def Let_def ls.get_set ls.get_remove
      tags_key_legacy split: option.split)

text \<open>C31: The extra tags an upload carries are clean whatever the storage holds: every loaded list
  has only trimmed names of 1 to 64 characters without runs of white space, no two of them equal
  without case. Every clean list that is saved is loaded unchanged, in order, and the load then changes nothing; saving
  writes its own slot only. The old single list moves to the link slot once: the first load of that slot, when it is empty, takes
  it over as it stands and removes it, and every later load gives the same names.\<close>

theorem extra_tags_are_clean:
  "tag_set (fst (load_ingest_extra_tags slot s))
   \<and> (tag_set names \<longrightarrow>
        load_ingest_extra_tags slot (save_ingest_extra_tags slot names s) = (names, save_ingest_extra_tags slot names s))
   \<and> local_get (save_ingest_extra_tags slot names s) (tags_key other)
       = (if other = slot then Some (json_stringify (str_array names)) else local_get s (tags_key other))
   \<and> fst (load_ingest_extra_tags slot (snd (load_ingest_extra_tags slot s)))
       = fst (load_ingest_extra_tags slot s)
   \<and> local_get (snd (load_ingest_extra_tags SlotLink s)) (tags_key SlotLink)
       = (if local_get s (tags_key SlotLink) = None then local_get s legacy_tags_key else local_get s (tags_key SlotLink))
   \<and> local_get (snd (load_ingest_extra_tags SlotLink s)) legacy_tags_key
       = (if local_get s (tags_key SlotLink) = None then None else local_get s legacy_tags_key)"
proof (intro conjI impI)
  show "local_get (save_ingest_extra_tags slot names s) (tags_key other)
       = (if other = slot then Some (json_stringify (str_array names)) else local_get s (tags_key other))"
    by (simp add: save_ingest_extra_tags_def ls.get_set tags_key_inj)
  show "local_get (snd (load_ingest_extra_tags SlotLink s)) legacy_tags_key
       = (if local_get s (tags_key SlotLink) = None then None else local_get s legacy_tags_key)"
    "local_get (snd (load_ingest_extra_tags SlotLink s)) (tags_key SlotLink)
       = (if local_get s (tags_key SlotLink) = None then local_get s legacy_tags_key else local_get s (tags_key SlotLink))"
    using tags_key_legacy [of SlotLink]
    by (auto simp: load_ingest_extra_tags_def migrate_legacy_link_tags_def Let_def ls.get_remove ls.get_set
        split: option.split)
qed (simp_all add: load_tag_set load_saved load_again)

section \<open>Properties of the tag forms\<close>

definition picker_ok :: "nat \<Rightarrow> 'z tag_picker_scheme \<Rightarrow> bool" where
  "picker_ok n s \<longleftrightarrow> tag_set (pk_selected s) \<and> tag_set (pk_draft_selected s)
     \<and> length (pk_selected s) \<le> n \<and> length (pk_draft_selected s) \<le> n"

lemma picker_ok_try_add:
  "picker_ok n s \<Longrightarrow> user_tag_max_per_object - 1 \<le> n \<Longrightarrow> picker_ok n (try_add name s)"
  by (auto simp: picker_ok_def try_add_def Let_def emit_def valid_name_ok intro!: tag_set_snoc
      split: option.split)

lemma picker_ok_frame:
  "picker_ok n s \<Longrightarrow> picker_ok n (s\<lparr>pk_draft := d\<rparr>)" "picker_ok n s \<Longrightarrow> picker_ok n (s\<lparr>pk_pick_id := d\<rparr>)"
  by (simp_all add: picker_ok_def)

lemma picker_ok_run:
  "picker_ok n s \<Longrightarrow> user_tag_max_per_object - 1 \<le> n \<Longrightarrow> picker_ok n (picker_run p s)"
proof (cases p)
  case (PkRemove name)
  assume "picker_ok n s"
  then show ?thesis using PkRemove
    by (auto simp: picker_ok_def picker_remove_def tag_set_filter intro: le_trans [OF length_filter_le])
next
  case (PkApply slot)
  assume "picker_ok n s"
  then show ?thesis using PkApply
    by (simp add: picker_ok_def picker_apply_def save_ingest_extra_tags_def local_set_def)
qed (auto simp: picker_open_def picker_add_existing_def picker_add_draft_def
     intro!: picker_ok_try_add picker_ok_frame split: option.split, simp add: picker_ok_def)

text \<open>C32: However the picker of extra tags is used, what it applies is a clean list: from a clean
  selection, any sequence of opening, picking, typing, removing and applying leaves the draft and the
  applied selection free of invalid names and of duplicates without case, and never longer than 31 names
  (the server adds one of its own) unless the stored selection already was.\<close>

theorem picked_tags_are_clean:
  assumes "tag_set (pk_selected s)" and "pk_draft_selected s = pk_selected s"
  shows "tag_set (pk_selected (fold picker_run ops s)) \<and> tag_set (pk_draft_selected (fold picker_run ops s))
    \<and> length (pk_selected (fold picker_run ops s))
        \<le> max (user_tag_max_per_object - 1) (length (pk_selected s))"
proof -
  let ?n = "max (user_tag_max_per_object - 1) (length (pk_selected s))"
  have "picker_ok ?n (fold picker_run ops t)" if "picker_ok ?n t" for t
    using that by (induction ops arbitrary: t) (simp_all add: picker_ok_run)
  then show ?thesis using assms by (simp add: picker_ok_def)
qed

definition blank_picker :: tag_picker where
  "blank_picker =
     \<lparr>local_store = Map.empty, session_store = Map.empty, events = [], pk_open = False,
      pk_draft_selected = [], pk_draft = [], pk_pick_id = [], pk_selected = [], pk_catalog = []\<rparr>"

theorem picked_tags_are_clean_witness:
  "tag_set (pk_selected (fold picker_run
      [PkOpen, PkAddDraft '' Sales   team '', PkAddDraft ''sales team'', PkApply SlotFile] blank_picker))
   \<and> pk_selected (fold picker_run
      [PkOpen, PkAddDraft '' Sales   team '', PkAddDraft ''sales team'', PkApply SlotFile] blank_picker)
      = [''Sales team'']"
proof -
  have "pk_selected (fold picker_run
      [PkOpen, PkAddDraft '' Sales   team '', PkAddDraft ''sales team'', PkApply SlotFile] blank_picker)
      = [''Sales team'']"
    by code_simp
  moreover have "tag_set (pk_selected (fold picker_run
      [PkOpen, PkAddDraft '' Sales   team '', PkAddDraft ''sales team'', PkApply SlotFile] blank_picker))"
    by (rule picked_tags_are_clean [THEN conjunct1]) (simp_all add: blank_picker_def)
  ultimately show ?thesis by blast
qed

lemma cleaned_names_spec:
  "cleaned_tag_names seen xs = Inr names \<Longrightarrow>
     list_all tag_ok names \<and> distinct (map to_lower names) \<and> set (map to_lower names) \<inter> set seen = {}
     \<and> to_lower ` set names \<union> set seen = to_lower ` normalize_user_tag_name ` set xs \<union> set seen
     \<and> list_all (\<lambda>x. user_tag_name_error_key x = None) xs"
proof (induction seen xs arbitrary: names rule: cleaned_tag_names.induct)
  case (2 seen raw rs)
  show ?case
  proof (cases "to_lower (normalize_user_tag_name raw) \<in> set seen")
    case True
    then show ?thesis using 2 by (auto simp: Let_def split: option.splits)
  next
    case False
    then obtain ns where "user_tag_name_error_key raw = None"
      and "cleaned_tag_names (to_lower (normalize_user_tag_name raw) # seen) rs = Inr ns"
      and "names = normalize_user_tag_name raw # ns"
      using 2(3) by (auto simp: Let_def split: option.splits sum.splits)
    then show ?thesis using 2(2) False by (auto simp: valid_name_ok)
  qed
qed simp

theorem extra_tags_are_clean_witness:
  "fst (load_ingest_extra_tags SlotMic (save_ingest_extra_tags SlotMic [''Sales team'', ''q3'']
      \<lparr>local_store = Map.empty, session_store = Map.empty, events = []\<rparr>)) = [''Sales team'', ''q3'']"
proof -
  have "tag_set [''Sales team'', ''q3'']" by code_simp
  then show ?thesis
    using extra_tags_are_clean [of SlotMic "\<lparr>local_store = Map.empty, session_store = Map.empty, events = []\<rparr>"
        "[''Sales team'', ''q3'']"] by simp
qed

text \<open>The loop returns a list exactly when every name is valid; else it fails with the one message it has.\<close>

lemma cleaned_names_cases:
  "if list_all (\<lambda>x. user_tag_name_error_key x = None) xs then \<exists>names. cleaned_tag_names seen xs = Inr names
   else cleaned_tag_names seen xs = Inl (tag_error ''user_tag_name_invalid'')"
proof (induction xs arbitrary: seen)
  case (Cons raw rs)
  have e: "user_tag_name_error_key raw \<in> {None, Some ''user_tag_name_invalid''}"
    by (simp add: user_tag_name_error_key_def Let_def)
  show ?case
    using e Cons [of seen] Cons [of "to_lower (normalize_user_tag_name raw) # seen"]
    by (auto simp: Let_def split: if_splits)
qed simp

lemma cleaned_names_wanted:
  "cleaned_tag_names seen xs = Inr names \<Longrightarrow> set names \<subseteq> normalize_user_tag_name ` set xs"
proof (induction xs arbitrary: seen names)
  case (Cons raw rs)
  then show ?case by (fastforce simp: Let_def split: option.splits sum.splits if_splits)
qed simp

lemma cleaned_names_length:
  assumes "cleaned_tag_names [] xs = Inr names"
  shows "length names = card (to_lower ` normalize_user_tag_name ` set xs)"
proof -
  have "distinct (map to_lower names)" "to_lower ` set names = to_lower ` normalize_user_tag_name ` set xs"
    using cleaned_names_spec [OF assms] by simp_all
  then show ?thesis by (metis distinct_card length_map list.set_map)
qed

text \<open>C33: Saving the tags of an item sends only what the server accepts. When every name has 1 to 64 characters once its white
  space is cleaned and at most 32 different names (without case) remain, exactly one PUT goes out, with a clean list of exactly the
  wanted names, each once; on success the list of all tags is asked for; the item shows the tags of the answer, or keeps its own
  when the request fails, and an error is shown when either fails. Otherwise nothing is sent, one message is shown (the invalid name
  before the limit) and nothing else changes. The editor is never left busy by it.\<close>

theorem saved_tags_are_clean:
  "if (\<forall>x \<in> set nxt. normalize_user_tag_name x \<noteq> [] \<and> length (normalize_user_tag_name x) \<le> 64)
      \<and> card (to_lower ` normalize_user_tag_name ` set nxt) \<le> 32
   then \<exists>names t. save_tags otype oid put_r list_r nxt s = (Inr (), t)
       \<and> tag_set names \<and> set names \<subseteq> normalize_user_tag_name ` set nxt
       \<and> to_lower ` set names = to_lower ` normalize_user_tag_name ` set nxt
       \<and> events t = events s @ EvRequest ''PUT'' ''/object-tags'' (Some (object_tags_body otype oid names))
           # (case (put_r, list_r) of
                (Inl e, _) \<Rightarrow> [EvToast e None]
              | (Inr _, Inl e) \<Rightarrow> [EvRequest ''GET'' ''/tags'' None, EvToast e None]
              | _ \<Rightarrow> [EvRequest ''GET'' ''/tags'' None])
       \<and> te_tags t = (case put_r of Inl _ \<Rightarrow> te_tags s | Inr r \<Rightarrow> nullish r [])
       \<and> \<not> te_busy t
   else save_tags otype oid put_r list_r nxt s =
     (Inr (), emit (EvToast (tag_error
        (if \<forall>x \<in> set nxt. normalize_user_tag_name x \<noteq> [] \<and> length (normalize_user_tag_name x) \<le> 64
         then ''user_tag_limit_per_object'' else ''user_tag_name_invalid'')) None) s)"
proof -
  have v: "(\<forall>x \<in> set nxt. normalize_user_tag_name x \<noteq> [] \<and> length (normalize_user_tag_name x) \<le> 64)
      \<longleftrightarrow> list_all (\<lambda>x. user_tag_name_error_key x = None) nxt"
    by (auto simp: list_all_iff user_tag_name_error_key_def user_tag_max_name_len_def Let_def)
  show ?thesis
  proof (cases "list_all (\<lambda>x. user_tag_name_error_key x = None) nxt")
    case False
    then have "cleaned_tags nxt = Inl (tag_error ''user_tag_name_invalid'')"
      using cleaned_names_cases [of nxt "[]"] by (simp add: cleaned_tags_def)
    then show ?thesis using False by (simp add: v save_tags_def show_error_def run_simps)
  next
    case True
    then obtain names where n: "cleaned_tag_names [] nxt = Inr names" using cleaned_names_cases [of nxt "[]"] by auto
    note l = cleaned_names_length [OF n]
    show ?thesis
    proof (cases "card (to_lower ` normalize_user_tag_name ` set nxt) \<le> 32")
      case False
      then have "cleaned_tags nxt = Inl (tag_error ''user_tag_limit_per_object'')"
        using n l by (simp add: cleaned_tags_def user_tag_max_per_object_def)
      then show ?thesis using True False by (simp add: v save_tags_def show_error_def run_simps)
    next
      case few: True
      then have c: "cleaned_tags nxt = Inr names" using n l by (simp add: cleaned_tags_def user_tag_max_per_object_def)
      have "\<exists>t. save_tags otype oid put_r list_r nxt s = (Inr (), t)
         \<and> events t = events s @ EvRequest ''PUT'' ''/object-tags'' (Some (object_tags_body otype oid names))
             # (case (put_r, list_r) of
                  (Inl e, _) \<Rightarrow> [EvToast e None]
                | (Inr _, Inl e) \<Rightarrow> [EvRequest ''GET'' ''/tags'' None, EvToast e None]
                | _ \<Rightarrow> [EvRequest ''GET'' ''/tags'' None])
         \<and> te_tags t = (case put_r of Inl _ \<Rightarrow> te_tags s | Inr r \<Rightarrow> nullish r [])
         \<and> \<not> te_busy t"
        by (cases put_r; cases list_r) (simp_all add: save_tags_def c run_simps show_error_def emit_def)
      then show ?thesis
        using True few cleaned_names_spec [OF n] cleaned_names_wanted [OF n]
        unfolding v by (auto simp: tag_set_def)
    qed
  qed
qed

theorem saved_tags_are_clean_witness:
  "\<exists>names t. save_tags ''audio'' ''a1'' (Inr None) (Inr None) ['' Sales   team'', ''sales team'']
       \<lparr>local_store = Map.empty, session_store = Map.empty, events = [], te_draft = [], te_pick_id = [],
         te_catalog = [], te_busy = False, te_tags = []\<rparr> = (Inr (), t)
     \<and> tag_set names \<and> \<not> te_busy t"
proof -
  let ?s = "\<lparr>local_store = Map.empty, session_store = Map.empty, events = [], te_draft = [], te_pick_id = [],
         te_catalog = [], te_busy = False, te_tags = []\<rparr>"
  have "list_all (\<lambda>x. normalize_user_tag_name x \<noteq> [] \<and> length (normalize_user_tag_name x) \<le> 64)
      ['' Sales   team'', ''sales team'']" by code_simp
  moreover have "card (to_lower ` normalize_user_tag_name ` set ['' Sales   team'', ''sales team'']) \<le> 32"
    by (rule le_trans [OF card_image_le], simp, rule le_trans [OF card_image_le], simp, rule le_trans [OF card_length], simp)
  ultimately show ?thesis
    using saved_tags_are_clean [of "['' Sales   team'', ''sales team'']" "''audio''" "''a1''" "Inr None" "Inr None" ?s]
    unfolding list_all_iff [symmetric] by (simp only: simp_thms if_True) blast
qed

end
