(* ===== verification/Capture_Host.thy ===== *)
theory Capture_Host
  imports Hub_Effects
begin

text \<open>
  Which service a pasted link goes to (\<open>util/captureHost.ts\<close>) and the label of the submit button
  (\<open>util/ingestLinkSubmitLabel.ts\<close>), with the link field of \<open>IngestStudioLinkField.tsx\<close>.

  The browser's URL parser is an argument: \<open>parse\<close> gives the host name and the path name of a
  text, and \<open>None\<close> where \<open>new URL\<close> throws. No law about it is needed: the facts below hold for
  every parser.
\<close>

section \<open>Hosts\<close>

type_synonym url_parser = "string \<Rightarrow> (string \<times> string) option"

definition import_video_host_suffixes :: "string list" where
  "import_video_host_suffixes = [''youtube.com'', ''youtu.be'', ''rutube.ru'', ''tiktok.com'', ''tiktokv.com'']"

definition telemost_hosts :: "string list" where
  "telemost_hosts = [''telemost.yandex.ru'', ''telemost.yandex.com'']"

definition is_import_video_host :: "string \<Rightarrow> bool" where
  "is_import_video_host host = list_ex (\<lambda>d. host = d \<or> ends_with host (''.'' @ d)) import_video_host_suffixes"

text \<open>The test \<open>/^https?:\/\//i\<close>.\<close>

definition http_prefix :: "string \<Rightarrow> bool" where
  "http_prefix raw \<longleftrightarrow> starts_with (to_lower raw) ''http://'' \<or> starts_with (to_lower raw) ''https://''"

definition strip_www :: "string \<Rightarrow> string" where
  "strip_www host = (if starts_with host ''www.'' then drop 4 host else host)"

definition path_parts :: "string \<Rightarrow> string list" where
  "path_parts pathname = filter (\<lambda>x. x \<noteq> []) (split_on (CHR ''/'') pathname)"

definition is_import_video_url :: "url_parser \<Rightarrow> string \<Rightarrow> bool" where
  "is_import_video_url parse url =
     (let raw = trim url in
      if \<not> http_prefix raw then False
      else (case parse raw of
              None \<Rightarrow> False
            | Some (hostname, _) \<Rightarrow> is_import_video_host (strip_www (to_lower hostname))))"

definition meeting_room_path :: "url_parser \<Rightarrow> string \<Rightarrow> string option" where
  "meeting_room_path parse url =
     (let raw = trim url in
      if \<not> http_prefix raw then None
      else (case parse raw of
              None \<Rightarrow> None
            | Some (_, pathname) \<Rightarrow>
                (let segments = path_parts pathname in
                 if segments = [] then None
                 else (let x = last segments in if x = [] then None else Some x))))"

definition is_telemost_capture_url :: "url_parser \<Rightarrow> string \<Rightarrow> bool" where
  "is_telemost_capture_url parse url =
     (let raw = trim url in
      if \<not> http_prefix raw then False
      else (case parse raw of
              None \<Rightarrow> False
            | Some (hostname, pathname) \<Rightarrow>
                if strip_www (to_lower hostname) \<notin> set telemost_hosts then False
                else (let parts = path_parts pathname in
                      2 \<le> length parts \<and> (parts ! 0 = ''j'' \<or> parts ! 0 = ''private-join'') \<and> parts ! 1 \<noteq> [])))"

definition normalize_jitsi_host_input :: "url_parser \<Rightarrow> string \<Rightarrow> string" where
  "normalize_jitsi_host_input parse raw =
     (let val = trim raw in
      if val = [] then []
      else (case (if str_includes val ''://'' then parse val else parse (''https://'' @ val)) of
              Some (hostname, _) \<Rightarrow> strip_www (to_lower hostname)
            | None \<Rightarrow>
                strip_www (to_lower (trim (hd (split_on (CHR ''?'') (hd (split_on (CHR ''/'') val))))))))"

section \<open>Where a link goes\<close>

definition is_meeting_capture_url :: "url_parser \<Rightarrow> string \<Rightarrow> bool" where
  "is_meeting_capture_url parse url =
     (if is_telemost_capture_url parse url then True
      else if \<not> truthy (meeting_room_path parse url) then False
      else (let host = normalize_jitsi_host_input parse url in
            if host = [] \<or> is_import_video_host host then False else True))"

datatype link_mode = LinkIdle | LinkMeeting | LinkImport

definition ingest_link_field_mode :: "url_parser \<Rightarrow> string \<Rightarrow> link_mode" where
  "ingest_link_field_mode parse url =
     (let trimmed = trim url in
      if trimmed = [] then LinkIdle
      else if is_meeting_capture_url parse trimmed then LinkMeeting
      else if is_import_video_url parse trimmed then LinkImport else LinkIdle)"

definition ingest_link_url_looks_invalid :: "url_parser \<Rightarrow> string \<Rightarrow> bool" where
  "ingest_link_url_looks_invalid parse url =
     (let trimmed = trim url in
      if trimmed = [] then False
      else if \<not> http_prefix trimmed then True
      else parse trimmed = None)"

definition ingest_link_url_ready_for_submit :: "url_parser \<Rightarrow> string \<Rightarrow> bool" where
  "ingest_link_url_ready_for_submit parse url =
     (let trimmed = trim url in 0 < length trimmed \<and> \<not> ingest_link_url_looks_invalid parse trimmed)"

definition should_route_import_url_to_capture :: "url_parser \<Rightarrow> string \<Rightarrow> bool \<Rightarrow> bool" where
  "should_route_import_url_to_capture parse url enabled =
     (if \<not> enabled then False
      else if is_telemost_capture_url parse url then True
      else if \<not> truthy (meeting_room_path parse url) then False
      else (let host = normalize_jitsi_host_input parse url in
            if host = [] \<or> is_import_video_host host then False else True))"

definition capture_meeting_needs_pin :: "url_parser \<Rightarrow> string \<Rightarrow> bool \<Rightarrow> bool" where
  "capture_meeting_needs_pin parse url enabled \<longleftrightarrow>
     should_route_import_url_to_capture parse url enabled \<and> \<not> is_telemost_capture_url parse url"

definition studio_link_submit_label :: "url_parser \<Rightarrow> string \<Rightarrow> bool \<Rightarrow> bool \<Rightarrow> string" where
  "studio_link_submit_label parse url busy to_capture =
     (if busy then (if to_capture then ''library.capturing'' else ''library.importing'')
      else (case ingest_link_field_mode parse url of
              LinkMeeting \<Rightarrow> ''ingest.linkSubmitMeeting''
            | LinkImport \<Rightarrow> ''ingest.linkSubmitImport''
            | LinkIdle \<Rightarrow> ''ingest.linkSubmitIdle''))"

text \<open>The field: its icon is hidden while it has text or focus, and leaving it with an invalid text
  reports the error.\<close>

definition link_field_blur :: "url_parser \<Rightarrow> string \<Rightarrow> ('z browser_scheme, unit) act" where
  "link_field_blur parse val =
     whenA (trim val \<noteq> [] \<and> ingest_link_url_looks_invalid parse val)
       (show_error (JsError ''ingest.linkUrlInvalid''))"

definition link_field_shows_icon :: "bool \<Rightarrow> string \<Rightarrow> bool" where
  "link_field_shows_icon focused val \<longleftrightarrow> \<not> focused \<and> trim val = []"

section \<open>Properties\<close>

lemma capture_is_meeting:
  "should_route_import_url_to_capture parse url enabled \<longleftrightarrow> enabled \<and> is_meeting_capture_url parse url"
  by (simp add: should_route_import_url_to_capture_def is_meeting_capture_url_def)

lemma meeting_trim: "is_meeting_capture_url parse (trim url) = is_meeting_capture_url parse url"
  by (simp add: is_meeting_capture_url_def is_telemost_capture_url_def meeting_room_path_def
      normalize_jitsi_host_input_def)

lemma video_trim: "is_import_video_url parse (trim url) = is_import_video_url parse url"
  by (simp add: is_import_video_url_def)

lemma invalid_trim: "ingest_link_url_looks_invalid parse (trim url) = ingest_link_url_looks_invalid parse url"
  by (simp add: ingest_link_url_looks_invalid_def)

lemma of_lower_char:
  "of_char (lower_char c) =
     (let n = of_char c :: nat in
      if 65 \<le> n \<and> n \<le> 90 \<or> 192 \<le> n \<and> n \<le> 222 \<and> n \<noteq> 215 then n + 32 else n)"
  by (auto simp: lower_char_def Let_def)

lemma lower_punct:
  assumes "lower_char c = d" and "of_char d < (60 :: nat)"
  shows "c = d"
proof -
  have "\<not> (65 \<le> (of_char c :: nat) \<and> of_char c \<le> (90 :: nat)
      \<or> 192 \<le> (of_char c :: nat) \<and> of_char c \<le> (222 :: nat) \<and> of_char c \<noteq> (215 :: nat))"
    (is "\<not> ?upper")
  proof
    assume up: ?upper
    then have "of_char d = (of_char c :: nat) + 32"
      using assms(1) of_lower_char [of c] unfolding Let_def by (simp only: if_True simp_thms)
    with assms(2) up show False by linarith
  qed
  then show ?thesis using assms(1) unfolding lower_char_def Let_def by (simp only: if_False)
qed

lemma map_middle: "map f s = a @ b @ c \<Longrightarrow> \<exists>x y z. s = x @ y @ z \<and> map f y = b"
  by (metis map_eq_append_conv)

lemma http_prefix_scheme:
  assumes "http_prefix raw"
  shows "str_includes raw ''://''"
proof -
  have "\<exists>a r. to_lower raw = a @ ''://'' @ r"
  proof -
    consider r where "to_lower raw = ''http://'' @ r" | r where "to_lower raw = ''https://'' @ r"
      using assms by (auto simp: http_prefix_def starts_with_iff)
    then show ?thesis
    proof cases
      case 1
      then have "to_lower raw = ''http'' @ ''://'' @ r" by simp
      then show ?thesis by blast
    next
      case 2
      then have "to_lower raw = ''https'' @ ''://'' @ r" by simp
      then show ?thesis by blast
    qed
  qed
  then obtain a r where "map lower_char raw = a @ ''://'' @ r" unfolding to_lower_def by blast
  from map_middle [OF this] obtain x y z where raw: "raw = x @ y @ z" and y: "map lower_char y = ''://''"
    by (elim exE conjE) (rule that)
  then obtain c1 ya where ya: "y = c1 # ya" "lower_char c1 = CHR '':''" "map lower_char ya = ''//''"
    by (cases y) simp_all
  then obtain c2 yb where yb: "ya = c2 # yb" "lower_char c2 = CHR ''/''" "map lower_char yb = ''/''"
    by (cases ya) simp_all
  then obtain c3 where yc: "yb = [c3]" "lower_char c3 = CHR ''/''"
    by (cases yb) simp_all
  have "y = ''://''" using ya yb yc lower_punct [of c1] lower_punct [of c2] lower_punct [of c3] by simp
  then show ?thesis using raw str_includes_iff by metis
qed

lemma telemost_not_video: "h \<in> set telemost_hosts \<Longrightarrow> \<not> is_import_video_host h"
proof -
  have "list_all (\<lambda>h. \<not> is_import_video_host h) telemost_hosts" by code_simp
  then show "h \<in> set telemost_hosts \<Longrightarrow> \<not> is_import_video_host h" by (simp add: list_all_iff)
qed

lemma video_not_meeting: "is_import_video_url parse url \<Longrightarrow> \<not> is_meeting_capture_url parse url"
proof -
  assume v: "is_import_video_url parse url"
  then obtain h p where hp: "http_prefix (trim url)" "parse (trim url) = Some (h, p)"
    and host: "is_import_video_host (strip_www (to_lower h))"
    by (auto simp: is_import_video_url_def Let_def split: if_splits option.splits)
  have "trim url \<noteq> []" using hp(1) by (auto simp: http_prefix_def starts_with_def)
  then have "normalize_jitsi_host_input parse url = strip_www (to_lower h)"
    using hp http_prefix_scheme by (simp add: normalize_jitsi_host_input_def Let_def)
  moreover have "\<not> is_telemost_capture_url parse url"
    using hp host telemost_not_video by (auto simp: is_telemost_capture_url_def Let_def)
  ultimately show "\<not> is_meeting_capture_url parse url" using host by (simp add: is_meeting_capture_url_def)
qed

text \<open>C34: A link has one destination, and the page says which. For every URL parser: with capturing
  enabled a link is sent to the capture service exactly when the field and the button call it a meeting;
  with capturing disabled never; the link of a video site is always an import; only a link that parses
  as http or https and is a meeting or a video is ever called one; a PIN is asked for exactly for the
  meetings that are captured and are not Telemost; and a link that can be submitted never reports an
  error when the field is left.\<close>

theorem link_has_one_destination:
  "(should_route_import_url_to_capture parse url True \<longleftrightarrow> ingest_link_field_mode parse url = LinkMeeting)
   \<and> \<not> should_route_import_url_to_capture parse url False
   \<and> (is_import_video_url parse url \<longleftrightarrow> ingest_link_field_mode parse url = LinkImport)
   \<and> (ingest_link_field_mode parse url \<noteq> LinkIdle \<longrightarrow> ingest_link_url_ready_for_submit parse url)
   \<and> (capture_meeting_needs_pin parse url en \<longleftrightarrow>
        en \<and> ingest_link_field_mode parse url = LinkMeeting \<and> \<not> is_telemost_capture_url parse url)
   \<and> (studio_link_submit_label parse url False en = ''ingest.linkSubmitMeeting''
        \<longleftrightarrow> should_route_import_url_to_capture parse url True)
   \<and> (ingest_link_url_ready_for_submit parse url \<longrightarrow> link_field_blur parse url s = (Inr (), s))"
proof -
  have empty: "trim url = [] \<Longrightarrow> \<not> is_meeting_capture_url parse url \<and> \<not> is_import_video_url parse url"
    by (simp add: is_meeting_capture_url_def is_telemost_capture_url_def meeting_room_path_def
        is_import_video_url_def http_prefix_def starts_with_def)
  then have mode: "ingest_link_field_mode parse url =
      (if is_meeting_capture_url parse url then LinkMeeting
       else if is_import_video_url parse url then LinkImport else LinkIdle)"
    by (auto simp: ingest_link_field_mode_def Let_def meeting_trim video_trim)
  have parsed: "is_meeting_capture_url parse url \<or> is_import_video_url parse url \<Longrightarrow>
      http_prefix (trim url) \<and> (\<exists>r. parse (trim url) = Some r)"
    by (auto simp: is_meeting_capture_url_def is_telemost_capture_url_def meeting_room_path_def
        is_import_video_url_def Let_def split: if_splits option.splits)
  have ready: "is_meeting_capture_url parse url \<or> is_import_video_url parse url \<Longrightarrow>
      ingest_link_url_ready_for_submit parse url"
    using parsed empty
    by (auto simp: ingest_link_url_ready_for_submit_def ingest_link_url_looks_invalid_def Let_def)
  have blur: "ingest_link_url_ready_for_submit parse url \<Longrightarrow> link_field_blur parse url s = (Inr (), s)"
    by (simp add: ingest_link_url_ready_for_submit_def link_field_blur_def Let_def run_simps invalid_trim)
  show ?thesis
    using video_not_meeting [of parse url] ready blur
    by (auto simp: mode capture_is_meeting capture_meeting_needs_pin_def studio_link_submit_label_def
        split: if_splits)
qed

definition one_room :: url_parser where
  "one_room url = (if url = ''https://meet.example.org/room'' then Some (''meet.example.org'', ''/room'') else None)"

theorem link_has_one_destination_witness:
  "ingest_link_url_ready_for_submit one_room '' https://meet.example.org/room ''
   \<and> link_field_blur one_room '' https://meet.example.org/room ''
       \<lparr>local_store = Map.empty, session_store = Map.empty, events = []\<rparr>
       = (Inr (), \<lparr>local_store = Map.empty, session_store = Map.empty, events = []\<rparr>)"
proof -
  have "ingest_link_url_ready_for_submit one_room '' https://meet.example.org/room ''" by code_simp
  then show ?thesis
    using link_has_one_destination [of one_room "'' https://meet.example.org/room ''" True
      "\<lparr>local_store = Map.empty, session_store = Map.empty, events = []\<rparr> :: browser"] by blast
qed

end
