(* ===== verification/Ingest.thy ===== *)
theory Ingest
  imports Pipeline Tags Capture_Host Routes Task_Stage
begin

text \<open>
  Bringing audio in: the ingest panel (\<open>components/IngestPanel.tsx\<close>) with its link, file and
  microphone parts, the upload of a recording (\<open>util/microphoneUpload.ts\<close>) from the panel and from
  the shell (\<open>components/GlobalMicRecordAccess.tsx\<close>), and the upload formats
  (\<open>uploadFormats.ts\<close>).

  \<open>srv\<close> answers the task requests and \<open>up\<close> the upload of the audio; \<open>prog\<close> lists the
  (loaded, total) pairs the browser reports while the upload runs.
\<close>

section \<open>Upload formats\<close>

definition upload_audio_suffixes :: "string list" where
  "upload_audio_suffixes = [''.wav'', ''.mp3'', ''.m4a'', ''.webm'', ''.ogg'', ''.flac'', ''.opus'']"

definition upload_video_suffixes :: "string list" where
  "upload_video_suffixes = [''.mp4'', ''.m4v'', ''.mov'', ''.mkv'', ''.webm'', ''.avi'', ''.3gp'']"

text \<open>\<open>name.slice (name.lastIndexOf ('.'))\<close>, or nothing without a dot.\<close>

definition last_suffix :: "string \<Rightarrow> string option" where
  "last_suffix name =
     (if CHR ''.'' \<notin> set name then None
      else Some (CHR ''.'' # rev (takeWhile (\<lambda>c. c \<noteq> CHR ''.'') (rev name))))"

definition is_video_upload_filename :: "string \<Rightarrow> bool" where
  "is_video_upload_filename name =
     (case last_suffix name of None \<Rightarrow> False | Some x \<Rightarrow> to_lower x \<in> set upload_video_suffixes)"

definition upload_file_accept :: string where
  "upload_file_accept =
     join '','' (upload_audio_suffixes
       @ [''audio/wav'', ''audio/mpeg'', ''audio/mp4'', ''audio/webm'', ''audio/ogg'', ''audio/opus'', ''audio/flac'']
       @ upload_video_suffixes
       @ [''video/mp4'', ''video/quicktime'', ''video/x-matroska'', ''video/webm'', ''video/x-msvideo'', ''video/3gpp''])"

section \<open>The panel\<close>

datatype upload_phase = Uploading | Processing

record upload_progress_view =
  up_name :: string
  up_percent :: int
  up_phase :: upload_phase
  up_video :: bool

record import_platforms =
  ip_enabled :: bool
  ip_labels :: "string list"
  ip_proxy_required :: bool
  ip_proxy_available :: bool

text \<open>A connector gives its label, or else its id, as \<open>String (c.label || c.id || '')\<close> does.\<close>

record capture_platforms =
  cp_enabled :: bool
  cp_connectors :: "(string option \<times> string option) list"

record ingest_panel = extra_tags +
  ig_busy :: bool
  ig_progress :: "upload_progress_view option"
  ig_url :: string
  ig_import_platforms :: "import_platforms option"
  ig_pin :: string
  ig_capture_platforms :: "capture_platforms option"
  ig_user_tags :: "user_tag list"
  ig_record_open :: bool

definition load_import_platforms :: "exn + import_platforms \<Rightarrow> ('z ingest_panel_scheme, unit) act" where
  "load_import_platforms r =
     tryA (bindA (api_call (\<lambda>_ _ _. r) ''GET'' ''/import/platforms'' None)
             (\<lambda>d. upd (ig_import_platforms_update (\<lambda>_. Some d))))
       show_error"

definition load_capture_platforms :: "exn + capture_platforms \<Rightarrow> ('z ingest_panel_scheme, unit) act" where
  "load_capture_platforms r =
     tryA (bindA (api_call (\<lambda>_ _ _. r) ''GET'' ''/capture/platforms'' None)
             (\<lambda>d. upd (ig_capture_platforms_update (\<lambda>_. Some d))))
       show_error"

definition load_panel_tags :: "exn + user_tag list option \<Rightarrow> ('z ingest_panel_scheme, unit) act" where
  "load_panel_tags r =
     tryA (bindA (api_call (\<lambda>_ _ _. r) ''GET'' ''/tags'' None)
             (\<lambda>d. upd (ig_user_tags_update (\<lambda>_. nullish d []))))
       show_error"

definition import_enabled :: "'z ingest_panel_scheme \<Rightarrow> bool" where
  "import_enabled s \<longleftrightarrow> map_option ip_enabled (ig_import_platforms s) = Some True"

definition capture_enabled :: "'z ingest_panel_scheme \<Rightarrow> bool" where
  "capture_enabled s \<longleftrightarrow> map_option cp_enabled (ig_capture_platforms s) = Some True"

definition ingest_enabled :: "'z ingest_panel_scheme \<Rightarrow> bool" where
  "ingest_enabled s \<longleftrightarrow> import_enabled s \<or> capture_enabled s"

definition ingest_to_capture :: "url_parser \<Rightarrow> 'z ingest_panel_scheme \<Rightarrow> bool" where
  "ingest_to_capture parse s \<longleftrightarrow>
     capture_enabled s \<and> 0 < length (trim (ig_url s))
     \<and> should_route_import_url_to_capture parse (trim (ig_url s)) True"

definition show_capture_pin :: "url_parser \<Rightarrow> 'z ingest_panel_scheme \<Rightarrow> bool" where
  "show_capture_pin parse s \<longleftrightarrow>
     capture_enabled s \<and> 0 < length (trim (ig_url s))
     \<and> capture_meeting_needs_pin parse (trim (ig_url s)) True"

definition proxy_blocked :: "'z ingest_panel_scheme \<Rightarrow> bool" where
  "proxy_blocked s \<longleftrightarrow>
     map_option ip_proxy_required (ig_import_platforms s) = Some True
     \<and> map_option ip_proxy_available (ig_import_platforms s) = Some False"

definition ingest_submit_disabled :: "url_parser \<Rightarrow> 'z ingest_panel_scheme \<Rightarrow> bool" where
  "ingest_submit_disabled parse s \<longleftrightarrow>
     ig_busy s \<or> \<not> ingest_link_url_ready_for_submit parse (trim (ig_url s))
     \<or> (\<not> ingest_to_capture parse s \<and> (\<not> import_enabled s \<or> proxy_blocked s))"

definition ingest_url_placeholder :: "'z ingest_panel_scheme \<Rightarrow> string" where
  "ingest_url_placeholder s =
     (if import_enabled s \<and> capture_enabled s then ''library.ingestUrlPlaceholder''
      else if capture_enabled s then ''library.capturePlaceholder'' else ''library.importPlaceholder'')"

definition ingest_submit_label :: "url_parser \<Rightarrow> 'z ingest_panel_scheme \<Rightarrow> string" where
  "ingest_submit_label parse s =
     (if ig_busy s
      then (if ingest_to_capture parse s then ''library.capturing'' else ''library.importing'')
      else (if ingest_to_capture parse s then ''library.captureSubmit'' else ''library.importSubmit''))"

text \<open>The lines of the hint: a translation key with the labels it joins.\<close>

definition ingest_url_hint :: "'z ingest_panel_scheme \<Rightarrow> (string \<times> string list) list" where
  "ingest_url_hint s =
     (case ig_import_platforms s of
        None \<Rightarrow> []
      | Some p \<Rightarrow>
          if import_enabled s \<and> \<not> proxy_blocked s \<and> ip_labels p \<noteq> []
          then [(''library.importHint'', ip_labels p)] else [])
     @ (case ig_capture_platforms s of
          None \<Rightarrow> []
        | Some p \<Rightarrow>
            (let labels = filter (\<lambda>x. x \<noteq> [])
                   (map (\<lambda>(label, i). trim (or_default label (str_or_empty i))) (cp_connectors p)) in
             if capture_enabled s \<and> labels \<noteq> [] then [(''ingest.linkHoverMeetings'', labels)] else []))"

section \<open>Links\<close>

definition begin_run :: "('z browser_scheme, ingest_pipeline) act" where
  "begin_run s = (case begin_pipeline_run None s of (p, s') \<Rightarrow> (Inr p, s'))"

definition open_task :: "ingest_pipeline \<Rightarrow> task \<Rightarrow> ('z browser_scheme, unit) act" where
  "open_task p t =
     bindA (getsA (pipeline_nav_state p (Some t)))
       (\<lambda>nav. navigate (''/app/task/'' @ task_id t) False (Some nav))"

definition submit_capture_url ::
  "(string \<Rightarrow> string \<Rightarrow> json option \<Rightarrow> exn + task) \<Rightarrow> me option \<Rightarrow> string \<Rightarrow> string
     \<Rightarrow> ('z ingest_panel_scheme, unit) act" where
  "submit_capture_url srv m url pin =
     (if trim url = [] then ret ()
      else thenA (upd (ig_busy_update (\<lambda>_. True)))
        (finallyA
          (tryA
            (bindA begin_run
              (\<lambda>p. bindA (getsA (\<lambda>s. capture_request (trim url) (trim pin) (Some p) m (ex_tags s SlotLink) s))
                (\<lambda>body. bindA (api_call srv ''POST'' ''/tasks/capture'' (Some body))
                  (\<lambda>t. thenA (upd (\<lambda>s. reset_extra_tags SlotLink (s\<lparr>ig_pin := [], ig_url := []\<rparr>)))
                    (open_task p t)))))
            show_error)
          (ig_busy_update (\<lambda>_. False))))"

fun api_code :: "exn \<Rightarrow> string option" where
  "api_code (ApiError c _ _) = Some c"
| "api_code (JsError _) = None"

definition import_from_url ::
  "url_parser \<Rightarrow> (string \<Rightarrow> string \<Rightarrow> json option \<Rightarrow> exn + task) \<Rightarrow> me option
     \<Rightarrow> ('z ingest_panel_scheme, unit) act" where
  "import_from_url parse srv m =
     bindA (getsA (\<lambda>s. (trim (ig_url s), capture_enabled s, ig_pin s)))
       (\<lambda>(url, en, pin).
         if url = [] then ret ()
         else if ingest_link_url_looks_invalid parse url then show_error (JsError ''ingest.linkUrlInvalid'')
         else if should_route_import_url_to_capture parse url en then submit_capture_url srv m url pin
         else thenA (upd (ig_busy_update (\<lambda>_. True)))
           (finallyA
             (tryA
               (bindA begin_run
                 (\<lambda>p. bindA (getsA (\<lambda>s. import_request url (Some p) m (ex_tags s SlotLink) s))
                   (\<lambda>body. bindA (api_call srv ''POST'' ''/tasks/import'' (Some body))
                     (\<lambda>t. thenA (upd (\<lambda>s. reset_extra_tags SlotLink (s\<lparr>ig_url := []\<rparr>)))
                       (open_task p t)))))
               (\<lambda>e. if en \<and> (api_code e = Some ''meeting_use_capture'' \<or> api_code e = Some ''unsupported_host'')
                       \<and> should_route_import_url_to_capture parse url True
                    then submit_capture_url srv m url pin
                    else show_error e))
             (ig_busy_update (\<lambda>_. False))))"

definition try_ingest_from_url ::
  "url_parser \<Rightarrow> (string \<Rightarrow> string \<Rightarrow> json option \<Rightarrow> exn + task) \<Rightarrow> me option
     \<Rightarrow> ('z ingest_panel_scheme, unit) act" where
  "try_ingest_from_url parse srv m =
     bindA (getsA (\<lambda>s. (trim (ig_url s), capture_enabled s, proxy_blocked s, import_enabled s)))
       (\<lambda>(url, en, blocked, imports).
         if url = [] then ret ()
         else if ingest_link_url_looks_invalid parse url then show_error (JsError ''ingest.linkUrlInvalid'')
         else if \<not> should_route_import_url_to_capture parse url en \<and> blocked
         then show_error (JsError ''library.proxyUnavailable'')
         else if \<not> should_route_import_url_to_capture parse url en \<and> \<not> imports then ret ()
         else import_from_url parse srv m)"

section \<open>Files and recordings\<close>

text \<open>The percentage is exact here; the browser rounds the quotient of two doubles.\<close>

definition upload_percent :: "nat \<times> nat \<Rightarrow> int" where
  "upload_percent p = (if snd p = 0 then 0 else js_round (of_nat (fst p) / of_nat (snd p) * 100))"

definition progress_view :: "string \<Rightarrow> bool \<Rightarrow> nat \<times> nat \<Rightarrow> upload_progress_view" where
  "progress_view name video p =
     \<lparr>up_name = name, up_percent = upload_percent p,
      up_phase = (if 100 \<le> upload_percent p then Processing else Uploading), up_video = video\<rparr>"

text \<open>\<open>apiUpload\<close>: the request is logged, the progress callback runs, the answer arrives.\<close>

definition upload_call ::
  "exn + audio \<Rightarrow> string \<Rightarrow> form_part list \<Rightarrow> (nat \<times> nat \<Rightarrow> 'z browser_scheme \<Rightarrow> 'z browser_scheme)
     \<Rightarrow> (nat \<times> nat) list \<Rightarrow> ('z browser_scheme, audio) act" where
  "upload_call up path form cb prog s = (up, fold cb prog (emit (EvUpload path form) s))"

definition start_transcription ::
  "(string \<Rightarrow> string \<Rightarrow> json option \<Rightarrow> exn + task) \<Rightarrow> me option \<Rightarrow> ingest_pipeline \<Rightarrow> string
     \<Rightarrow> ('z browser_scheme, task) act" where
  "start_transcription srv m p aid =
     bindA (getsA (transcribe_request aid (Some p) m))
       (\<lambda>body. api_call srv ''POST'' ''/tasks/transcribe'' (Some body))"

definition upload_file ::
  "exn + audio \<Rightarrow> (nat \<times> nat) list \<Rightarrow> (string \<Rightarrow> string \<Rightarrow> json option \<Rightarrow> exn + task) \<Rightarrow> me option
     \<Rightarrow> string \<Rightarrow> ('z ingest_panel_scheme, unit) act" where
  "upload_file up prog srv m name =
     bindA begin_run (\<lambda>p.
       (let video = is_video_upload_filename name;
            view = \<lparr>up_name = name, up_percent = 0, up_phase = Uploading, up_video = video\<rparr> in
        thenA (upd (\<lambda>s. s\<lparr>ig_busy := True, ig_progress := Some view\<rparr>))
          (finallyA
            (tryA
              (bindA (getsA (\<lambda>s. append_user_tags [FormFile ''file'' name] (ex_tags s SlotFile)))
                (\<lambda>form. bindA (upload_call up ''/audios'' form
                     (\<lambda>pr. ig_progress_update (\<lambda>_. Some (progress_view name video pr))) prog)
                  (\<lambda>item.
                    if pipeline_should_transcribe p
                    then bindA (start_transcription srv m p (audio_id item))
                           (\<lambda>t. thenA (upd (reset_extra_tags SlotFile)) (open_task p t))
                    else thenA (upd end_pipeline_run)
                           (thenA (upd (reset_extra_tags SlotFile))
                             (navigate (library_path ''audio'' None None) False None)))))
              show_error)
            (\<lambda>s. s\<lparr>ig_busy := False, ig_progress := None\<rparr>))))"

text \<open>\<open>uploadMicrophoneRecording\<close>; its \<open>afterUpload\<close> option is never passed.\<close>

definition upload_microphone_recording ::
  "exn + audio \<Rightarrow> (nat \<times> nat) list \<Rightarrow> (string \<Rightarrow> string \<Rightarrow> json option \<Rightarrow> exn + task) \<Rightarrow> me option
     \<Rightarrow> string \<Rightarrow> string list \<Rightarrow> (nat \<times> nat \<Rightarrow> 'z browser_scheme \<Rightarrow> 'z browser_scheme)
     \<Rightarrow> ('z browser_scheme \<Rightarrow> 'z browser_scheme) \<Rightarrow> ('z browser_scheme, audio) act" where
  "upload_microphone_recording up prog srv m name tags cb clear =
     bindA begin_run (\<lambda>p.
       bindA (upload_call up ''/audios''
           (append_user_tags [FormFile ''file'' name, FormField ''from_microphone'' ''true''] tags) cb prog)
         (\<lambda>item.
           if pipeline_should_transcribe p
           then bindA (start_transcription srv m p (audio_id item))
                  (\<lambda>t. thenA (upd clear) (thenA (open_task p t) (ret item)))
           else thenA (upd end_pipeline_run)
                  (thenA (upd clear)
                    (thenA (navigate (library_path ''audio'' None None) False None) (ret item)))))"

definition voidA :: "('s, 'a) act \<Rightarrow> ('s, unit) act" where
  "voidA a = bindA a (\<lambda>_. ret ())"

definition panel_save_recording ::
  "exn + audio \<Rightarrow> (nat \<times> nat) list \<Rightarrow> (string \<Rightarrow> string \<Rightarrow> json option \<Rightarrow> exn + task) \<Rightarrow> me option
     \<Rightarrow> string \<Rightarrow> ('z ingest_panel_scheme, unit) act" where
  "panel_save_recording up prog srv m name =
     thenA (upd (\<lambda>s. s\<lparr>ig_record_open := False, ig_busy := True,
                  ig_progress := Some \<lparr>up_name = name, up_percent = 0, up_phase = Uploading, up_video = True\<rparr>\<rparr>))
       (finallyA
         (tryA
           (bindA (getsA (\<lambda>s. ex_tags s SlotMic))
             (\<lambda>tags. voidA (upload_microphone_recording up prog srv m name tags
                (\<lambda>pr. ig_progress_update (\<lambda>_. Some (progress_view name True pr)))
                (reset_extra_tags SlotMic))))
           show_error)
         (\<lambda>s. s\<lparr>ig_busy := False, ig_progress := None\<rparr>))"

record mic_access = browser +
  ma_open :: bool
  ma_busy :: bool

definition shows_mic_button :: "me option \<Rightarrow> bool" where
  "shows_mic_button m = (case m of None \<Rightarrow> False | Some x \<Rightarrow> me_has_org m \<and> user_shell_show_mic (me_user x))"

text \<open>The shell has no state of the extra tags: it reads and clears the stored list.\<close>

definition shell_save_recording ::
  "exn + audio \<Rightarrow> (nat \<times> nat) list \<Rightarrow> (string \<Rightarrow> string \<Rightarrow> json option \<Rightarrow> exn + task) \<Rightarrow> me option
     \<Rightarrow> string \<Rightarrow> ('z mic_access_scheme, unit) act" where
  "shell_save_recording up prog srv m name =
     thenA (upd (\<lambda>s. s\<lparr>ma_open := False, ma_busy := True\<rparr>))
       (finallyA
         (tryA
           (bindA (\<lambda>s. case load_ingest_extra_tags SlotMic s of (tags, s') \<Rightarrow> (Inr tags, s'))
             (\<lambda>tags. voidA (upload_microphone_recording up prog srv m name tags
                (\<lambda>pr. id) (save_ingest_extra_tags SlotMic []))))
           show_error)
         (ma_busy_update (\<lambda>_. False)))"

section \<open>Runs of the handlers\<close>

definition run_pipeline :: "'z browser_scheme \<Rightarrow> ingest_pipeline" where
  "run_pipeline s = normalize_pipeline (load_pipeline s)"

lemma begin_run_run [run_simps]:
  "begin_run s = (Inr (run_pipeline s), session_set run_key (json_stringify (pipeline_json (run_pipeline s))) s)"
  by (simp add: begin_run_def begin_pipeline_run_def run_pipeline_def Let_def)

lemma nav_of_run:
  "session_get s' run_key = Some (json_stringify (pipeline_json (run_pipeline s)))
     \<Longrightarrow> pipeline_nav_state (run_pipeline s) x s' = \<lparr>ns_pipeline = run_pipeline s, ns_task = x\<rparr>"
proof -
  assume "session_get s' run_key = Some (json_stringify (pipeline_json (run_pipeline s)))"
  then have "load_pipeline_run s'
      = load_pipeline_run (session_set run_key (json_stringify (pipeline_json (run_pipeline s))) s)"
    by (simp add: load_pipeline_run_def ss.get_set_same)
  also have "\<dots> = Some (run_pipeline s)"
    by (rule run_of_wf) (simp add: run_pipeline_def normalize_wf)
  finally show ?thesis by (simp add: pipeline_nav_state_def)
qed

text \<open>What a request that creates a task does next: open its page, or report the error.\<close>

fun after_task :: "ingest_pipeline \<Rightarrow> exn + task \<Rightarrow> event" where
  "after_task p (Inl e) = EvToast e None"
| "after_task p (Inr t) =
     EvNavigate (''/app/task/'' @ task_id t) False (Some \<lparr>ns_pipeline = p, ns_task = Some t\<rparr>)"

lemma ingest_frames [simp]:
  "events (reset_extra_tags slot s) = events s" "session_get (reset_extra_tags slot s) k = session_get s k"
  "ex_tags (reset_extra_tags slot s) = (ex_tags s)(slot := [])"
  "ig_url (reset_extra_tags slot t) = ig_url t" "ig_pin (reset_extra_tags slot t) = ig_pin t"
  "ig_busy (reset_extra_tags slot t) = ig_busy t"
  by (simp_all add: reset_extra_tags_def set_extra_tags_def save_ingest_extra_tags_def local_set_def
      session_get_def)

lemma session_set_frames [simp]:
  "ex_tags (session_set k v s) = ex_tags s" "ig_busy (session_set k v t) = ig_busy t"
  "ig_url (session_set k v t) = ig_url t" "ig_pin (session_set k v t) = ig_pin t"
  by (simp_all add: session_set_def)

lemma emit_ingest [simp]:
  "ex_tags (emit e s) = ex_tags s" "ig_busy (emit e t) = ig_busy t" "ig_url (emit e t) = ig_url t"
  "ig_pin (emit e t) = ig_pin t"
  by (simp_all add: emit_def)

lemma session_get_upd [simp]:
  "session_get (s\<lparr>ig_busy := b\<rparr>) k = session_get s k" "session_get (s\<lparr>ig_url := u\<rparr>) k = session_get s k"
  "session_get (s\<lparr>ig_pin := u\<rparr>) k = session_get s k" "session_get (s\<lparr>ig_progress := q\<rparr>) k = session_get s k"
  by (simp_all add: session_get_def)

lemma run_pipeline_frames [simp]:
  "run_pipeline (s\<lparr>ig_busy := b\<rparr>) = run_pipeline s"
  by (simp add: run_pipeline_def load_pipeline_def local_get_def)

lemma capture_request_run: "capture_request u pin (Some p) m tags s = capture_request u pin (Some p) m tags s'"
  by (simp add: capture_request_def)

lemma import_request_run: "import_request u (Some p) m tags s = import_request u (Some p) m tags s'"
  by (simp add: import_request_def)

lemma transcribe_request_run: "transcribe_request aid (Some p) m s = transcribe_request aid (Some p) m s'"
  by (simp add: transcribe_request_def)

text \<open>The bodies the panel sends for its link, with the run that starts now.\<close>

definition capture_body :: "me option \<Rightarrow> string \<Rightarrow> string \<Rightarrow> 'z ingest_panel_scheme \<Rightarrow> json" where
  "capture_body m url pin s =
     capture_request (trim url) (trim pin) (Some (run_pipeline s)) m (ex_tags s SlotLink) s"

definition import_body :: "me option \<Rightarrow> string \<Rightarrow> 'z ingest_panel_scheme \<Rightarrow> json" where
  "import_body m url s = import_request url (Some (run_pipeline s)) m (ex_tags s SlotLink) s"

text \<open>What one link request leaves: the request and what follows it in the log, the panel free, and
  the link field and its tags cleared on success only.\<close>

definition link_settled ::
  "'z ingest_panel_scheme \<Rightarrow> string \<Rightarrow> json \<Rightarrow> exn + task \<Rightarrow> (exn + unit) \<times> 'z ingest_panel_scheme \<Rightarrow> bool" where
  "link_settled s path body r out \<longleftrightarrow>
     fst out = Inr ()
     \<and> events (snd out) = events s @ [EvRequest ''POST'' path (Some body), after_task (run_pipeline s) r]
     \<and> \<not> ig_busy (snd out)
     \<and> ig_url (snd out) = (if isl r then ig_url s else [])
     \<and> ex_tags (snd out) SlotLink = (if isl r then ex_tags s SlotLink else [])"

lemma submit_capture_run:
  assumes "trim url \<noteq> []"
  shows "link_settled s ''/tasks/capture'' (capture_body m url pin s)
      (srv ''POST'' ''/tasks/capture'' (Some (capture_body m url pin s))) (submit_capture_url srv m url pin s)"
proof -
  have body: "capture_request (trim url) (trim pin) (Some (run_pipeline s)) m (ex_tags s SlotLink) s'
      = capture_body m url pin s" for s' :: "'a ingest_panel_scheme"
    unfolding capture_body_def by (rule capture_request_run)
  show ?thesis
    using assms
    by (cases "srv ''POST'' ''/tasks/capture'' (Some (capture_body m url pin s))")
       (simp_all add: submit_capture_url_def run_simps body show_error_def open_task_def navigate_def
         nav_of_run ss.get_set_same link_settled_def)
qed

lemma import_run:
  assumes "trim (ig_url s) \<noteq> []" and "\<not> ingest_link_url_looks_invalid parse (trim (ig_url s))"
    and "\<not> should_route_import_url_to_capture parse (trim (ig_url s)) (capture_enabled s)"
  shows "link_settled s ''/tasks/import'' (import_body m (trim (ig_url s)) s)
      (srv ''POST'' ''/tasks/import'' (Some (import_body m (trim (ig_url s)) s))) (import_from_url parse srv m s)"
proof -
  have body: "import_request (trim (ig_url s)) (Some (run_pipeline s)) m (ex_tags s SlotLink) s'
      = import_body m (trim (ig_url s)) s" for s' :: "'a ingest_panel_scheme"
    unfolding import_body_def by (rule import_request_run)
  have no_capture: "capture_enabled s \<Longrightarrow> \<not> should_route_import_url_to_capture parse (trim (ig_url s)) True"
    using assms(3) by simp
  show ?thesis
    using assms no_capture
    by (cases "srv ''POST'' ''/tasks/import'' (Some (import_body m (trim (ig_url s)) s))";
        cases "capture_enabled s")
       (simp_all add: import_from_url_def run_simps body show_error_def open_task_def navigate_def
         nav_of_run ss.get_set_same link_settled_def)
qed

lemma stored_empty: "json_stringify (str_array []) = ''[]''"
  by code_simp

text \<open>Which handler parts touch the local storage.\<close>

lemma store_frames:
  "local_store (emit e s) = local_store s" "local_store (session_set k v s) = local_store s"
  "local_store (end_pipeline_run s) = local_store s"
  "local_store (save_ingest_extra_tags slot [] s) = (local_store s)(tags_key slot \<mapsto> ''[]'')"
  "local_store (reset_extra_tags slot t) = (local_store t)(tags_key slot \<mapsto> ''[]'')"
  by (simp_all add: emit_def session_set_def end_pipeline_run_def session_remove_def save_ingest_extra_tags_def
      reset_extra_tags_def set_extra_tags_def local_set_def stored_empty)

lemma field_mode_meeting:
  "ingest_link_field_mode parse url = LinkMeeting \<longleftrightarrow> should_route_import_url_to_capture parse url True"
proof -
  have "trim url = [] \<Longrightarrow> \<not> is_meeting_capture_url parse url"
    by (simp add: is_meeting_capture_url_def is_telemost_capture_url_def meeting_room_path_def
        is_import_video_url_def http_prefix_def starts_with_def)
  then show ?thesis by (auto simp: ingest_link_field_mode_def Let_def meeting_trim capture_is_meeting)
qed

lemma studio_label_meeting:
  "studio_link_submit_label parse url False b = ''ingest.linkSubmitMeeting'' \<longleftrightarrow> ingest_link_field_mode parse url = LinkMeeting"
  by (cases "ingest_link_field_mode parse url") (simp_all add: studio_link_submit_label_def)

text \<open>C35: What the link button does. On an idle panel, whatever the URL parser says and the server answers: pressing it (or Enter)
  sends one POST exactly when the button is enabled, with the trimmed link, the tags and the run that starts; nothing else is ever
  sent (in particular no second request after an import that the server refuses as a meeting); the link and its tags are cleared
  on success only. The link goes to the capture service exactly when capturing is enabled and the field shows it as a
  meeting, and else to the import service; the label of the plain layout says which. The label of the studio layout
  looks at the link alone: it offers to join a meeting also when capturing is off and the link goes to the import
  service. On a disabled button no request goes out and no field changes.\<close>

theorem link_button_tells_the_truth:
  assumes "\<not> ig_busy s"
  shows "(ingest_to_capture parse s \<longleftrightarrow>
            capture_enabled s \<and> ingest_link_field_mode parse (trim (ig_url s)) = LinkMeeting)
    \<and> ingest_submit_label parse s = (if ingest_to_capture parse s then ''library.captureSubmit'' else ''library.importSubmit'')
    \<and> (studio_link_submit_label parse (trim (ig_url s)) (ig_busy s) (ingest_to_capture parse s) = ''ingest.linkSubmitMeeting''
         \<longleftrightarrow> ingest_link_field_mode parse (trim (ig_url s)) = LinkMeeting)
    \<and> (if ingest_submit_disabled parse s
       then fst (try_ingest_from_url parse srv m s) = Inr ()
         \<and> (\<exists>ts. snd (try_ingest_from_url parse srv m s) = s\<lparr>events := events s @ ts\<rparr>
              \<and> list_all (\<lambda>e. e \<in> {EvToast (JsError ''ingest.linkUrlInvalid'') None,
                                   EvToast (JsError ''library.proxyUnavailable'') None}) ts)
       else if ingest_to_capture parse s
       then link_settled s ''/tasks/capture'' (capture_body m (trim (ig_url s)) (ig_pin s) s)
           (srv ''POST'' ''/tasks/capture'' (Some (capture_body m (trim (ig_url s)) (ig_pin s) s)))
           (try_ingest_from_url parse srv m s)
       else link_settled s ''/tasks/import'' (import_body m (trim (ig_url s)) s)
           (srv ''POST'' ''/tasks/import'' (Some (import_body m (trim (ig_url s)) s)))
           (try_ingest_from_url parse srv m s))" (is "_ \<and> _ \<and> _ \<and> ?acts")
proof -
  let ?u = "trim (ig_url s)"
  have ready: "ingest_link_url_ready_for_submit parse ?u \<longleftrightarrow> ?u \<noteq> [] \<and> \<not> ingest_link_url_looks_invalid parse ?u"
    by (simp add: ingest_link_url_ready_for_submit_def Let_def)
  have cap: "should_route_import_url_to_capture parse ?u (capture_enabled s) \<longleftrightarrow>
      capture_enabled s \<and> should_route_import_url_to_capture parse ?u True"
    by (simp add: should_route_import_url_to_capture_def)
  have mode: "ingest_to_capture parse s \<longleftrightarrow> capture_enabled s \<and> ingest_link_field_mode parse ?u = LinkMeeting"
    by (auto simp: ingest_to_capture_def field_mode_meeting [symmetric] ingest_link_field_mode_def)
  have label: "ingest_submit_label parse s = (if ingest_to_capture parse s then ''library.captureSubmit'' else ''library.importSubmit'')"
    using assms by (simp add: ingest_submit_label_def)
  have studio: "studio_link_submit_label parse ?u (ig_busy s) (ingest_to_capture parse s) = ''ingest.linkSubmitMeeting''
      \<longleftrightarrow> ingest_link_field_mode parse ?u = LinkMeeting"
    using assms studio_label_meeting by simp
  have "?acts"
  proof (cases "ingest_submit_disabled parse s")
    case True
    then show ?thesis
      using assms
      by (auto simp: ingest_submit_disabled_def ready cap ingest_to_capture_def try_ingest_from_url_def
          run_simps show_error_def emit_def intro: exI [where x = "[]"])
  next
    case False
    then have u: "?u \<noteq> []" "\<not> ingest_link_url_looks_invalid parse ?u"
      by (auto simp: ingest_submit_disabled_def ready)
    show ?thesis
    proof (cases "ingest_to_capture parse s")
      case True
      then have "should_route_import_url_to_capture parse ?u (capture_enabled s)"
        by (simp add: cap ingest_to_capture_def)
      then have "try_ingest_from_url parse srv m s = submit_capture_url srv m ?u (ig_pin s) s"
        using u by (simp add: try_ingest_from_url_def import_from_url_def run_simps)
      then show ?thesis using False True u submit_capture_run [of ?u s m "ig_pin s" srv] by simp
    next
      case other: False
      then have r: "\<not> should_route_import_url_to_capture parse ?u (capture_enabled s)"
        using u by (simp add: cap ingest_to_capture_def)
      have "\<not> proxy_blocked s" "import_enabled s"
        using False other by (auto simp: ingest_submit_disabled_def)
      then have "try_ingest_from_url parse srv m s = import_from_url parse srv m s"
        using u r by (simp add: try_ingest_from_url_def run_simps)
      then show ?thesis using False other import_run [OF u r, of m srv] by simp
    qed
  qed
  then show ?thesis using mode label studio by blast
qed

definition blank_panel :: ingest_panel where
  "blank_panel =
     \<lparr>local_store = Map.empty, session_store = Map.empty, events = [], ex_tags = (\<lambda>_. []), ig_busy = False,
      ig_progress = None, ig_url = [], ig_import_platforms = None, ig_pin = [],
      ig_capture_platforms = None, ig_user_tags = [], ig_record_open = False\<rparr>"

definition meeting_panel :: ingest_panel where
  "meeting_panel =
     blank_panel\<lparr>ig_url := ''https://meet.example.org/room'',
       ig_capture_platforms := Some \<lparr>cp_enabled = True, cp_connectors = []\<rparr>\<rparr>"

theorem link_button_tells_the_truth_witness:
  "link_settled meeting_panel ''/tasks/capture'' (capture_body None ''https://meet.example.org/room'' [] meeting_panel)
     (Inl (JsError ''x'')) (try_ingest_from_url one_room (\<lambda>_ _ _. Inl (JsError ''x'')) None meeting_panel)"
proof -
  have "\<not> ig_busy meeting_panel" "\<not> ingest_submit_disabled one_room meeting_panel"
    "ingest_to_capture one_room meeting_panel" "trim (ig_url meeting_panel) = ''https://meet.example.org/room''"
    "ig_pin meeting_panel = []"
    by code_simp+
  then show ?thesis
    using link_button_tells_the_truth [of meeting_panel one_room "\<lambda>_ _ _. Inl (JsError ''x'')" None]
    by (simp only: if_True if_False simp_thms)
qed

section \<open>The three uploads\<close>

lemma fold_progress:
  "fold (\<lambda>pr. ig_progress_update (\<lambda>_. Some (f pr))) prog s
     = s\<lparr>ig_progress := (if prog = [] then ig_progress s else Some (f (last prog)))\<rparr>"
  by (induction prog arbitrary: s) simp_all

lemma fold_ignored: "fold (\<lambda>_. id) prog s = s"
  by (induction prog) simp_all

lemma upload_call_progress [run_simps]:
  "upload_call up path form (\<lambda>pr. ig_progress_update (\<lambda>_. Some (f pr))) prog s
     = (up, (emit (EvUpload path form) s)\<lparr>ig_progress :=
              (if prog = [] then ig_progress s else Some (f (last prog)))\<rparr>)"
  by (simp add: upload_call_def fold_progress) (simp add: emit_def)

lemma upload_call_ignored [run_simps]:
  "upload_call up path form (\<lambda>_. id) prog s = (up, emit (EvUpload path form) s)"
  by (simp add: upload_call_def fold_ignored)

lemma progress_frames [simp]:
  "events (s\<lparr>ig_progress := q\<rparr>) = events s" "ex_tags (s\<lparr>ig_progress := q\<rparr>) = ex_tags s"
  "session_get (s\<lparr>ig_record_open := b\<rparr>) k = session_get s k"
  "session_get (w\<lparr>ma_busy := b\<rparr>) k = session_get w k" "session_get (w\<lparr>ma_open := b\<rparr>) k = session_get w k"
  "session_get (end_pipeline_run v) k = (if k = run_key then None else session_get v k)"
  "events (end_pipeline_run v) = events v" "ex_tags (end_pipeline_run s) = ex_tags s"
  by (simp_all add: session_get_def end_pipeline_run_def session_remove_def)

lemma run_pipeline_more_frames [simp]:
  "run_pipeline (s\<lparr>ig_progress := q\<rparr>) = run_pipeline s" "run_pipeline (s\<lparr>ig_record_open := b\<rparr>) = run_pipeline s"
  "run_pipeline (w\<lparr>ma_busy := b\<rparr>) = run_pipeline w" "run_pipeline (w\<lparr>ma_open := b\<rparr>) = run_pipeline w"
  by (simp_all add: run_pipeline_def load_pipeline_def local_get_def)

text \<open>
  The log of an upload under the run \<open>p\<close>: the multipart request, then the transcription when the
  run asks for one, then the page that opens or the error.
\<close>

definition transcription :: "(string \<Rightarrow> string \<Rightarrow> json option \<Rightarrow> exn + task) \<Rightarrow> json \<Rightarrow> exn + task" where
  "transcription srv body = srv ''POST'' ''/tasks/transcribe'' (Some body)"

definition upload_log ::
  "(string \<Rightarrow> string \<Rightarrow> json option \<Rightarrow> exn + task) \<Rightarrow> ingest_pipeline \<Rightarrow> (audio \<Rightarrow> json)
     \<Rightarrow> form_part list \<Rightarrow> exn + audio \<Rightarrow> event list" where
  "upload_log srv p body form up =
     EvUpload ''/audios'' form #
     (case up of
        Inl e \<Rightarrow> [EvToast e None]
      | Inr item \<Rightarrow>
          if pl_transcribe p
          then [EvRequest ''POST'' ''/tasks/transcribe'' (Some (body item)),
                after_task p (transcription srv (body item))]
          else [EvNavigate (library_path ''audio'' None None) False None])"

definition upload_succeeds ::
  "(string \<Rightarrow> string \<Rightarrow> json option \<Rightarrow> exn + task) \<Rightarrow> ingest_pipeline \<Rightarrow> (audio \<Rightarrow> json) \<Rightarrow> exn + audio \<Rightarrow> bool" where
  "upload_succeeds srv p body up =
     (case up of Inl _ \<Rightarrow> False | Inr item \<Rightarrow> pl_transcribe p \<longrightarrow> \<not> isl (transcription srv (body item)))"

definition run_body :: "me option \<Rightarrow> 'z browser_scheme \<Rightarrow> audio \<Rightarrow> json" where
  "run_body m s item = transcribe_request (audio_id item) (Some (run_pipeline s)) m s"

lemma run_body_any:
  "transcribe_request (audio_id item) (Some (run_pipeline s)) m s' = run_body m s item"
  unfolding run_body_def by (rule transcribe_request_run)

lemmas upload_run_simps = run_simps pipeline_should_transcribe_def start_transcription_def run_body_any
  show_error_def open_task_def navigate_def nav_of_run ss.get_set_same upload_log_def upload_succeeds_def
  transcription_def append_user_tags_def voidA_def

lemma upload_file_run:
  "fst (upload_file up prog srv m name s) = Inr ()
   \<and> events (snd (upload_file up prog srv m name s))
       = events s @ upload_log srv (run_pipeline s) (run_body m s)
           (FormFile ''file'' name # map (FormField ''user_tags'') (ex_tags s SlotFile)) up
   \<and> \<not> ig_busy (snd (upload_file up prog srv m name s)) \<and> ig_progress (snd (upload_file up prog srv m name s)) = None
   \<and> ex_tags (snd (upload_file up prog srv m name s))
       = (if upload_succeeds srv (run_pipeline s) (run_body m s) up then (ex_tags s)(SlotFile := []) else ex_tags s)
   \<and> local_store (snd (upload_file up prog srv m name s))
       = (if upload_succeeds srv (run_pipeline s) (run_body m s) up then (local_store s)(tags_key SlotFile \<mapsto> ''[]'') else local_store s)"
proof (cases up)
  case (Inl e)
  then show ?thesis by (simp add: upload_file_def Let_def upload_run_simps store_frames)
next
  case (Inr item)
  show ?thesis
    by (cases "pl_transcribe (run_pipeline s)"; cases "srv ''POST'' ''/tasks/transcribe'' (Some (run_body m s item))")
       (simp_all add: Inr upload_file_def Let_def upload_run_simps store_frames)
qed

lemma panel_recording_run:
  "fst (panel_save_recording up prog srv m name s) = Inr ()
   \<and> events (snd (panel_save_recording up prog srv m name s))
       = events s @ upload_log srv (run_pipeline s) (run_body m s)
           (FormFile ''file'' name # FormField ''from_microphone'' ''true''
             # map (FormField ''user_tags'') (ex_tags s SlotMic)) up
   \<and> \<not> ig_busy (snd (panel_save_recording up prog srv m name s))
   \<and> ig_progress (snd (panel_save_recording up prog srv m name s)) = None
   \<and> ex_tags (snd (panel_save_recording up prog srv m name s))
       = (if upload_succeeds srv (run_pipeline s) (run_body m s) up then (ex_tags s)(SlotMic := []) else ex_tags s)
   \<and> local_store (snd (panel_save_recording up prog srv m name s))
       = (if upload_succeeds srv (run_pipeline s) (run_body m s) up then (local_store s)(tags_key SlotMic \<mapsto> ''[]'') else local_store s)"
proof (cases up)
  case (Inl e)
  then show ?thesis by (simp add: panel_save_recording_def upload_microphone_recording_def upload_run_simps store_frames)
next
  case (Inr item)
  show ?thesis
    by (cases "pl_transcribe (run_pipeline s)"; cases "srv ''POST'' ''/tasks/transcribe'' (Some (run_body m s item))")
       (simp_all add: Inr panel_save_recording_def upload_microphone_recording_def upload_run_simps store_frames)
qed

lemma load_mic_tags: "load_ingest_extra_tags SlotMic s = (parse_stored_tag_names (local_get s (tags_key SlotMic)), s)"
  by (simp add: load_ingest_extra_tags_def)

lemma save_tags_frames [simp]:
  "events (save_ingest_extra_tags slot names s) = events s"
  "session_get (save_ingest_extra_tags slot names s) k = session_get s k"
  "ma_busy (save_ingest_extra_tags slot names w) = ma_busy w"
  by (simp_all add: save_ingest_extra_tags_def local_set_def session_get_def)

lemma shell_recording_run:
  "fst (shell_save_recording up prog srv m name s) = Inr ()
   \<and> events (snd (shell_save_recording up prog srv m name s))
       = events s @ upload_log srv (run_pipeline s) (run_body m s)
           (FormFile ''file'' name # FormField ''from_microphone'' ''true''
             # map (FormField ''user_tags'') (fst (load_ingest_extra_tags SlotMic s))) up
   \<and> \<not> ma_busy (snd (shell_save_recording up prog srv m name s))
   \<and> local_store (snd (shell_save_recording up prog srv m name s))
       = (if upload_succeeds srv (run_pipeline s) (run_body m s) up then (local_store s)(tags_key SlotMic \<mapsto> ''[]'') else local_store s)"
proof (cases up)
  case (Inl e)
  then show ?thesis
    by (simp add: shell_save_recording_def upload_microphone_recording_def upload_run_simps store_frames load_mic_tags local_get_def)
next
  case (Inr item)
  show ?thesis
    by (cases "pl_transcribe (run_pipeline s)"; cases "srv ''POST'' ''/tasks/transcribe'' (Some (run_body m s item))")
       (simp_all add: Inr shell_save_recording_def upload_microphone_recording_def upload_run_simps store_frames load_mic_tags local_get_def)
qed

text \<open>C36: The three ways to upload audio do the same. A chosen file, a recording from the panel and a
  recording from the shell each send one multipart request with the file, the microphone mark for
  recordings only, and the extra tags of their own slot; a transcription of the new item follows exactly
  when the run asks for one, with the body of that run; then its task page opens, or the audio library,
  or the error is shown. Whatever the server answers and the browser reports meanwhile, the panel and the
  shell end idle without a progress bar. When all of it succeeds the tags of the slot are cleared, in the panel and in the
  local storage, and nothing else there; after a failure of the upload or of the transcription the shown and the stored tags are all as
  before, for the next try.\<close>

theorem uploads_do_the_same:
  "events (snd (upload_file up prog srv m name s))
       = events s @ upload_log srv (run_pipeline s) (run_body m s)
           (FormFile ''file'' name # map (FormField ''user_tags'') (ex_tags s SlotFile)) up
   \<and> events (snd (panel_save_recording up prog srv m name s))
       = events s @ upload_log srv (run_pipeline s) (run_body m s)
           (FormFile ''file'' name # FormField ''from_microphone'' ''true''
             # map (FormField ''user_tags'') (ex_tags s SlotMic)) up
   \<and> events (snd (shell_save_recording up prog srv m name w))
       = events w @ upload_log srv (run_pipeline w) (run_body m w)
           (FormFile ''file'' name # FormField ''from_microphone'' ''true''
             # map (FormField ''user_tags'') (fst (load_ingest_extra_tags SlotMic w))) up
   \<and> \<not> ig_busy (snd (upload_file up prog srv m name s)) \<and> ig_progress (snd (upload_file up prog srv m name s)) = None
   \<and> \<not> ig_busy (snd (panel_save_recording up prog srv m name s))
   \<and> ig_progress (snd (panel_save_recording up prog srv m name s)) = None
   \<and> \<not> ma_busy (snd (shell_save_recording up prog srv m name w))
   \<and> ex_tags (snd (upload_file up prog srv m name s))
       = (if upload_succeeds srv (run_pipeline s) (run_body m s) up then (ex_tags s)(SlotFile := []) else ex_tags s)
   \<and> local_store (snd (upload_file up prog srv m name s))
       = (if upload_succeeds srv (run_pipeline s) (run_body m s) up
          then (local_store s)(tags_key SlotFile \<mapsto> ''[]'') else local_store s)
   \<and> ex_tags (snd (panel_save_recording up prog srv m name s))
       = (if upload_succeeds srv (run_pipeline s) (run_body m s) up then (ex_tags s)(SlotMic := []) else ex_tags s)
   \<and> local_store (snd (panel_save_recording up prog srv m name s))
       = (if upload_succeeds srv (run_pipeline s) (run_body m s) up
          then (local_store s)(tags_key SlotMic \<mapsto> ''[]'') else local_store s)
   \<and> local_store (snd (shell_save_recording up prog srv m name w))
       = (if upload_succeeds srv (run_pipeline w) (run_body m w) up
          then (local_store w)(tags_key SlotMic \<mapsto> ''[]'') else local_store w)"
  using upload_file_run [of up prog srv m name s] panel_recording_run [of up prog srv m name s]
    shell_recording_run [of up prog srv m name w]
  by iprover

lemma last_suffix_append:
  "CHR ''.'' \<notin> set x \<Longrightarrow> last_suffix (name @ CHR ''.'' # x) = Some (CHR ''.'' # x)"
proof -
  assume x: "CHR ''.'' \<notin> set x"
  then have "takeWhile (\<lambda>c. c \<noteq> CHR ''.'') (rev x @ CHR ''.'' # rev name) = rev x"
    by (subst takeWhile_append2) auto
  then show "last_suffix (name @ CHR ''.'' # x) = Some (CHR ''.'' # x)"
    by (simp add: last_suffix_def)
qed

lemma video_suffix_known:
  "is_video_upload_filename (name @ suf)" if "suf \<in> set upload_video_suffixes"
proof -
  have "list_all (\<lambda>x. hd x = CHR ''.'' \<and> CHR ''.'' \<notin> set (tl x) \<and> x \<noteq> [] \<and> to_lower x = x) upload_video_suffixes"
    by code_simp
  then have "hd suf = CHR ''.''" "CHR ''.'' \<notin> set (tl suf)" "suf \<noteq> []" "to_lower suf = suf"
    using that by (simp_all add: list_all_iff)
  then show ?thesis
    using that last_suffix_append [of "tl suf" name] by (cases suf) (simp_all add: is_video_upload_filename_def)
qed

end
