(* ===== verification/Mic_Record.thy ===== *)
theory Mic_Record
  imports Hub_Effects
begin

text \<open>
  The recording dialog (\<open>components/MicrophoneRecordModal.tsx\<close>, \<open>util/microphoneRecord.ts\<close>).

  Its handlers wait for the browser three times: for a recorder to stop, for the user to grant the
  microphone, and for the list of devices. Between these points anything else may happen, so the
  dialog is a step relation: \<open>mm_pending\<close> holds the rest of every handler that waits, and a step
  either is a click, or something the recorder does, or lets one waiting handler go on.

  The browser's part is modelled as the Media Capture and MediaStream Recording documents describe it:
  a stream is live from the moment it is granted until its tracks are stopped; a recorder keeps the
  bytes heard since its last slice and hands them over with every slice, and once more when it stops.
\<close>

section \<open>File names and formats\<close>

definition min_recording_upload_bytes :: nat where
  "min_recording_upload_bytes = 512"

text \<open>\<open>mime.split (';', 1)[0].trim ()\<close>.\<close>

definition mime_base :: "string \<Rightarrow> string" where
  "mime_base mime = trim (hd (split_on (CHR '';'') mime))"

definition recording_extension_for_mime :: "string \<Rightarrow> string" where
  "recording_extension_for_mime mime =
     (let base = to_lower (mime_base mime) in
      if base = ''audio/mp4'' \<or> base = ''audio/x-m4a'' then ''.m4a'' else ''.webm'')"

text \<open>The local time of the click: year, month (from 1), day, hours, minutes, seconds.\<close>

type_synonym clock = "nat \<times> nat \<times> nat \<times> nat \<times> nat \<times> nat"

definition recording_filename_for_mime :: "clock \<Rightarrow> string \<Rightarrow> string" where
  "recording_filename_for_mime d mime =
     (case d of (y, mo, dd, h, mi, sec) \<Rightarrow>
        ''recording-'' @ nat_str y @ ''-'' @ pad2 (nat_str mo) @ ''-'' @ pad2 (nat_str dd) @ ''-''
        @ pad2 (nat_str h) @ pad2 (nat_str mi) @ pad2 (nat_str sec) @ recording_extension_for_mime mime)"

record recording_file =
  rf_bytes :: string
  rf_name :: string
  rf_type :: string

definition media_blob_to_recording_file :: "clock \<Rightarrow> string \<Rightarrow> string \<Rightarrow> string \<Rightarrow> recording_file" where
  "media_blob_to_recording_file d bytes blob_type mime =
     (let normalized = (if mime_base mime \<noteq> [] then mime_base mime else mime_base blob_type);
          type = (if normalized \<noteq> [] then normalized else ''audio/webm'') in
      \<lparr>rf_bytes = bytes, rf_name = recording_filename_for_mime d type, rf_type = type\<rparr>)"

text \<open>\<open>supported\<close> is \<open>MediaRecorder.isTypeSupported\<close>, \<open>None\<close> where there is no \<open>MediaRecorder\<close>.\<close>

definition pick_media_recorder_mime_type :: "(string \<Rightarrow> bool) option \<Rightarrow> string option" where
  "pick_media_recorder_mime_type supported =
     (case supported of
        None \<Rightarrow> None
      | Some ok \<Rightarrow> find ok [''audio/webm;codecs=opus'', ''audio/webm'', ''audio/mp4''])"

definition list_audio_input_devices :: "(string \<times> string \<times> string) list \<Rightarrow> (string \<times> string) list" where
  "list_audio_input_devices ds = map snd (filter (\<lambda>d. fst d = ''audioinput'') ds)"

definition format_duration :: "nat \<Rightarrow> string" where
  "format_duration sec = nat_str (sec div 60) @ '':'' @ pad2 (nat_str (sec mod 60))"

section \<open>The dialog\<close>

datatype rec_state = RecInactive | RecRecording | RecPaused

text \<open>A recorder with its handlers attached: the generation they captured, the bytes since the last
  slice.\<close>

record recorder =
  rc_state :: rec_state
  rc_gen :: nat
  rc_buffer :: string

datatype start_source = FromMount | FromDeviceChange | FromRetry

text \<open>
  What waits: \<open>releaseCapture\<close> for the stop event, perhaps with a \<open>startCapture\<close> behind it
  (device, format, caller); \<open>startCapture\<close> for the microphone, with the generation it saw;
  \<open>startCapture\<close> for the device list; \<open>handleSave\<close> for the stop event, with the format.
\<close>

datatype pending =
    PRelease "(string \<times> string \<times> start_source) option"
  | PMedia nat string string start_source
  | PDevices start_source
  | PFinal string

record mic_modal = browser +
  mm_open :: bool
  mm_pick :: "string option"
  mm_busy :: bool
  mm_devices :: "(string \<times> string) list"
  mm_device :: string
  mm_recording :: bool
  mm_paused :: bool
  mm_starting :: bool
  mm_switching :: bool
  mm_duration :: nat
  mm_has_audio :: bool
  mm_saving :: bool
  mm_note :: bool
  mm_stream :: "nat option"
  mm_recorder :: "recorder option"
  mm_chunks :: "string list"
  mm_gen :: nat
  mm_timer :: bool
  mm_duration_ref :: nat
  mm_mime :: "string option"
  mm_pending :: "pending list"
  mm_live :: "nat list"
  mm_next :: nat
  mm_saved :: "(string \<times> string) list"

definition mm_wait :: "pending \<Rightarrow> mic_modal \<Rightarrow> mic_modal" where
  "mm_wait p s = s\<lparr>mm_pending := mm_pending s @ [p]\<rparr>"

definition rec_active :: "recorder option \<Rightarrow> bool" where
  "rec_active r \<longleftrightarrow> map_option rc_state r \<notin> {None, Some RecInactive}"

definition stop_stream :: "mic_modal \<Rightarrow> mic_modal" where
  "stop_stream s = s\<lparr>mm_live := filter (\<lambda>i. Some i \<noteq> mm_stream s) (mm_live s), mm_stream := None\<rparr>"

text \<open>\<open>releaseCapture ({ discardChunks: true })\<close> up to its \<open>await\<close>, and the rest.\<close>

definition release_begin :: "mic_modal \<Rightarrow> mic_modal" where
  "release_begin s = s\<lparr>mm_timer := False, mm_recorder := None, mm_gen := mm_gen s + 1\<rparr>"

definition release_end :: "mic_modal \<Rightarrow> mic_modal" where
  "release_end s =
     (stop_stream (s\<lparr>mm_chunks := [], mm_has_audio := False\<rparr>))\<lparr>mm_recording := False, mm_paused := False\<rparr>"

text \<open>\<open>startCapture\<close> behind its release.\<close>

definition start_go :: "(string \<times> string \<times> start_source) option \<Rightarrow> mic_modal \<Rightarrow> mic_modal" where
  "start_go c s =
     (case c of
        None \<Rightarrow> s
      | Some (dev, mime, src) \<Rightarrow>
          mm_wait (PMedia (mm_gen s) dev mime src)
            (s\<lparr>mm_mime := Some mime, mm_duration_ref := 0, mm_duration := 0, mm_starting := True\<rparr>))"

definition release_capture :: "(string \<times> string \<times> start_source) option \<Rightarrow> mic_modal \<Rightarrow> mic_modal" where
  "release_capture c s =
     (if rec_active (mm_recorder s) then mm_wait (PRelease c) (release_begin s)
      else start_go c (release_end (release_begin s)))"

text \<open>The parent closes the dialog; unmounting releases once more.\<close>

definition on_close :: "mic_modal \<Rightarrow> mic_modal" where
  "on_close s = (if mm_open s then release_capture None (s\<lparr>mm_open := False\<rparr>) else s)"

definition handle_close :: "mic_modal \<Rightarrow> mic_modal" where
  "handle_close s = on_close (release_capture None s)"

definition end_start :: "start_source \<Rightarrow> mic_modal \<Rightarrow> mic_modal" where
  "end_start src s = (if src = FromDeviceChange then s\<lparr>mm_switching := False\<rparr> else s)"

definition start_capture :: "string \<Rightarrow> start_source \<Rightarrow> mic_modal \<Rightarrow> mic_modal" where
  "start_capture dev src s =
     (case mm_pick s of
        None \<Rightarrow> end_start src (on_close (emit (EvToast (JsError ''library.recordUnsupported'') None) s))
      | Some mime \<Rightarrow> release_capture (Some (dev, mime, src)) s)"

text \<open>The answer of \<open>getUserMedia\<close>: \<open>RecorderFails\<close> is a granted stream on which no recorder runs. (A recorder
  that was made and does not start stays behind inactive; the model has none then, which nothing below tells apart.)\<close>

datatype media_answer = MediaGranted | MediaDenied exn | RecorderFails exn

definition start_failed :: "exn \<Rightarrow> start_source \<Rightarrow> mic_modal \<Rightarrow> mic_modal" where
  "start_failed e src s =
     end_start src (on_close (emit (EvToast e None) (s\<lparr>mm_starting := False\<rparr>)))"

definition take_stream :: "mic_modal \<Rightarrow> mic_modal" where
  "take_stream s =
     s\<lparr>mm_stream := Some (mm_next s), mm_live := mm_next s # mm_live s, mm_next := mm_next s + 1\<rparr>"

definition media_arrives :: "media_answer \<Rightarrow> nat \<Rightarrow> start_source \<Rightarrow> mic_modal \<Rightarrow> mic_modal" where
  "media_arrives a g src s =
     (case a of
        MediaDenied e \<Rightarrow> start_failed e src s
      | MediaGranted \<Rightarrow>
          if g \<noteq> mm_gen s then end_start src s
          else mm_wait (PDevices src)
            ((take_stream s)\<lparr>mm_recorder := Some \<lparr>rc_state = RecRecording, rc_gen = g, rc_buffer = []\<rparr>,
               mm_recording := True, mm_paused := False, mm_starting := False, mm_timer := True\<rparr>)
      | RecorderFails e \<Rightarrow>
          if g \<noteq> mm_gen s then end_start src s else start_failed e src (take_stream s))"

definition devices_arrive :: "exn + (string \<times> string \<times> string) list \<Rightarrow> start_source \<Rightarrow> mic_modal \<Rightarrow> mic_modal" where
  "devices_arrive r src s =
     (case r of
        Inr ds \<Rightarrow> end_start src (s\<lparr>mm_devices := list_audio_input_devices ds\<rparr>)
      | Inl e \<Rightarrow> start_failed e src s)"

definition pause_capture :: "mic_modal \<Rightarrow> mic_modal" where
  "pause_capture s =
     (case mm_recorder s of
        None \<Rightarrow> s
      | Some r \<Rightarrow>
          if rc_state r \<noteq> RecRecording then s
          else s\<lparr>mm_timer := False, mm_recorder := Some (r\<lparr>rc_state := RecPaused\<rparr>),
                 mm_recording := False, mm_paused := True\<rparr>)"

definition resume_capture :: "mic_modal \<Rightarrow> mic_modal" where
  "resume_capture s =
     (case mm_recorder s of
        None \<Rightarrow> s
      | Some r \<Rightarrow>
          if rc_state r \<noteq> RecPaused then s
          else s\<lparr>mm_timer := True, mm_recorder := Some (r\<lparr>rc_state := RecRecording\<rparr>),
                 mm_recording := True, mm_paused := False\<rparr>)"

definition can_toggle :: "mic_modal \<Rightarrow> bool" where
  "can_toggle s \<longleftrightarrow> (mm_recording s \<or> mm_paused s) \<and> \<not> mm_starting s \<and> \<not> mm_switching s
     \<and> \<not> mm_saving s \<and> \<not> mm_busy s"

definition toggle_transport :: "mic_modal \<Rightarrow> mic_modal" where
  "toggle_transport s =
     (if \<not> can_toggle s then s else if mm_recording s then pause_capture s else resume_capture s)"

text \<open>The select is disabled while the dialog starts, saves, switches or uploads.\<close>

definition select_disabled :: "mic_modal \<Rightarrow> bool" where
  "select_disabled s \<longleftrightarrow> mm_starting s \<or> mm_saving s \<or> mm_busy s \<or> mm_switching s"

definition handle_device_change :: "string \<Rightarrow> mic_modal \<Rightarrow> mic_modal" where
  "handle_device_change nxt s =
     (if nxt = mm_device s \<or> mm_switching s \<or> mm_saving s then s
      else start_capture nxt FromDeviceChange
             (s\<lparr>mm_device := nxt, mm_note := True, mm_switching := True\<rparr>))"

text \<open>The rest of \<open>handleSave\<close> once the recorder has stopped; \<open>onSave\<close> closes the dialog.\<close>

definition finish_save :: "string \<Rightarrow> mic_modal \<Rightarrow> mic_modal" where
  "finish_save mime s =
     (let blob = concat (mm_chunks s); s1 = stop_stream s in
      if length blob < min_recording_upload_bytes
      then start_capture (mm_device s1) FromRetry
             ((emit (EvToast (JsError ''library.recordTooShort'') None) s1)\<lparr>mm_saving := False\<rparr>)
      else on_close (s1\<lparr>mm_saved := mm_saved s1 @ [(or_default (mm_mime s1) mime, blob)]\<rparr>))"

definition save_failed :: "exn \<Rightarrow> mic_modal \<Rightarrow> mic_modal" where
  "save_failed e s =
     start_capture (mm_device s) FromRetry ((emit (EvToast e None) s)\<lparr>mm_saving := False\<rparr>)"

definition handle_save :: "mic_modal \<Rightarrow> mic_modal" where
  "handle_save s =
     (if (\<not> mm_has_audio s \<and> \<not> mm_recording s) \<or> mm_saving s \<or> mm_busy s \<or> mm_starting s \<or> mm_switching s
      then s
      else (let s1 = s\<lparr>mm_saving := True, mm_recording := False, mm_paused := False, mm_timer := False\<rparr>;
                mime = or_default (mm_mime s) ''audio/webm'';
                s2 = s1\<lparr>mm_recorder := None, mm_gen := mm_gen s1 + 1\<rparr> in
            if rec_active (mm_recorder s) then mm_wait (PFinal mime) s2 else finish_save mime s2))"

definition save_ready :: "mic_modal \<Rightarrow> bool" where
  "save_ready s \<longleftrightarrow> (mm_has_audio s \<or> mm_recording s \<or> mm_paused s) \<and> \<not> mm_starting s \<and> \<not> mm_switching s"

datatype viz_mode = VizStarting | VizRecording | VizPaused | VizIdle

definition viz_mode :: "mic_modal \<Rightarrow> viz_mode" where
  "viz_mode s =
     (if mm_starting s \<or> mm_switching s then VizStarting
      else if mm_recording s then VizRecording else if mm_paused s then VizPaused else VizIdle)"

definition device_options :: "mic_modal \<Rightarrow> (string \<times> string) list" where
  "device_options s =
     (''default'', ''library.recordDefaultMic'')
     # map (\<lambda>(i, label). (i, if label \<noteq> [] then label else ''library.recordMicUnnamed:'' @ take 8 i)) (mm_devices s)"

section \<open>What the recorder does\<close>

text \<open>\<open>ondataavailable\<close> of an attached recorder: the slice is kept when it is not empty.\<close>

definition slice_arrives :: "mic_modal \<Rightarrow> mic_modal" where
  "slice_arrives s =
     (case mm_recorder s of
        None \<Rightarrow> s
      | Some r \<Rightarrow>
          (let s1 = s\<lparr>mm_recorder := Some (r\<lparr>rc_buffer := []\<rparr>)\<rparr> in
           if rc_gen r \<noteq> mm_gen s then s1
           else if 0 < length (rc_buffer r)
           then s1\<lparr>mm_chunks := mm_chunks s @ [rc_buffer r], mm_has_audio := True\<rparr> else s1))"

definition hears :: "string \<Rightarrow> mic_modal \<Rightarrow> mic_modal" where
  "hears x s =
     (case mm_recorder s of
        None \<Rightarrow> s
      | Some r \<Rightarrow>
          if rc_state r = RecRecording then s\<lparr>mm_recorder := Some (r\<lparr>rc_buffer := rc_buffer r @ x\<rparr>)\<rparr> else s)"

text \<open>The device disappears: the recorder hands its last slice over and stops by itself.\<close>

definition recorder_ends :: "mic_modal \<Rightarrow> mic_modal" where
  "recorder_ends s =
     (let s1 = slice_arrives s in
      s1\<lparr>mm_recorder := map_option (rc_state_update (\<lambda>_. RecInactive)) (mm_recorder s1)\<rparr>)"

definition recorder_error :: "mic_modal \<Rightarrow> mic_modal" where
  "recorder_error s =
     (case mm_recorder s of
        None \<Rightarrow> s
      | Some r \<Rightarrow> if rc_gen r \<noteq> mm_gen s then s else emit (EvToast (JsError ''library.recordFailed'') None) s)"

definition timer_ticks :: "mic_modal \<Rightarrow> mic_modal" where
  "timer_ticks s =
     (if mm_timer s then s\<lparr>mm_duration_ref := mm_duration_ref s + 1, mm_duration := mm_duration_ref s + 1\<rparr> else s)"

text \<open>One waiting handler goes on: \<open>ok\<close> tells whether the stop event came, or an error.\<close>

definition mm_resume :: "pending \<Rightarrow> media_answer \<Rightarrow> exn + (string \<times> string \<times> string) list \<Rightarrow> exn option \<Rightarrow> mic_modal \<Rightarrow> mic_modal" where
  "mm_resume p a r err s =
     (let s1 = s\<lparr>mm_pending := remove1 p (mm_pending s)\<rparr> in
      case p of
        PRelease c \<Rightarrow> start_go c (release_end s1)
      | PMedia g dev mime src \<Rightarrow> media_arrives a g src s1
      | PDevices src \<Rightarrow> devices_arrive r src s1
      | PFinal mime \<Rightarrow> (case err of None \<Rightarrow> finish_save mime s1 | Some e \<Rightarrow> save_failed e s1))"

definition mm_initial :: "string option \<Rightarrow> mic_modal" where
  "mm_initial pick =
     \<lparr>local_store = Map.empty, session_store = Map.empty, events = [], mm_open = True, mm_pick = pick,
      mm_busy = False, mm_devices = [], mm_device = ''default'', mm_recording = False, mm_paused = False,
      mm_starting = True, mm_switching = False, mm_duration = 0, mm_has_audio = False, mm_saving = False,
      mm_note = False, mm_stream = None, mm_recorder = None, mm_chunks = [], mm_gen = 0, mm_timer = False,
      mm_duration_ref = 0, mm_mime = None, mm_pending = [], mm_live = [], mm_next = 0, mm_saved = []\<rparr>"

inductive mic_step :: "mic_modal \<Rightarrow> mic_modal \<Rightarrow> bool" where
  close_click: "mm_open s \<Longrightarrow> mic_step s (handle_close s)"
| device_click: "mm_open s \<Longrightarrow> \<not> select_disabled s \<Longrightarrow> mic_step s (handle_device_change nxt s)"
| toggle_click: "mm_open s \<Longrightarrow> mic_step s (toggle_transport s)"
| save_click: "mm_open s \<Longrightarrow> mic_step s (handle_save s)"
| note_click: "mm_open s \<Longrightarrow> mic_step s (s\<lparr>mm_note := False\<rparr>)"
| sliced: "mic_step s (slice_arrives s)"
| heard: "mic_step s (hears x s)"
| ended: "mic_step s (recorder_ends s)"
| errored: "mic_step s (recorder_error s)"
| ticked: "mic_step s (timer_ticks s)"
| resumed: "p \<in> set (mm_pending s) \<Longrightarrow> mic_step s (mm_resume p a r err s)"

inductive mic_steps :: "mic_modal \<Rightarrow> mic_modal \<Rightarrow> bool" where
  mic_done: "mic_steps s s"
| mic_more: "mic_steps s t \<Longrightarrow> mic_step t u \<Longrightarrow> mic_steps s u"

text \<open>The dialog opens: its first effect starts the capture.\<close>

definition mic_mounted :: "string option \<Rightarrow> mic_modal" where
  "mic_mounted pick = start_capture (mm_device (mm_initial pick)) FromMount (mm_initial pick)"

definition mic_reach :: "mic_modal \<Rightarrow> bool" where
  "mic_reach s \<longleftrightarrow> (\<exists>pick. mic_steps (mic_mounted pick) s)"

section \<open>One microphone at a time\<close>

text \<open>Handlers that will open a microphone, and those of a change of the device.\<close>

fun starter :: "pending \<Rightarrow> bool" where
  "starter (PRelease c) = (c \<noteq> None)"
| "starter (PMedia _ _ _ _) = True"
| "starter (PDevices _) = False"
| "starter (PFinal _) = True"

fun of_change :: "pending \<Rightarrow> bool" where
  "of_change (PRelease None) = False"
| "of_change (PRelease (Some c)) = (snd (snd c) = FromDeviceChange)"
| "of_change (PMedia _ _ _ src) = (src = FromDeviceChange)"
| "of_change (PDevices src) = (src = FromDeviceChange)"
| "of_change (PFinal _) = False"

text \<open>What the open dialog shows while a handler waits.\<close>

fun shows_waiting :: "mic_modal \<Rightarrow> pending \<Rightarrow> bool" where
  "shows_waiting s (PRelease None) = True"
| "shows_waiting s (PRelease (Some c)) = (snd (snd c) = FromDeviceChange \<and> mm_switching s)"
| "shows_waiting s (PMedia _ _ _ src) = (mm_starting s \<and> (src = FromDeviceChange \<longrightarrow> mm_switching s))"
| "shows_waiting s (PDevices src) = (src = FromDeviceChange \<longrightarrow> mm_switching s)"
| "shows_waiting s (PFinal _) = mm_saving s"

fun sound_for :: "mic_modal \<Rightarrow> pending \<Rightarrow> bool" where
  "sound_for s (PMedia g _ _ _) = (g \<le> mm_gen s \<and> (g = mm_gen s \<longrightarrow> mm_stream s = None))"
| "sound_for s (PFinal _) = (mm_recorder s = None)"
| "sound_for s _ = True"

definition mic_inv :: "mic_modal \<Rightarrow> bool" where
  "mic_inv s \<longleftrightarrow>
     set (mm_live s) \<subseteq> set_option (mm_stream s)
     \<and> length (filter starter (mm_pending s)) \<le> 1
     \<and> length (filter of_change (mm_pending s)) \<le> 1
     \<and> list_all (sound_for s) (mm_pending s)
     \<and> (mm_open s \<longrightarrow> list_all (shows_waiting s) (mm_pending s))"

lemma filter_remove1: "P p \<Longrightarrow> filter P (remove1 p xs) = remove1 p (filter P xs)"
  by (induction xs) auto

lemma length_le_1:
  assumes "length (filter P xs) \<le> 1" and "p \<in> set xs" and "P p"
  shows "filter P (remove1 p xs) = []"
proof -
  have "p \<in> set (filter P xs)" using assms(2,3) by simp
  with assms(1) have "filter P xs = [p]" by (cases "filter P xs") auto
  then show ?thesis by (simp add: filter_remove1 [of P p, OF assms(3)])
qed

lemma length_filter_remove1: "length (filter P (remove1 p xs)) \<le> length (filter P xs)"
  by (induction xs) auto

lemma list_all_remove1: "list_all P xs \<Longrightarrow> list_all P (remove1 p xs)"
  by (induction xs) auto

text \<open>Steps that touch neither the waiting handlers nor the streams.\<close>

definition same_core :: "mic_modal \<Rightarrow> mic_modal \<Rightarrow> bool" where
  "same_core s t \<longleftrightarrow>
     mm_live t = mm_live s \<and> mm_stream t = mm_stream s \<and> mm_pending t = mm_pending s \<and> mm_gen t = mm_gen s
     \<and> (mm_recorder s = None \<longrightarrow> mm_recorder t = None) \<and> mm_open t = mm_open s
     \<and> mm_starting t = mm_starting s \<and> mm_switching t = mm_switching s \<and> mm_saving t = mm_saving s"

lemma same_core_sound: "same_core s t \<Longrightarrow> sound_for s p \<Longrightarrow> sound_for t p"
  by (cases p) (auto simp: same_core_def)

lemma same_core_shows: "same_core s t \<Longrightarrow> shows_waiting s p \<Longrightarrow> shows_waiting t p"
  by (cases "(s, p)" rule: shows_waiting.cases) (auto simp: same_core_def)

lemma same_core_inv: "same_core s t \<Longrightarrow> mic_inv s \<Longrightarrow> mic_inv t"
proof -
  assume c: "same_core s t" and i: "mic_inv s"
  have "list_all (sound_for t) (mm_pending t)"
    using i c same_core_sound [OF c] by (auto simp: mic_inv_def same_core_def list_all_iff)
  moreover have "mm_open t \<longrightarrow> list_all (shows_waiting t) (mm_pending t)"
    using i c same_core_shows [OF c] by (auto simp: mic_inv_def same_core_def list_all_iff)
  ultimately show "mic_inv t" using i c by (auto simp: mic_inv_def same_core_def)
qed

lemma same_core_ops:
  "same_core s (slice_arrives s)" "same_core s (hears x s)" "same_core s (recorder_ends s)"
  "same_core s (recorder_error s)" "same_core s (timer_ticks s)" "same_core s (toggle_transport s)"
  "same_core s (s\<lparr>mm_note := b\<rparr>)"
  by (auto simp: same_core_def slice_arrives_def hears_def recorder_ends_def recorder_error_def
      timer_ticks_def toggle_transport_def pause_capture_def resume_capture_def emit_def Let_def
      split: option.splits)

text \<open>Releasing and closing.\<close>

lemma stop_stream_inv: "set (mm_live s) \<subseteq> set_option (mm_stream s) \<Longrightarrow> mm_live (stop_stream s) = []"
  by (auto simp: stop_stream_def filter_empty_conv)

lemma sound_release_end: "sound_for s p \<Longrightarrow> sound_for (release_end s) p"
  by (cases p) (auto simp: release_end_def stop_stream_def)

lemma shows_release_end: "shows_waiting s p \<Longrightarrow> shows_waiting (release_end s) p"
  by (cases "(s, p)" rule: shows_waiting.cases) (auto simp: release_end_def stop_stream_def)

lemma sound_release_begin: "sound_for s p \<Longrightarrow> sound_for (release_begin s) p"
  by (cases p) (auto simp: release_begin_def)

lemma shows_release_begin: "shows_waiting s p \<Longrightarrow> shows_waiting (release_begin s) p"
  by (cases "(s, p)" rule: shows_waiting.cases) (auto simp: release_begin_def)

lemma release_end_fields [simp]:
  "mm_pending (release_end s) = mm_pending s" "mm_open (release_end s) = mm_open s"
  "mm_stream (release_end s) = None" "mm_gen (release_end s) = mm_gen s"
  "mm_recorder (release_end s) = mm_recorder s" "mm_switching (release_end s) = mm_switching s"
  "mm_saving (release_end s) = mm_saving s" "mm_starting (release_end s) = mm_starting s"
  by (simp_all add: release_end_def stop_stream_def)

lemma release_begin_fields [simp]:
  "mm_pending (release_begin s) = mm_pending s" "mm_open (release_begin s) = mm_open s"
  "mm_stream (release_begin s) = mm_stream s" "mm_gen (release_begin s) = Suc (mm_gen s)"
  "mm_recorder (release_begin s) = None" "mm_live (release_begin s) = mm_live s"
  "mm_switching (release_begin s) = mm_switching s"
  by (simp_all add: release_begin_def)

lemma release_end_live: "set (mm_live s) \<subseteq> set_option (mm_stream s) \<Longrightarrow> mm_live (release_end s) = []"
  using stop_stream_inv [of "s\<lparr>mm_chunks := [], mm_has_audio := False\<rparr>"] by (simp add: release_end_def)

lemma release_end_inv: "mic_inv s \<Longrightarrow> mic_inv (release_end s)"
  using release_end_live [of s] sound_release_end [of s] shows_release_end [of s]
  by (auto simp: mic_inv_def list_all_iff)

lemma release_begin_inv: "mic_inv s \<Longrightarrow> mic_inv (release_begin s)"
  using sound_release_begin [of s] shows_release_begin [of s] by (auto simp: mic_inv_def list_all_iff)

lemma wait_fields [simp]:
  "mm_pending (mm_wait p s) = mm_pending s @ [p]" "mm_live (mm_wait p s) = mm_live s"
  "mm_stream (mm_wait p s) = mm_stream s" "mm_open (mm_wait p s) = mm_open s"
  "mm_gen (mm_wait p s) = mm_gen s" "mm_recorder (mm_wait p s) = mm_recorder s"
  "mm_starting (mm_wait p s) = mm_starting s" "mm_switching (mm_wait p s) = mm_switching s"
  "mm_saving (mm_wait p s) = mm_saving s"
  by (simp_all add: mm_wait_def)

lemma sound_wait [simp]: "sound_for (mm_wait q s) p = sound_for s p"
  by (cases p) simp_all

lemma shows_wait [simp]: "shows_waiting (mm_wait q s) p = shows_waiting s p"
  by (cases "(s, p)" rule: shows_waiting.cases) simp_all

lemma wait_inv:
  assumes "mic_inv s" and "starter p \<Longrightarrow> filter starter (mm_pending s) = []"
    and "of_change p \<Longrightarrow> filter of_change (mm_pending s) = []"
    and "sound_for s p" and "mm_open s \<Longrightarrow> shows_waiting s p"
  shows "mic_inv (mm_wait p s)"
  using assms by (auto simp: mic_inv_def list_all_iff)

lemma release_none_inv: "mic_inv s \<Longrightarrow> mic_inv (release_capture None s)"
  by (auto simp: release_capture_def start_go_def intro!: wait_inv release_begin_inv release_end_inv)

lemma closed_inv: "mic_inv s \<Longrightarrow> mic_inv (s\<lparr>mm_open := False\<rparr>)"
proof -
  have "sound_for (s\<lparr>mm_open := False\<rparr>) p = sound_for s p" for p by (cases p) simp_all
  then show "mic_inv s \<Longrightarrow> mic_inv (s\<lparr>mm_open := False\<rparr>)" by (simp add: mic_inv_def list_all_iff)
qed

lemma on_close_inv: "mic_inv s \<Longrightarrow> mic_inv (on_close s)"
  by (simp add: on_close_def closed_inv release_none_inv)

lemma release_none_open [simp]: "mm_open (release_capture None s) = mm_open s"
  by (simp add: release_capture_def start_go_def)

lemma on_close_closed [simp]: "\<not> mm_open (on_close s)"
  by (simp add: on_close_def)

lemma emit_inv: "mic_inv s \<Longrightarrow> mic_inv (emit e s)"
  by (rule same_core_inv [of s]) (simp_all add: same_core_def emit_def)

lemma end_start_inv:
  assumes "mic_inv s" and "mm_open s \<Longrightarrow> src = FromDeviceChange \<Longrightarrow> filter of_change (mm_pending s) = []"
  shows "mic_inv (end_start src s)"
proof (cases "src = FromDeviceChange")
  case True
  let ?t = "s\<lparr>mm_switching := False\<rparr>"
  have sound: "sound_for ?t p = sound_for s p" for p by (cases p) simp_all
  have shown: "shows_waiting ?t p" if "shows_waiting s p" "\<not> of_change p" for p
    using that by (cases "(s, p)" rule: shows_waiting.cases) auto
  have "mm_open s \<Longrightarrow> list_all (shows_waiting ?t) (mm_pending s)"
    using assms True shown unfolding mic_inv_def list_all_iff filter_empty_conv by blast
  then show ?thesis using assms(1) True by (simp add: end_start_def mic_inv_def sound list_all_iff)
qed (simp add: end_start_def assms)

lemma closed_failed_inv: "mic_inv s \<Longrightarrow> mic_inv ((emit e (s\<lparr>mm_starting := False\<rparr>))\<lparr>mm_open := False\<rparr>)"
proof -
  have "sound_for ((emit e (s\<lparr>mm_starting := False\<rparr>))\<lparr>mm_open := False\<rparr>) p = sound_for s p" for p
    by (cases p) (simp_all add: emit_def)
  then show "mic_inv s \<Longrightarrow> mic_inv ((emit e (s\<lparr>mm_starting := False\<rparr>))\<lparr>mm_open := False\<rparr>)"
    by (simp add: mic_inv_def list_all_iff emit_def)
qed

lemma start_failed_inv:
  assumes "mic_inv s"
  shows "mic_inv (start_failed e src s)"
proof -
  let ?c = "(emit (EvToast e None) (s\<lparr>mm_starting := False\<rparr>))\<lparr>mm_open := False\<rparr>"
  have "on_close (emit (EvToast e None) (s\<lparr>mm_starting := False\<rparr>))
      = (if mm_open s then release_capture None ?c else ?c)"
    by (simp add: on_close_def emit_def)
  then have "mic_inv (on_close (emit (EvToast e None) (s\<lparr>mm_starting := False\<rparr>)))"
    using closed_failed_inv [OF assms] release_none_inv by simp
  then show ?thesis
    unfolding start_failed_def by (intro end_start_inv) simp_all
qed

text \<open>Starting: nothing else may be about to start.\<close>

lemma start_go_inv:
  assumes "mic_inv s" and "mm_stream s = None" and "filter starter (mm_pending s) = []"
    and "snd (snd c) = FromDeviceChange \<Longrightarrow> filter of_change (mm_pending s) = []"
    and "mm_open s \<Longrightarrow> snd (snd c) = FromDeviceChange \<Longrightarrow> mm_switching s"
  shows "mic_inv (start_go (Some c) s)"
proof -
  obtain dev mime src where c: "c = (dev, mime, src)" by (cases c)
  let ?t = "s\<lparr>mm_mime := Some mime, mm_duration_ref := 0, mm_duration := 0, mm_starting := True\<rparr>"
  have sound: "sound_for ?t p = sound_for s p" for p by (cases p) simp_all
  have shown: "shows_waiting s p \<Longrightarrow> shows_waiting ?t p" for p
    by (cases "(s, p)" rule: shows_waiting.cases) auto
  have "mic_inv ?t" using assms(1) shown by (auto simp: mic_inv_def sound list_all_iff)
  then show ?thesis unfolding c start_go_def
    using assms(2-5) by (auto simp: c intro!: wait_inv)
qed

lemma release_some_inv:
  assumes "mic_inv s" and "filter starter (mm_pending s) = []"
    and "snd (snd c) = FromDeviceChange \<Longrightarrow> filter of_change (mm_pending s) = []"
    and "mm_open s \<Longrightarrow> snd (snd c) = FromDeviceChange \<Longrightarrow> mm_switching s"
    and "rec_active (mm_recorder s) \<Longrightarrow> mm_open s \<Longrightarrow> snd (snd c) = FromDeviceChange"
  shows "mic_inv (release_capture (Some c) s)"
proof (cases "rec_active (mm_recorder s)")
  case True
  then show ?thesis
    using assms by (auto simp: release_capture_def intro!: wait_inv release_begin_inv)
next
  case False
  then show ?thesis
    using assms by (auto simp: release_capture_def intro!: start_go_inv release_end_inv release_begin_inv)
qed

lemma start_capture_inv:
  assumes "mic_inv s" and "filter starter (mm_pending s) = []"
    and "src = FromDeviceChange \<Longrightarrow> filter of_change (mm_pending s) = []"
    and "mm_open s \<Longrightarrow> src = FromDeviceChange \<Longrightarrow> mm_switching s"
    and "rec_active (mm_recorder s) \<Longrightarrow> mm_open s \<Longrightarrow> src = FromDeviceChange"
  shows "mic_inv (start_capture dev src s)"
proof (cases "mm_pick s")
  case None
  then show ?thesis using assms(1)
    by (auto simp: start_capture_def intro!: end_start_inv on_close_inv emit_inv)
next
  case (Some m)
  then show ?thesis using assms by (auto simp: start_capture_def intro!: release_some_inv)
qed

lemma no_starter_idle:
  assumes "mic_inv s" and "mm_open s" and "\<not> mm_starting s" and "\<not> mm_switching s" and "\<not> mm_saving s"
  shows "filter starter (mm_pending s) = [] \<and> filter of_change (mm_pending s) = []"
proof -
  have "\<not> starter p \<and> \<not> of_change p" if "shows_waiting s p" for p
    using that assms(3-5) by (cases "(s, p)" rule: shows_waiting.cases) auto
  then show ?thesis using assms(1,2) by (auto simp: mic_inv_def list_all_iff filter_empty_conv)
qed

lemma device_change_inv:
  assumes "mic_inv s" and "mm_open s" and "\<not> select_disabled s"
  shows "mic_inv (handle_device_change nxt s)"
proof (cases "nxt = mm_device s \<or> mm_switching s \<or> mm_saving s")
  case True
  then show ?thesis using assms(1) by (auto simp: handle_device_change_def)
next
  case False
  let ?t = "s\<lparr>mm_device := nxt, mm_note := True, mm_switching := True\<rparr>"
  have idle: "filter starter (mm_pending s) = []" "filter of_change (mm_pending s) = []"
    using no_starter_idle [OF assms(1,2)] assms(3) by (auto simp: select_disabled_def)
  have sound: "sound_for ?t p = sound_for s p" for p by (cases p) simp_all
  have shown: "shows_waiting s p \<Longrightarrow> shows_waiting ?t p" for p
    by (cases "(s, p)" rule: shows_waiting.cases) auto
  have "mic_inv ?t" using assms(1) shown by (auto simp: mic_inv_def sound list_all_iff)
  then show ?thesis using False idle by (auto simp: handle_device_change_def intro!: start_capture_inv)
qed

lemma stop_stream_mic_inv: "mic_inv s \<Longrightarrow> mic_inv (stop_stream s)"
proof -
  have sound: "sound_for s p \<Longrightarrow> sound_for (stop_stream s) p" for p
    by (cases p) (auto simp: stop_stream_def)
  have shown: "shows_waiting s p \<Longrightarrow> shows_waiting (stop_stream s) p" for p
    by (cases "(s, p)" rule: shows_waiting.cases) (auto simp: stop_stream_def)
  show "mic_inv s \<Longrightarrow> mic_inv (stop_stream s)"
    using sound shown stop_stream_inv [of s]
    by (auto simp: mic_inv_def list_all_iff) (simp_all add: stop_stream_def)
qed

lemma saving_off_inv:
  assumes "mic_inv s" and "filter starter (mm_pending s) = []"
  shows "mic_inv (s\<lparr>mm_saving := False\<rparr>)"
proof -
  let ?t = "s\<lparr>mm_saving := False\<rparr>"
  have sound: "sound_for ?t p = sound_for s p" for p by (cases p) simp_all
  have shown: "shows_waiting ?t p" if "shows_waiting s p" "\<not> starter p" for p
    using that by (cases "(s, p)" rule: shows_waiting.cases) auto
  have "mm_open s \<Longrightarrow> list_all (shows_waiting ?t) (mm_pending s)"
    using assms shown unfolding mic_inv_def list_all_iff filter_empty_conv by blast
  then show ?thesis using assms(1) by (simp add: mic_inv_def sound list_all_iff)
qed

lemma emit_mic_fields [simp]:
  "mm_pending (emit e s) = mm_pending s" "mm_recorder (emit e s) = mm_recorder s"
  "mm_open (emit e s) = mm_open s" "mm_device (emit e s) = mm_device s" "mm_mime (emit e s) = mm_mime s"
  "mm_saved (emit e s) = mm_saved s" "mm_gen (emit e s) = mm_gen s" "mm_live (emit e s) = mm_live s"
  "mm_stream (emit e s) = mm_stream s" "mm_pick (emit e s) = mm_pick s"
  by (simp_all add: emit_def)

lemma stop_stream_fields [simp]:
  "mm_pending (stop_stream s) = mm_pending s" "mm_recorder (stop_stream s) = mm_recorder s"
  "mm_device (stop_stream s) = mm_device s" "mm_mime (stop_stream s) = mm_mime s"
  "mm_saved (stop_stream s) = mm_saved s" "mm_open (stop_stream s) = mm_open s"
  "mm_gen (stop_stream s) = mm_gen s" "mm_stream (stop_stream s) = None"
  by (simp_all add: stop_stream_def)

lemma retry_inv:
  assumes "mic_inv s" and "filter starter (mm_pending s) = []" and "mm_recorder s = None"
  shows "mic_inv (start_capture dev FromRetry ((emit e s)\<lparr>mm_saving := False\<rparr>))"
  using assms by (intro start_capture_inv saving_off_inv emit_inv) (simp_all add: rec_active_def)

lemma finish_save_inv:
  assumes "mic_inv s" and "filter starter (mm_pending s) = []" and "mm_recorder s = None"
  shows "mic_inv (finish_save mime s)"
proof (cases "length (concat (mm_chunks s)) < min_recording_upload_bytes")
  case True
  then show ?thesis using assms
    by (simp add: finish_save_def Let_def) (rule retry_inv, simp_all add: stop_stream_mic_inv)
next
  case False
  let ?t = "(stop_stream s)\<lparr>mm_saved := x\<rparr>"
  have "mic_inv (t\<lparr>mm_saved := x\<rparr>)" if "mic_inv t" for t x
    by (rule same_core_inv [OF _ that]) (simp add: same_core_def)
  then show ?thesis using False assms(1)
    by (simp add: finish_save_def Let_def on_close_inv stop_stream_mic_inv)
qed

lemma handle_save_inv:
  assumes "mic_inv s" and "mm_open s"
  shows "mic_inv (handle_save s)"
proof (cases "(\<not> mm_has_audio s \<and> \<not> mm_recording s) \<or> mm_saving s \<or> mm_busy s \<or> mm_starting s \<or> mm_switching s")
  case True
  then show ?thesis using assms(1) by (simp add: handle_save_def)
next
  case False
  let ?t = "s\<lparr>mm_saving := True, mm_recording := False, mm_paused := False, mm_timer := False,
              mm_recorder := None, mm_gen := Suc (mm_gen s)\<rparr>"
  have idle: "filter starter (mm_pending s) = []"
    using no_starter_idle [OF assms] False by auto
  have sound: "sound_for s p \<Longrightarrow> sound_for ?t p" for p by (cases p) auto
  have shown: "shows_waiting s p \<Longrightarrow> shows_waiting ?t p" for p
    by (cases "(s, p)" rule: shows_waiting.cases) auto
  have t: "mic_inv ?t" using assms(1) sound shown by (auto simp: mic_inv_def list_all_iff)
  show ?thesis
    using False t idle by (auto simp: handle_save_def Let_def intro!: wait_inv finish_save_inv)
qed

text \<open>A handler that goes on has left the list.\<close>

definition taken :: "pending \<Rightarrow> mic_modal \<Rightarrow> mic_modal" where
  "taken p s = s\<lparr>mm_pending := remove1 p (mm_pending s)\<rparr>"

lemma taken_fields [simp]:
  "mm_pending (taken p s) = remove1 p (mm_pending s)" "mm_open (taken p s) = mm_open s"
  "mm_stream (taken p s) = mm_stream s" "mm_live (taken p s) = mm_live s" "mm_gen (taken p s) = mm_gen s"
  "mm_recorder (taken p s) = mm_recorder s" "mm_switching (taken p s) = mm_switching s"
  "mm_chunks (taken p s) = mm_chunks s" "mm_saved (taken p s) = mm_saved s" "mm_mime (taken p s) = mm_mime s"
  by (simp_all add: taken_def)

lemma sound_taken [simp]: "sound_for (taken q s) p = sound_for s p"
  by (cases p) simp_all

lemma shows_taken [simp]: "shows_waiting (taken q s) p = shows_waiting s p"
  by (cases "(s, p)" rule: shows_waiting.cases) (simp_all add: taken_def)

lemma taken_inv: "mic_inv s \<Longrightarrow> mic_inv (taken p s)"
  using length_filter_remove1 [of starter p "mm_pending s"] length_filter_remove1 [of of_change p "mm_pending s"]
  by (auto simp: mic_inv_def list_all_iff dest: notin_set_remove1 intro: le_trans)

lemma taken_alone:
  "mic_inv s \<Longrightarrow> p \<in> set (mm_pending s) \<Longrightarrow> starter p \<Longrightarrow> filter starter (remove1 p (mm_pending s)) = []"
  "mic_inv s \<Longrightarrow> p \<in> set (mm_pending s) \<Longrightarrow> of_change p \<Longrightarrow> filter of_change (remove1 p (mm_pending s)) = []"
  by (simp_all add: mic_inv_def length_le_1)

lemma take_stream_inv:
  assumes "mic_inv s" and "mm_stream s = None" and "filter starter (mm_pending s) = []"
  shows "mic_inv (take_stream s)"
proof -
  have sound: "sound_for (take_stream s) p" if "sound_for s p" "\<not> starter p" for p
    using that by (cases p) (auto simp: take_stream_def)
  have shown: "shows_waiting s p \<Longrightarrow> shows_waiting (take_stream s) p" for p
    by (cases "(s, p)" rule: shows_waiting.cases) (auto simp: take_stream_def)
  have "mm_live s = []" using assms(1,2) by (simp add: mic_inv_def)
  then show ?thesis
    using assms sound shown unfolding mic_inv_def list_all_iff filter_empty_conv
    by (auto simp: take_stream_def)
qed

lemma recording_inv:
  assumes "mic_inv s" and "filter starter (mm_pending s) = []"
  shows "mic_inv (s\<lparr>mm_recorder := r, mm_recording := True, mm_paused := False,
                    mm_starting := False, mm_timer := True\<rparr>)" (is "mic_inv ?t")
proof -
  have sound: "sound_for ?t p" if "sound_for s p" "\<not> starter p" for p using that by (cases p) auto
  have shown: "shows_waiting ?t p" if "shows_waiting s p" "\<not> starter p" for p
    using that by (cases "(s, p)" rule: shows_waiting.cases) auto
  show ?thesis
    using assms sound shown unfolding mic_inv_def list_all_iff filter_empty_conv by auto
qed

lemma media_arrives_inv:
  assumes "mic_inv s" and "filter starter (mm_pending s) = []"
    and "src = FromDeviceChange \<Longrightarrow> filter of_change (mm_pending s) = []"
    and "mm_open s \<Longrightarrow> src = FromDeviceChange \<Longrightarrow> mm_switching s"
    and "g = mm_gen s \<Longrightarrow> mm_stream s = None"
  shows "mic_inv (media_arrives a g src s)"
proof (cases a)
  case MediaGranted
  show ?thesis
  proof (cases "g = mm_gen s")
    case True
    let ?r = "Some \<lparr>rc_state = RecRecording, rc_gen = g, rc_buffer = []\<rparr>"
    let ?t = "(take_stream s)\<lparr>mm_recorder := ?r, mm_recording := True, mm_paused := False,
                mm_starting := False, mm_timer := True\<rparr>"
    have "mic_inv ?t"
      using assms(1,2) assms(5) [OF True] by (intro recording_inv take_stream_inv) (simp_all add: take_stream_def)
    moreover have "mm_pending ?t = mm_pending s" "mm_open ?t = mm_open s" "mm_switching ?t = mm_switching s"
      by (simp_all add: take_stream_def)
    ultimately have "mic_inv (mm_wait (PDevices src) ?t)"
      using assms(3,4) by (intro wait_inv) auto
    then show ?thesis using MediaGranted True by (simp add: media_arrives_def)
  next
    case False
    then show ?thesis using MediaGranted assms by (auto simp: media_arrives_def intro!: end_start_inv)
  qed
next
  case (MediaDenied e)
  then show ?thesis using assms by (simp add: media_arrives_def start_failed_inv)
next
  case (RecorderFails e)
  show ?thesis
  proof (cases "g = mm_gen s")
    case True
    have "mic_inv (start_failed e src (take_stream s))"
      using assms(1,2) assms(5) [OF True]
      by (intro start_failed_inv take_stream_inv) (simp_all add: take_stream_def)
    then show ?thesis using True RecorderFails by (simp add: media_arrives_def)
  next
    case False
    then show ?thesis using RecorderFails assms by (auto simp: media_arrives_def intro!: end_start_inv)
  qed
qed

lemma devices_arrive_inv:
  assumes "mic_inv s" and "src = FromDeviceChange \<Longrightarrow> filter of_change (mm_pending s) = []"
  shows "mic_inv (devices_arrive r src s)"
proof (cases r)
  case (Inr ds)
  have "mic_inv (s\<lparr>mm_devices := d\<rparr>)" for d
    by (rule same_core_inv [OF _ assms(1)]) (simp add: same_core_def)
  then show ?thesis using assms(2) Inr by (auto simp: devices_arrive_def intro!: end_start_inv)
next
  case (Inl e)
  then show ?thesis using assms(1) by (simp add: devices_arrive_def start_failed_inv)
qed

lemma waiting_sound: "mic_inv s \<Longrightarrow> p \<in> set (mm_pending s) \<Longrightarrow> sound_for s p"
  by (simp add: mic_inv_def list_all_iff)

lemma waiting_shown: "mic_inv s \<Longrightarrow> p \<in> set (mm_pending s) \<Longrightarrow> mm_open s \<Longrightarrow> shows_waiting s p"
  by (simp add: mic_inv_def list_all_iff)

lemma mm_resume_taken: "mm_resume p a r err s =
    (case p of
       PRelease c \<Rightarrow> start_go c (release_end (taken p s))
     | PMedia g dev mime src \<Rightarrow> media_arrives a g src (taken p s)
     | PDevices src \<Rightarrow> devices_arrive r src (taken p s)
     | PFinal mime \<Rightarrow> (case err of None \<Rightarrow> finish_save mime (taken p s) | Some e \<Rightarrow> save_failed e (taken p s)))"
  by (cases p) (simp_all add: mm_resume_def taken_def Let_def split: option.split)

lemma mm_resume_inv:
  assumes "mic_inv s" and "p \<in> set (mm_pending s)"
  shows "mic_inv (mm_resume p a r err s)"
proof (cases p)
  case (PRelease c)
  show ?thesis
  proof (cases c)
    case None
    then show ?thesis using PRelease assms
      by (simp add: mm_resume_taken start_go_def release_end_inv taken_inv)
  next
    case (Some d)
    have "mic_inv (start_go (Some d) (release_end (taken p s)))"
      using taken_alone [OF assms, unfolded PRelease Some] waiting_shown [OF assms, unfolded PRelease Some] assms(1)
      by (intro start_go_inv release_end_inv taken_inv) (simp_all add: PRelease Some)
    then show ?thesis using PRelease Some by (simp add: mm_resume_taken)
  qed
next
  case (PMedia g dev mime src)
  have "mic_inv (media_arrives a g src (taken p s))"
  proof (rule media_arrives_inv)
    show "mic_inv (taken p s)" using assms(1) by (rule taken_inv)
    show "filter starter (mm_pending (taken p s)) = []"
      using taken_alone(1) [OF assms] PMedia by simp
    show "filter of_change (mm_pending (taken p s)) = []" if "src = FromDeviceChange"
      using taken_alone(2) [OF assms] PMedia that by simp
    show "mm_switching (taken p s)" if "mm_open (taken p s)" and "src = FromDeviceChange"
      using waiting_shown [OF assms] PMedia that by simp
    show "mm_stream (taken p s) = None" if "g = mm_gen (taken p s)"
    proof -
      have "g = mm_gen s" using that by (simp only: taken_fields)
      then show ?thesis using waiting_sound [OF assms, unfolded PMedia] by simp
    qed
  qed
  then show ?thesis using PMedia by (simp add: mm_resume_taken)
next
  case (PDevices src)
  have "mic_inv (devices_arrive r src (taken p s))"
    using taken_alone(2) [OF assms] PDevices assms(1) by (intro devices_arrive_inv taken_inv) auto
  then show ?thesis using PDevices by (simp add: mm_resume_taken)
next
  case (PFinal mime)
  have alone: "filter starter (mm_pending (taken p s)) = []" "mm_recorder (taken p s) = None"
    using taken_alone(1) [OF assms] waiting_sound [OF assms] PFinal by auto
  have "mic_inv (finish_save mime (taken p s))" "mic_inv (save_failed e (taken p s))" for e
    using alone assms(1) by (auto simp: save_failed_def intro!: finish_save_inv retry_inv taken_inv)
  then show ?thesis using PFinal by (simp add: mm_resume_taken split: option.split)
qed

lemma mic_step_inv: "mic_step s t \<Longrightarrow> mic_inv s \<Longrightarrow> mic_inv t"
proof (induction rule: mic_step.induct)
  case (close_click s)
  then show ?case by (simp add: handle_close_def on_close_inv release_none_inv)
qed (auto intro: device_change_inv handle_save_inv mm_resume_inv same_core_inv [OF same_core_ops(1)]
    same_core_inv [OF same_core_ops(2)] same_core_inv [OF same_core_ops(3)] same_core_inv [OF same_core_ops(4)]
    same_core_inv [OF same_core_ops(5)] same_core_inv [OF same_core_ops(6)] same_core_inv [OF same_core_ops(7)])

lemma mic_steps_inv: "mic_steps s t \<Longrightarrow> mic_inv s \<Longrightarrow> mic_inv t"
  by (induction rule: mic_steps.induct) (auto intro: mic_step_inv)

lemma mic_mounted_inv: "mic_inv (mic_mounted pick)"
  unfolding mic_mounted_def
  by (rule start_capture_inv) (simp_all add: mm_initial_def mic_inv_def rec_active_def)

lemma mic_reach_inv: "mic_reach s \<Longrightarrow> mic_inv s"
  using mic_steps_inv mic_mounted_inv by (auto simp: mic_reach_def)

section \<open>The microphone after closing\<close>

text \<open>Nothing is live and no waiting handler will keep a stream.\<close>

fun quiet_wait :: "nat \<Rightarrow> pending \<Rightarrow> bool" where
  "quiet_wait n (PRelease c) = (c = None)"
| "quiet_wait n (PMedia g _ _ _) = (g < n)"
| "quiet_wait n (PDevices _) = True"
| "quiet_wait n (PFinal _) = False"

definition mic_quiet :: "mic_modal \<Rightarrow> bool" where
  "mic_quiet s \<longleftrightarrow> \<not> mm_open s \<and> mm_live s = [] \<and> list_all (quiet_wait (mm_gen s)) (mm_pending s)"

text \<open>Handlers between stopping one recorder and going on: a change of the device, a save.\<close>

fun hands_over :: "pending \<Rightarrow> bool" where
  "hands_over (PRelease c) = (c \<noteq> None)"
| "hands_over (PFinal _) = True"
| "hands_over _ = False"

lemma quiet_resume:
  assumes "mic_quiet s" and "p \<in> set (mm_pending s)"
  shows "mic_quiet (mm_resume p a r err s)"
proof -
  have wait: "quiet_wait (mm_gen s) p" using assms by (simp add: mic_quiet_def list_all_iff)
  have rest: "list_all (quiet_wait (mm_gen s)) (remove1 p (mm_pending s))"
    using assms(1) by (simp add: mic_quiet_def list_all_remove1)
  show ?thesis
    using assms(1) wait rest
    by (cases "(mm_gen s, p)" rule: quiet_wait.cases)
       (auto simp: mic_quiet_def mm_resume_taken start_go_def release_end_def stop_stream_def media_arrives_def
         devices_arrive_def start_failed_def end_start_def on_close_def taken_def emit_def
         simp del: not_None_eq split: media_answer.split sum.split)
qed

lemma quiet_same_core: "same_core s t \<Longrightarrow> mic_quiet s \<Longrightarrow> mic_quiet t"
  by (simp add: same_core_def mic_quiet_def)

lemma quiet_step: "mic_step s t \<Longrightarrow> mic_quiet s \<Longrightarrow> mic_quiet t"
  by (induction rule: mic_step.induct)
     (auto intro: quiet_resume quiet_same_core [OF same_core_ops(1)] quiet_same_core [OF same_core_ops(2)]
       quiet_same_core [OF same_core_ops(3)] quiet_same_core [OF same_core_ops(4)] quiet_same_core [OF same_core_ops(5)],
      simp_all add: mic_quiet_def)

lemma quiet_steps: "mic_steps s t \<Longrightarrow> mic_quiet s \<Longrightarrow> mic_quiet t"
  by (induction rule: mic_steps.induct) (auto intro: quiet_step)

lemma close_quiet:
  assumes "mic_inv s" and "mm_open s" and "list_all (\<lambda>p. \<not> hands_over p) (mm_pending s)"
  shows "mic_quiet (handle_close s)"
proof -
  have i: "mic_inv (release_capture None s)" using assms(1) by (rule release_none_inv)
  have gens: "quiet_wait (Suc n) p" if "sound_for s p" "\<not> hands_over p" "mm_gen s \<le> n" for p n
    using that by (cases p) (auto simp del: not_None_eq)
  have "list_all (quiet_wait (Suc n)) (mm_pending s)" if "mm_gen s \<le> n" for n
    using assms(1,3) gens that by (auto simp: mic_inv_def list_all_iff)
  then have gens: "list_all (quiet_wait (Suc (mm_gen s))) (mm_pending s)"
      "list_all (quiet_wait (Suc (Suc (mm_gen s)))) (mm_pending s)" by simp_all
  have "mm_live (release_end (release_begin ((release_capture None s)\<lparr>mm_open := False\<rparr>))) = []"
    using i by (intro release_end_live) (simp add: mic_inv_def)
  moreover have "\<not> rec_active (mm_recorder (release_capture None s))"
    by (simp add: release_capture_def start_go_def rec_active_def)
  ultimately show ?thesis
    using gens assms(2)
    by (auto simp: mic_quiet_def handle_close_def on_close_def release_capture_def start_go_def rec_active_def)
qed

text \<open>The first waiting handler goes on, and the browser grants what it asks for.\<close>

definition goes_on :: "mic_modal \<Rightarrow> mic_modal" where
  "goes_on s = mm_resume (hd (mm_pending s)) MediaGranted (Inr []) None s"

lemma goes_on_steps: "mic_steps r s \<Longrightarrow> mm_pending s \<noteq> [] \<Longrightarrow> mic_steps r (goes_on s)"
  unfolding goes_on_def by (erule mic_more) (rule resumed, simp)

definition mic_running :: mic_modal where
  "mic_running = goes_on (goes_on (mic_mounted (Some ''audio/webm'')))"

lemmas mic_run_defs = mic_mounted_def mm_initial_def start_capture_def release_capture_def rec_active_def start_go_def
  release_end_def release_begin_def stop_stream_def mm_wait_def goes_on_def mm_resume_def media_arrives_def
  take_stream_def devices_arrive_def end_start_def list_audio_input_devices_def

lemma mic_running_state:
  "mic_running =
     (mm_initial (Some ''audio/webm''))\<lparr>mm_recording := True, mm_starting := False, mm_stream := Some 0,
       mm_recorder := Some \<lparr>rc_state = RecRecording, rc_gen = 1, rc_buffer = []\<rparr>, mm_gen := 1, mm_timer := True,
       mm_mime := Some ''audio/webm'', mm_live := [0], mm_next := 1\<rparr>"
  by (simp add: mic_running_def mic_run_defs)

lemma mic_running_live: "mm_live mic_running = [0]"
  by (simp add: mic_running_state)

lemma mic_running_reach: "mic_reach mic_running"
  unfolding mic_reach_def mic_running_def
  by (rule exI [of _ "Some ''audio/webm''"], intro goes_on_steps mic_done) (simp_all add: mic_run_defs)

lemma mic_reach_step: "mic_reach s \<Longrightarrow> mic_step s t \<Longrightarrow> mic_reach t"
  by (auto simp: mic_reach_def intro: mic_more)

lemma mic_reach_goes_on: "mic_reach s \<Longrightarrow> mm_pending s \<noteq> [] \<Longrightarrow> mic_reach (goes_on s)"
  by (auto simp: mic_reach_def intro: goes_on_steps)

text \<open>A change of the device, closed while the old recorder still stops.\<close>

definition closed_in_switch :: mic_modal where
  "closed_in_switch = handle_close (handle_device_change ''usb'' mic_running)"

lemma closed_in_switch_state:
  "mic_reach closed_in_switch \<and> \<not> mm_open closed_in_switch \<and> mm_live closed_in_switch = []
   \<and> mm_pending closed_in_switch = [PRelease (Some (''usb'', ''audio/webm'', FromDeviceChange))]"
proof -
  have "mic_reach (handle_device_change ''usb'' mic_running)"
    using mic_running_reach
    by (rule mic_reach_step) (rule device_click, simp_all add: mic_running_state mm_initial_def select_disabled_def)
  then have "mic_reach closed_in_switch"
    unfolding closed_in_switch_def
    by (rule mic_reach_step) (rule close_click,
      simp add: mic_running_state handle_device_change_def mm_initial_def mic_run_defs)
  then show ?thesis
    by (simp add: closed_in_switch_def handle_close_def on_close_def handle_device_change_def mic_running_state
        mm_initial_def mic_run_defs)
qed

lemma stays_live: "\<exists>u. mic_reach u \<and> \<not> mm_open u \<and> mm_pending u = [] \<and> mm_live u \<noteq> []"
proof -
  let ?c = closed_in_switch
  note c = closed_in_switch_state
  have a: "mm_pending (goes_on ?c) = [PMedia (mm_gen ?c) ''usb'' ''audio/webm'' FromDeviceChange]
      \<and> mm_gen (goes_on ?c) = mm_gen ?c \<and> \<not> mm_open (goes_on ?c)"
    using c by (simp add: mic_run_defs)
  have b: "mm_pending (goes_on (goes_on ?c)) = [PDevices FromDeviceChange] \<and> mm_live (goes_on (goes_on ?c)) \<noteq> []
      \<and> \<not> mm_open (goes_on (goes_on ?c))"
    using a by (simp add: goes_on_def [of "goes_on ?c"] mm_resume_def media_arrives_def take_stream_def mm_wait_def)
  have "mm_pending (goes_on (goes_on (goes_on ?c))) = [] \<and> mm_live (goes_on (goes_on (goes_on ?c))) \<noteq> []
      \<and> \<not> mm_open (goes_on (goes_on (goes_on ?c)))"
    using b by (simp add: goes_on_def [of "goes_on (goes_on ?c)"] mm_resume_def devices_arrive_def end_start_def
        list_audio_input_devices_def)
  moreover have "mic_reach (goes_on (goes_on (goes_on ?c)))"
    using a b c by (intro mic_reach_goes_on) simp_all
  ultimately show ?thesis by blast
qed

text \<open>C37: Whatever the user, the recorder and the browser do, and in whatever order the handlers that wait go on,
  at most one microphone stream is live, and it is the one the dialog holds. Closing the dialog stops it for good,
  whatever comes after, unless a change of the device or a save is just waiting for the old recorder to stop:
  \<open>startCapture\<close> goes on behind its release without asking whether the dialog is still there, and a dialog closed
  in that moment leaves a microphone live that nothing will ever stop.\<close>

theorem closing_releases_the_microphone:
  "(mic_reach s \<longrightarrow> set (mm_live s) \<subseteq> set_option (mm_stream s))
   \<and> (mic_reach s \<and> mm_open s \<and> list_all (\<lambda>p. \<not> hands_over p) (mm_pending s) \<and> mic_steps (handle_close s) t
      \<longrightarrow> mm_live t = [] \<and> \<not> mm_open t)
   \<and> (\<exists>u. mic_reach u \<and> \<not> mm_open u \<and> mm_pending u = [] \<and> mm_live u \<noteq> [])"
proof (intro conjI impI)
  show "set (mm_live s) \<subseteq> set_option (mm_stream s)" if "mic_reach s"
    using mic_reach_inv [OF that] by (simp add: mic_inv_def)
next
  assume a: "mic_reach s \<and> mm_open s \<and> list_all (\<lambda>p. \<not> hands_over p) (mm_pending s) \<and> mic_steps (handle_close s) t"
  then have "mic_quiet (handle_close s)" by (elim conjE) (rule close_quiet [OF mic_reach_inv])
  with a have "mic_quiet t" by (elim conjE) (rule quiet_steps)
  then show "mm_live t = []" "\<not> mm_open t" by (simp_all add: mic_quiet_def)
qed (rule stays_live)

theorem closing_releases_the_microphone_witness:
  "mm_live mic_running = [0] \<and> mm_live (handle_close mic_running) = []"
proof -
  have "mic_reach mic_running \<and> mm_open mic_running \<and> list_all (\<lambda>p. \<not> hands_over p) (mm_pending mic_running)"
    using mic_running_reach by (simp add: mic_running_state mm_initial_def)
  then show ?thesis
    using closing_releases_the_microphone [of mic_running "handle_close mic_running"]
      mic_done [of "handle_close mic_running"] by (auto simp: mic_running_live)
qed

section \<open>What is saved\<close>

lemma on_close_saved [simp]: "mm_saved (on_close s) = mm_saved s"
  by (simp add: on_close_def release_capture_def start_go_def release_end_def release_begin_def stop_stream_def mm_wait_def)

lemma paused_mute: "\<exists>s. mic_reach s \<and> save_ready s \<and> \<not> mm_busy s \<and> \<not> mm_saving s \<and> handle_save s = s"
proof -
  have "mic_reach (toggle_transport mic_running)"
    using mic_running_reach by (rule mic_reach_step) (rule toggle_click, simp add: mic_running_state mm_initial_def)
  then show ?thesis
    by (intro exI [of _ "toggle_transport mic_running"])
       (simp add: toggle_transport_def can_toggle_def pause_capture_def save_ready_def handle_save_def mic_running_state
         mm_initial_def)
qed

text \<open>What the dialog hands over when it saves the slices \<open>cs\<close> under the format \<open>m\<close>: one file from 512 bytes on.\<close>

definition file_of :: "string \<Rightarrow> string list \<Rightarrow> (string \<times> string) list" where
  "file_of m cs = (if 512 \<le> length (concat cs) then [(m, concat cs)] else [])"

lemma start_capture_saved [simp]: "mm_saved (start_capture dev src s) = mm_saved s"
  by (simp add: start_capture_def end_start_def release_capture_def start_go_def release_end_def release_begin_def
      stop_stream_def mm_wait_def emit_def split: option.split)

lemma finish_save_file:
  "mm_saved (finish_save mime s) = mm_saved s @ file_of (or_default (mm_mime s) mime) (mm_chunks s)"
  by (simp add: finish_save_def file_of_def min_recording_upload_bytes_def Let_def stop_stream_def emit_def)

lemma save_failed_saved: "mm_saved (save_failed e s) = mm_saved s"
  by (simp add: save_failed_def emit_def)

text \<open>C38: Saving hands over, as one file, the slices the recorder has delivered, in their order and under the format they were
  recorded in, and only when they have at least 512 bytes; with less, or when the recorder fails to stop, nothing is handed over
  and an error is shown. What the recorder has heard since its last slice is never part of it: the handler that would keep
  it is detached before the recorder is stopped, and a slice that comes while the dialog waits for the stop changes nothing. So of a
  recording whose first slice has not come nothing can be saved. While the dialog starts, changes the device, saves or uploads, or has neither
  sound nor a running recording, the Save button does nothing; a recording paused before its first slice is such a
  state in which the button is shown as ready.\<close>

theorem saved_without_the_tail:
  "(let m = or_default (mm_mime s) ''audio/webm''; t = handle_save s in
    if (mm_has_audio s \<or> mm_recording s) \<and> \<not> mm_saving s \<and> \<not> mm_busy s \<and> \<not> mm_starting s \<and> \<not> mm_switching s
    then (if rec_active (mm_recorder s)
          then PFinal m \<in> set (mm_pending t) \<and> mm_saved t = mm_saved s \<and> slice_arrives t = t \<and> mm_chunks t = mm_chunks s
            \<and> mm_saved (mm_resume (PFinal m) a d None t) = mm_saved s @ file_of m (mm_chunks s)
            \<and> (file_of m (mm_chunks s) = [] \<longrightarrow>
                 EvToast (JsError ''library.recordTooShort'') None \<in> set (events (mm_resume (PFinal m) a d None t)))
            \<and> mm_saved (mm_resume (PFinal m) a d (Some e) t) = mm_saved s
            \<and> EvToast e None \<in> set (events (mm_resume (PFinal m) a d (Some e) t))
          else mm_saved t = mm_saved s @ file_of m (mm_chunks s))
    else t = s)
   \<and> mm_chunks (hears x s) = mm_chunks s
   \<and> file_of m [] = []
   \<and> (\<exists>q. mic_reach q \<and> save_ready q \<and> \<not> mm_busy q \<and> \<not> mm_saving q \<and> handle_save q = q)"
proof -
  let ?m = "or_default (mm_mime s) ''audio/webm''"
  have h: "mm_chunks (hears x s) = mm_chunks s" by (simp add: hears_def split: option.split)
  have n: "file_of m [] = []" by (simp add: file_of_def)
  have idem: "or_default (mm_mime s) ?m = ?m" by (simp add: or_default_def split: option.split)
  have shown: "EvToast f None \<in> set (events (start_capture dev src (emit (EvToast f None) u\<lparr>mm_saving := False\<rparr>)))" for f dev src u
    by (simp add: start_capture_def end_start_def on_close_def release_capture_def start_go_def release_end_def
        release_begin_def stop_stream_def mm_wait_def emit_def split: option.split)
  show ?thesis
  proof (cases "(mm_has_audio s \<or> mm_recording s) \<and> \<not> mm_saving s \<and> \<not> mm_busy s \<and> \<not> mm_starting s \<and> \<not> mm_switching s")
    case False
    then show ?thesis using h n paused_mute by (auto simp: handle_save_def Let_def)
  next
    case True
    show ?thesis
    proof (cases "rec_active (mm_recorder s)")
      case act: True
      define t where "t = handle_save s"
      have t: "PFinal ?m \<in> set (mm_pending t)" "mm_chunks t = mm_chunks s" "mm_mime t = mm_mime s"
          "mm_saved t = mm_saved s" "slice_arrives t = t"
        using True act by (auto simp: t_def handle_save_def Let_def mm_wait_def slice_arrives_def)
      have ok: "mm_resume (PFinal ?m) a d None t = finish_save ?m (taken (PFinal ?m) t)"
        and failed: "mm_resume (PFinal ?m) a d (Some e) t = save_failed e (taken (PFinal ?m) t)"
        by (simp_all add: mm_resume_taken)
      have k: "mm_chunks (taken p t) = mm_chunks t" "mm_mime (taken p t) = mm_mime t" "mm_saved (taken p t) = mm_saved t" for p
        by (simp_all add: taken_def)
      have short: "file_of ?m (mm_chunks s) = [] \<longrightarrow>
          EvToast (JsError ''library.recordTooShort'') None \<in> set (events (finish_save ?m (taken (PFinal ?m) t)))"
        using shown k t(2) by (auto simp: finish_save_def file_of_def min_recording_upload_bytes_def Let_def stop_stream_def
            split: if_splits)
      show ?thesis
        using True act t h n paused_mute shown [of e] short idem
        by (simp add: t_def [symmetric] ok failed finish_save_file save_failed_saved k Let_def) (simp add: save_failed_def)
    next
      case False
      have "mm_saved (handle_save s) = mm_saved s @ file_of ?m (mm_chunks s)"
        using True False idem by (auto simp: handle_save_def Let_def finish_save_file)
      then show ?thesis using True False h n paused_mute unfolding Let_def by (simp only: simp_thms if_True if_False)
    qed
  qed
qed

text \<open>A recording of one slice of 512 bytes.\<close>

definition one_slice :: mic_modal where
  "one_slice = slice_arrives (hears (replicate 512 (CHR ''x'')) mic_running)"

lemma one_slice_fields:
  "mm_recorder one_slice = Some \<lparr>rc_state = RecRecording, rc_gen = 1, rc_buffer = []\<rparr>"
  "mm_recording one_slice" "\<not> mm_saving one_slice" "\<not> mm_busy one_slice" "\<not> mm_starting one_slice"
  "\<not> mm_switching one_slice" "mm_chunks one_slice = [replicate 512 (CHR ''x'')]" "mm_mime one_slice = Some ''audio/webm''"
  "mm_saved one_slice = []"
  by (simp_all add: one_slice_def mic_running_state mm_initial_def hears_def slice_arrives_def Let_def)

theorem saved_without_the_tail_witness:
  "mm_saved (mm_resume (PFinal ''audio/webm'') MediaGranted (Inr []) None (handle_save one_slice))
     = [(''audio/webm'', replicate 512 (CHR ''x''))]"
proof -
  have m: "or_default (mm_mime one_slice) ''audio/webm'' = ''audio/webm''" by (simp add: one_slice_fields or_default_def)
  have r: "rec_active (mm_recorder one_slice)" by (simp add: one_slice_fields rec_active_def)
  show ?thesis
    using saved_without_the_tail [of one_slice MediaGranted "Inr []"] r
    unfolding Let_def m by (simp add: one_slice_fields file_of_def)
qed

end
