(* ===== verification/Models.thy ===== *)
theory Models
  imports Hub_Effects "HOL-Library.Multiset"
begin

text \<open>
  The choice of recognition and summary models (\<open>transcribeModels.ts\<close>, \<open>summarizeModels.ts\<close>), the order of the
  tariffs on the landing page (\<open>landingTariffLayout.ts\<close>, \<open>LandingTariffGrid.tsx\<close>), the GMT offsets
  (\<open>util/timezones.ts\<close>), and two small label functions (\<open>skillScope.ts\<close>, \<open>toneLabels.ts\<close>).

  A model choice has an abstract form: inherit what the organisation has, switch it off, or use a model. The form
  field, the stored preference and the request body each encode it in their own way.
\<close>

section \<open>Transcription and summary models\<close>

definition dispatchable_pairs :: "transcribe_models \<Rightarrow> dispatchable_pair list" where
  "dispatchable_pairs m = nullish (tm_dispatchable_pairs m) []"

definition diarization_options_for_asr :: "transcribe_models \<Rightarrow> string \<Rightarrow> string list" where
  "diarization_options_for_asr m asr =
     sort (uniq (map (\<lambda>p. str_or_empty (pair_diarization p))
       (filter (\<lambda>p. pair_asr p = asr \<and> truthy (pair_diarization p)) (dispatchable_pairs m))))"

definition is_dispatchable_combo :: "transcribe_models \<Rightarrow> string \<Rightarrow> string option \<Rightarrow> bool" where
  "is_dispatchable_combo m asr diar =
     (if \<not> truthy diar then list_ex (\<lambda>p. pair_asr p = asr) (dispatchable_pairs m)
      else list_ex (\<lambda>p. pair_asr p = asr \<and> pair_diarization p = diar) (dispatchable_pairs m))"

definition resolve_effective_asr :: "string \<Rightarrow> transcribe_prefs \<Rightarrow> string" where
  "resolve_effective_asr choice prefs = (if choice = ''inherit'' then tp_instance_asr_model prefs else choice)"

definition resolve_effective_diarization :: "string \<Rightarrow> transcribe_prefs \<Rightarrow> string option" where
  "resolve_effective_diarization choice prefs =
     (if choice = ''inherit'' then tp_instance_diarization_model prefs
      else if choice = ''off'' then None else Some choice)"

definition resolve_effective_summarize_model :: "string \<Rightarrow> summarize_prefs \<Rightarrow> string option" where
  "resolve_effective_summarize_model choice prefs =
     (if choice = ''inherit'' then sp_instance_summarize_model prefs else Some choice)"

definition is_available_summarize_model :: "summarize_models \<Rightarrow> string option \<Rightarrow> bool" where
  "is_available_summarize_model m model =
     (if \<not> truthy model then True
      else if length (sm_models m) = 0 then True
      else str_or_empty model \<in> set (sm_models m))"

text \<open>The abstract choice, and its three encodings.\<close>

datatype choice = Inherit | Off | Use string

definition effective :: "string option \<Rightarrow> choice \<Rightarrow> string option" where
  "effective inst c = (case c of Inherit \<Rightarrow> inst | Off \<Rightarrow> None | Use m \<Rightarrow> Some m)"

definition choice_of_field :: "string \<Rightarrow> choice" where
  "choice_of_field f = (if f = ''inherit'' then Inherit else if f = ''off'' then Off else Use f)"

definition choice_of_stored :: "string option \<Rightarrow> choice" where
  "choice_of_stored v = (case v of None \<Rightarrow> Inherit | Some m \<Rightarrow> if m = [] then Off else Use m)"

lemma effective_field: "resolve_effective_diarization f prefs = effective (tp_instance_diarization_model prefs) (choice_of_field f)"
  by (simp add: resolve_effective_diarization_def effective_def choice_of_field_def)

lemma list_ex_iff_bex: "list_ex P xs = (\<exists>x \<in> set xs. P x)"
  by (induction xs) auto

text \<open>Every option the form offers for a model makes a combination that some worker can run, and no other
  named one does.\<close>

lemma options_dispatchable:
  "d \<noteq> [] \<Longrightarrow> is_dispatchable_combo m asr (Some d) \<longleftrightarrow> d \<in> set (diarization_options_for_asr m asr)"
  by (auto simp: is_dispatchable_combo_def diarization_options_for_asr_def list_ex_iff_bex image_iff)
     (metis option.sel str_or_empty_simps(2) truthy_simps option.exhaust)+

lemma options_sorted: "sorted (diarization_options_for_asr m asr) \<and> distinct (diarization_options_for_asr m asr)"
  by (simp add: diarization_options_for_asr_def)

section \<open>Time zones\<close>

definition timezone_options :: "string list" where
  "timezone_options =
     map (\<lambda>h. ''GMT-'' @ nat_str h) (rev [1 ..< 13]) @ [''GMT+0''] @ map (\<lambda>h. ''GMT+'' @ nat_str h) [1 ..< 15]"

text \<open>The expression \<open>^GMT([+-])(\d{1,2})$\<close>.\<close>

definition gmt_match :: "string \<Rightarrow> (char \<times> string) option" where
  "gmt_match text =
     (let r = drop 4 text in
      if starts_with text ''GMT'' \<and> 4 < length text \<and> (text ! 3 = CHR ''+'' \<or> text ! 3 = CHR ''-'')
         \<and> length r \<le> 2 \<and> list_all is_digit r
      then Some (text ! 3, r) else None)"

definition gmt_to_intl_time_zone :: "string \<Rightarrow> string" where
  "gmt_to_intl_time_zone gmt =
     (let text = trim gmt in
      if text = [] \<or> to_upper text = ''UTC'' \<or> text = ''GMT+0'' \<or> text = ''GMT-0'' then ''UTC''
      else (case gmt_match text of
              None \<Rightarrow> ''UTC''
            | Some (sign, hours) \<Rightarrow> if sign = CHR ''+'' then ''Etc/GMT-'' @ hours else ''Etc/GMT+'' @ hours))"

text \<open>Every offered zone is a zone of its own for the browser, with the sign the browser expects.\<close>

lemma timezone_options_map:
  "map gmt_to_intl_time_zone timezone_options =
     map (\<lambda>h. ''Etc/GMT+'' @ nat_str h) (rev [1 ..< 13]) @ [''UTC''] @ map (\<lambda>h. ''Etc/GMT-'' @ nat_str h) [1 ..< 15]"
  by code_simp

lemma timezone_options_distinct: "distinct (map gmt_to_intl_time_zone timezone_options)"
  by code_simp

section \<open>Labels\<close>

definition skill_scope_label :: "(string \<Rightarrow> string) \<Rightarrow> string \<Rightarrow> string option \<Rightarrow> string" where
  "skill_scope_label t scope catalog =
     (if catalog = Some ''shared'' \<or> scope = ''shared'' then t ''skills.shared''
      else if scope = ''base'' then t ''skills.base''
      else if scope = ''org'' then t ''skills.org''
      else if scope = ''self'' then t ''skills.self''
      else or_default catalog scope)"

text \<open>\<open>t\<close> takes the key and the default value.\<close>

definition tone_emotion_label :: "(string \<Rightarrow> string \<Rightarrow> string) \<Rightarrow> string \<Rightarrow> string" where
  "tone_emotion_label t key =
     (let normalized = to_lower (trim key) in
      if normalized = [] then key else t (''transcript.toneEmotion.'' @ normalized) key)"

definition tone_layer_label :: "(string \<Rightarrow> string \<Rightarrow> string) \<Rightarrow> string \<Rightarrow> string" where
  "tone_layer_label t key =
     (let normalized = to_lower (trim key) in
      if normalized = [] then key else t (''transcript.toneLayer.'' @ normalized) key)"

definition format_tone_layers :: "(string \<Rightarrow> string \<Rightarrow> string) \<Rightarrow> string list \<Rightarrow> string" where
  "format_tone_layers t layers = join '', '' (map (tone_layer_label t) layers)"

section \<open>Tariffs on the landing page\<close>

text \<open>\<open>num\<close> is the value of a credit as a number, \<open>None\<close> when it is not one; a comparison with such a
  value counts as equal in a sort. \<open>cmp\<close> is \<open>localeCompare\<close>.\<close>

definition landing_order :: "(string \<Rightarrow> rat option) \<Rightarrow> (string \<Rightarrow> string \<Rightarrow> int) \<Rightarrow> tariff \<Rightarrow> tariff \<Rightarrow> int" where
  "landing_order num cmp a b =
     (case (num (tariff_signup_credit a), num (tariff_signup_credit b)) of
        (Some x, Some y) \<Rightarrow> if x < y then -1 else if y < x then 1 else cmp (tariff_name a) (tariff_name b)
      | _ \<Rightarrow> 0)"

definition sort_tariffs_for_landing ::
  "(string \<Rightarrow> rat option) \<Rightarrow> (string \<Rightarrow> string \<Rightarrow> int) \<Rightarrow> tariff list \<Rightarrow> tariff list" where
  "sort_tariffs_for_landing num cmp ts = sort_by (landing_order num cmp) ts"

text \<open>\<open>rnd n\<close> is \<open>Math.floor (random () * n)\<close>.\<close>

definition pick_popular_tariff_id :: "(nat \<Rightarrow> nat) \<Rightarrow> tariff list \<Rightarrow> string option" where
  "pick_popular_tariff_id rnd ts =
     (let eligible = filter (\<lambda>x. \<not> tariff_archived x) ts in
      if eligible = [] then None
      else (let max_count = Max (set (map (\<lambda>x. nullish (tariff_org_count x) 0) eligible));
                tied = filter (\<lambda>x. nullish (tariff_org_count x) 0 = max_count) eligible in
            Some (tariff_id (tied ! rnd (length tied)))))"

definition arrange_tariffs_for_landing ::
  "(string \<Rightarrow> rat option) \<Rightarrow> (string \<Rightarrow> string \<Rightarrow> int) \<Rightarrow> (nat \<Rightarrow> nat) \<Rightarrow> tariff list
     \<Rightarrow> tariff list \<times> string option" where
  "arrange_tariffs_for_landing num cmp rnd ts =
     (if ts = [] then ([], None)
      else (let pid = pick_popular_tariff_id rnd ts in
            if \<not> truthy pid \<or> length ts = 1 then (sort_tariffs_for_landing num cmp ts, pid)
            else (case find (\<lambda>x. Some (tariff_id x) = pid) ts of
                    None \<Rightarrow> ([], pid)
                  | Some popular \<Rightarrow>
                      (let others = sort_tariffs_for_landing num cmp (filter (\<lambda>x. Some (tariff_id x) \<noteq> pid) ts) in
                       if length ts \<le> 3
                       then (let mid = length ts div 2 in (take mid others @ [popular] @ drop mid others, pid))
                       else if 2 \<le> length others
                       then ([others ! 0, popular, others ! 1] @ drop 2 others, pid)
                       else ([others ! 0, popular], pid)))))"

definition landing_tariff_subtitle_key :: "nat \<Rightarrow> nat \<Rightarrow> string" where
  "landing_tariff_subtitle_key i n =
     (if n \<le> 1 then ''regular'' else if i = 0 then ''regular'' else if i = n - 1 then ''expert'' else ''standard'')"

definition landing_page_size :: nat where
  "landing_page_size = 3"

definition landing_page_count :: "tariff list \<Rightarrow> nat" where
  "landing_page_count ts = (length ts + landing_page_size - 1) div landing_page_size"

definition uri_component :: "string \<Rightarrow> string" where
  "uri_component s =
     concat (map (\<lambda>c. if (unreserved c \<or> c \<in> set [CHR ''!'', CHR ''~'', CHR 0x27, CHR ''('', CHR '')'']) then [c] else concat (map pct (utf8 c))) s)"

text \<open>The cards of a page: tariff, popular, subtitle, link.\<close>

definition landing_cards :: "tariff list \<Rightarrow> string option \<Rightarrow> nat \<Rightarrow> (tariff \<times> bool \<times> string \<times> string) list" where
  "landing_cards ts pid page =
     map (\<lambda>(i, x). (x, Some (tariff_id x) = pid, landing_tariff_subtitle_key (page * landing_page_size + i) (length ts),
                   ''/signup?tariff='' @ uri_component (tariff_id x)))
       (enumerate 0 (take landing_page_size (drop (page * landing_page_size) ts)))"

definition landing_clamped_page :: "tariff list \<Rightarrow> nat \<Rightarrow> nat" where
  "landing_clamped_page ts page = (if landing_page_count ts \<le> page then landing_page_count ts - 1 else page)"

text \<open>The popular tariff is one of the best sold, and arranging loses no tariff.\<close>

lemma tied_in: "rnd (length xs) < length xs \<Longrightarrow> xs ! rnd (length xs) \<in> set xs"
  by simp

lemma pick_popular_best:
  assumes "pick_popular_tariff_id rnd ts = Some i" and "\<And>n. 0 < n \<Longrightarrow> rnd n < n"
  shows "\<exists>x \<in> set ts. tariff_id x = i \<and> \<not> tariff_archived x
    \<and> (\<forall>y \<in> set ts. \<not> tariff_archived y \<longrightarrow> nullish (tariff_org_count y) 0 \<le> nullish (tariff_org_count x) 0)"
proof -
  let ?count = "\<lambda>x. nullish (tariff_org_count x) 0"
  let ?el = "filter (\<lambda>x. \<not> tariff_archived x) ts"
  let ?max = "Max (set (map ?count ?el))"
  let ?tied = "filter (\<lambda>x. ?count x = ?max) ?el"
  have el: "?el \<noteq> []" using assms(1) by (auto simp: pick_popular_tariff_id_def Let_def split: if_splits)
  then have "set (map ?count ?el) \<noteq> {}" by (metis map_is_Nil_conv set_empty)
  then have "?max \<in> set (map ?count ?el)" by (intro Max_in) simp_all
  then have "?tied \<noteq> []" by (auto simp: filter_empty_conv)
  then have "?tied ! rnd (length ?tied) \<in> set ?tied" using assms(2) by (intro tied_in) simp
  moreover have "i = tariff_id (?tied ! rnd (length ?tied))"
    using assms(1) el by (simp add: pick_popular_tariff_id_def Let_def)
  moreover have "?count y \<le> ?max" if "y \<in> set ?el" for y using that by (intro Max_ge) auto
  ultimately show ?thesis by auto
qed

lemma find_only:
  assumes "distinct (map f xs)" and "find (\<lambda>x. f x = k) xs = Some p"
  shows "mset xs = add_mset p (mset (filter (\<lambda>x. f x \<noteq> k) xs))"
  using assms
proof (induction xs)
  case (Cons a xs)
  show ?case
  proof (cases "f a = k")
    case True
    then have "\<forall>x \<in> set xs. f x \<noteq> k" using Cons.prems(1) by (metis distinct.simps(2) image_eqI list.map(2) set_map)
    then have "filter (\<lambda>x. f x \<noteq> k) xs = xs" by (simp add: filter_id_conv)
    then show ?thesis using True Cons.prems(2) by simp
  next
    case False
    then show ?thesis using Cons by simp
  qed
qed simp

lemma mset_insert_by [simp]: "mset (insert_by cmp x ys) = add_mset x (mset ys)"
  by (induction ys) auto

lemma mset_sort_by [simp]: "mset (sort_by cmp xs) = mset xs"
  unfolding sort_by_def by (induction xs) auto

lemma find_isin: "\<exists>x \<in> set xs. P x \<Longrightarrow> \<exists>p. find P xs = Some p"
  by (induction xs) auto

lemma split_at: "mset (take n xs @ [p] @ drop n xs) = add_mset p (mset xs)"
  by (metis append_take_drop_id mset.simps(2) mset_append union_mset_add_mset_right append_Cons append_Nil)

lemma two_or_more: "2 \<le> length xs \<Longrightarrow> \<exists>a b c. xs = a # b # c"
  by (cases xs rule: remdups_adj.cases) auto

lemma arrange_keeps_tariffs:
  assumes "distinct (map tariff_id ts)" and "\<And>n. 0 < n \<Longrightarrow> rnd n < n"
  shows "mset (fst (arrange_tariffs_for_landing num cmp rnd ts)) = mset ts"
proof (cases "ts = [] \<or> \<not> truthy (pick_popular_tariff_id rnd ts) \<or> length ts = 1")
  case True
  then show ?thesis by (auto simp: arrange_tariffs_for_landing_def sort_tariffs_for_landing_def Let_def)
next
  case False
  then obtain i where i: "pick_popular_tariff_id rnd ts = Some i" "ts \<noteq> []" "i \<noteq> []" "length ts \<noteq> 1"
    by (cases "pick_popular_tariff_id rnd ts") auto
  obtain p where p: "find (\<lambda>x. tariff_id x = i) ts = Some p"
    using find_isin [of ts "\<lambda>x. tariff_id x = i"] pick_popular_best [OF i(1) assms(2)] by blast
  let ?o = "sort_tariffs_for_landing num cmp (filter (\<lambda>x. tariff_id x \<noteq> i) ts)"
  have m: "mset ts = add_mset p (mset ?o)"
    using find_only [OF assms(1) p] by (simp add: sort_tariffs_for_landing_def)
  have small: "mset (take n ?o @ [p] @ drop n ?o) = mset ts" for n by (simp only: split_at m)
  have big: "mset ([?o ! 0, p, ?o ! 1] @ drop 2 ?o) = mset ts" if two: "2 \<le> length ?o"
  proof -
    obtain a b c where abc: "?o = a # b # c" using two_or_more [OF two] by blast
    show ?thesis unfolding m by (simp add: abc)
  qed
  have "Suc (length ?o) = length ts" using arg_cong [OF m, of size] by simp
  then show ?thesis
    using i p small [of "length ts div 2"] big by (simp add: arrange_tariffs_for_landing_def Let_def)
qed

end
