(* ===== verification/Profile.thy ===== *)
theory Profile
  imports Auth Models
begin

text \<open>
  The profile page (\<open>pages/profile/useProfilePageModel.ts\<close> and the parts of its tabs that decide something):
  drafts of the user's preferences, what may be saved, the handlers that save, the API tokens, the second factor,
  the backup, and deleting the account. The page's state extends the session. Two effects copy the user's stored
  preferences into the drafts whenever the session has a new user object; \<open>sync_drafts\<close> is both of them.
\<close>

section \<open>State\<close>

record api_token =
  tok_id :: string
  tok_name :: string
  tok_prefix :: string
  tok_revoked :: bool
  tok_blocked_by_tariff :: bool
  tok_created_at :: string

record delete_candidate =
  dc_id :: string
  dc_email :: string
  dc_role :: string

record account_delete_preview =
  dp_requires_successor :: bool
  dp_will_delete_org :: bool
  dp_candidates :: "delete_candidate list"

text \<open>Mode, then created and updated transcripts, summaries and skills.\<close>

type_synonym restore_result = "string \<times> (nat \<times> nat) \<times> (nat \<times> nat) \<times> (nat \<times> nat)"

record profile_page = auth_state +
  pf_current :: string
  pf_next :: string
  pf_tokens :: "api_token list"
  pf_token_name :: string
  pf_secret :: "string option"
  pf_creating :: bool
  pf_ok :: bool
  pf_route_ok :: bool
  pf_date_ok :: bool
  pf_format :: string
  pf_zone :: string
  pf_asr :: string
  pf_diar :: string
  pf_tone :: bool
  pf_transcribe_ok :: bool
  pf_summarize :: string
  pf_summarize_ok :: bool
  pf_bot :: string
  pf_bot_ok :: bool
  pf_first :: string
  pf_last :: string
  pf_names_synced :: bool
  pf_names_ok :: bool
  pf_route :: string
  pf_backup_transcripts :: bool
  pf_backup_summaries :: bool
  pf_backup_skills :: bool
  pf_backup_zip :: bool
  pf_backing_up :: bool
  pf_restoring :: bool
  pf_restore_message :: "restore_result option"
  pf_disable_pw :: string
  pf_disable_code :: string
  pf_mfa_busy :: bool
  pf_totp :: string
  pf_totp_open :: bool
  pf_delete_open :: bool
  pf_delete_preview :: "account_delete_preview option"
  pf_delete_pw :: string
  pf_delete_totp :: string
  pf_successor :: string
  pf_delete_busy :: bool
  pf_shell_busy :: bool

section \<open>From the stored preferences to the drafts\<close>

definition date_time_formats :: "string list" where
  "date_time_formats = [''eu_24h'', ''us_12h'', ''iso'', ''relative'']"

definition stored_default_route :: "me option \<Rightarrow> string" where
  "stored_default_route m =
     (let stored = normalize_default_route (map_option (\<lambda>x. user_default_route (me_user x)) m);
          allowed = allowed_default_routes m in
      if truthy stored \<and> str_or_empty stored \<in> set allowed then str_or_empty stored else hd allowed)"

definition saved_format :: "user \<Rightarrow> string" where
  "saved_format u =
     (if truthy (user_date_time_format u) \<and> str_or_empty (user_date_time_format u) \<in> set date_time_formats
      then str_or_empty (user_date_time_format u) else ''inherit'')"

definition field_of_stored :: "string option \<Rightarrow> string" where
  "field_of_stored v = (case v of None \<Rightarrow> ''inherit'' | Some m \<Rightarrow> if m = [] then ''off'' else m)"

definition sync_prefs :: "me option \<Rightarrow> 'z profile_page_scheme \<Rightarrow> 'z profile_page_scheme" where
  "sync_prefs m s =
     (case m of
        None \<Rightarrow> s\<lparr>pf_names_synced := False\<rparr>
      | Some x \<Rightarrow>
          (let u = me_user x in
           s\<lparr>pf_format := saved_format u,
             pf_zone := or_default (user_timezone u) ''inherit'',
             pf_asr := or_default (user_asr_model u) ''inherit'',
             pf_diar := field_of_stored (user_diarization_model u),
             pf_tone := nullish (user_tone_analytics u) True,
             pf_summarize := or_default (user_summarize_model u) ''inherit'',
             pf_bot := str_or_empty (user_capture_bot_name u),
             pf_first := str_or_empty (user_first_name u),
             pf_last := str_or_empty (user_last_name u),
             pf_names_synced := True\<rparr>))"

definition sync_route :: "me option \<Rightarrow> 'z profile_page_scheme \<Rightarrow> 'z profile_page_scheme" where
  "sync_route m s = s\<lparr>pf_route := stored_default_route m\<rparr>"

definition sync_drafts :: "'z profile_page_scheme \<Rightarrow> 'z profile_page_scheme" where
  "sync_drafts s = sync_prefs (au_me s) (sync_route (au_me s) s)"

section \<open>What may be saved\<close>

definition on_me :: "'a \<Rightarrow> (me \<Rightarrow> 'a) \<Rightarrow> 'z profile_page_scheme \<Rightarrow> 'a" where
  "on_me d f s = (case au_me s of None \<Rightarrow> d | Some x \<Rightarrow> f x)"

definition available_diarization_models :: "'z profile_page_scheme \<Rightarrow> string list" where
  "available_diarization_models s =
     on_me [] (\<lambda>x. diarization_options_for_asr (me_transcribe_models x)
                      (resolve_effective_asr (pf_asr s) (me_transcribe_prefs x))) s"

definition transcribe_combo_valid :: "'z profile_page_scheme \<Rightarrow> bool" where
  "transcribe_combo_valid s =
     on_me True (\<lambda>x. is_dispatchable_combo (me_transcribe_models x)
                       (resolve_effective_asr (pf_asr s) (me_transcribe_prefs x))
                       (resolve_effective_diarization (pf_diar s) (me_transcribe_prefs x))) s"

definition summarize_model_valid :: "'z profile_page_scheme \<Rightarrow> bool" where
  "summarize_model_valid s =
     on_me True (\<lambda>x. is_available_summarize_model (me_summarize_models x)
                       (resolve_effective_summarize_model (pf_summarize s) (me_summarize_prefs x))) s"

definition saved_diarization :: "'z profile_page_scheme \<Rightarrow> string" where
  "saved_diarization s = on_me ''inherit'' (\<lambda>x. field_of_stored (user_diarization_model (me_user x))) s"

definition saved_asr :: "'z profile_page_scheme \<Rightarrow> string" where
  "saved_asr s = on_me ''inherit'' (\<lambda>x. or_default (user_asr_model (me_user x)) ''inherit'') s"

definition saved_tone :: "'z profile_page_scheme \<Rightarrow> bool" where
  "saved_tone s = on_me True (\<lambda>x. nullish (user_tone_analytics (me_user x)) True) s"

definition transcribe_dirty :: "'z profile_page_scheme \<Rightarrow> bool" where
  "transcribe_dirty s \<longleftrightarrow> pf_asr s \<noteq> saved_asr s \<or> pf_diar s \<noteq> saved_diarization s \<or> pf_tone s \<noteq> saved_tone s"

definition only_tone_pref_dirty :: "'z profile_page_scheme \<Rightarrow> bool" where
  "only_tone_pref_dirty s \<longleftrightarrow>
     pf_tone s \<noteq> saved_tone s \<and> pf_asr s = saved_asr s \<and> pf_diar s = saved_diarization s"

definition transcribe_ready :: "'z profile_page_scheme \<Rightarrow> bool" where
  "transcribe_ready s \<longleftrightarrow> transcribe_dirty s \<and> (only_tone_pref_dirty s \<or> transcribe_combo_valid s)"

definition summarize_dirty :: "'z profile_page_scheme \<Rightarrow> bool" where
  "summarize_dirty s \<longleftrightarrow>
     pf_summarize s \<noteq> on_me ''inherit'' (\<lambda>x. or_default (user_summarize_model (me_user x)) ''inherit'') s"

definition summarize_ready :: "'z profile_page_scheme \<Rightarrow> bool" where
  "summarize_ready s \<longleftrightarrow> summarize_dirty s \<and> summarize_model_valid s"

definition date_time_dirty :: "'z profile_page_scheme \<Rightarrow> bool" where
  "date_time_dirty s \<longleftrightarrow>
     pf_format s \<noteq> on_me ''inherit'' (\<lambda>x. saved_format (me_user x)) s
     \<or> pf_zone s \<noteq> on_me ''inherit'' (\<lambda>x. or_default (user_timezone (me_user x)) ''inherit'') s"

definition default_route_dirty :: "'z profile_page_scheme \<Rightarrow> bool" where
  "default_route_dirty s \<longleftrightarrow> pf_route s \<noteq> stored_default_route (au_me s)"

definition capture_bot_dirty :: "'z profile_page_scheme \<Rightarrow> bool" where
  "capture_bot_dirty s \<longleftrightarrow>
     trim (pf_bot s) \<noteq> trim (on_me [] (\<lambda>x. str_or_empty (user_capture_bot_name (me_user x))) s)"

definition names_dirty :: "'z profile_page_scheme \<Rightarrow> bool" where
  "names_dirty s \<longleftrightarrow> pf_names_synced s
     \<and> (trim (pf_first s) \<noteq> trim (on_me [] (\<lambda>x. str_or_empty (user_first_name (me_user x))) s)
        \<or> trim (pf_last s) \<noteq> trim (on_me [] (\<lambda>x. str_or_empty (user_last_name (me_user x))) s))"

definition password_ready :: "'z profile_page_scheme \<Rightarrow> bool" where
  "password_ready s \<longleftrightarrow> 0 < length (trim (pf_current s)) \<and> 8 \<le> length (trim (pf_next s))"

definition capture_bot_effective :: "'z profile_page_scheme \<Rightarrow> string" where
  "capture_bot_effective s =
     on_me [] (\<lambda>x. if trim (pf_bot s) \<noteq> [] then trim (pf_bot s) else cp_org_bot_display_name (me_capture_prefs x)) s"

definition show_transcribe_section :: "me option \<Rightarrow> bool" where
  "show_transcribe_section m =
     (case m of
        None \<Rightarrow> False
      | Some x \<Rightarrow> 0 < length (tm_asr_models (me_transcribe_models x))
                 \<or> 0 < length (tm_diarization_models (me_transcribe_models x)) \<or> me_org x \<noteq> None)"

definition show_summarize_section :: "me option \<Rightarrow> bool" where
  "show_summarize_section m =
     (case m of None \<Rightarrow> False | Some x \<Rightarrow> 0 < length (sm_models (me_summarize_models x)))"

definition show_capture_section :: "me option \<Rightarrow> bool" where
  "show_capture_section m = (case m of None \<Rightarrow> False | Some x \<Rightarrow> cp_capture_enabled (me_capture_prefs x))"

definition show_models_tab :: "me option \<Rightarrow> bool" where
  "show_models_tab m \<longleftrightarrow> show_transcribe_section m \<or> show_summarize_section m \<or> show_capture_section m"

definition api_allowed :: "me option \<Rightarrow> bool" where
  "api_allowed m =
     (case Option.bind m me_org of None \<Rightarrow> True | Some g \<Rightarrow> tariff_api_enabled (org_tariff g))"

definition active_tokens :: "'z profile_page_scheme \<Rightarrow> api_token list" where
  "active_tokens s = filter (\<lambda>x. \<not> tok_revoked x) (pf_tokens s)"

definition can_delete_account :: "me option \<Rightarrow> bool" where
  "can_delete_account m = (case m of None \<Rightarrow> False | Some x \<Rightarrow> \<not> user_is_instance_admin (me_user x))"

definition org_label :: "me option \<Rightarrow> string" where
  "org_label m =
     (case Option.bind m me_org of
        None \<Rightarrow> ''profile.noOrg''
      | Some g \<Rightarrow> if org_is_personal g then ''profile.personalOrg'' else org_name g)"

definition mfa_summary :: "me option \<Rightarrow> string \<times> string" where
  "mfa_summary m =
     (if \<not> local_auth_profile_visible m then (''profile.mfaViaSso'', ''default'')
      else if (case m of None \<Rightarrow> False | Some x \<Rightarrow> me_mfa_enabled x) then (''profile.mfaOn'', ''proxy-up'')
      else (''profile.mfaOff'', ''proxy-down''))"

definition format_name :: "date_time_format_id \<Rightarrow> string" where
  "format_name f = (case f of Eu_24h \<Rightarrow> ''eu_24h'' | Us_12h \<Rightarrow> ''us_12h'' | Iso \<Rightarrow> ''iso'' | Relative \<Rightarrow> ''relative'')"

text \<open>Format and zone of the preview; the formatter itself is the browser's.\<close>

definition date_time_preview_prefs :: "me \<Rightarrow> 'z profile_page_scheme \<Rightarrow> string \<times> string" where
  "date_time_preview_prefs x s =
     (if pf_format s = ''inherit'' then format_name (dtp_instance_format (me_date_time_prefs x)) else pf_format s,
      if pf_zone s = ''inherit'' then dtp_instance_timezone (me_date_time_prefs x) else pf_zone s)"

section \<open>Tabs\<close>

definition profile_tabs :: "string list" where
  "profile_tabs = [''general'', ''models'', ''security'', ''data'', ''ui'']"

definition resolve_profile_tab :: "string option \<Rightarrow> string" where
  "resolve_profile_tab raw =
     (if truthy raw \<and> str_or_empty raw \<in> set profile_tabs then str_or_empty raw else ''general'')"

definition profile_tab_items :: "me option \<Rightarrow> string list" where
  "profile_tab_items m =
     [''general''] @ (if show_models_tab m then [''models''] else [])
       @ (if local_auth_profile_visible m then [''security''] else []) @ [''data'', ''ui'']"

definition profile_tab :: "me option \<Rightarrow> string option \<Rightarrow> string" where
  "profile_tab m raw =
     (if resolve_profile_tab raw \<in> set (profile_tab_items m) then resolve_profile_tab raw else ''general'')"

section \<open>Saving preferences\<close>

text \<open>\<open>await refresh ()\<close>, after which the effects see a new user.\<close>

definition refresh_page :: "(exn + bool) \<Rightarrow> (exn + me) \<Rightarrow> ('z profile_page_scheme, unit) act" where
  "refresh_page status_r me_r = bindA (refresh status_r me_r) (\<lambda>_. upd sync_drafts)"

text \<open>A setter of the session, likewise; without a user it does nothing.\<close>

definition patch_page :: "('z profile_page_scheme, unit) act \<Rightarrow> ('z profile_page_scheme, unit) act" where
  "patch_page setter = bindA (getsA au_me) (\<lambda>m. thenA setter (whenA (m \<noteq> None) (upd sync_drafts)))"

definition save_default_route :: "(exn + me) \<Rightarrow> ('z profile_page_scheme, unit) act" where
  "save_default_route me_r =
     bindA (getsA pf_route) (\<lambda>rt.
       thenA (upd (\<lambda>s. s\<lparr>pf_route_ok := False, pf_ok := False\<rparr>))
         (tryA (thenA (patch_page (set_default_route rt me_r)) (upd (\<lambda>s. s\<lparr>pf_route_ok := True\<rparr>))) show_error))"

definition pref_value :: "string \<Rightarrow> string option" where
  "pref_value f = (if f = ''inherit'' then None else Some f)"

definition save_date_time_prefs :: "(exn + me) \<Rightarrow> (exn + me) \<Rightarrow> ('z profile_page_scheme, unit) act" where
  "save_date_time_prefs format_r zone_r =
     bindA (getsA (\<lambda>s. (pf_format s, pf_zone s))) (\<lambda>(fmt, zone).
       thenA (upd (\<lambda>s. s\<lparr>pf_date_ok := False, pf_route_ok := False, pf_ok := False, pf_transcribe_ok := False\<rparr>))
         (tryA
           (thenA (patch_page (set_date_time_format (pref_value fmt) format_r))
             (thenA (patch_page (set_timezone (pref_value zone) zone_r))
               (upd (\<lambda>s. s\<lparr>pf_date_ok := True\<rparr>))))
           show_error))"

text \<open>\<open>PATCH /me\<close>, refresh, then the section's mark; an error is shown.\<close>

definition save_me ::
  "json \<Rightarrow> (exn + unit) \<Rightarrow> (exn + bool) \<Rightarrow> (exn + me) \<Rightarrow> ('z profile_page_scheme \<Rightarrow> 'z profile_page_scheme)
     \<Rightarrow> ('z profile_page_scheme, unit) act" where
  "save_me body patch_r status_r me_r mark =
     tryA
       (bindA (send_json patch_r ''PATCH'' ''/me'' (Some body)) (\<lambda>_.
          thenA (refresh_page status_r me_r) (upd mark)))
       show_error"

definition diarization_value :: "string \<Rightarrow> string option" where
  "diarization_value f = (if f = ''inherit'' then None else if f = ''off'' then Some [] else Some f)"

definition transcribe_body :: "'z profile_page_scheme \<Rightarrow> json" where
  "transcribe_body s =
     JObj [(''asr_model'', opt_json (pref_value (pf_asr s))),
           (''diarization_model'', opt_json (diarization_value (pf_diar s))),
           (''tone_analytics_enabled'', JBool (pf_tone s))]"

definition clear_marks :: "'z profile_page_scheme \<Rightarrow> 'z profile_page_scheme" where
  "clear_marks s =
     s\<lparr>pf_transcribe_ok := False, pf_summarize_ok := False, pf_route_ok := False, pf_ok := False, pf_date_ok := False\<rparr>"

definition save_transcribe_prefs ::
  "(exn + unit) \<Rightarrow> (exn + bool) \<Rightarrow> (exn + me) \<Rightarrow> ('z profile_page_scheme, unit) act" where
  "save_transcribe_prefs patch_r status_r me_r =
     bindA (getsA transcribe_body) (\<lambda>body.
       thenA (upd clear_marks)
         (save_me body patch_r status_r me_r (\<lambda>s. s\<lparr>pf_transcribe_ok := True\<rparr>)))"

definition save_summarize_prefs ::
  "(exn + unit) \<Rightarrow> (exn + bool) \<Rightarrow> (exn + me) \<Rightarrow> ('z profile_page_scheme, unit) act" where
  "save_summarize_prefs patch_r status_r me_r =
     bindA (getsA (\<lambda>s. JObj [(''summarize_model'', opt_json (pref_value (pf_summarize s)))])) (\<lambda>body.
       thenA (upd clear_marks)
         (save_me body patch_r status_r me_r (\<lambda>s. s\<lparr>pf_summarize_ok := True\<rparr>)))"

text \<open>\<open>x.trim () ? x.trim () : null\<close>.\<close>

definition trimmed_or_null :: "string \<Rightarrow> json" where
  "trimmed_or_null x = (if trim x \<noteq> [] then JStr (trim x) else JNull)"

definition save_profile_names ::
  "(exn + unit) \<Rightarrow> (exn + bool) \<Rightarrow> (exn + me) \<Rightarrow> ('z profile_page_scheme, unit) act" where
  "save_profile_names patch_r status_r me_r =
     bindA (getsA (\<lambda>s. JObj [(''first_name'', trimmed_or_null (pf_first s)), (''last_name'', trimmed_or_null (pf_last s))]))
       (\<lambda>body.
         thenA (upd (\<lambda>s. (clear_marks s)\<lparr>pf_names_ok := False, pf_bot_ok := False\<rparr>))
           (save_me body patch_r status_r me_r (\<lambda>s. s\<lparr>pf_names_ok := True\<rparr>)))"

definition save_capture_bot_prefs ::
  "(exn + unit) \<Rightarrow> (exn + bool) \<Rightarrow> (exn + me) \<Rightarrow> ('z profile_page_scheme, unit) act" where
  "save_capture_bot_prefs patch_r status_r me_r =
     bindA (getsA (\<lambda>s. JObj [(''capture_bot_display_name'', trimmed_or_null (pf_bot s))])) (\<lambda>body.
       thenA (upd (\<lambda>s. (clear_marks s)\<lparr>pf_bot_ok := False\<rparr>))
         (save_me body patch_r status_r me_r (\<lambda>s. s\<lparr>pf_bot_ok := True\<rparr>)))"

text \<open>Choosing another recognition model drops a speaker model that does not go with it.\<close>

definition choose_asr :: "string \<Rightarrow> 'z profile_page_scheme \<Rightarrow> 'z profile_page_scheme" where
  "choose_asr nxt s =
     (case au_me s of
        None \<Rightarrow> s
      | Some x \<Rightarrow>
          (let s1 = s\<lparr>pf_transcribe_ok := False, pf_asr := nxt\<rparr>;
               allowed = diarization_options_for_asr (me_transcribe_models x)
                           (resolve_effective_asr nxt (me_transcribe_prefs x)) in
           if pf_diar s \<noteq> ''inherit'' \<and> pf_diar s \<noteq> ''off'' \<and> pf_diar s \<notin> set allowed
           then s1\<lparr>pf_diar := ''inherit''\<rparr> else s1))"

definition choose_diarization :: "string \<Rightarrow> 'z profile_page_scheme \<Rightarrow> 'z profile_page_scheme" where
  "choose_diarization nxt s = s\<lparr>pf_transcribe_ok := False, pf_diar := nxt\<rparr>"

definition diarization_choices :: "'z profile_page_scheme \<Rightarrow> string list" where
  "diarization_choices s = [''inherit'', ''off''] @ available_diarization_models s"

text \<open>The check box of the shell preferences: a single field, the busy flag around it.\<close>

definition patch_shell_prefs ::
  "string \<Rightarrow> bool \<Rightarrow> (exn + unit) \<Rightarrow> (exn + bool) \<Rightarrow> (exn + me) \<Rightarrow> ('z profile_page_scheme, unit) act" where
  "patch_shell_prefs field v patch_r status_r me_r =
     thenA (upd (\<lambda>s. s\<lparr>pf_shell_busy := True\<rparr>))
       (finallyA
         (tryA
           (bindA (send_json patch_r ''PATCH'' ''/me'' (Some (JObj [(field, JBool v)])))
              (\<lambda>_. refresh_page status_r me_r))
           show_error)
         (\<lambda>s. s\<lparr>pf_shell_busy := False\<rparr>))"

section \<open>Password, second factor and tokens\<close>

definition change_pw :: "(exn + unit) \<Rightarrow> (exn + bool) \<Rightarrow> (exn + me) \<Rightarrow> ('z profile_page_scheme, unit) act" where
  "change_pw change_r status_r me_r =
     thenA (upd (\<lambda>s. s\<lparr>pf_ok := False, pf_route_ok := False\<rparr>))
       (tryA
         (bindA (getsA (\<lambda>s. JObj [(''current_password'', JStr (pf_current s)), (''new_password'', JStr (pf_next s))]))
           (\<lambda>body. bindA (send_json change_r ''POST'' ''/auth/password/change'' (Some body)) (\<lambda>_.
              thenA (upd (\<lambda>s. s\<lparr>pf_current := [], pf_next := [], pf_ok := True\<rparr>))
                (refresh_page status_r me_r))))
         show_error)"

definition load_tokens :: "(exn + api_token list option) \<Rightarrow> ('z profile_page_scheme, unit) act" where
  "load_tokens list_r =
     bindA (get_json list_r ''/auth/tokens'') (\<lambda>items. upd (\<lambda>s. s\<lparr>pf_tokens := nullish items []\<rparr>))"

definition mount_profile :: "(exn + api_token list option) \<Rightarrow> ('z profile_page_scheme, unit) act" where
  "mount_profile list_r = thenA (upd sync_drafts) (tryA (load_tokens list_r) show_error)"

definition mfa_on :: "'z profile_page_scheme \<Rightarrow> bool" where
  "mfa_on s = on_me False me_mfa_enabled s"

text \<open>\<open>totp\<close> is the code of the step-up form, \<open>None\<close> from the plain button. The answer holds the token.\<close>

definition token_body :: "string \<Rightarrow> string option \<Rightarrow> 'z profile_page_scheme \<Rightarrow> json" where
  "token_body name totp s =
     JObj ([(''name'', JStr name)]
       @ (if mfa_on s \<and> truthy totp then [(''totp_code'', JStr (str_or_empty totp))] else []))"

definition create_token ::
  "string option \<Rightarrow> (exn + string option) \<Rightarrow> (exn + api_token list option) \<Rightarrow> ('z profile_page_scheme, unit) act" where
  "create_token totp create_r list_r =
     bindA (getsA (\<lambda>s. (trim (pf_token_name s), api_allowed (au_me s), mfa_on s))) (\<lambda>(name, allowed, mfa).
       if name = [] \<or> \<not> allowed then ret ()
       else if mfa \<and> \<not> truthy totp then upd (\<lambda>s. s\<lparr>pf_totp_open := True\<rparr>)
       else thenA (upd (\<lambda>s. s\<lparr>pf_creating := True\<rparr>))
         (finallyA
           (tryA
             (bindA (getsA (token_body name totp)) (\<lambda>body.
               bindA (send_json create_r ''POST'' ''/auth/tokens'' (Some body)) (\<lambda>tok.
                 thenA (upd (\<lambda>s. s\<lparr>pf_secret := (if truthy tok then tok else None), pf_token_name := [],
                                   pf_totp := [], pf_totp_open := False\<rparr>))
                   (load_tokens list_r))))
             show_error)
           (\<lambda>s. s\<lparr>pf_creating := False\<rparr>)))"

definition create_token_ready :: "'z profile_page_scheme \<Rightarrow> bool" where
  "create_token_ready s \<longleftrightarrow> api_allowed (au_me s) \<and> \<not> pf_creating s \<and> trim (pf_token_name s) \<noteq> []"

definition revoke_token :: "string \<Rightarrow> (exn + unit) \<Rightarrow> (exn + api_token list option) \<Rightarrow> ('z profile_page_scheme, unit) act" where
  "revoke_token i revoke_r list_r =
     tryA (bindA (send_json revoke_r ''DELETE'' (''/auth/tokens/'' @ i) None) (\<lambda>_. load_tokens list_r)) show_error"

definition disable_mfa :: "(exn + unit) \<Rightarrow> (exn + unit) \<Rightarrow> ('z profile_page_scheme, unit) act" where
  "disable_mfa disable_r logout_r =
     thenA (upd (\<lambda>s. s\<lparr>pf_mfa_busy := True\<rparr>))
       (finallyA
         (tryA
           (bindA (getsA (\<lambda>s. JObj [(''password'', JStr (pf_disable_pw s)), (''code'', JStr (trim (pf_disable_code s)))]))
             (\<lambda>body. bindA (send_json disable_r ''POST'' ''/auth/mfa/disable'' (Some body)) (\<lambda>_.
                thenA (upd (\<lambda>s. s\<lparr>pf_disable_pw := [], pf_disable_code := []\<rparr>)) (logout logout_r))))
           show_error)
         (\<lambda>s. s\<lparr>pf_mfa_busy := False\<rparr>))"

section \<open>Deleting the account\<close>

definition open_delete_account :: "(exn + account_delete_preview) \<Rightarrow> ('z profile_page_scheme, unit) act" where
  "open_delete_account preview_r =
     thenA (upd (\<lambda>s. s\<lparr>pf_delete_pw := [], pf_delete_totp := [], pf_successor := [], pf_delete_open := True\<rparr>))
       (tryA
         (bindA (get_json preview_r ''/me/account-delete'') (\<lambda>preview.
            upd (\<lambda>s. (case dp_candidates preview of
                        [c] \<Rightarrow> s\<lparr>pf_delete_preview := Some preview, pf_successor := dc_id c\<rparr>
                      | _ \<Rightarrow> s\<lparr>pf_delete_preview := Some preview\<rparr>))))
         (\<lambda>e. thenA (upd (\<lambda>s. s\<lparr>pf_delete_open := False\<rparr>)) (show_error e)))"

definition needs_successor :: "'z profile_page_scheme \<Rightarrow> bool" where
  "needs_successor s = (case pf_delete_preview s of None \<Rightarrow> False | Some p \<Rightarrow> dp_requires_successor p)"

definition delete_body :: "'z profile_page_scheme \<Rightarrow> (string \<times> json) list" where
  "delete_body s =
     (if local_auth_profile_visible (au_me s) \<and> pf_delete_pw s \<noteq> [] then [(''password'', JStr (pf_delete_pw s))] else [])
     @ (if mfa_on s \<and> trim (pf_delete_totp s) \<noteq> [] then [(''totp_code'', JStr (trim (pf_delete_totp s)))] else [])
     @ (if needs_successor s then [(''successor_user_id'', JStr (pf_successor s))] else [])"

definition confirm_delete_account :: "(exn + unit) \<Rightarrow> (exn + unit) \<Rightarrow> ('z profile_page_scheme, unit) act" where
  "confirm_delete_account delete_r logout_r =
     thenA (upd (\<lambda>s. s\<lparr>pf_delete_busy := True\<rparr>))
       (finallyA
         (tryA
           (bindA (getsA (\<lambda>s. JObj (delete_body s))) (\<lambda>body.
             bindA (send_json delete_r ''POST'' ''/me/account-delete'' (Some body)) (\<lambda>_.
               thenA (upd (\<lambda>s. s\<lparr>pf_delete_open := False\<rparr>))
                 (thenA (logout logout_r) (navigate ''/login'' True None)))))
           show_error)
         (\<lambda>s. s\<lparr>pf_delete_busy := False\<rparr>))"

definition delete_dialog_shown :: "'z profile_page_scheme \<Rightarrow> bool" where
  "delete_dialog_shown s \<longleftrightarrow> pf_delete_open s \<and> pf_delete_preview s \<noteq> None"

definition delete_confirm_disabled :: "'z profile_page_scheme \<Rightarrow> bool" where
  "delete_confirm_disabled s \<longleftrightarrow>
     pf_delete_busy s \<or> (needs_successor s \<and> pf_successor s = [])
     \<or> (local_auth_profile_visible (au_me s) \<and> pf_delete_pw s = [])
     \<or> (mfa_on s \<and> trim (pf_delete_totp s) = [])"

definition close_delete_dialog :: "'z profile_page_scheme \<Rightarrow> 'z profile_page_scheme" where
  "close_delete_dialog s = (if pf_delete_busy s then s else s\<lparr>pf_delete_open := False\<rparr>)"

section \<open>Backup\<close>

definition restore_backup :: "string \<Rightarrow> (exn + restore_result) \<Rightarrow> ('z profile_page_scheme, unit) act" where
  "restore_backup name restore_r =
     (let lower = to_lower name in
      if \<not> ends_with lower ''.zip'' \<and> \<not> ends_with lower ''.tar.gz'' \<and> \<not> ends_with lower ''.tgz''
      then show_error (JsError ''profile.restoreBackupInvalidFile'')
      else thenA (upd (\<lambda>s. s\<lparr>pf_restore_message := None, pf_restoring := True\<rparr>))
        (finallyA
          (tryA
            (thenA (upd (emit (EvUpload ''/me/backup/restore'' [FormFile ''file'' name])))
              (bindA (await restore_r) (\<lambda>r. upd (\<lambda>s. s\<lparr>pf_restore_message := Some r\<rparr>))))
            show_error)
          (\<lambda>s. s\<lparr>pf_restoring := False\<rparr>)))"

definition backup_params :: "'z profile_page_scheme \<Rightarrow> (string \<times> string) list" where
  "backup_params s =
     (if pf_backup_transcripts s then [(''transcripts'', ''true'')] else [])
     @ (if pf_backup_summaries s then [(''summaries'', ''true'')] else [])
     @ (if pf_backup_skills s then [(''skills'', ''true'')] else [])
     @ [(''format'', if pf_backup_zip s then ''zip'' else ''tgz'')]"

definition download_disabled :: "'z profile_page_scheme \<Rightarrow> bool" where
  "download_disabled s \<longleftrightarrow>
     pf_backing_up s \<or> (\<not> pf_backup_transcripts s \<and> \<not> pf_backup_summaries s \<and> \<not> pf_backup_skills s)"

text \<open>\<open>stamp\<close> is the day of the click; the download either arrives or fails.\<close>

definition download_backup :: "string \<Rightarrow> (exn + unit) \<Rightarrow> ('z profile_page_scheme, unit) act" where
  "download_backup stamp file_r =
     bindA (getsA (\<lambda>s. (\<not> pf_backup_transcripts s \<and> \<not> pf_backup_summaries s \<and> \<not> pf_backup_skills s,
                         backup_params s, pf_backup_zip s))) (\<lambda>(none, ps, as_zip).
       if none then show_error (JsError ''profile.backupNothingSelected'')
       else thenA (upd (\<lambda>s. s\<lparr>pf_backing_up := True\<rparr>))
         (finallyA
           (tryA
             (thenA (upd (emit (EvDownload (''/me/backup?'' @ params_to_string ps)
                       (''idigest-backup-'' @ stamp @ ''.'' @ (if as_zip then ''zip'' else ''tar.gz'')))))
               (await file_r))
             show_error)
           (\<lambda>s. s\<lparr>pf_backing_up := False\<rparr>)))"

section \<open>What saving does\<close>

lemma field_of_stored_choice:
  "v \<notin> {Some ''inherit'', Some ''off''} \<Longrightarrow> choice_of_field (field_of_stored v) = choice_of_stored v"
  by (auto simp: choice_of_field_def field_of_stored_def choice_of_stored_def split: option.splits)

lemma diarization_value_choice: "f \<noteq> [] \<Longrightarrow> choice_of_stored (diarization_value f) = choice_of_field f"
  by (simp add: choice_of_field_def diarization_value_def choice_of_stored_def)

lemma field_of_value: "f \<noteq> [] \<Longrightarrow> field_of_stored (diarization_value f) = f"
  by (simp add: field_of_stored_def diarization_value_def)

lemma pref_value_field: "f \<noteq> [] \<Longrightarrow> or_default (pref_value f) ''inherit'' = f"
  by (simp add: pref_value_def)

lemma sync_locale_profile:
  "\<exists>ls lg. sync_locale x s = (Inr (), s\<lparr>local_store := ls, au_language := lg\<rparr> :: 'z auth_state_scheme)"
proof (cases "user_locale (me_user x) \<noteq> [] \<and> user_locale (me_user x) \<noteq> au_language s")
  case True
  then show ?thesis
    by (intro exI [of _ "(local_store s)(''locale'' \<mapsto> user_locale (me_user x))"] exI [of _ "user_locale (me_user x)"])
       (simp add: sync_locale_def change_language_def run_simps local_set_def)
next
  case False
  then have "sync_locale x s = (Inr (), s)" by (auto simp: sync_locale_def run_simps)
  then show ?thesis by (intro exI [of _ "local_store s"] exI [of _ "au_language s"]) simp
qed

text \<open>All the drafts of the preferences, and the drafts the effects make of a stored user.\<close>

type_synonym drafts =
  "(string \<times> string) \<times> (string \<times> string \<times> bool) \<times> string \<times> string \<times> (string \<times> string) \<times> string"

definition drafts_of :: "'z profile_page_scheme \<Rightarrow> drafts" where
  "drafts_of s =
     ((pf_format s, pf_zone s), (pf_asr s, pf_diar s, pf_tone s), pf_summarize s, pf_bot s, (pf_first s, pf_last s), pf_route s)"

definition stored_drafts :: "me \<Rightarrow> drafts" where
  "stored_drafts x =
     (let u = me_user x in
      ((saved_format u, or_default (user_timezone u) ''inherit''),
       (or_default (user_asr_model u) ''inherit'', field_of_stored (user_diarization_model u), nullish (user_tone_analytics u) True),
       or_default (user_summarize_model u) ''inherit'', str_or_empty (user_capture_bot_name u),
       (str_or_empty (user_first_name u), str_or_empty (user_last_name u)), stored_default_route (Some x)))"

definition nothing_dirty :: "'z profile_page_scheme \<Rightarrow> bool" where
  "nothing_dirty s \<longleftrightarrow> \<not> transcribe_dirty s \<and> \<not> summarize_dirty s \<and> \<not> date_time_dirty s \<and> \<not> capture_bot_dirty s
     \<and> \<not> names_dirty s \<and> \<not> default_route_dirty s"

lemma drafts_synced:
  assumes "au_me s = Some x"
  shows "drafts_of (sync_drafts s) = stored_drafts x" "nothing_dirty (sync_drafts s)"
  using assms
  by (simp_all add: drafts_of_def stored_drafts_def nothing_dirty_def sync_drafts_def sync_prefs_def sync_route_def
      transcribe_dirty_def summarize_dirty_def date_time_dirty_def capture_bot_dirty_def names_dirty_def
      default_route_dirty_def on_me_def saved_asr_def saved_diarization_def saved_tone_def Let_def)

lemma sync_keeps [simp]: "au_me (sync_drafts s) = au_me s" "events (sync_drafts s) = events s"
  by (simp_all add: sync_drafts_def sync_prefs_def sync_route_def Let_def split: option.split)

lemma mark_keeps [simp]:
  "drafts_of (s\<lparr>pf_transcribe_ok := b\<rparr>) = drafts_of s" "nothing_dirty (s\<lparr>pf_transcribe_ok := b\<rparr>) = nothing_dirty s"
  by (simp_all add: drafts_of_def nothing_dirty_def transcribe_dirty_def summarize_dirty_def date_time_dirty_def
      capture_bot_dirty_def names_dirty_def default_route_dirty_def on_me_def saved_asr_def saved_diarization_def saved_tone_def)

lemma clear_marks_keeps [simp]:
  "drafts_of (clear_marks s) = drafts_of s" "\<not> pf_transcribe_ok (clear_marks s)" "au_me (clear_marks s) = au_me s"
  "events (clear_marks s) = events s"
  by (simp_all add: drafts_of_def clear_marks_def)

lemma refresh_drafts:
  fixes s :: "'z profile_page_scheme"
  shows "drafts_of (snd (refresh status_r me_r s)) = drafts_of s"
    "pf_transcribe_ok (snd (refresh status_r me_r s)) = pf_transcribe_ok s"
proof -
  consider e where "status_r = Inl e" | "status_r = Inr False"
    | e where "status_r = Inr True" "me_r = Inl e" | x where "status_r = Inr True" "me_r = Inr x"
    by (cases status_r; cases me_r) auto
  then show "drafts_of (snd (refresh status_r me_r s)) = drafts_of s"
    "pf_transcribe_ok (snd (refresh status_r me_r s)) = pf_transcribe_ok s"
    by (cases, simp_all add: refresh_run Let_def emit_def storage_defs drafts_of_def)+
qed

lemma refresh_page_run:
  "refresh_page status_r me_r s =
     (case refreshed status_r me_r of
        Inl e \<Rightarrow> (Inl e, snd (refresh status_r me_r s))
      | Inr _ \<Rightarrow> (Inr (), sync_drafts (snd (refresh status_r me_r s))))"
  using refresh_returns(1) [of status_r me_r s]
  by (cases "refresh status_r me_r s") (auto simp: refresh_page_def run_simps split: sum.split)

lemma save_me_run:
  "save_me body (Inr ()) status_r me_r mark s =
     (let s1 = snd (refresh status_r me_r (emit (EvRequest ''PATCH'' ''/me'' (Some body)) s)) in
      case refreshed status_r me_r of
        Inl e \<Rightarrow> (Inr (), emit (EvToast e None) s1)
      | Inr _ \<Rightarrow> (Inr (), mark (sync_drafts s1)))"
  by (simp add: save_me_def run_simps refresh_page_run show_error_def Let_def split: sum.split)

lemma save_me_rejected:
  "save_me body (Inl e) status_r me_r mark s = (Inr (), emit (EvToast e None) (emit (EvRequest ''PATCH'' ''/me'' (Some body)) s))"
  by (simp add: save_me_def run_simps show_error_def)

text \<open>The user object the server answers with after it has stored the body.\<close>

definition stores_transcribe :: "'z profile_page_scheme \<Rightarrow> me \<Rightarrow> bool" where
  "stores_transcribe s x \<longleftrightarrow>
     user_asr_model (me_user x) = pref_value (pf_asr s)
     \<and> user_diarization_model (me_user x) = diarization_value (pf_diar s)
     \<and> user_tone_analytics (me_user x) = Some (pf_tone s)"


definition blank_profile :: profile_page where
  "blank_profile =
     \<lparr>local_store = Map.empty, session_store = Map.empty, events = [], au_ready = True, au_bootstrap_done = True,
      au_bootstrap_error = None, au_me = Some (example_me False False), au_language = ''en'', au_prefs = None,
      pf_current = [], pf_next = [], pf_tokens = [], pf_token_name = [], pf_secret = None, pf_creating = False,
      pf_ok = False, pf_route_ok = False, pf_date_ok = False, pf_format = ''inherit'', pf_zone = ''inherit'',
      pf_asr = ''inherit'', pf_diar = ''inherit'', pf_tone = True, pf_transcribe_ok = False,
      pf_summarize = ''inherit'', pf_summarize_ok = False, pf_bot = [], pf_bot_ok = False, pf_first = [],
      pf_last = [], pf_names_synced = False, pf_names_ok = False, pf_route = ''library'',
      pf_backup_transcripts = True, pf_backup_summaries = True, pf_backup_skills = True, pf_backup_zip = True,
      pf_backing_up = False, pf_restoring = False, pf_restore_message = None, pf_disable_pw = [],
      pf_disable_code = [], pf_mfa_busy = False, pf_totp = [], pf_totp_open = False, pf_delete_open = False,
      pf_delete_preview = None, pf_delete_pw = [], pf_delete_totp = [], pf_successor = [],
      pf_delete_busy = False, pf_shell_busy = False\<rparr>"

definition muted_me :: me where
  "muted_me = (example_me False False)\<lparr>me_user := example_user\<lparr>user_asr_model := Some ''whisper'',
     user_diarization_model := Some [], user_tone_analytics := Some True\<rparr>\<rparr>"


section \<open>Steps that need a confirmation\<close>

lemma logout_cases:
  "logout r s = (case r of
      Inl e \<Rightarrow> (Inl e, emit (EvRequest ''POST'' ''/auth/logout'' None) s)
    | Inr u \<Rightarrow> (Inr (), emit (EvLocation (resolve_login_path (au_me s))) (emit (EvRequest ''POST'' ''/auth/logout'' None) s)))"
  by (simp add: logout_def run_simps split: sum.split)

lemma delete_body_filled:
  assumes "\<not> delete_confirm_disabled s"
  shows "map fst (delete_body s) =
      (if local_auth_profile_visible (au_me s) then [''password''] else [])
      @ (if mfa_on s then [''totp_code''] else []) @ (if needs_successor s then [''successor_user_id''] else [])"
    and "list_all (\<lambda>f. snd f \<noteq> JStr []) (delete_body s)"
  using assms by (auto simp: delete_confirm_disabled_def delete_body_def)

text \<open>C40: What cannot be undone needs what the dialog asks for. When the confirm button of the account dialog is
  enabled, the request carries the password exactly for a local account, the code exactly with the second factor on,
  and the successor exactly when one is required, none of them empty; after it the dialog is idle, it is closed
  exactly when the server deleted the account, and the browser leaves for the login page exactly when signing out
  worked too, an error being shown otherwise. With the second factor on no API token is requested without a code: the button without
  one, or with an empty one, sends nothing and at most opens the step-up form, and a request carries the code.\<close>

theorem confirmed_steps:
  "(\<not> delete_confirm_disabled s \<longrightarrow>
      map fst (delete_body s) =
        (if local_auth_profile_visible (au_me s) then [''password''] else [])
        @ (if mfa_on s then [''totp_code''] else []) @ (if needs_successor s then [''successor_user_id''] else [])
      \<and> list_all (\<lambda>f. snd f \<noteq> JStr []) (delete_body s))
   \<and> fst (confirm_delete_account delete_r logout_r s) = Inr ()
   \<and> \<not> pf_delete_busy (snd (confirm_delete_account delete_r logout_r s))
   \<and> pf_delete_open (snd (confirm_delete_account delete_r logout_r s)) = (pf_delete_open s \<and> delete_r \<noteq> Inr ())
   \<and> events (snd (confirm_delete_account delete_r logout_r s)) =
        events s @ EvRequest ''POST'' ''/me/account-delete'' (Some (JObj (delete_body s)))
          # (case (delete_r, logout_r) of
               (Inl e, _) \<Rightarrow> [EvToast e None]
             | (Inr _, Inl e) \<Rightarrow> [EvRequest ''POST'' ''/auth/logout'' None, EvToast e None]
             | _ \<Rightarrow> [EvRequest ''POST'' ''/auth/logout'' None, EvLocation (resolve_login_path (au_me s)),
                     EvNavigate ''/login'' True None])
   \<and> (mfa_on s \<and> \<not> truthy totp \<longrightarrow>
        create_token totp create_r list_r s =
          (Inr (), if trim (pf_token_name s) \<noteq> [] \<and> api_allowed (au_me s) then s\<lparr>pf_totp_open := True\<rparr> else s))
   \<and> (mfa_on s \<and> truthy totp \<and> trim (pf_token_name s) \<noteq> [] \<and> api_allowed (au_me s) \<longrightarrow>
        token_body (trim (pf_token_name s)) totp s =
             JObj [(''name'', JStr (trim (pf_token_name s))), (''totp_code'', JStr (str_or_empty totp))]
        \<and> (\<exists>more. events (snd (create_token totp create_r list_r s)) =
             events s @ EvRequest ''POST'' ''/auth/tokens'' (Some (token_body (trim (pf_token_name s)) totp s)) # more))"
proof -
  have body: "delete_body (s\<lparr>pf_delete_busy := b\<rparr>) = delete_body s"
      "token_body nm tt (s\<lparr>pf_creating := b\<rparr>) = token_body nm tt s" "mfa_on (s\<lparr>pf_creating := b\<rparr>) = mfa_on s" for b nm tt
    by (simp_all add: delete_body_def token_body_def mfa_on_def on_me_def needs_successor_def)
  show ?thesis
    using delete_body_filled [of s]
    by (cases delete_r; cases logout_r; cases create_r; cases list_r)
       (auto simp: confirm_delete_account_def create_token_def load_tokens_def run_simps logout_cases show_error_def
         navigate_def body token_body_def emit_def)
qed

theorem confirmed_steps_witness:
  "map fst (delete_body (blank_profile\<lparr>pf_delete_pw := ''secret''\<rparr>)) = [''password'']"
proof -
  let ?s = "blank_profile\<lparr>pf_delete_pw := ''secret''\<rparr>"
  have "\<not> delete_confirm_disabled ?s" "local_auth_profile_visible (au_me ?s)" "\<not> mfa_on ?s" "\<not> needs_successor ?s"
    by (simp_all add: delete_confirm_disabled_def needs_successor_def mfa_on_def on_me_def blank_profile_def
        local_auth_profile_visible_def example_me_def example_user_def Let_def org_sso_enabled_def)
  then show ?thesis using confirmed_steps [of ?s] by simp
qed

end
