(* ===== verification/Js_Number.thy ===== *)
theory Js_Number
  imports Hub_Effects
begin

text \<open>
  \<open>Number (x)\<close> as the standard library defines it, on strings and on JSON values. A result that is not a finite
  number is \<open>None\<close>; rounding to a double is not modelled.
\<close>

definition digits_of :: "nat \<Rightarrow> string \<Rightarrow> nat option" where
  "digits_of base s =
     (let vs = map (\<lambda>c. find_index (\<lambda>d. d = lower_char c) hex_digits) s in
      if s \<noteq> [] \<and> list_all (\<lambda>v. 0 \<le> v \<and> v < int base) vs
      then Some (fold (\<lambda>v acc. base * acc + nat v) vs 0) else None)"

definition ten_to :: "int \<Rightarrow> rat" where
  "ten_to e = (if 0 \<le> e then 10 ^ nat e else 1 / 10 ^ nat (- e))"

text \<open>A sign and digits, the exponent of a numeral.\<close>

definition exponent :: "string \<Rightarrow> int option" where
  "exponent s =
     (let ds = (if starts_with s ''+'' \<or> starts_with s ''-'' then drop 1 s else s) in
      if ds \<noteq> [] \<and> list_all is_digit ds
      then Some (if starts_with s ''-'' then - int (parse_digits ds) else int (parse_digits ds)) else None)"

definition unsigned_decimal :: "string \<Rightarrow> rat option" where
  "unsigned_decimal s =
     (let ip = takeWhile is_digit s;
          r = dropWhile is_digit s;
          fp = (if starts_with r ''.'' then takeWhile is_digit (drop 1 r) else []);
          r1 = (if starts_with r ''.'' then dropWhile is_digit (drop 1 r) else r) in
      if ip = [] \<and> fp = [] then None
      else (let m = rat_of_nat (parse_digits (ip @ fp)) * ten_to (- int (length fp)) in
            if r1 = [] then Some m
            else if to_lower (take 1 r1) = ''e'' then map_option (\<lambda>e. m * ten_to e) (exponent (drop 1 r1))
            else None))"

definition number_of_string :: "string \<Rightarrow> rat option" where
  "number_of_string x =
     (let s = trim x; p = to_lower (take 2 s) in
      if s = [] then Some 0
      else if p = ''0x'' then map_option rat_of_nat (digits_of 16 (drop 2 s))
      else if p = ''0o'' then map_option rat_of_nat (digits_of 8 (drop 2 s))
      else if p = ''0b'' then map_option rat_of_nat (digits_of 2 (drop 2 s))
      else if starts_with s ''-'' then map_option uminus (unsigned_decimal (drop 1 s))
      else if starts_with s ''+'' then unsigned_decimal (drop 1 s)
      else unsigned_decimal s)"

text \<open>A JSON value is converted through its primitive value; an element of an array through its text.\<close>

fun number_of_element :: "json \<Rightarrow> rat option" where
  "number_of_element JNull = Some 0"
| "number_of_element (JBool _) = None"
| "number_of_element (JNum n) = Some (of_int n)"
| "number_of_element (JDec d) = number_of_string d"
| "number_of_element (JStr s) = number_of_string s"
| "number_of_element (JArr []) = Some 0"
| "number_of_element (JArr [x]) = number_of_element x"
| "number_of_element (JArr (x # y # xs)) = None"
| "number_of_element (JObj _) = None"

definition number_of_json :: "json \<Rightarrow> rat option" where
  "number_of_json j = (case j of JBool b \<Rightarrow> Some (if b then 1 else 0) | _ \<Rightarrow> number_of_element j)"

text \<open>\<open>undefined\<close> is not a number.\<close>

definition number_of_field :: "json option \<Rightarrow> rat option" where
  "number_of_field v = Option.bind v number_of_json"

lemma takeWhile_all_digits [simp]: "list_all is_digit s \<Longrightarrow> takeWhile is_digit s = s \<and> dropWhile is_digit s = []"
  by (induction s) auto

lemma nat_str_not_special:
  "trim (nat_str n) = nat_str n \<and> to_lower (take 2 (nat_str n)) \<notin> {''0x'', ''0o'', ''0b''}
   \<and> \<not> starts_with (nat_str n) ''-'' \<and> \<not> starts_with (nat_str n) ''+''"
proof -
  have all: "list_all is_digit (nat_str n)" using nat_str_digits by (simp add: list_all_iff)
  have ws: "is_digit c \<Longrightarrow> \<not> is_ws c" for c by (auto simp: is_digit_def digits_def is_ws_def)
  have "trim (nat_str n) = nat_str n"
    using all ws by (intro trim_fix) (auto simp: list_all_iff)
  moreover have "to_lower (take 2 s) \<notin> {''0x'', ''0o'', ''0b''} \<and> \<not> starts_with s ''-'' \<and> \<not> starts_with s ''+''"
    if "list_all is_digit s" for s
    using that
    by (cases s rule: remdups_adj.cases)
       (auto simp: starts_with_def to_lower_def is_digit_def digits_def lower_char_def)
  ultimately show ?thesis using all by blast
qed

text \<open>A printed number reads back.\<close>

lemma number_of_nat_str [simp]: "number_of_string (nat_str n) = Some (rat_of_nat n)"
proof -
  have "list_all is_digit (nat_str n)" using nat_str_digits by (simp add: list_all_iff)
  then show ?thesis
    using nat_str_not_special [of n]
    by (simp add: number_of_string_def unsigned_decimal_def Let_def ten_to_def starts_with_def)
qed

end
