(* ===== verification/Workers.thy ===== *)
theory Workers
  imports Task_Stage Js_Number "HOL-Library.Multiset"
begin

text \<open>
  The administration of the workers (\<open>pages/instance/workerCapacity.ts\<close>, \<open>WorkerImpactModal.tsx\<close>,
  \<open>InstanceWorkersTab.tsx\<close>, \<open>components/WorkerHealthBadge.tsx\<close>): health and capacity of a fleet, what removing or
  changing a worker breaks and who it hits, the replacement the administrator may apply, and the form that creates
  and edits workers, whose probe waits for the server while the form may change.
\<close>

section \<open>Health and capacity\<close>

datatype health_tone = HealthOk | HealthWarn | HealthNa

definition health_field :: "worker \<Rightarrow> string \<Rightarrow> json option" where
  "health_field w k = Option.bind (worker_last_health w) (\<lambda>h. h k)"

text \<open>\<open>x == null\<close> of a field that may be absent.\<close>

definition absent :: "json option \<Rightarrow> bool" where
  "absent v \<longleftrightarrow> v = None \<or> v = Some JNull"

definition worker_health_tone :: "worker \<Rightarrow> health_tone" where
  "worker_health_tone w =
     (let http = health_field w ''_http''; ready = health_field w ''_ready_http'' in
      if worker_last_health w = None then HealthNa
      else if http = Some (JNum 200) \<and> (ready = Some (JNum 200) \<or> absent ready) then HealthOk
      else if \<not> absent http \<or> \<not> absent ready then HealthWarn
      else HealthNa)"

definition is_worker_healthy :: "worker \<Rightarrow> bool" where
  "is_worker_healthy w \<longleftrightarrow> worker_health_tone w = HealthOk"

definition is_worker_unhealthy :: "worker \<Rightarrow> bool" where
  "is_worker_unhealthy w \<longleftrightarrow> worker_health_tone w = HealthWarn"

record pool_capacity =
  pc_available :: rat
  pc_max :: rat
  pc_active :: rat

definition normalize_capacity :: "json option \<Rightarrow> pool_capacity option" where
  "normalize_capacity raw =
     (case raw of
        Some (JObj kvs) \<Rightarrow>
          (case number_of_field (json_field (JObj kvs) ''max'') of
             None \<Rightarrow> None
           | Some mx \<Rightarrow>
               if mx \<le> 0 then None
               else Some \<lparr>pc_available = nullish (number_of_field (json_field (JObj kvs) ''available'')) 0,
                          pc_max = mx,
                          pc_active = nullish (number_of_field (json_field (JObj kvs) ''active'')) 0\<rparr>)
      | _ \<Rightarrow> None)"

definition parse_worker_health_pool :: "meta option \<Rightarrow> pool_capacity option" where
  "parse_worker_health_pool health = (case health of None \<Rightarrow> None | Some h \<Rightarrow> normalize_capacity (h ''workers''))"

definition dispatch_available :: "worker \<Rightarrow> bool" where
  "dispatch_available w =
     (case worker_dispatch_available w of Some b \<Rightarrow> b | None \<Rightarrow> worker_health_tone w = HealthOk)"

definition type_hub_fleet_capacity :: "worker list \<Rightarrow> string \<Rightarrow> (nat \<times> nat) option" where
  "type_hub_fleet_capacity ws ty =
     (let typed = filter (\<lambda>w. worker_type w = ty) ws in
      if length typed = 0 then None
      else Some (length (filter (\<lambda>w. worker_enabled w \<and> worker_health_tone w = HealthOk) typed), length typed))"

record type_summary =
  ts_total :: nat
  ts_enabled :: nat
  ts_available :: nat

definition type_bucket_from_workers :: "worker list \<Rightarrow> string \<Rightarrow> type_summary" where
  "type_bucket_from_workers ws ty =
     (let typed = filter (\<lambda>w. worker_type w = ty) ws; enabled = filter worker_enabled typed in
      \<lparr>ts_total = length typed, ts_enabled = length enabled,
       ts_available = length (filter dispatch_available enabled)\<rparr>)"

text \<open>The server's summary; \<open>ws_by_type\<close> is total on the three types of the schema.\<close>

record workers_summary =
  ws_total :: nat
  ws_enabled :: nat
  ws_available :: nat
  ws_by_type :: "(string \<rightharpoonup> type_summary) option"
  ws_import_max :: "nat option"
  ws_capture_capacity :: "json option"

definition type_worker_bucket :: "workers_summary option \<Rightarrow> worker list \<Rightarrow> string \<Rightarrow> type_summary" where
  "type_worker_bucket summary ws ty =
     nullish (Option.bind summary (\<lambda>s. Option.bind (ws_by_type s) (\<lambda>m. m ty))) (type_bucket_from_workers ws ty)"

definition normalize_capture_capacity_summary :: "workers_summary option \<Rightarrow> worker list \<Rightarrow> pool_capacity option" where
  "normalize_capture_capacity_summary summary ws =
     (case normalize_capacity (Option.bind summary ws_capture_capacity) of
        Some pool \<Rightarrow> Some pool
      | None \<Rightarrow>
          (let bucket = type_worker_bucket summary ws ''capture'';
               mx = (if 0 < ts_enabled bucket then ts_enabled bucket else ts_total bucket) in
           if mx = 0 then None
           else Some \<lparr>pc_available = rat_of_nat (ts_available bucket), pc_max = rat_of_nat mx,
                      pc_active = max (rat_of_nat mx - rat_of_nat (ts_available bucket)) 0\<rparr>))"

definition worker_capacity_cell :: "worker \<Rightarrow> worker list \<Rightarrow> (rat \<times> rat) option" where
  "worker_capacity_cell w all_workers =
     (let pool = map_option (\<lambda>p. (pc_available p, pc_max p)) (parse_worker_health_pool (worker_last_health w)) in
      if worker_type w = ''transcribe'' \<or> worker_type w = ''summarize''
      then (case pool of
              Some c \<Rightarrow> Some c
            | None \<Rightarrow> map_option (\<lambda>(a, m). (rat_of_nat a, rat_of_nat m)) (type_hub_fleet_capacity all_workers (worker_type w)))
      else if \<not> worker_enabled w then None
      else if worker_type w = ''capture''
      then (case pool of
              Some c \<Rightarrow> Some c
            | None \<Rightarrow> Some (if dispatch_available w then 1 else 0, 1))
      else None)"

text \<open>A fleet never has more healthy or available workers than workers.\<close>

lemma length_filter_mono: "(\<And>x. P x \<Longrightarrow> Q x) \<Longrightarrow> length (filter P xs) \<le> length (filter Q xs)"
  by (induction xs) auto

lemma fleet_capacity_bound: "type_hub_fleet_capacity ws ty = Some (a, m) \<Longrightarrow> a \<le> m \<and> 0 < m"
  by (auto simp: type_hub_fleet_capacity_def Let_def split: if_splits intro!: length_filter_mono)

lemma bucket_bound:
  "ts_available (type_bucket_from_workers ws ty) \<le> ts_enabled (type_bucket_from_workers ws ty)
   \<and> ts_enabled (type_bucket_from_workers ws ty) \<le> ts_total (type_bucket_from_workers ws ty)"
  by (auto simp: type_bucket_from_workers_def Let_def intro!: length_filter_mono)

text \<open>Without a server summary the pool of the capture fleet adds up; an unlimited pool never shows.\<close>

lemma capture_pool_sums:
  assumes "normalize_capture_capacity_summary None ws = Some p"
  shows "pc_available p + pc_active p = pc_max p \<and> 0 < pc_max p \<and> 0 \<le> pc_active p"
  using assms bucket_bound [of ws "''capture''"]
  by (auto simp: normalize_capture_capacity_summary_def type_worker_bucket_def normalize_capacity_def Let_def
      split: if_splits)

lemma capacity_positive: "normalize_capacity raw = Some p \<Longrightarrow> 0 < pc_max p"
  by (auto simp: normalize_capacity_def split: option.splits json.splits if_splits)

section \<open>What a change of a worker breaks\<close>

record impact_user =
  iu_id :: string
  iu_email :: string
  iu_display_name :: "string option"
  iu_asr :: "string option"
  iu_diarization :: "string option"
  iu_summarize :: "string option"

record impact_task =
  it_id :: string
  it_status :: string
  it_asr :: "string option"
  it_diarization :: "string option"
  it_summarize :: "string option"

record capture_choice =
  cc_id :: string
  cc_name :: string
  cc_base_url :: string

record impact_defaults =
  idf_asr :: "string option"
  idf_diarization :: "string option"
  idf_summarize :: "string option"

record worker_impact =
  im_blocking :: bool
  im_remaining_transcribe :: "nat option"
  im_remaining_summarize :: "nat option"
  im_lost_pairs :: "dispatchable_pair list option"
  im_available_pairs :: "dispatchable_pair list option"
  im_suggested_pair :: "dispatchable_pair option"
  im_lost_summarize :: "string list option"
  im_available_summarize :: "string list option"
  im_suggested_summarize :: "string option"
  im_can_remediate :: "bool option"
  im_defaults_broken :: "bool option"
  im_defaults :: "impact_defaults option"
  im_users :: "impact_user list option"
  im_tasks :: "impact_task list option"
  im_last_enabled :: "bool option"
  im_capture_hosts :: "(string \<times> string) list option"
  im_capture_hosts_count :: "nat option"
  im_capture_tasks_count :: "nat option"
  im_capture_losing :: "bool option"
  im_capture_workers :: "capture_choice list option"
  im_suggested_capture :: "capture_choice option"

type_synonym model_pair = "string \<times> string option"

datatype unavailable_item =
    UPair model_pair nat nat
  | UDefaults model_pair
  | USummarizeModel string nat nat
  | USummarizeDefaults "string option"
  | ULastTranscribe
  | ULastSummarize
  | USummarizeRemaining nat
  | UCaptureLosing

datatype in_use_item =
    IUser string "string option" model_pair
  | ISummarizeUser string "string option" "string option"
  | ITasks model_pair nat nat nat
  | IDefaults model_pair
  | ISummarizeDefaults "string option"
  | ISummarizeTasks nat nat nat
  | ICaptureHost string string
  | ICaptureTasks nat

definition pair_of :: "dispatchable_pair \<Rightarrow> model_pair" where
  "pair_of p = (pair_asr p, pair_diarization p)"

definition matches_pair :: "string \<Rightarrow> string option \<Rightarrow> dispatchable_pair \<Rightarrow> bool" where
  "matches_pair asr diar p \<longleftrightarrow> pair_asr p = asr \<and> pair_diarization p = diar"

text \<open>The key of a pair: an absent speaker model and an empty one have the same.\<close>

definition task_key :: "impact_task \<Rightarrow> string \<times> string" where
  "task_key x = (nullish (it_asr x) ''whisper'', str_or_empty (it_diarization x))"

text \<open>The groups of the \<open>Map\<close>, in the order of their first tasks.\<close>

definition group_tasks :: "impact_task list \<Rightarrow> impact_task list list" where
  "group_tasks ts = map (\<lambda>k. filter (\<lambda>x. task_key x = k) ts) (uniq (map task_key ts))"

definition count_status :: "string \<Rightarrow> impact_task list \<Rightarrow> nat" where
  "count_status st ts = length (filter (\<lambda>x. it_status x = st) ts)"

definition tasks_item :: "impact_task list \<Rightarrow> in_use_item" where
  "tasks_item g =
     ITasks (nullish (it_asr (hd g)) ''whisper'', it_diarization (hd g))
       (count_status ''queued'' g) (count_status ''running'' g) (length g)"

definition user_item :: "string \<Rightarrow> impact_user \<Rightarrow> in_use_item" where
  "user_item ty u =
     (if ty = ''summarize'' then ISummarizeUser (iu_email u) (iu_display_name u) (iu_summarize u)
      else IUser (iu_email u) (iu_display_name u) (nullish (iu_asr u) [], iu_diarization u))"

definition lost_pair_item :: "impact_user list \<Rightarrow> impact_task list \<Rightarrow> dispatchable_pair \<Rightarrow> unavailable_item" where
  "lost_pair_item us ts p =
     UPair (pair_of p)
       (length (filter (\<lambda>u. matches_pair (nullish (iu_asr u) ''whisper'') (iu_diarization u) p) us))
       (length (filter (\<lambda>x. matches_pair (nullish (it_asr x) ''whisper'') (it_diarization x) p) ts))"

definition lost_model_item :: "impact_user list \<Rightarrow> impact_task list \<Rightarrow> string \<Rightarrow> unavailable_item" where
  "lost_model_item us ts m =
     USummarizeModel m (length (filter (\<lambda>u. iu_summarize u = Some m) us)) (length (filter (\<lambda>x. it_summarize x = Some m) ts))"

definition broken_defaults :: "worker_impact \<Rightarrow> model_pair list" where
  "broken_defaults im =
     (case im_defaults im of
        None \<Rightarrow> []
      | Some d \<Rightarrow>
          if im_defaults_broken im = Some True \<and> truthy (idf_asr d)
          then [(str_or_empty (idf_asr d), idf_diarization d)] else [])"

definition broken_summarize_defaults :: "worker_impact \<Rightarrow> string option list" where
  "broken_summarize_defaults im =
     (case im_defaults im of
        None \<Rightarrow> []
      | Some d \<Rightarrow> if im_defaults_broken im = Some True \<and> truthy (idf_summarize d) then [idf_summarize d] else [])"

definition impact_sections :: "worker_impact option \<Rightarrow> string \<Rightarrow> unavailable_item list \<times> in_use_item list" where
  "impact_sections impact ty =
     (case impact of
        None \<Rightarrow> ([], [])
      | Some im \<Rightarrow>
          (let us = nullish (im_users im) []; ts = nullish (im_tasks im) [] in
           if ty = ''capture''
           then ((if im_capture_losing im = Some True then [UCaptureLosing] else []),
                 map (\<lambda>(h, n). ICaptureHost h n) (nullish (im_capture_hosts im) [])
                 @ (if 0 < nullish (im_capture_tasks_count im) 0 then [ICaptureTasks (nullish (im_capture_tasks_count im) 0)] else []))
           else if ty = ''transcribe''
           then (map (lost_pair_item us ts) (nullish (im_lost_pairs im) [])
                 @ map UDefaults (broken_defaults im)
                 @ (if nullish (im_remaining_transcribe im) 0 = 0 \<and> 0 < length (nullish (im_lost_pairs im) [])
                    then [ULastTranscribe] else []),
                 map IDefaults (broken_defaults im) @ map (user_item ty) us @ map tasks_item (group_tasks ts))
           else if ty = ''summarize''
           then (map (lost_model_item us ts) (nullish (im_lost_summarize im) [])
                 @ map USummarizeDefaults (broken_summarize_defaults im)
                 @ (if im_last_enabled im = Some True then [ULastSummarize] else [])
                 @ [USummarizeRemaining (nullish (im_remaining_summarize im) 0)],
                 map ISummarizeDefaults (broken_summarize_defaults im) @ map (user_item ty) us
                 @ (if 0 < length ts then [ISummarizeTasks (count_status ''queued'' ts) (count_status ''running'' ts) (length ts)]
                    else []))
           else ([], map (user_item ty) us)))"

text \<open>The groups lose no task and count none twice.\<close>

lemma group_tasks_partition: "mset (concat (group_tasks ts)) = mset ts"
proof -
  have "mset (concat (map (\<lambda>k. filter (\<lambda>x. task_key x = k) ts) ks)) = mset (filter (\<lambda>x. task_key x \<in> set ks) ts)"
    if "distinct ks" for ks
    using that
  proof (induction ks)
    case (Cons k ks)
    have "mset (filter (\<lambda>x. task_key x = k \<or> task_key x \<in> set ks) ts)
        = mset (filter (\<lambda>x. task_key x = k) ts) + mset (filter (\<lambda>x. task_key x \<in> set ks) ts)"
      using Cons.prems by (induction ts) auto
    then show ?case using Cons by simp
  qed simp
  from this [OF distinct_uniq, of "map task_key ts"] show ?thesis
    by (simp add: group_tasks_def cong: filter_cong)
qed

fun counted_tasks :: "in_use_item \<Rightarrow> nat" where
  "counted_tasks (ITasks _ _ _ n) = n"
| "counted_tasks (ISummarizeTasks _ _ n) = n"
| "counted_tasks (ICaptureTasks n) = n"
| "counted_tasks _ = 0"

lemma counted_group: "sum_list (map (counted_tasks \<circ> tasks_item) gs) = length (concat gs)"
  by (induction gs) (simp_all add: tasks_item_def)

lemma counted_plain [simp]:
  "sum_list (map (counted_tasks \<circ> user_item ty) us) = 0" "sum_list (map (counted_tasks \<circ> IDefaults) ps) = 0"
  "sum_list (map (counted_tasks \<circ> ISummarizeDefaults) ds) = 0"
  by (simp_all add: comp_def user_item_def cong: map_cong)

lemma impact_counts_tasks:
  assumes "ty = ''transcribe'' \<or> ty = ''summarize''"
  shows "sum_list (map counted_tasks (snd (impact_sections (Some im) ty))) = length (nullish (im_tasks im) [])"
proof -
  have "length (concat (group_tasks ts)) = length ts" for ts
    using arg_cong [OF group_tasks_partition [of ts], of size] by simp
  then show ?thesis using assms
    by (auto simp: impact_sections_def Let_def counted_group comp_def [symmetric])
qed

section \<open>The impact dialog\<close>

text \<open>\<open>wm_change\<close> is the body of a change, \<open>None\<close> for a deletion. The selected pair is its key.\<close>

record impact_modal = browser +
  wm_worker :: worker
  wm_change :: "(string \<times> json) list option"
  wm_impact :: "worker_impact option"
  wm_loading :: bool
  wm_busy :: bool
  wm_apply :: bool
  wm_pair_key :: "(string \<times> string) option"
  wm_summarize :: string
  wm_capture :: string
  wm_open :: bool

definition pair_key :: "dispatchable_pair \<Rightarrow> string \<times> string" where
  "pair_key p = (pair_asr p, str_or_empty (pair_diarization p))"

definition first_or :: "('a \<Rightarrow> bool) \<Rightarrow> 'a list \<Rightarrow> 'a option" where
  "first_or P xs = (case find P xs of Some x \<Rightarrow> Some x | None \<Rightarrow> (case xs of [] \<Rightarrow> None | x # _ \<Rightarrow> Some x))"

definition selected_pair :: "'z impact_modal_scheme \<Rightarrow> dispatchable_pair option" where
  "selected_pair s =
     first_or (\<lambda>p. Some (pair_key p) = wm_pair_key s) (nullish (Option.bind (wm_impact s) im_available_pairs) [])"

definition selected_capture_worker :: "'z impact_modal_scheme \<Rightarrow> capture_choice option" where
  "selected_capture_worker s =
     first_or (\<lambda>c. cc_id c = wm_capture s) (nullish (Option.bind (wm_impact s) im_capture_workers) [])"

definition selected_summarize_choice :: "'z impact_modal_scheme \<Rightarrow> string option" where
  "selected_summarize_choice s =
     first_or (\<lambda>m. m = wm_summarize s) (nullish (Option.bind (wm_impact s) im_available_summarize) [])"

text \<open>\<open>String (changeBody.type)\<close>: the form only sends strings.\<close>

definition modal_worker_type :: "'z impact_modal_scheme \<Rightarrow> string" where
  "modal_worker_type s =
     (case Option.bind (wm_change s) (\<lambda>b. map_of (rev b) ''type'') of
        Some (JStr ty) \<Rightarrow> ty
      | _ \<Rightarrow> worker_type (wm_worker s))"

definition impact_request :: "'z impact_modal_scheme \<Rightarrow> string \<times> string \<times> json option" where
  "impact_request s =
     (let base = ''/workers/'' @ worker_id (wm_worker s) in
      case wm_change s of
        None \<Rightarrow> (''GET'', base @ ''/delete-impact'', None)
      | Some b \<Rightarrow> (''POST'', base @ ''/change-impact'', Some (JObj b)))"

definition can_remediate :: "worker_impact \<Rightarrow> bool" where
  "can_remediate im \<longleftrightarrow> im_can_remediate im = Some True"

text \<open>The effect that follows a new impact: the suggestions become the selection.\<close>

definition suggest :: "'z impact_modal_scheme \<Rightarrow> 'z impact_modal_scheme" where
  "suggest s =
     (case wm_impact s of
        None \<Rightarrow> s\<lparr>wm_pair_key := None, wm_summarize := [], wm_capture := []\<rparr>
      | Some im \<Rightarrow>
          (let can = can_remediate im in
           s\<lparr>wm_pair_key := (if can then map_option pair_key (im_suggested_pair im) else None),
             wm_summarize := (if can then str_or_empty (im_suggested_summarize im) else []),
             wm_capture := (case im_suggested_capture im of Some c \<Rightarrow> if can then cc_id c else [] | None \<Rightarrow> []),
             wm_apply := (if can then True else wm_apply s)\<rparr>))"

text \<open>The answer of the impact request, ignored once the dialog is gone.\<close>

definition impact_arrives :: "exn + worker_impact \<Rightarrow> 'z impact_modal_scheme \<Rightarrow> 'z impact_modal_scheme" where
  "impact_arrives r s =
     (if \<not> wm_open s then s
      else (case r of
              Inr im \<Rightarrow> suggest (s\<lparr>wm_impact := Some im, wm_loading := False\<rparr>)
            | Inl e \<Rightarrow> (emit (EvToast e None) s)\<lparr>wm_open := False\<rparr>))"

datatype remediation =
    RemCapture string
  | RemTranscribe string "string option"
  | RemSummarize string

definition remediation_of :: "'z impact_modal_scheme \<Rightarrow> remediation option" where
  "remediation_of s =
     (if wm_apply s \<and> (case wm_impact s of None \<Rightarrow> False | Some im \<Rightarrow> can_remediate im)
      then (if modal_worker_type s = ''capture'' \<and> selected_capture_worker s \<noteq> None
            then map_option (\<lambda>c. RemCapture (cc_id c)) (selected_capture_worker s)
            else if modal_worker_type s = ''transcribe'' \<and> selected_pair s \<noteq> None
            then map_option (\<lambda>p. RemTranscribe (pair_asr p) (pair_diarization p)) (selected_pair s)
            else if modal_worker_type s = ''summarize'' \<and> selected_summarize_choice s \<noteq> None
            then map_option RemSummarize (selected_summarize_choice s)
            else None)
      else None)"

definition remediation_json :: "remediation \<Rightarrow> json" where
  "remediation_json r =
     (case r of
        RemCapture i \<Rightarrow> JObj [(''capture_worker_id'', JStr i)]
      | RemTranscribe a d \<Rightarrow> JObj [(''asr_model'', JStr a), (''diarization_model'', case d of None \<Rightarrow> JNull | Some x \<Rightarrow> JStr x)]
      | RemSummarize m \<Rightarrow> JObj [(''summarize_model'', JStr m)])"

text \<open>\<open>onConfirm\<close> is the answer of the caller's handler below.\<close>

definition confirm_impact :: "(remediation option \<Rightarrow> ('z impact_modal_scheme, unit) act) \<Rightarrow> ('z impact_modal_scheme, unit) act" where
  "confirm_impact on_confirm =
     thenA (upd (\<lambda>s. s\<lparr>wm_busy := True\<rparr>))
       (finallyA
         (tryA
           (bindA (getsA remediation_of) (\<lambda>r. thenA (on_confirm r) (upd (\<lambda>s. s\<lparr>wm_open := False\<rparr>))))
           show_error)
         (\<lambda>s. s\<lparr>wm_busy := False\<rparr>))"

definition confirm_impact_disabled :: "'z impact_modal_scheme \<Rightarrow> bool" where
  "confirm_impact_disabled s \<longleftrightarrow> wm_loading s \<or> wm_busy s"

definition impact_banner :: "'z impact_modal_scheme \<Rightarrow> string" where
  "impact_banner s =
     (case wm_impact s of
        None \<Rightarrow> []
      | Some im \<Rightarrow>
          if im_blocking im
          then (if modal_worker_type s = ''capture'' then ''instance.workerImpactCaptureBlocking''
                else ''instance.workerImpactBlocking'')
          else ''instance.workerImpactNoImpact'')"

definition impact_sections_shown :: "'z impact_modal_scheme \<Rightarrow> bool" where
  "impact_sections_shown s =
     (case wm_impact s of
        None \<Rightarrow> False
      | Some im \<Rightarrow> im_blocking im
          \<or> (modal_worker_type s = ''capture'' \<and> 0 < nullish (im_capture_hosts_count im) 0))"

definition capture_choice_label :: "capture_choice \<Rightarrow> string" where
  "capture_choice_label c = (if trim (cc_name c) \<noteq> [] then trim (cc_name c) else cc_base_url c)"

lemma first_or_in: "first_or P xs = Some x \<Longrightarrow> x \<in> set xs"
  by (auto simp: first_or_def find_Some_iff split: option.splits list.splits)

lemma first_or_some: "xs \<noteq> [] \<Longrightarrow> first_or P xs \<noteq> None"
  by (cases xs) (auto simp: first_or_def split: option.splits)

text \<open>A replacement is only sent when the server offers one and the box is ticked, and it is one of those offered.\<close>

lemma remediation_offered:
  assumes "remediation_of s = Some r"
  shows "wm_apply s \<and> (\<exists>im. wm_impact s = Some im \<and> can_remediate im
    \<and> (case r of
         RemCapture i \<Rightarrow> modal_worker_type s = ''capture'' \<and> i \<in> cc_id ` set (nullish (im_capture_workers im) [])
       | RemTranscribe a d \<Rightarrow> modal_worker_type s = ''transcribe'' \<and> (a, d) \<in> pair_of ` set (nullish (im_available_pairs im) [])
       | RemSummarize m \<Rightarrow> modal_worker_type s = ''summarize'' \<and> m \<in> set (nullish (im_available_summarize im) [])))"
  using assms
  by (auto simp: remediation_of_def selected_capture_worker_def selected_pair_def selected_summarize_choice_def
      pair_of_def image_iff dest!: first_or_in split: if_splits option.splits)

section \<open>The form of a worker\<close>

record engine_option =
  eo_id :: string
  eo_status :: string
  eo_label :: "string option"

record probe_result =
  pr_asr :: "engine_option list option"
  pr_diarization :: "engine_option list option"
  pr_connectors :: "engine_option list option"
  pr_summarize :: "string option"

text \<open>The weight is a JSON value: \<open>JSON.stringify\<close> writes a weight that is no number as \<open>null\<close>.\<close>

record worker_form =
  wf_type :: string
  wf_name :: string
  wf_base_url :: string
  wf_api_token :: string
  wf_weight :: json
  wf_enabled :: bool
  wf_asr :: "string list"
  wf_diarization :: "string list"
  wf_connectors :: "string list"

definition empty_worker :: worker_form where
  "empty_worker =
     \<lparr>wf_type = ''transcribe'', wf_name = [], wf_base_url = [], wf_api_token = [], wf_weight = JNum 1,
      wf_enabled = True, wf_asr = [], wf_diarization = [], wf_connectors = []\<rparr>"

definition form_of_worker :: "worker \<Rightarrow> worker_form" where
  "form_of_worker w =
     \<lparr>wf_type = worker_type w, wf_name = worker_name w, wf_base_url = worker_base_url w, wf_api_token = [],
      wf_weight = JNum (worker_weight w), wf_enabled = worker_enabled w, wf_asr = worker_asr_models w,
      wf_diarization = worker_diarization_models w, wf_connectors = worker_capture_connectors w\<rparr>"

definition strings_json :: "string list \<Rightarrow> json" where
  "strings_json xs = JArr (map JStr xs)"

definition form_json :: "worker_form \<Rightarrow> json" where
  "form_json f =
     JObj [(''type'', JStr (wf_type f)), (''name'', JStr (wf_name f)), (''base_url'', JStr (wf_base_url f)),
           (''api_token'', JStr (wf_api_token f)), (''weight'', wf_weight f), (''enabled'', JBool (wf_enabled f)),
           (''asr_models'', strings_json (wf_asr f)), (''diarization_models'', strings_json (wf_diarization f)),
           (''capture_connectors'', strings_json (wf_connectors f))]"

text \<open>A probe in flight keeps what its call saw: the type of the form at that moment.\<close>

record workers_tab = browser +
  wt_workers :: "worker list"
  wt_summary :: "workers_summary option"
  wt_form :: worker_form
  wt_edit :: "string option"
  wt_form_open :: bool
  wt_probing :: bool
  wt_probe :: "probe_result option"
  wt_probe_ok :: bool
  wt_modal :: "(worker \<times> (string \<times> json) list option) option"
  wt_flight :: "string list"

definition loaded_status :: string where
  "loaded_status = ''loaded''"

definition selectable_engines :: "engine_option list option \<Rightarrow> engine_option list" where
  "selectable_engines ms = filter (\<lambda>m. eo_status m = loaded_status \<or> eo_status m = ''unavailable'') (nullish ms [])"

definition loaded_capture_connectors :: "engine_option list option \<Rightarrow> engine_option list" where
  "loaded_capture_connectors ms = filter (\<lambda>m. eo_status m = loaded_status) (nullish ms [])"

definition workers_path :: "bool \<Rightarrow> bool \<Rightarrow> string" where
  "workers_path probe refr =
     (let qs = (if probe then [] else [(''probe'', ''false'')]) @ (if refr then [(''refresh'', ''true'')] else []) in
      if qs = [] then ''/workers'' else ''/workers?'' @ params_to_string qs)"

definition load_workers ::
  "bool \<Rightarrow> bool \<Rightarrow> (exn + worker list \<times> workers_summary option) \<Rightarrow> ('z workers_tab_scheme, unit) act" where
  "load_workers probe refr r =
     tryA (bindA (api_call (\<lambda>_ _ _. r) ''GET'' (workers_path probe refr) None)
            (\<lambda>(items, sm). upd (\<lambda>s. s\<lparr>wt_workers := items, wt_summary := sm\<rparr>)))
       show_error"

definition mount_workers ::
  "(exn + worker list \<times> workers_summary option) \<Rightarrow> (exn + worker list \<times> workers_summary option)
     \<Rightarrow> ('z workers_tab_scheme, unit) act" where
  "mount_workers r1 r2 = thenA (load_workers False False r1) (load_workers True True r2)"

definition toggle :: "'a \<Rightarrow> 'a list \<Rightarrow> 'a list" where
  "toggle x xs = (if x \<in> set xs then filter (\<lambda>y. y \<noteq> x) xs else xs @ [x])"

definition toggle_capture_connector :: "string \<Rightarrow> 'z workers_tab_scheme \<Rightarrow> 'z workers_tab_scheme" where
  "toggle_capture_connector i s =
     (case Option.bind (wt_probe s) (\<lambda>p. Option.bind (pr_connectors p) (find (\<lambda>m. eo_id m = i))) of
        Some m \<Rightarrow>
          if eo_status m = loaded_status
          then s\<lparr>wt_form := (wt_form s)\<lparr>wf_connectors := toggle i (wf_connectors (wt_form s))\<rparr>\<rparr> else s
      | None \<Rightarrow> s)"

definition toggle_asr :: "string \<Rightarrow> 'z workers_tab_scheme \<Rightarrow> 'z workers_tab_scheme" where
  "toggle_asr i s = s\<lparr>wt_form := (wt_form s)\<lparr>wf_asr := toggle i (wf_asr (wt_form s))\<rparr>\<rparr>"

definition toggle_diarization :: "string \<Rightarrow> 'z workers_tab_scheme \<Rightarrow> 'z workers_tab_scheme" where
  "toggle_diarization i s = s\<lparr>wt_form := (wt_form s)\<lparr>wf_diarization := toggle i (wf_diarization (wt_form s))\<rparr>\<rparr>"

text \<open>\<open>probeWorker\<close> of a closure that saw the form \<open>f\<close> and the edited worker \<open>ed\<close>; the options name a worker.\<close>

definition probe_body :: "worker_form \<Rightarrow> string option \<Rightarrow> (string \<times> string \<times> string) option \<Rightarrow> (string \<times> json) list option" where
  "probe_body f ed opts =
     (let wid = (case opts of Some (i, _, _) \<Rightarrow> Some i | None \<Rightarrow> ed);
          url = trim (case opts of Some (_, u, _) \<Rightarrow> u | None \<Rightarrow> wf_base_url f);
          ty = (case opts of Some (_, _, x) \<Rightarrow> x | None \<Rightarrow> wf_type f);
          token = trim (wf_api_token f) in
      if url = [] then None
      else if \<not> truthy wid \<and> token = [] then None
      else Some ([(''type'', JStr ty), (''base_url'', JStr url)]
             @ (if token \<noteq> [] then [(''api_token'', JStr token)] else [])
             @ (if truthy wid then [(''worker_id'', JStr (str_or_empty wid))] else [])))"

definition probe_send ::
  "worker_form \<Rightarrow> string option \<Rightarrow> (string \<times> string \<times> string) option \<Rightarrow> 'z workers_tab_scheme \<Rightarrow> 'z workers_tab_scheme" where
  "probe_send f ed opts s =
     (case probe_body f ed opts of
        None \<Rightarrow> s
      | Some b \<Rightarrow>
          (emit (EvRequest ''POST'' ''/workers/probe'' (Some (JObj b))) s)
            \<lparr>wt_probing := True, wt_probe_ok := False, wt_flight := wt_flight s @ [wf_type f]\<rparr>)"

definition probe_click :: "'z workers_tab_scheme \<Rightarrow> 'z workers_tab_scheme" where
  "probe_click s = probe_send (wt_form s) (wt_edit s) None s"

definition prune_models :: "probe_result \<Rightarrow> worker_form \<Rightarrow> worker_form" where
  "prune_models r f =
     f\<lparr>wf_asr := filter (\<lambda>i. i \<in> set (map eo_id (selectable_engines (pr_asr r)))) (wf_asr f),
       wf_diarization := filter (\<lambda>i. i \<in> set (map eo_id (selectable_engines (pr_diarization r)))) (wf_diarization f)\<rparr>"

definition prune_connectors :: "probe_result \<Rightarrow> worker_form \<Rightarrow> worker_form" where
  "prune_connectors r f =
     (let loaded = map eo_id (loaded_capture_connectors (pr_connectors r));
          kept = filter (\<lambda>i. i \<in> set loaded) (wf_connectors f) in
      f\<lparr>wf_connectors := (if 0 < length kept then kept else loaded)\<rparr>)"

definition probe_answer :: "string \<Rightarrow> exn + probe_result \<Rightarrow> 'z workers_tab_scheme \<Rightarrow> 'z workers_tab_scheme" where
  "probe_answer ty r s =
     (let s1 = s\<lparr>wt_flight := remove1 ty (wt_flight s), wt_probing := False\<rparr> in
      case r of
        Inl e \<Rightarrow> (emit (EvToast e None) s1)\<lparr>wt_probe := None\<rparr>
      | Inr p \<Rightarrow>
          s1\<lparr>wt_probe := Some p, wt_probe_ok := True,
             wt_form := (if ty = ''transcribe'' then prune_models p (wt_form s)
                         else if ty = ''capture'' then prune_connectors p (wt_form s) else wt_form s)\<rparr>)"

definition build_worker_body :: "worker_form \<Rightarrow> (string \<times> json) list" where
  "build_worker_body f =
     [(''type'', JStr (wf_type f)), (''name'', JStr (wf_name f)), (''base_url'', JStr (wf_base_url f)),
      (''weight'', wf_weight f), (''enabled'', JBool (wf_enabled f))]
     @ (if trim (wf_api_token f) \<noteq> [] then [(''api_token'', JStr (trim (wf_api_token f)))] else [])
     @ (if wf_type f = ''transcribe''
        then [(''asr_models'', strings_json (wf_asr f)), (''diarization_models'', strings_json (wf_diarization f))] else [])
     @ (if wf_type f = ''capture'' then [(''capture_connectors'', strings_json (wf_connectors f))] else [])"

definition reset_form :: "'z workers_tab_scheme \<Rightarrow> 'z workers_tab_scheme" where
  "reset_form s =
     s\<lparr>wt_form := empty_worker, wt_edit := None, wt_form_open := False, wt_probe := None, wt_probe_ok := False\<rparr>"

definition save_worker_direct ::
  "(string \<times> json) list \<Rightarrow> string option \<Rightarrow> (exn + unit) \<Rightarrow> (exn + worker list \<times> workers_summary option)
     \<Rightarrow> ('z workers_tab_scheme, unit) act" where
  "save_worker_direct body wid save_r list_r =
     bindA (if truthy wid then api_call (\<lambda>_ _ _. save_r) ''PATCH'' (''/workers/'' @ str_or_empty wid) (Some (JObj body))
            else api_call (\<lambda>_ _ _. save_r) ''POST'' ''/workers'' (Some (JObj body)))
       (\<lambda>_. thenA (upd reset_form) (load_workers True False list_r))"

definition request_save_worker ::
  "(exn + unit) \<Rightarrow> (exn + worker list \<times> workers_summary option) \<Rightarrow> ('z workers_tab_scheme, unit) act" where
  "request_save_worker save_r list_r =
     bindA (getsA (\<lambda>s. (build_worker_body (wt_form s), wt_edit s, wt_workers s))) (\<lambda>(body, ed, ws).
       if truthy ed
       then (case find (\<lambda>w. Some (worker_id w) = ed) ws of
               None \<Rightarrow> ret ()
             | Some w \<Rightarrow> upd (\<lambda>s. s\<lparr>wt_modal := Some (w, Some body)\<rparr>))
       else tryA (save_worker_direct body None save_r list_r) show_error)"

definition confirm_worker ::
  "remediation option \<Rightarrow> (exn + unit) \<Rightarrow> (exn + worker list \<times> workers_summary option) \<Rightarrow> ('z workers_tab_scheme, unit) act" where
  "confirm_worker rem save_r list_r =
     bindA (getsA wt_modal) (\<lambda>m.
       case m of
         None \<Rightarrow> ret ()
       | Some (w, None) \<Rightarrow>
           bindA (api_call (\<lambda>_ _ _. save_r) ''DELETE'' (''/workers/'' @ worker_id w)
                    (map_option (\<lambda>r. JObj [(''remediation'', remediation_json r)]) rem))
             (\<lambda>_. load_workers True False list_r)
       | Some (w, Some body) \<Rightarrow>
           save_worker_direct
             (body @ (case rem of None \<Rightarrow> [] | Some r \<Rightarrow> [(''remediation'', remediation_json r)])) (Some (worker_id w))
             save_r list_r)"

definition open_create :: "'z workers_tab_scheme \<Rightarrow> 'z workers_tab_scheme" where
  "open_create s = (reset_form s)\<lparr>wt_form_open := True\<rparr>"

text \<open>The probe of \<open>startEdit\<close> runs in the closure of the old form.\<close>

definition start_edit :: "worker \<Rightarrow> 'z workers_tab_scheme \<Rightarrow> 'z workers_tab_scheme" where
  "start_edit w s =
     (let s1 = s\<lparr>wt_edit := Some (worker_id w), wt_form_open := True, wt_probe := None, wt_probe_ok := False,
                 wt_form := form_of_worker w\<rparr> in
      if worker_type w = ''transcribe'' \<or> worker_type w = ''capture'' \<or> worker_type w = ''summarize''
      then probe_send (wt_form s) (wt_edit s) (Some (worker_id w, worker_base_url w, worker_type w)) s1 else s1)"

definition cancel_edit :: "'z workers_tab_scheme \<Rightarrow> 'z workers_tab_scheme" where
  "cancel_edit s = reset_form s"

definition change_form_type :: "string \<Rightarrow> 'z workers_tab_scheme \<Rightarrow> 'z workers_tab_scheme" where
  "change_form_type ty s = s\<lparr>wt_form := (wt_form s)\<lparr>wf_type := ty\<rparr>, wt_probe := None, wt_probe_ok := False\<rparr>"

definition change_base_url :: "string \<Rightarrow> 'z workers_tab_scheme \<Rightarrow> 'z workers_tab_scheme" where
  "change_base_url u s = s\<lparr>wt_form := (wt_form s)\<lparr>wf_base_url := u\<rparr>, wt_probe_ok := False\<rparr>"

definition change_api_token :: "string \<Rightarrow> 'z workers_tab_scheme \<Rightarrow> 'z workers_tab_scheme" where
  "change_api_token t s = s\<lparr>wt_form := (wt_form s)\<lparr>wf_api_token := t\<rparr>, wt_probe_ok := False\<rparr>"

definition worker_baseline :: "'z workers_tab_scheme \<Rightarrow> worker_form" where
  "worker_baseline s =
     (if \<not> truthy (wt_edit s) then empty_worker
      else (case find (\<lambda>w. Some (worker_id w) = wt_edit s) (wt_workers s) of
              None \<Rightarrow> empty_worker
            | Some w \<Rightarrow> form_of_worker w))"

definition worker_dirty :: "'z workers_tab_scheme \<Rightarrow> bool" where
  "worker_dirty s \<longleftrightarrow> json_dirty (form_json (wt_form s)) (form_json (worker_baseline s))"

definition can_save_worker :: "'z workers_tab_scheme \<Rightarrow> bool" where
  "can_save_worker s \<longleftrightarrow>
     (let f = wt_form s in
      (wf_type f \<noteq> ''transcribe'' \<or> (wt_probe_ok s \<and> 0 < length (wf_asr f) \<and> wt_probe s \<noteq> None))
      \<and> (wf_type f \<noteq> ''capture'' \<or> (wt_probe_ok s \<and> 0 < length (wf_connectors f) \<and> wt_probe s \<noteq> None)))"

definition worker_ready :: "'z workers_tab_scheme \<Rightarrow> bool" where
  "worker_ready s \<longleftrightarrow> can_save_worker s \<and> worker_dirty s"

definition can_probe :: "'z workers_tab_scheme \<Rightarrow> bool" where
  "can_probe s \<longleftrightarrow> trim (wf_base_url (wt_form s)) \<noteq> [] \<and> (trim (wf_api_token (wt_form s)) \<noteq> [] \<or> truthy (wt_edit s))"

text \<open>\<open>dash\<close> is the long dash.\<close>

definition worker_models_text :: "string \<Rightarrow> worker \<Rightarrow> string" where
  "worker_models_text dash w =
     (if worker_type w = ''transcribe''
      then or_default (Some (join '', '' (map (\<lambda>i. ''ASR:'' @ i) (worker_asr_models w)
             @ map (\<lambda>i. ''D:'' @ i) (worker_diarization_models w)))) dash
      else if worker_type w = ''capture'' then or_default (Some (join '', '' (worker_capture_connectors w))) dash
      else if worker_type w = ''summarize'' then or_default (map_option trim (worker_summarize_model w)) dash
      else dash)"

record workers_totals =
  wo_total :: nat
  wo_enabled :: nat
  wo_available :: nat
  wo_healthy :: nat
  wo_unhealthy :: nat

definition workers_totals_of :: "'z workers_tab_scheme \<Rightarrow> workers_totals" where
  "workers_totals_of s =
     \<lparr>wo_total = nullish (map_option ws_total (wt_summary s)) (length (wt_workers s)),
      wo_enabled = nullish (map_option ws_enabled (wt_summary s)) (length (filter worker_enabled (wt_workers s))),
      wo_available = nullish (map_option ws_available (wt_summary s)) 0,
      wo_healthy = length (filter is_worker_healthy (wt_workers s)),
      wo_unhealthy = length (filter is_worker_unhealthy (wt_workers s))\<rparr>"

lemma find_own:
  assumes "w \<in> set ws" and "distinct (map worker_id ws)"
  shows "find (\<lambda>v. Some (worker_id v) = Some (worker_id w)) ws = Some w"
  using assms by (induction ws) auto

lemma probe_send_fields [simp]:
  "wt_form (probe_send f ed opts s) = wt_form s" "wt_edit (probe_send f ed opts s) = wt_edit s"
  "wt_workers (probe_send f ed opts s) = wt_workers s"
  by (simp_all add: probe_send_def emit_def split: option.splits)

lemma start_edit_form [simp]:
  "wt_form (start_edit w s) = form_of_worker w" "wt_edit (start_edit w s) = Some (worker_id w)"
  "wt_workers (start_edit w s) = wt_workers s"
  by (simp_all add: start_edit_def Let_def)

lemma edited_clean:
  assumes "w \<in> set (wt_workers s)" and "distinct (map worker_id (wt_workers s))"
  shows "worker_id w \<noteq> [] \<Longrightarrow> \<not> worker_dirty (start_edit w s)"
  using find_own [OF assms] by (simp add: worker_dirty_def worker_baseline_def json_dirty_def)

lemma pruned_models:
  "set (wf_asr (prune_models p f)) \<subseteq> set (map eo_id (selectable_engines (pr_asr p)))"
  "set (wf_diarization (prune_models p f)) \<subseteq> set (map eo_id (selectable_engines (pr_diarization p)))"
  "set (wf_connectors (prune_connectors p f)) \<subseteq> set (map eo_id (loaded_capture_connectors (pr_connectors p)))"
  "loaded_capture_connectors (pr_connectors p) \<noteq> [] \<Longrightarrow> wf_connectors (prune_connectors p f) \<noteq> []"
  by (auto simp: prune_models_def prune_connectors_def Let_def)

text \<open>
  What the form of a worker sends. A probe of the form's own type leaves only engines the worker reports (and some
  connector, when it reports one); a fresh edit has nothing to save; the body of a request names engines of the
  worker's own type only. The probe that starts with an edit, though, runs in the closure of the form before it: it
  sends a token typed there for another worker, and its answer is read as the answer for the old form's type, so the
  connectors of a capture worker edited after a transcription form are not checked.
\<close>

theorem worker_form_probes:
  "(probe_answer (wf_type (wt_form s)) (Inr p) s = t \<longrightarrow>
      (wf_type (wt_form s) = ''transcribe'' \<longrightarrow>
         set (wf_asr (wt_form t)) \<subseteq> set (map eo_id (selectable_engines (pr_asr p)))
         \<and> set (wf_diarization (wt_form t)) \<subseteq> set (map eo_id (selectable_engines (pr_diarization p))))
      \<and> (wf_type (wt_form s) = ''capture'' \<longrightarrow>
         set (wf_connectors (wt_form t)) \<subseteq> set (map eo_id (loaded_capture_connectors (pr_connectors p)))))
   \<and> (w \<in> set (wt_workers s) \<and> distinct (map worker_id (wt_workers s)) \<and> worker_id w \<noteq> [] \<longrightarrow>
      \<not> worker_dirty (start_edit w s) \<and> \<not> worker_ready (start_edit w s))
   \<and> (worker_type w = ''capture'' \<and> wf_type (wt_form s) = ''transcribe'' \<and> trim (worker_base_url w) \<noteq> []
        \<and> worker_id w \<noteq> [] \<and> trim (wf_api_token (wt_form s)) \<noteq> [] \<longrightarrow>
      events (start_edit w s) = events s @ [EvRequest ''POST'' ''/workers/probe''
         (Some (JObj [(''type'', JStr ''capture''), (''base_url'', JStr (trim (worker_base_url w))),
            (''api_token'', JStr (trim (wf_api_token (wt_form s)))), (''worker_id'', JStr (worker_id w))]))]
      \<and> wt_flight (start_edit w s) = wt_flight s @ [''transcribe'']
      \<and> wf_connectors (wt_form (probe_answer ''transcribe'' (Inr p) (start_edit w s))) = worker_capture_connectors w)"
proof (intro conjI impI)
  show "set (wf_asr (wt_form t)) \<subseteq> set (map eo_id (selectable_engines (pr_asr p)))"
    if "probe_answer (wf_type (wt_form s)) (Inr p) s = t" and "wf_type (wt_form s) = ''transcribe''"
    using that pruned_models(1) [of p "wt_form s"] by (auto simp: probe_answer_def Let_def simp del: set_map)
  show "set (wf_diarization (wt_form t)) \<subseteq> set (map eo_id (selectable_engines (pr_diarization p)))"
    if "probe_answer (wf_type (wt_form s)) (Inr p) s = t" and "wf_type (wt_form s) = ''transcribe''"
    using that pruned_models(2) [of p "wt_form s"] by (auto simp: probe_answer_def Let_def simp del: set_map)
  show "set (wf_connectors (wt_form t)) \<subseteq> set (map eo_id (loaded_capture_connectors (pr_connectors p)))"
    if "probe_answer (wf_type (wt_form s)) (Inr p) s = t" and "wf_type (wt_form s) = ''capture''"
    using that pruned_models(3) [of p "wt_form s"] by (auto simp: probe_answer_def Let_def simp del: set_map)
  show "\<not> worker_dirty (start_edit w s)" "\<not> worker_ready (start_edit w s)"
    if "w \<in> set (wt_workers s) \<and> distinct (map worker_id (wt_workers s)) \<and> worker_id w \<noteq> []"
    using that edited_clean [of w s] by (auto simp: worker_ready_def)
qed (auto simp: start_edit_def Let_def probe_send_def probe_body_def emit_def probe_answer_def prune_models_def
    form_of_worker_def)

end
