(* ===== verification/Artifacts.thy ===== *)
theory Artifacts
  imports Ingest Lists Models
begin

text \<open>
  The pages of one item (\<open>pages/TranscriptPage.tsx\<close>, \<open>SummaryPage.tsx\<close>, \<open>AudioPage.tsx\<close>, \<open>SkillPage.tsx\<close>), with what they
  open: the share dialog (\<open>components/ShareDialog.tsx\<close>), the title editor (\<open>InlineRename.tsx\<close>), the dialog that warns
  before a deletion (\<open>LibraryArtifactImpactModal.tsx\<close>); and the public page of a summary (\<open>PublicSummaryPage.tsx\<close>).
  A handler takes the answers of its requests; the item's loader is a step of its own, since it also answers later.
\<close>

section \<open>Renaming in place\<close>

record rename_box =
  rn_value :: string
  rn_draft :: string
  rn_editing :: bool

definition rename_ready :: "rename_box \<Rightarrow> bool" where
  "rename_ready b \<longleftrightarrow> 0 < length (trim (rn_draft b)) \<and> trim (rn_draft b) \<noteq> rn_value b"

text \<open>The value changes from outside; the draft follows unless it is being edited.\<close>

definition rename_value :: "string \<Rightarrow> rename_box \<Rightarrow> rename_box" where
  "rename_value v b = (if rn_editing b then b\<lparr>rn_value := v\<rparr> else b\<lparr>rn_value := v, rn_draft := v\<rparr>)"

definition rename_start :: "rename_box \<Rightarrow> rename_box" where
  "rename_start b = b\<lparr>rn_editing := True\<rparr>"

definition rename_cancel :: "rename_box \<Rightarrow> rename_box" where
  "rename_cancel b = b\<lparr>rn_draft := rn_value b, rn_editing := False\<rparr>"

text \<open>\<open>save\<close>: the title to hand to \<open>onSave\<close>, if any; a rejected \<open>onSave\<close> leaves the editor open.\<close>

definition rename_request :: "rename_box \<Rightarrow> string option" where
  "rename_request b =
     (let nxt = trim (rn_draft b) in if nxt = [] \<or> nxt = rn_value b then None else Some nxt)"

definition rename_save :: "(exn + unit) \<Rightarrow> rename_box \<Rightarrow> rename_box" where
  "rename_save r b =
     (case rename_request b of
        None \<Rightarrow> b\<lparr>rn_editing := False, rn_draft := rn_value b\<rparr>
      | Some _ \<Rightarrow> (case r of Inr _ \<Rightarrow> b\<lparr>rn_editing := False\<rparr> | Inl _ \<Rightarrow> b))"

lemma rename_ready_sends: "rename_ready b \<longleftrightarrow> rename_request b \<noteq> None"
  by (auto simp: rename_ready_def rename_request_def Let_def)

section \<open>Before a deletion\<close>

record artifact_impact =
  ai_shared_with :: "string list option"
  ai_transcripts :: "string list option"
  ai_summaries :: "string list option"
  ai_queued :: "nat option"
  ai_running :: "nat option"
  ai_public_link :: "bool option"

record artifact_dialog = browser +
  ad_impact :: "artifact_impact option"
  ad_loading :: bool
  ad_busy :: bool
  ad_open :: bool

definition delete_impact_path :: "string \<Rightarrow> string \<Rightarrow> string" where
  "delete_impact_path otype oid =
     (if otype = ''audio'' then ''/audios/'' @ oid @ ''/delete-impact''
      else if otype = ''transcript'' then ''/transcripts/'' @ oid @ ''/delete-impact''
      else ''/summaries/'' @ oid @ ''/delete-impact'')"

definition artifact_impact_arrives :: "exn + artifact_impact \<Rightarrow> 'z artifact_dialog_scheme \<Rightarrow> 'z artifact_dialog_scheme" where
  "artifact_impact_arrives r s =
     (if \<not> ad_open s then s
      else (case r of
              Inr im \<Rightarrow> s\<lparr>ad_impact := Some im, ad_loading := False\<rparr>
            | Inl e \<Rightarrow> (emit (EvToast e None) s)\<lparr>ad_open := False\<rparr>))"

definition has_impact :: "artifact_impact option \<Rightarrow> bool" where
  "has_impact im =
     (case im of
        None \<Rightarrow> False
      | Some i \<Rightarrow> 0 < length (nullish (ai_shared_with i) []) \<or> 0 < length (nullish (ai_transcripts i) [])
          \<or> 0 < length (nullish (ai_summaries i) []) \<or> 0 < nullish (ai_queued i) 0 + nullish (ai_running i) 0
          \<or> ai_public_link i = Some True)"

definition artifact_banner :: "'z artifact_dialog_scheme \<Rightarrow> string \<times> string" where
  "artifact_banner s =
     (if ad_loading s then (''loading'', ''instance.workerImpactLoading'')
      else if has_impact (ad_impact s) then (''warn'', ''library.artifactImpactWarn'')
      else (''ok'', ''instance.workerImpactNoImpact''))"

definition confirm_artifact :: "('z artifact_dialog_scheme, unit) act \<Rightarrow> ('z artifact_dialog_scheme, unit) act" where
  "confirm_artifact on_confirm =
     thenA (upd (\<lambda>s. s\<lparr>ad_busy := True\<rparr>))
       (finallyA (tryA (thenA on_confirm (upd (\<lambda>s. s\<lparr>ad_open := False\<rparr>))) show_error) (\<lambda>s. s\<lparr>ad_busy := False\<rparr>))"

definition close_artifact :: "'z artifact_dialog_scheme \<Rightarrow> 'z artifact_dialog_scheme" where
  "close_artifact s = (if ad_busy s then s else s\<lparr>ad_open := False\<rparr>)"

section \<open>Sharing\<close>

record public_link =
  pl_id :: string
  pl_url :: "string option"
  pl_expires_at :: "string option"
  pl_pin_required :: bool

record share_dialog = browser +
  sd_type :: string
  sd_object :: string
  sd_can_manage :: "bool option"
  sd_users :: "user list"
  sd_shares :: "share_record list"
  sd_picked :: "(string \<times> bool) list"
  sd_busy :: bool
  sd_revoking :: "string option"
  sd_link :: "public_link option"
  sd_public_busy :: bool
  sd_expiry :: "nat option"
  sd_use_pin :: bool
  sd_pin :: string

definition expiry_options :: "(nat option \<times> string) list" where
  "expiry_options =
     [(None, ''never''), (Some 1, ''d1''), (Some 7, ''d7''), (Some 30, ''d30''), (Some 90, ''d90''), (Some 365, ''d365'')]"

definition show_public :: "'z share_dialog_scheme \<Rightarrow> bool" where
  "show_public s \<longleftrightarrow> sd_type s = ''summary'' \<and> nullish (sd_can_manage s) False"

definition shares_path :: "'z share_dialog_scheme \<Rightarrow> string" where
  "shares_path s = ''/shares?object_type='' @ uri_component (sd_type s) @ ''&object_id='' @ uri_component (sd_object s)"

definition public_link_path :: "'z share_dialog_scheme \<Rightarrow> string" where
  "public_link_path s = ''/summaries/'' @ sd_object s @ ''/public-link''"

definition load_shares :: "(exn + share_record list option) \<Rightarrow> ('z share_dialog_scheme, unit) act" where
  "load_shares r =
     bindA (getsA shares_path) (\<lambda>p. bindA (api_call (\<lambda>_ _ _. r) ''GET'' p None)
       (\<lambda>items. upd (\<lambda>s. s\<lparr>sd_shares := nullish items []\<rparr>)))"

definition load_public_link :: "(exn + public_link option) \<Rightarrow> ('z share_dialog_scheme, unit) act" where
  "load_public_link r =
     bindA (getsA show_public) (\<lambda>sp.
       whenA sp (bindA (getsA public_link_path) (\<lambda>p. bindA (api_call (\<lambda>_ _ _. r) ''GET'' p None)
         (\<lambda>l. upd (\<lambda>s. s\<lparr>sd_link := l\<rparr>)))))"

text \<open>The three requests of the opening effect go out together; one failure is shown, the first to
  arrive (\<open>pick\<close> tells which), and keeps the users from being set.\<close>

definition errors_of :: "(exn + 'a) \<Rightarrow> exn list" where
  "errors_of r = (case r of Inl e \<Rightarrow> [e] | Inr _ \<Rightarrow> [])"

definition mount_share ::
  "(exn list \<Rightarrow> exn) \<Rightarrow> (exn + user list option) \<Rightarrow> (exn + share_record list option) \<Rightarrow> (exn + public_link option)
     \<Rightarrow> 'z share_dialog_scheme \<Rightarrow> 'z share_dialog_scheme" where
  "mount_share pick users_r shares_r link_r s =
     (let s1 = emit (EvRequest ''GET'' ''/org/users'' None) s;
          s2 = snd (load_shares shares_r s1);
          s3 = snd (load_public_link link_r s2);
          errs = errors_of users_r @ errors_of shares_r @ (if show_public s then errors_of link_r else []) in
      if errs = [] then s3\<lparr>sd_users := (case users_r of Inr us \<Rightarrow> nullish us [] | Inl _ \<Rightarrow> [])\<rparr>
      else emit (EvToast (pick errs) None) s3)"

definition available_users :: "(string \<Rightarrow> string \<Rightarrow> int) \<Rightarrow> 'z share_dialog_scheme \<Rightarrow> user list" where
  "available_users cmp s =
     sort_by (\<lambda>a b. compare_users cmp (label_of_user a) (label_of_user b))
       (filter (\<lambda>u. user_id u \<notin> set (map share_to_user_id (sd_shares s))) (sd_users s))"

fun set_pick :: "string \<Rightarrow> bool \<Rightarrow> (string \<times> bool) list \<Rightarrow> (string \<times> bool) list" where
  "set_pick i b [] = [(i, b)]"
| "set_pick i b ((j, c) # ps) = (if j = i then (i, b) # ps else (j, c) # set_pick i b ps)"

definition picked_ids :: "'z share_dialog_scheme \<Rightarrow> string list" where
  "picked_ids s = map fst (filter snd (sd_picked s))"

definition share_body :: "'z share_dialog_scheme \<Rightarrow> json" where
  "share_body s =
     JObj [(''object_type'', JStr (sd_type s)), (''object_id'', JStr (sd_object s)),
           (''to_user_ids'', JArr (map JStr (picked_ids s)))]"

definition submit_share :: "(exn + unit) \<Rightarrow> (exn + share_record list option) \<Rightarrow> ('z share_dialog_scheme, unit) act" where
  "submit_share share_r shares_r =
     bindA (getsA (\<lambda>s. (picked_ids s, share_body s))) (\<lambda>(ids, body).
       if ids = [] then ret ()
       else thenA (upd (\<lambda>s. s\<lparr>sd_busy := True\<rparr>))
         (finallyA
           (tryA
             (bindA (api_call (\<lambda>_ _ _. share_r) ''POST'' ''/shares'' (Some body)) (\<lambda>_.
                thenA (upd (\<lambda>s. s\<lparr>sd_picked := []\<rparr>)) (load_shares shares_r)))
             show_error)
           (\<lambda>s. s\<lparr>sd_busy := False\<rparr>)))"

definition revoke_share :: "string \<Rightarrow> (exn + unit) \<Rightarrow> ('z share_dialog_scheme, unit) act" where
  "revoke_share i r =
     thenA (upd (\<lambda>s. s\<lparr>sd_revoking := Some i\<rparr>))
       (finallyA
         (tryA
           (bindA (api_call (\<lambda>_ _ _. r) ''DELETE'' (''/shares/'' @ i) None)
             (\<lambda>_. upd (\<lambda>s. s\<lparr>sd_shares := filter (\<lambda>x. share_id x \<noteq> i) (sd_shares s)\<rparr>)))
           show_error)
         (\<lambda>s. s\<lparr>sd_revoking := None\<rparr>))"

definition public_link_body :: "'z share_dialog_scheme \<Rightarrow> json" where
  "public_link_body s =
     JObj [(''expires_in_days'', case sd_expiry s of None \<Rightarrow> JNull | Some d \<Rightarrow> JNum (int d)),
           (''pin'', if sd_use_pin s then JStr (trim (sd_pin s)) else JNull)]"

definition public_create_disabled :: "'z share_dialog_scheme \<Rightarrow> bool" where
  "public_create_disabled s \<longleftrightarrow> sd_public_busy s \<or> (sd_use_pin s \<and> length (trim (sd_pin s)) < 4)"

definition create_public_link :: "(exn + public_link) \<Rightarrow> ('z share_dialog_scheme, unit) act" where
  "create_public_link r =
     bindA (getsA (\<lambda>s. (sd_use_pin s \<and> length (trim (sd_pin s)) < 4, public_link_path s, public_link_body s)))
       (\<lambda>(short, path, body).
         if short then ret ()
         else thenA (upd (\<lambda>s. s\<lparr>sd_public_busy := True\<rparr>))
           (finallyA
             (tryA
               (bindA (api_call (\<lambda>_ _ _. r) ''POST'' path (Some body))
                 (\<lambda>l. upd (\<lambda>s. s\<lparr>sd_link := Some l, sd_pin := [], sd_use_pin := False\<rparr>)))
               show_error)
             (\<lambda>s. s\<lparr>sd_public_busy := False\<rparr>)))"

definition revoke_public_link :: "(exn + unit) \<Rightarrow> ('z share_dialog_scheme, unit) act" where
  "revoke_public_link r =
     thenA (upd (\<lambda>s. s\<lparr>sd_public_busy := True\<rparr>))
       (finallyA
         (tryA
           (bindA (getsA public_link_path) (\<lambda>p. bindA (api_call (\<lambda>_ _ _. r) ''DELETE'' p None)
             (\<lambda>_. upd (\<lambda>s. s\<lparr>sd_link := None, sd_use_pin := False, sd_pin := [], sd_expiry := Some 7\<rparr>))))
           show_error)
         (\<lambda>s. s\<lparr>sd_public_busy := False\<rparr>))"

text \<open>What the public section shows.\<close>

definition public_section :: "me option \<Rightarrow> 'z share_dialog_scheme \<Rightarrow> string" where
  "public_section m s =
     (if \<not> show_public s then []
      else if \<not> (case Option.bind m me_org of None \<Rightarrow> False | Some g \<Rightarrow> org_public_base_url_set g) then ''share.publicUrlMissing''
      else if \<not> (case Option.bind m me_org of None \<Rightarrow> False | Some g \<Rightarrow> org_allow_public_links g) then ''share.publicLinksDisabled''
      else if (case sd_link s of None \<Rightarrow> False | Some l \<Rightarrow> truthy (pl_url l)) then ''link''
      else ''create'')"

definition submit_share_disabled :: "'z share_dialog_scheme \<Rightarrow> bool" where
  "submit_share_disabled s \<longleftrightarrow> sd_busy s \<or> \<not> list_ex snd (sd_picked s)"

text \<open>Whoever has the item is never offered, and everybody else is.\<close>

lemma available_users_set:
  "set (available_users cmp s) = {u \<in> set (sd_users s). user_id u \<notin> share_to_user_id ` set (sd_shares s)}"
  by (auto simp: available_users_def)

lemma set_pick_pick: "map_of (set_pick i b ps) j = (if j = i then Some b else map_of ps j)"
  by (induction ps) auto

lemma share_button: "submit_share_disabled s \<longleftrightarrow> sd_busy s \<or> picked_ids s = []"
  by (auto simp: submit_share_disabled_def picked_ids_def list_ex_iff filter_empty_conv)

lemma short_pin_never_sent:
  "sd_use_pin s \<and> length (trim (sd_pin s)) < 4 \<Longrightarrow> create_public_link r s = (Inr (), s)"
  by (simp add: create_public_link_def run_simps)

lemma revoked_share_gone:
  "share_id ` set (sd_shares (snd (revoke_share i (Inr ()) s))) = share_id ` set (sd_shares s) - {i}
   \<and> snd (revoke_share i (Inl e) s) = (emit (EvToast e None) (emit (EvRequest ''DELETE'' (''/shares/'' @ i) None) s))\<lparr>sd_revoking := None\<rparr>"
  by (auto simp: revoke_share_def run_simps show_error_def emit_def)

section \<open>The page of a summary\<close>

record summary_page = browser +
  sp_id :: "string option"
  sp_item :: "summary option"
  sp_draft :: string
  sp_editing :: bool
  sp_failed :: bool
  sp_share :: bool
  sp_confirm :: bool
  sp_busy :: bool

definition my_id :: "me option \<Rightarrow> string option" where
  "my_id m = map_option (\<lambda>x. user_id (me_user x)) m"

definition summary_mine :: "me option \<Rightarrow> 'z summary_page_scheme \<Rightarrow> bool" where
  "summary_mine m s \<longleftrightarrow> map_option summary_owner_user_id (sp_item s) = my_id m"

definition summary_can_delete :: "me option \<Rightarrow> 'z summary_page_scheme \<Rightarrow> bool" where
  "summary_can_delete m s \<longleftrightarrow> sp_item s \<noteq> None \<and> (summary_mine m s \<or> is_org_admin m)"

definition summary_edit_ready :: "'z summary_page_scheme \<Rightarrow> bool" where
  "summary_edit_ready s \<longleftrightarrow> (case sp_item s of None \<Rightarrow> False | Some x \<Rightarrow> sp_draft s \<noteq> str_or_empty (summary_body x))"

definition summary_loaded :: "summary \<Rightarrow> 'z summary_page_scheme \<Rightarrow> 'z summary_page_scheme" where
  "summary_loaded x s = s\<lparr>sp_item := Some x, sp_draft := str_or_empty (summary_body x)\<rparr>"

definition load_summary :: "(exn + summary) \<Rightarrow> ('z summary_page_scheme, unit) act" where
  "load_summary r =
     bindA (getsA sp_id) (\<lambda>i.
       whenA (truthy i)
         (bindA (api_call (\<lambda>_ _ _. r) ''GET'' (''/summaries/'' @ str_or_empty i) None) (\<lambda>x. upd (summary_loaded x))))"

definition mount_summary :: "(exn + summary) \<Rightarrow> ('z summary_page_scheme, unit) act" where
  "mount_summary r =
     tryA (thenA (load_summary r) (upd (\<lambda>s. s\<lparr>sp_failed := False\<rparr>)))
       (\<lambda>e. thenA (upd (\<lambda>s. s\<lparr>sp_failed := True\<rparr>)) (show_error e))"

definition save_summary :: "(exn + summary) \<Rightarrow> ('z summary_page_scheme, unit) act" where
  "save_summary r =
     bindA (getsA (\<lambda>s. (sp_id s, sp_draft s))) (\<lambda>(i, d).
       whenA (truthy i)
         (thenA (upd (\<lambda>s. s\<lparr>sp_busy := True\<rparr>))
           (finallyA
             (tryA
               (bindA (api_call (\<lambda>_ _ _. r) ''PATCH'' (''/summaries/'' @ str_or_empty i) (Some (JObj [(''body'', JStr d)])))
                 (\<lambda>x. upd (\<lambda>s. (summary_loaded x s)\<lparr>sp_editing := False\<rparr>)))
               show_error)
             (\<lambda>s. s\<lparr>sp_busy := False\<rparr>))))"

definition toggle_summary_hidden :: "(exn + unit) \<Rightarrow> (exn + summary) \<Rightarrow> ('z summary_page_scheme, unit) act" where
  "toggle_summary_hidden hide_r r =
     bindA (getsA (\<lambda>s. (sp_id s, sp_item s))) (\<lambda>(i, it).
       case it of
         None \<Rightarrow> ret ()
       | Some x \<Rightarrow>
           whenA (truthy i)
             (tryA
               (bindA (api_call (\<lambda>_ _ _. hide_r) ''POST''
                        (''/summaries/'' @ str_or_empty i @ (if sb_hidden x = Some True then ''/unhide'' else ''/hide'')) None)
                 (\<lambda>_. load_summary r))
               show_error))"

text \<open>Busy stays set once the page has left; the error is shown, not passed on.\<close>

definition remove_summary :: "(exn + unit) \<Rightarrow> ('z summary_page_scheme, unit) act" where
  "remove_summary r =
     bindA (getsA sp_id) (\<lambda>i.
       whenA (truthy i)
         (thenA (upd (\<lambda>s. s\<lparr>sp_busy := True\<rparr>))
           (tryA
             (bindA (api_call (\<lambda>_ _ _. r) ''DELETE'' (''/summaries/'' @ str_or_empty i) None)
               (\<lambda>_. navigate (library_path ''summaries'' None None) False None))
             (\<lambda>e. thenA (show_error e) (upd (\<lambda>s. s\<lparr>sp_busy := False\<rparr>))))))"

text \<open>\<open>renameTitle\<close> shows the error and passes it on to the title editor.\<close>

definition rename_summary :: "string \<Rightarrow> (exn + summary) \<Rightarrow> ('z summary_page_scheme, unit) act" where
  "rename_summary title r =
     bindA (getsA sp_id) (\<lambda>i.
       whenA (truthy i)
         (thenA (upd (\<lambda>s. s\<lparr>sp_busy := True\<rparr>))
           (finallyA
             (tryA
               (bindA (api_call (\<lambda>_ _ _. r) ''PATCH'' (''/summaries/'' @ str_or_empty i) (Some (JObj [(''title'', JStr title)])))
                 (\<lambda>x. upd (\<lambda>s. s\<lparr>sp_item := Some x\<rparr>)))
               (\<lambda>e. thenA (show_error e) (throw e)))
             (\<lambda>s. s\<lparr>sp_busy := False\<rparr>))))"

definition summary_edit :: "'z summary_page_scheme \<Rightarrow> 'z summary_page_scheme" where
  "summary_edit s =
     (case sp_item s of None \<Rightarrow> s | Some x \<Rightarrow> s\<lparr>sp_draft := str_or_empty (summary_body x), sp_editing := True\<rparr>)"

definition summary_cancel :: "'z summary_page_scheme \<Rightarrow> 'z summary_page_scheme" where
  "summary_cancel s =
     (case sp_item s of None \<Rightarrow> s | Some x \<Rightarrow> s\<lparr>sp_draft := str_or_empty (summary_body x), sp_editing := False\<rparr>)"

text \<open>Closing the share dialog loads the item again; \<open>void load ()\<close> drops its error.\<close>

definition summary_share_closed :: "(exn + summary) \<Rightarrow> 'z summary_page_scheme \<Rightarrow> 'z summary_page_scheme" where
  "summary_share_closed r s = snd (load_summary r (s\<lparr>sp_share := False\<rparr>))"

definition summary_heading :: "summary \<Rightarrow> string" where
  "summary_heading x = or_default (summary_display_title x) (or_default (summary_title x) (take 8 (summary_id x)))"

section \<open>The page of a transcript\<close>

record skill =
  sk_id :: string
  sk_scope :: string
  sk_owner_user_id :: "string option"
  sk_name :: string
  sk_body :: string
  sk_created_at :: string
  sk_catalog :: "string option"
  sk_readonly :: "bool option"
  sk_share_kind :: "string option"
  sk_share_id :: "string option"

record transcript_page = browser +
  tx_id :: "string option"
  tx_item :: "transcript option"
  tx_skills :: "skill list"
  tx_selected :: "string option"
  tx_failed :: bool
  tx_share :: bool
  tx_confirm :: bool
  tx_busy :: bool
  tx_open_text :: bool
  tx_seek_on_click :: bool
  tx_show_tone :: bool
  tx_picked_init :: bool

definition tone_key :: string where
  "tone_key = ''idigest-transcript-show-tone''"

definition skill_names_for_summary :: "summary \<Rightarrow> skill list \<Rightarrow> string" where
  "skill_names_for_summary x sks =
     (let by_id = map_of (rev (map (\<lambda>k. (sk_id k, sk_name k)) sks));
          names = filter (\<lambda>n. n \<noteq> []) (map (\<lambda>i. str_or_empty (by_id i)) (summary_skill_ids x)) in
      if 0 < length names then join '', '' names else summary_heading x)"

text \<open>\<open>allowed\<close>: the browser grants access to its storage.\<close>

definition initial_show_tone :: "bool \<Rightarrow> 'z browser_scheme \<Rightarrow> bool" where
  "initial_show_tone allowed s \<longleftrightarrow> allowed \<and> local_get s tone_key = Some ''true''"

definition transcript_mine :: "me option \<Rightarrow> 'z transcript_page_scheme \<Rightarrow> bool" where
  "transcript_mine m s \<longleftrightarrow> map_option transcript_owner_user_id (tx_item s) = my_id m"

definition transcript_can_rename :: "me option \<Rightarrow> 'z transcript_page_scheme \<Rightarrow> bool" where
  "transcript_can_rename m s \<longleftrightarrow> transcript_mine m s \<or> is_org_admin m"

definition transcript_can_delete :: "me option \<Rightarrow> 'z transcript_page_scheme \<Rightarrow> bool" where
  "transcript_can_delete m s \<longleftrightarrow> tx_item s \<noteq> None \<and> (transcript_mine m s \<or> is_org_admin m)"

definition selected_skill :: "'z transcript_page_scheme \<Rightarrow> skill option" where
  "selected_skill s = find (\<lambda>k. Some (sk_id k) = tx_selected s) (tx_skills s)"

text \<open>The effect on \<open>skills\<close>: the first list that arrives picks the remembered skill.\<close>

definition pick_saved_skill :: "'z transcript_page_scheme \<Rightarrow> 'z transcript_page_scheme" where
  "pick_saved_skill s =
     (if length (tx_skills s) = 0 \<or> tx_picked_init s then s
      else (let s1 = s\<lparr>tx_picked_init := True\<rparr> in
            case load_summarize_skill_ids s of
              [] \<Rightarrow> s1
            | saved # _ \<Rightarrow>
                if saved \<noteq> [] \<and> list_ex (\<lambda>k. sk_id k = saved) (tx_skills s) then s1\<lparr>tx_selected := Some saved\<rparr> else s1))"

definition transcript_loaded :: "transcript \<Rightarrow> skill list option \<Rightarrow> 'z transcript_page_scheme \<Rightarrow> 'z transcript_page_scheme" where
  "transcript_loaded x sks s = pick_saved_skill (s\<lparr>tx_item := Some x, tx_skills := nullish sks []\<rparr>)"

text \<open>Both requests go out; \<open>Promise.all\<close> rejects with the first error (\<open>pick\<close>).\<close>

definition load_transcript ::
  "(exn list \<Rightarrow> exn) \<Rightarrow> (exn + transcript) \<Rightarrow> (exn + skill list option) \<Rightarrow> ('z transcript_page_scheme, unit) act" where
  "load_transcript pick tr_r sk_r =
     bindA (getsA tx_id) (\<lambda>i.
       whenA (truthy i)
         (thenA (upd (\<lambda>s. emit (EvRequest ''GET'' ''/skills'' None)
                      (emit (EvRequest ''GET'' (''/transcripts/'' @ str_or_empty i) None) s)))
           (case (tr_r, sk_r) of
              (Inr x, Inr sks) \<Rightarrow> upd (transcript_loaded x sks)
            | _ \<Rightarrow> throw (pick (errors_of tr_r @ errors_of sk_r)))))"

definition mount_transcript ::
  "(exn list \<Rightarrow> exn) \<Rightarrow> (exn + transcript) \<Rightarrow> (exn + skill list option) \<Rightarrow> ('z transcript_page_scheme, unit) act" where
  "mount_transcript pick tr_r sk_r =
     thenA (upd (\<lambda>s. s\<lparr>tx_open_text := False, tx_seek_on_click := False, tx_picked_init := False, tx_selected := None\<rparr>))
       (tryA (thenA (load_transcript pick tr_r sk_r) (upd (\<lambda>s. s\<lparr>tx_failed := False\<rparr>)))
         (\<lambda>e. thenA (upd (\<lambda>s. s\<lparr>tx_failed := True\<rparr>)) (show_error e)))"

definition select_skill :: "string option \<Rightarrow> 'z transcript_page_scheme \<Rightarrow> 'z transcript_page_scheme" where
  "select_skill k s =
     save_summarize_skill_ids (if truthy k then [str_or_empty k] else []) (s\<lparr>tx_selected := k\<rparr>)"

definition begin_summarize :: "string list \<Rightarrow> ('z browser_scheme, ingest_pipeline) act" where
  "begin_summarize ids s = (case begin_summarize_pipeline_run ids s of (p, s') \<Rightarrow> (Inr p, s'))"

definition summarize_transcript :: "(exn + task) \<Rightarrow> ('z transcript_page_scheme, unit) act" where
  "summarize_transcript task_r =
     bindA (getsA (\<lambda>s. (tx_id s, tx_selected s))) (\<lambda>(i, k).
       whenA (truthy i \<and> truthy k)
         (thenA (upd (\<lambda>s. s\<lparr>tx_busy := True\<rparr>))
           (finallyA
             (tryA
               (bindA (begin_summarize [str_or_empty k]) (\<lambda>p.
                  bindA (api_call (\<lambda>_ _ _. task_r) ''POST'' ''/tasks/summarize''
                      (Some (JObj [(''transcript_id'', JStr (str_or_empty i)), (''skill_ids'', JArr [JStr (str_or_empty k)])])))
                    (open_task p)))
               show_error)
             (\<lambda>s. s\<lparr>tx_busy := False\<rparr>))))"

definition toggle_transcript_hidden ::
  "(exn + unit) \<Rightarrow> (exn list \<Rightarrow> exn) \<Rightarrow> (exn + transcript) \<Rightarrow> (exn + skill list option) \<Rightarrow> ('z transcript_page_scheme, unit) act" where
  "toggle_transcript_hidden hide_r pick tr_r sk_r =
     bindA (getsA (\<lambda>s. (tx_id s, tx_item s))) (\<lambda>(i, it).
       case it of
         None \<Rightarrow> ret ()
       | Some x \<Rightarrow>
           whenA (truthy i)
             (tryA
               (bindA (api_call (\<lambda>_ _ _. hide_r) ''POST''
                        (''/transcripts/'' @ str_or_empty i @ (if sb_hidden x = Some True then ''/unhide'' else ''/hide'')) None)
                 (\<lambda>_. load_transcript pick tr_r sk_r))
               show_error))"

definition delete_transcript :: "(exn + unit) \<Rightarrow> ('z transcript_page_scheme, unit) act" where
  "delete_transcript r =
     bindA (getsA tx_id) (\<lambda>i.
       whenA (truthy i)
         (thenA (upd (\<lambda>s. s\<lparr>tx_busy := True\<rparr>))
           (tryA
             (bindA (api_call (\<lambda>_ _ _. r) ''DELETE'' (''/transcripts/'' @ str_or_empty i) None)
               (\<lambda>_. navigate (library_path ''transcripts'' None None) False None))
             (\<lambda>e. thenA (show_error e) (upd (\<lambda>s. s\<lparr>tx_busy := False\<rparr>))))))"

text \<open>\<open>{ ...prev, ...next }\<close> of two full records is the second.\<close>

definition rename_transcript :: "string \<Rightarrow> (exn + transcript) \<Rightarrow> ('z transcript_page_scheme, unit) act" where
  "rename_transcript title r =
     bindA (getsA tx_id) (\<lambda>i.
       whenA (truthy i)
         (thenA (upd (\<lambda>s. s\<lparr>tx_busy := True\<rparr>))
           (finallyA
             (tryA
               (bindA (api_call (\<lambda>_ _ _. r) ''PATCH'' (''/transcripts/'' @ str_or_empty i) (Some (JObj [(''title'', JStr title)])))
                 (\<lambda>x. upd (\<lambda>s. s\<lparr>tx_item := Some x\<rparr>)))
               (\<lambda>e. thenA (show_error e) (throw e)))
             (\<lambda>s. s\<lparr>tx_busy := False\<rparr>))))"

definition set_show_tone :: "bool \<Rightarrow> bool \<Rightarrow> 'z transcript_page_scheme \<Rightarrow> 'z transcript_page_scheme" where
  "set_show_tone allowed b s =
     (let s1 = s\<lparr>tx_show_tone := b\<rparr> in if allowed then local_set tone_key (if b then ''true'' else ''false'') s1 else s1)"

definition toggle_text :: "'z transcript_page_scheme \<Rightarrow> 'z transcript_page_scheme" where
  "toggle_text s =
     (if tx_open_text s then s\<lparr>tx_open_text := False, tx_seek_on_click := False\<rparr> else s\<lparr>tx_open_text := True\<rparr>)"

section \<open>The page of a recording\<close>

record audio_page = auth_state +
  ax_id :: "string option"
  ax_item :: "audio option"
  ax_failed :: bool
  ax_share :: bool
  ax_confirm :: bool
  ax_busy :: bool

text \<open>\<open>parse\<close> gives the protocol of a URL, \<open>None\<close> when it does not parse.\<close>

definition http_source_url :: "(string \<Rightarrow> string option) \<Rightarrow> string option \<Rightarrow> string option" where
  "http_source_url parse v =
     (if \<not> truthy v then None
      else if parse (str_or_empty v) \<in> {Some ''http:'', Some ''https:''} then v else None)"

definition audio_mine :: "'z audio_page_scheme \<Rightarrow> bool" where
  "audio_mine s \<longleftrightarrow> map_option audio_owner_user_id (ax_item s) = my_id (au_me s)"

definition audio_can_delete :: "'z audio_page_scheme \<Rightarrow> bool" where
  "audio_can_delete s \<longleftrightarrow> ax_item s \<noteq> None \<and> (audio_mine s \<or> is_org_admin (au_me s))"

definition load_audio :: "(exn + audio) \<Rightarrow> ('z audio_page_scheme, unit) act" where
  "load_audio r =
     bindA (getsA ax_id) (\<lambda>i.
       whenA (truthy i)
         (tryA
           (bindA (api_call (\<lambda>_ _ _. r) ''GET'' (''/audios/'' @ str_or_empty i) None)
             (\<lambda>x. upd (\<lambda>s. s\<lparr>ax_item := Some x, ax_failed := False\<rparr>)))
           (\<lambda>e. thenA (upd (\<lambda>s. s\<lparr>ax_failed := True\<rparr>)) (show_error e))))"

definition transcribe_audio :: "(exn + task) \<Rightarrow> ('z audio_page_scheme, unit) act" where
  "transcribe_audio task_r =
     bindA (getsA (\<lambda>s. (ax_id s, request_tone (au_me s)))) (\<lambda>(i, tone).
       whenA (truthy i)
         (thenA (upd (\<lambda>s. s\<lparr>ax_busy := True\<rparr>))
           (finallyA
             (tryA
               (bindA (api_call (\<lambda>_ _ _. task_r) ''POST'' ''/tasks/transcribe''
                   (Some (JObj [(''audio_id'', JStr (str_or_empty i)), (''tone'', JBool tone)])))
                 (open_task \<lparr>pl_transcribe = True, pl_skill_ids = []\<rparr>))
               show_error)
             (\<lambda>s. s\<lparr>ax_busy := False\<rparr>))))"

definition toggle_audio_hidden :: "(exn + unit) \<Rightarrow> (exn + audio) \<Rightarrow> ('z audio_page_scheme, unit) act" where
  "toggle_audio_hidden hide_r r =
     bindA (getsA (\<lambda>s. (ax_id s, ax_item s))) (\<lambda>(i, it).
       case it of
         None \<Rightarrow> ret ()
       | Some x \<Rightarrow>
           whenA (truthy i)
             (tryA
               (bindA (api_call (\<lambda>_ _ _. hide_r) ''POST''
                        (''/audios/'' @ str_or_empty i @ (if sb_hidden x = Some True then ''/unhide'' else ''/hide'')) None)
                 (\<lambda>_. load_audio r))
               show_error))"

definition delete_audio :: "(exn + unit) \<Rightarrow> (exn + bool) \<Rightarrow> (exn + me) \<Rightarrow> ('z audio_page_scheme, unit) act" where
  "delete_audio r status_r me_r =
     bindA (getsA ax_id) (\<lambda>i.
       whenA (truthy i)
         (thenA (upd (\<lambda>s. s\<lparr>ax_busy := True\<rparr>))
           (tryA
             (bindA (api_call (\<lambda>_ _ _. r) ''DELETE'' (''/audios/'' @ str_or_empty i) None)
               (\<lambda>_. bindA (refresh status_r me_r) (\<lambda>_. navigate (library_path ''audio'' None None) False None)))
             (\<lambda>e. thenA (show_error e) (upd (\<lambda>s. s\<lparr>ax_busy := False\<rparr>))))))"

section \<open>The page of a skill\<close>

record skill_page = browser +
  kp_id :: "string option"
  kp_item :: "skill option"
  kp_name :: string
  kp_draft :: string
  kp_editing :: bool
  kp_failed :: bool
  kp_share :: bool
  kp_busy :: bool

definition skill_path :: "skill \<Rightarrow> string" where
  "skill_path k =
     (if sk_scope k = ''base'' then ''/skills/base/'' @ sk_id k
      else if sk_scope k = ''org'' then ''/org/skills/'' @ sk_id k
      else ''/skills/self/'' @ sk_id k)"

definition skill_back_to :: "me option \<Rightarrow> string" where
  "skill_back_to m = (if me_has_org m then library_path ''skills'' None None else ''/app/instance?tab=baseSkills'')"

definition skill_can_edit :: "me option \<Rightarrow> 'z skill_page_scheme \<Rightarrow> bool" where
  "skill_can_edit m s \<longleftrightarrow>
     (case kp_item s of
        None \<Rightarrow> False
      | Some k \<Rightarrow> if sk_scope k = ''base'' then is_instance_admin m else sk_readonly k \<noteq> Some True)"

definition skill_mine :: "me option \<Rightarrow> 'z skill_page_scheme \<Rightarrow> bool" where
  "skill_mine m s \<longleftrightarrow>
     (case kp_item s of None \<Rightarrow> False | Some k \<Rightarrow> sk_scope k = ''self'' \<and> sk_owner_user_id k = my_id m)"

definition skill_edit_ready :: "'z skill_page_scheme \<Rightarrow> bool" where
  "skill_edit_ready s \<longleftrightarrow>
     (case kp_item s of
        None \<Rightarrow> False
      | Some k \<Rightarrow> trim (kp_name s) \<noteq> [] \<and> (trim (kp_name s) \<noteq> sk_name k \<or> kp_draft s \<noteq> sk_body k))"

definition load_skill :: "me option \<Rightarrow> (exn + skill list option) \<Rightarrow> ('z skill_page_scheme, unit) act" where
  "load_skill m r =
     bindA (getsA kp_id) (\<lambda>i.
       whenA (truthy i)
         (bindA (api_call (\<lambda>_ _ _. r) ''GET'' (if me_has_org m then ''/skills'' else ''/skills/base'') None)
           (\<lambda>items.
             case find (\<lambda>k. Some (sk_id k) = i) (nullish items []) of
               None \<Rightarrow> thenA (upd (\<lambda>s. s\<lparr>kp_item := None\<rparr>)) (throw (JsError ''errors.not_found''))
             | Some k \<Rightarrow> upd (\<lambda>s. s\<lparr>kp_item := Some k, kp_name := sk_name k, kp_draft := sk_body k\<rparr>))))"

definition mount_skill :: "me option \<Rightarrow> (exn + skill list option) \<Rightarrow> ('z skill_page_scheme, unit) act" where
  "mount_skill m r =
     thenA (upd (\<lambda>s. s\<lparr>kp_editing := False\<rparr>))
       (tryA (thenA (load_skill m r) (upd (\<lambda>s. s\<lparr>kp_failed := False\<rparr>)))
         (\<lambda>e. thenA (upd (\<lambda>s. s\<lparr>kp_failed := True\<rparr>)) (show_error e)))"

definition save_skill :: "(exn + skill) \<Rightarrow> ('z skill_page_scheme, unit) act" where
  "save_skill r =
     bindA (getsA (\<lambda>s. (kp_item s, kp_name s, kp_draft s))) (\<lambda>(it, nm, d).
       case it of
         None \<Rightarrow> ret ()
       | Some k \<Rightarrow>
           thenA (upd (\<lambda>s. s\<lparr>kp_busy := True\<rparr>))
             (finallyA
               (tryA
                 (bindA (api_call (\<lambda>_ _ _. r) ''PATCH'' (skill_path k)
                     (Some (JObj [(''name'', JStr nm), (''body'', JStr d)])))
                   (\<lambda>x. upd (\<lambda>s. s\<lparr>kp_item := Some x, kp_name := sk_name x, kp_draft := sk_body x, kp_editing := False\<rparr>)))
                 show_error)
               (\<lambda>s. s\<lparr>kp_busy := False\<rparr>)))"

text \<open>Deleting and copying have no error path: a rejection stays with the browser.\<close>

definition remove_skill :: "me option \<Rightarrow> (exn + unit) \<Rightarrow> ('z skill_page_scheme, unit) act" where
  "remove_skill m r =
     bindA (getsA kp_item) (\<lambda>it.
       case it of
         None \<Rightarrow> ret ()
       | Some k \<Rightarrow> bindA (api_call (\<lambda>_ _ _. r) ''DELETE'' (skill_path k) None) (\<lambda>_. navigate (skill_back_to m) False None))"

definition copy_skill :: "(exn + skill) \<Rightarrow> ('z skill_page_scheme, unit) act" where
  "copy_skill r =
     bindA (getsA kp_item) (\<lambda>it.
       case it of
         None \<Rightarrow> ret ()
       | Some k \<Rightarrow>
           bindA (api_call (\<lambda>_ _ _. r) ''POST'' (''/skills/'' @ sk_id k @ ''/copy'') None)
             (\<lambda>x. navigate (''/app/skill/'' @ sk_id x) False None))"

definition decline_share :: "me option \<Rightarrow> (exn + unit) \<Rightarrow> ('z skill_page_scheme, unit) act" where
  "decline_share m r =
     bindA (getsA (\<lambda>s. Option.bind (kp_item s) sk_share_id)) (\<lambda>i.
       whenA (truthy i)
         (thenA (upd (\<lambda>s. s\<lparr>kp_busy := True\<rparr>))
           (finallyA
             (tryA
               (bindA (api_call (\<lambda>_ _ _. r) ''DELETE'' (''/shares/'' @ str_or_empty i) None)
                 (\<lambda>_. navigate (skill_back_to m) False None))
               show_error)
             (\<lambda>s. s\<lparr>kp_busy := False\<rparr>))))"

definition rename_skill :: "string \<Rightarrow> (exn + skill) \<Rightarrow> ('z skill_page_scheme, unit) act" where
  "rename_skill nm r =
     bindA (getsA kp_item) (\<lambda>it.
       case it of
         None \<Rightarrow> ret ()
       | Some k \<Rightarrow>
           thenA (upd (\<lambda>s. s\<lparr>kp_busy := True\<rparr>))
             (finallyA
               (tryA
                 (bindA (api_call (\<lambda>_ _ _. r) ''PATCH'' (skill_path k)
                     (Some (JObj [(''name'', JStr nm), (''body'', JStr (sk_body k))])))
                   (\<lambda>x. upd (\<lambda>s. s\<lparr>kp_item := Some x, kp_name := sk_name x\<rparr>)))
                 (\<lambda>e. thenA (show_error e) (throw e)))
               (\<lambda>s. s\<lparr>kp_busy := False\<rparr>)))"

definition skill_share_closed :: "me option \<Rightarrow> (exn + skill list option) \<Rightarrow> 'z skill_page_scheme \<Rightarrow> 'z skill_page_scheme" where
  "skill_share_closed m r s = snd (load_skill m r (s\<lparr>kp_share := False\<rparr>))"

definition skill_edit :: "'z skill_page_scheme \<Rightarrow> 'z skill_page_scheme" where
  "skill_edit s =
     (case kp_item s of None \<Rightarrow> s | Some k \<Rightarrow> s\<lparr>kp_name := sk_name k, kp_draft := sk_body k, kp_editing := True\<rparr>)"

definition skill_cancel :: "'z skill_page_scheme \<Rightarrow> 'z skill_page_scheme" where
  "skill_cancel s =
     (case kp_item s of None \<Rightarrow> s | Some k \<Rightarrow> s\<lparr>kp_name := sk_name k, kp_draft := sk_body k, kp_editing := False\<rparr>)"

section \<open>The public page of a summary\<close>

record public_summary =
  ps_pin_required :: bool
  ps_title :: "string option"
  ps_display_title :: "string option"
  ps_body :: "string option"

record public_page = browser +
  pb_token :: "string option"
  pb_ready :: bool
  pb_data :: "public_summary option"
  pb_pin :: string
  pb_busy :: bool
  pb_failed :: bool

definition public_path :: "string \<Rightarrow> string" where
  "public_path token = ''/public/summary/'' @ uri_component token"

definition load_public :: "(exn + public_summary) \<Rightarrow> ('z public_page_scheme, unit) act" where
  "load_public r =
     bindA (getsA (\<lambda>s. (pb_token s, pb_ready s))) (\<lambda>(tok, rdy).
       whenA (truthy tok \<and> rdy)
         (tryA
           (bindA (api_call (\<lambda>_ _ _. r) ''GET'' (public_path (str_or_empty tok)) None)
             (\<lambda>d. upd (\<lambda>s. s\<lparr>pb_data := Some d, pb_failed := False\<rparr>)))
           (\<lambda>_. upd (\<lambda>s. s\<lparr>pb_failed := True\<rparr>))))"

definition unlock_public :: "(exn + public_summary) \<Rightarrow> ('z public_page_scheme, unit) act" where
  "unlock_public r =
     bindA (getsA (\<lambda>s. (pb_token s, pb_pin s))) (\<lambda>(tok, pin).
       whenA (truthy tok)
         (thenA (upd (\<lambda>s. s\<lparr>pb_busy := True\<rparr>))
           (finallyA
             (tryA
               (bindA (api_call (\<lambda>_ _ _. r) ''POST'' (public_path (str_or_empty tok) @ ''/unlock'') (Some (JObj [(''pin'', JStr pin)])))
                 (\<lambda>d. upd (\<lambda>s. s\<lparr>pb_data := Some d\<rparr>)))
               show_error)
             (\<lambda>s. s\<lparr>pb_busy := False\<rparr>))))"

datatype public_view = PublicLoading | PublicMissing | PublicEmpty | PublicPin | PublicBody string string

definition public_view_of :: "'z public_page_scheme \<Rightarrow> public_view" where
  "public_view_of s =
     (if \<not> pb_ready s then PublicLoading
      else (case pb_data s of
              None \<Rightarrow> if pb_failed s then PublicMissing else PublicEmpty
            | Some d \<Rightarrow>
                if ps_pin_required d then PublicPin
                else PublicBody (or_default (ps_display_title d) (or_default (ps_title d) ''summary.title''))
                       (str_or_empty (ps_body d))))"

definition unlock_ready :: "'z public_page_scheme \<Rightarrow> bool" where
  "unlock_ready s \<longleftrightarrow> trim (pb_pin s) \<noteq> []"

section \<open>What happens to an edit\<close>

lemma load_summary_ok:
  "truthy (sp_id s) \<Longrightarrow> load_summary (Inr x) s =
     (Inr (), summary_loaded x (emit (EvRequest ''GET'' (''/summaries/'' @ str_or_empty (sp_id s)) None) s))"
  by (simp add: load_summary_def run_simps)

lemma emit_summary [simp]:
  "sp_id (emit e s) = sp_id s" "sp_item (emit e s) = sp_item s" "sp_draft (emit e s) = sp_draft s"
  "sp_editing (emit e s) = sp_editing s" "sp_busy (emit e s) = sp_busy s"
  by (simp_all add: emit_def)

text \<open>
  The text in the editor of a summary survives a failed save and a failed renaming, and is dropped by a cancel. It
  is also dropped, with the editor left open, by hiding the summary and by closing its share dialog: both load the
  summary again and write the stored text over the draft, although their buttons stay in the toolbar while the
  editor is open.
\<close>

theorem summary_edit_survives:
  assumes "truthy (sp_id s)" and "sp_item s = Some x" and "sp_editing s"
  shows "sp_draft (snd (save_summary (Inl e) s)) = sp_draft s \<and> sp_editing (snd (save_summary (Inl e) s))
      \<and> \<not> sp_busy (snd (save_summary (Inl e) s))
      \<and> events (snd (save_summary (Inl e) s)) = events s @ [EvRequest ''PATCH'' (''/summaries/'' @ str_or_empty (sp_id s))
           (Some (JObj [(''body'', JStr (sp_draft s))])), EvToast e None]
    \<and> \<not> sp_editing (snd (save_summary (Inr y) s)) \<and> \<not> summary_edit_ready (snd (save_summary (Inr y) s))
    \<and> sp_draft (snd (rename_summary nm (Inl e) s)) = sp_draft s \<and> fst (rename_summary nm (Inl e) s) = Inl e
    \<and> (let t = snd (toggle_summary_hidden (Inr ()) (Inr y) s); u = summary_share_closed (Inr y) s in
       sp_draft t = str_or_empty (summary_body y) \<and> sp_editing t \<and> sp_draft u = str_or_empty (summary_body y) \<and> sp_editing u)"
  using assms
  by (simp add: save_summary_def rename_summary_def toggle_summary_hidden_def summary_share_closed_def load_summary_def
      run_simps show_error_def summary_loaded_def summary_edit_ready_def Let_def)

text \<open>Transcribing an audio starts no run of its own: the task page gets the run another task has left in the tab,
  with its summary skills, in place of a plain transcription.\<close>

lemma transcribe_takes_old_run:
  assumes "truthy (ax_id s)" and "load_pipeline_run s = Some p"
  shows "EvNavigate (''/app/task/'' @ task_id t) False (Some \<lparr>ns_pipeline = p, ns_task = Some t\<rparr>)
    \<in> set (events (snd (transcribe_audio (Inr t) s)))"
  using assms
  by (simp add: transcribe_audio_def run_simps open_task_def pipeline_nav_state_def navigate_def load_pipeline_run_def
      session_get_def emit_def)

end
