(* ===== verification/Org.thy ===== *)
theory Org
  imports Artifacts Js_Number Capture_Host
begin

text \<open>
  The page of an organisation (\<open>pages/OrgPage.tsx\<close>) and the passwords it makes up (\<open>util/password.ts\<close>): the profile of
  the organisation, its tariff, the hosts whose meetings it records, single sign-on and its people. A handler is one
  run, with the answers of its requests as arguments; \<open>load\<close> waits for all its requests, and \<open>oa_first\<close> tells which
  of several refusals arrives first.
\<close>

section \<open>Passwords\<close>

definition base64_alphabet :: string where
  "base64_alphabet = ''ABCDEFGHIJKLMNOPQRSTUVWXYZabcdefghijklmnopqrstuvwxyz0123456789+/''"

definition b64 :: "nat \<Rightarrow> char" where
  "b64 n = base64_alphabet ! n"

fun btoa :: "nat list \<Rightarrow> string" where
  "btoa [] = []"
| "btoa [a] = [b64 (a div 4), b64 (16 * (a mod 4)), CHR ''='', CHR ''='']"
| "btoa [a, b] = [b64 (a div 4), b64 (16 * (a mod 4) + b div 16), b64 (4 * (b mod 16)), CHR ''='']"
| "btoa (a # b # c # r) =
     [b64 (a div 4), b64 (16 * (a mod 4) + b div 16), b64 (4 * (b mod 16) + c div 64), b64 (c mod 64)] @ btoa r"

definition url_safe :: "char \<Rightarrow> char" where
  "url_safe c = (if c = CHR ''+'' then CHR ''-'' else if c = CHR ''/'' then CHR ''_'' else c)"

text \<open>\<open>bytes\<close> are the twelve random bytes.\<close>

definition random_password :: "nat list \<Rightarrow> string" where
  "random_password bytes = rev (dropWhile (\<lambda>c. c = CHR ''='') (rev (map url_safe (btoa bytes))))"

section \<open>The state of the page\<close>

record org_sso_admin =
  sa_configured :: bool
  sa_enabled :: bool
  sa_login_url :: "string option"
  sa_org_id :: string
  sa_public_base_url_set :: bool
  sa_callback_url :: "string option"
  sa_issuer :: "string option"
  sa_client_id :: "string option"
  sa_has_client_secret :: bool

record jitsi_host =
  jh_id :: string
  jh_host :: string
  jh_jwt_app_id :: "string option"
  jh_jwt_secret_configured :: bool

record org_capture =
  oc_allowed :: "bool option"
  oc_bot_display_name :: "string option"
  oc_items :: "jitsi_host list option"
  oc_workers :: "(string \<times> string) list option"

record host_draft =
  hd_host :: string
  hd_jwt_app_id :: string
  hd_jwt_secret :: string
  hd_clear_jwt_secret :: bool

record org_page = auth_state +
  og_org :: "org option"
  og_users :: "user list"
  og_tariffs :: "tariff list"
  og_name :: string
  og_ttl :: "rat option"
  og_mfa_required :: bool
  og_allow_public_links :: bool
  og_tariff_id :: string
  og_email :: string
  og_password :: string
  og_role :: string
  og_off_user :: "user option"
  og_action :: string
  og_target :: string
  og_temp_pw :: "(string \<times> string) option"
  og_mfa_reset_ok :: "string option"
  og_mfa_reset_user :: "user option"
  og_mfa_reset_busy :: bool
  og_sso :: "org_sso_admin option"
  og_sso_issuer :: string
  og_sso_client_id :: string
  og_sso_client_secret :: string
  og_sso_enabled :: bool
  og_capture_allowed :: bool
  og_bot_name :: string
  og_saved_bot_name :: string
  og_hosts :: "jitsi_host list"
  og_workers :: "(string \<times> string) list"
  og_editing :: "string option"
  og_draft :: host_draft
  og_search :: string

definition empty_host_draft :: host_draft where
  "empty_host_draft = \<lparr>hd_host = [], hd_jwt_app_id = [], hd_jwt_secret = [], hd_clear_jwt_secret = False\<rparr>"

definition tariff_selectable :: "tariff list \<Rightarrow> tariff \<Rightarrow> bool" where
  "tariff_selectable ts cur \<longleftrightarrow> list_ex (\<lambda>x. tariff_id x = tariff_id cur) ts"

definition filtered_users :: "(string \<Rightarrow> string \<Rightarrow> int) \<Rightarrow> 'z org_page_scheme \<Rightarrow> user list" where
  "filtered_users cmp s =
     sort_by (\<lambda>a b. compare_users cmp (label_of_user a) (label_of_user b))
       (filter (\<lambda>u. member_matches_query u (og_search s)) (og_users s))"

record org_totals =
  ot_members :: nat
  ot_active :: nat
  ot_admins :: nat
  ot_disabled :: nat

definition org_totals_of :: "user list \<Rightarrow> org_totals" where
  "org_totals_of us =
     \<lparr>ot_members = length us,
      ot_active = length (filter (\<lambda>u. \<not> user_disabled u) us),
      ot_admins = length (filter (\<lambda>u. user_role u = Some ''org_admin'') us),
      ot_disabled = length (filter user_disabled us)\<rparr>"

section \<open>Loading\<close>

record org_answers =
  oa_org :: "exn + org"
  oa_users :: "exn + user list"
  oa_tariffs :: "exn + tariff list"
  oa_sso :: "exn + org_sso_admin"
  oa_capture :: "exn + org_capture"
  oa_first :: "exn list \<Rightarrow> exn"

definition emits :: "event list \<Rightarrow> 'z browser_scheme \<Rightarrow> 'z browser_scheme" where
  "emits es s = s\<lparr>events := events s @ es\<rparr>"

definition org_gets :: "bool \<Rightarrow> event list" where
  "org_gets adm =
     map (\<lambda>p. EvRequest ''GET'' p None)
       ([''/org'', ''/org/users'', ''/org/available-tariffs'']
        @ (if adm then [''/org/sso'', ''/org/capture/jitsi''] else []))"

definition org_errors :: "bool \<Rightarrow> org_answers \<Rightarrow> exn list" where
  "org_errors adm a =
     errors_of (oa_org a) @ errors_of (oa_users a) @ errors_of (oa_tariffs a)
     @ (if adm then errors_of (oa_sso a) @ errors_of (oa_capture a) else [])"

definition sso_loaded :: "org_sso_admin \<Rightarrow> 'z org_page_scheme \<Rightarrow> 'z org_page_scheme" where
  "sso_loaded c s =
     s\<lparr>og_sso := Some c, og_sso_issuer := str_or_empty (sa_issuer c), og_sso_client_id := str_or_empty (sa_client_id c),
       og_sso_enabled := sa_enabled c, og_sso_client_secret := []\<rparr>"

definition capture_loaded :: "org_capture \<Rightarrow> 'z org_page_scheme \<Rightarrow> 'z org_page_scheme" where
  "capture_loaded c s =
     s\<lparr>og_capture_allowed := oc_allowed c = Some True, og_bot_name := nullish (oc_bot_display_name c) [],
       og_saved_bot_name := nullish (oc_bot_display_name c) [], og_hosts := nullish (oc_items c) [],
       og_workers := nullish (oc_workers c) []\<rparr>"

definition org_loaded :: "org \<Rightarrow> user list \<Rightarrow> tariff list \<Rightarrow> 'z org_page_scheme \<Rightarrow> 'z org_page_scheme" where
  "org_loaded g us ts s =
     s\<lparr>og_org := Some g, og_name := org_name g, og_ttl := Some (of_int (org_password_ttl_days g)),
       og_mfa_required := org_mfa_required g, og_allow_public_links := org_allow_public_links g,
       og_tariff_id := (if tariff_selectable ts (org_tariff g) then tariff_id (org_tariff g) else []),
       og_users := us, og_tariffs := ts\<rparr>"

text \<open>\<open>adm\<close>: the member administers an organisation, as the page saw it when the handler was made.\<close>

definition load_org :: "bool \<Rightarrow> org_answers \<Rightarrow> ('z org_page_scheme, unit) act" where
  "load_org adm a =
     thenA (upd (emits (org_gets adm)))
       (if org_errors adm a \<noteq> [] then throw (oa_first a (org_errors adm a))
        else (case (oa_org a, oa_users a, oa_tariffs a) of
                (Inr g, Inr us, Inr ts) \<Rightarrow>
                  thenA (upd (org_loaded g us ts))
                    (if adm then (case (oa_sso a, oa_capture a) of
                                    (Inr c, Inr k) \<Rightarrow> upd (\<lambda>s. capture_loaded k (sso_loaded c s))
                                  | _ \<Rightarrow> ret ())
                     else ret ())
              | _ \<Rightarrow> ret ()))"

definition org_admin_here :: "'z org_page_scheme \<Rightarrow> bool" where
  "org_admin_here s \<longleftrightarrow> is_org_admin (au_me s) \<and> me_has_org (au_me s)"

definition mount_org :: "org_answers \<Rightarrow> ('z org_page_scheme, unit) act" where
  "mount_org a =
     bindA (getsA (\<lambda>s. (me_has_org (au_me s), org_admin_here s))) (\<lambda>(here, adm).
       whenA here (tryA (load_org adm a) show_error))"

text \<open>Without an organisation the page leaves at once.\<close>

definition org_page_redirect :: "me option \<Rightarrow> string option" where
  "org_page_redirect m = (if me_has_org m then None else Some ''/app/profile'')"

section \<open>Hosts whose meetings are recorded\<close>

definition opt_json :: "string option \<Rightarrow> json" where
  "opt_json v = (case v of None \<Rightarrow> JNull | Some x \<Rightarrow> JStr x)"

definition capture_host_payload_row :: "jitsi_host \<Rightarrow> json" where
  "capture_host_payload_row r =
     JObj [(''id'', JStr (jh_id r)), (''host'', JStr (jh_host r)), (''jwt_app_id'', opt_json (jh_jwt_app_id r))]"

definition capture_saved :: "org_capture \<Rightarrow> 'z org_page_scheme \<Rightarrow> 'z org_page_scheme" where
  "capture_saved c s =
     s\<lparr>og_bot_name := nullish (oc_bot_display_name c) [], og_saved_bot_name := nullish (oc_bot_display_name c) [],
       og_hosts := nullish (oc_items c) [], og_workers := nullish (oc_workers c) []\<rparr>"

definition put_capture_host_items :: "json list \<Rightarrow> (exn + org_capture) \<Rightarrow> ('z org_page_scheme, unit) act" where
  "put_capture_host_items items r =
     bindA (getsA og_bot_name) (\<lambda>bot.
       bindA (send_json r ''PUT'' ''/org/capture/jitsi''
                (Some (JObj [(''items'', JArr items), (''bot_display_name'', JStr bot)])))
         (\<lambda>c. upd (capture_saved c)))"

definition save_capture_bot_display_name :: "(exn + org_capture) \<Rightarrow> ('z org_page_scheme, unit) act" where
  "save_capture_bot_display_name r =
     bindA (getsA (\<lambda>s. (map capture_host_payload_row (og_hosts s), og_bot_name s))) (\<lambda>(items, bot).
       bindA (send_json r ''PUT'' ''/org/capture/jitsi''
                (Some (JObj [(''items'', JArr items), (''bot_display_name'', JStr bot)])))
         (\<lambda>c. upd (capture_saved c)))"

definition save_capture_hosts :: "jitsi_host list \<Rightarrow> (exn + org_capture) \<Rightarrow> ('z org_page_scheme, unit) act" where
  "save_capture_hosts rows r = put_capture_host_items (map capture_host_payload_row rows) r"

definition reset_capture_draft :: "'z org_page_scheme \<Rightarrow> 'z org_page_scheme" where
  "reset_capture_draft s = s\<lparr>og_editing := None, og_draft := empty_host_draft\<rparr>"

definition start_edit_capture_host :: "jitsi_host \<Rightarrow> 'z org_page_scheme \<Rightarrow> 'z org_page_scheme" where
  "start_edit_capture_host r s =
     s\<lparr>og_editing := Some (jh_id r),
       og_draft := \<lparr>hd_host = jh_host r, hd_jwt_app_id = str_or_empty (jh_jwt_app_id r), hd_jwt_secret = [],
                    hd_clear_jwt_secret = False\<rparr>\<rparr>"

definition draft_fields :: "string \<Rightarrow> host_draft \<Rightarrow> (string \<times> json) list" where
  "draft_fields host d =
     [(''host'', JStr host), (''jwt_app_id'', if trim (hd_jwt_app_id d) = [] then JNull else JStr (trim (hd_jwt_app_id d)))]
     @ (if trim (hd_jwt_secret d) = [] then [] else [(''jwt_secret'', JStr (trim (hd_jwt_secret d)))])
     @ (if hd_clear_jwt_secret d then [(''clear_jwt_secret'', JBool True)] else [])"

definition capture_items :: "string \<Rightarrow> 'z org_page_scheme \<Rightarrow> json list" where
  "capture_items host s =
     (let fields = draft_fields host (og_draft s) in
      if truthy (og_editing s)
      then map (\<lambda>r. if Some (jh_id r) = og_editing s then JObj ((''id'', JStr (jh_id r)) # fields)
                    else capture_host_payload_row r) (og_hosts s)
      else map capture_host_payload_row (og_hosts s) @ [JObj fields])"

definition submit_capture_draft :: "url_parser \<Rightarrow> (exn + org_capture) \<Rightarrow> ('z org_page_scheme, unit) act" where
  "submit_capture_draft parse r =
     bindA (getsA (\<lambda>s. let host = normalize_jitsi_host_input parse (hd_host (og_draft s)) in (host, capture_items host s)))
       (\<lambda>(host, items).
         if host = [] then ret () else thenA (put_capture_host_items items r) (upd reset_capture_draft))"

definition remove_capture_host :: "jitsi_host \<Rightarrow> (exn + org_capture) \<Rightarrow> ('z org_page_scheme, unit) act" where
  "remove_capture_host row r =
     thenA (upd (\<lambda>s. if og_editing s = Some (jh_id row) then reset_capture_draft s else s))
       (bindA (getsA (\<lambda>s. filter (\<lambda>h. jh_id h \<noteq> jh_id row) (og_hosts s))) (\<lambda>rows. save_capture_hosts rows r))"

definition capture_draft_ready :: "url_parser \<Rightarrow> 'z org_page_scheme \<Rightarrow> bool" where
  "capture_draft_ready parse s =
     (let d = og_draft s; host = normalize_jitsi_host_input parse (hd_host d) in
      if length (og_workers s) = 0 then False
      else if host = [] then False
      else if \<not> truthy (og_editing s) then True
      else (case find (\<lambda>r. Some (jh_id r) = og_editing s) (og_hosts s) of
              None \<Rightarrow> False
            | Some row \<Rightarrow>
                if host \<noteq> jh_host row then True
                else if trim (hd_jwt_app_id d) \<noteq> trim (str_or_empty (jh_jwt_app_id row)) then True
                else if 0 < length (trim (hd_jwt_secret d)) then True
                else if hd_clear_jwt_secret d then True
                else False))"

text \<open>The buttons of this section show the error of their handler.\<close>

definition show_refusal :: "('z org_page_scheme, unit) act \<Rightarrow> ('z org_page_scheme, unit) act" where
  "show_refusal m = tryA m show_error"

definition capture_bot_name_dirty :: "'z org_page_scheme \<Rightarrow> bool" where
  "capture_bot_name_dirty s \<longleftrightarrow> trim (og_bot_name s) \<noteq> trim (og_saved_bot_name s)"

section \<open>Profile, tariff and sign-on\<close>

definition sso_blocks_mfa :: "'z org_page_scheme \<Rightarrow> bool" where
  "sso_blocks_mfa s \<longleftrightarrow> (case og_sso s of None \<Rightarrow> False | Some c \<Rightarrow> sa_enabled c)"

definition sso_dirty :: "'z org_page_scheme \<Rightarrow> bool" where
  "sso_dirty s =
     (case og_sso s of
        None \<Rightarrow> False
      | Some c \<Rightarrow>
          trim (og_sso_issuer s) \<noteq> trim (str_or_empty (sa_issuer c))
          \<or> trim (og_sso_client_id s) \<noteq> trim (str_or_empty (sa_client_id c))
          \<or> og_sso_enabled s \<noteq> sa_enabled c
          \<or> 0 < length (trim (og_sso_client_secret s)))"

definition selected_tariff :: "'z org_page_scheme \<Rightarrow> tariff option" where
  "selected_tariff s =
     (if og_tariff_id s \<noteq> [] then find (\<lambda>x. tariff_id x = og_tariff_id s) (og_tariffs s) else None)"

definition can_save_tariff :: "'z org_page_scheme \<Rightarrow> bool" where
  "can_save_tariff s \<longleftrightarrow>
     is_org_admin (au_me s) \<and> selected_tariff s \<noteq> None
     \<and> (case og_org s of None \<Rightarrow> False | Some g \<Rightarrow> og_tariff_id s \<noteq> tariff_id (org_tariff g))"

definition set_ttl :: "string \<Rightarrow> 'z org_page_scheme \<Rightarrow> 'z org_page_scheme" where
  "set_ttl v s = s\<lparr>og_ttl := number_of_string v\<rparr>"

definition profile_dirty :: "'z org_page_scheme \<Rightarrow> bool" where
  "profile_dirty s =
     (case og_org s of
        None \<Rightarrow> False
      | Some g \<Rightarrow>
          trim (og_name s) \<noteq> org_name g
          \<or> og_ttl s \<noteq> Some (of_int (org_password_ttl_days g))
          \<or> og_mfa_required s \<noteq> org_mfa_required g
          \<or> og_allow_public_links s \<noteq> org_allow_public_links g)"

text \<open>\<open>dec\<close> writes a number that is no integer; \<open>NaN\<close> is written \<open>null\<close>.\<close>

definition number_json :: "(rat \<Rightarrow> string) \<Rightarrow> rat option \<Rightarrow> json" where
  "number_json dec v =
     (case v of None \<Rightarrow> JNull
      | Some q \<Rightarrow> if of_int (floor q) = q then JNum (floor q) else JDec (dec q))"

definition renames_org :: "'z org_page_scheme \<Rightarrow> org \<Rightarrow> bool" where
  "renames_org s g \<longleftrightarrow> trim (og_name s) \<noteq> [] \<and> trim (og_name s) \<noteq> org_name g"

definition settings_patch :: "(rat \<Rightarrow> string) \<Rightarrow> 'z org_page_scheme \<Rightarrow> org \<Rightarrow> (string \<times> json) list" where
  "settings_patch dec s g =
     (if og_ttl s \<noteq> Some (of_int (org_password_ttl_days g)) then [(''password_ttl_days'', number_json dec (og_ttl s))] else [])
     @ (if og_mfa_required s \<noteq> org_mfa_required g then [(''mfa_required'', JBool (og_mfa_required s))] else [])
     @ (if og_allow_public_links s \<noteq> org_allow_public_links g
        then [(''allow_public_links'', JBool (og_allow_public_links s))] else [])"

definition profile_patches :: "(rat \<Rightarrow> string) \<Rightarrow> 'z org_page_scheme \<Rightarrow> org \<Rightarrow> event list" where
  "profile_patches dec s g =
     (if renames_org s g then [EvRequest ''PATCH'' ''/org'' (Some (JObj [(''name'', JStr (trim (og_name s)))]))] else [])
     @ (if settings_patch dec s g \<noteq> []
        then [EvRequest ''PATCH'' ''/org/settings'' (Some (JObj (settings_patch dec s g)))] else [])"

text \<open>\<open>name_r\<close> and \<open>settings_r\<close> answer the two requests, which go out together.\<close>

definition save_profile ::
  "(rat \<Rightarrow> string) \<Rightarrow> (exn + unit) \<Rightarrow> (exn + unit) \<Rightarrow> (exn list \<Rightarrow> exn) \<Rightarrow> (exn + bool) \<Rightarrow> (exn + me) \<Rightarrow> org_answers
     \<Rightarrow> ('z org_page_scheme, unit) act" where
  "save_profile dec name_r settings_r pick status_r me_r a =
     bindA (getsA (\<lambda>s. (s, org_admin_here s))) (\<lambda>(s0, adm).
       case og_org s0 of
         None \<Rightarrow> ret ()
       | Some g \<Rightarrow>
           if profile_patches dec s0 g = [] then ret ()
           else
             (let errs = (if renames_org s0 g then errors_of name_r else [])
                         @ (if settings_patch dec s0 g \<noteq> [] then errors_of settings_r else []) in
              thenA (upd (emits (profile_patches dec s0 g)))
                (if errs \<noteq> [] then throw (pick errs)
                 else thenA (whenA (renames_org s0 g) (bindA (refresh status_r me_r) (\<lambda>_. ret ()))) (load_org adm a))))"

definition sso_body :: "'z org_page_scheme \<Rightarrow> json" where
  "sso_body s =
     JObj ([(''issuer'', JStr (og_sso_issuer s)), (''client_id'', JStr (og_sso_client_id s)),
            (''enabled'', JBool (og_sso_enabled s))]
           @ (if trim (og_sso_client_secret s) = [] then [] else [(''client_secret'', JStr (og_sso_client_secret s))]))"

definition save_sso :: "(exn + unit) \<Rightarrow> org_answers \<Rightarrow> ('z org_page_scheme, unit) act" where
  "save_sso r a =
     bindA (getsA (\<lambda>s. (sso_body s, org_admin_here s))) (\<lambda>(body, adm).
       bindA (send_json r ''PATCH'' ''/org/sso'' (Some body)) (\<lambda>_.
         thenA (upd (\<lambda>s. s\<lparr>og_sso_client_secret := []\<rparr>)) (load_org adm a)))"

definition save_tariff ::
  "(exn + unit) \<Rightarrow> (exn + bool) \<Rightarrow> (exn + me) \<Rightarrow> org_answers \<Rightarrow> ('z org_page_scheme, unit) act" where
  "save_tariff r status_r me_r a =
     bindA (getsA (\<lambda>s. (can_save_tariff s, og_tariff_id s, org_admin_here s))) (\<lambda>(can, i, adm).
       whenA can
         (tryA
           (bindA (send_json r ''PATCH'' ''/org/tariff'' (Some (JObj [(''tariff_id'', JStr i)]))) (\<lambda>_.
              bindA (refresh status_r me_r) (\<lambda>_. load_org adm a)))
           show_error))"

text \<open>The values of the tariff list: a blank one when the current tariff cannot be chosen any more.\<close>

definition tariff_option_values :: "'z org_page_scheme \<Rightarrow> string list" where
  "tariff_option_values s =
     (let sel = (case og_org s of None \<Rightarrow> False | Some g \<Rightarrow> tariff_selectable (og_tariffs s) (org_tariff g)) in
      (if \<not> sel then [[]] else []) @ map tariff_id (og_tariffs s))"

section \<open>People\<close>

definition can_add_user :: "'z org_page_scheme \<Rightarrow> bool" where
  "can_add_user s \<longleftrightarrow> 0 < length (trim (og_email s)) \<and> CHR ''@'' \<in> set (trim (og_email s))"

text \<open>\<open>rnd\<close> is the next password that \<open>randomPassword\<close> makes up.\<close>

definition ensure_user_password :: "string \<Rightarrow> string \<Rightarrow> string" where
  "ensure_user_password rnd current = (if current \<noteq> [] then current else rnd)"

definition toggle_add_user :: "bool \<Rightarrow> string \<Rightarrow> 'z org_page_scheme \<Rightarrow> 'z org_page_scheme" where
  "toggle_add_user opened rnd s = (if opened \<and> og_password s = [] then s\<lparr>og_password := rnd\<rparr> else s)"

definition generate_user_password :: "string \<Rightarrow> 'z org_page_scheme \<Rightarrow> 'z org_page_scheme" where
  "generate_user_password rnd s = s\<lparr>og_password := rnd\<rparr>"

definition add_user :: "string \<Rightarrow> (exn + unit) \<Rightarrow> org_answers \<Rightarrow> ('z org_page_scheme, unit) act" where
  "add_user rnd r a =
     bindA (getsA (\<lambda>s. (s, ensure_user_password rnd (og_password s), org_admin_here s))) (\<lambda>(s0, pw, adm).
       thenA (upd (\<lambda>s. if og_password s = [] then s\<lparr>og_password := pw\<rparr> else s))
         (tryA
           (bindA (send_json r ''POST'' ''/org/users''
                    (Some (JObj [(''email'', JStr (og_email s0)), (''password'', JStr pw), (''role'', JStr (og_role s0))])))
             (\<lambda>_. thenA (upd (\<lambda>s. s\<lparr>og_email := [], og_password := []\<rparr>)) (load_org adm a)))
           show_error))"

definition change_role :: "user \<Rightarrow> string \<Rightarrow> (exn + unit) \<Rightarrow> org_answers \<Rightarrow> ('z org_page_scheme, unit) act" where
  "change_role u nxt r a =
     bindA (getsA org_admin_here) (\<lambda>adm.
       bindA (send_json r ''PATCH'' (''/org/users/'' @ user_id u) (Some (JObj [(''role'', JStr nxt)])))
         (\<lambda>_. load_org adm a))"

definition toggle_disabled :: "user \<Rightarrow> (exn + unit) \<Rightarrow> org_answers \<Rightarrow> ('z org_page_scheme, unit) act" where
  "toggle_disabled u r a =
     bindA (getsA org_admin_here) (\<lambda>adm.
       bindA (send_json r ''POST'' (''/org/users/'' @ user_id u @ (if user_disabled u then ''/enable'' else ''/disable'')) None)
         (\<lambda>_. load_org adm a))"

definition reset_pw :: "user \<Rightarrow> (exn + string) \<Rightarrow> org_answers \<Rightarrow> ('z org_page_scheme, unit) act" where
  "reset_pw u r a =
     bindA (getsA org_admin_here) (\<lambda>adm.
       tryA
         (bindA (send_json r ''POST'' (''/org/users/'' @ user_id u @ ''/reset-password'') None)
           (\<lambda>pw. thenA (upd (\<lambda>s. s\<lparr>og_temp_pw := Some (user_email u, pw), og_mfa_reset_ok := None\<rparr>)) (load_org adm a)))
         show_error)"

text \<open>The \<open>catch\<close> loads again and may throw in turn; \<open>finally\<close> frees the dialog.\<close>

definition confirm_reset_mfa :: "(exn + unit) \<Rightarrow> org_answers \<Rightarrow> org_answers \<Rightarrow> ('z org_page_scheme, unit) act" where
  "confirm_reset_mfa r a again =
     bindA (getsA (\<lambda>s. (og_mfa_reset_user s, org_admin_here s))) (\<lambda>(who, adm).
       case who of
         None \<Rightarrow> ret ()
       | Some u \<Rightarrow>
           thenA (upd (\<lambda>s. s\<lparr>og_mfa_reset_busy := True\<rparr>))
             (finallyA
               (tryA
                 (bindA (send_json r ''POST'' (''/org/users/'' @ user_id u @ ''/reset-mfa'') None)
                   (\<lambda>_. thenA (upd (\<lambda>s. s\<lparr>og_mfa_reset_ok := Some (user_email u), og_temp_pw := None, og_mfa_reset_user := None\<rparr>))
                          (load_org adm a)))
                 (\<lambda>e. thenA (show_error e) (load_org adm again)))
               (\<lambda>s. s\<lparr>og_mfa_reset_busy := False\<rparr>)))"

definition open_offboard :: "user \<Rightarrow> 'z org_page_scheme \<Rightarrow> 'z org_page_scheme" where
  "open_offboard u s = s\<lparr>og_off_user := Some u\<rparr>"

definition close_offboard :: "'z org_page_scheme \<Rightarrow> 'z org_page_scheme" where
  "close_offboard s = s\<lparr>og_off_user := None\<rparr>"

definition offboard_targets :: "user \<Rightarrow> 'z org_page_scheme \<Rightarrow> string list" where
  "offboard_targets u s = [] # map user_id (filter (\<lambda>x. user_id x \<noteq> user_id u \<and> \<not> user_disabled x) (og_users s))"

definition offboard_body :: "'z org_page_scheme \<Rightarrow> json" where
  "offboard_body s =
     JObj ((''action'', JStr (og_action s))
           # (if og_action s = ''transfer'' then [(''target_user_id'', JStr (og_target s))] else []))"

definition offboard :: "(exn + unit) \<Rightarrow> org_answers \<Rightarrow> ('z org_page_scheme, unit) act" where
  "offboard r a =
     bindA (getsA (\<lambda>s. (og_off_user s, offboard_body s, org_admin_here s))) (\<lambda>(who, body, adm).
       case who of
         None \<Rightarrow> ret ()
       | Some u \<Rightarrow>
           tryA
             (bindA (send_json r ''POST'' (''/org/users/'' @ user_id u @ ''/offboard'') (Some body))
               (\<lambda>_. thenA (upd close_offboard) (load_org adm a)))
             show_error)"

definition impersonate_user :: "user \<Rightarrow> (exn + unit) \<Rightarrow> (exn + bool) \<Rightarrow> (exn + me) \<Rightarrow> ('z org_page_scheme, unit) act" where
  "impersonate_user u r status_r me_r =
     tryA
       (bindA (send_json r ''POST'' ''/impersonate'' (Some (JObj [(''user_id'', JStr (user_id u))]))) (\<lambda>_.
          bindA (refresh status_r me_r) (\<lambda>_. navigate library_default False None)))
       show_error"

text \<open>The buttons in the row of a member: impersonate, disable or enable, reset password, reset the second
  factor, offboard.\<close>

definition member_actions :: "'z org_page_scheme \<Rightarrow> user \<Rightarrow> string list" where
  "member_actions s u =
     (if \<not> is_org_admin (au_me s) then []
      else (if Some (user_id u) \<noteq> my_id (au_me s) \<and> \<not> user_disabled u then [''org.impersonate''] else [])
        @ [if user_disabled u then ''common.enable'' else ''common.disable'', ''org.resetPassword'']
        @ (if can_admin_reset_member_mfa u (sso_blocks_mfa s) True then [''org.resetMfa''] else [])
        @ [''org.offboard''])"

section \<open>What the handlers do\<close>

lemma org_totals_add_up: "ot_active (org_totals_of us) + ot_disabled (org_totals_of us) = ot_members (org_totals_of us)"
  by (simp add: org_totals_of_def sum_length_filter_compl add.commute)

lemma filtered_users_set: "set (filtered_users cmp s) = {u \<in> set (og_users s). member_matches_query u (og_search s)}"
  by (auto simp: filtered_users_def)

lemma offboard_targets_others:
  "i \<in> set (offboard_targets u s) \<Longrightarrow> i \<noteq> [] \<Longrightarrow> i \<noteq> user_id u \<and> (\<exists>x \<in> set (og_users s). user_id x = i \<and> \<not> user_disabled x)"
  by (auto simp: offboard_targets_def)

text \<open>A password of twelve bytes has sixteen characters that need no escaping in a URL, and two lists of bytes never
  give the same one.\<close>

lemma alphabet_distinct: "distinct base64_alphabet" "length base64_alphabet = 64"
  by (simp_all add: base64_alphabet_def)

lemma b64_safe_all: "list_all (\<lambda>c. c \<noteq> CHR ''='' \<and> url_safe c \<noteq> CHR ''='' \<and> unreserved (url_safe c)) base64_alphabet"
  by code_simp

lemma url_safe_inj: "inj_on url_safe (set base64_alphabet)"
proof -
  have "distinct (map url_safe base64_alphabet)" by code_simp
  then show ?thesis by (simp add: distinct_map)
qed

lemma b64_in: "n < 64 \<Longrightarrow> b64 n \<in> set base64_alphabet"
  by (simp add: b64_def alphabet_distinct nth_mem)

lemma b64_inj: "m < 64 \<Longrightarrow> n < 64 \<Longrightarrow> url_safe (b64 m) = url_safe (b64 n) \<longleftrightarrow> m = n"
  using inj_on_eq_iff [OF url_safe_inj b64_in b64_in]
  by (simp add: b64_def alphabet_distinct nth_eq_iff_index_eq)

lemma b64_safe: "n < 64 \<Longrightarrow> unreserved (url_safe (b64 n)) \<and> url_safe (b64 n) \<noteq> CHR ''=''"
  using b64_safe_all b64_in by (auto simp: list_all_iff)

lemma three_bytes:
  assumes "a < (256::nat)" "b < 256" "c < 256"
  shows "a div 4 < 64 \<and> 16 * (a mod 4) + b div 16 < 64 \<and> 4 * (b mod 16) + c div 64 < 64 \<and> c mod 64 < 64"
  using assms by auto

lemma two_digits:
  assumes "k * x + y = k * x' + (y'::nat)" "y < k" "y' < k"
  shows "x = x' \<and> y = y'"
proof -
  have "(k * x + y) div k = x" "(k * x' + y') div k = x'" "(k * x + y) mod k = y" "(k * x' + y') mod k = y'"
    using assms(2,3) by auto
  then show ?thesis using assms(1) by metis
qed

lemma same_div_mod: "a div k = a' div k \<Longrightarrow> a mod k = a' mod k \<Longrightarrow> a = (a'::nat)"
  by (metis div_mult_mod_eq)

lemma three_bytes_back:
  assumes "b < (256::nat)" "c < 256" "b' < 256" "c' < 256"
    and a: "a div 4 = a' div (4::nat)" and ab: "16 * (a mod 4) + b div 16 = 16 * (a' mod 4) + b' div 16"
    and bc: "4 * (b mod 16) + c div 64 = 4 * (b' mod 16) + c' div 64" and c: "c mod 64 = c' mod 64"
  shows "a = a' \<and> b = b' \<and> c = c'"
proof -
  have 1: "a mod 4 = a' mod 4 \<and> b div 16 = b' div 16" using two_digits [OF ab] assms(1,3) by (simp add: less_mult_imp_div_less)
  have 2: "b mod 16 = b' mod 16 \<and> c div 64 = c' div 64" using two_digits [OF bc] assms(2,4) by (simp add: less_mult_imp_div_less)
  show ?thesis using same_div_mod [OF a] same_div_mod [of b 16 b'] same_div_mod [of c 64 c'] 1 2 c by simp
qed

lemma length_three_mod: "length (a # b # c # r) mod 3 = length r mod 3"
proof -
  have "length (a # b # c # r) = length r + 3" by simp
  then show ?thesis by (simp only: mod_add_self2)
qed

lemma quad_inj:
  assumes "a < 256" "b < 256" "c < 256" "a' < 256" "b' < 256" "c' < 256"
    and "url_safe (b64 (a div 4)) = url_safe (b64 (a' div 4))"
    and "url_safe (b64 (16 * (a mod 4) + b div 16)) = url_safe (b64 (16 * (a' mod 4) + b' div 16))"
    and "url_safe (b64 (4 * (b mod 16) + c div 64)) = url_safe (b64 (4 * (b' mod 16) + c' div 64))"
    and "url_safe (b64 (c mod 64)) = url_safe (b64 (c' mod 64))"
  shows "a = a' \<and> b = b' \<and> c = c'"
proof -
  note l = three_bytes [OF assms(1-3)] and l' = three_bytes [OF assms(4-6)]
  show ?thesis
  proof (rule three_bytes_back [OF assms(2,3,5,6)])
    show "a div 4 = a' div 4" using iffD1 [OF b64_inj assms(7)] l l' by blast
    show "16 * (a mod 4) + b div 16 = 16 * (a' mod 4) + b' div 16" using iffD1 [OF b64_inj assms(8)] l l' by blast
    show "4 * (b mod 16) + c div 64 = 4 * (b' mod 16) + c' div 64" using iffD1 [OF b64_inj assms(9)] l l' by blast
    show "c mod 64 = c' mod 64" using iffD1 [OF b64_inj assms(10)] l l' by blast
  qed
qed

lemma btoa_bytes:
  "list_all (\<lambda>n. n < 256) bs \<Longrightarrow> length bs mod 3 = 0
   \<Longrightarrow> list_all (\<lambda>c. unreserved (url_safe c) \<and> url_safe c \<noteq> CHR ''='') (btoa bs) \<and> 3 * length (btoa bs) = 4 * length bs"
proof (induction bs rule: btoa.induct)
  case (4 a b c r)
  have m: "length r mod 3 = 0" using 4(3) length_three_mod by metis
  have bytes: "a < 256" "b < 256" "c < 256" and r: "list_all (\<lambda>n. n < 256) r" using 4(2) by simp_all
  note q = three_bytes [OF bytes]
  have "unreserved (url_safe (b64 n)) \<and> url_safe (b64 n) \<noteq> CHR ''=''"
    if "n \<in> {a div 4, 16 * (a mod 4) + b div 16, 4 * (b mod 16) + c div 64, c mod 64}" for n
    using that q b64_safe by blast
  then show ?case using 4(1) [OF r m] by simp
qed auto

lemma btoa_inj:
  "list_all (\<lambda>n. n < 256) bs \<Longrightarrow> list_all (\<lambda>n. n < 256) cs \<Longrightarrow> length bs mod 3 = 0 \<Longrightarrow> length cs = length bs
   \<Longrightarrow> map url_safe (btoa bs) = map url_safe (btoa cs) \<Longrightarrow> bs = cs"
proof (induction bs arbitrary: cs rule: btoa.induct)
  case (4 a b c r)
  obtain a' b' c' r' where cs: "cs = a' # b' # c' # r'" and l: "length r' = length r"
    using 4(5) by (auto simp: length_Suc_conv)
  have m: "length r mod 3 = 0" using 4(4) length_three_mod by metis
  have bytes: "a < 256" "b < 256" "c < 256" "a' < 256" "b' < 256" "c' < 256" using 4(2,3) cs by simp_all
  have eqs: "map url_safe (btoa (a # b # c # r)) = map url_safe (btoa (a' # b' # c' # r'))" using 4(6) cs by simp
  have "a = a' \<and> b = b' \<and> c = c'"
    by (rule quad_inj [OF bytes]) (use eqs in \<open>simp_all only: btoa.simps append.simps list.map list.inject\<close>)
  moreover have "r = r'"
  proof (rule 4(1) [OF _ _ m l])
    show "list_all (\<lambda>n. n < 256) r" "list_all (\<lambda>n. n < 256) r'" using 4(2,3) cs by simp_all
    show "map url_safe (btoa r) = map url_safe (btoa r')"
      using eqs by (simp only: btoa.simps append.simps list.map list.inject)
  qed
  ultimately show ?case using cs by simp
qed auto

lemma random_password_unpadded:
  assumes "list_all (\<lambda>n. n < 256) bs" "length bs = 12"
  shows "random_password bs = map url_safe (btoa bs)"
proof -
  have "CHR ''='' \<notin> set (map url_safe (btoa bs))"
    using btoa_bytes [OF assms(1)] assms(2) by (auto simp: list_all_iff)
  then have "dropWhile (\<lambda>c. c = CHR ''='') (rev (map url_safe (btoa bs))) = rev (map url_safe (btoa bs))"
    by (cases "rev (map url_safe (btoa bs))") (auto simp: dropWhile_eq_self_iff hd_in_set simp del: set_map set_rev simp flip: set_rev [of "map _ _"])
  then show ?thesis by (simp add: random_password_def)
qed

theorem random_password_fresh:
  assumes "list_all (\<lambda>n. n < 256) bs" "length bs = 12" "list_all (\<lambda>n. n < 256) cs" "length cs = 12"
  shows "length (random_password bs) = 16 \<and> list_all unreserved (random_password bs)
    \<and> (random_password bs = random_password cs \<longleftrightarrow> bs = cs)"
  using btoa_bytes [OF assms(1)] btoa_inj [OF assms(1,3)] assms
  by (auto simp: random_password_unpadded list_all_iff)

section \<open>Loading again\<close>

definition all_answered :: "bool \<Rightarrow> org_answers \<Rightarrow> bool" where
  "all_answered adm a \<longleftrightarrow> org_errors adm a = []"

lemma errors_of_Nil [simp]: "errors_of r = [] \<longleftrightarrow> (\<exists>x. r = Inr x)"
  by (cases r) (simp_all add: errors_of_def)

lemma all_answered_cases:
  assumes "all_answered True a"
  obtains g us ts c k where "oa_org a = Inr g" "oa_users a = Inr us" "oa_tariffs a = Inr ts"
    "oa_sso a = Inr c" "oa_capture a = Inr k"
  using assms by (auto simp: all_answered_def org_errors_def)

lemma load_org_answered:
  assumes "oa_org a = Inr g" "oa_users a = Inr us" "oa_tariffs a = Inr ts" "oa_sso a = Inr c" "oa_capture a = Inr k"
  shows "load_org True a s = (Inr (), capture_loaded k (sso_loaded c (org_loaded g us ts (emits (org_gets True) s))))"
proof -
  have "org_errors True a = []" using assms by (simp add: org_errors_def errors_of_def)
  then show ?thesis using assms by (simp add: load_org_def run_simps)
qed

lemma load_org_refused: "\<not> all_answered adm a \<Longrightarrow> load_org adm a s = (Inl (oa_first a (org_errors adm a)), emits (org_gets adm) s)"
  by (simp add: load_org_def all_answered_def run_simps)

lemma loaded_fields:
  "og_org (capture_loaded k (sso_loaded c (org_loaded g us ts s))) = Some g"
  "og_name (capture_loaded k (sso_loaded c (org_loaded g us ts s))) = org_name g"
  "og_sso_client_secret (capture_loaded k (sso_loaded c (org_loaded g us ts s))) = []"
  "og_password (capture_loaded k (sso_loaded c (org_loaded g us ts s))) = og_password s"
  "og_email (capture_loaded k (sso_loaded c (org_loaded g us ts s))) = og_email s"
  "events (capture_loaded k (sso_loaded c (org_loaded g us ts s))) = events s"
  by (simp_all add: capture_loaded_def sso_loaded_def org_loaded_def)

lemma emits_fields [simp]:
  "events (emits es s) = events s @ es" "og_password (emits es s) = og_password s" "og_email (emits es s) = og_email s"
  by (simp_all add: emits_def)

text \<open>A load that is answered leaves nothing to save: no section keeps an edit, and the tariff shown is the current
  one or none.\<close>

theorem load_leaves_nothing_to_save:
  assumes "all_answered True a" "\<forall>g. oa_org a = Inr g \<longrightarrow> trim (org_name g) = org_name g"
  shows "fst (load_org True a s) = Inr () \<and> \<not> profile_dirty (snd (load_org True a s))
    \<and> \<not> sso_dirty (snd (load_org True a s)) \<and> \<not> capture_bot_name_dirty (snd (load_org True a s))
    \<and> \<not> can_save_tariff (snd (load_org True a s))"
proof -
  obtain g us ts c k where ans: "oa_org a = Inr g" "oa_users a = Inr us" "oa_tariffs a = Inr ts"
    "oa_sso a = Inr c" "oa_capture a = Inr k" using all_answered_cases [OF assms(1)] .
  have "trim (org_name g) = org_name g" using assms(2) ans(1) by simp
  then show ?thesis
    unfolding load_org_answered [OF ans]
    by (simp add: capture_loaded_def sso_loaded_def org_loaded_def profile_dirty_def sso_dirty_def capture_bot_name_dirty_def
        can_save_tariff_def selected_tariff_def trim_def)
qed

text \<open>Every save of one section loads all of them: whatever was typed into another one is gone.\<close>

theorem saving_discards_drafts:
  assumes "all_answered True a" "org_admin_here s" "oa_org a = Inr g"
  shows "og_name (snd (save_sso (Inr ()) a s)) = org_name g
    \<and> og_name (snd (change_role u nxt (Inr ()) a s)) = org_name g
    \<and> og_name (snd (toggle_disabled u (Inr ()) a s)) = org_name g
    \<and> og_sso_client_secret (snd (change_role u nxt (Inr ()) a s)) = []
    \<and> og_sso_client_secret (snd (toggle_disabled u (Inr ()) a s)) = []"
proof -
  obtain us ts c k where ans: "oa_users a = Inr us" "oa_tariffs a = Inr ts" "oa_sso a = Inr c" "oa_capture a = Inr k"
    using all_answered_cases [OF assms(1)] by metis
  show ?thesis
    using assms(2)
    by (simp add: save_sso_def change_role_def toggle_disabled_def run_simps load_org_answered [OF assms(3) ans] loaded_fields)
qed

section \<open>Adding members\<close>

lemma add_user_accepted:
  assumes "all_answered True a" "org_admin_here s"
  shows "og_password (snd (add_user rnd (Inr ()) a s)) = [] \<and> og_email (snd (add_user rnd (Inr ()) a s)) = []
    \<and> fst (add_user rnd (Inr ()) a s) = Inr ()
    \<and> events (snd (add_user rnd (Inr ()) a s)) = events s
        @ [EvRequest ''POST'' ''/org/users'' (Some (JObj [(''email'', JStr (og_email s)),
             (''password'', JStr (ensure_user_password rnd (og_password s))), (''role'', JStr (og_role s))]))]
        @ org_gets True"
proof -
  obtain g us ts c k where ans: "oa_org a = Inr g" "oa_users a = Inr us" "oa_tariffs a = Inr ts"
    "oa_sso a = Inr c" "oa_capture a = Inr k" using all_answered_cases [OF assms(1)] .
  show ?thesis
    using assms(2) by (simp add: add_user_def run_simps load_org_answered [OF ans] loaded_fields)
qed

text \<open>The second member added without opening the section again gets a password that is made up when the button is
  pressed and cleared once the member exists: the field is empty before and after.\<close>

theorem second_password_is_lost:
  assumes "all_answered True a" "all_answered True b" "org_admin_here s"
    and "s' = snd (add_user rnd (Inr ()) a s)" "org_admin_here s'"
    and "s'' = snd (add_user rnd' (Inr ()) b (s'\<lparr>og_email := e\<rparr>))"
  shows "og_password s' = [] \<and> og_password s'' = []
    \<and> EvRequest ''POST'' ''/org/users'' (Some (JObj [(''email'', JStr e), (''password'', JStr rnd'), (''role'', JStr (og_role s'))]))
        \<in> set (events s'')"
proof -
  have 1: "og_password s' = []" using add_user_accepted [OF assms(1,3)] assms(4) by simp
  have "org_admin_here (s'\<lparr>og_email := e\<rparr>)" using assms(5) by (simp add: org_admin_here_def)
  from add_user_accepted [OF assms(2) this, of rnd'] show ?thesis
    using 1 unfolding assms(6) by (simp add: ensure_user_password_def)
qed

section \<open>The profile of the organisation\<close>

text \<open>A ready button sends something, unless the only change is a blank name; what is sent is exactly what changed.\<close>

theorem profile_button:
  assumes "og_org s = Some g"
  shows "profile_dirty s \<longleftrightarrow> profile_patches dec s g \<noteq> [] \<or> (trim (og_name s) = [] \<and> org_name g \<noteq> [])"
  using assms by (auto simp: profile_dirty_def profile_patches_def renames_org_def settings_patch_def)

theorem profile_sends_changes:
  assumes "og_org s = Some g"
  shows "map_of (settings_patch dec s g) ''mfa_required''
           = (if og_mfa_required s = org_mfa_required g then None else Some (JBool (og_mfa_required s)))
    \<and> map_of (settings_patch dec s g) ''allow_public_links''
           = (if og_allow_public_links s = org_allow_public_links g then None else Some (JBool (og_allow_public_links s)))
    \<and> (profile_patches dec s g = [] \<longrightarrow> save_profile dec nr sr pick st mr a s = (Inr (), s))"
  using assms by (simp add: settings_patch_def save_profile_def run_simps)

section \<open>Hosts\<close>

text \<open>Saving or removing one host sends the others as they are, without a secret; so their secrets stay.\<close>

lemma capture_items_others:
  "r \<in> set (og_hosts s) \<Longrightarrow> Some (jh_id r) \<noteq> og_editing s \<Longrightarrow> capture_host_payload_row r \<in> set (capture_items host s)"
  by (auto simp: capture_items_def Let_def image_iff)

lemma payload_row_keeps_secret: "json_field (capture_host_payload_row r) ''jwt_secret'' = None"
  by (simp add: capture_host_payload_row_def)

lemma capture_items_length:
  "length (capture_items host s) = length (og_hosts s) + (if truthy (og_editing s) then 0 else 1)"
  by (simp add: capture_items_def Let_def)

text \<open>A ready button sends its host; the host that was removed is not sent again, and the edit of it is closed.\<close>

theorem capture_ready_sends:
  assumes "capture_draft_ready parse s"
  shows "\<exists>items. length items = length (og_hosts s) + (if truthy (og_editing s) then 0 else 1)
    \<and> submit_capture_draft parse (Inr c) s
      = (Inr (), reset_capture_draft (capture_saved c (emit (EvRequest ''PUT'' ''/org/capture/jitsi''
          (Some (JObj [(''items'', JArr items), (''bot_display_name'', JStr (og_bot_name s))]))) s)))"
proof -
  have host: "normalize_jitsi_host_input parse (hd_host (og_draft s)) \<noteq> []"
    using assms by (auto simp: capture_draft_ready_def Let_def split: if_splits)
  show ?thesis
    by (rule exI [of _ "capture_items (normalize_jitsi_host_input parse (hd_host (og_draft s))) s"])
      (use host in \<open>simp add: capture_items_length submit_capture_draft_def put_capture_host_items_def run_simps Let_def\<close>)
qed

theorem removed_host_is_gone:
  "\<exists>items. remove_capture_host row (Inr c) s
      = (Inr (), capture_saved c (emit (EvRequest ''PUT'' ''/org/capture/jitsi''
          (Some (JObj [(''items'', JArr items), (''bot_display_name'', JStr (og_bot_name s))])))
          (if og_editing s = Some (jh_id row) then reset_capture_draft s else s)))
    \<and> (\<forall>x \<in> set items. json_field x ''id'' \<noteq> Some (JStr (jh_id row)))
    \<and> og_editing (snd (remove_capture_host row (Inr c) s)) \<noteq> Some (jh_id row)"
proof -
  let ?items = "map capture_host_payload_row (filter (\<lambda>h. jh_id h \<noteq> jh_id row) (og_hosts s))"
  have run: "remove_capture_host row (Inr c) s
      = (Inr (), capture_saved c (emit (EvRequest ''PUT'' ''/org/capture/jitsi''
          (Some (JObj [(''items'', JArr ?items), (''bot_display_name'', JStr (og_bot_name s))])))
          (if og_editing s = Some (jh_id row) then reset_capture_draft s else s)))"
    by (simp add: remove_capture_host_def save_capture_hosts_def put_capture_host_items_def run_simps reset_capture_draft_def)
  show ?thesis
    by (rule exI [of _ ?items])
      (auto simp: run capture_host_payload_row_def capture_saved_def emit_def reset_capture_draft_def)
qed

section \<open>Leaving\<close>

text \<open>The dialog keeps the action and the target of its last use: opened for the very member that was chosen as the
  target before, it asks to hand the member's items to the member, whom its list does not offer.\<close>

theorem offboard_keeps_old_target:
  assumes "og_action s = ''transfer''" "og_target s = user_id u"
  shows "events (snd (offboard (Inl e) a (open_offboard u (close_offboard s)))) = events s
      @ [EvRequest ''POST'' (''/org/users/'' @ user_id u @ ''/offboard'')
           (Some (JObj [(''action'', JStr ''transfer''), (''target_user_id'', JStr (user_id u))])),
         EvToast e None]
    \<and> (user_id u \<noteq> [] \<longrightarrow> user_id u \<notin> set (offboard_targets u (open_offboard u (close_offboard s))))"
  using assms
  by (auto simp: offboard_def open_offboard_def close_offboard_def offboard_body_def run_simps show_error_def emit_def
      offboard_targets_def)

text \<open>The dialog of the second factor is free again whatever is answered.\<close>

lemma load_org_busy: "og_mfa_reset_busy (snd (load_org adm a s)) = og_mfa_reset_busy s"
  by (auto simp: load_org_def run_simps emits_def org_loaded_def sso_loaded_def capture_loaded_def split: sum.splits)

theorem reset_mfa_settles:
  assumes "og_mfa_reset_user s = Some u"
  shows "\<not> og_mfa_reset_busy (snd (confirm_reset_mfa r a again s))"
  using assms by (simp add: confirm_reset_mfa_def run_simps)

end
