(* ===== verification/Instance_Settings.thy ===== *)
theory Instance_Settings
  imports Org Models
begin

text \<open>
  The settings of the instance (\<open>pages/instance/InstanceSettingsTab.tsx\<close>, \<open>components/instance/McpOAuthInfo.tsx\<close>): what
  the form holds, every control with the condition that disables it, the tests of the mail server and of the Telegram
  bot, and saving. The requests that leave the form open for edits (the test of the bot, saving) are two steps each:
  sending, and the answer, which takes the settings its handler saw. A field that a number is typed into holds
  \<open>None\<close> for \<open>NaN\<close>; the numbers of the rate limits are kept by their names.
\<close>

section \<open>The settings\<close>

record import_platform =
  ip_id :: string
  ip_label :: string
  ip_domains :: "string list"
  ip_enabled :: bool

record capture_connector =
  cn_id :: string
  cn_label :: string
  cn_enabled :: bool
  cn_status :: "string option"

type_synonym js_number = "rat option"

record instance_settings =
  is_allow_new_orgs :: bool
  is_public_base_url :: "string option"
  is_smtp_host :: "string option"
  is_smtp_port :: "js_number option"
  is_smtp_user :: "string option"
  is_smtp_password_configured :: "bool option"
  is_smtp_from :: "string option"
  is_smtp_tls :: bool
  is_asr_model :: string
  is_diarization_model :: "string option"
  is_summarize_model :: "string option"
  is_asr_models :: "string list option"
  is_diarization_models :: "string list option"
  is_summarize_models :: "string list option"
  is_dispatchable_pairs :: "dispatchable_pair list option"
  is_import_enabled :: bool
  is_import_platforms :: "import_platform list"
  is_capture_enabled :: bool
  is_capture_connectors :: "capture_connector list option"
  is_outbound_proxy :: bool
  is_proxy_url :: "string option"
  is_proxy_configured :: bool
  is_download_proxy :: bool
  is_telegram_enabled :: bool
  is_telegram_token_configured :: bool
  is_telegram_username :: "string option"
  is_telegram_proxy :: bool
  is_telegram_webhook :: "bool option"
  is_cookies_path :: "string option"
  is_audio_bitrate :: "rat option"
  is_max_concurrent :: "rat option"
  is_session_ttl :: rat
  is_task_retention :: "rat option"
  is_rate_limit_enabled :: bool
  is_rate_limits :: "string \<Rightarrow> js_number"
  is_date_time_format :: "string option"
  is_timezone :: "string option"

definition rate_limit_names :: "string list" where
  "rate_limit_names =
     [''rate_limit_login_email'', ''rate_limit_login_ip'', ''rate_limit_login_global'', ''rate_limit_signup_email'',
      ''rate_limit_signup_ip'', ''rate_limit_signup_global'', ''rate_limit_reset_email'', ''rate_limit_reset_ip'',
      ''rate_limit_reset_global'', ''rate_limit_reset_confirm_ip'', ''rate_limit_reset_confirm_global'',
      ''rate_limit_setup_ip'', ''rate_limit_setup_global'', ''rate_limit_api_user'', ''rate_limit_api_ip'',
      ''rate_limit_api_global'', ''rate_limit_api_tasks_user'', ''rate_limit_api_tasks_ip'', ''rate_limit_mcp_poll_user'',
      ''rate_limit_oauth_register_ip'', ''rate_limit_oauth_register_global'', ''rate_limit_oauth_token_ip'',
      ''rate_limit_oauth_token_global'']"

definition default_import_audio_bitrate_kbps :: rat where
  "default_import_audio_bitrate_kbps = 64"

definition default_import_max_concurrent :: rat where
  "default_import_max_concurrent = 2"

definition import_max_concurrent_max :: rat where
  "import_max_concurrent_max = 16"

definition or_else :: "'a \<Rightarrow> 'a option \<Rightarrow> 'a option" where
  "or_else d v = (case v of None \<Rightarrow> Some d | Some x \<Rightarrow> Some x)"

definition normalize_settings :: "instance_settings \<Rightarrow> instance_settings" where
  "normalize_settings d =
     d\<lparr>is_date_time_format := or_else ''eu_24h'' (is_date_time_format d),
       is_timezone := or_else ''GMT+0'' (is_timezone d),
       is_asr_models := or_else [] (is_asr_models d),
       is_diarization_models := or_else [] (is_diarization_models d),
       is_summarize_models := or_else [] (is_summarize_models d),
       is_audio_bitrate := or_else default_import_audio_bitrate_kbps (is_audio_bitrate d),
       is_max_concurrent := or_else default_import_max_concurrent (is_max_concurrent d),
       is_capture_connectors := or_else [] (is_capture_connectors d),
       is_smtp_password_configured := or_else False (is_smtp_password_configured d),
       is_task_retention := or_else 0 (is_task_retention d),
       is_telegram_webhook := or_else True (is_telegram_webhook d)\<rparr>"

section \<open>Controls\<close>

text \<open>\<open>Number (v) || d\<close>: \<open>NaN\<close> and zero give the default.\<close>

definition number_or :: "rat \<Rightarrow> string \<Rightarrow> rat" where
  "number_or d v = (case number_of_string v of None \<Rightarrow> d | Some q \<Rightarrow> if q = 0 then d else q)"

definition or_null :: "string \<Rightarrow> string option" where
  "or_null v = (if v = [] then None else Some v)"

definition blank :: "string option \<Rightarrow> bool" where
  "blank v \<longleftrightarrow> trim (str_or_empty v) = []"

definition models_of_settings :: "instance_settings \<Rightarrow> transcribe_models" where
  "models_of_settings d =
     \<lparr>tm_asr_models = nullish (is_asr_models d) [], tm_diarization_models = nullish (is_diarization_models d) [],
      tm_dispatchable_pairs = is_dispatchable_pairs d\<rparr>"

datatype base_control = AllowNewOrgs bool | PublicBaseUrl string | SessionTtl string | TaskRetention string

fun base_change :: "base_control \<Rightarrow> instance_settings \<Rightarrow> instance_settings" where
  "base_change (AllowNewOrgs b) d = d\<lparr>is_allow_new_orgs := b\<rparr>"
| "base_change (PublicBaseUrl v) d = d\<lparr>is_public_base_url := Some v\<rparr>"
| "base_change (SessionTtl v) d = d\<lparr>is_session_ttl := number_or 1 v\<rparr>"
| "base_change (TaskRetention v) d = d\<lparr>is_task_retention := Some (max 0 (number_or 0 v))\<rparr>"

datatype model_control = AsrModel string | DiarizationModel string | SummarizeModel string

fun model_change :: "model_control \<Rightarrow> instance_settings \<Rightarrow> instance_settings" where
  "model_change (AsrModel a) d =
     (let allowed = diarization_options_for_asr (models_of_settings d) a in
      d\<lparr>is_asr_model := a,
        is_diarization_model :=
          (if truthy (is_diarization_model d) \<and> str_or_empty (is_diarization_model d) \<in> set allowed
           then is_diarization_model d else None)\<rparr>)"
| "model_change (DiarizationModel v) d = d\<lparr>is_diarization_model := or_null v\<rparr>"
| "model_change (SummarizeModel v) d = d\<lparr>is_summarize_model := or_null v\<rparr>"

definition model_disabled :: "model_control \<Rightarrow> instance_settings \<Rightarrow> bool" where
  "model_disabled c d =
     (case c of
        AsrModel _ \<Rightarrow> length (nullish (is_asr_models d) []) = 0
      | DiarizationModel _ \<Rightarrow> length (nullish (is_diarization_models d) []) = 0
      | SummarizeModel _ \<Rightarrow> length (nullish (is_summarize_models d) []) = 0)"

datatype smtp_control = SmtpHost string | SmtpPort string | SmtpUser string | SmtpFrom string | SmtpTls bool

fun smtp_change :: "smtp_control \<Rightarrow> instance_settings \<Rightarrow> instance_settings" where
  "smtp_change (SmtpHost v) d = d\<lparr>is_smtp_host := Some v\<rparr>"
| "smtp_change (SmtpPort v) d = d\<lparr>is_smtp_port := (if v = [] then None else Some (number_of_string v))\<rparr>"
| "smtp_change (SmtpUser v) d = d\<lparr>is_smtp_user := Some v\<rparr>"
| "smtp_change (SmtpFrom v) d = d\<lparr>is_smtp_from := Some v\<rparr>"
| "smtp_change (SmtpTls b) d = d\<lparr>is_smtp_tls := b\<rparr>"

definition proxy_url_ready :: "instance_settings \<Rightarrow> bool" where
  "proxy_url_ready d \<longleftrightarrow> \<not> blank (is_proxy_url d) \<or> is_proxy_configured d"

datatype proxy_control = ProxyUrl string | OutboundProxy bool

fun proxy_change :: "proxy_control \<Rightarrow> instance_settings \<Rightarrow> instance_settings" where
  "proxy_change (ProxyUrl v) d =
     (let url = or_null v; has_url = \<not> blank url in
      d\<lparr>is_proxy_url := url,
        is_outbound_proxy := (if has_url then is_outbound_proxy d else False),
        is_download_proxy := (if has_url then is_download_proxy d else False),
        is_telegram_proxy := (if has_url then is_telegram_proxy d else False)\<rparr>)"
| "proxy_change (OutboundProxy b) d =
     d\<lparr>is_outbound_proxy := b,
       is_download_proxy := (if b then is_download_proxy d else False),
       is_telegram_proxy := (if b then is_telegram_proxy d else False)\<rparr>"

definition proxy_disabled :: "proxy_control \<Rightarrow> instance_settings \<Rightarrow> bool" where
  "proxy_disabled c d = (case c of ProxyUrl _ \<Rightarrow> False | OutboundProxy _ \<Rightarrow> \<not> proxy_url_ready d)"

datatype import_control =
    ImportEnabled bool
  | DownloadProxy bool
  | CookiesPath string
  | AudioBitrate string
  | MaxConcurrent string
  | Platform string bool
  | AllPlatforms
  | DefaultPlatforms

definition set_platforms :: "(import_platform \<Rightarrow> bool) \<Rightarrow> instance_settings \<Rightarrow> instance_settings" where
  "set_platforms f d = d\<lparr>is_import_platforms := map (\<lambda>p. p\<lparr>ip_enabled := f p\<rparr>) (is_import_platforms d)\<rparr>"

fun import_change :: "import_control \<Rightarrow> instance_settings \<Rightarrow> instance_settings" where
  "import_change (ImportEnabled b) d = d\<lparr>is_import_enabled := b\<rparr>"
| "import_change (DownloadProxy b) d = d\<lparr>is_download_proxy := b\<rparr>"
| "import_change (CookiesPath v) d = d\<lparr>is_cookies_path := or_null v\<rparr>"
| "import_change (AudioBitrate v) d =
     d\<lparr>is_audio_bitrate := (if v = [] then None else Some (max 0 (number_or 0 v)))\<rparr>"
| "import_change (MaxConcurrent v) d =
     d\<lparr>is_max_concurrent := Some (min import_max_concurrent_max (max 1 (number_or default_import_max_concurrent v)))\<rparr>"
| "import_change (Platform i b) d = set_platforms (\<lambda>p. if ip_id p = i then b else ip_enabled p) d"
| "import_change AllPlatforms d = set_platforms (\<lambda>_. True) d"
| "import_change DefaultPlatforms d = set_platforms (\<lambda>p. ip_id p \<in> {''Youtube'', ''Rutube'', ''TikTok''}) d"

definition import_disabled :: "import_control \<Rightarrow> instance_settings \<Rightarrow> bool" where
  "import_disabled c d =
     (case c of
        ImportEnabled _ \<Rightarrow> False
      | DownloadProxy _ \<Rightarrow> \<not> is_import_enabled d \<or> \<not> is_outbound_proxy d \<or> \<not> proxy_url_ready d
      | CookiesPath _ \<Rightarrow> False
      | _ \<Rightarrow> \<not> is_import_enabled d)"

datatype telegram_control = TelegramEnabled bool | TelegramProxy bool | TelegramWebhook bool

fun telegram_change :: "telegram_control \<Rightarrow> instance_settings \<Rightarrow> instance_settings" where
  "telegram_change (TelegramEnabled b) d = d\<lparr>is_telegram_enabled := b\<rparr>"
| "telegram_change (TelegramProxy b) d = d\<lparr>is_telegram_proxy := b\<rparr>"
| "telegram_change (TelegramWebhook b) d = d\<lparr>is_telegram_webhook := Some b\<rparr>"

text \<open>\<open>token\<close> is what is typed into the field of the bot's token.\<close>

definition telegram_disabled :: "string \<Rightarrow> telegram_control \<Rightarrow> instance_settings \<Rightarrow> bool" where
  "telegram_disabled token c d =
     (case c of
        TelegramEnabled _ \<Rightarrow> \<not> is_telegram_token_configured d \<and> trim token = []
      | TelegramProxy _ \<Rightarrow> \<not> is_outbound_proxy d \<or> \<not> proxy_url_ready d
      | TelegramWebhook _ \<Rightarrow> blank (is_public_base_url d))"

datatype capture_control = CaptureEnabled bool | Connector string bool

fun capture_change :: "capture_control \<Rightarrow> instance_settings \<Rightarrow> instance_settings" where
  "capture_change (CaptureEnabled b) d = d\<lparr>is_capture_enabled := b\<rparr>"
| "capture_change (Connector i b) d =
     d\<lparr>is_capture_connectors :=
         map_option (map (\<lambda>c. if cn_id c = i then c\<lparr>cn_enabled := b\<rparr> else c)) (is_capture_connectors d)\<rparr>"

definition capture_disabled :: "capture_control \<Rightarrow> instance_settings \<Rightarrow> bool" where
  "capture_disabled c d =
     (case c of
        CaptureEnabled _ \<Rightarrow> False
      | Connector i _ \<Rightarrow>
          \<not> is_capture_enabled d
          \<or> list_ex (\<lambda>x. cn_id x = i \<and> cn_status x = Some ''unavailable'') (nullish (is_capture_connectors d) []))"

datatype other_control = DateFormat string | Timezone string | RateLimitEnabled bool | RateLimit string string

fun other_change :: "other_control \<Rightarrow> instance_settings \<Rightarrow> instance_settings" where
  "other_change (DateFormat v) d = d\<lparr>is_date_time_format := Some v\<rparr>"
| "other_change (Timezone v) d = d\<lparr>is_timezone := Some v\<rparr>"
| "other_change (RateLimitEnabled b) d = d\<lparr>is_rate_limit_enabled := b\<rparr>"
| "other_change (RateLimit k v) d = d\<lparr>is_rate_limits := (is_rate_limits d)(k := number_of_string v)\<rparr>"

definition other_disabled :: "other_control \<Rightarrow> instance_settings \<Rightarrow> bool" where
  "other_disabled c d = (case c of RateLimit k _ \<Rightarrow> \<not> is_rate_limit_enabled d | _ \<Rightarrow> False)"

section \<open>The page\<close>

datatype control =
    BaseControl base_control
  | ModelControl model_control
  | SmtpControl smtp_control
  | ProxyControl proxy_control
  | ImportControl import_control
  | TelegramControl telegram_control
  | CaptureControl capture_control
  | OtherControl other_control

fun change :: "control \<Rightarrow> instance_settings \<Rightarrow> instance_settings" where
  "change (BaseControl c) d = base_change c d"
| "change (ModelControl c) d = model_change c d"
| "change (SmtpControl c) d = smtp_change c d"
| "change (ProxyControl c) d = proxy_change c d"
| "change (ImportControl c) d = import_change c d"
| "change (TelegramControl c) d = telegram_change c d"
| "change (CaptureControl c) d = capture_change c d"
| "change (OtherControl c) d = other_change c d"

fun control_disabled :: "string \<Rightarrow> control \<Rightarrow> instance_settings \<Rightarrow> bool" where
  "control_disabled token (BaseControl c) d = False"
| "control_disabled token (ModelControl c) d = model_disabled c d"
| "control_disabled token (SmtpControl c) d = False"
| "control_disabled token (ProxyControl c) d = proxy_disabled c d"
| "control_disabled token (ImportControl c) d = import_disabled c d"
| "control_disabled token (TelegramControl c) d = telegram_disabled token c d"
| "control_disabled token (CaptureControl c) d = capture_disabled c d"
| "control_disabled token (OtherControl c) d = other_disabled c d"

text \<open>\<open>it_notices\<close> are the keys of the toasts that say something worked.\<close>

record settings_tab = auth_state +
  it_settings :: "instance_settings option"
  it_saved :: "instance_settings option"
  it_smtp_password :: string
  it_proxy_password :: string
  it_telegram_token :: string
  it_test_email :: string
  it_smtp_testing :: bool
  it_telegram_testing :: bool
  it_save_busy :: bool
  it_notices :: "string list"

definition notice :: "string \<Rightarrow> ('z settings_tab_scheme, unit) act" where
  "notice k = upd (\<lambda>s. s\<lparr>it_notices := it_notices s @ [k]\<rparr>)"

definition use_control :: "control \<Rightarrow> 'z settings_tab_scheme \<Rightarrow> 'z settings_tab_scheme" where
  "use_control c s =
     (case it_settings s of
        None \<Rightarrow> s
      | Some d \<Rightarrow> if control_disabled (it_telegram_token s) c d then s else s\<lparr>it_settings := Some (change c d)\<rparr>)"

definition store_settings :: "instance_settings \<Rightarrow> 'z settings_tab_scheme \<Rightarrow> 'z settings_tab_scheme" where
  "store_settings d s = s\<lparr>it_settings := Some (normalize_settings d), it_saved := Some (normalize_settings d)\<rparr>"

definition load_settings :: "(exn + instance_settings) \<Rightarrow> ('z settings_tab_scheme, unit) act" where
  "load_settings r =
     tryA (bindA (get_json r ''/instance/settings'') (\<lambda>d. upd (store_settings d))) show_error"

definition service_models_valid :: "'z settings_tab_scheme \<Rightarrow> bool" where
  "service_models_valid s =
     (case it_settings s of
        None \<Rightarrow> True
      | Some d \<Rightarrow>
          is_dispatchable_combo (models_of_settings d) (is_asr_model d) (is_diarization_model d)
          \<and> is_available_summarize_model \<lparr>sm_models = nullish (is_summarize_models d) []\<rparr> (is_summarize_model d))"

definition offered_diarization_models :: "'z settings_tab_scheme \<Rightarrow> string list" where
  "offered_diarization_models s =
     (case it_settings s of
        None \<Rightarrow> [] | Some d \<Rightarrow> diarization_options_for_asr (models_of_settings d) (is_asr_model d))"

text \<open>\<open>JSON.stringify\<close> of the settings; an \<open>undefined\<close> field is left out. \<open>dec\<close> writes a number that is no
  integer.\<close>

definition opt_strings_json :: "string list option \<Rightarrow> json" where
  "opt_strings_json v = JArr (map JStr (nullish v []))"

definition platform_json :: "import_platform \<Rightarrow> json" where
  "platform_json p =
     JObj [(''id'', JStr (ip_id p)), (''label'', JStr (ip_label p)), (''domains'', JArr (map JStr (ip_domains p))),
           (''enabled'', JBool (ip_enabled p))]"

definition connector_json :: "capture_connector \<Rightarrow> json" where
  "connector_json c =
     JObj ([(''id'', JStr (cn_id c)), (''label'', JStr (cn_label c)), (''enabled'', JBool (cn_enabled c))]
           @ (case cn_status c of None \<Rightarrow> [] | Some x \<Rightarrow> [(''status'', JStr x)]))"

definition pair_json :: "dispatchable_pair \<Rightarrow> json" where
  "pair_json p = JObj [(''asr'', JStr (pair_asr p)), (''diarization'', opt_json (pair_diarization p))]"

definition port_json :: "(rat \<Rightarrow> string) \<Rightarrow> js_number option \<Rightarrow> json" where
  "port_json dec v = (case v of None \<Rightarrow> JNull | Some q \<Rightarrow> number_json dec q)"

definition settings_json :: "(rat \<Rightarrow> string) \<Rightarrow> instance_settings \<Rightarrow> json" where
  "settings_json dec d =
     JObj ([(''allow_new_orgs'', JBool (is_allow_new_orgs d)), (''public_base_url'', opt_json (is_public_base_url d)),
            (''smtp_host'', opt_json (is_smtp_host d)), (''smtp_port'', port_json dec (is_smtp_port d)),
            (''smtp_user'', opt_json (is_smtp_user d)),
            (''smtp_password_configured'', JBool (nullish (is_smtp_password_configured d) False)),
            (''smtp_from'', opt_json (is_smtp_from d)), (''smtp_tls'', JBool (is_smtp_tls d)),
            (''asr_model'', JStr (is_asr_model d)), (''diarization_model'', opt_json (is_diarization_model d)),
            (''summarize_model'', opt_json (is_summarize_model d)), (''asr_models'', opt_strings_json (is_asr_models d)),
            (''diarization_models'', opt_strings_json (is_diarization_models d)),
            (''summarize_models'', opt_strings_json (is_summarize_models d))]
       @ (case is_dispatchable_pairs d of None \<Rightarrow> [] | Some ps \<Rightarrow> [(''dispatchable_pairs'', JArr (map pair_json ps))])
       @ [(''import_enabled'', JBool (is_import_enabled d)),
          (''import_platforms'', JArr (map platform_json (is_import_platforms d))),
          (''capture_enabled'', JBool (is_capture_enabled d)),
          (''capture_connectors'', JArr (map connector_json (nullish (is_capture_connectors d) []))),
          (''outbound_proxy_enabled'', JBool (is_outbound_proxy d)), (''download_proxy_url'', opt_json (is_proxy_url d)),
          (''download_proxy_configured'', JBool (is_proxy_configured d)),
          (''download_proxy_enabled'', JBool (is_download_proxy d)), (''telegram_enabled'', JBool (is_telegram_enabled d)),
          (''telegram_bot_token_configured'', JBool (is_telegram_token_configured d)),
          (''telegram_bot_username'', opt_json (is_telegram_username d)),
          (''telegram_use_proxy'', JBool (is_telegram_proxy d)),
          (''telegram_use_webhook'', JBool (nullish (is_telegram_webhook d) True)),
          (''download_cookies_path'', opt_json (is_cookies_path d))]
       @ (case is_audio_bitrate d of None \<Rightarrow> [] | Some q \<Rightarrow> [(''import_audio_bitrate_kbps'', number_json dec (Some q))])
       @ [(''import_max_concurrent'', number_json dec (is_max_concurrent d)),
          (''session_ttl_hours'', number_json dec (Some (is_session_ttl d))),
          (''task_history_retention_days'', number_json dec (is_task_retention d)),
          (''rate_limit_enabled'', JBool (is_rate_limit_enabled d))]
       @ map (\<lambda>k. (k, number_json dec (is_rate_limits d k))) rate_limit_names
       @ [(''date_time_format'', JStr (nullish (is_date_time_format d) [])), (''timezone'', JStr (nullish (is_timezone d) []))])"

definition settings_dirty :: "(rat \<Rightarrow> string) \<Rightarrow> 'z settings_tab_scheme \<Rightarrow> bool" where
  "settings_dirty dec s =
     (case (it_settings s, it_saved s) of
        (Some d, Some d') \<Rightarrow>
          if trim (it_smtp_password s) \<noteq> [] \<or> trim (it_proxy_password s) \<noteq> [] \<or> trim (it_telegram_token s) \<noteq> [] then True
          else json_dirty (settings_json dec d) (settings_json dec d')
      | _ \<Rightarrow> False)"

definition settings_ready :: "(rat \<Rightarrow> string) \<Rightarrow> 'z settings_tab_scheme \<Rightarrow> bool" where
  "settings_ready dec s \<longleftrightarrow> settings_dirty dec s \<and> service_models_valid s \<and> \<not> it_save_busy s"

section \<open>Testing the mail server\<close>

definition smtp_test_payload :: "(rat \<Rightarrow> string) \<Rightarrow> 'z settings_tab_scheme \<Rightarrow> (string \<times> json) list option" where
  "smtp_test_payload dec s =
     (case it_settings s of
        None \<Rightarrow> None
      | Some d \<Rightarrow>
          Some ((if \<not> blank (is_smtp_host d) then [(''smtp_host'', JStr (trim (str_or_empty (is_smtp_host d))))] else [])
            @ (case is_smtp_port d of None \<Rightarrow> [] | Some q \<Rightarrow> [(''smtp_port'', number_json dec q)])
            @ (if \<not> blank (is_smtp_user d) then [(''smtp_user'', JStr (trim (str_or_empty (is_smtp_user d))))] else [])
            @ (if \<not> blank (is_smtp_from d) then [(''smtp_from'', JStr (trim (str_or_empty (is_smtp_from d))))] else [])
            @ [(''smtp_tls'', JBool (is_smtp_tls d))]
            @ (if it_smtp_password s \<noteq> [] then [(''smtp_password'', JStr (it_smtp_password s))] else [])))"

definition smtp_password_ready :: "'z settings_tab_scheme \<Rightarrow> bool" where
  "smtp_password_ready s \<longleftrightarrow>
     it_smtp_password s \<noteq> [] \<or> Option.bind (it_settings s) is_smtp_password_configured = Some True"

definition smtp_test_to :: "'z settings_tab_scheme \<Rightarrow> string" where
  "smtp_test_to s =
     (if trim (it_test_email s) \<noteq> [] then trim (it_test_email s)
      else (case au_me s of None \<Rightarrow> [] | Some m \<Rightarrow> user_email (me_user m)))"

definition test_smtp_send :: "(rat \<Rightarrow> string) \<Rightarrow> (exn + unit) \<Rightarrow> ('z settings_tab_scheme, bool) act" where
  "test_smtp_send dec r =
     bindA (getsA (\<lambda>s. (smtp_test_payload dec s, smtp_test_to s))) (\<lambda>(p, addr).
       case p of
         None \<Rightarrow> ret False
       | Some payload \<Rightarrow>
           if addr = [] then ret False
           else tryA
             (bindA (send_json r ''POST'' ''/instance/smtp/test-send'' (Some (JObj (payload @ [(''to'', JStr addr)]))))
               (\<lambda>_. thenA (notice ''instance.smtpTestSendOk'') (ret True)))
             (\<lambda>e. thenA (show_error e) (ret False)))"

definition smtp_test_disabled :: "'z settings_tab_scheme \<Rightarrow> bool" where
  "smtp_test_disabled s \<longleftrightarrow>
     it_smtp_testing s
     \<or> (case it_settings s of None \<Rightarrow> True | Some d \<Rightarrow> blank (is_smtp_host d) \<or> blank (is_smtp_from d))"

definition test_smtp_connection ::
  "(rat \<Rightarrow> string) \<Rightarrow> (exn + unit) \<Rightarrow> (exn + unit) \<Rightarrow> ('z settings_tab_scheme, unit) act" where
  "test_smtp_connection dec conn_r send_r =
     bindA (getsA (\<lambda>s. (smtp_test_payload dec s, smtp_password_ready s))) (\<lambda>(p, pw).
       case p of
         None \<Rightarrow> ret ()
       | Some payload \<Rightarrow>
           thenA (upd (\<lambda>s. s\<lparr>it_smtp_testing := True\<rparr>))
             (finallyA
               (tryA
                 (bindA (send_json conn_r ''POST'' ''/instance/smtp/test-connection'' (Some (JObj payload)))
                   (\<lambda>_. thenA (notice ''instance.smtpTestConnectionOk'')
                          (whenA pw (bindA (test_smtp_send dec send_r) (\<lambda>_. ret ())))))
                 show_error)
               (\<lambda>s. s\<lparr>it_smtp_testing := False\<rparr>)))"

section \<open>Testing the bot\<close>

definition telegram_token_ready :: "'z settings_tab_scheme \<Rightarrow> bool" where
  "telegram_token_ready s \<longleftrightarrow>
     trim (it_telegram_token s) \<noteq> []
     \<or> (case it_settings s of None \<Rightarrow> False | Some d \<Rightarrow> is_telegram_token_configured d)"

definition telegram_test_body :: "string \<Rightarrow> instance_settings \<Rightarrow> json" where
  "telegram_test_body token d =
     JObj ((''telegram_use_proxy'', JBool (is_telegram_proxy d))
           # (if trim token \<noteq> [] then [(''telegram_bot_token'', JStr (trim token))] else []))"

text \<open>The click; the settings of that moment go with the request.\<close>

definition telegram_test_send :: "'z settings_tab_scheme \<Rightarrow> 'z settings_tab_scheme \<times> instance_settings option" where
  "telegram_test_send s =
     (case it_settings s of
        None \<Rightarrow> (s, None)
      | Some d \<Rightarrow>
          (emit (EvRequest ''POST'' ''/instance/telegram/test-connection'' (Some (telegram_test_body (it_telegram_token s) d)))
             (s\<lparr>it_telegram_testing := True\<rparr>), Some d))"

text \<open>The answer, the name of the bot if it has one, for the settings \<open>d\<close> of the click.\<close>

definition telegram_test_answer ::
  "instance_settings \<Rightarrow> exn + string option \<Rightarrow> 'z settings_tab_scheme \<Rightarrow> 'z settings_tab_scheme" where
  "telegram_test_answer d r s =
     (case r of
        Inr name \<Rightarrow>
          snd (notice ''instance.telegramTestConnectionOk'' (s\<lparr>it_settings := Some (d\<lparr>is_telegram_username := name\<rparr>)\<rparr>))
      | Inl e \<Rightarrow> emit (EvToast e None) s)\<lparr>it_telegram_testing := False\<rparr>"

section \<open>Saving\<close>

definition save_settings_body :: "(rat \<Rightarrow> string) \<Rightarrow> 'z settings_tab_scheme \<Rightarrow> instance_settings \<Rightarrow> (string \<times> json) list" where
  "save_settings_body dec s d =
     [(''allow_new_orgs'', JBool (is_allow_new_orgs d)), (''public_base_url'', opt_json (is_public_base_url d)),
      (''smtp_host'', opt_json (is_smtp_host d)), (''smtp_port'', port_json dec (is_smtp_port d)),
      (''smtp_user'', opt_json (is_smtp_user d)), (''smtp_from'', opt_json (is_smtp_from d)),
      (''smtp_tls'', JBool (is_smtp_tls d)), (''asr_model'', JStr (is_asr_model d)),
      (''diarization_model'', JStr (str_or_empty (is_diarization_model d))),
      (''summarize_model'', opt_json (is_summarize_model d)), (''rate_limit_enabled'', JBool (is_rate_limit_enabled d))]
     @ map (\<lambda>k. (k, number_json dec (is_rate_limits d k))) rate_limit_names
     @ [(''import_enabled'', JBool (is_import_enabled d)),
        (''import_allowed_extractors'', JArr (map (\<lambda>p. JStr (ip_id p)) (filter ip_enabled (is_import_platforms d)))),
        (''outbound_proxy_enabled'', JBool (is_outbound_proxy d)), (''download_proxy_url'', opt_json (is_proxy_url d)),
        (''download_proxy_enabled'', JBool (is_download_proxy d)), (''telegram_enabled'', JBool (is_telegram_enabled d)),
        (''telegram_use_proxy'', JBool (is_telegram_proxy d)),
        (''telegram_use_webhook'', JBool (nullish (is_telegram_webhook d) True)),
        (''download_cookies_path'', opt_json (is_cookies_path d)),
        (''import_audio_bitrate_kbps'', number_json dec (or_else default_import_audio_bitrate_kbps (is_audio_bitrate d))),
        (''import_max_concurrent'', number_json dec (or_else default_import_max_concurrent (is_max_concurrent d))),
        (''capture_enabled'', JBool (is_capture_enabled d)),
        (''capture_allowed_connectors'',
           JArr (map (\<lambda>c. JStr (cn_id c)) (filter cn_enabled (nullish (is_capture_connectors d) [])))),
        (''session_ttl_hours'', number_json dec (Some (is_session_ttl d))),
        (''task_history_retention_days'', number_json dec (is_task_retention d)),
        (''date_time_format'', JStr (nullish (is_date_time_format d) [])), (''timezone'', JStr (nullish (is_timezone d) []))]
     @ (if it_smtp_password s \<noteq> [] then [(''smtp_password'', JStr (it_smtp_password s))] else [])
     @ (if it_proxy_password s \<noteq> [] then [(''download_proxy_password'', JStr (it_proxy_password s))] else [])
     @ (if it_telegram_token s \<noteq> [] then [(''telegram_bot_token'', JStr (it_telegram_token s))] else [])"

definition save_settings_send :: "(rat \<Rightarrow> string) \<Rightarrow> 'z settings_tab_scheme \<Rightarrow> 'z settings_tab_scheme" where
  "save_settings_send dec s =
     (case it_settings s of
        None \<Rightarrow> s
      | Some d \<Rightarrow>
          emit (EvRequest ''PATCH'' ''/instance/settings'' (Some (JObj (save_settings_body dec s d)))) (s\<lparr>it_save_busy := True\<rparr>))"

definition save_settings_answer ::
  "(exn + instance_settings) \<Rightarrow> (exn + bool) \<Rightarrow> (exn + me) \<Rightarrow> ('z settings_tab_scheme, unit) act" where
  "save_settings_answer r status_r me_r =
     finallyA
       (tryA
         (bindA (await r) (\<lambda>d.
            thenA (upd (\<lambda>s. (store_settings d s)\<lparr>it_smtp_password := [], it_proxy_password := [], it_telegram_token := []\<rparr>))
              (thenA (notice ''profile.saved'') (bindA (refresh status_r me_r) (\<lambda>_. ret ())))))
         show_error)
       (\<lambda>s. s\<lparr>it_save_busy := False\<rparr>)"

text \<open>The addresses shown to whoever connects a tool: one slash at the end of the base is dropped.\<close>

definition mcp_base :: "string option \<Rightarrow> string" where
  "mcp_base v =
     (let b = trim (str_or_empty v) in if ends_with b ''/'' then take (length b - 1) b else b)"

definition mcp_urls :: "string option \<Rightarrow> (string \<times> string) option" where
  "mcp_urls v =
     (if mcp_base v = [] then None
      else Some (mcp_base v @ ''/mcp'', mcp_base v @ ''/.well-known/oauth-protected-resource/mcp''))"

section \<open>What the form keeps\<close>

text \<open>No proxy is used while it is off, and it is on only with an address.\<close>

definition proxy_rule :: "instance_settings \<Rightarrow> bool" where
  "proxy_rule d \<longleftrightarrow>
     (is_download_proxy d \<or> is_telegram_proxy d \<longrightarrow> is_outbound_proxy d) \<and> (is_outbound_proxy d \<longrightarrow> proxy_url_ready d)"

definition numbers_rule :: "instance_settings \<Rightarrow> bool" where
  "numbers_rule d \<longleftrightarrow>
     (\<forall>q. is_max_concurrent d = Some q \<longrightarrow> 1 \<le> q \<and> q \<le> import_max_concurrent_max)
     \<and> (\<forall>q. is_audio_bitrate d = Some q \<longrightarrow> 0 \<le> q) \<and> (\<forall>q. is_task_retention d = Some q \<longrightarrow> 0 \<le> q)
     \<and> is_session_ttl d \<noteq> 0"

definition settings_whole :: "instance_settings \<Rightarrow> bool" where
  "settings_whole d \<longleftrightarrow>
     is_asr_models d \<noteq> None \<and> is_diarization_models d \<noteq> None \<and> is_summarize_models d \<noteq> None
     \<and> is_capture_connectors d \<noteq> None \<and> is_max_concurrent d \<noteq> None \<and> is_task_retention d \<noteq> None
     \<and> is_smtp_password_configured d \<noteq> None \<and> is_telegram_webhook d \<noteq> None
     \<and> is_date_time_format d \<noteq> None \<and> is_timezone d \<noteq> None"

lemma or_else_some [simp]: "or_else d v \<noteq> None" "or_else d (Some x) = Some x" "or_else d None = Some d"
  by (simp_all add: or_else_def split: option.splits)

lemma or_else_idem [simp]: "or_else d (or_else d v) = or_else d v"
  by (cases v) simp_all

lemma normalized_whole: "settings_whole (normalize_settings d)"
  by (simp add: settings_whole_def normalize_settings_def)

lemma normalize_settings_idem: "normalize_settings (normalize_settings d) = normalize_settings d"
  by (simp add: normalize_settings_def)

lemma normalize_rules:
  "proxy_rule (normalize_settings d) = proxy_rule d" "numbers_rule d \<Longrightarrow> numbers_rule (normalize_settings d)"
  by (auto simp: proxy_rule_def proxy_url_ready_def normalize_settings_def numbers_rule_def or_else_def
      default_import_max_concurrent_def import_max_concurrent_max_def default_import_audio_bitrate_kbps_def
      split: option.splits)

text \<open>The groups of controls that leave the proxy, or the bounded numbers, alone.\<close>

lemma number_or_nonzero: "d \<noteq> 0 \<Longrightarrow> number_or d v \<noteq> 0"
  by (simp add: number_or_def split: option.splits)

lemma blank_or_null [simp]: "blank (or_null v) = (trim v = [])"
  by (simp add: blank_def or_null_def trim_def)

lemma proxy_rule_cong:
  "is_outbound_proxy d' = is_outbound_proxy d \<Longrightarrow> is_download_proxy d' = is_download_proxy d
   \<Longrightarrow> is_telegram_proxy d' = is_telegram_proxy d \<Longrightarrow> is_proxy_url d' = is_proxy_url d
   \<Longrightarrow> is_proxy_configured d' = is_proxy_configured d \<Longrightarrow> proxy_rule d' = proxy_rule d"
  by (simp add: proxy_rule_def proxy_url_ready_def)

lemma numbers_rule_cong:
  "is_max_concurrent d' = is_max_concurrent d \<Longrightarrow> is_audio_bitrate d' = is_audio_bitrate d
   \<Longrightarrow> is_task_retention d' = is_task_retention d \<Longrightarrow> is_session_ttl d' = is_session_ttl d
   \<Longrightarrow> numbers_rule d' = numbers_rule d"
  by (simp add: numbers_rule_def)

lemma change_keeps_proxy_rule:
  assumes "proxy_rule d" "\<not> control_disabled token c d"
  shows "proxy_rule (change c d)"
proof (cases c)
  case (BaseControl x) then show ?thesis using assms by (cases x) (auto simp: proxy_rule_def proxy_url_ready_def)
next
  case (ModelControl x) then show ?thesis using assms by (cases x) (auto simp: Let_def proxy_rule_def proxy_url_ready_def)
next
  case (SmtpControl x) then show ?thesis using assms by (cases x) (auto simp: proxy_rule_def proxy_url_ready_def)
next
  case (ProxyControl x)
  then show ?thesis using assms
    by (cases x) (auto simp: proxy_disabled_def Let_def proxy_rule_def proxy_url_ready_def)
next
  case (ImportControl x)
  then show ?thesis using assms
    by (cases x) (auto simp: set_platforms_def import_disabled_def proxy_rule_def proxy_url_ready_def)
next
  case (TelegramControl x)
  then show ?thesis using assms
    by (cases x) (auto simp: telegram_disabled_def proxy_rule_def proxy_url_ready_def)
next
  case (CaptureControl x) then show ?thesis using assms by (cases x) (auto simp: proxy_rule_def proxy_url_ready_def)
next
  case (OtherControl x) then show ?thesis using assms by (cases x) (auto simp: proxy_rule_def proxy_url_ready_def)
qed

lemma change_keeps_numbers_rule:
  assumes "numbers_rule d"
  shows "numbers_rule (change c d)"
proof (cases c)
  case (BaseControl x)
  then show ?thesis using assms by (cases x) (auto simp: numbers_rule_def number_or_nonzero)
next
  case (ModelControl x) then show ?thesis using assms by (cases x) (auto simp: Let_def numbers_rule_def)
next
  case (SmtpControl x) then show ?thesis using assms by (cases x) (auto simp: numbers_rule_def)
next
  case (ProxyControl x) then show ?thesis using assms by (cases x) (auto simp: Let_def numbers_rule_def)
next
  case (ImportControl x)
  then show ?thesis using assms
    by (cases x) (auto simp: set_platforms_def numbers_rule_def import_max_concurrent_max_def)
next
  case (TelegramControl x) then show ?thesis using assms by (cases x) (auto simp: numbers_rule_def)
next
  case (CaptureControl x) then show ?thesis using assms by (cases x) (auto simp: numbers_rule_def)
next
  case (OtherControl x) then show ?thesis using assms by (cases x) (auto simp: numbers_rule_def)
qed

text \<open>Any clicks and any typing, in any order, keep both rules; a control that is disabled does nothing.\<close>

theorem controls_keep_rules:
  assumes "it_settings s = Some d" "proxy_rule d" "numbers_rule d"
  shows "\<exists>d'. it_settings (fold use_control cs s) = Some d' \<and> proxy_rule d' \<and> numbers_rule d'"
  using assms
proof (induction cs arbitrary: s d)
  case (Cons c cs)
  let ?e = "if control_disabled (it_telegram_token s) c d then d else change c d"
  have "it_settings (use_control c s) = Some ?e" using Cons.prems(1) by (simp add: use_control_def)
  moreover have "proxy_rule ?e \<and> numbers_rule ?e"
    using Cons.prems(2,3) change_keeps_proxy_rule change_keeps_numbers_rule by auto
  ultimately show ?case using Cons.IH by simp
qed simp

text \<open>A speech model that some worker offers leaves a valid pair behind, whatever was chosen before.\<close>

theorem asr_choice_is_valid:
  assumes "\<exists>p \<in> set (nullish (is_dispatchable_pairs d) []). pair_asr p = a"
  shows "is_dispatchable_combo (models_of_settings d) (is_asr_model (model_change (AsrModel a) d))
           (is_diarization_model (model_change (AsrModel a) d))"
proof -
  let ?v = "is_diarization_model (model_change (AsrModel a) d)"
  have pairs: "dispatchable_pairs (models_of_settings d) = nullish (is_dispatchable_pairs d) []"
    by (simp add: dispatchable_pairs_def models_of_settings_def)
  show ?thesis
  proof (cases "truthy ?v")
    case True
    then obtain v where v: "?v = Some v" "v \<noteq> []" by (cases ?v) auto
    then have "v \<in> set (diarization_options_for_asr (models_of_settings d) a)"
      by (auto simp: Let_def split: if_splits)
    then show ?thesis using v by (simp add: options_dispatchable Let_def)
  next
    case False
    then show ?thesis using assms by (auto simp: is_dispatchable_combo_def pairs list_ex_iff Let_def)
  qed
qed

section \<open>What is saved\<close>

text \<open>After loading or saving, with no secret typed, there is nothing to save.\<close>

lemma stored_is_clean:
  "it_smtp_password s = [] \<Longrightarrow> it_proxy_password s = [] \<Longrightarrow> it_telegram_token s = []
   \<Longrightarrow> \<not> settings_dirty dec (store_settings d s)"
  by (simp add: settings_dirty_def store_settings_def json_dirty_def trim_def)

theorem saving_settles:
  "\<not> it_save_busy (snd (save_settings_answer r status_r me_r s))
   \<and> fst (save_settings_answer r status_r me_r s) = Inr ()
   \<and> (r = Inl e \<longrightarrow> it_settings (snd (save_settings_answer r status_r me_r s)) = it_settings s
        \<and> it_smtp_password (snd (save_settings_answer r status_r me_r s)) = it_smtp_password s)"
  by (cases r) (auto simp: save_settings_answer_def run_simps show_error_def emit_def split: sum.splits prod.splits)

text \<open>A secret is sent only if one was typed. One of blanks counts as typed when it is sent, though not when the page
  asks whether there is something to save.\<close>

lemma map_of_skip: "k \<notin> fst ` set xs \<Longrightarrow> map_of (xs @ ys) k = map_of ys k"
  by (simp add: map_add_def map_of_eq_None_iff [THEN iffD2] split: option.splits)

theorem secrets_sent:
  "map_of (save_settings_body dec s d) ''smtp_password''
     = (if it_smtp_password s = [] then None else Some (JStr (it_smtp_password s)))
   \<and> map_of (save_settings_body dec s d) ''download_proxy_password''
     = (if it_proxy_password s = [] then None else Some (JStr (it_proxy_password s)))
   \<and> map_of (save_settings_body dec s d) ''telegram_bot_token''
     = (if it_telegram_token s = [] then None else Some (JStr (it_telegram_token s)))"
  by (simp add: save_settings_body_def rate_limit_names_def)

lemma platforms_sent:
  "map_of (save_settings_body dec s d) ''import_allowed_extractors''
     = Some (JArr (map JStr (map ip_id (filter ip_enabled (is_import_platforms d)))))"
  by (simp add: save_settings_body_def rate_limit_names_def comp_def)

text \<open>The answer of the test writes the settings of the click back: what was changed while it ran is lost. The name
  of the bot alone, which is never sent, makes the form differ from what is saved.\<close>

theorem telegram_test_loses_edits:
  assumes "it_settings s = Some d" "(s1, Some d1) = telegram_test_send s"
  shows "it_settings (telegram_test_answer d1 (Inr name) (use_control c s1)) = Some (d\<lparr>is_telegram_username := name\<rparr>)"
  using assms by (simp add: telegram_test_send_def telegram_test_answer_def notice_def run_simps)

lemma mcp_no_double_slash:
  "mcp_urls v = Some (a, b) \<Longrightarrow> a = mcp_base v @ ''/mcp'' \<and> mcp_base v \<noteq> []"
  by (auto simp: mcp_urls_def split: if_splits)

text \<open>The length of a session is bounded by the number field only while it is not typed into.\<close>

lemma session_ttl_unbounded: "is_session_ttl (base_change (SessionTtl ''-5'') d) = -5"
proof -
  have "number_or 1 ''-5'' = -5" by code_simp
  then show ?thesis by simp
qed

end
