(* ===== verification/Js_Date.thy ===== *)
theory Js_Date
  imports Task_Stage Models
begin

text \<open>
  Days and times: the calendar behind \<open>Date.toISOString\<close>, the day ranges of \<open>util/date.ts\<close> and their recognition in
  \<open>util/datePreset.ts\<close>, the bar of presets (\<open>components/DatePresetBar.tsx\<close>), and the times of
  \<open>util/datetimeFormat.ts\<close>. An instant is the number of milliseconds since 1970; the clock is an argument, read once
  where the code reads it twice in a row. Years have four digits. The parser of \<open>Date\<close> and \<open>Intl\<close> are arguments.
\<close>

section \<open>The calendar\<close>

type_synonym civil_day = "nat \<times> nat \<times> nat"

definition leap_year :: "nat \<Rightarrow> bool" where
  "leap_year y \<longleftrightarrow> y mod 4 = 0 \<and> (y mod 100 \<noteq> 0 \<or> y mod 400 = 0)"

definition month_days :: "nat \<Rightarrow> nat \<Rightarrow> nat" where
  "month_days y m = (if m = 2 then (if leap_year y then 29 else 28) else if m \<in> {4, 6, 9, 11} then 30 else 31)"

fun next_day :: "civil_day \<Rightarrow> civil_day" where
  "next_day (y, m, d) =
     (if d < month_days y m then (y, m, d + 1) else if m < 12 then (y, m + 1, 1) else (y + 1, 1, 1))"

text \<open>The day \<open>n\<close> days after the first of January 1970.\<close>

fun civil :: "nat \<Rightarrow> civil_day" where
  "civil 0 = (1970, 1, 1)"
| "civil (Suc n) = next_day (civil n)"

definition pad4 :: "string \<Rightarrow> string" where
  "pad4 s = replicate (4 - length s) (CHR ''0'') @ s"

fun iso_day :: "civil_day \<Rightarrow> string" where
  "iso_day (y, m, d) = pad4 (nat_str y) @ ''-'' @ pad2 (nat_str m) @ ''-'' @ pad2 (nat_str d)"

definition day_ms :: nat where
  "day_ms = 86400000"

definition utc_day :: "nat \<Rightarrow> string" where
  "utc_day ms = iso_day (civil (ms div day_ms))"

section \<open>Ranges of days\<close>

definition default_filter_days :: nat where
  "default_filter_days = 7"

definition stats_range_for_days :: "nat \<Rightarrow> nat \<Rightarrow> string \<times> string" where
  "stats_range_for_days days now = (utc_day (now - (days - 1) * day_ms), utc_day now)"

definition default_filter_range :: "nat \<Rightarrow> string \<times> string" where
  "default_filter_range now = stats_range_for_days default_filter_days now"

datatype preset_days = Days nat | MonthToDate | AllTime

definition month_start :: "nat \<Rightarrow> string" where
  "month_start now = (case civil (now div day_ms) of (y, m, d) \<Rightarrow> iso_day (y, m, 1))"

text \<open>The two values that \<open>datePreset\<close> hands to its setters.\<close>

definition date_preset :: "nat \<Rightarrow> preset_days \<Rightarrow> string \<times> string" where
  "date_preset now p =
     (case p of
        AllTime \<Rightarrow> ([], [])
      | MonthToDate \<Rightarrow> (month_start now, utc_day now)
      | Days k \<Rightarrow> stats_range_for_days k now)"

datatype preset_id = Preset1 | Preset7 | Preset30 | PresetMonth | PresetAll

definition preset_days_of :: "preset_id \<Rightarrow> preset_days" where
  "preset_days_of p =
     (case p of Preset1 \<Rightarrow> Days 1 | Preset7 \<Rightarrow> Days 7 | Preset30 \<Rightarrow> Days 30 | PresetMonth \<Rightarrow> MonthToDate | PresetAll \<Rightarrow> AllTime)"

definition detect_date_preset :: "nat \<Rightarrow> string \<Rightarrow> string \<Rightarrow> preset_id option" where
  "detect_date_preset now from_day to_day =
     (if from_day = [] \<and> to_day = [] then Some PresetAll
      else (let today = utc_day now in
        if to_day \<noteq> today then None
        else if from_day = month_start now then Some PresetMonth
        else if from_day = today then Some Preset1
        else if from_day = utc_day (now - 6 * day_ms) then Some Preset7
        else if from_day = utc_day (now - 29 * day_ms) then Some Preset30
        else None))"

section \<open>The bar of presets\<close>

record preset_bar =
  pb_from :: string
  pb_to :: string
  pb_presets :: "preset_id list"
  pb_selected :: "preset_id option"

text \<open>The effect on what is detected; a click selects, sets the range, and runs the effect.\<close>

definition bar_effect :: "nat \<Rightarrow> preset_bar \<Rightarrow> preset_bar" where
  "bar_effect now b =
     (case detect_date_preset now (pb_from b) (pb_to b) of
        None \<Rightarrow> b\<lparr>pb_selected := None\<rparr>
      | Some p \<Rightarrow> if p \<in> set (pb_presets b) then b\<lparr>pb_selected := Some p\<rparr> else b)"

definition bar_value :: "preset_bar \<Rightarrow> preset_id option" where
  "bar_value b =
     (case pb_selected b of None \<Rightarrow> None | Some p \<Rightarrow> if p \<in> set (pb_presets b) then Some p else None)"

definition bar_click :: "nat \<Rightarrow> preset_id \<Rightarrow> preset_bar \<Rightarrow> preset_bar" where
  "bar_click now p b =
     (case date_preset now (preset_days_of p) of
        (f, t) \<Rightarrow> bar_effect now (b\<lparr>pb_selected := Some p, pb_from := f, pb_to := t\<rparr>))"

section \<open>Times\<close>

definition default_date_time_prefs :: date_time_prefs where
  "default_date_time_prefs =
     \<lparr>dtp_format = Eu_24h, dtp_timezone = ''GMT+0'', dtp_format_source = SourceInstance,
      dtp_timezone_source = SourceInstance, dtp_instance_format = Eu_24h, dtp_instance_timezone = ''GMT+0''\<rparr>"

text \<open>\<open>[+-]\d{2}:\d{2}(:\d{2})?$\<close>, and a final \<open>z\<close>.\<close>

definition matches_shape :: "string \<Rightarrow> string \<Rightarrow> bool" where
  "matches_shape shape s \<longleftrightarrow>
     list_all2 (\<lambda>p c. if p = CHR ''s'' then c = CHR ''+'' \<or> c = CHR ''-'' else if p = CHR ''d'' then is_digit c else c = p)
       shape s"

definition last_chars :: "nat \<Rightarrow> string \<Rightarrow> string" where
  "last_chars n s = drop (length s - n) s"

definition has_zone :: "string \<Rightarrow> bool" where
  "has_zone s \<longleftrightarrow>
     matches_shape ''sdd:dd'' (last_chars 6 s) \<or> matches_shape ''sdd:dd:dd'' (last_chars 9 s)
     \<or> last_chars 1 s = ''z'' \<or> last_chars 1 s = ''Z''"

definition iso_utc_text :: "string \<Rightarrow> string" where
  "iso_utc_text raw = (let text = trim raw in if has_zone text then text else text @ ''Z'')"

text \<open>\<open>parse\<close> is \<open>new Date (text).getTime ()\<close>, \<open>None\<close> for an invalid date.\<close>

definition parse_iso_utc :: "(string \<Rightarrow> int option) \<Rightarrow> string \<Rightarrow> int option" where
  "parse_iso_utc parse raw = (if trim raw = [] then None else parse (iso_utc_text raw))"

datatype time_unit = Second | Minute | Hour | Day | Month | Year

text \<open>The number and unit handed to \<open>Intl.RelativeTimeFormat\<close>.\<close>

definition relative_parts :: "int \<Rightarrow> int \<Rightarrow> int \<times> time_unit" where
  "relative_parts now date =
     (let sec = js_round (of_int (date - now) / 1000);
          mins = js_round (of_int sec / 60);
          hour = js_round (of_int sec / 3600);
          day = js_round (of_int sec / 86400);
          month = js_round (of_int sec / (86400 * 30)) in
      if \<bar>sec\<bar> < 60 then (sec, Second)
      else if \<bar>mins\<bar> < 60 then (mins, Minute)
      else if \<bar>hour\<bar> < 48 then (hour, Hour)
      else if \<bar>day\<bar> < 30 then (day, Day)
      else if \<bar>month\<bar> < 12 then (month, Month)
      else (js_round (of_int sec / (86400 * 365)), Year))"

record intl =
  in_relative :: "int \<times> time_unit \<Rightarrow> string"
  in_parts :: "string \<Rightarrow> int \<Rightarrow> (string \<times> string) list option"
  in_us :: "string \<Rightarrow> int \<Rightarrow> string option"

text \<open>\<open>in_relative\<close> formats for the locale of the call; \<open>in_parts\<close> and \<open>in_us\<close> take the time zone and throw
  (\<open>None\<close>) for a zone the browser does not know.\<close>

definition pick_part :: "(string \<times> string) list \<Rightarrow> string \<Rightarrow> string" where
  "pick_part parts k = str_or_empty (map_of parts k)"

definition format_parts_local :: "(string \<times> string) list \<Rightarrow> bool \<Rightarrow> string" where
  "format_parts_local parts raw =
     (let y = pick_part parts ''year''; m = pick_part parts ''month''; d = pick_part parts ''day'';
          tm = pick_part parts ''hour'' @ '':'' @ pick_part parts ''minute'' in
      if raw then y @ ''-'' @ m @ ''-'' @ d @ '' '' @ tm else d @ ''.'' @ m @ ''.'' @ y @ '' '' @ tm)"

definition format_age :: "intl \<Rightarrow> (string \<Rightarrow> int option) \<Rightarrow> int \<Rightarrow> string \<Rightarrow> string" where
  "format_age i parse now raw =
     (case parse_iso_utc parse raw of None \<Rightarrow> raw | Some d \<Rightarrow> in_relative i (relative_parts now d))"

definition format_date_time ::
  "intl \<Rightarrow> (string \<Rightarrow> int option) \<Rightarrow> int \<Rightarrow> date_time_prefs \<Rightarrow> string \<Rightarrow> string" where
  "format_date_time i parse now prefs raw =
     (case parse_iso_utc parse raw of
        None \<Rightarrow> raw
      | Some d \<Rightarrow>
          (let zone = gmt_to_intl_time_zone (dtp_timezone prefs) in
           case dtp_format prefs of
             Relative \<Rightarrow> in_relative i (relative_parts now d)
           | Iso \<Rightarrow> (case in_parts i zone d of None \<Rightarrow> raw | Some ps \<Rightarrow> format_parts_local ps True)
           | Eu_24h \<Rightarrow> (case in_parts i zone d of None \<Rightarrow> raw | Some ps \<Rightarrow> format_parts_local ps False)
           | Us_12h \<Rightarrow> nullish (in_us i zone d) raw))"

section \<open>Days in order\<close>

definition valid_day :: "civil_day \<Rightarrow> bool" where
  "valid_day c = (case c of (y, m, d) \<Rightarrow> 1 \<le> m \<and> m \<le> 12 \<and> 1 \<le> d \<and> d \<le> month_days y m)"

definition day_rank :: "civil_day \<Rightarrow> nat" where
  "day_rank c = (case c of (y, m, d) \<Rightarrow> (y * 13 + m) * 32 + d)"

lemma month_days_bounds: "28 \<le> month_days y m \<and> month_days y m \<le> 31"
  by (simp add: month_days_def)

lemma month_days_pos [simp]: "Suc 0 \<le> month_days y m"
  using month_days_bounds [of y m] by simp

lemma valid_next_day: "valid_day c \<Longrightarrow> valid_day (next_day c)"
  by (cases c) (auto simp: valid_day_def)

lemma valid_civil: "valid_day (civil n)"
proof (induction n)
  case 0
  show ?case by (simp add: valid_day_def month_days_def)
qed (simp add: valid_next_day)

lemma rank_next_day:
  assumes "valid_day c"
  shows "day_rank c < day_rank (next_day c)"
proof -
  obtain y m d where c: "c = (y, m, d)" by (cases c)
  have "d \<le> 31" "m \<le> 12" using assms month_days_bounds [of y m] by (simp_all add: valid_day_def c)
  then show ?thesis by (auto simp: day_rank_def c)
qed

lemma rank_civil: "m < n \<Longrightarrow> day_rank (civil m) < day_rank (civil n)"
proof (induction n)
  case (Suc n)
  then show ?case using rank_next_day [OF valid_civil, of n] by (cases "m = n") auto
qed simp

lemma civil_inj [simp]: "civil m = civil n \<longleftrightarrow> m = n"
  using rank_civil [of m n] rank_civil [of n m] by (cases m n rule: linorder_cases) auto

lemma parse_pad4 [simp]: "parse_digits (pad4 (nat_str n)) = n"
  by (simp add: pad4_def parse_digits_zeros)

lemma dash_free: "CHR ''-'' \<notin> set (pad4 (nat_str n))" "CHR ''-'' \<notin> set (pad2 (nat_str n))"
  using nat_str_digits [of n] not_digit_dash by (auto simp: pad4_def pad2_def)

lemma split_iso_day: "split_on (CHR ''-'') (iso_day (y, m, d)) = [pad4 (nat_str y), pad2 (nat_str m), pad2 (nat_str d)]"
  by (simp add: split_on_append split_on_clean dash_free)

lemma iso_day_inj [simp]: "iso_day a = iso_day b \<longleftrightarrow> a = b"
proof
  assume "iso_day a = iso_day b"
  then have "map parse_digits (split_on (CHR ''-'') (iso_day a)) = map parse_digits (split_on (CHR ''-'') (iso_day b))" by simp
  then show "a = b" by (cases a; cases b) (simp add: split_iso_day del: iso_day.simps)
qed simp

lemma iso_day_nonempty [simp]: "iso_day c \<noteq> []"
  by (cases c) simp

lemma utc_day_inj: "utc_day a = utc_day b \<longleftrightarrow> a div day_ms = b div day_ms"
  by (simp add: utc_day_def)

lemma civil_month_start:
  "civil n = (y, m, d) \<Longrightarrow> 1 \<le> d \<and> d - 1 \<le> n \<and> civil (n - (d - 1)) = (y, m, 1)"
proof (induction n arbitrary: y m d)
  case (Suc n)
  obtain y' m' d' where c: "civil n = (y', m', d')" by (cases "civil n")
  note IH = Suc.IH [OF c]
  show ?case
  proof (cases "d' < month_days y' m'")
    case True
    then have "y = y'" "m = m'" "d = d' + 1" using Suc.prems c by auto
    moreover have "Suc n - d' = n - (d' - 1)" using IH by auto
    ultimately show ?thesis using IH by auto
  next
    case False
    then have "d = 1" using Suc.prems c by (auto split: if_splits)
    then show ?thesis using Suc.prems by simp
  qed
qed simp

section \<open>Presets and ranges\<close>

lemma minus_days: "(now - k * day_ms) div day_ms = now div day_ms - k"
proof (cases "k \<le> now div day_ms")
  case True
  then have "k * day_ms \<le> now" using div_times_less_eq_dividend [of now day_ms] mult_le_mono1 [OF True, of day_ms] by linarith
  then obtain r where r: "now = r + k * day_ms" using le_Suc_ex by (metis add.commute)
  have pos: "0 < day_ms" by (simp add: day_ms_def)
  show ?thesis using pos by (simp add: r)
next
  case False
  have pos: "0 < day_ms" by (simp add: day_ms_def)
  have "now < k * day_ms" using False pos by (simp add: div_less_iff_less_mult not_le)
  then show ?thesis using False by simp
qed

lemma utc_day_minus: "utc_day (now - k * day_ms) = iso_day (civil (now div day_ms - k))"
  by (simp add: utc_day_def minus_days)

lemma utc_day_nonempty [simp]: "utc_day now \<noteq> []"
  by (simp add: utc_day_def)

text \<open>A range of \<open>k\<close> days starts on the first of the month exactly on the \<open>k\<close>th.\<close>

lemma range_is_month:
  assumes "civil n = (y, m, d)" "1 \<le> k" "k - 1 \<le> n"
  shows "civil (n - (k - 1)) = (y, m, 1) \<longleftrightarrow> d = k"
proof
  assume "civil (n - (k - 1)) = (y, m, 1)"
  then have "civil (n - (k - 1)) = civil (n - (d - 1))" using civil_month_start [OF assms(1)] by metis
  then have "n - (k - 1) = n - (d - 1)" by (simp only: civil_inj)
  then show "d = k" using civil_month_start [OF assms(1)] assms(2,3) by linarith
next
  assume "d = k"
  then show "civil (n - (k - 1)) = (y, m, 1)" using civil_month_start [OF assms(1)] by metis
qed

text \<open>Choosing a preset is recognised again, save that on the first, seventh or thirtieth of a month the range of
  that many days is taken for the month.\<close>

theorem preset_detected:
  assumes "civil (now div day_ms) = (y, m, d)" "29 \<le> now div day_ms"
  shows "(case date_preset now (preset_days_of p) of (f, t) \<Rightarrow> detect_date_preset now f t) =
    Some (case p of Preset1 \<Rightarrow> if d = 1 then PresetMonth else p
                  | Preset7 \<Rightarrow> if d = 7 then PresetMonth else p
                  | Preset30 \<Rightarrow> if d = 30 then PresetMonth else p | _ \<Rightarrow> p)"
proof -
  let ?n = "now div day_ms"
  note month = range_is_month [OF assms(1)]
  have start: "month_start now = iso_day (y, m, 1)" by (simp add: month_start_def assms(1))
  have today: "utc_day now = iso_day (civil ?n)" by (simp add: utc_day_def)
  have m1: "civil ?n = (y, m, 1) \<longleftrightarrow> d = 1" using month [of 1] by simp
  have m7: "civil (?n - 6) = (y, m, 1) \<longleftrightarrow> d = 7" using month [of 7] assms(2) by simp
  have m30: "civil (?n - 29) = (y, m, 1) \<longleftrightarrow> d = 30" using month [of 30] assms(2) by simp
  have apart: "?n - 6 \<noteq> ?n" "?n - 29 \<noteq> ?n" "?n - 29 \<noteq> ?n - 6" using assms(2) by linarith+
  show ?thesis
    using m1 m7 m30 apart utc_day_minus [of now 6] utc_day_minus [of now 29]
    by (cases p) (simp_all add: preset_days_of_def date_preset_def stats_range_for_days_def detect_date_preset_def
        start today Let_def del: iso_day.simps)
qed

text \<open>So the bar shows the month although the week was clicked.\<close>

lemma bar_shows_month:
  assumes "civil (now div day_ms) = (y, m, 7)" "29 \<le> now div day_ms" "PresetMonth \<in> set (pb_presets b)"
  shows "bar_value (bar_click now Preset7 b) = Some PresetMonth"
  using preset_detected [OF assms(1,2), of Preset7] assms(3)
  by (simp add: bar_click_def bar_effect_def bar_value_def split: prod.splits)

section \<open>Relative times\<close>

lemma js_round_ge: "k \<le> js_round x \<longleftrightarrow> of_int k \<le> x + 1 / 2"
  by (simp add: js_round_def le_floor_iff)

lemma js_round_less: "js_round x < k \<longleftrightarrow> x + 1 / 2 < of_int k"
  by (simp add: js_round_def floor_less_iff)

lemma abs_round_less: "\<bar>js_round x\<bar> < k \<longleftrightarrow> x + 1 / 2 < of_int k \<and> 1 - of_int k \<le> x + 1 / 2"
proof -
  have "\<bar>js_round x\<bar> < k \<longleftrightarrow> js_round x < k \<and> 1 - k \<le> js_round x" by linarith
  also have "1 - k \<le> js_round x \<longleftrightarrow> of_int (1 - k) \<le> x + 1 / 2" by (rule js_round_ge)
  finally show ?thesis by (simp add: js_round_less)
qed

lemma round_nonzero: "1 \<le> x \<or> x < - 1 / 2 \<or> 1 / 2 \<le> x \<Longrightarrow> js_round x \<noteq> 0"
  using js_round_ge [of 1 x] js_round_less [of x 0] by auto

text \<open>A number that is shown with a unit is small enough for the unit, and never zero but for seconds.\<close>

theorem relative_parts_bounds:
  "case relative_parts now date of (n, u) \<Rightarrow>
     (case u of Second \<Rightarrow> \<bar>n\<bar> < 60 | Minute \<Rightarrow> \<bar>n\<bar> < 60 | Hour \<Rightarrow> \<bar>n\<bar> < 48 | Day \<Rightarrow> \<bar>n\<bar> < 30 | Month \<Rightarrow> \<bar>n\<bar> < 12 | Year \<Rightarrow> True)
     \<and> (u = Second \<or> n \<noteq> 0)"
proof -
  define s where "s = js_round (of_int (date - now) / 1000)"
  define q :: rat where "q = of_int s"
  have sec: "\<bar>s\<bar> < 60 \<longleftrightarrow> q < 60 \<and> - 60 < q"
    unfolding q_def by (simp add: abs_less_iff) linarith
  note parts = relative_parts_def [of now date, folded s_def, folded q_def]
  show ?thesis
    unfolding parts Let_def using sec
    by (auto simp: abs_round_less not_less simp del: abs_less_iff intro!: round_nonzero) 
qed

text \<open>A text without a zone is read as UTC, one with a zone as it is.\<close>

lemma iso_utc_zone: "has_zone (iso_utc_text raw)"
proof (cases "has_zone (trim raw)")
  case False
  have "last_chars 1 (trim raw @ ''Z'') = ''Z''" by (simp add: last_chars_def)
  then show ?thesis using False by (simp add: iso_utc_text_def has_zone_def Let_def)
qed (simp add: iso_utc_text_def)

end
