(* ===== verification/Instance_Orgs.thy ===== *)
theory Instance_Orgs
  imports Org Js_Date Workers
begin

text \<open>
  The administration of tariffs and organisations: \<open>pages/instance/InstanceTariffsTab.tsx\<close>, \<open>TariffImpactModal.tsx\<close>,
  \<open>InstanceOrgsTab.tsx\<close>, \<open>InstanceOrgList.tsx\<close> and the ledger (\<open>components/OrgLedgerModal.tsx\<close>). The button that
  applies a tariff and an amount to an organisation is not locked while its requests run: its handler is a run among
  others, kept in \<open>od_runs\<close> with what it saw when it was clicked. The ledger's request is a step of its own too.
\<close>

section \<open>The form of a tariff\<close>

record tariff_form =
  tf_name :: string
  tf_unlimited :: bool
  tf_signup :: bool
  tf_price_audio :: string
  tf_price_chars :: string
  tf_retention :: "rat option"
  tf_api :: bool
  tf_credit :: string
  tf_upload :: "rat option"
  tf_tone :: bool

definition max_upload :: rat where
  "max_upload = 1073741824"

definition empty_tariff :: tariff_form where
  "empty_tariff =
     \<lparr>tf_name = [], tf_unlimited = False, tf_signup = False, tf_price_audio = ''0'', tf_price_chars = ''0'',
      tf_retention = Some 0, tf_api = True, tf_credit = ''0'', tf_upload = Some max_upload, tf_tone = False\<rparr>"

definition form_of_tariff :: "tariff \<Rightarrow> tariff_form" where
  "form_of_tariff x =
     \<lparr>tf_name = tariff_name x, tf_unlimited = tariff_unlimited x, tf_signup = tariff_available_on_signup x,
      tf_price_audio = tariff_price_per_audio_sec x, tf_price_chars = tariff_price_per_1k_chars x,
      tf_retention = Some (of_int (tariff_audio_retention_days x)), tf_api = tariff_api_enabled x,
      tf_credit = tariff_signup_credit x, tf_upload = Some (of_int (tariff_max_upload_bytes x)),
      tf_tone = tariff_tone_analytics x\<rparr>"

definition tariff_fields :: "(rat \<Rightarrow> string) \<Rightarrow> string \<Rightarrow> rat option \<Rightarrow> tariff_form \<Rightarrow> json" where
  "tariff_fields dec nm cap f =
     JObj [(''name'', JStr nm), (''unlimited'', JBool (tf_unlimited f)), (''available_on_signup'', JBool (tf_signup f)),
           (''price_per_audio_sec'', JStr (tf_price_audio f)), (''price_per_1k_summary_chars'', JStr (tf_price_chars f)),
           (''audio_retention_days'', number_json dec (tf_retention f)), (''api_enabled'', JBool (tf_api f)),
           (''signup_credit'', JStr (tf_credit f)), (''max_upload_bytes'', number_json dec cap),
           (''tone_analytics_enabled'', JBool (tf_tone f))]"

definition tariff_form_json :: "(rat \<Rightarrow> string) \<Rightarrow> tariff_form \<Rightarrow> json" where
  "tariff_form_json dec f = tariff_fields dec (tf_name f) (tf_upload f) f"

text \<open>\<open>Math.min (Number (v) || MAX_UPLOAD, MAX_UPLOAD)\<close>.\<close>

definition upload_cap :: "rat option \<Rightarrow> rat" where
  "upload_cap v = min (case v of None \<Rightarrow> max_upload | Some q \<Rightarrow> if q = 0 then max_upload else q) max_upload"

definition tariff_body :: "(rat \<Rightarrow> string) \<Rightarrow> tariff_form \<Rightarrow> json" where
  "tariff_body dec f = tariff_fields dec (trim (tf_name f)) (Some (upload_cap (tf_upload f))) f"

text \<open>The keys of the lines that describe a tariff.\<close>

definition tariff_points :: "tariff_form \<Rightarrow> string list" where
  "tariff_points f =
     [''landing.priceAudio'', ''landing.priceChars'',
      if (case tf_retention f of None \<Rightarrow> False | Some q \<Rightarrow> 0 < q) then ''landing.retention'' else ''landing.retentionForever'',
      if tf_api f then ''landing.apiYes'' else ''landing.apiNo'',
      if tf_tone f then ''landing.toneYes'' else ''landing.toneNo'']
     @ (if \<not> tf_unlimited f \<and> (case number_of_string (tf_credit f) of None \<Rightarrow> False | Some q \<Rightarrow> 0 < q)
        then [''landing.credit''] else [])
     @ [''landing.uploadCap'']"

section \<open>The tab of tariffs\<close>

record tariffs_tab = browser +
  tt_tariffs :: "tariff list"
  tt_form :: tariff_form
  tt_edit :: "string option"
  tt_form_open :: bool
  tt_save_busy :: bool
  tt_delete :: "tariff option"
  tt_clone :: "tariff option"
  tt_clone_name :: string
  tt_clone_busy :: bool
  tt_notices :: "string list"

definition load_tariffs :: "(exn + tariff list) \<Rightarrow> ('z tariffs_tab_scheme, unit) act" where
  "load_tariffs r =
     tryA (bindA (get_json r ''/tariffs'') (\<lambda>ts. upd (\<lambda>s. s\<lparr>tt_tariffs := ts\<rparr>))) show_error"

record tariff_totals =
  ta_active :: nat
  ta_archived :: nat
  ta_orgs :: int
  ta_signup :: nat

definition tariff_totals_of :: "tariff list \<Rightarrow> tariff_totals" where
  "tariff_totals_of ts =
     \<lparr>ta_active = length (filter (\<lambda>x. \<not> tariff_archived x) ts),
      ta_archived = length (filter tariff_archived ts),
      ta_orgs = fold (\<lambda>x acc. acc + nullish (tariff_org_count x) 0) ts 0,
      ta_signup = length (filter (\<lambda>x. tariff_available_on_signup x \<and> \<not> tariff_archived x) ts)\<rparr>"

definition editing_tariff :: "'z tariffs_tab_scheme \<Rightarrow> tariff option" where
  "editing_tariff s = (if truthy (tt_edit s) then find (\<lambda>x. Some (tariff_id x) = tt_edit s) (tt_tariffs s) else None)"

definition tariff_baseline :: "'z tariffs_tab_scheme \<Rightarrow> tariff_form" where
  "tariff_baseline s =
     (if truthy (tt_edit s)
      then (case editing_tariff s of Some x \<Rightarrow> form_of_tariff x | None \<Rightarrow> empty_tariff) else empty_tariff)"

definition tariff_ready :: "(rat \<Rightarrow> string) \<Rightarrow> 'z tariffs_tab_scheme \<Rightarrow> bool" where
  "tariff_ready dec s \<longleftrightarrow>
     json_dirty (tariff_form_json dec (tt_form s)) (tariff_form_json dec (tariff_baseline s))
     \<and> 0 < length (trim (tf_name (tt_form s)))"

definition open_create_tariff :: "'z tariffs_tab_scheme \<Rightarrow> 'z tariffs_tab_scheme" where
  "open_create_tariff s = s\<lparr>tt_edit := None, tt_form := empty_tariff, tt_form_open := True\<rparr>"

definition start_edit_tariff :: "tariff \<Rightarrow> 'z tariffs_tab_scheme \<Rightarrow> 'z tariffs_tab_scheme" where
  "start_edit_tariff x s = s\<lparr>tt_edit := Some (tariff_id x), tt_form_open := True, tt_form := form_of_tariff x\<rparr>"

definition cancel_edit_tariff :: "'z tariffs_tab_scheme \<Rightarrow> 'z tariffs_tab_scheme" where
  "cancel_edit_tariff s = s\<lparr>tt_edit := None, tt_form := empty_tariff, tt_form_open := False\<rparr>"

text \<open>Only an archived tariff keeps its place among those offered at sign-up.\<close>

definition set_tariff_signup :: "bool \<Rightarrow> 'z tariffs_tab_scheme \<Rightarrow> 'z tariffs_tab_scheme" where
  "set_tariff_signup b s =
     (if tt_save_busy s \<or> (case editing_tariff s of None \<Rightarrow> False | Some x \<Rightarrow> tariff_archived x) then s
      else s\<lparr>tt_form := (tt_form s)\<lparr>tf_signup := b\<rparr>\<rparr>)"

text \<open>The answer of a save. \<open>Create\<close> and \<open>Save\<close> differ by the tariff that is edited.\<close>

definition save_tariff_form ::
  "(rat \<Rightarrow> string) \<Rightarrow> (exn + unit) \<Rightarrow> (exn + tariff list) \<Rightarrow> ('z tariffs_tab_scheme, unit) act" where
  "save_tariff_form dec r ts_r =
     bindA (getsA (\<lambda>s. (tt_form s, tt_edit s))) (\<lambda>(f, ed).
       if trim (tf_name f) = [] then upd (\<lambda>s. s\<lparr>tt_notices := tt_notices s @ [''instance.tariffNameRequired'']\<rparr>)
       else thenA (upd (\<lambda>s. s\<lparr>tt_save_busy := True\<rparr>))
         (finallyA
           (tryA
             (bindA (if truthy ed then send_json r ''PATCH'' (''/tariffs/'' @ str_or_empty ed) (Some (tariff_body dec f))
                     else send_json r ''POST'' ''/tariffs'' (Some (tariff_body dec f)))
               (\<lambda>_. thenA (upd (\<lambda>s. cancel_edit_tariff (s\<lparr>tt_notices := tt_notices s @ [''profile.saved'']\<rparr>)))
                      (load_tariffs ts_r)))
             show_error)
           (\<lambda>s. s\<lparr>tt_save_busy := False\<rparr>)))"

text \<open>\<open>copy\<close> is the translated word in the name of a copy.\<close>

definition open_clone :: "string \<Rightarrow> tariff \<Rightarrow> 'z tariffs_tab_scheme \<Rightarrow> 'z tariffs_tab_scheme" where
  "open_clone copy x s = s\<lparr>tt_clone := Some x, tt_clone_name := tariff_name x @ '' ('' @ copy @ '')''\<rparr>"

definition close_clone :: "'z tariffs_tab_scheme \<Rightarrow> 'z tariffs_tab_scheme" where
  "close_clone s = (if tt_clone_busy s then s else s\<lparr>tt_clone := None, tt_clone_name := []\<rparr>)"

definition confirm_clone :: "(exn + unit) \<Rightarrow> (exn + tariff list) \<Rightarrow> ('z tariffs_tab_scheme, unit) act" where
  "confirm_clone r ts_r =
     bindA (getsA (\<lambda>s. (tt_clone s, trim (tt_clone_name s)))) (\<lambda>(c, nm).
       case c of
         None \<Rightarrow> ret ()
       | Some x \<Rightarrow>
           if nm = [] then upd (\<lambda>s. s\<lparr>tt_notices := tt_notices s @ [''instance.tariffNameRequired'']\<rparr>)
           else thenA (upd (\<lambda>s. s\<lparr>tt_clone_busy := True\<rparr>))
             (finallyA
               (tryA
                 (bindA (send_json r ''POST'' (''/tariffs/'' @ tariff_id x @ ''/clone'') (Some (JObj [(''name'', JStr nm)])))
                   (\<lambda>_. thenA (upd (\<lambda>s. s\<lparr>tt_notices := tt_notices s @ [''profile.saved''], tt_clone := None, tt_clone_name := []\<rparr>))
                          (load_tariffs ts_r)))
                 show_error)
               (\<lambda>s. s\<lparr>tt_clone_busy := False\<rparr>)))"

definition archive_tariff :: "tariff \<Rightarrow> (exn + unit) \<Rightarrow> (exn + tariff list) \<Rightarrow> ('z tariffs_tab_scheme, unit) act" where
  "archive_tariff x r ts_r =
     tryA
       (bindA (send_json r ''POST'' (''/tariffs/'' @ tariff_id x @ (if tariff_archived x then ''/unarchive'' else ''/archive'')) None)
         (\<lambda>_. load_tariffs ts_r))
       show_error"

section \<open>Before a tariff is deleted\<close>

record tariff_impact =
  ti_last_tariff :: bool
  ti_org_count :: nat
  ti_affected_orgs :: "(string \<times> string) list option"
  ti_available :: "(string \<times> string) list option"
  ti_suggested :: "(string \<times> string) option"
  ti_can_remediate :: bool
  ti_blocking :: bool

record tariff_dialog = tariffs_tab +
  td_tariff :: tariff
  td_impact :: "tariff_impact option"
  td_loading :: bool
  td_busy :: bool
  td_apply :: bool
  td_selected :: string
  td_open :: bool

definition selected_replacement :: "'z tariff_dialog_scheme \<Rightarrow> (string \<times> string) option" where
  "selected_replacement s =
     first_or (\<lambda>x. fst x = td_selected s) (nullish (Option.bind (td_impact s) ti_available) [])"

definition suggest_replacement :: "'z tariff_dialog_scheme \<Rightarrow> 'z tariff_dialog_scheme" where
  "suggest_replacement s =
     (case td_impact s of
        None \<Rightarrow> s\<lparr>td_selected := []\<rparr>
      | Some im \<Rightarrow>
          (let s1 = (case ti_suggested im of
                       Some x \<Rightarrow> s\<lparr>td_selected := (if ti_can_remediate im then fst x else [])\<rparr>
                     | None \<Rightarrow> s\<lparr>td_selected := []\<rparr>) in
           if ti_can_remediate im then s1\<lparr>td_apply := True\<rparr> else s1))"

definition tariff_impact_arrives :: "exn + tariff_impact \<Rightarrow> 'z tariff_dialog_scheme \<Rightarrow> 'z tariff_dialog_scheme" where
  "tariff_impact_arrives r s =
     (if \<not> td_open s then s
      else (case r of
              Inr im \<Rightarrow> suggest_replacement (s\<lparr>td_impact := Some im, td_loading := False\<rparr>)
            | Inl e \<Rightarrow> (emit (EvToast e None) s)\<lparr>td_open := False, tt_delete := None\<rparr>))"

definition delete_blocked :: "'z tariff_dialog_scheme \<Rightarrow> bool" where
  "delete_blocked s =
     (case td_impact s of
        None \<Rightarrow> False
      | Some im \<Rightarrow> ti_last_tariff im \<or> (0 < ti_org_count im \<and> (\<not> td_apply s \<or> selected_replacement s = None)))"

definition delete_tariff_disabled :: "'z tariff_dialog_scheme \<Rightarrow> bool" where
  "delete_tariff_disabled s \<longleftrightarrow> td_loading s \<or> td_busy s \<or> delete_blocked s"

definition tariff_remediation :: "'z tariff_dialog_scheme \<Rightarrow> string option" where
  "tariff_remediation s =
     (if td_apply s \<and> (case td_impact s of None \<Rightarrow> False | Some im \<Rightarrow> ti_can_remediate im)
      then map_option fst (selected_replacement s) else None)"

definition tariff_banner :: "'z tariff_dialog_scheme \<Rightarrow> string" where
  "tariff_banner s =
     (case td_impact s of
        None \<Rightarrow> []
      | Some im \<Rightarrow>
          if ti_last_tariff im then ''instance.tariffImpactLastTariff''
          else if 0 < ti_org_count im \<and> \<not> ti_can_remediate im then ''instance.tariffImpactNoReplacement''
          else if 0 < ti_org_count im then ''instance.tariffImpactOrgsBlocking''
          else ''instance.workerImpactNoImpact'')"

definition delete_tariff :: "string option \<Rightarrow> (exn + unit) \<Rightarrow> (exn + tariff list) \<Rightarrow> ('z tariff_dialog_scheme, unit) act" where
  "delete_tariff rem r ts_r =
     bindA (getsA (\<lambda>s. (tariff_id (td_tariff s), tt_edit s))) (\<lambda>(i, ed).
       bindA (send_json r ''DELETE'' (''/tariffs/'' @ i)
                (map_option (\<lambda>x. JObj [(''remediation'', JObj [(''tariff_id'', JStr x)])]) rem))
         (\<lambda>_. thenA (upd (\<lambda>s. if ed = Some i then cancel_edit_tariff s else s)) (load_tariffs ts_r)))"

definition confirm_delete_tariff :: "(exn + unit) \<Rightarrow> (exn + tariff list) \<Rightarrow> ('z tariff_dialog_scheme, unit) act" where
  "confirm_delete_tariff r ts_r =
     bindA (getsA tariff_remediation) (\<lambda>rem.
       thenA (upd (\<lambda>s. s\<lparr>td_busy := True\<rparr>))
         (finallyA
           (tryA (thenA (delete_tariff rem r ts_r) (upd (\<lambda>s. s\<lparr>td_open := False, tt_delete := None\<rparr>))) show_error)
           (\<lambda>s. s\<lparr>td_busy := False\<rparr>)))"

definition close_tariff_dialog :: "'z tariff_dialog_scheme \<Rightarrow> 'z tariff_dialog_scheme" where
  "close_tariff_dialog s = (if td_busy s then s else s\<lparr>td_open := False, tt_delete := None\<rparr>)"

section \<open>Applying a tariff and an amount\<close>

text \<open>A handler under way: waiting for the answer on the tariff, with the amount to send next, or on the amount.\<close>

datatype apply_run = AwaitTariff string | AwaitWallet

record org_detail = browser +
  od_org :: org
  od_tariff_id :: string
  od_delta :: string
  od_runs :: "apply_run list"

definition org_tariff_changed :: "'z org_detail_scheme \<Rightarrow> bool" where
  "org_tariff_changed s \<longleftrightarrow> od_tariff_id s \<noteq> tariff_id (org_tariff (od_org s))"

definition wallet_changed :: "'z org_detail_scheme \<Rightarrow> bool" where
  "wallet_changed s \<longleftrightarrow> 0 < length (trim (od_delta s))"

definition can_apply :: "'z org_detail_scheme \<Rightarrow> bool" where
  "can_apply s \<longleftrightarrow> org_tariff_changed s \<or> wallet_changed s"

text \<open>The organisation arrives again with the list; a new tariff of it becomes the choice.\<close>

definition org_arrives :: "org \<Rightarrow> 'z org_detail_scheme \<Rightarrow> 'z org_detail_scheme" where
  "org_arrives g s =
     (if org_id g = org_id (od_org s) \<and> tariff_id (org_tariff g) = tariff_id (org_tariff (od_org s)) then s\<lparr>od_org := g\<rparr>
      else s\<lparr>od_org := g, od_tariff_id := tariff_id (org_tariff g)\<rparr>)"

definition wallet_request :: "string \<Rightarrow> string \<Rightarrow> event" where
  "wallet_request i delta = EvRequest ''POST'' (''/orgs/'' @ i @ ''/wallet'') (Some (JObj [(''delta'', JStr delta)]))"

definition tariff_request :: "string \<Rightarrow> string \<Rightarrow> event" where
  "tariff_request i t = EvRequest ''PATCH'' (''/orgs/'' @ i @ ''/tariff'') (Some (JObj [(''tariff_id'', JStr t)]))"

text \<open>A click on the button, disabled when there is nothing to apply.\<close>

definition apply_click :: "'z org_detail_scheme \<Rightarrow> 'z org_detail_scheme" where
  "apply_click s =
     (let i = org_id (od_org s); delta = trim (od_delta s) in
      if org_tariff_changed s
      then emit (tariff_request i (od_tariff_id s)) (s\<lparr>od_runs := od_runs s @ [AwaitTariff delta]\<rparr>)
      else if delta \<noteq> [] then emit (wallet_request i delta) (s\<lparr>od_runs := od_runs s @ [AwaitWallet]\<rparr>)
      else s)"

definition drop_nth :: "nat \<Rightarrow> 'a list \<Rightarrow> 'a list" where
  "drop_nth k xs = take k xs @ drop (Suc k) xs"

text \<open>The two requests of a reload; \<open>q\<close> is the query of the list.\<close>

definition reload_requests :: "string \<Rightarrow> event list" where
  "reload_requests q = [EvRequest ''GET'' (''/orgs'' @ q) None, EvRequest ''GET'' ''/tariffs'' None]"

definition apply_answer :: "string \<Rightarrow> nat \<Rightarrow> exn + unit \<Rightarrow> 'z org_detail_scheme \<Rightarrow> 'z org_detail_scheme" where
  "apply_answer q k r s =
     (if length (od_runs s) \<le> k then s
      else (case r of
          Inl e \<Rightarrow> emit (EvToast e None) (s\<lparr>od_runs := drop_nth k (od_runs s)\<rparr>)
        | Inr _ \<Rightarrow>
            (case od_runs s ! k of
               AwaitTariff delta \<Rightarrow>
                 if delta \<noteq> []
                 then emit (wallet_request (org_id (od_org s)) delta) (s\<lparr>od_runs := (od_runs s)[k := AwaitWallet]\<rparr>)
                 else emits (reload_requests q) (s\<lparr>od_runs := drop_nth k (od_runs s)\<rparr>)
             | AwaitWallet \<Rightarrow> emits (reload_requests q) (s\<lparr>od_delta := [], od_runs := drop_nth k (od_runs s)\<rparr>))))"

section \<open>The tab of organisations\<close>

record ledger_entry =
  le_id :: string
  le_charge :: bool
  le_created_at :: string
  le_amount :: string
  le_usage_amount :: "string option"
  le_kind :: "string option"
  le_user_email :: "string option"
  le_user_name :: "string option"
  le_actor_email :: "string option"
  le_actor_name :: "string option"
  le_unlimited_skip :: bool

record org_ledger =
  lg_items :: "ledger_entry list"
  lg_spent :: string
  lg_topup :: string
  lg_net :: string

datatype amount_sign = Positive | Negative | Neutral

definition amount_class :: "string \<Rightarrow> amount_sign" where
  "amount_class v =
     (case number_of_string v of
        None \<Rightarrow> Neutral | Some n \<Rightarrow> if 0 < n then Positive else if n < 0 then Negative else Neutral)"

definition entry_tone :: "ledger_entry \<Rightarrow> string" where
  "entry_tone e =
     (if le_charge e then ''primary'' else if amount_class (le_amount e) = Positive then ''success'' else ''muted'')"

definition entry_type_label :: "ledger_entry \<Rightarrow> string" where
  "entry_type_label e =
     (if le_charge e then ''instance.ledgerCharge''
      else if amount_class (le_amount e) = Positive then ''instance.ledgerTopup'' else ''instance.ledgerWalletAdjust'')"

definition entry_who :: "ledger_entry \<Rightarrow> string option" where
  "entry_who e = find (\<lambda>x. x \<noteq> []) (map str_or_empty [le_user_name e, le_actor_name e, le_user_email e, le_actor_email e])"

record new_org =
  no_name :: string
  no_tariff_id :: string
  no_admin_email :: string
  no_admin_password :: string

definition empty_org :: new_org where
  "empty_org = \<lparr>no_name = [], no_tariff_id = [], no_admin_email = [], no_admin_password = []\<rparr>"

record orgs_tab = auth_state +
  or_orgs :: "org list"
  or_tariffs :: "tariff list"
  or_show_hidden :: bool
  or_hidden_count :: nat
  or_card :: "org option"
  or_ledger :: "org_ledger option"
  or_from :: string
  or_to :: string
  or_user_id :: string
  or_kind :: string
  or_temp_pw :: "(string \<times> string \<times> bool) option"
  or_mfa_target :: "(string \<times> user) option"
  or_mfa_busy :: bool
  or_delete :: "org option"
  or_confirm_name :: string
  or_delete_busy :: bool
  or_form :: new_org
  or_create_busy :: bool
  or_form_open :: bool
  or_expanded :: "string option"

definition active_tariffs :: "'z orgs_tab_scheme \<Rightarrow> tariff list" where
  "active_tariffs s = filter (\<lambda>x. \<not> tariff_archived x) (or_tariffs s)"

definition org_ledger_query :: "'z orgs_tab_scheme \<Rightarrow> string" where
  "org_ledger_query s =
     (let p1 = (if or_from s \<noteq> [] then params_set ''from'' (or_from s) [] else []);
          p2 = (if or_to s \<noteq> [] then params_set ''to'' (or_to s) p1 else p1);
          p3 = (if or_user_id s \<noteq> [] then params_set ''user_id'' (or_user_id s) p2 else p2);
          p4 = (if or_kind s \<noteq> [] then params_set ''kind'' (or_kind s) p3 else p3);
          q = params_to_string p4 in
      if q \<noteq> [] then ''?'' @ q else [])"

record orgs_totals =
  os_total :: nat
  os_members :: nat
  os_hidden :: nat
  os_unlimited :: nat

definition orgs_totals_of :: "org list \<Rightarrow> orgs_totals" where
  "orgs_totals_of gs =
     \<lparr>os_total = length gs, os_members = fold (\<lambda>g acc. acc + length (nullish (org_members g) [])) gs 0,
      os_hidden = length (filter (\<lambda>g. org_hidden g = Some True) gs), os_unlimited = length (filter org_unlimited gs)\<rparr>"

definition orgs_query :: "'z orgs_tab_scheme \<Rightarrow> string" where
  "orgs_query s = (if or_show_hidden s then ''?include_hidden=true'' else [])"

text \<open>Both requests go out; one refusal (\<open>pick\<close> says which of two) is shown and nothing is set.\<close>

definition load_orgs ::
  "(exn list \<Rightarrow> exn) \<Rightarrow> (exn + (org list \<times> nat option)) \<Rightarrow> (exn + tariff list) \<Rightarrow> ('z orgs_tab_scheme, unit) act" where
  "load_orgs pick orgs_r ts_r =
     thenA (upd (\<lambda>s. emits (reload_requests (orgs_query s)) s))
       (case (orgs_r, ts_r) of
          (Inr (gs, hidden), Inr ts) \<Rightarrow> upd (\<lambda>s. s\<lparr>or_orgs := gs, or_hidden_count := nullish hidden 0, or_tariffs := ts\<rparr>)
        | _ \<Rightarrow> show_error (pick (errors_of orgs_r @ errors_of ts_r)))"

definition ledger_request :: "'z orgs_tab_scheme \<Rightarrow> 'z orgs_tab_scheme" where
  "ledger_request s =
     (case or_card s of
        None \<Rightarrow> s
      | Some g \<Rightarrow> emit (EvRequest ''GET'' (''/orgs/'' @ org_id g @ ''/ledger'' @ org_ledger_query s) None) s)"

text \<open>The answer is taken whatever is open by then.\<close>

definition ledger_arrives :: "exn + org_ledger \<Rightarrow> 'z orgs_tab_scheme \<Rightarrow> 'z orgs_tab_scheme" where
  "ledger_arrives r s = (case r of Inr l \<Rightarrow> s\<lparr>or_ledger := Some l\<rparr> | Inl e \<Rightarrow> emit (EvToast e None) s)"

definition open_org_card :: "nat \<Rightarrow> org \<Rightarrow> 'z orgs_tab_scheme \<Rightarrow> 'z orgs_tab_scheme" where
  "open_org_card now g s =
     (case default_filter_range now of
        (f, t) \<Rightarrow> ledger_request (s\<lparr>or_from := f, or_to := t, or_user_id := [], or_kind := [], or_ledger := None, or_card := Some g\<rparr>))"

definition toggle_org_hidden ::
  "org \<Rightarrow> (exn + unit) \<Rightarrow> (exn list \<Rightarrow> exn) \<Rightarrow> (exn + (org list \<times> nat option)) \<Rightarrow> (exn + tariff list)
     \<Rightarrow> ('z orgs_tab_scheme, unit) act" where
  "toggle_org_hidden g r pick orgs_r ts_r =
     tryA
       (bindA (send_json r ''POST'' (''/orgs/'' @ org_id g @ (if org_hidden g = Some True then ''/unhide'' else ''/hide'')) None)
         (\<lambda>_. load_orgs pick orgs_r ts_r))
       show_error"

definition ensure_org_password :: "string \<Rightarrow> new_org \<Rightarrow> new_org" where
  "ensure_org_password rnd f = (if no_admin_password f \<noteq> [] then f else f\<lparr>no_admin_password := rnd\<rparr>)"

definition open_delete_org :: "org \<Rightarrow> 'z orgs_tab_scheme \<Rightarrow> 'z orgs_tab_scheme" where
  "open_delete_org g s =
     (if map_option org_id (or_card s) = Some (org_id g) then s\<lparr>or_card := None\<rparr> else s)
       \<lparr>or_confirm_name := [], or_delete := Some g\<rparr>"

definition delete_org_disabled :: "'z orgs_tab_scheme \<Rightarrow> bool" where
  "delete_org_disabled s \<longleftrightarrow>
     or_delete_busy s \<or> (case or_delete s of None \<Rightarrow> True | Some g \<Rightarrow> trim (or_confirm_name s) \<noteq> org_name g)"

definition close_delete_org :: "'z orgs_tab_scheme \<Rightarrow> 'z orgs_tab_scheme" where
  "close_delete_org s = (if or_delete_busy s then s else s\<lparr>or_delete := None, or_confirm_name := []\<rparr>)"

definition confirm_delete_org ::
  "(exn + unit) \<Rightarrow> (exn list \<Rightarrow> exn) \<Rightarrow> (exn + (org list \<times> nat option)) \<Rightarrow> (exn + tariff list)
     \<Rightarrow> ('z orgs_tab_scheme, unit) act" where
  "confirm_delete_org r pick orgs_r ts_r =
     bindA (getsA (\<lambda>s. (or_delete s, trim (or_confirm_name s)))) (\<lambda>(d, nm).
       case d of
         None \<Rightarrow> ret ()
       | Some g \<Rightarrow>
           thenA (upd (\<lambda>s. s\<lparr>or_delete_busy := True\<rparr>))
             (finallyA
               (tryA
                 (bindA (send_json r ''POST'' (''/orgs/'' @ org_id g @ ''/delete'') (Some (JObj [(''confirm_name'', JStr nm)])))
                   (\<lambda>_. thenA (upd (\<lambda>s. s\<lparr>or_delete := None, or_confirm_name := []\<rparr>)) (load_orgs pick orgs_r ts_r)))
                 show_error)
               (\<lambda>s. s\<lparr>or_delete_busy := False\<rparr>)))"

definition org_create_ready :: "'z orgs_tab_scheme \<Rightarrow> bool" where
  "org_create_ready s \<longleftrightarrow>
     0 < length (trim (no_name (or_form s))) \<and> CHR ''@'' \<in> set (trim (no_admin_email (or_form s)))"

definition open_create_org :: "string \<Rightarrow> 'z orgs_tab_scheme \<Rightarrow> 'z orgs_tab_scheme" where
  "open_create_org rnd s = s\<lparr>or_form := ensure_org_password rnd empty_org, or_form_open := True\<rparr>"

definition cancel_create_org :: "'z orgs_tab_scheme \<Rightarrow> 'z orgs_tab_scheme" where
  "cancel_create_org s = s\<lparr>or_form := empty_org, or_form_open := False\<rparr>"

text \<open>A tariff that is chosen by none of both, \<open>undefined\<close>, is left out of the body.\<close>

definition create_org_body :: "'z orgs_tab_scheme \<Rightarrow> new_org \<Rightarrow> json" where
  "create_org_body s f =
     JObj ([(''name'', JStr (no_name f))]
       @ (if no_tariff_id f \<noteq> [] then [(''tariff_id'', JStr (no_tariff_id f))]
          else (case active_tariffs s of [] \<Rightarrow> [] | x # _ \<Rightarrow> [(''tariff_id'', JStr (tariff_id x))]))
       @ [(''admin_email'', JStr (no_admin_email f)), (''admin_password'', JStr (no_admin_password f))])"

definition create_org ::
  "string \<Rightarrow> (exn + unit) \<Rightarrow> (exn list \<Rightarrow> exn) \<Rightarrow> (exn + (org list \<times> nat option)) \<Rightarrow> (exn + tariff list)
     \<Rightarrow> ('z orgs_tab_scheme, unit) act" where
  "create_org rnd r pick orgs_r ts_r =
     bindA (getsA (\<lambda>s. let f = ensure_org_password rnd (or_form s) in (f, create_org_body s f))) (\<lambda>(f, body).
       thenA (upd (\<lambda>s. s\<lparr>or_create_busy := True\<rparr>))
         (finallyA
           (tryA
             (bindA (send_json r ''POST'' ''/orgs'' (Some body))
               (\<lambda>_. thenA (upd (\<lambda>s. s\<lparr>or_temp_pw := Some (no_admin_email f, no_admin_password f, True),
                                        or_form := empty_org, or_form_open := False\<rparr>))
                      (load_orgs pick orgs_r ts_r)))
             show_error)
           (\<lambda>s. s\<lparr>or_create_busy := False\<rparr>)))"

text \<open>After the answer, whichever it is, the list is loaded again (and does not throw).\<close>

definition confirm_org_mfa_reset ::
  "(exn + unit) \<Rightarrow> (exn list \<Rightarrow> exn) \<Rightarrow> (exn + (org list \<times> nat option)) \<Rightarrow> (exn + tariff list)
     \<Rightarrow> ('z orgs_tab_scheme, unit) act" where
  "confirm_org_mfa_reset r pick orgs_r ts_r =
     bindA (getsA or_mfa_target) (\<lambda>x.
       case x of
         None \<Rightarrow> ret ()
       | Some (g, u) \<Rightarrow>
           thenA (upd (\<lambda>s. s\<lparr>or_mfa_busy := True\<rparr>))
             (finallyA
               (tryA
                 (bindA (send_json r ''POST'' (''/orgs/'' @ g @ ''/users/'' @ user_id u @ ''/reset-mfa'') None)
                   (\<lambda>_. thenA (upd (\<lambda>s. s\<lparr>or_mfa_target := None\<rparr>)) (load_orgs pick orgs_r ts_r)))
                 (\<lambda>e. thenA (show_error e) (load_orgs pick orgs_r ts_r)))
               (\<lambda>s. s\<lparr>or_mfa_busy := False\<rparr>)))"

definition toggle_expanded :: "string \<Rightarrow> 'z orgs_tab_scheme \<Rightarrow> 'z orgs_tab_scheme" where
  "toggle_expanded i s = s\<lparr>or_expanded := (if or_expanded s = Some i then None else Some i)\<rparr>"

section \<open>The members in the list\<close>

definition listed_members :: "(string \<Rightarrow> string \<Rightarrow> int) \<Rightarrow> string \<Rightarrow> org \<Rightarrow> user list" where
  "listed_members cmp q g =
     sort_by (\<lambda>a b. compare_users cmp (label_of_user a) (label_of_user b))
       (filter (\<lambda>u. member_matches_query u q) (nullish (org_members g) []))"

definition change_member_role ::
  "org \<Rightarrow> user \<Rightarrow> string \<Rightarrow> (exn + unit) \<Rightarrow> (exn list \<Rightarrow> exn) \<Rightarrow> (exn + (org list \<times> nat option)) \<Rightarrow> (exn + tariff list)
     \<Rightarrow> ('z orgs_tab_scheme, unit) act" where
  "change_member_role g u role r pick orgs_r ts_r =
     tryA
       (bindA (send_json r ''PATCH'' (''/orgs/'' @ org_id g @ ''/users/'' @ user_id u) (Some (JObj [(''role'', JStr role)])))
         (\<lambda>_. load_orgs pick orgs_r ts_r))
       show_error"

text \<open>\<open>onRefreshAuth\<close> starts a refresh and does not wait for it: its error is lost.\<close>

definition impersonate_member ::
  "user \<Rightarrow> (exn + unit) \<Rightarrow> (exn + bool) \<Rightarrow> (exn + me) \<Rightarrow> ('z orgs_tab_scheme, unit) act" where
  "impersonate_member u r status_r me_r =
     tryA
       (bindA (send_json r ''POST'' ''/impersonate'' (Some (JObj [(''user_id'', JStr (user_id u))])))
         (\<lambda>_. tryA (bindA (refresh status_r me_r) (\<lambda>_. ret ())) (\<lambda>_. ret ())))
       show_error"

definition reset_member_password :: "org \<Rightarrow> user \<Rightarrow> (exn + string) \<Rightarrow> ('z orgs_tab_scheme, unit) act" where
  "reset_member_password g u r =
     tryA
       (bindA (send_json r ''POST'' (''/orgs/'' @ org_id g @ ''/users/'' @ user_id u @ ''/reset-password'') None)
         (\<lambda>pw. upd (\<lambda>s. s\<lparr>or_temp_pw := Some (user_email u, pw, False)\<rparr>)))
       show_error"

definition listed_member_actions :: "user \<Rightarrow> string list" where
  "listed_member_actions u =
     (if \<not> user_is_instance_admin u then [''instance.impersonate''] else [])
     @ (if user_role u = Some ''org_admin'' \<and> \<not> user_is_instance_admin u then [''org.resetPassword''] else [])
     @ (if can_admin_reset_member_mfa u False False then [''org.resetMfa''] else [])"

section \<open>Tariffs\<close>

lemma upload_cap_bound: "upload_cap v \<le> max_upload \<and> upload_cap v \<noteq> 0"
  by (auto simp: upload_cap_def max_upload_def min_def split: option.splits)

lemma edited_tariff_clean:
  assumes "find (\<lambda>y. Some (tariff_id y) = Some (tariff_id x)) (tt_tariffs s) = Some x" "tariff_id x \<noteq> []"
  shows "\<not> tariff_ready dec (start_edit_tariff x s)"
  using assms by (simp add: tariff_ready_def tariff_baseline_def editing_tariff_def start_edit_tariff_def json_dirty_def)

lemma tariff_totals_split: "ta_active (tariff_totals_of ts) + ta_archived (tariff_totals_of ts) = length ts"
  by (simp add: tariff_totals_of_def sum_length_filter_compl add.commute)

text \<open>What the delete button sends. When organisations use the tariff and can be moved, the button works only with a
  replacement from the list, and sends it; with no tariff left it never works.\<close>

theorem replaced_before_deleted:
  assumes "td_impact s = Some im" "\<not> delete_tariff_disabled s"
  shows "\<not> ti_last_tariff im
    \<and> (0 < ti_org_count im \<and> ti_can_remediate im \<longrightarrow>
         (\<exists>x \<in> set (nullish (ti_available im) []). tariff_remediation s = Some (fst x)))"
proof -
  have "\<not> ti_last_tariff im" "\<not> (0 < ti_org_count im \<and> (\<not> td_apply s \<or> selected_replacement s = None))"
    using assms by (simp_all add: delete_tariff_disabled_def delete_blocked_def)
  moreover have "x \<in> set (nullish (ti_available im) [])" if "selected_replacement s = Some x" for x
    using that assms(1) by (auto simp: selected_replacement_def dest: first_or_in)
  ultimately show ?thesis using assms(1) by (force simp: tariff_remediation_def)
qed

text \<open>Whatever is answered, the dialog is free again and stays open exactly after a refusal.\<close>

theorem delete_tariff_settles:
  "fst (confirm_delete_tariff r ts_r s) = Inr () \<and> \<not> td_busy (snd (confirm_delete_tariff r ts_r s))
   \<and> (td_open s \<longrightarrow> (td_open (snd (confirm_delete_tariff r ts_r s)) \<longleftrightarrow> (\<exists>e. r = Inl e)))"
  by (cases r; cases ts_r)
    (auto simp: confirm_delete_tariff_def delete_tariff_def load_tariffs_def run_simps show_error_def emit_def cancel_edit_tariff_def)

section \<open>Organisations\<close>

lemma emits_detail [simp]:
  "od_org (emits es s) = od_org s" "od_runs (emits es s) = od_runs s" "od_delta (emits es s) = od_delta s"
  "od_tariff_id (emits es s) = od_tariff_id s"
  by (simp_all add: emits_def)

lemma emit_detail [simp]:
  "od_org (emit e s) = od_org s" "od_runs (emit e s) = od_runs s" "od_delta (emit e s) = od_delta s"
  "od_tariff_id (emit e s) = od_tariff_id s"
  by (simp_all add: emit_def)

text \<open>The button stays ready until the answer: two clicks in a row send the amount twice.\<close>

theorem double_click_pays_twice:
  assumes "\<not> org_tariff_changed s" "wallet_changed s"
  shows "events (apply_click (apply_click s)) =
    events s @ [wallet_request (org_id (od_org s)) (trim (od_delta s)), wallet_request (org_id (od_org s)) (trim (od_delta s))]
    \<and> can_apply (apply_click s)"
  using assms by (simp add: apply_click_def Let_def org_tariff_changed_def wallet_changed_def can_apply_def)

text \<open>When the tariff is taken and the amount is refused, nothing is loaded again: the page goes on showing the old
  tariff, and the next click sends the new one once more.\<close>

theorem refused_amount_leaves_old_tariff:
  assumes "od_runs s = []" "org_tariff_changed s" "wallet_changed s"
    and "s' = apply_answer q 0 (Inl e) (apply_answer q 0 (Inr ()) (apply_click s))"
  shows "events s' = events s @ [tariff_request (org_id (od_org s)) (od_tariff_id s),
             wallet_request (org_id (od_org s)) (trim (od_delta s)), EvToast e None]
    \<and> od_runs s' = [] \<and> od_delta s' = od_delta s \<and> org_tariff_changed s'"
  using assms by (simp add: apply_click_def apply_answer_def Let_def org_tariff_changed_def wallet_changed_def drop_nth_def)

text \<open>A ledger that arrives late is shown for the organisation that is open by then.\<close>

theorem late_ledger_is_shown:
  "or_card (ledger_arrives (Inr l) (open_org_card now g s)) = Some g
   \<and> or_ledger (ledger_arrives (Inr l) (open_org_card now g s)) = Some l"
  by (simp add: ledger_arrives_def open_org_card_def ledger_request_def emit_def split: prod.splits)

lemma ledger_query_reads_back:
  "params_parse (drop 1 (org_ledger_query s)) =
     (if or_from s = [] then [] else [(''from'', or_from s)]) @ (if or_to s = [] then [] else [(''to'', or_to s)])
     @ (if or_user_id s = [] then [] else [(''user_id'', or_user_id s)])
     @ (if or_kind s = [] then [] else [(''kind'', or_kind s)])"
proof -
  have "params_parse (drop 1 (if params_to_string ps \<noteq> [] then ''?'' @ params_to_string ps else [])) = ps" for ps
    using params_parse_to_string [of ps] by (cases "ps = []") (simp_all add: params_parse_def)
  then show ?thesis by (simp add: org_ledger_query_def Let_def)
qed

text \<open>An organisation is deleted only when its name was typed.\<close>

theorem deleted_by_name:
  assumes "\<not> delete_org_disabled s"
  shows "\<exists>g. or_delete s = Some g
    \<and> events (snd (confirm_delete_org (Inl e) pick orgs_r ts_r s)) = events s
        @ [EvRequest ''POST'' (''/orgs/'' @ org_id g @ ''/delete'') (Some (JObj [(''confirm_name'', JStr (org_name g))])), EvToast e None]
    \<and> \<not> or_delete_busy (snd (confirm_delete_org (Inl e) pick orgs_r ts_r s))"
  using assms
  by (auto simp: delete_org_disabled_def confirm_delete_org_def run_simps show_error_def emit_def split: option.splits)

text \<open>The password of a new organisation is shown to the administrator, and is the one that was sent.\<close>

theorem new_org_password_shown:
  assumes "no_admin_password (or_form s) \<noteq> [] \<or> rnd \<noteq> []"
  shows "\<exists>pw. pw \<noteq> []
    \<and> or_temp_pw (snd (create_org rnd (Inr ()) pick orgs_r ts_r s)) = Some (no_admin_email (or_form s), pw, True)
    \<and> pw = no_admin_password (ensure_org_password rnd (or_form s))"
  using assms
  by (cases orgs_r; cases ts_r)
    (auto simp: create_org_def ensure_org_password_def load_orgs_def run_simps Let_def show_error_def emit_def emits_def split: prod.splits)

end
