(* ===== verification/Legal.thy ===== *)
theory Legal
  imports Auth Lists
begin

text \<open>
  The legal documents: \<open>legalDocuments.ts\<close>, their administration (\<open>pages/instance/InstanceLegalDocumentsTab.tsx\<close>,
  \<open>LegalDocumentHistoryModal.tsx\<close>), the preview of a text while it is typed (\<open>pages/instance/useAgreementPreview.ts\<close>),
  the public page of a document (\<open>pages/LegalDocumentPage.tsx\<close>) and the badges of a member
  (\<open>components/UserAgreementBadge.tsx\<close>). The settings are the fields these parts read. A save leaves the form open:
  sending and the answer are two steps. The preview is a step relation over typing, its timer and the answers.
\<close>

section \<open>Documents\<close>

datatype legal_key = UserAgreement | PersonalDataConsent | PrivacyPolicy

datatype doc_locale = Ru | En | Es

definition legal_document_keys :: "legal_key list" where
  "legal_document_keys = [UserAgreement, PersonalDataConsent, PrivacyPolicy]"

definition legal_doc_locales :: "doc_locale list" where
  "legal_doc_locales = [Ru, En, Es]"

fun key_name :: "legal_key \<Rightarrow> string" where
  "key_name UserAgreement = ''user_agreement''"
| "key_name PersonalDataConsent = ''personal_data_consent''"
| "key_name PrivacyPolicy = ''privacy_policy''"

fun locale_name :: "doc_locale \<Rightarrow> string" where
  "locale_name Ru = ''ru''" | "locale_name En = ''en''" | "locale_name Es = ''es''"

definition text_field :: "legal_key \<Rightarrow> doc_locale \<Rightarrow> string" where
  "text_field k l = key_name k @ ''_text_'' @ locale_name l"

definition published_field :: "legal_key \<Rightarrow> string" where
  "published_field k = key_name k @ ''_published''"

definition footer_field :: "doc_locale \<Rightarrow> string" where
  "footer_field l = ''landing_footer_text_'' @ locale_name l"

type_synonym saved_legal_doc = "doc_locale \<Rightarrow> string option"

record legal_settings =
  lg_texts :: "legal_key \<Rightarrow> saved_legal_doc"
  lg_versions :: "legal_key \<Rightarrow> int"
  lg_published :: "legal_key \<Rightarrow> bool option"
  lg_footer :: saved_legal_doc
  lg_footer_published :: "bool option"

definition saved_legal_docs_from_settings :: "legal_settings \<Rightarrow> legal_key \<Rightarrow> saved_legal_doc" where
  "saved_legal_docs_from_settings d k = (\<lambda>l. lg_texts d k l)"

definition legal_doc_text_trim :: "string option \<Rightarrow> string" where
  "legal_doc_text_trim v = trim (str_or_empty v)"

definition legal_doc_has_content :: "saved_legal_doc \<Rightarrow> bool" where
  "legal_doc_has_content d \<longleftrightarrow> list_ex (\<lambda>l. legal_doc_text_trim (d l) \<noteq> []) legal_doc_locales"

definition legal_doc_admin_fields_equal :: "saved_legal_doc \<Rightarrow> saved_legal_doc \<Rightarrow> bool" where
  "legal_doc_admin_fields_equal a b \<longleftrightarrow>
     list_all (\<lambda>l. legal_doc_text_trim (a l) = legal_doc_text_trim (b l)) legal_doc_locales"

definition legal_doc_change_requires_reacceptance :: "saved_legal_doc \<Rightarrow> saved_legal_doc \<Rightarrow> bool" where
  "legal_doc_change_requires_reacceptance saved cur =
     (if list_all (\<lambda>l. legal_doc_text_trim (saved l) = legal_doc_text_trim (cur l)) legal_doc_locales then False
      else list_ex (\<lambda>l. legal_doc_text_trim (cur l) \<noteq> []) legal_doc_locales)"

definition legal_docs_change_requires_reacceptance :: "(legal_key \<Rightarrow> saved_legal_doc) \<Rightarrow> legal_settings \<Rightarrow> bool" where
  "legal_docs_change_requires_reacceptance saved d \<longleftrightarrow>
     list_ex (\<lambda>k. legal_doc_change_requires_reacceptance (saved k) (saved_legal_docs_from_settings d k)) legal_document_keys"

record legal_snapshot =
  sn_docs :: "legal_key \<Rightarrow> saved_legal_doc"
  sn_published :: "legal_key \<Rightarrow> bool"

record footer_snapshot =
  fn_texts :: saved_legal_doc
  fn_published :: bool

definition legal_doc_published :: "legal_settings \<Rightarrow> legal_key \<Rightarrow> bool" where
  "legal_doc_published d k = nullish (lg_published d k) True"

definition legal_docs_admin_snapshot :: "legal_settings \<Rightarrow> legal_snapshot" where
  "legal_docs_admin_snapshot d = \<lparr>sn_docs = saved_legal_docs_from_settings d, sn_published = legal_doc_published d\<rparr>"

definition footer_admin_snapshot :: "legal_settings \<Rightarrow> footer_snapshot" where
  "footer_admin_snapshot d = \<lparr>fn_texts = lg_footer d, fn_published = nullish (lg_footer_published d) True\<rparr>"

definition legal_doc_admin_dirty :: "legal_snapshot \<Rightarrow> legal_settings \<Rightarrow> legal_key \<Rightarrow> bool" where
  "legal_doc_admin_dirty saved d k =
     (let cur = legal_docs_admin_snapshot d in
      if sn_published saved k \<noteq> sn_published cur k then True
      else \<not> legal_doc_admin_fields_equal (sn_docs saved k) (sn_docs cur k))"

definition legal_docs_admin_dirty :: "legal_snapshot \<Rightarrow> legal_settings \<Rightarrow> bool" where
  "legal_docs_admin_dirty saved d \<longleftrightarrow> list_ex (legal_doc_admin_dirty saved d) legal_document_keys"

definition footer_admin_dirty :: "footer_snapshot \<Rightarrow> legal_settings \<Rightarrow> bool" where
  "footer_admin_dirty saved d =
     (let cur = footer_admin_snapshot d in
      if fn_published saved \<noteq> fn_published cur then True
      else list_ex (\<lambda>l. legal_doc_text_trim (fn_texts saved l) \<noteq> legal_doc_text_trim (fn_texts cur l)) legal_doc_locales)"

definition legal_doc_download_name :: "legal_key \<Rightarrow> int \<Rightarrow> string" where
  "legal_doc_download_name k v =
     map (\<lambda>c. if c = CHR ''_'' then CHR ''-'' else c) (key_name k) @ ''-v'' @ int_str v @ ''.md''"

fun legal_document_slug :: "legal_key \<Rightarrow> string" where
  "legal_document_slug UserAgreement = ''user-agreement''"
| "legal_document_slug PersonalDataConsent = ''personal-data-consent''"
| "legal_document_slug PrivacyPolicy = ''privacy-policy''"

text \<open>\<open>SLUG_TO_KEY[slug] ?? null\<close> on a plain object: a name that objects inherit finds what it names.\<close>

datatype slug_value = SlugKey legal_key | Inherited string

definition object_names :: "string list" where
  "object_names =
     [''constructor'', ''toString'', ''toLocaleString'', ''valueOf'', ''hasOwnProperty'', ''isPrototypeOf'',
      ''propertyIsEnumerable'', ''__proto__'', ''__defineGetter__'', ''__defineSetter__'', ''__lookupGetter__'',
      ''__lookupSetter__'']"

definition legal_doc_key_from_slug :: "string \<Rightarrow> slug_value option" where
  "legal_doc_key_from_slug slug =
     (case find (\<lambda>k. legal_document_slug k = slug) legal_document_keys of
        Some k \<Rightarrow> Some (SlugKey k)
      | None \<Rightarrow> if slug \<in> set object_names then Some (Inherited slug) else None)"

definition legal_doc_path :: "legal_key \<Rightarrow> string" where
  "legal_doc_path k = ''/legal/'' @ legal_document_slug k"

section \<open>The public page\<close>

record 'd legal_page = browser +
  lp_doc :: "'d option"
  lp_missing :: bool

text \<open>\<open>text\<close> is what an inherited value becomes in a template string.\<close>

definition legal_page_key :: "(string \<Rightarrow> string) \<Rightarrow> string option \<Rightarrow> string option" where
  "legal_page_key text slug =
     (if truthy slug
      then map_option (\<lambda>v. case v of SlugKey k \<Rightarrow> key_name k | Inherited n \<Rightarrow> text n) (legal_doc_key_from_slug (str_or_empty slug))
      else None)"

definition load_legal_page :: "string option \<Rightarrow> (exn + 'd) \<Rightarrow> ('d, 'z) legal_page_scheme \<Rightarrow> ('d, 'z) legal_page_scheme" where
  "load_legal_page key r s =
     (case key of
        None \<Rightarrow> s\<lparr>lp_missing := True\<rparr>
      | Some k \<Rightarrow>
          (let s1 = emit (EvRequest ''GET'' (''/public/legal-documents/'' @ k) None) (s\<lparr>lp_doc := None, lp_missing := False\<rparr>) in
           case r of Inr d \<Rightarrow> s1\<lparr>lp_doc := Some d\<rparr> | Inl _ \<Rightarrow> s1\<lparr>lp_missing := True\<rparr>))"

section \<open>Administration\<close>

record legal_tab = auth_state +
  lt_settings :: "legal_settings option"
  lt_saved :: "legal_snapshot option"
  lt_footer_saved :: "footer_snapshot option"
  lt_key :: legal_key
  lt_lang :: doc_locale
  lt_footer_lang :: doc_locale
  lt_confirm :: bool
  lt_busy :: bool
  lt_footer_busy :: bool
  lt_loading :: bool

definition load_legal :: "(exn + legal_settings) \<Rightarrow> ('z legal_tab_scheme, unit) act" where
  "load_legal r =
     thenA (upd (\<lambda>s. s\<lparr>lt_loading := True\<rparr>))
       (finallyA
         (tryA
           (bindA (get_json r ''/instance/settings'') (\<lambda>d.
              upd (\<lambda>s. s\<lparr>lt_settings := Some d, lt_saved := Some (legal_docs_admin_snapshot d),
                         lt_footer_saved := Some (footer_admin_snapshot d)\<rparr>)))
           show_error)
         (\<lambda>s. s\<lparr>lt_loading := False\<rparr>))"

definition legal_dirty :: "'z legal_tab_scheme \<Rightarrow> bool" where
  "legal_dirty s =
     (case (lt_settings s, lt_saved s) of (Some d, Some sn) \<Rightarrow> legal_docs_admin_dirty sn d | _ \<Rightarrow> False)"

definition footer_dirty :: "'z legal_tab_scheme \<Rightarrow> bool" where
  "footer_dirty s =
     (case (lt_settings s, lt_footer_saved s) of (Some d, Some sn) \<Rightarrow> footer_admin_dirty sn d | _ \<Rightarrow> False)"

definition current_doc_will_reaccept :: "'z legal_tab_scheme \<Rightarrow> bool" where
  "current_doc_will_reaccept s =
     (case (lt_settings s, lt_saved s) of
        (Some d, Some sn) \<Rightarrow>
          legal_doc_change_requires_reacceptance (sn_docs sn (lt_key s)) (saved_legal_docs_from_settings d (lt_key s))
      | _ \<Rightarrow> False)"

definition show_preview_link :: "'z legal_tab_scheme \<Rightarrow> bool" where
  "show_preview_link s =
     (case lt_saved s of None \<Rightarrow> False | Some sn \<Rightarrow> sn_published sn (lt_key s) \<and> legal_doc_has_content (sn_docs sn (lt_key s)))"

definition edit_legal_text :: "string \<Rightarrow> 'z legal_tab_scheme \<Rightarrow> 'z legal_tab_scheme" where
  "edit_legal_text v s =
     s\<lparr>lt_settings := map_option (\<lambda>d. d\<lparr>lg_texts := (lg_texts d)(lt_key s := (lg_texts d (lt_key s))(lt_lang s \<mapsto> v))\<rparr>)
         (lt_settings s)\<rparr>"

definition publish_legal :: "bool \<Rightarrow> 'z legal_tab_scheme \<Rightarrow> 'z legal_tab_scheme" where
  "publish_legal b s =
     s\<lparr>lt_settings := map_option (\<lambda>d. d\<lparr>lg_published := (lg_published d)(lt_key s \<mapsto> b)\<rparr>) (lt_settings s)\<rparr>"

definition edit_footer_text :: "string \<Rightarrow> 'z legal_tab_scheme \<Rightarrow> 'z legal_tab_scheme" where
  "edit_footer_text v s =
     s\<lparr>lt_settings := map_option (\<lambda>d. d\<lparr>lg_footer := (lg_footer d)(lt_footer_lang s \<mapsto> v)\<rparr>) (lt_settings s)\<rparr>"

definition publish_footer :: "bool \<Rightarrow> 'z legal_tab_scheme \<Rightarrow> 'z legal_tab_scheme" where
  "publish_footer b s = s\<lparr>lt_settings := map_option (\<lambda>d. d\<lparr>lg_footer_published := Some b\<rparr>) (lt_settings s)\<rparr>"

definition reset_legal_edits :: "'z legal_tab_scheme \<Rightarrow> 'z legal_tab_scheme" where
  "reset_legal_edits s =
     (case (lt_settings s, lt_saved s) of
        (Some d, Some sn) \<Rightarrow>
          s\<lparr>lt_settings := Some (d\<lparr>lg_texts := sn_docs sn, lg_published := (\<lambda>k. Some (sn_published sn k))\<rparr>)\<rparr>
      | _ \<Rightarrow> s)"

definition reset_footer_edits :: "'z legal_tab_scheme \<Rightarrow> 'z legal_tab_scheme" where
  "reset_footer_edits s =
     (case (lt_settings s, lt_footer_saved s) of
        (Some d, Some sn) \<Rightarrow>
          s\<lparr>lt_settings := Some (d\<lparr>lg_footer := fn_texts sn, lg_footer_published := Some (fn_published sn)\<rparr>)\<rparr>
      | _ \<Rightarrow> s)"

definition text_json :: "string option \<Rightarrow> json" where
  "text_json v = (case v of None \<Rightarrow> JNull | Some x \<Rightarrow> JStr x)"

definition flag_json :: "string \<Rightarrow> bool option \<Rightarrow> (string \<times> json) list" where
  "flag_json k v = (case v of None \<Rightarrow> [] | Some b \<Rightarrow> [(k, JBool b)])"

definition legal_body :: "legal_settings \<Rightarrow> (string \<times> json) list" where
  "legal_body d =
     concat (map (\<lambda>k. map (\<lambda>l. (text_field k l, text_json (lg_texts d k l))) [En, Ru, Es]
                      @ flag_json (published_field k) (lg_published d k)) legal_document_keys)"

definition footer_body :: "legal_settings \<Rightarrow> (string \<times> json) list" where
  "footer_body d =
     map (\<lambda>l. (footer_field l, text_json (lg_footer d l))) [En, Ru, Es]
     @ flag_json ''landing_footer_published'' (lg_footer_published d)"

definition save_legal_send :: "'z legal_tab_scheme \<Rightarrow> 'z legal_tab_scheme" where
  "save_legal_send s =
     (case lt_settings s of
        None \<Rightarrow> s
      | Some d \<Rightarrow> emit (EvRequest ''PATCH'' ''/instance/settings'' (Some (JObj (legal_body d)))) (s\<lparr>lt_busy := True\<rparr>))"

definition save_legal_answer ::
  "(exn + legal_settings) \<Rightarrow> (exn + bool) \<Rightarrow> (exn + me) \<Rightarrow> ('z legal_tab_scheme, unit) act" where
  "save_legal_answer r status_r me_r =
     finallyA
       (tryA
         (bindA (await r) (\<lambda>d.
            thenA (upd (\<lambda>s. s\<lparr>lt_settings := Some d, lt_saved := Some (legal_docs_admin_snapshot d), lt_confirm := False\<rparr>))
              (bindA (refresh status_r me_r) (\<lambda>_. ret ()))))
         show_error)
       (\<lambda>s. s\<lparr>lt_busy := False\<rparr>)"

definition on_legal_save_click :: "'z legal_tab_scheme \<Rightarrow> 'z legal_tab_scheme" where
  "on_legal_save_click s =
     (case (lt_settings s, lt_saved s) of
        (Some d, Some sn) \<Rightarrow>
          if legal_docs_change_requires_reacceptance (sn_docs sn) d then s\<lparr>lt_confirm := True\<rparr> else save_legal_send s
      | _ \<Rightarrow> s)"

definition close_legal_confirm :: "'z legal_tab_scheme \<Rightarrow> 'z legal_tab_scheme" where
  "close_legal_confirm s = (if lt_busy s then s else s\<lparr>lt_confirm := False\<rparr>)"

definition save_footer_send :: "'z legal_tab_scheme \<Rightarrow> 'z legal_tab_scheme" where
  "save_footer_send s =
     (case lt_settings s of
        None \<Rightarrow> s
      | Some d \<Rightarrow> emit (EvRequest ''PATCH'' ''/instance/settings'' (Some (JObj (footer_body d)))) (s\<lparr>lt_footer_busy := True\<rparr>))"

definition save_footer_answer :: "(exn + legal_settings) \<Rightarrow> ('z legal_tab_scheme, unit) act" where
  "save_footer_answer r =
     finallyA
       (tryA
         (bindA (await r) (\<lambda>d. upd (\<lambda>s. s\<lparr>lt_settings := Some d, lt_footer_saved := Some (footer_admin_snapshot d)\<rparr>)))
         show_error)
       (\<lambda>s. s\<lparr>lt_footer_busy := False\<rparr>)"

section \<open>The preview of a text\<close>

text \<open>\<open>pv_gen\<close> counts the runs of the effect: the cleanup of a run cancels its timer and its request.\<close>

record preview =
  pv_source :: string
  pv_preview :: string
  pv_gen :: nat
  pv_timer :: bool
  pv_flights :: "(nat \<times> string) list"

definition preview_effect :: "preview \<Rightarrow> preview" where
  "preview_effect p =
     (let q = p\<lparr>pv_gen := pv_gen p + 1\<rparr> in
      if trim (pv_source q) = [] then q\<lparr>pv_preview := [], pv_timer := False\<rparr> else q\<lparr>pv_timer := True\<rparr>)"

definition preview_mounted :: "string \<Rightarrow> preview" where
  "preview_mounted src =
     preview_effect \<lparr>pv_source = src, pv_preview = src, pv_gen = 0, pv_timer = False, pv_flights = []\<rparr>"

definition preview_type :: "string \<Rightarrow> preview \<Rightarrow> preview" where
  "preview_type v p = (if v = pv_source p then p else preview_effect (p\<lparr>pv_source := v\<rparr>))"

definition preview_fire :: "preview \<Rightarrow> preview" where
  "preview_fire p = p\<lparr>pv_timer := False, pv_flights := pv_flights p @ [(pv_gen p, pv_source p)]\<rparr>"

definition preview_of :: "(string \<Rightarrow> exn + string) \<Rightarrow> string \<Rightarrow> string" where
  "preview_of srv src = (case srv src of Inr t \<Rightarrow> t | Inl _ \<Rightarrow> src)"

definition preview_answer :: "(string \<Rightarrow> exn + string) \<Rightarrow> nat \<Rightarrow> preview \<Rightarrow> preview" where
  "preview_answer srv k p =
     (case pv_flights p ! k of (g, src) \<Rightarrow>
        let q = p\<lparr>pv_flights := take k (pv_flights p) @ drop (Suc k) (pv_flights p)\<rparr> in
        if g = pv_gen p then q\<lparr>pv_preview := preview_of srv src\<rparr> else q)"

text \<open>\<open>srv\<close> answers the text of a request. Answers come in any order.\<close>

inductive preview_step :: "(string \<Rightarrow> exn + string) \<Rightarrow> preview \<Rightarrow> preview \<Rightarrow> bool" for srv where
  ps_type: "preview_step srv p (preview_type v p)"
| ps_fire: "pv_timer p \<Longrightarrow> preview_step srv p (preview_fire p)"
| ps_answer: "k < length (pv_flights p) \<Longrightarrow> preview_step srv p (preview_answer srv k p)"

inductive preview_reach :: "(string \<Rightarrow> exn + string) \<Rightarrow> string \<Rightarrow> preview \<Rightarrow> bool" for srv src where
  pr_mounted: "preview_reach srv src (preview_mounted src)"
| pr_step: "preview_reach srv src p \<Longrightarrow> preview_step srv p q \<Longrightarrow> preview_reach srv src q"

inductive_cases preview_stepE: "preview_step srv p q"

section \<open>Old versions\<close>

record version_detail =
  vd_version :: int
  vd_text_en :: "string option"
  vd_text_ru :: "string option"
  vd_text_es :: "string option"

definition version_detail_text :: "doc_locale \<Rightarrow> version_detail option \<Rightarrow> string" where
  "version_detail_text l d =
     (case d of
        None \<Rightarrow> []
      | Some x \<Rightarrow>
          (let first = (\<lambda>vs. str_or_empty (find (\<lambda>v. v \<noteq> []) (map str_or_empty vs))) in
           case l of
             Ru \<Rightarrow> first [vd_text_ru x, vd_text_en x, vd_text_es x]
           | Es \<Rightarrow> first [vd_text_es x, vd_text_en x, vd_text_ru x]
           | En \<Rightarrow> first [vd_text_en x, vd_text_ru x, vd_text_es x]))"

record 'v history_modal = browser +
  hm_key :: legal_key
  hm_items :: "'v list"
  hm_loading :: bool
  hm_detail :: "version_detail option"
  hm_detail_busy :: bool
  hm_open :: bool

definition versions_path :: "legal_key \<Rightarrow> string" where
  "versions_path k = ''/instance/legal-documents/'' @ key_name k @ ''/versions''"

text \<open>The list, ignored once the dialog is gone; a refusal is shown even then.\<close>

definition versions_arrive :: "exn + 'v list option \<Rightarrow> ('v, 'z) history_modal_scheme \<Rightarrow> ('v, 'z) history_modal_scheme" where
  "versions_arrive r s =
     (case r of
        Inr vs \<Rightarrow> if hm_open s then s\<lparr>hm_items := nullish vs [], hm_loading := False\<rparr> else s
      | Inl e \<Rightarrow> (let s1 = emit (EvToast e None) s in if hm_open s then s1\<lparr>hm_loading := False\<rparr> else s1))"

definition open_version :: "int \<Rightarrow> (exn + version_detail) \<Rightarrow> (('v, 'z) history_modal_scheme, unit) act" where
  "open_version v r =
     thenA (upd (\<lambda>s. s\<lparr>hm_detail_busy := True\<rparr>))
       (finallyA
         (tryA
           (bindA (getsA hm_key) (\<lambda>k.
              bindA (get_json r (versions_path k @ ''/'' @ int_str v)) (\<lambda>d. upd (\<lambda>s. s\<lparr>hm_detail := Some d\<rparr>))))
           show_error)
         (\<lambda>s. s\<lparr>hm_detail_busy := False\<rparr>))"

section \<open>The badges of a member\<close>

definition accepted_version_label :: "user \<Rightarrow> string option" where
  "accepted_version_label u =
     (let accepted = filter (\<lambda>d. \<not> la_pending d) (nullish (user_legal_acceptance u) []) in
      if length accepted = 0 then None
      else Some (join '', '' (uniq (map (\<lambda>d. int_str (la_accepted_version d)) accepted))))"

definition user_status_badges :: "user \<Rightarrow> string list" where
  "user_status_badges u =
     (if user_disabled u then [''org.statusDisabled''] else [])
     @ (if user_must_change_password u then [''auth.badgeMustChangePassword''] else [])
     @ (if user_agreement_status u = Some ''accepted''
        then [if truthy (accepted_version_label u) then ''agreement.badgeAcceptedVersion'' else ''agreement.badgeAccepted''] else [])
     @ (if user_agreement_status u = Some ''pending'' then [''agreement.badgeBlocked''] else [])
     @ (case mfa_member_state_of u of
          Some MfaOn \<Rightarrow> [''org.mfaBadgeOn''] | Some MfaPending \<Rightarrow> [''org.mfaBadgePending''] | _ \<Rightarrow> [])"

section \<open>What is saved and what is asked\<close>

lemma legal_document_keys_all [simp]: "set legal_document_keys = UNIV"
  using legal_key.exhaust by (auto simp: legal_document_keys_def)

lemma legal_doc_locales_all [simp]: "set legal_doc_locales = UNIV"
  using doc_locale.exhaust by (auto simp: legal_doc_locales_def)

lemma fields_equal_iff: "legal_doc_admin_fields_equal a b \<longleftrightarrow> (\<forall>l. legal_doc_text_trim (a l) = legal_doc_text_trim (b l))"
  by (simp add: legal_doc_admin_fields_equal_def list_all_iff)

lemma has_content_iff: "legal_doc_has_content d \<longleftrightarrow> (\<exists>l. legal_doc_text_trim (d l) \<noteq> [])"
  by (simp add: legal_doc_has_content_def list_ex_iff)

lemma reaccept_iff:
  "legal_doc_change_requires_reacceptance a b \<longleftrightarrow> \<not> legal_doc_admin_fields_equal a b \<and> legal_doc_has_content b"
  by (simp add: legal_doc_change_requires_reacceptance_def fields_equal_iff has_content_iff list_all_iff list_ex_iff)

text \<open>The names of the fields differ, so a body has one entry for each.\<close>

lemma legal_body_keys: "distinct (map fst (legal_body d) @ map fst (footer_body d))"
  by (simp add: legal_body_def footer_body_def legal_document_keys_def text_field_def published_field_def footer_field_def
      flag_json_def split: option.splits)

text \<open>Cancelling one half of the page takes back its edits and leaves the other half alone.\<close>

theorem reset_is_exact:
  assumes "lt_settings s = Some d" "lt_saved s = Some sn" "lt_footer_saved s = Some fn"
  shows "\<not> legal_dirty (reset_legal_edits s) \<and> footer_dirty (reset_legal_edits s) = footer_dirty s
    \<and> \<not> footer_dirty (reset_footer_edits s) \<and> legal_dirty (reset_footer_edits s) = legal_dirty s"
  using assms
  by (simp add: legal_dirty_def footer_dirty_def reset_legal_edits_def reset_footer_edits_def legal_docs_admin_dirty_def
      legal_doc_admin_dirty_def legal_docs_admin_snapshot_def saved_legal_docs_from_settings_def legal_doc_published_def
      footer_admin_dirty_def footer_admin_snapshot_def fields_equal_iff list_ex_iff Let_def)

text \<open>A save that makes the members accept a document again is asked for first; one that is sent at once changes no
  text but those that are emptied.\<close>

theorem reacceptance_is_asked:
  assumes "lt_settings s = Some d" "lt_saved s = Some sn"
  shows "if \<exists>k. \<not> legal_doc_admin_fields_equal (sn_docs sn k) (lg_texts d k) \<and> legal_doc_has_content (lg_texts d k)
    then lt_confirm (on_legal_save_click s) \<and> events (on_legal_save_click s) = events s
    else events (on_legal_save_click s) = events s @ [EvRequest ''PATCH'' ''/instance/settings'' (Some (JObj (legal_body d)))]
      \<and> (\<forall>k. legal_doc_admin_fields_equal (sn_docs sn k) (lg_texts d k) \<or> \<not> legal_doc_has_content (lg_texts d k))"
proof -
  have "legal_docs_change_requires_reacceptance (sn_docs sn) d \<longleftrightarrow>
      (\<exists>k. \<not> legal_doc_admin_fields_equal (sn_docs sn k) (lg_texts d k) \<and> legal_doc_has_content (lg_texts d k))"
    by (simp add: legal_docs_change_requires_reacceptance_def list_ex_iff reaccept_iff saved_legal_docs_from_settings_def)
  then show ?thesis using assms by (auto simp: on_legal_save_click_def save_legal_send_def)
qed

text \<open>Saving one half writes the answer over the other half too: its edits are lost, and nothing says so.\<close>

theorem saving_one_half_loses_the_other:
  assumes "lt_footer_saved s = Some (footer_admin_snapshot d)" "lt_saved s = Some (legal_docs_admin_snapshot d)"
  shows "lt_settings (snd (save_legal_answer (Inr d) status_r me_r s)) = Some d
    \<and> \<not> footer_dirty (snd (save_legal_answer (Inr d) status_r me_r s))
    \<and> lt_settings (snd (save_footer_answer (Inr d) s)) = Some d
    \<and> \<not> legal_dirty (snd (save_footer_answer (Inr d) s))"
proof -
  have clean: "\<not> footer_admin_dirty (footer_admin_snapshot d) d" "\<not> legal_docs_admin_dirty (legal_docs_admin_snapshot d) d"
    by (simp_all add: footer_admin_dirty_def legal_docs_admin_dirty_def legal_doc_admin_dirty_def fields_equal_iff list_ex_iff Let_def)
  define s1 where "s1 = s\<lparr>lt_settings := Some d, lt_saved := Some (legal_docs_admin_snapshot d), lt_confirm := False\<rparr>"
  have r: "lt_settings (snd (refresh status_r me_r s1)) = lt_settings s1
      \<and> lt_footer_saved (snd (refresh status_r me_r s1)) = lt_footer_saved s1"
    by (auto simp: refresh_def run_simps emit_def set_me_def me_from_api_def sync_locale_def change_language_def local_set_def
        split: sum.splits)
  have "lt_settings (snd (save_legal_answer (Inr d) status_r me_r s)) = lt_settings s1
      \<and> lt_footer_saved (snd (save_legal_answer (Inr d) status_r me_r s)) = lt_footer_saved s1"
    using r by (cases "refresh status_r me_r s1"; cases "fst (refresh status_r me_r s1)")
      (simp_all add: save_legal_answer_def run_simps s1_def [symmetric] show_error_def emit_def)
  moreover have "save_footer_answer (Inr d) s =
      (Inr (), s\<lparr>lt_settings := Some d, lt_footer_saved := Some (footer_admin_snapshot d), lt_footer_busy := False\<rparr>)"
    by (simp add: save_footer_answer_def run_simps)
  ultimately show ?thesis using assms clean by (simp add: s1_def footer_dirty_def legal_dirty_def)
qed

section \<open>Slugs\<close>

theorem slug_reads_back: "legal_doc_key_from_slug (legal_document_slug k) = Some (SlugKey k)"
  by (cases k) (simp_all add: legal_doc_key_from_slug_def legal_document_keys_def)

text \<open>A page is asked for of a key exactly when the path names a document, or a name every object has.\<close>

lemma slug_known:
  "legal_doc_key_from_slug slug = None \<longleftrightarrow> slug \<notin> range legal_document_slug \<and> slug \<notin> set object_names"
proof -
  have "find (\<lambda>k. legal_document_slug k = slug) legal_document_keys = None \<longleftrightarrow> slug \<notin> range legal_document_slug"
    by (auto simp: find_None_iff)
  then show ?thesis by (auto simp: legal_doc_key_from_slug_def split: option.splits if_splits)
qed

section \<open>The newest preview\<close>

definition settled :: "preview \<Rightarrow> bool" where
  "settled p \<longleftrightarrow> \<not> pv_timer p \<and> (\<forall>f \<in> set (pv_flights p). fst f \<noteq> pv_gen p)"

definition preview_inv :: "(string \<Rightarrow> exn + string) \<Rightarrow> preview \<Rightarrow> bool" where
  "preview_inv srv p \<longleftrightarrow>
     (\<forall>f \<in> set (pv_flights p). fst f \<le> pv_gen p \<and> (fst f = pv_gen p \<longrightarrow> snd f = pv_source p))
     \<and> (trim (pv_source p) = [] \<longrightarrow> pv_preview p = [] \<and> settled p)
     \<and> (trim (pv_source p) \<noteq> [] \<longrightarrow> settled p \<longrightarrow> pv_preview p = preview_of srv (pv_source p))"

lemma effect_inv:
  assumes "\<forall>f \<in> set (pv_flights p). fst f \<le> pv_gen p"
  shows "preview_inv srv (preview_effect p)"
  using assms by (force simp: preview_inv_def preview_effect_def settled_def Let_def)

lemma answer_inv:
  assumes "preview_inv srv p" "k < length (pv_flights p)"
  shows "preview_inv srv (preview_answer srv k p)"
proof -
  obtain g src where f: "pv_flights p ! k = (g, src)" by (cases "pv_flights p ! k")
  let ?rest = "take k (pv_flights p) @ drop (Suc k) (pv_flights p)"
  have mem: "(g, src) \<in> set (pv_flights p)" using f assms(2) nth_mem by metis
  have sub: "set ?rest \<subseteq> set (pv_flights p)" using set_take_subset set_drop_subset by (metis Un_least set_append)
  have all: "set (pv_flights p) = insert (g, src) (set ?rest)"
    using id_take_nth_drop [OF assms(2)] f by (metis Un_insert_right list.simps(15) set_append)
  show ?thesis
  proof (cases "g = pv_gen p")
    case True
    then have src: "src = pv_source p" using assms(1) mem by (auto simp: preview_inv_def)
    have "trim (pv_source p) \<noteq> []"
      using assms(1) mem True by (force simp: preview_inv_def settled_def)
    then show ?thesis using assms(1) sub True f src
      by (auto simp: preview_inv_def preview_answer_def settled_def Let_def)
  next
    case False
    have st: "settled (p\<lparr>pv_flights := ?rest\<rparr>) = settled p" unfolding settled_def using all False by auto
    show ?thesis using assms(1) sub False f st
      by (auto simp: preview_inv_def preview_answer_def settled_def Let_def)
  qed
qed

lemma fire_inv: "preview_inv srv p \<Longrightarrow> pv_timer p \<Longrightarrow> preview_inv srv (preview_fire p)"
  by (auto simp: preview_inv_def preview_fire_def settled_def)

lemma type_inv: "preview_inv srv p \<Longrightarrow> preview_inv srv (preview_type v p)"
  by (simp add: preview_type_def effect_inv preview_inv_def [of srv p])

lemma reach_inv: "preview_reach srv src p \<Longrightarrow> preview_inv srv p"
proof (induction rule: preview_reach.induct)
  case pr_mounted
  show ?case unfolding preview_mounted_def by (rule effect_inv) simp
next
  case (pr_step p q)
  from pr_step.hyps(2) show ?case
    by (cases rule: preview_step.cases) (use pr_step.IH in \<open>simp_all add: type_inv fire_inv answer_inv\<close>)
qed

text \<open>Whatever was typed and however the answers were ordered: once no timer and no request of the current text is
  left, the preview is the answer to the text in the field (the text itself if it was refused), and nothing for a
  blank one. And it gets there: a fired timer and its answer settle it.\<close>

theorem preview_shows_the_text:
  assumes "preview_reach srv src p"
  shows "(settled p \<longrightarrow> pv_preview p = (if trim (pv_source p) = [] then [] else preview_of srv (pv_source p)))
    \<and> (pv_timer p \<longrightarrow> pv_preview (preview_answer srv (length (pv_flights p)) (preview_fire p)) = preview_of srv (pv_source p))"
  using reach_inv [OF assms] by (auto simp: preview_inv_def preview_answer_def preview_fire_def Let_def)

lemma badges_exclusive: "\<not> (''agreement.badgeBlocked'' \<in> set (user_status_badges u) \<and> ''agreement.badgeAccepted'' \<in> set (user_status_badges u))"
  by (auto simp: user_status_badges_def split: option.splits mfa_member_state.splits)

end
