(* ===== verification/Stats.thy ===== *)
theory Stats
  imports Instance_Orgs Js_Date Js_Number
begin

text \<open>
  The pages that ask the hub again whenever a filter changes: the audit log (\<open>pages/security/AuditLogTab.tsx\<close>,
  \<open>components/AuditFiltersPanel.tsx\<close>), the statistics of an organisation (\<open>pages/StatsPage.tsx\<close>) and of the instance
  (\<open>pages/instance/InstanceStatsTab.tsx\<close>), their filters (\<open>components/StatsFiltersPanel.tsx\<close>), the days of a chart
  (\<open>components/StatsDaysView.tsx\<close>) and two hooks (\<open>hooks/useOrgUsers.ts\<close>, \<open>hooks/useDebouncedValue.ts\<close>). A page keeps
  the dependencies its effect last ran with and the requests that are out; answers come in any order.
\<close>

section \<open>A page that follows its filters\<close>

text \<open>
  The interface of the three pages. \<open>deps\<close> is the condition and the query the effect depends on, \<open>ran\<close> those of its last
  run, \<open>effect\<close> runs it when they differ, \<open>deliver k\<close> is the \<open>k\<close>-th answer.
\<close>

locale query_page =
  fixes deps :: "'s \<Rightarrow> bool \<times> string"
    and ran :: "'s \<Rightarrow> (bool \<times> string) option"
    and flights :: "'s \<Rightarrow> string list"
    and shown :: "'s \<Rightarrow> 'r"
    and effect :: "'s \<Rightarrow> 's"
    and deliver :: "nat \<Rightarrow> 's \<Rightarrow> 's"
    and srv :: "string \<Rightarrow> exn + 'r"
  assumes effect_ran: "ran (effect s) = Some (deps s)"
    and effect_frame: "deps (effect s) = deps s" "shown (effect s) = shown s"
    and effect_sends: "flights (effect s) =
      (if ran s = Some (deps s) \<or> \<not> fst (deps s) then flights s else flights s @ [snd (deps s)])"
    and delivers: "k < length (flights s) \<Longrightarrow>
      \<exists>u. deliver k s = effect u \<and> flights u = drop_nth k (flights s) \<and> ran u = ran s
        \<and> fst (deps u) = fst (deps s) \<and> shown u = (case srv (flights s ! k) of Inr r \<Rightarrow> r | Inl _ \<Rightarrow> shown s)"
begin

text \<open>The last request that is out is for what the filters say; with none out, what is shown is its answer.\<close>

definition up_to_date :: "'s \<Rightarrow> bool" where
  "up_to_date s \<longleftrightarrow> ran s = Some (deps s) \<and>
     (fst (deps s) \<longrightarrow>
       (if flights s = [] then \<forall>r. srv (snd (deps s)) = Inr r \<longrightarrow> shown s = r
        else last (flights s) = snd (deps s)))"

lemma first_effect: "ran s \<noteq> Some (deps s) \<Longrightarrow> up_to_date (effect s)"
  by (auto simp: up_to_date_def effect_ran effect_frame effect_sends)

lemma filter_change:
  assumes "up_to_date s" "flights u = flights s" "ran u = ran s" "shown u = shown s"
  shows "up_to_date (effect u)"
proof (cases "ran u = Some (deps u)")
  case True
  then have "deps u = deps s" using assms(1,3) by (simp add: up_to_date_def)
  then show ?thesis using True assms by (simp add: up_to_date_def effect_ran effect_frame effect_sends)
next
  case False
  then show ?thesis by (rule first_effect)
qed

text \<open>Answers that come in the order of their requests keep the page up to date.\<close>

lemma in_order:
  assumes "up_to_date s" "flights s \<noteq> []"
  shows "up_to_date (deliver 0 s)"
proof -
  obtain u where u: "deliver 0 s = effect u" "flights u = tl (flights s)" "ran u = ran s"
      "shown u = (case srv (hd (flights s)) of Inr r \<Rightarrow> r | Inl _ \<Rightarrow> shown s)"
    using delivers [of 0 s] assms(2) by (auto simp: drop_nth_def drop_Suc hd_conv_nth)
  show ?thesis
  proof (cases "ran u = Some (deps u)")
    case True
    then have d: "deps u = deps s" using assms(1) u(3) by (simp add: up_to_date_def)
    have l: "fst (deps s) \<Longrightarrow> last (flights s) = snd (deps s)" using assms by (simp add: up_to_date_def)
    have "fst (deps u) \<Longrightarrow> if flights u = [] then \<forall>r. srv (snd (deps u)) = Inr r \<longrightarrow> shown u = r
        else last (flights u) = snd (deps u)"
      using l assms(2) unfolding d u(2,4) by (cases "flights s") (auto split: if_splits)
    then show ?thesis using True u(1) by (simp add: up_to_date_def effect_ran effect_frame effect_sends)
  next
    case False
    then show ?thesis unfolding u(1) by (rule first_effect)
  qed
qed

text \<open>An answer that was overtaken is shown all the same: the filters say one thing and the page another.\<close>

lemma overtaken:
  assumes "flights s = [q, q']" "ran s = Some (deps s)" "srv q = Inr r" "srv q' = Inr r'"
    and "deps (deliver 1 s) = deps s" "deps (deliver 0 (deliver 1 s)) = deps s"
  shows "flights (deliver 0 (deliver 1 s)) = [] \<and> shown (deliver 0 (deliver 1 s)) = r"
proof -
  obtain u where u: "deliver 1 s = effect u" "flights u = [q]" "ran u = ran s"
    using delivers [of 1 s] assms(1) by (auto simp: drop_nth_def)
  then have d: "deps u = deps s" using assms(5) by (simp add: effect_frame)
  have f: "flights (deliver 1 s) = [q]" "ran (deliver 1 s) = Some (deps s)"
    using u d assms(2) by (simp_all add: effect_sends effect_ran)
  obtain w where w: "deliver 0 (deliver 1 s) = effect w" "flights w = []" "ran w = Some (deps s)" "shown w = r"
    using delivers [of 0 "deliver 1 s"] f assms(3) by (auto simp: drop_nth_def)
  then have "deps w = deps s" using assms(6) by (simp add: effect_frame)
  then show ?thesis using w by (simp add: effect_sends effect_frame)
qed

end

section \<open>The filters\<close>

text \<open>Choosing another organisation drops the user. The user field is dead while the page has organisations to choose
  from and none is chosen.\<close>

record stats_filters =
  sf_from :: string
  sf_to :: string
  sf_org :: string
  sf_user :: string
  sf_kind :: string

definition initial_filters :: "nat \<Rightarrow> stats_filters" where
  "initial_filters now =
     \<lparr>sf_from = fst (default_filter_range now), sf_to = snd (default_filter_range now), sf_org = [], sf_user = [], sf_kind = []\<rparr>"

datatype filter_change = FromDay string | ToDay string | ChooseOrg string | ChooseUser string | ChooseKind string

fun change_filter :: "filter_change \<Rightarrow> stats_filters \<Rightarrow> stats_filters" where
  "change_filter (FromDay v) f = f\<lparr>sf_from := v\<rparr>"
| "change_filter (ToDay v) f = f\<lparr>sf_to := v\<rparr>"
| "change_filter (ChooseOrg v) f = f\<lparr>sf_org := v, sf_user := []\<rparr>"
| "change_filter (ChooseUser v) f = f\<lparr>sf_user := v\<rparr>"
| "change_filter (ChooseKind v) f = f\<lparr>sf_kind := v\<rparr>"

definition user_filter_disabled :: "bool \<Rightarrow> stats_filters \<Rightarrow> bool" where
  "user_filter_disabled with_orgs f \<longleftrightarrow> with_orgs \<and> sf_org f = []"

definition kind_options :: "string list" where
  "kind_options = [[], ''transcribe'', ''summarize'']"

text \<open>The members of the chosen organisation.\<close>

definition members_of_org :: "org list \<Rightarrow> string \<Rightarrow> user list" where
  "members_of_org gs oid =
     (if oid = [] then []
      else (case find (\<lambda>g. org_id g = oid) gs of None \<Rightarrow> [] | Some g \<Rightarrow> nullish (org_members g) []))"

definition picker_option :: "user \<Rightarrow> string \<times> string" where
  "picker_option u = (user_id u, user_picker_label (Some (label_of_user u)))"

definition offered_users :: "user list \<Rightarrow> (string \<times> string) list" where
  "offered_users us = ([], ''common.all'') # map picker_option us"

text \<open>What the panel lets a user choose: a select hands over one of its options, a dead one nothing.\<close>

definition filter_offered :: "bool \<Rightarrow> org list \<Rightarrow> user list \<Rightarrow> string list \<Rightarrow> stats_filters \<Rightarrow> filter_change \<Rightarrow> bool" where
  "filter_offered with_orgs gs us kinds f c =
     (case c of
        FromDay _ \<Rightarrow> True | ToDay _ \<Rightarrow> True
      | ChooseOrg v \<Rightarrow> with_orgs \<and> (v = [] \<or> v \<in> set (map org_id gs))
      | ChooseUser v \<Rightarrow> \<not> user_filter_disabled with_orgs f \<and> v \<in> set (map fst (offered_users us))
      | ChooseKind v \<Rightarrow> v \<in> set kinds)"

definition filter_params :: "string \<Rightarrow> bool \<Rightarrow> stats_filters \<Rightarrow> params" where
  "filter_params kind_name with_orgs f =
     opt_param kind_name (sf_kind f)
       (opt_param ''user_id'' (sf_user f)
         ((if with_orgs then opt_param ''org_id'' (sf_org f) else id)
           (opt_param ''to'' (sf_to f) (opt_param ''from'' (sf_from f) []))))"

definition stats_query :: "bool \<Rightarrow> stats_filters \<Rightarrow> string" where
  "stats_query with_orgs f =
     (let q = params_to_string (filter_params ''kind'' with_orgs f) in if q \<noteq> [] then ''?'' @ q else [])"

section \<open>Statistics\<close>

text \<open>Both pages of statistics; \<open>base\<close> is the path they ask, \<open>wo\<close> whether they offer organisations.\<close>

record 'd usage_page = browser +
  us_on :: bool
  us_filters :: stats_filters
  us_stats :: "'d option"
  us_ran :: "(bool \<times> string) option"
  us_flights :: "string list"

definition usage_effect :: "string \<Rightarrow> bool \<Rightarrow> ('d, 'z) usage_page_scheme \<Rightarrow> ('d, 'z) usage_page_scheme" where
  "usage_effect base wo s =
     (let q = stats_query wo (us_filters s); s1 = s\<lparr>us_ran := Some (us_on s, q)\<rparr> in
      if us_ran s = Some (us_on s, q) then s
      else if \<not> us_on s then s1
      else emit (EvRequest ''GET'' (base @ q) None) (s1\<lparr>us_flights := us_flights s @ [q]\<rparr>))"

definition usage_filter :: "string \<Rightarrow> bool \<Rightarrow> filter_change \<Rightarrow> ('d, 'z) usage_page_scheme \<Rightarrow> ('d, 'z) usage_page_scheme" where
  "usage_filter base wo c s = usage_effect base wo (s\<lparr>us_filters := change_filter c (us_filters s)\<rparr>)"

definition usage_arrives ::
  "string \<Rightarrow> bool \<Rightarrow> (string \<Rightarrow> exn + 'd) \<Rightarrow> nat \<Rightarrow> ('d, 'z) usage_page_scheme \<Rightarrow> ('d, 'z) usage_page_scheme" where
  "usage_arrives base wo srv k s =
     (let s1 = s\<lparr>us_flights := drop_nth k (us_flights s)\<rparr> in
      usage_effect base wo
        (case srv (us_flights s ! k) of Inr d \<Rightarrow> s1\<lparr>us_stats := Some d\<rparr> | Inl e \<Rightarrow> emit (EvToast e None) s1))"

definition usage_mounted :: "string \<Rightarrow> bool \<Rightarrow> nat \<Rightarrow> bool \<Rightarrow> 'd usage_page" where
  "usage_mounted base wo now on =
     usage_effect base wo
       \<lparr>local_store = Map.empty, session_store = Map.empty, events = [], us_on = on, us_filters = initial_filters now,
        us_stats = None, us_ran = None, us_flights = []\<rparr>"

definition org_stats_on :: "me option \<Rightarrow> bool" where
  "org_stats_on m \<longleftrightarrow> (case m of None \<Rightarrow> False | Some x \<Rightarrow> me_org x \<noteq> None) \<and> is_org_admin m"

definition org_stats_mounted :: "nat \<Rightarrow> me option \<Rightarrow> 'd usage_page" where
  "org_stats_mounted now m = usage_mounted ''/org/stats'' False now (org_stats_on m)"

definition instance_stats_mounted :: "nat \<Rightarrow> 'd usage_page" where
  "instance_stats_mounted now = usage_mounted ''/instance/stats'' True now True"

text \<open>A run of a page: changes of its filters and answers.\<close>

datatype usage_event = SetFilter filter_change | StatsArrive nat

fun usage_run ::
  "string \<Rightarrow> bool \<Rightarrow> (string \<Rightarrow> exn + 'd) \<Rightarrow> usage_event list \<Rightarrow> ('d, 'z) usage_page_scheme \<Rightarrow> ('d, 'z) usage_page_scheme" where
  "usage_run base wo srv [] s = s"
| "usage_run base wo srv (SetFilter c # es) s = usage_run base wo srv es (usage_filter base wo c s)"
| "usage_run base wo srv (StatsArrive k # es) s =
     usage_run base wo srv es (if k < length (us_flights s) then usage_arrives base wo srv k s else s)"

section \<open>The numbers of the instance\<close>

text \<open>The snapshot is asked for at once and every 30 seconds; a page that is gone ignores what still comes.\<close>

record 'd snapshot_poll = browser +
  sq_open :: bool
  sq_snapshot :: "'d option"
  sq_out :: nat

definition snapshot_send :: "('d, 'z) snapshot_poll_scheme \<Rightarrow> ('d, 'z) snapshot_poll_scheme" where
  "snapshot_send s = emit (EvRequest ''GET'' ''/instance/stats'' None) (s\<lparr>sq_out := sq_out s + 1\<rparr>)"

definition snapshot_tick :: "('d, 'z) snapshot_poll_scheme \<Rightarrow> ('d, 'z) snapshot_poll_scheme" where
  "snapshot_tick s = (if sq_open s then snapshot_send s else s)"

definition snapshot_arrives :: "exn + 'd \<Rightarrow> ('d, 'z) snapshot_poll_scheme \<Rightarrow> ('d, 'z) snapshot_poll_scheme" where
  "snapshot_arrives r s =
     (let s1 = s\<lparr>sq_out := sq_out s - 1\<rparr> in
      if \<not> sq_open s then s1
      else case r of Inr d \<Rightarrow> s1\<lparr>sq_snapshot := Some d\<rparr> | Inl e \<Rightarrow> emit (EvToast e None) s1)"

definition snapshot_unmount :: "('d, 'z) snapshot_poll_scheme \<Rightarrow> ('d, 'z) snapshot_poll_scheme" where
  "snapshot_unmount s = s\<lparr>sq_open := False\<rparr>"

section \<open>Days of a chart\<close>

record stats_day =
  sd_date :: string
  sd_transcribed :: nat
  sd_summarized :: nat
  sd_audio_sec :: rat
  sd_chars :: nat
  sd_amount :: string

record chart_day = stats_day +
  cd_label :: string
  cd_amount :: rat

definition chart_days :: "stats_day list \<Rightarrow> chart_day list" where
  "chart_days ds =
     map (\<lambda>d. stats_day.extend d (chart_day.fields (drop 5 (sd_date d)) (nullish (number_of_string (sd_amount d)) 0))) ds"

datatype days_view = ShowEmpty | ShowTable | ShowChart

definition days_view_of :: "bool \<Rightarrow> stats_day list \<Rightarrow> days_view" where
  "days_view_of chart ds = (if ds = [] then ShowEmpty else if chart then ShowChart else ShowTable)"

section \<open>The audit log\<close>

record audit_entry =
  ae_id :: string
  ae_action :: string
  ae_actor_email :: "string option"
  ae_actor_display_name :: "string option"
  ae_on_behalf_of_email :: "string option"
  ae_payload :: "json option"
  ae_created_at :: string

record audit_page = browser +
  ad_items :: "audit_entry list"
  ad_total :: nat
  ad_size :: nat
  ad_page :: nat
  ad_orgs :: "org list"
  ad_filters :: stats_filters
  ad_exporting :: bool
  ad_ran :: "(bool \<times> string) option"
  ad_flights :: "string list"

definition audit_actions :: "string list" where
  "audit_actions =
     [''instance.setup'', ''tariff.create'', ''tariff.update'', ''tariff.archive'', ''tariff.unarchive'', ''wallet.delta'',
      ''user.password_reset'', ''org.tariff'', ''org.tariff.self'', ''org.sso.update'', ''impersonate.start'',
      ''impersonate.stop'', ''user.disable'', ''user.enable'', ''user.offboard.transfer'', ''user.offboard.wipe'',
      ''user.account.delete'', ''audio.wipe'', ''transcript.wipe'', ''transcript.rename'', ''summary.update'',
      ''summary.delete'', ''summary.public_link.create'', ''summary.public_link.revoke'', ''summary.public_link.view'',
      ''org.public_links_policy'', ''org.delete'', ''tasks.purge'']"

definition audit_action_key :: "string \<Rightarrow> string" where
  "audit_action_key a = ''audit.actions.'' @ map (\<lambda>c. if c = CHR ''.'' then CHR ''_'' else c) a"

definition audit_action_label :: "translate \<Rightarrow> string \<Rightarrow> string" where
  "audit_action_label tr a = tr_or tr (audit_action_key a) [] a"

text \<open>The text of a payload, and whether it was cut (an ellipsis follows); \<open>None\<close> is a dash.\<close>

definition format_payload :: "json option \<Rightarrow> (string \<times> bool) option" where
  "format_payload p =
     (case p of
        None \<Rightarrow> None
      | Some j \<Rightarrow> (let t = json_stringify j in Some (if length t \<le> 120 then (t, False) else (take 120 t, True))))"

definition audit_actor :: "audit_entry \<Rightarrow> string option" where
  "audit_actor e =
     (if truthy (ae_actor_display_name e) then ae_actor_display_name e
      else if truthy (ae_actor_email e) then ae_actor_email e else None)"

definition audit_safe_page :: "'z audit_page_scheme \<Rightarrow> nat" where
  "audit_safe_page s = safe_page (ad_total s) (ad_page s) (ad_size s)"

definition audit_params :: "'z audit_page_scheme \<Rightarrow> params" where
  "audit_params s =
     params_set ''offset'' (nat_str (audit_safe_page s * ad_size s))
       (params_set ''limit'' (nat_str (ad_size s)) (filter_params ''action'' True (ad_filters s)))"

definition audit_query :: "'z audit_page_scheme \<Rightarrow> string" where
  "audit_query s = ''?'' @ params_to_string (audit_params s)"

definition export_query :: "'z audit_page_scheme \<Rightarrow> string" where
  "export_query s = params_to_string (filter_params ''action'' True (ad_filters s))"

definition audit_users :: "'z audit_page_scheme \<Rightarrow> user list" where
  "audit_users s = members_of_org (ad_orgs s) (sf_org (ad_filters s))"

definition audit_effect :: "'z audit_page_scheme \<Rightarrow> 'z audit_page_scheme" where
  "audit_effect s =
     (let q = audit_query s in
      if ad_ran s = Some (True, q) then s
      else emit (EvRequest ''GET'' (''/instance/audit'' @ q) None)
             (s\<lparr>ad_ran := Some (True, q), ad_flights := ad_flights s @ [q]\<rparr>))"

definition audit_mounted :: "nat \<Rightarrow> audit_page" where
  "audit_mounted now =
     audit_effect
       (emit (EvRequest ''GET'' ''/orgs?include_hidden=true'' None)
         \<lparr>local_store = Map.empty, session_store = Map.empty, events = [], ad_items = [], ad_total = 0,
          ad_size = default_list_page_size, ad_page = 0, ad_orgs = [], ad_filters = initial_filters now,
          ad_exporting = False, ad_ran = None, ad_flights = []\<rparr>)"

definition audit_orgs_arrive :: "exn + org list option \<Rightarrow> 'z audit_page_scheme \<Rightarrow> 'z audit_page_scheme" where
  "audit_orgs_arrive r s =
     (case r of Inr gs \<Rightarrow> s\<lparr>ad_orgs := nullish gs []\<rparr> | Inl e \<Rightarrow> emit (EvToast e None) s)"

definition audit_arrives ::
  "(string \<Rightarrow> exn + (audit_entry list \<times> nat)) \<Rightarrow> nat \<Rightarrow> 'z audit_page_scheme \<Rightarrow> 'z audit_page_scheme" where
  "audit_arrives srv k s =
     (let s1 = s\<lparr>ad_flights := drop_nth k (ad_flights s)\<rparr> in
      audit_effect
        (case srv (ad_flights s ! k) of
           Inr (es, n) \<Rightarrow> s1\<lparr>ad_items := es, ad_total := n\<rparr> | Inl e \<Rightarrow> emit (EvToast e None) s1))"

definition audit_filter :: "filter_change \<Rightarrow> 'z audit_page_scheme \<Rightarrow> 'z audit_page_scheme" where
  "audit_filter c s = audit_effect (s\<lparr>ad_filters := change_filter c (ad_filters s), ad_page := 0\<rparr>)"

definition audit_set_size :: "nat \<Rightarrow> 'z audit_page_scheme \<Rightarrow> 'z audit_page_scheme" where
  "audit_set_size n s = audit_effect (s\<lparr>ad_size := n, ad_page := 0\<rparr>)"

text \<open>The two arrows of the pager count from the page that is shown.\<close>

definition audit_prev :: "'z audit_page_scheme \<Rightarrow> 'z audit_page_scheme" where
  "audit_prev s =
     (if prev_disabled (audit_safe_page s) then s else audit_effect (s\<lparr>ad_page := audit_safe_page s - 1\<rparr>))"

definition audit_next :: "'z audit_page_scheme \<Rightarrow> 'z audit_page_scheme" where
  "audit_next s =
     (if next_disabled (ad_total s) (audit_safe_page s) (ad_size s) then s
      else audit_effect (s\<lparr>ad_page := audit_safe_page s + 1\<rparr>))"

definition export_name :: "stats_filters \<Rightarrow> string" where
  "export_name f =
     ''audit-'' @ (if sf_from f \<noteq> [] \<and> sf_to f \<noteq> [] then sf_from f @ ''_'' @ sf_to f else ''export'') @ ''.csv''"

definition export_csv :: "(exn + unit) \<Rightarrow> ('z audit_page_scheme, unit) act" where
  "export_csv r =
     thenA (upd (\<lambda>s. s\<lparr>ad_exporting := True\<rparr>))
       (finallyA
         (tryA
           (thenA (upd (\<lambda>s. emit (EvDownload (''/instance/audit/export?'' @ export_query s) (export_name (ad_filters s))) s))
             (await r))
           show_error)
         (\<lambda>s. s\<lparr>ad_exporting := False\<rparr>))"

datatype audit_event = AuditFilter filter_change | AuditSize nat | AuditPrev | AuditNext | AuditArrive nat

fun audit_run :: "(string \<Rightarrow> exn + (audit_entry list \<times> nat)) \<Rightarrow> audit_event list \<Rightarrow> 'z audit_page_scheme \<Rightarrow> 'z audit_page_scheme" where
  "audit_run srv [] s = s"
| "audit_run srv (AuditFilter c # es) s = audit_run srv es (audit_filter c s)"
| "audit_run srv (AuditSize n # es) s = audit_run srv es (audit_set_size n s)"
| "audit_run srv (AuditPrev # es) s = audit_run srv es (audit_prev s)"
| "audit_run srv (AuditNext # es) s = audit_run srv es (audit_next s)"
| "audit_run srv (AuditArrive k # es) s =
     audit_run srv es (if k < length (ad_flights s) then audit_arrives srv k s else s)"

section \<open>Users of the organisation\<close>

record org_users = browser +
  ou_users :: "user list"
  ou_loading :: bool

definition org_users_refresh :: "bool \<Rightarrow> (exn + user list) \<Rightarrow> ('z org_users_scheme, user list) act" where
  "org_users_refresh enabled r =
     (if \<not> enabled then thenA (upd (\<lambda>s. s\<lparr>ou_users := []\<rparr>)) (ret [])
      else thenA (upd (\<lambda>s. s\<lparr>ou_loading := True\<rparr>))
        (finallyA
          (tryA
            (bindA (get_json r ''/org/users'') (\<lambda>us. thenA (upd (\<lambda>s. s\<lparr>ou_users := us\<rparr>)) (ret us)))
            (\<lambda>e. thenA (show_error e) (thenA (upd (\<lambda>s. s\<lparr>ou_users := []\<rparr>)) (ret []))))
          (\<lambda>s. s\<lparr>ou_loading := False\<rparr>)))"

section \<open>A value that waits for a pause\<close>

text \<open>\<open>db_left\<close> is the time left of the timer. Setting the same value again leaves the timer alone.\<close>

record 'v debounced =
  db_value :: 'v
  db_shown :: 'v
  db_left :: "nat option"

definition debounce_mounted :: "nat \<Rightarrow> 'v \<Rightarrow> 'v debounced" where
  "debounce_mounted delay v = \<lparr>db_value = v, db_shown = v, db_left = Some delay\<rparr>"

definition debounce_set :: "nat \<Rightarrow> 'v \<Rightarrow> 'v debounced \<Rightarrow> 'v debounced" where
  "debounce_set delay v b = (if v = db_value b then b else b\<lparr>db_value := v, db_left := Some delay\<rparr>)"

definition debounce_elapse :: "nat \<Rightarrow> 'v debounced \<Rightarrow> 'v debounced" where
  "debounce_elapse ms b =
     (case db_left b of
        None \<Rightarrow> b
      | Some l \<Rightarrow> if l \<le> ms then b\<lparr>db_shown := db_value b, db_left := None\<rparr> else b\<lparr>db_left := Some (l - ms)\<rparr>)"

text \<open>Typing: a value and the pause after it.\<close>

fun debounce_type :: "nat \<Rightarrow> ('v \<times> nat) list \<Rightarrow> 'v debounced \<Rightarrow> 'v debounced" where
  "debounce_type delay [] b = b"
| "debounce_type delay ((v, ms) # xs) b = debounce_type delay xs (debounce_elapse ms (debounce_set delay v b))"

section \<open>The pages and the interface\<close>

definition usage_answer :: "(string \<Rightarrow> exn + 'd) \<Rightarrow> string \<Rightarrow> exn + 'd option" where
  "usage_answer srv q = map_sum id Some (srv q)"

interpretation us: query_page "\<lambda>s. (us_on s, stats_query wo (us_filters s))" us_ran us_flights us_stats
  "usage_effect base wo" "usage_arrives base wo srv" "usage_answer srv"
  for base wo srv
proof unfold_locales
  fix s :: "('a, 'b) usage_page_scheme" and k
  let ?u = "case srv (us_flights s ! k) of
      Inr d \<Rightarrow> s\<lparr>us_flights := drop_nth k (us_flights s), us_stats := Some d\<rparr>
    | Inl e \<Rightarrow> emit (EvToast e None) (s\<lparr>us_flights := drop_nth k (us_flights s)\<rparr>)"
  have "usage_arrives base wo srv k s = usage_effect base wo ?u"
    by (cases "srv (us_flights s ! k)") (simp_all add: usage_arrives_def)
  then show "\<exists>u. usage_arrives base wo srv k s = usage_effect base wo u \<and> us_flights u = drop_nth k (us_flights s)
      \<and> us_ran u = us_ran s \<and> fst (us_on u, stats_query wo (us_filters u)) = fst (us_on s, stats_query wo (us_filters s))
      \<and> us_stats u = (case usage_answer srv (us_flights s ! k) of Inr r \<Rightarrow> r | Inl _ \<Rightarrow> us_stats s)"
    by (intro exI [of _ ?u]) (cases "srv (us_flights s ! k)"; simp add: emit_def usage_answer_def)
qed (auto simp: usage_effect_def emit_def Let_def)

lemma audit_query_frame [simp]:
  "audit_query (emit e s) = audit_query s" "audit_query (s\<lparr>ad_ran := r\<rparr>) = audit_query s"
  "audit_query (s\<lparr>ad_flights := fs\<rparr>) = audit_query s" "audit_query (s\<lparr>ad_items := es\<rparr>) = audit_query s"
  "audit_query (s\<lparr>events := evs\<rparr>) = audit_query s"
  by (simp_all add: audit_query_def audit_params_def audit_safe_page_def emit_def)

interpretation ad: query_page "\<lambda>s. (True, audit_query s)" ad_ran ad_flights "\<lambda>s. (ad_items s, ad_total s)"
  audit_effect "audit_arrives srv" srv
  for srv
proof unfold_locales
  fix s :: "'b audit_page_scheme" and k
  let ?u = "case srv (ad_flights s ! k) of
      Inr (es, n) \<Rightarrow> s\<lparr>ad_flights := drop_nth k (ad_flights s), ad_items := es, ad_total := n\<rparr>
    | Inl e \<Rightarrow> emit (EvToast e None) (s\<lparr>ad_flights := drop_nth k (ad_flights s)\<rparr>)"
  have "audit_arrives srv k s = audit_effect ?u"
    by (cases "srv (ad_flights s ! k)") (auto simp: audit_arrives_def split: prod.splits)
  then show "\<exists>u. audit_arrives srv k s = audit_effect u \<and> ad_flights u = drop_nth k (ad_flights s)
      \<and> ad_ran u = ad_ran s \<and> fst (True, audit_query u) = fst (True, audit_query s)
      \<and> (ad_items u, ad_total u) = (case srv (ad_flights s ! k) of Inr r \<Rightarrow> r | Inl _ \<Rightarrow> (ad_items s, ad_total s))"
    by (intro exI [of _ ?u]) (cases "srv (ad_flights s ! k)"; simp add: emit_def split: prod.splits)
qed (auto simp: audit_effect_def emit_def Let_def)

section \<open>What a page shows\<close>

definition stats_in_order :: "usage_event list \<Rightarrow> bool" where
  "stats_in_order es \<longleftrightarrow> list_all (\<lambda>e. case e of StatsArrive k \<Rightarrow> k = 0 | SetFilter _ \<Rightarrow> True) es"

lemma usage_mounted_up: "us.up_to_date wo srv (usage_mounted base wo now on)"
  unfolding usage_mounted_def by (rule us.first_effect) simp

lemma usage_filter_up: "us.up_to_date wo srv s \<Longrightarrow> us.up_to_date wo srv (usage_filter base wo c s)"
  unfolding usage_filter_def by (rule us.filter_change) simp_all

lemma usage_run_up:
  "us.up_to_date wo srv s \<Longrightarrow> stats_in_order es \<Longrightarrow> us.up_to_date wo srv (usage_run base wo srv es s)"
proof (induction base wo srv es s rule: usage_run.induct)
  case (2 base wo srv c es s)
  then show ?case by (simp add: stats_in_order_def usage_filter_up)
next
  case (3 base wo srv k es s)
  then show ?case using us.in_order [of wo srv s base] by (auto simp: stats_in_order_def)
qed simp

text \<open>Answers in the order of their requests: whatever is done to the filters, a page with nothing out shows the
  numbers of its filters.\<close>

theorem stats_follow_the_filters:
  assumes "stats_in_order es" and "s = usage_run base wo srv es (usage_mounted base wo now on)"
    and "us_flights s = []" "us_on s" "srv (stats_query wo (us_filters s)) = Inr d"
  shows "us_stats s = Some d"
  using usage_run_up [OF usage_mounted_up [of wo srv base now on] assms(1), of base] assms(2-5)
  by (simp add: us.up_to_date_def usage_answer_def)

text \<open>Out of order: the page rests with the numbers of the filters it no longer shows.\<close>

theorem overtaken_stats_stay:
  assumes "f = initial_filters now" "stats_query wo (change_filter c f) \<noteq> stats_query wo f"
    and "srv (stats_query wo f) = Inr d" "srv (stats_query wo (change_filter c f)) = Inr d'"
    and "s = usage_run base wo srv [SetFilter c, StatsArrive 1, StatsArrive 0] (usage_mounted base wo now True)"
  shows "us_flights s = [] \<and> us_filters s = change_filter c f \<and> us_stats s = Some d"
  using assms by (simp add: usage_mounted_def usage_filter_def usage_arrives_def usage_effect_def drop_nth_def emit_def Let_def)

definition audit_in_order :: "audit_event list \<Rightarrow> bool" where
  "audit_in_order es \<longleftrightarrow> list_all (\<lambda>e. case e of AuditArrive k \<Rightarrow> k = 0 | _ \<Rightarrow> True) es"

lemma audit_mounted_up: "ad.up_to_date srv (audit_mounted now)"
  unfolding audit_mounted_def by (rule ad.first_effect) (simp add: emit_def)

lemma audit_filter_up: "ad.up_to_date srv s \<Longrightarrow> ad.up_to_date srv (audit_filter c s)"
  unfolding audit_filter_def by (rule ad.filter_change) simp_all

lemma audit_pager_up:
  assumes "ad.up_to_date srv s"
  shows "ad.up_to_date srv (audit_set_size n s)" "ad.up_to_date srv (audit_prev s)" "ad.up_to_date srv (audit_next s)"
  using assms by (auto simp: audit_set_size_def audit_prev_def audit_next_def intro!: ad.filter_change)

lemma audit_run_up: "ad.up_to_date srv s \<Longrightarrow> audit_in_order es \<Longrightarrow> ad.up_to_date srv (audit_run srv es s)"
proof (induction srv es s rule: audit_run.induct)
  case (6 srv k es s)
  then show ?case using ad.in_order [of srv s] by (auto simp: audit_in_order_def)
qed (simp_all add: audit_in_order_def audit_filter_up audit_pager_up)

theorem audit_follows_the_filters:
  assumes "audit_in_order es" and "s = audit_run srv es (audit_mounted now)"
    and "ad_flights s = []" "srv (audit_query s) = Inr (es', n)"
  shows "ad_items s = es' \<and> ad_total s = n"
  using audit_run_up [OF audit_mounted_up [of srv now] assms(1)] assms(2-4) by (simp add: ad.up_to_date_def)

text \<open>An answer may move the clamped page, and so ask again. With a count that stands still the second answer is the
  last: the page rests on entries of an existing page.\<close>

lemma audit_arrives_shown:
  assumes "k < length (ad_flights s)" "srv (ad_flights s ! k) = Inr (es, n)"
  shows "ad_items (audit_arrives srv k s) = es" "ad_total (audit_arrives srv k s) = n"
    "ad_size (audit_arrives srv k s) = ad_size s" "ad_page (audit_arrives srv k s) = ad_page s"
    "ad_filters (audit_arrives srv k s) = ad_filters s"
  using assms by (simp_all add: audit_arrives_def audit_effect_def emit_def Let_def)

lemma audit_query_cong:
  "ad_total u = ad_total s \<Longrightarrow> ad_size u = ad_size s \<Longrightarrow> ad_page u = ad_page s \<Longrightarrow> ad_filters u = ad_filters s
     \<Longrightarrow> audit_query u = audit_query s"
  by (simp add: audit_query_def audit_params_def audit_safe_page_def)

lemma audit_arrives_out:
  assumes "ad_flights s = [q]" "ad_ran s = Some (True, audit_query s)"
  shows "ad_flights (audit_arrives srv 0 s) =
    (if audit_query (audit_arrives srv 0 s) = audit_query s then [] else [audit_query (audit_arrives srv 0 s)])"
    "ad_ran (audit_arrives srv 0 s) = Some (True, audit_query (audit_arrives srv 0 s))"
proof -
  obtain u where u: "audit_arrives srv 0 s = audit_effect u" "ad_flights u = []" "ad_ran u = ad_ran s"
    using ad.delivers [of 0 s srv] assms(1) by (auto simp: drop_nth_def)
  have q: "audit_query (audit_effect u) = audit_query u" using ad.effect_frame(1) [of u] by simp
  show "ad_flights (audit_arrives srv 0 s) =
    (if audit_query (audit_arrives srv 0 s) = audit_query s then [] else [audit_query (audit_arrives srv 0 s)])"
    using u assms(2) q by (auto simp: ad.effect_sends)
  show "ad_ran (audit_arrives srv 0 s) = Some (True, audit_query (audit_arrives srv 0 s))"
    using u(1) q by (simp add: ad.effect_ran)
qed

definition settle_audit :: "(string \<Rightarrow> exn + (audit_entry list \<times> nat)) \<Rightarrow> 'z audit_page_scheme \<Rightarrow> 'z audit_page_scheme" where
  "settle_audit srv s = audit_run srv [AuditArrive 0, AuditArrive 0] s"

theorem audit_settles:
  assumes "ad_flights s = [audit_query s]" "ad_ran s = Some (True, audit_query s)" "0 < ad_size s"
    and count: "\<And>q. srv q = Inr (rows q, n)"
  defines "t \<equiv> settle_audit srv s"
  shows "ad_flights t = [] \<and> ad_total t = n \<and> ad_items t = rows (audit_query t) \<and> ad_filters t = ad_filters s
    \<and> audit_safe_page t = min (ad_page s) (page_count n (ad_size s) - 1)"
proof -
  let ?s1 = "audit_arrives srv 0 s"
  have s1: "ad_items ?s1 = rows (audit_query s)" "ad_total ?s1 = n" "ad_size ?s1 = ad_size s" "ad_page ?s1 = ad_page s"
      "ad_filters ?s1 = ad_filters s"
    using audit_arrives_shown [of 0 s srv] assms(1) count by simp_all
  note out1 = audit_arrives_out [OF assms(1,2), of srv]
  show ?thesis
  proof (cases "audit_query ?s1 = audit_query s")
    case True
    then have "t = ?s1" using out1(1) assms(1) by (simp add: t_def settle_audit_def)
    then show ?thesis using True out1(1) s1 by (simp add: audit_safe_page_def safe_page_def)
  next
    case False
    then have f: "ad_flights ?s1 = [audit_query ?s1]" using out1(1) by simp
    let ?s2 = "audit_arrives srv 0 ?s1"
    have s2: "ad_items ?s2 = rows (audit_query ?s1)" "ad_total ?s2 = n" "ad_size ?s2 = ad_size ?s1" "ad_page ?s2 = ad_page ?s1"
        "ad_filters ?s2 = ad_filters ?s1"
      using audit_arrives_shown [of 0 ?s1 srv] f count by simp_all
    then have q: "audit_query ?s2 = audit_query ?s1" using s1(2) by (intro audit_query_cong) simp_all
    have "t = ?s2" using f assms(1) by (simp add: t_def settle_audit_def)
    then show ?thesis using audit_arrives_out(1) [OF f out1(2), of srv] q s1 s2 by (simp add: audit_safe_page_def safe_page_def)
  qed
qed

section \<open>Filters\<close>

text \<open>The page as it is used: the organisations come once, and only offered choices are made.\<close>

inductive filter_reach :: "nat \<Rightarrow> string list \<Rightarrow> org list \<Rightarrow> stats_filters \<Rightarrow> bool" for now kinds where
  fr_mounted: "filter_reach now kinds [] (initial_filters now)"
| fr_loaded: "filter_reach now kinds [] f \<Longrightarrow> filter_reach now kinds gs f"
| fr_chosen: "filter_reach now kinds gs f
    \<Longrightarrow> filter_offered True gs (members_of_org gs (sf_org f)) kinds f c \<Longrightarrow> filter_reach now kinds gs (change_filter c f)"

definition filters_fit :: "string list \<Rightarrow> org list \<Rightarrow> stats_filters \<Rightarrow> bool" where
  "filters_fit kinds gs f \<longleftrightarrow>
     (sf_org f = [] \<or> sf_org f \<in> set (map org_id gs))
     \<and> (sf_user f = [] \<or> sf_org f \<noteq> [] \<and> sf_user f \<in> set (map user_id (members_of_org gs (sf_org f))))
     \<and> (sf_kind f = [] \<or> sf_kind f \<in> set kinds)"

lemma no_members [simp]: "members_of_org [] oid = []" "members_of_org gs [] = []"
  by (simp_all add: members_of_org_def)

lemma chosen_filters_fit: "filter_reach now kinds gs f \<Longrightarrow> filters_fit kinds gs f"
proof (induction rule: filter_reach.induct)
  case (fr_chosen gs f c)
  then show ?case
    by (cases c) (auto simp: filters_fit_def filter_offered_def user_filter_disabled_def offered_users_def picker_option_def)
qed (auto simp: filters_fit_def initial_filters_def)

text \<open>A user that filters is always a member of the organisation that filters, and each choice is one of those listed.\<close>

theorem user_filter_fits_org:
  assumes "filter_reach now kinds gs f" "sf_user f \<noteq> []"
  shows "sf_org f \<in> set (map org_id gs) \<and> sf_user f \<in> set (map user_id (members_of_org gs (sf_org f)))"
  using chosen_filters_fit [OF assms(1)] assms(2) by (auto simp: filters_fit_def)

section \<open>Queries\<close>

lemma filter_params_get:
  "kn \<notin> {''from'', ''to'', ''org_id'', ''user_id''} \<Longrightarrow>
   params_get (filter_params kn wo f) k =
     (let v = (if k = kn then sf_kind f else if k = ''user_id'' then sf_user f
               else if k = ''org_id'' then (if wo then sf_org f else []) else if k = ''to'' then sf_to f
               else if k = ''from'' then sf_from f else []) in if v = [] then None else Some v)"
  by (auto simp: filter_params_def)

lemma params_set_other: "k \<noteq> k' \<Longrightarrow> filter (\<lambda>p. fst p \<noteq> k) (params_set k' v ps) = params_set k' v (filter (\<lambda>p. fst p \<noteq> k) ps)"
  by (induction k' v ps rule: params_set.induct) (auto intro: filter_cong)

lemma params_set_same: "filter (\<lambda>p. fst p \<noteq> k) (params_set k v ps) = filter (\<lambda>p. fst p \<noteq> k) ps"
  by (induction k v ps rule: params_set.induct) auto

lemma opt_param_other:
  "k \<noteq> k' \<Longrightarrow> filter (\<lambda>p. fst p \<noteq> k) (opt_param k' v ps) = opt_param k' v (filter (\<lambda>p. fst p \<noteq> k) ps)"
  by (simp add: opt_param_def params_set_other)

lemma filter_params_fresh:
  "k \<notin> {kn, ''from'', ''to'', ''org_id'', ''user_id''} \<Longrightarrow> filter (\<lambda>p. fst p \<noteq> k) (filter_params kn wo f) = filter_params kn wo f"
  by (cases wo) (simp_all add: filter_params_def opt_param_other)

text \<open>What the hub reads from the list's request are the filters, the size and the offset of the shown page; from the
  export's request it reads the same filters and nothing else.\<close>

theorem export_matches_the_list:
  "params_parse (query_of (''/instance/audit'' @ audit_query s)) = audit_params s
   \<and> params_parse (export_query s) = filter (\<lambda>p. fst p \<noteq> ''limit'') (filter (\<lambda>p. fst p \<noteq> ''offset'') (audit_params s))
   \<and> params_get (audit_params s) ''offset'' = Some (nat_str (audit_safe_page s * ad_size s))
   \<and> params_get (audit_params s) ''action'' = (if sf_kind (ad_filters s) = [] then None else Some (sf_kind (ad_filters s)))"
proof (intro conjI)
  show "params_parse (query_of (''/instance/audit'' @ audit_query s)) = audit_params s"
    using query_of_append [of "''/instance/audit''" "params_to_string (audit_params s)"]
    by (simp add: audit_query_def params_parse_to_string)
  have "filter (\<lambda>p. fst p \<noteq> ''limit'') (filter (\<lambda>p. fst p \<noteq> ''offset'') (audit_params s)) = filter_params ''action'' True (ad_filters s)"
    by (simp add: audit_params_def params_set_same params_set_other filter_params_fresh)
  then show "params_parse (export_query s) = filter (\<lambda>p. fst p \<noteq> ''limit'') (filter (\<lambda>p. fst p \<noteq> ''offset'') (audit_params s))"
    by (simp only: export_query_def params_parse_to_string)
qed (simp_all add: audit_params_def filter_params_get)

section \<open>Labels, snapshots and pauses\<close>

text \<open>No two actions share a label; a text that was not cut is the payload.\<close>

lemma audit_labels_differ: "distinct (map audit_action_key audit_actions)"
  by (simp add: audit_actions_def audit_action_key_def)

lemma payload_reads_back:
  "format_payload (Some j) = Some (t, False) \<Longrightarrow> json_plain j \<Longrightarrow> json_parse t = Some j"
  by (auto simp: format_payload_def json_parse_stringify Let_def split: if_splits)

lemma gone_snapshot_is_silent:
  assumes "\<not> sq_open s"
  shows "snapshot_tick s = s \<and> sq_snapshot (snapshot_arrives r s) = sq_snapshot s \<and> events (snapshot_arrives r s) = events s
    \<and> \<not> sq_open (snapshot_arrives r s)"
  using assms by (simp add: snapshot_tick_def snapshot_arrives_def)

lemma org_users_settle:
  "case org_users_refresh enabled r s of (res, s') \<Rightarrow> res = Inr (ou_users s') \<and> (enabled \<longrightarrow> \<not> ou_loading s')"
  by (cases r) (simp_all add: org_users_refresh_def run_simps show_error_def emit_def)

text \<open>Nothing shows while the pauses are short; the pause that is long enough shows the last value.\<close>

definition short_pauses :: "nat \<Rightarrow> ('v \<times> nat) list \<Rightarrow> bool" where
  "short_pauses delay xs \<longleftrightarrow> list_all (\<lambda>x. snd x < delay) xs \<and> distinct_adj (map fst xs)"

lemma debounce_step:
  assumes "ms < delay" "v \<noteq> db_value b"
  shows "db_shown (debounce_elapse ms (debounce_set delay v b)) = db_shown b"
    "db_value (debounce_elapse ms (debounce_set delay v b)) = v"
  using assms by (simp_all add: debounce_set_def debounce_elapse_def)

lemma debounce_burst:
  assumes "short_pauses delay xs" "xs \<noteq> [] \<longrightarrow> fst (hd xs) \<noteq> db_value b"
  shows "db_shown (debounce_type delay xs b) = db_shown b
    \<and> db_value (debounce_type delay xs b) = (if xs = [] then db_value b else fst (last xs))"
  using assms
proof (induction delay xs b rule: debounce_type.induct)
  case (2 delay v ms xs b)
  from "2.prems" have step: "ms < delay" "v \<noteq> db_value b" by (simp_all add: short_pauses_def)
  from "2.prems"(1) have rest: "short_pauses delay xs" "xs \<noteq> [] \<longrightarrow> fst (hd xs) \<noteq> v"
    by (auto simp: short_pauses_def distinct_adj_Cons hd_map)
  show ?case using "2.IH" rest debounce_step [OF step] by simp
qed simp

theorem debounce_shows_the_last:
  assumes "short_pauses delay xs" "v \<noteq> fst (last xs)" "xs \<noteq> []" "fst (hd xs) \<noteq> db_value b" "delay \<le> ms"
  shows "db_shown (debounce_type delay xs b) = db_shown b
    \<and> db_shown (debounce_elapse ms (debounce_set delay v (debounce_type delay xs b))) = v"
  using debounce_burst [of delay xs b] assms by (simp add: debounce_set_def debounce_elapse_def)

end
