(* ===== verification/Encryption.thy ===== *)
theory Encryption
  imports Stats
begin

text \<open>
  The keys of the hub and their re-encryption job (\<open>pages/security/EncryptionTab.tsx\<close>,
  \<open>security/cryptoReencrypt.ts\<close>): a step relation over clicks, the timer that asks every two seconds while the shown job
  is not finished, and answers in any order. A handler that waits is \<open>en_run\<close>; the buttons are dead until it is answered.
\<close>

section \<open>Keys and jobs\<close>

record dek =
  dk_id :: string
  dk_status :: string
  dk_created_at :: string
  dk_usage_count :: int

record dek_list =
  dl_active_dek_id :: "string option"
  dl_items :: "dek list option"
  dl_running_job_id :: "string option"
  dl_pending_rewrap :: int
  dl_prev_configured :: bool
  dl_reencrypt_available :: "bool option"

record table_progress =
  tb_total :: "int option"
  tb_done :: "int option"

record encryption_job =
  ej_id :: string
  ej_status :: string
  ej_tables :: "(string \<times> table_progress) list option"
  ej_error :: "string option"
  ej_started_at :: "string option"
  ej_completed_at :: "string option"
  ej_created_at :: string

definition status_unfinished :: "string \<Rightarrow> bool" where
  "status_unfinished st \<longleftrightarrow> st = ''queued'' \<or> st = ''running''"

definition is_crypto_reencrypt_job_running :: "dek_list option \<Rightarrow> string option \<Rightarrow> bool" where
  "is_crypto_reencrypt_job_running ds st =
     (if truthy (Option.bind ds dl_running_job_id) then True
      else (case st of None \<Rightarrow> False | Some x \<Rightarrow> status_unfinished x))"

definition dek_items :: "dek_list option \<Rightarrow> dek list" where
  "dek_items ds = nullish (Option.bind ds dl_items) []"

definition can_start_crypto_reencrypt :: "dek_list option \<Rightarrow> bool" where
  "can_start_crypto_reencrypt ds =
     (if length (dek_items ds) \<le> 1 then False
      else nullish (Option.bind ds dl_reencrypt_available) (list_ex (\<lambda>d. dk_status d = ''retiring'') (dek_items ds)))"

definition active_dek :: "dek_list option \<Rightarrow> dek option" where
  "active_dek ds =
     (if truthy (Option.bind ds dl_active_dek_id)
      then find (\<lambda>d. Some (dk_id d) = Option.bind ds dl_active_dek_id) (dek_items ds) else None)"

definition dek_status_badge :: "translate \<Rightarrow> string \<Rightarrow> string" where
  "dek_status_badge tr st = tr_or tr (''encryption.statusValue.'' @ st) [] st"

definition dek_tone :: "string \<Rightarrow> badge_tone" where
  "dek_tone st = (if st = ''active'' then ToneSuccess else if st = ''retiring'' then TonePending else ToneMuted)"

definition job_tone :: "string \<Rightarrow> badge_tone" where
  "job_tone st =
     (if st = ''completed'' then ToneSuccess else if st = ''failed'' \<or> st = ''canceled'' then ToneWarning else TonePending)"

text \<open>\<open>num\<close> is \<open>formatInteger\<close>; the parts are joined by a middle dot.\<close>

definition table_parts :: "(int \<Rightarrow> string) \<Rightarrow> (string \<times> table_progress) list \<Rightarrow> string list" where
  "table_parts num ts =
     map (\<lambda>(k, v). k @ '': '' @ num (nullish (tb_done v) 0) @ ''/'' @ num (nullish (tb_total v) 0))
       (filter (\<lambda>(k, v). 0 < nullish (tb_total v) 0 \<or> 0 < nullish (tb_done v) 0) ts)"

definition progress_label :: "translate \<Rightarrow> (int \<Rightarrow> string) \<Rightarrow> encryption_job \<Rightarrow> string" where
  "progress_label tr num j =
     (case ej_tables j of
        None \<Rightarrow> dek_status_badge tr (ej_status j)
      | Some ts \<Rightarrow>
          (let ps = table_parts num ts in
           if ps \<noteq> [] then join [CHR 0x20, CHR 0xB7, CHR 0x20] ps else dek_status_badge tr (ej_status j)))"

section \<open>The tab\<close>

datatype get_flight = GetDeks | GetLatest | PollLatest

datatype tab_run = AddDek | StartJob | CancelJob string

record encryption_tab = browser +
  en_deks :: "dek_list option"
  en_job :: "encryption_job option"
  en_busy :: bool
  en_flights :: "get_flight list"
  en_run :: "tab_run option"

definition deks_path :: string where
  "deks_path = ''/instance/crypto/deks''"

definition reencrypt_path :: string where
  "reencrypt_path = ''/instance/crypto/reencrypt''"

definition latest_path :: string where
  "latest_path = ''/instance/crypto/reencrypt/latest''"

definition load_keys :: "'z encryption_tab_scheme \<Rightarrow> 'z encryption_tab_scheme" where
  "load_keys s =
     emits [EvRequest ''GET'' deks_path None, EvRequest ''GET'' latest_path None]
       (s\<lparr>en_flights := en_flights s @ [GetDeks, GetLatest]\<rparr>)"

definition encryption_mounted :: encryption_tab where
  "encryption_mounted =
     load_keys \<lparr>local_store = Map.empty, session_store = Map.empty, events = [], en_deks = None, en_job = None, en_busy = False,
       en_flights = [], en_run = None\<rparr>"

definition job_unfinished :: "encryption_job option \<Rightarrow> bool" where
  "job_unfinished j \<longleftrightarrow> (case j of None \<Rightarrow> False | Some x \<Rightarrow> status_unfinished (ej_status x))"

text \<open>The timer lives while the shown job is unfinished.\<close>

definition poll_tick :: "'z encryption_tab_scheme \<Rightarrow> 'z encryption_tab_scheme" where
  "poll_tick s = emit (EvRequest ''GET'' latest_path None) (s\<lparr>en_flights := en_flights s @ [PollLatest]\<rparr>)"

definition job_running :: "'z encryption_tab_scheme \<Rightarrow> bool" where
  "job_running s = is_crypto_reencrypt_job_running (en_deks s) (map_option ej_status (en_job s))"

definition key_arrives ::
  "nat \<Rightarrow> exn + dek_list \<Rightarrow> exn + encryption_job option \<Rightarrow> 'z encryption_tab_scheme \<Rightarrow> 'z encryption_tab_scheme" where
  "key_arrives k dr jr s =
     (let s1 = s\<lparr>en_flights := drop_nth k (en_flights s)\<rparr> in
      case en_flights s ! k of
        GetDeks \<Rightarrow> (case dr of Inr d \<Rightarrow> s1\<lparr>en_deks := Some d\<rparr> | Inl e \<Rightarrow> emit (EvToast e None) s1)
      | GetLatest \<Rightarrow> (case jr of Inr j \<Rightarrow> s1\<lparr>en_job := j\<rparr> | Inl e \<Rightarrow> emit (EvToast e None) s1)
      | PollLatest \<Rightarrow>
          (case jr of
             Inr j \<Rightarrow>
               (let s2 = s1\<lparr>en_job := j\<rparr> in if j \<noteq> None \<and> \<not> job_unfinished j then load_keys s2 else s2)
           | Inl e \<Rightarrow> emit (EvToast e None) s1))"

definition add_disabled :: "'z encryption_tab_scheme \<Rightarrow> bool" where
  "add_disabled s \<longleftrightarrow> en_busy s \<or> job_running s"

definition start_disabled :: "'z encryption_tab_scheme \<Rightarrow> bool" where
  "start_disabled s \<longleftrightarrow> en_busy s \<or> job_running s \<or> \<not> can_start_crypto_reencrypt (en_deks s)"

definition cancel_shown :: "'z encryption_tab_scheme \<Rightarrow> bool" where
  "cancel_shown s \<longleftrightarrow> en_job s \<noteq> None \<and> job_running s"

definition add_dek :: "'z encryption_tab_scheme \<Rightarrow> 'z encryption_tab_scheme" where
  "add_dek s = emit (EvRequest ''POST'' deks_path None) (s\<lparr>en_busy := True, en_run := Some AddDek\<rparr>)"

definition start_reencrypt :: "'z encryption_tab_scheme \<Rightarrow> 'z encryption_tab_scheme" where
  "start_reencrypt s = emit (EvRequest ''POST'' reencrypt_path None) (s\<lparr>en_busy := True, en_run := Some StartJob\<rparr>)"

definition cancel_request :: "string \<Rightarrow> event" where
  "cancel_request i = EvRequest ''POST'' (reencrypt_path @ ''/'' @ i @ ''/cancel'') None"

definition cancel_job :: "'z encryption_tab_scheme \<Rightarrow> 'z encryption_tab_scheme" where
  "cancel_job s =
     (case en_job s of
        None \<Rightarrow> s
      | Some j \<Rightarrow> emit (cancel_request (ej_id j)) (s\<lparr>en_busy := True, en_run := Some (CancelJob (ej_id j))\<rparr>))"

text \<open>The rest of a waiting handler; \<open>r\<close> carries the job for a start.\<close>

definition run_answer :: "exn + encryption_job \<Rightarrow> 'z encryption_tab_scheme \<Rightarrow> 'z encryption_tab_scheme" where
  "run_answer r s =
     (let s1 = (case (en_run s, r) of
          (None, _) \<Rightarrow> s
        | (Some _, Inl e) \<Rightarrow> emit (EvToast e None) s
        | (Some StartJob, Inr j) \<Rightarrow> load_keys (s\<lparr>en_job := Some j\<rparr>)
        | (Some _, Inr _) \<Rightarrow> load_keys s) in
      s1\<lparr>en_busy := False, en_run := None\<rparr>)"

inductive encryption_step :: "'z encryption_tab_scheme \<Rightarrow> 'z encryption_tab_scheme \<Rightarrow> bool" where
  es_tick: "job_unfinished (en_job s) \<Longrightarrow> encryption_step s (poll_tick s)"
| es_arrive: "k < length (en_flights s) \<Longrightarrow> encryption_step s (key_arrives k dr jr s)"
| es_add: "\<not> add_disabled s \<Longrightarrow> encryption_step s (add_dek s)"
| es_start: "\<not> start_disabled s \<Longrightarrow> encryption_step s (start_reencrypt s)"
| es_cancel: "cancel_shown s \<Longrightarrow> \<not> en_busy s \<Longrightarrow> encryption_step s (cancel_job s)"
| es_answer: "en_run s \<noteq> None \<Longrightarrow> encryption_step s (run_answer r s)"

inductive encryption_reach :: "encryption_tab \<Rightarrow> bool" where
  er_mounted: "encryption_reach encryption_mounted"
| er_step: "encryption_reach s \<Longrightarrow> encryption_step s t \<Longrightarrow> encryption_reach t"

inductive_cases encryption_stepE: "encryption_step s t"

section \<open>The tab is never locked for good by its own handlers\<close>

lemma load_keys_fields [simp]:
  "en_deks (load_keys s) = en_deks s" "en_job (load_keys s) = en_job s" "en_busy (load_keys s) = en_busy s"
  "en_run (load_keys s) = en_run s" "en_flights (load_keys s) = en_flights s @ [GetDeks, GetLatest]"
  by (simp_all add: load_keys_def emits_def emit_def)

lemma emit_en [simp]:
  "en_deks (emit e s) = en_deks s" "en_job (emit e s) = en_job s" "en_busy (emit e s) = en_busy s"
  "en_run (emit e s) = en_run s" "en_flights (emit e s) = en_flights s"
  by (simp_all add: emit_def)

lemma key_arrives_frame [simp]:
  "en_busy (key_arrives k dr jr s) = en_busy s" "en_run (key_arrives k dr jr s) = en_run s"
  by (simp_all add: key_arrives_def Let_def split: get_flight.splits sum.splits)

lemma run_answer_frees [simp]: "\<not> en_busy (run_answer r s)" "en_run (run_answer r s) = None"
  by (simp_all add: run_answer_def Let_def)

lemma busy_step: "encryption_step s t \<Longrightarrow> en_busy s = (en_run s \<noteq> None) \<Longrightarrow> en_busy t = (en_run t \<noteq> None)"
  by (induction rule: encryption_step.induct)
    (auto simp: poll_tick_def add_dek_def start_reencrypt_def cancel_job_def split: option.splits)

lemma busy_waits: "encryption_reach s \<Longrightarrow> en_busy s = (en_run s \<noteq> None)"
  by (induction rule: encryption_reach.induct) (auto simp: encryption_mounted_def busy_step)

section \<open>What starts, what is followed\<close>

lemma key_arrives_events:
  "\<exists>new. events (key_arrives k dr jr s) = events s @ new \<and> EvRequest ''POST'' reencrypt_path None \<notin> set new"
  by (auto simp: key_arrives_def load_keys_def emits_def emit_def Let_def split: get_flight.splits sum.splits)

lemma run_answer_events:
  "\<exists>new. events (run_answer r s) = events s @ new \<and> EvRequest ''POST'' reencrypt_path None \<notin> set new"
  by (auto simp: run_answer_def load_keys_def emits_def emit_def Let_def split: option.splits sum.splits tab_run.splits)

lemma not_start_request [simp]:
  "cancel_request i \<noteq> EvRequest ''POST'' reencrypt_path None"
  "EvRequest ''POST'' reencrypt_path None \<noteq> cancel_request i"
  by (simp_all add: cancel_request_def)

text \<open>A re-encryption is only asked for by a free tab that knows of more than one key and of no running job.\<close>

theorem start_is_guarded:
  assumes "encryption_reach s" "encryption_step s t"
    and "events t = events s @ new" "EvRequest ''POST'' reencrypt_path None \<in> set new"
  shows "en_run s = None \<and> \<not> truthy (Option.bind (en_deks s) dl_running_job_id) \<and> \<not> job_unfinished (en_job s)
    \<and> 1 < length (dek_items (en_deks s)) \<and> en_run t = Some StartJob \<and> start_disabled t"
  using assms(2)
proof (cases rule: encryption_step.cases)
  case es_start
  then show ?thesis using busy_waits [OF assms(1)]
    by (auto simp: start_disabled_def job_running_def is_crypto_reencrypt_job_running_def can_start_crypto_reencrypt_def
        job_unfinished_def start_reencrypt_def split: if_splits option.splits)
next
  case (es_arrive k dr jr)
  then show ?thesis using key_arrives_events [of k dr jr s] assms(3,4) by auto
next
  case (es_answer r)
  then show ?thesis using run_answer_events [of r s] assms(3,4) by auto
next
  case es_cancel
  then show ?thesis using assms(3,4) by (auto simp: cancel_job_def emit_def split: option.splits)
qed (use assms(3,4) in \<open>auto simp: poll_tick_def add_dek_def emit_def deks_path_def latest_path_def reencrypt_path_def\<close>)

text \<open>While the shown job is unfinished the tab asks, and the answer that it finished ends the asking and reloads.\<close>

theorem finished_job_is_noticed:
  assumes "job_unfinished (en_job s)" "\<not> job_unfinished (Some j)"
    and t_def: "t = poll_tick s" and u_def: "u = key_arrives (length (en_flights s)) dr (Inr (Some j)) t"
  shows "encryption_step s t \<and> encryption_step t u \<and> en_job u = Some j \<and> \<not> job_unfinished (en_job u)
    \<and> en_flights u = en_flights s @ [GetDeks, GetLatest]"
proof -
  have "encryption_step s t" unfolding t_def by (rule es_tick) (rule assms(1))
  moreover have "encryption_step t u" unfolding t_def u_def by (rule es_arrive) (simp add: poll_tick_def)
  moreover have "en_job u = Some j \<and> en_flights u = en_flights s @ [GetDeks, GetLatest]"
    using assms(2) by (simp add: u_def t_def key_arrives_def poll_tick_def drop_nth_def Let_def)
  ultimately show ?thesis using assms(2) by simp
qed

text \<open>The timer looks at the job alone. If the list of keys names a running job and the job itself did not load, nothing
  moves any more: every button is dead or hidden, and nothing is asked.\<close>

theorem unseen_job_locks_the_tab:
  assumes "en_job s = None" "truthy (Option.bind (en_deks s) dl_running_job_id)" "en_flights s = []" "en_run s = None"
  shows "\<not> encryption_step s t"
proof
  assume "encryption_step s t"
  then show False
    by (cases rule: encryption_stepE)
      (use assms in \<open>auto simp: job_unfinished_def add_disabled_def start_disabled_def job_running_def
        is_crypto_reencrypt_job_running_def cancel_shown_def\<close>)
qed

definition keys_of_job :: "string \<Rightarrow> dek_list" where
  "keys_of_job i = \<lparr>dl_active_dek_id = None, dl_items = None, dl_running_job_id = Some i, dl_pending_rewrap = 0,
     dl_prev_configured = False, dl_reencrypt_available = None\<rparr>"

lemma unseen_job_happens:
  "\<exists>s. encryption_reach s \<and> en_job s = None \<and> truthy (Option.bind (en_deks s) dl_running_job_id) \<and> en_flights s = [] \<and> en_run s = None"
proof -
  let ?d = "keys_of_job ''j''"
  let ?a = "key_arrives 0 (Inr ?d) (Inl (JsError ''x'')) encryption_mounted"
  let ?b = "key_arrives 0 (Inr ?d) (Inl (JsError ''x'')) ?a"
  have f: "en_flights encryption_mounted = [GetDeks, GetLatest]" "en_job encryption_mounted = None" "en_run encryption_mounted = None"
    by (simp_all add: encryption_mounted_def)
  have a: "en_flights ?a = [GetLatest]" "en_deks ?a = Some ?d" "en_job ?a = None" "en_run ?a = None"
    using f by (simp_all add: key_arrives_def drop_nth_def)
  have "encryption_reach ?a" by (rule er_step [OF er_mounted], rule es_arrive) (simp add: f)
  then have "encryption_reach ?b" by (rule er_step, intro es_arrive) (simp add: a)
  moreover have "en_flights ?b = [] \<and> en_deks ?b = Some ?d \<and> en_job ?b = None \<and> en_run ?b = None"
    using a by (simp add: key_arrives_def drop_nth_def)
  ultimately show ?thesis by (intro exI [of _ ?b]) (simp add: keys_of_job_def truthy_def)
qed

text \<open>An answer that was overtaken puts an old job back: the timer stops, and the cancel button, which the list of keys
  keeps alive, cancels the old job instead of the running one.\<close>

theorem overtaken_job_is_cancelled:
  assumes "en_flights s = GetLatest # fs" "en_run s = None" "\<not> en_busy s"
    and "Option.bind (en_deks s) dl_running_job_id = Some i" "i \<noteq> []" "\<not> job_unfinished (Some old)"
    and t_def: "t = key_arrives 0 dr (Inr (Some old)) s"
  shows "\<not> job_unfinished (en_job t) \<and> encryption_step t (cancel_job t)
    \<and> last (events (cancel_job t)) = cancel_request (ej_id old)"
proof -
  have t: "en_job t = Some old" "en_deks t = en_deks s" "\<not> en_busy t"
    using assms(1,3) by (simp_all add: t_def key_arrives_def)
  have "cancel_shown t"
    using t assms(4,5) by (simp add: cancel_shown_def job_running_def is_crypto_reencrypt_job_running_def truthy_def)
  then have "encryption_step t (cancel_job t)" using t(3) by (rule es_cancel)
  then show ?thesis using t assms(6) by (simp add: cancel_job_def emit_def)
qed

text \<open>With no key that could be taken over, or only one, nothing can be started.\<close>

lemma one_key_starts_nothing:
  "length (dek_items ds) \<le> 1 \<Longrightarrow> \<not> can_start_crypto_reencrypt ds"
  by (simp add: can_start_crypto_reencrypt_def)

lemma active_dek_is_listed: "active_dek ds = Some d \<Longrightarrow> d \<in> set (dek_items ds) \<and> Option.bind ds dl_active_dek_id = Some (dk_id d)"
  by (auto simp: active_dek_def find_Some_iff split: if_splits)

end
