(* ===== verification/Telegram.thy ===== *)
theory Telegram
  imports Instance_Orgs Js_Date
begin

text \<open>
  Linking the bot to an account: the provider \<open>context/meTelegram.tsx\<close> as a step relation over focus, timer and answers
  in any order, the section of the profile page (\<open>pages/profile/ProfileTelegramSection.tsx\<close>) with its effects, the prompt in
  the shell (\<open>shell/telegramPrompt.ts\<close>); the set-up of a second factor (\<open>components/MfaSetupPanel.tsx\<close>) and the page of a
  single sign-on (\<open>pages/SsoLoginPage.tsx\<close>). Web storage does not throw. \<open>tg_notices\<close> are the keys of the toasts that say
  something worked.
\<close>

section \<open>The provider\<close>

record telegram_status =
  ts_bot_enabled :: bool
  ts_bot_revision :: "int option"
  ts_bot_instance_id :: "int option"
  ts_bot_username :: "string option"
  ts_bot_url :: "string option"
  ts_linked :: bool
  ts_linked_at :: "string option"

text \<open>A refresh that waits: its options, whether it asks a second time, and who waits for it.\<close>

datatype follow = NoFollow | LinkCreated | Unlinked

record refresh_flight =
  rf_toast :: bool
  rf_fresh :: bool
  rf_second :: bool
  rf_follow :: follow

text \<open>\<open>tg_bot\<close> and \<open>tg_rev\<close> are references: \<open>None\<close> before the first status.\<close>

record telegram = browser +
  tg_member :: bool
  tg_status :: "telegram_status option"
  tg_awaiting :: bool
  tg_linked_ref :: bool
  tg_bot :: "int option option"
  tg_rev :: "int option"
  tg_flights :: "refresh_flight list"
  tg_notices :: "string list"

definition awaiting_key :: string where
  "awaiting_key = ''idigest:telegram-link-awaiting''"

definition read_link_awaiting :: "'z telegram_scheme \<Rightarrow> bool" where
  "read_link_awaiting s \<longleftrightarrow> session_get s awaiting_key = Some ''1''"

definition set_link_awaiting_bot :: "bool \<Rightarrow> 'z telegram_scheme \<Rightarrow> 'z telegram_scheme" where
  "set_link_awaiting_bot b s =
     (if b then session_set awaiting_key ''1'' s else session_remove awaiting_key s)\<lparr>tg_awaiting := b\<rparr>"

definition telegram_status_path :: "bool \<Rightarrow> string" where
  "telegram_status_path fresh = (if fresh then ''/me/telegram?fresh=1'' else ''/me/telegram'')"

definition bot_revision :: "telegram_status \<Rightarrow> int" where
  "bot_revision d = nullish (ts_bot_revision d) 0"

definition notice :: "string \<Rightarrow> 'z telegram_scheme \<Rightarrow> 'z telegram_scheme" where
  "notice k s = s\<lparr>tg_notices := tg_notices s @ [k]\<rparr>"

definition apply_status :: "telegram_status \<Rightarrow> bool \<Rightarrow> 'z telegram_scheme \<Rightarrow> 'z telegram_scheme" where
  "apply_status d toast s =
     (let was = tg_linked_ref s; prev_bot = tg_bot s; prev_rev = tg_rev s;
          s1 = s\<lparr>tg_linked_ref := ts_linked d, tg_bot := Some (ts_bot_instance_id d), tg_rev := Some (bot_revision d)\<rparr>;
          s2 = (if prev_bot \<noteq> None \<and> prev_bot \<noteq> Some (ts_bot_instance_id d) then set_link_awaiting_bot False s1 else s1);
          s3 = (if prev_rev \<noteq> None \<and> prev_rev \<noteq> Some (bot_revision d) then set_link_awaiting_bot False s2 else s2);
          s4 = s3\<lparr>tg_status := Some d\<rparr>;
          s5 = (if ts_linked d then set_link_awaiting_bot False s4 else s4) in
      if toast \<and> \<not> was \<and> ts_linked d then notice ''profile.telegramLinked'' s5 else s5)"

definition forget_telegram :: "'z telegram_scheme \<Rightarrow> 'z telegram_scheme" where
  "forget_telegram s = s\<lparr>tg_status := None, tg_linked_ref := False, tg_bot := None, tg_rev := None\<rparr>"

definition telegram_request :: "refresh_flight \<Rightarrow> event" where
  "telegram_request f = EvRequest ''GET'' (telegram_status_path (rf_fresh f \<or> rf_second f)) None"

definition start_refresh :: "bool \<Rightarrow> bool \<Rightarrow> follow \<Rightarrow> 'z telegram_scheme \<Rightarrow> 'z telegram_scheme" where
  "start_refresh toast fresh fw s =
     (let f = \<lparr>rf_toast = toast, rf_fresh = fresh, rf_second = False, rf_follow = fw\<rparr> in
      if tg_member s then emit (telegram_request f) (s\<lparr>tg_flights := tg_flights s @ [f]\<rparr>) else forget_telegram s)"

text \<open>An answer: a changed revision is asked for again, fresh; a refusal is swallowed. The result is whether the refresh
  is over.\<close>

definition refresh_answer :: "nat \<Rightarrow> exn + telegram_status \<Rightarrow> 'z telegram_scheme \<Rightarrow> 'z telegram_scheme \<times> bool" where
  "refresh_answer k r s =
     (let f = tg_flights s ! k; s1 = s\<lparr>tg_flights := drop_nth k (tg_flights s)\<rparr> in
      case r of
        Inl _ \<Rightarrow> (s1, True)
      | Inr d \<Rightarrow>
          if \<not> rf_second f \<and> \<not> rf_fresh f \<and> tg_rev s \<noteq> None \<and> tg_rev s \<noteq> Some (bot_revision d)
          then (let g = f\<lparr>rf_second := True\<rparr> in
            (emit (telegram_request g) (s1\<lparr>tg_flights := tg_flights s1 @ [g]\<rparr>), False))
          else (apply_status d (rf_toast f) s1, True))"

definition awaiting_bot_link :: "'z telegram_scheme \<Rightarrow> bool" where
  "awaiting_bot_link s \<longleftrightarrow> tg_awaiting s \<and> \<not> (case tg_status s of Some d \<Rightarrow> ts_linked d | None \<Rightarrow> False)"

text \<open>The effect on membership, at mount and when it changes.\<close>

definition member_effect :: "bool \<Rightarrow> 'z telegram_scheme \<Rightarrow> 'z telegram_scheme" where
  "member_effect m s =
     (let s0 = s\<lparr>tg_member := m\<rparr> in
      if \<not> m then forget_telegram (set_link_awaiting_bot False s0)
      else start_refresh False False NoFollow (if read_link_awaiting s0 then s0\<lparr>tg_awaiting := True\<rparr> else s0))"

definition telegram_mounted :: "(string \<rightharpoonup> string) \<Rightarrow> bool \<Rightarrow> telegram" where
  "telegram_mounted session m =
     member_effect m
       \<lparr>local_store = Map.empty, session_store = session, events = [], tg_member = m, tg_status = None, tg_awaiting = False,
        tg_linked_ref = False, tg_bot = None, tg_rev = None, tg_flights = [], tg_notices = []\<rparr>"

definition on_focus :: "'z telegram_scheme \<Rightarrow> 'z telegram_scheme" where
  "on_focus s = start_refresh (awaiting_bot_link s) False NoFollow s"

definition link_tick :: "'z telegram_scheme \<Rightarrow> 'z telegram_scheme" where
  "link_tick s = start_refresh True False NoFollow s"

text \<open>\<open>null\<close> until the first status; the value of the context.\<close>

definition telegram_linked :: "'z telegram_scheme \<Rightarrow> bool option" where
  "telegram_linked s = (if tg_member s then map_option ts_linked (tg_status s) else None)"

definition shell_shows_telegram_prompt :: "me option \<Rightarrow> telegram_status option \<Rightarrow> bool" where
  "shell_shows_telegram_prompt m st \<longleftrightarrow>
     (case m of
        None \<Rightarrow> False
      | Some x \<Rightarrow> me_org x \<noteq> None \<and> nullish (user_shell_show_telegram (me_user x)) True
          \<and> (case st of None \<Rightarrow> False | Some d \<Rightarrow> ts_bot_enabled d \<and> \<not> ts_linked d))"

inductive telegram_step :: "telegram \<Rightarrow> telegram \<Rightarrow> bool" where
  te_member: "telegram_step s (member_effect m s)"
| te_focus: "tg_member s \<Longrightarrow> telegram_step s (on_focus s)"
| te_tick: "awaiting_bot_link s \<Longrightarrow> telegram_step s (link_tick s)"
| te_refresh: "telegram_step s (start_refresh toast fresh fw s)"
| te_await: "telegram_step s (set_link_awaiting_bot b s)"
| te_answer: "k < length (tg_flights s) \<Longrightarrow> telegram_step s (fst (refresh_answer k r s))"

inductive telegram_reach :: "(string \<rightharpoonup> string) \<Rightarrow> bool \<Rightarrow> telegram \<Rightarrow> bool" for session m where
  tr_mounted: "telegram_reach session m (telegram_mounted session m)"
| tr_step: "telegram_reach session m s \<Longrightarrow> telegram_step s t \<Longrightarrow> telegram_reach session m t"

section \<open>The section of the profile page\<close>

record telegram_link =
  tk_code :: string
  tk_expires_at :: string
  tk_start_command :: string
  tk_bot_username :: "string option"
  tk_bot_url :: "string option"

text \<open>\<open>tp_prev_bot\<close> is a reference, \<open>None\<close> before the section's first effect.\<close>

record telegram_section = telegram +
  tp_link :: "telegram_link option"
  tp_busy :: bool
  tp_prev_bot :: "int option option"

definition status_bot :: "'z telegram_scheme \<Rightarrow> int option" where
  "status_bot s = Option.bind (tg_status s) ts_bot_instance_id"

text \<open>The three effects after a render; \<open>s0\<close> is the state of the render before, \<open>None\<close> at mount. They all see the values
  of this render.\<close>

definition linked_effect :: "'z telegram_section_scheme option \<Rightarrow> 'z telegram_section_scheme \<Rightarrow> 'z telegram_section_scheme" where
  "linked_effect s0 s =
     (let dep = (\<lambda>x. map_option ts_linked (tg_status x)) in
      if map_option dep s0 \<noteq> Some (dep s) \<and> dep s = Some True then s\<lparr>tp_link := None\<rparr> else s)"

definition bot_effect :: "'z telegram_section_scheme option \<Rightarrow> 'z telegram_section_scheme \<Rightarrow> 'z telegram_section_scheme" where
  "bot_effect s0 s =
     (let dep = (\<lambda>x. map_option ts_bot_instance_id (tg_status x)); cur = status_bot s in
      if map_option dep s0 = Some (dep s) then s
      else (if tp_prev_bot s \<noteq> None \<and> tp_prev_bot s \<noteq> Some cur
            then set_link_awaiting_bot False (s\<lparr>tp_link := None\<rparr>) else s)\<lparr>tp_prev_bot := Some cur\<rparr>)"

definition name_effect ::
  "'z telegram_section_scheme option \<Rightarrow> telegram_link option \<Rightarrow> 'z telegram_section_scheme \<Rightarrow> 'z telegram_section_scheme" where
  "name_effect s0 lk s =
     (let names = (\<lambda>st l. (Option.bind st ts_bot_username, Option.bind l tk_bot_username)) in
      if map_option (\<lambda>x. names (tg_status x) (tp_link x)) s0 = Some (names (tg_status s) lk) then s
      else (case names (tg_status s) lk of
          (Some a, Some b) \<Rightarrow> if a \<noteq> [] \<and> b \<noteq> [] \<and> a \<noteq> b then s\<lparr>tp_link := None\<rparr> else s
        | _ \<Rightarrow> s))"

definition section_effects :: "'z telegram_section_scheme option \<Rightarrow> 'z telegram_section_scheme \<Rightarrow> 'z telegram_section_scheme" where
  "section_effects s0 s = name_effect s0 (tp_link s) (bot_effect s0 (linked_effect s0 s))"

text \<open>At mount the effects run on what is known, and a fresh status is asked for; then every 15 seconds while the page is
  visible.\<close>

definition section_mounted :: "'z telegram_section_scheme \<Rightarrow> 'z telegram_section_scheme" where
  "section_mounted s =
     section_effects None
       ((if tg_member s then start_refresh False True NoFollow else id) (s\<lparr>tp_link := None, tp_busy := False, tp_prev_bot := None\<rparr>))"

definition section_tick :: "bool \<Rightarrow> 'z telegram_section_scheme \<Rightarrow> 'z telegram_section_scheme" where
  "section_tick visible s = (if visible then start_refresh False False NoFollow s else s)"

fun follow_up :: "follow \<Rightarrow> 'z telegram_section_scheme \<Rightarrow> 'z telegram_section_scheme" where
  "follow_up NoFollow s = s"
| "follow_up LinkCreated s = (notice ''profile.telegramCodeOk'' s)\<lparr>tp_busy := False\<rparr>"
| "follow_up Unlinked s = (notice ''profile.telegramUnlinked'' s)\<lparr>tp_busy := False\<rparr>"

definition section_answer :: "nat \<Rightarrow> exn + telegram_status \<Rightarrow> 'z telegram_section_scheme \<Rightarrow> 'z telegram_section_scheme" where
  "section_answer k r s =
     (case refresh_answer k r s of (s1, over) \<Rightarrow>
        (let s2 = section_effects (Some s) s1 in if over then follow_up (rf_follow (tg_flights s ! k)) s2 else s2))"

definition create_link_disabled :: "'z telegram_section_scheme \<Rightarrow> bool" where
  "create_link_disabled s \<longleftrightarrow>
     tp_busy s \<or> \<not> (case tg_status s of None \<Rightarrow> False | Some d \<Rightarrow> ts_bot_enabled d \<and> \<not> ts_linked d)"

definition create_link_send :: "'z telegram_section_scheme \<Rightarrow> 'z telegram_section_scheme" where
  "create_link_send s = emit (EvRequest ''POST'' ''/me/telegram/link'' None) (s\<lparr>tp_busy := True\<rparr>)"

definition create_link_answer :: "exn + telegram_link \<Rightarrow> 'z telegram_section_scheme \<Rightarrow> 'z telegram_section_scheme" where
  "create_link_answer r s =
     (case r of
        Inl e \<Rightarrow> (emit (EvToast e None) s)\<lparr>tp_busy := False\<rparr>
      | Inr l \<Rightarrow> section_effects (Some s)
                 (start_refresh False False LinkCreated (set_link_awaiting_bot True (s\<lparr>tp_link := Some l\<rparr>))))"

definition unlink_send :: "'z telegram_section_scheme \<Rightarrow> 'z telegram_section_scheme" where
  "unlink_send s = emit (EvRequest ''DELETE'' ''/me/telegram'' None) (s\<lparr>tp_busy := True\<rparr>)"

definition unlink_answer :: "exn + unit \<Rightarrow> 'z telegram_section_scheme \<Rightarrow> 'z telegram_section_scheme" where
  "unlink_answer r s =
     (case r of
        Inl e \<Rightarrow> (emit (EvToast e None) s)\<lparr>tp_busy := False\<rparr>
      | Inr _ \<Rightarrow> section_effects (Some s)
                 (start_refresh False False Unlinked (set_link_awaiting_bot False (s\<lparr>tp_link := None\<rparr>))))"

definition shown_bot_username :: "'z telegram_section_scheme \<Rightarrow> string option" where
  "shown_bot_username s =
     (case Option.bind (tg_status s) ts_bot_username of Some n \<Rightarrow> Some n | None \<Rightarrow> Option.bind (tp_link s) tk_bot_username)"

definition shown_bot_url :: "'z telegram_section_scheme \<Rightarrow> string option" where
  "shown_bot_url s =
     (case Option.bind (tg_status s) ts_bot_url of
        Some u \<Rightarrow> Some u
      | None \<Rightarrow>
          (case Option.bind (tp_link s) tk_bot_url of
             Some u \<Rightarrow> Some u
           | None \<Rightarrow> if truthy (shown_bot_username s) then Some (''https://t.me/'' @ str_or_empty (shown_bot_username s)) else None))"

section \<open>Setting up a second factor\<close>

record mfa_setup = browser +
  ms_secret :: "string option"
  ms_uri :: "string option"
  ms_code :: string
  ms_recovery :: "string list option"
  ms_busy :: bool

datatype mfa_view = MfaRecovery "string list" | MfaForm string bool | MfaButton bool

definition mfa_code_ready :: "string \<Rightarrow> bool" where
  "mfa_code_ready c \<longleftrightarrow> 6 \<le> length (filter (\<lambda>x. \<not> is_ws x) c)"

definition mfa_view_of :: "'z mfa_setup_scheme \<Rightarrow> mfa_view" where
  "mfa_view_of s =
     (case ms_recovery s of
        Some codes \<Rightarrow> MfaRecovery codes
      | None \<Rightarrow> if truthy (ms_secret s) then MfaForm (str_or_empty (ms_secret s)) (truthy (ms_uri s)) else MfaButton (\<not> ms_busy s))"

definition start_mfa_setup :: "(exn + string \<times> string) \<Rightarrow> ('z mfa_setup_scheme, unit) act" where
  "start_mfa_setup r =
     thenA (upd (\<lambda>s. s\<lparr>ms_busy := True\<rparr>))
       (finallyA
         (tryA
           (bindA (send_json r ''POST'' ''/auth/mfa/setup/start'' None) (\<lambda>(sec, uri).
              upd (\<lambda>s. s\<lparr>ms_secret := Some sec, ms_uri := Some uri\<rparr>)))
           show_error)
         (\<lambda>s. s\<lparr>ms_busy := False\<rparr>))"

definition confirm_mfa_setup :: "(exn + string list) \<Rightarrow> ('z mfa_setup_scheme, unit) act" where
  "confirm_mfa_setup r =
     thenA (upd (\<lambda>s. s\<lparr>ms_busy := True\<rparr>))
       (finallyA
         (tryA
           (bindA (getsA ms_code) (\<lambda>c.
              bindA (send_json r ''POST'' ''/auth/mfa/setup/confirm'' (Some (JObj [(''code'', JStr (trim c))]))) (\<lambda>codes.
                upd (\<lambda>s. s\<lparr>ms_recovery := Some codes\<rparr>))))
           show_error)
         (\<lambda>s. s\<lparr>ms_busy := False\<rparr>))"

definition recovery_file :: "translate \<Rightarrow> string list \<Rightarrow> string" where
  "recovery_file tr codes =
     join [CHR 0x0A] ([tr_key tr ''mfa.recoveryDownloadHeader'' [], [], tr_key tr ''mfa.recoverySave'' [], []] @ codes @ [[]])"

definition recovery_file_name :: "nat \<Rightarrow> string" where
  "recovery_file_name now = ''idigest-2fa-recovery-'' @ utc_day now @ ''.txt''"

section \<open>Signing on through the organisation\<close>

record sso_info =
  si_org_name :: string
  si_configured :: bool
  si_enabled :: bool

record sso_page = browser +
  so_info :: "sso_info option"
  so_loading :: bool

datatype sso_view = SsoLoading | SsoNothing | SsoNotConfigured string | SsoNotEnabled string | SsoContinue string

definition load_sso_info :: "string \<Rightarrow> (exn + sso_info) \<Rightarrow> ('z sso_page_scheme, unit) act" where
  "load_sso_info oid r =
     (if oid = [] then ret ()
      else thenA (upd (\<lambda>s. s\<lparr>so_loading := True\<rparr>))
        (finallyA
          (tryA (bindA (get_json r (''/auth/sso/'' @ oid @ ''/info'')) (\<lambda>i. upd (\<lambda>s. s\<lparr>so_info := Some i\<rparr>))) show_error)
          (\<lambda>s. s\<lparr>so_loading := False\<rparr>)))"

definition sso_view_of :: "'z sso_page_scheme \<Rightarrow> sso_view" where
  "sso_view_of s =
     (if so_loading s then SsoLoading
      else case so_info s of
          None \<Rightarrow> SsoNothing
        | Some i \<Rightarrow>
            if \<not> si_configured i then SsoNotConfigured (si_org_name i)
            else if \<not> si_enabled i then SsoNotEnabled (si_org_name i) else SsoContinue (si_org_name i))"

definition sso_error :: "translate \<Rightarrow> string option \<Rightarrow> string option" where
  "sso_error tr e = (if truthy e then Some (error_text (ApiError (str_or_empty e) [] None) tr) else None)"

definition start_sso :: "string \<Rightarrow> 'z browser_scheme \<Rightarrow> 'z browser_scheme" where
  "start_sso oid = emit (EvLocation (''/api/v1/auth/sso/'' @ oid @ ''/start''))"

section \<open>The provider keeps its references in step\<close>

definition telegram_inv :: "'z telegram_scheme \<Rightarrow> bool" where
  "telegram_inv s \<longleftrightarrow>
     (tg_awaiting s \<longleftrightarrow> read_link_awaiting s)
     \<and> (case tg_status s of
          None \<Rightarrow> \<not> tg_linked_ref s \<and> tg_bot s = None \<and> tg_rev s = None
        | Some d \<Rightarrow> tg_linked_ref s = ts_linked d \<and> tg_bot s = Some (ts_bot_instance_id d) \<and> tg_rev s = Some (bot_revision d))"

lemma set_awaiting_fields [simp]:
  "tg_awaiting (set_link_awaiting_bot b s) = b" "read_link_awaiting (set_link_awaiting_bot b s) = b"
  "tg_status (set_link_awaiting_bot b s) = tg_status s" "tg_linked_ref (set_link_awaiting_bot b s) = tg_linked_ref s"
  "tg_bot (set_link_awaiting_bot b s) = tg_bot s" "tg_rev (set_link_awaiting_bot b s) = tg_rev s"
  "tg_member (set_link_awaiting_bot b s) = tg_member s" "tg_flights (set_link_awaiting_bot b s) = tg_flights s"
  "tg_notices (set_link_awaiting_bot b s) = tg_notices s" "events (set_link_awaiting_bot b s) = events s"
  by (simp_all add: set_link_awaiting_bot_def read_link_awaiting_def storage_defs)

lemma emit_tg [simp]:
  "tg_awaiting (emit e s) = tg_awaiting s" "read_link_awaiting (emit e s) = read_link_awaiting s"
  "tg_status (emit e s) = tg_status s" "tg_linked_ref (emit e s) = tg_linked_ref s" "tg_bot (emit e s) = tg_bot s"
  "tg_rev (emit e s) = tg_rev s" "tg_member (emit e s) = tg_member s" "tg_flights (emit e s) = tg_flights s"
  "tg_notices (emit e s) = tg_notices s"
  by (simp_all add: emit_def read_link_awaiting_def storage_defs)

lemma read_awaiting_frame [simp]:
  "read_link_awaiting (s\<lparr>tg_awaiting := b\<rparr>) = read_link_awaiting s"
  "read_link_awaiting (s\<lparr>tg_member := b\<rparr>) = read_link_awaiting s"
  "read_link_awaiting (s\<lparr>tg_flights := fs\<rparr>) = read_link_awaiting s"
  "read_link_awaiting (s\<lparr>tg_status := st\<rparr>) = read_link_awaiting s"
  "read_link_awaiting (s\<lparr>tg_linked_ref := b\<rparr>) = read_link_awaiting s"
  "read_link_awaiting (s\<lparr>tg_bot := bt\<rparr>) = read_link_awaiting s"
  "read_link_awaiting (s\<lparr>tg_rev := rv\<rparr>) = read_link_awaiting s"
  "read_link_awaiting (s\<lparr>tg_notices := ns\<rparr>) = read_link_awaiting s"
  by (simp_all add: read_link_awaiting_def storage_defs)

lemma telegram_inv_frame [simp]:
  "telegram_inv (emit e s) = telegram_inv s" "telegram_inv (s\<lparr>tg_flights := fs\<rparr>) = telegram_inv s"
  "telegram_inv (s\<lparr>tg_member := b\<rparr>) = telegram_inv s" "telegram_inv (s\<lparr>tg_notices := ns\<rparr>) = telegram_inv s"
  by (simp_all add: telegram_inv_def split: option.split)

lemma forget_inv: "(tg_awaiting s \<longleftrightarrow> read_link_awaiting s) \<Longrightarrow> telegram_inv (forget_telegram s)"
  by (simp add: telegram_inv_def forget_telegram_def)

lemma start_refresh_inv: "telegram_inv s \<Longrightarrow> telegram_inv (start_refresh toast fresh fw s)"
  by (simp add: start_refresh_def Let_def) (simp add: telegram_inv_def forget_telegram_def)

lemma apply_status_fields:
  "tg_status (apply_status d toast s) = Some d" "tg_linked_ref (apply_status d toast s) = ts_linked d"
  "tg_bot (apply_status d toast s) = Some (ts_bot_instance_id d)" "tg_rev (apply_status d toast s) = Some (bot_revision d)"
  by (simp_all add: apply_status_def notice_def Let_def)

lemma apply_status_awaiting:
  "(tg_awaiting s \<longleftrightarrow> read_link_awaiting s) \<Longrightarrow>
   tg_awaiting (apply_status d toast s) \<longleftrightarrow> read_link_awaiting (apply_status d toast s)"
  by (simp add: apply_status_def notice_def Let_def)

lemma apply_status_inv: "telegram_inv s \<Longrightarrow> telegram_inv (apply_status d toast s)"
  by (simp add: telegram_inv_def apply_status_fields apply_status_awaiting)

lemma set_awaiting_inv: "telegram_inv s \<Longrightarrow> telegram_inv (set_link_awaiting_bot b s)"
  by (cases "tg_status s") (simp_all add: telegram_inv_def)

lemma refresh_answer_inv: "telegram_inv s \<Longrightarrow> telegram_inv (fst (refresh_answer k r s))"
  by (cases r) (simp_all add: refresh_answer_def Let_def apply_status_inv)

lemma member_effect_inv:
  assumes "tg_awaiting s \<longrightarrow> read_link_awaiting s"
    and "telegram_inv s \<or> tg_status s = None \<and> \<not> tg_linked_ref s \<and> tg_bot s = None \<and> tg_rev s = None"
  shows "telegram_inv (member_effect m s)"
proof (cases m)
  case False
  then show ?thesis by (simp add: member_effect_def forget_inv)
next
  case True
  let ?u = "if read_link_awaiting s then s\<lparr>tg_member := True, tg_awaiting := True\<rparr> else s\<lparr>tg_member := True\<rparr>"
  have "telegram_inv ?u" using assms by (auto simp: telegram_inv_def split: option.split)
  then show ?thesis using True start_refresh_inv [of ?u] by (simp add: member_effect_def Let_def)
qed

lemma telegram_reach_inv: "telegram_reach session m s \<Longrightarrow> telegram_inv s"
proof (induction rule: telegram_reach.induct)
  case tr_mounted
  show ?case unfolding telegram_mounted_def by (rule member_effect_inv) (simp_all add: read_link_awaiting_def)
next
  case (tr_step s t)
  from tr_step.hyps(2) show ?case
  proof (cases rule: telegram_step.cases)
    case (te_member m)
    then show ?thesis using member_effect_inv [of s m] tr_step.IH by (simp add: telegram_inv_def)
  qed (use tr_step.IH in \<open>simp_all add: on_focus_def link_tick_def start_refresh_inv refresh_answer_inv set_awaiting_inv\<close>)
qed

text \<open>Whatever was clicked and however the answers came: the flag of the session is the state, and the references are
  those of the status shown.\<close>

theorem telegram_in_step:
  assumes "telegram_reach session m s"
  shows "(tg_awaiting s \<longleftrightarrow> session_get s awaiting_key = Some ''1'')
    \<and> (tg_linked_ref s \<longleftrightarrow> (\<exists>d. tg_status s = Some d \<and> ts_linked d))
    \<and> tg_rev s = map_option bot_revision (tg_status s) \<and> tg_bot s = map_option ts_bot_instance_id (tg_status s)"
  using telegram_reach_inv [OF assms] by (auto simp: telegram_inv_def read_link_awaiting_def split: option.splits)

section \<open>Revisions and the end of waiting\<close>

text \<open>Another revision is not taken from an answer that may be stale: the status stays, and a fresh one is asked for.\<close>

theorem revision_is_confirmed:
  assumes "telegram_inv s" "tg_status s = Some d0" "bot_revision d \<noteq> bot_revision d0"
    and "\<not> rf_fresh (tg_flights s ! k)" "\<not> rf_second (tg_flights s ! k)"
    and t: "refresh_answer k (Inr d) s = (t, over)"
  shows "tg_status t = tg_status s \<and> tg_awaiting t = tg_awaiting s \<and> tg_notices t = tg_notices s \<and> \<not> over
    \<and> events t = events s @ [EvRequest ''GET'' ''/me/telegram?fresh=1'' None] \<and> rf_second (last (tg_flights t))"
proof -
  let ?g = "(tg_flights s ! k)\<lparr>rf_second := True\<rparr>"
  let ?s1 = "s\<lparr>tg_flights := drop_nth k (tg_flights s) @ [?g]\<rparr>"
  have "tg_rev s = Some (bot_revision d0)" using assms(1,2) by (simp add: telegram_inv_def)
  then have "(t, over) = (emit (telegram_request ?g) ?s1, False)"
    using assms(3-5) by (simp add: t [symmetric] refresh_answer_def Let_def)
  then show ?thesis by (simp add: telegram_request_def telegram_status_path_def)
qed

text \<open>While the page waits for the bot it may ask; the answer that the account is linked ends the waiting, in the state and
  in the session, and says so once.\<close>

theorem link_is_announced:
  assumes "telegram_inv s" "awaiting_bot_link s" "tg_member s" "ts_linked d"
    and "\<And>d0. tg_status s = Some d0 \<Longrightarrow> bot_revision d0 = bot_revision d"
    and t_def: "t = fst (refresh_answer (length (tg_flights s)) (Inr d) (link_tick s))"
  shows "tg_status t = Some d \<and> \<not> awaiting_bot_link t \<and> session_get t awaiting_key \<noteq> Some ''1''
    \<and> tg_notices t = tg_notices s @ [''profile.telegramLinked''] \<and> tg_flights t = tg_flights s"
proof -
  let ?f = "\<lparr>rf_toast = True, rf_fresh = False, rf_second = False, rf_follow = NoFollow\<rparr>"
  have rev: "tg_rev s = None \<or> tg_rev s = Some (bot_revision d)" and ref: "\<not> tg_linked_ref s"
    using assms(1,2,5) by (auto simp: telegram_inv_def awaiting_bot_link_def split: option.splits)
  let ?u = "(link_tick s)\<lparr>tg_flights := tg_flights s\<rparr>"
  have t: "t = apply_status d True ?u"
    using assms(3) rev by (auto simp: t_def link_tick_def start_refresh_def refresh_answer_def drop_nth_def Let_def)
  have u: "\<not> tg_linked_ref ?u" "tg_flights ?u = tg_flights s" "tg_notices ?u = tg_notices s"
    using ref assms(3) by (simp_all add: link_tick_def start_refresh_def Let_def)
  have "\<not> tg_awaiting t" "\<not> read_link_awaiting t" "tg_notices t = tg_notices s @ [''profile.telegramLinked'']"
      "tg_flights t = tg_flights s"
    using u assms(4) unfolding t by (simp_all add: apply_status_def notice_def Let_def)
  then show ?thesis by (simp add: t apply_status_fields awaiting_bot_link_def read_link_awaiting_def)
qed

lemma linked_is_not_announced_again: "tg_linked_ref s \<Longrightarrow> tg_notices (apply_status d toast s) = tg_notices s"
  by (simp add: apply_status_def Let_def)

lemma section_frame:
  "tp_link (set_link_awaiting_bot b x) = tp_link x" "tp_prev_bot (set_link_awaiting_bot b x) = tp_prev_bot x"
  "tp_link (apply_status d toast x) = tp_link x" "tp_prev_bot (apply_status d toast x) = tp_prev_bot x"
  "(set_link_awaiting_bot b x)\<lparr>tp_link := None\<rparr> = set_link_awaiting_bot b (x\<lparr>tp_link := None\<rparr>)"
  "read_link_awaiting (x\<lparr>tp_prev_bot := pb\<rparr>) = read_link_awaiting x" "read_link_awaiting (x\<lparr>tp_busy := bz\<rparr>) = read_link_awaiting x"
  "tp_link x = None \<Longrightarrow> x\<lparr>tp_link := None\<rparr> = x" "tp_link (emit e x) = tp_link x" "tp_prev_bot (emit e x) = tp_prev_bot x"
  by (simp_all add: emit_def set_link_awaiting_bot_def apply_status_def notice_def storage_defs read_link_awaiting_def Let_def)

lemma name_effect_no_link [simp]: "name_effect s0 None x = x"
  by (simp add: name_effect_def Let_def split: option.split)

text \<open>After a reload the flag of the session makes the page wait again. On the profile page that ends with the first
  answer: the section takes the bot of the first status for another one than the missing bot it saw at mount.\<close>

theorem reload_on_profile_stops_waiting:
  assumes "tg_member s" "tg_status s = None" "tg_rev s = None" "tg_bot s = None" "tg_awaiting s" "read_link_awaiting s"
    and "k < length (tg_flights s)" "\<not> ts_linked d" "ts_bot_instance_id d \<noteq> None"
    and t_def: "t = section_answer k (Inr d) (section_mounted s)"
  shows "\<not> awaiting_bot_link t \<and> \<not> read_link_awaiting t"
    "awaiting_bot_link (fst (refresh_answer k (Inr d) s)) \<and> read_link_awaiting (fst (refresh_answer k (Inr d) s))"
proof -
  let ?m = "section_mounted s" and ?f = "tg_flights s ! k"
  have m: "tg_member ?m" "tg_status ?m = None" "tg_rev ?m = None" "tp_prev_bot ?m = Some None" "tp_link ?m = None"
      "tg_flights ?m ! k = ?f"
    using assms(1-7) by (simp_all add: section_mounted_def section_effects_def linked_effect_def bot_effect_def
        start_refresh_def status_bot_def section_frame Let_def nth_append)
  let ?a = "apply_status d (rf_toast ?f) (?m\<lparr>tg_flights := drop_nth k (tg_flights ?m)\<rparr>)"
  have r: "refresh_answer k (Inr d) ?m = (?a, True)"
    using m by (simp add: refresh_answer_def Let_def)
  obtain b where b: "ts_bot_instance_id d = Some b" using assms(9) by auto
  have a: "tg_status ?a = Some d" "tp_prev_bot ?a = Some None" "tp_link ?a = None"
    using m by (simp_all add: apply_status_fields section_frame)
  have "section_effects (Some ?m) ?a = (set_link_awaiting_bot False ?a)\<lparr>tp_prev_bot := Some (Some b)\<rparr>"
    using a m assms(8) b by (simp add: section_effects_def linked_effect_def bot_effect_def status_bot_def
        section_frame Let_def)
  then show "\<not> awaiting_bot_link t \<and> \<not> read_link_awaiting t"
    using r m(6) by (cases "rf_follow ?f") (simp_all add: t_def section_answer_def awaiting_bot_link_def section_frame notice_def Let_def)
  show "awaiting_bot_link (fst (refresh_answer k (Inr d) s)) \<and> read_link_awaiting (fst (refresh_answer k (Inr d) s))"
    using assms by (simp add: refresh_answer_def apply_status_def notice_def awaiting_bot_link_def Let_def)
qed

section \<open>The section, the prompt and the forms\<close>

text \<open>Once a status says linked, no code is offered any more; and the prompt is shown to members with a bot only, while
  the account is not linked.\<close>

lemma linked_clears_code:
  assumes "tg_status s0 \<noteq> tg_status s" "map_option ts_linked (tg_status s0) \<noteq> Some True" "tg_status s = Some d" "ts_linked d"
  shows "tp_link (section_effects (Some s0) s) = None"
  using assms by (auto simp: section_effects_def linked_effect_def bot_effect_def section_frame name_effect_def Let_def
      split: option.splits)

lemma prompt_only_when_useful:
  "shell_shows_telegram_prompt m st \<Longrightarrow> (\<exists>x d. m = Some x \<and> me_org x \<noteq> None \<and> st = Some d \<and> ts_bot_enabled d \<and> \<not> ts_linked d)"
  by (auto simp: shell_shows_telegram_prompt_def split: option.splits)

text \<open>A form of the second factor is never left locked, and the codes it shows are those it was given.\<close>

theorem mfa_setup_settles:
  "\<not> ms_busy (snd (start_mfa_setup r s)) \<and> \<not> ms_busy (snd (confirm_mfa_setup q s))
   \<and> mfa_view_of (snd (confirm_mfa_setup q s)) =
       (case q of Inr codes \<Rightarrow> MfaRecovery codes | Inl _ \<Rightarrow> mfa_view_of (s\<lparr>ms_busy := False\<rparr>))
   \<and> last (events (snd (confirm_mfa_setup (Inr codes) s))) =
       EvRequest ''POST'' ''/auth/mfa/setup/confirm'' (Some (JObj [(''code'', JStr (trim (ms_code s)))]))"
  by (cases r; cases q; cases "ms_recovery s") (auto simp: start_mfa_setup_def confirm_mfa_setup_def run_simps show_error_def emit_def mfa_view_of_def)

lemma split_join_lines:
  "xs \<noteq> [] \<Longrightarrow> list_all (\<lambda>x. c \<notin> set x) xs \<Longrightarrow> split_on c (join [c] xs) = xs"
proof (induction xs rule: induct_list012)
  case (3 x y zs)
  have "c \<notin> set x \<Longrightarrow> split_on c (x @ c # r) = x # split_on c r" for r by (induction x) auto
  then show ?case using 3 by simp
next
  case (2 x)
  have "c \<notin> set x \<Longrightarrow> split_on c x = [x]" by (induction x) auto
  then show ?case using 2 by simp
qed simp

text \<open>The downloaded file has one code on a line, from the fifth on.\<close>

theorem recovery_file_reads_back:
  assumes "list_all (\<lambda>x. CHR 0x0A \<notin> set x) codes" "CHR 0x0A \<notin> set (tr_key tr ''mfa.recoveryDownloadHeader'' [])"
    "CHR 0x0A \<notin> set (tr_key tr ''mfa.recoverySave'' [])"
  shows "butlast (drop 4 (split_on (CHR 0x0A) (recovery_file tr codes))) = codes"
  using assms by (subst recovery_file_def, subst split_join_lines) simp_all

lemma sso_page_settles:
  "oid \<noteq> [] \<Longrightarrow> \<not> so_loading (snd (load_sso_info oid r s)) \<and>
    (sso_view_of (snd (load_sso_info oid r s)) = SsoContinue n \<longrightarrow>
      (case r of Inr i \<Rightarrow> si_configured i \<and> si_enabled i | Inl _ \<Rightarrow> so_info s \<noteq> None))"
  by (cases r) (auto simp: load_sso_info_def run_simps show_error_def emit_def sso_view_of_def split: option.splits if_splits)

end
