(* ===== verification/Skills.thy ===== *)
theory Skills
  imports Artifacts Models
begin

text \<open>
  The lists that are paged in the client and the forms of a skill: public links (\<open>components/LibraryLinksTab.tsx\<close>), skills of
  the library (\<open>components/LibrarySkillsTab.tsx\<close>), base skills (\<open>pages/instance/InstanceBaseSkillsTab.tsx\<close>), a new skill
  (\<open>pages/SkillCreatePage.tsx\<close>), the group of skills to choose from (\<open>components/SummarizeSkillRadioGroup.tsx\<close>) and the
  choice of a pipeline (\<open>components/IngestPipelinePanel.tsx\<close>). A row is removed by a handler that waits twice, for the
  deletion and for the new list; several may wait at once.
\<close>

section \<open>A list paged in the client\<close>

definition newest_first :: "(string \<Rightarrow> string \<Rightarrow> int) \<Rightarrow> ('a \<Rightarrow> string) \<Rightarrow> 'a list \<Rightarrow> 'a list" where
  "newest_first lc created xs = sort_by (\<lambda>a b. lc (created b) (created a)) xs"

definition page_slice :: "nat \<Rightarrow> nat \<Rightarrow> 'a list \<Rightarrow> 'a list" where
  "page_slice page sz xs = take sz (drop (safe_page (length xs) page sz * sz) xs)"

text \<open>A run of a handler: the row, and whether it waits for the list already. \<open>rl_busy\<close> marks one row.\<close>

record 'a row_list = browser +
  rl_items :: "'a list"
  rl_busy :: "string option"
  rl_runs :: "(string \<times> bool) list"
  rl_size :: nat
  rl_page :: nat

definition rows_arrive :: "exn + 'a list option \<Rightarrow> ('a, 'z) row_list_scheme \<Rightarrow> ('a, 'z) row_list_scheme" where
  "rows_arrive r s = (case r of Inr xs \<Rightarrow> s\<lparr>rl_items := nullish xs []\<rparr> | Inl e \<Rightarrow> emit (EvToast e None) s)"

definition row_button_disabled :: "('a, 'z) row_list_scheme \<Rightarrow> string \<Rightarrow> bool" where
  "row_button_disabled s i \<longleftrightarrow> rl_busy s = Some i"

text \<open>\<open>del\<close> is the path of the deletion, \<open>lst\<close> that of the list.\<close>

definition row_click :: "string \<Rightarrow> string \<Rightarrow> ('a, 'z) row_list_scheme \<Rightarrow> ('a, 'z) row_list_scheme" where
  "row_click del i s =
     emit (EvRequest ''DELETE'' (del @ i) None) (s\<lparr>rl_busy := Some i, rl_runs := rl_runs s @ [(i, False)]\<rparr>)"

definition row_end :: "nat \<Rightarrow> ('a, 'z) row_list_scheme \<Rightarrow> ('a, 'z) row_list_scheme" where
  "row_end k s = s\<lparr>rl_runs := take k (rl_runs s) @ drop (Suc k) (rl_runs s), rl_busy := None\<rparr>"

definition row_deleted :: "string \<Rightarrow> nat \<Rightarrow> exn + unit \<Rightarrow> ('a, 'z) row_list_scheme \<Rightarrow> ('a, 'z) row_list_scheme" where
  "row_deleted lst k r s =
     (case r of
        Inl e \<Rightarrow> row_end k (emit (EvToast e None) s)
      | Inr _ \<Rightarrow> emit (EvRequest ''GET'' lst None) (s\<lparr>rl_runs := (rl_runs s)[k := (fst (rl_runs s ! k), True)]\<rparr>))"

definition row_reloaded :: "nat \<Rightarrow> exn + 'a list option \<Rightarrow> ('a, 'z) row_list_scheme \<Rightarrow> ('a, 'z) row_list_scheme" where
  "row_reloaded k r s = row_end k (rows_arrive r s)"

definition set_row_page :: "nat \<Rightarrow> ('a, 'z) row_list_scheme \<Rightarrow> ('a, 'z) row_list_scheme" where
  "set_row_page p s = s\<lparr>rl_page := p\<rparr>"

definition set_row_size :: "nat \<Rightarrow> ('a, 'z) row_list_scheme \<Rightarrow> ('a, 'z) row_list_scheme" where
  "set_row_size n s = s\<lparr>rl_size := n, rl_page := 0\<rparr>"

section \<open>Public links\<close>

record org_link =
  ol_id :: string
  ol_summary_id :: string
  ol_url :: "string option"
  ol_expires_at :: "string option"
  ol_pin_required :: bool
  ol_created_at :: string
  ol_revoked :: bool
  ol_summary_title :: "string option"
  ol_owner_email :: "string option"
  ol_owner_display_name :: "string option"
  ol_active :: bool

definition links_path :: string where
  "links_path = ''/org/public-links''"

definition paged_links :: "(string \<Rightarrow> string \<Rightarrow> int) \<Rightarrow> (org_link, 'z) row_list_scheme \<Rightarrow> org_link list" where
  "paged_links lc s = page_slice (rl_page s) (rl_size s) (newest_first lc ol_created_at (rl_items s))"

definition revoke_link :: "string \<Rightarrow> (org_link, 'z) row_list_scheme \<Rightarrow> (org_link, 'z) row_list_scheme" where
  "revoke_link i s = row_click (links_path @ ''/'') i s"

definition link_badges :: "org_link \<Rightarrow> (badge_tone \<times> string) list" where
  "link_badges l =
     [if ol_active l then (ToneSuccess, ''publicLinks.statusActive'') else (ToneWarning, ''publicLinks.statusInactive'')]
     @ (if ol_pin_required l then [(ToneMuted, ''publicLinks.pin'')] else [])"

definition link_owner :: "bool \<Rightarrow> org_link \<Rightarrow> string option" where
  "link_owner admin l =
     (if \<not> admin then None
      else if truthy (ol_owner_display_name l) then ol_owner_display_name l else ol_owner_email l)"

definition links_notices :: "me option \<Rightarrow> string list" where
  "links_notices m =
     (case Option.bind m me_org of
        None \<Rightarrow> []
      | Some g \<Rightarrow>
          (if \<not> org_allow_public_links g then [''publicLinks.policyOff''] else [])
          @ (if \<not> org_public_base_url_set g then [''share.publicUrlMissing''] else []))"

section \<open>Skills of the library\<close>

definition skill_filters :: "string list" where
  "skill_filters = [''all'', ''base'', ''org'', ''self'', ''shared'']"

definition skill_bucket :: "skill \<Rightarrow> string" where
  "skill_bucket s = or_default (sk_catalog s) (sk_scope s)"

definition filtered_skills :: "string \<Rightarrow> skill list \<Rightarrow> skill list" where
  "filtered_skills f xs = (if f = ''all'' then xs else filter (\<lambda>s. skill_bucket s = f) xs)"

record skills_tab = "skill row_list" +
  st_filter :: string

definition shown_skills :: "(string \<Rightarrow> string \<Rightarrow> int) \<Rightarrow> 'z skills_tab_scheme \<Rightarrow> skill list" where
  "shown_skills lc s = newest_first lc sk_created_at (filtered_skills (st_filter s) (rl_items s))"

definition paged_skills :: "(string \<Rightarrow> string \<Rightarrow> int) \<Rightarrow> 'z skills_tab_scheme \<Rightarrow> skill list" where
  "paged_skills lc s = page_slice (rl_page s) (rl_size s) (shown_skills lc s)"

definition choose_skill_filter :: "string \<Rightarrow> 'z skills_tab_scheme \<Rightarrow> 'z skills_tab_scheme" where
  "choose_skill_filter f s = s\<lparr>st_filter := f, rl_page := 0\<rparr>"

definition decline_shown :: "skill \<Rightarrow> bool" where
  "decline_shown s \<longleftrightarrow> sk_share_kind s = Some ''incoming'' \<and> truthy (sk_share_id s)"

definition decline_skill_share :: "string \<Rightarrow> 'z skills_tab_scheme \<Rightarrow> 'z skills_tab_scheme" where
  "decline_skill_share i s = row_click ''/shares/'' i s"

section \<open>Base skills\<close>

record base_skills = browser +
  bs_skills :: "skill list"
  bs_name :: string
  bs_body :: string
  bs_form :: bool
  bs_busy :: bool

definition load_base_skills :: "(exn + skill list option) \<Rightarrow> ('z base_skills_scheme, unit) act" where
  "load_base_skills r =
     tryA (bindA (get_json r ''/skills/base'') (\<lambda>xs. upd (\<lambda>s. s\<lparr>bs_skills := nullish xs []\<rparr>))) show_error"

definition open_base_skill :: "'z base_skills_scheme \<Rightarrow> 'z base_skills_scheme" where
  "open_base_skill s = s\<lparr>bs_name := [], bs_body := [], bs_form := True\<rparr>"

definition cancel_base_skill :: "'z base_skills_scheme \<Rightarrow> 'z base_skills_scheme" where
  "cancel_base_skill s = s\<lparr>bs_name := [], bs_body := [], bs_form := False\<rparr>"

definition base_skill_ready :: "'z base_skills_scheme \<Rightarrow> bool" where
  "base_skill_ready s \<longleftrightarrow> trim (bs_name s) \<noteq> []"

definition save_base_skill :: "(exn + unit) \<Rightarrow> (exn + skill list option) \<Rightarrow> ('z base_skills_scheme, unit) act" where
  "save_base_skill r list_r =
     thenA (upd (\<lambda>s. s\<lparr>bs_busy := True\<rparr>))
       (finallyA
         (tryA
           (bindA (getsA (\<lambda>s. (bs_name s, bs_body s))) (\<lambda>(n, b).
              bindA (send_json r ''POST'' ''/skills/base'' (Some (JObj [(''name'', JStr n), (''body'', JStr b)]))) (\<lambda>_.
                thenA (upd cancel_base_skill) (load_base_skills list_r))))
           show_error)
         (\<lambda>s. s\<lparr>bs_busy := False\<rparr>))"

section \<open>A new skill\<close>

datatype skill_kind = SelfSkill | OrgSkill

record skill_create = browser +
  sc_name :: string
  sc_body :: string
  sc_kind :: skill_kind
  sc_busy :: bool

definition kind_choices :: "me option \<Rightarrow> skill_kind list" where
  "kind_choices m = [SelfSkill] @ (if is_org_admin m then [OrgSkill] else [])"

definition skill_create_ready :: "'z skill_create_scheme \<Rightarrow> bool" where
  "skill_create_ready s \<longleftrightarrow> trim (sc_name s) \<noteq> []"

definition skill_create_path :: "skill_kind \<Rightarrow> string" where
  "skill_create_path k = (case k of SelfSkill \<Rightarrow> ''/skills/self'' | OrgSkill \<Rightarrow> ''/org/skills'')"

definition save_new_skill :: "(exn + skill) \<Rightarrow> ('z skill_create_scheme, unit) act" where
  "save_new_skill r s =
     (if \<not> skill_create_ready s then (Inr (), s)
      else thenA (upd (\<lambda>s. s\<lparr>sc_busy := True\<rparr>))
        (finallyA
          (tryA
            (bindA (send_json r ''POST'' (skill_create_path (sc_kind s))
                     (Some (JObj [(''name'', JStr (trim (sc_name s))), (''body'', JStr (sc_body s))])))
              (\<lambda>_. navigate (library_path ''skills'' None None) False None))
            show_error)
          (\<lambda>s. s\<lparr>sc_busy := False\<rparr>)) s)"

section \<open>The group of skills\<close>

definition none_sentinel :: string where
  "none_sentinel = ''__none__''"

definition radio_value :: "bool \<Rightarrow> string option \<Rightarrow> string" where
  "radio_value with_none v = nullish v (if with_none then none_sentinel else [])"

definition radio_change :: "string \<Rightarrow> string option" where
  "radio_change next = (if next = none_sentinel then None else if 0 < length next then Some next else None)"

definition radio_rows :: "bool \<Rightarrow> skill list \<Rightarrow> string list" where
  "radio_rows with_none xs = (if with_none then [none_sentinel] else []) @ map sk_id xs"

section \<open>The choice of a pipeline\<close>

record pipeline_panel = browser +
  ip_pipeline :: ingest_pipeline
  ip_skills :: "skill list"

definition pipeline_panel_mounted :: "'z browser_scheme \<Rightarrow> ingest_pipeline" where
  "pipeline_panel_mounted s = load_pipeline s"

definition pipeline_skills_arrive :: "exn + skill list option \<Rightarrow> 'z pipeline_panel_scheme \<Rightarrow> 'z pipeline_panel_scheme" where
  "pipeline_skills_arrive r s =
     (case r of Inr xs \<Rightarrow> s\<lparr>ip_skills := nullish xs []\<rparr> | Inl e \<Rightarrow> emit (EvToast e None) s)"

definition update_pipeline :: "ingest_pipeline \<Rightarrow> 'z pipeline_panel_scheme \<Rightarrow> 'z pipeline_panel_scheme" where
  "update_pipeline p s =
     (let q = normalize_pipeline p in save_pipeline q (s\<lparr>ip_pipeline := q\<rparr>))"

definition set_pipeline_transcribe :: "bool \<Rightarrow> 'z pipeline_panel_scheme \<Rightarrow> 'z pipeline_panel_scheme" where
  "set_pipeline_transcribe b s = update_pipeline (mk_pipeline b (if b then pl_skill_ids (ip_pipeline s) else [])) s"

definition set_pipeline_skill :: "string option \<Rightarrow> 'z pipeline_panel_scheme \<Rightarrow> 'z pipeline_panel_scheme" where
  "set_pipeline_skill v s =
     update_pipeline (mk_pipeline (pl_transcribe (ip_pipeline s)) (if truthy v then [str_or_empty v] else [])) s"

definition pipeline_summary_key :: "ingest_pipeline \<Rightarrow> string" where
  "pipeline_summary_key p =
     (if \<not> pl_transcribe p then ''library.pipeline.summaryOff''
      else if length (pl_skill_ids p) = 0 then ''library.pipeline.summaryTranscribe'' else ''library.pipeline.summaryFull'')"

definition first_skill_id :: "ingest_pipeline \<Rightarrow> string option" where
  "first_skill_id p = (case pl_skill_ids p of [] \<Rightarrow> None | i # _ \<Rightarrow> Some i)"

definition panel_selected_skill :: "'z pipeline_panel_scheme \<Rightarrow> skill option" where
  "panel_selected_skill s = find (\<lambda>x. Some (sk_id x) = first_skill_id (ip_pipeline s)) (ip_skills s)"

definition pipeline_summary_args :: "'z pipeline_panel_scheme \<Rightarrow> (string \<times> string) list" where
  "pipeline_summary_args s =
     (if pipeline_summary_key (ip_pipeline s) = ''library.pipeline.summaryFull''
      then (case panel_selected_skill s of Some x \<Rightarrow> [(''name'', sk_name x)] | None \<Rightarrow> []) else [])"

definition skill_rows_shown :: "'z pipeline_panel_scheme \<Rightarrow> string list" where
  "skill_rows_shown s =
     (if pl_transcribe (ip_pipeline s) \<and> ip_skills s \<noteq> [] then radio_rows True (ip_skills s) else [])"

section \<open>Pages and order\<close>

lemma take_pages: "concat (map (\<lambda>p. take sz (drop (p * sz) xs)) [0 ..< n]) = take (n * sz) xs"
  by (induction n) (simp_all add: take_add [symmetric] add.commute)

lemma page_slice_exact: "p < page_count (length xs) sz \<Longrightarrow> page_slice p sz xs = take sz (drop (p * sz) xs)"
  by (simp add: page_slice_def safe_page_def min_def)

lemma pages_reach_the_end: "0 < sz \<Longrightarrow> n \<le> page_count n sz * sz"
  using page_count_less [of sz "page_count n sz" n] page_count_pos [of n sz] by (meson less_irrefl not_le)

text \<open>The pages, one after the other, are the list; no page of a list that has rows is empty, wherever the pager stands.\<close>

theorem pages_are_the_list:
  assumes "0 < sz"
  shows "concat (map (\<lambda>p. page_slice p sz xs) [0 ..< page_count (length xs) sz]) = xs
    \<and> (xs \<noteq> [] \<longrightarrow> page_slice page sz xs \<noteq> []) \<and> length (page_slice page sz xs) \<le> sz"
proof -
  have "map (\<lambda>p. page_slice p sz xs) [0 ..< page_count (length xs) sz] =
      map (\<lambda>p. take sz (drop (p * sz) xs)) [0 ..< page_count (length xs) sz]"
    by (intro map_cong refl page_slice_exact) simp
  then have "concat (map (\<lambda>p. page_slice p sz xs) [0 ..< page_count (length xs) sz]) = xs"
    using pages_reach_the_end [OF assms, of "length xs"] by (simp only: take_pages take_all)
  moreover have "safe_page (length xs) page sz * sz < length xs" if "xs \<noteq> []"
  proof -
    have "safe_page (length xs) page sz < page_count (length xs) sz"
      using page_count_pos [of "length xs" sz] by (auto simp: safe_page_def)
    then show ?thesis using page_count_less [OF assms, of "safe_page (length xs) page sz" "length xs"] that by auto
  qed
  ultimately show ?thesis using assms by (auto simp: page_slice_def)
qed

lemma newest_first_same: "set (newest_first lc created xs) = set xs \<and> length (newest_first lc created xs) = length xs"
  by (simp add: newest_first_def)

lemma newest_come_first:
  assumes "\<And>x y. lc x y \<le> 0 \<or> lc y x \<le> 0" "\<And>x y z. lc x y \<le> 0 \<Longrightarrow> lc y z \<le> 0 \<Longrightarrow> lc x z \<le> 0"
  shows "sorted_wrt (\<lambda>a b. lc (created b) (created a) \<le> 0) (newest_first lc created xs)"
proof -
  have "sorted_cmp (\<lambda>a b. lc (created b) (created a)) (newest_first lc created xs)"
    unfolding newest_first_def by (rule sorted_sort_by) (use assms in blast)+
  then show ?thesis by (simp add: sorted_cmp_def)
qed

text \<open>A skill is under the filter of its bucket and under no other, besides all.\<close>

lemma filtered_skills_iff: "x \<in> set (filtered_skills f xs) \<longleftrightarrow> x \<in> set xs \<and> (f = ''all'' \<or> skill_bucket x = f)"
  by (simp add: filtered_skills_def)

section \<open>Removing rows\<close>

text \<open>The mark of the busy row holds one row. A click on another row frees the first while its deletion waits, and a
  second click there sends the deletion again.\<close>

theorem second_row_frees_the_first:
  assumes "i \<noteq> j" "rl_runs s = []"
  shows "\<not> row_button_disabled (row_click del j (row_click del i s)) i
    \<and> (i, False) \<in> set (rl_runs (row_click del j (row_click del i s)))
    \<and> events (row_click del i (row_click del j (row_click del i s))) =
        events s @ [EvRequest ''DELETE'' (del @ i) None, EvRequest ''DELETE'' (del @ j) None, EvRequest ''DELETE'' (del @ i) None]"
  using assms by (simp add: row_click_def row_button_disabled_def emit_def)

text \<open>One row at a time works: the row is dead until the list has come, and then shows what the hub sent.\<close>

theorem one_row_at_a_time:
  assumes "rl_runs s = []"
    and t_def: "t = row_deleted lst 0 (Inr ()) (row_click del i s)"
  shows "row_button_disabled (row_click del i s) i \<and> row_button_disabled t i
    \<and> rl_items (row_reloaded 0 (Inr (Some xs)) t) = xs \<and> rl_runs (row_reloaded 0 (Inr (Some xs)) t) = []
    \<and> rl_busy (row_reloaded 0 (Inr (Some xs)) t) = None"
    "rl_busy (row_deleted lst 0 (Inl e) (row_click del i s)) = None
    \<and> rl_items (row_deleted lst 0 (Inl e) (row_click del i s)) = rl_items s"
  using assms(1) by (simp_all add: t_def row_click_def row_deleted_def row_reloaded_def rows_arrive_def row_end_def
      row_button_disabled_def emit_def)

section \<open>Forms of a skill\<close>

text \<open>Saving a base skill ends with a usable tab. A refusal keeps what was typed; an accepted one closes the form, even if
  the list does not come.\<close>

theorem base_skill_saved:
  defines "t \<equiv> \<lambda>r list_r s. snd (save_base_skill r list_r s)"
  shows "\<not> bs_busy (t r list_r s)
    \<and> bs_form (t (Inr ()) list_r s) = False \<and> bs_name (t (Inr ()) list_r s) = []
    \<and> bs_skills (t (Inr ()) list_r s) = (case list_r of Inr xs \<Rightarrow> nullish xs [] | Inl _ \<Rightarrow> bs_skills s)
    \<and> bs_name (t (Inl e) list_r s) = bs_name s \<and> bs_body (t (Inl e) list_r s) = bs_body s
    \<and> bs_form (t (Inl e) list_r s) = bs_form s"
  by (cases r; cases list_r) (auto simp: t_def save_base_skill_def load_base_skills_def run_simps show_error_def emit_def
      cancel_base_skill_def)

text \<open>A new skill: nothing is sent without a name; what is sent has the trimmed name and goes where its kind says, and the
  kind of an organisation is offered to its administrators only.\<close>

theorem new_skill_saved:
  "(if trim (sc_name s) = [] then save_new_skill r s = (Inr (), s)
    else hd (drop (length (events s)) (events (snd (save_new_skill r s)))) =
           EvRequest ''POST'' (skill_create_path (sc_kind s))
             (Some (JObj [(''name'', JStr (trim (sc_name s))), (''body'', JStr (sc_body s))]))
      \<and> \<not> sc_busy (snd (save_new_skill r s))
      \<and> (EvNavigate (library_path ''skills'' None None) False None \<in> set (drop (length (events s)) (events (snd (save_new_skill r s))))
          \<longleftrightarrow> (\<exists>x. r = Inr x)))
   \<and> (OrgSkill \<in> set (kind_choices m) \<longleftrightarrow> is_org_admin m)"
  by (cases r) (simp_all add: save_new_skill_def skill_create_ready_def run_simps show_error_def navigate_def emit_def kind_choices_def)

lemma radio_reads_back:
  "v \<noteq> Some none_sentinel \<Longrightarrow> v \<noteq> Some [] \<Longrightarrow> radio_change (radio_value b v) = v"
  by (cases v) (auto simp: radio_change_def radio_value_def none_sentinel_def)

section \<open>The panel and the storage\<close>

definition panel_in_step :: "'z pipeline_panel_scheme \<Rightarrow> bool" where
  "panel_in_step s \<longleftrightarrow> ip_pipeline s = load_pipeline s"

lemma update_pipeline_fields [simp]:
  "ip_pipeline (update_pipeline p s) = normalize_pipeline p" "ip_skills (update_pipeline p s) = ip_skills s"
  "load_pipeline (update_pipeline p s) = normalize_pipeline p"
  by (simp_all add: update_pipeline_def save_pipeline_def Let_def load_pipeline_written) (simp_all add: local_set_def)

text \<open>What the panel shows is what is stored, after any change; and it is a pipeline: one skill at most, and none without a
  transcription.\<close>

theorem panel_follows_storage:
  "panel_in_step (set_pipeline_transcribe b s) \<and> panel_in_step (set_pipeline_skill v s)
   \<and> pipeline_wf (ip_pipeline (set_pipeline_transcribe b s)) \<and> pipeline_wf (ip_pipeline (set_pipeline_skill v s))
   \<and> pl_skill_ids (ip_pipeline (set_pipeline_transcribe False s)) = []
   \<and> (pl_transcribe (ip_pipeline s) \<longrightarrow> truthy v \<longrightarrow> first_skill_id (ip_pipeline (set_pipeline_skill v s)) = v)
   \<and> (panel_in_step s \<longrightarrow> panel_in_step (pipeline_skills_arrive r s))"
proof -
  have "panel_in_step s \<Longrightarrow> panel_in_step (pipeline_skills_arrive r s)"
    by (cases r) (simp_all add: panel_in_step_def pipeline_skills_arrive_def load_pipeline_def emit_def storage_defs)
  moreover have "pl_transcribe (ip_pipeline s) \<Longrightarrow> truthy v \<Longrightarrow> first_skill_id (ip_pipeline (set_pipeline_skill v s)) = v"
    by (cases v) (simp_all add: set_pipeline_skill_def normalize_pipeline_def normalize_raw_def first_skill_id_def truthy_def
        usable_skills_def)
  moreover have "pl_skill_ids (ip_pipeline (set_pipeline_transcribe False s)) = []"
    by (simp add: set_pipeline_transcribe_def normalize_pipeline_def normalize_raw_def)
  ultimately show ?thesis
    by (auto simp: set_pipeline_transcribe_def set_pipeline_skill_def panel_in_step_def intro: wf_intros)
qed

text \<open>A stored skill that no longer exists stays chosen: the summary says a summary follows and has no name for it, no row
  of the group is selected, and requests go on naming the skill.\<close>

theorem gone_skill_stays_chosen:
  assumes "pl_transcribe (ip_pipeline s)" "pl_skill_ids (ip_pipeline s) = [i]" "i \<notin> set (map sk_id (ip_skills s))"
    and "i \<noteq> none_sentinel" "ip_skills s \<noteq> []"
  shows "pipeline_summary_key (ip_pipeline s) = ''library.pipeline.summaryFull'' \<and> pipeline_summary_args s = []
    \<and> radio_value True (first_skill_id (ip_pipeline s)) \<notin> set (skill_rows_shown s)
    \<and> (''skill_ids'', str_array [i]) \<in> set (pipeline_fields (ip_pipeline s) m)"
  using assms by (auto simp: pipeline_summary_key_def pipeline_summary_args_def panel_selected_skill_def first_skill_id_def
      radio_value_def skill_rows_shown_def radio_rows_def pipeline_fields_def pipeline_should_transcribe_def skill_fields_def
      find_Some_iff split: option.splits)

end
