(* ===== verification/Media.thy ===== *)
theory Media
  imports Js_Number Task_Stage Models
begin

text \<open>
  Sound and text together: the time of a line (\<open>util/utteranceMedia.ts\<close>), the tone of a call and of its lines
  (\<open>components/TranscriptTonePanel.tsx\<close>), the player (\<open>components/AudioPlayer.tsx\<close>) with the element it drives, and the
  wave that shows the level of the microphone (\<open>components/MicrophoneLevelVisualizer.tsx\<close>). Numbers are rationals:
  rounding to a double is not modelled. \<open>Math.sin\<close>, \<open>Math.pow\<close> and \<open>toFixed\<close> are arguments.
\<close>

section \<open>The time of a line\<close>

text \<open>The fields of a clock, hours, minutes and seconds, as the two expressions accept them.\<close>

definition clock_fields :: "string \<Rightarrow> (string \<times> string \<times> string) option" where
  "clock_fields s =
     (let ok = (\<lambda>h m x. list_all is_digit (h @ m @ x) \<and> m \<noteq> [] \<and> length m \<le> 2 \<and> length x = 2) in
      case split_on (CHR '':'') s of
        [m, x] \<Rightarrow> if ok [] m x then Some ([], m, x) else None
      | [h, m, x] \<Rightarrow> if h \<noteq> [] \<and> ok h m x then Some (h, m, x) else None
      | _ \<Rightarrow> None)"

definition parse_clock_parts :: "string \<times> string \<times> string \<Rightarrow> nat option" where
  "parse_clock_parts p =
     (case p of (h, m, x) \<Rightarrow>
        let hh = (if h \<noteq> [] then parse_digits h else 0); mm = parse_digits m; ss = parse_digits x in
        if 60 \<le> mm \<or> 60 \<le> ss then None else Some (hh * 3600 + mm * 60 + ss))"

text \<open>A match of each expression: its fields and the text after it.\<close>

definition bracket_ts :: "string \<Rightarrow> ((string \<times> string \<times> string) \<times> string) option" where
  "bracket_ts text =
     (let s = trim_left text; inner = takeWhile (\<lambda>c. c \<noteq> CHR '']'') (drop 1 s); r = drop (length inner + 1) s in
      if starts_with s ''['' \<and> starts_with r '']''
      then map_option (\<lambda>p. (p, trim_left (drop 1 r))) (clock_fields inner) else None)"

definition plain_ts :: "string \<Rightarrow> ((string \<times> string \<times> string) \<times> string) option" where
  "plain_ts text =
     (let s = trim_left text; inner = takeWhile (\<lambda>c. \<not> is_ws c) s in
      map_option (\<lambda>p. (p, drop (length inner + 1) s)) (clock_fields inner))"

definition timed :: "((string \<times> string \<times> string) \<times> string) option \<Rightarrow> (nat \<times> string) option" where
  "timed r = Option.bind r (\<lambda>(p, tl). map_option (\<lambda>n. (n, tl)) (parse_clock_parts p))"

definition parse_timestamp_from_text :: "string \<Rightarrow> (nat \<times> string) option" where
  "parse_timestamp_from_text text =
     (case timed (bracket_ts text) of Some x \<Rightarrow> Some x | None \<Rightarrow> timed (plain_ts text))"

definition coerce_seconds :: "json option \<Rightarrow> rat option" where
  "coerce_seconds v =
     (case v of
        Some (JNum n) \<Rightarrow> Some (of_int n)
      | Some (JDec d) \<Rightarrow> number_of_string d
      | Some (JStr s) \<Rightarrow> if trim s \<noteq> [] then number_of_string s else None
      | _ \<Rightarrow> None)"

text \<open>A line as it arrives may hold other fields than those of its type.\<close>

record raw_utterance = utterance +
  ru_fields :: "(string \<times> json) list"

definition utterance_start :: "raw_utterance \<Rightarrow> rat option" where
  "utterance_start u =
     (case coerce_seconds (utt_start u) of
        Some n \<Rightarrow> Some n
      | None \<Rightarrow>
          (case find (\<lambda>v. v \<noteq> None) (map (\<lambda>k. coerce_seconds (map_of (ru_fields u) k)) [''begin'', ''offset'', ''t'', ''time'']) of
             Some v \<Rightarrow> v
           | None \<Rightarrow> map_option (\<lambda>p. of_nat (fst p)) (parse_timestamp_from_text (str_or_empty (utt_text u)))))"

definition utterance_display_text :: "raw_utterance \<Rightarrow> string" where
  "utterance_display_text u =
     (let text = str_or_empty (utt_text u) in
      case parse_timestamp_from_text text of Some (n, r) \<Rightarrow> r | None \<Rightarrow> text)"

definition utterance_time_label :: "raw_utterance \<Rightarrow> string option" where
  "utterance_time_label u = map_option (\<lambda>n. fmt_media_time (Some n)) (utterance_start u)"

section \<open>Tone\<close>

datatype valence = Positive | Negative | Neutral | Unknown

text \<open>\<open>None\<close> is a missing value or one that is not a number.\<close>

definition valence_kind :: "rat option \<Rightarrow> valence" where
  "valence_kind v =
     (case v of None \<Rightarrow> Unknown | Some x \<Rightarrow> if 15 / 100 < x then Positive else if x < - (15 / 100) then Negative else Neutral)"

definition format_valence :: "rat option \<Rightarrow> string option" where
  "format_valence v =
     (case valence_kind v of
        Unknown \<Rightarrow> None | Positive \<Rightarrow> Some ''transcript.toneValencePositive''
      | Negative \<Rightarrow> Some ''transcript.toneValenceNegative'' | Neutral \<Rightarrow> Some ''transcript.toneValenceNeutral'')"

definition valence_badge_tone :: "valence \<Rightarrow> badge_tone" where
  "valence_badge_tone k = (case k of Positive \<Rightarrow> ToneSuccess | Negative \<Rightarrow> ToneWarning | _ \<Rightarrow> ToneMuted)"

definition valence_number :: "(rat \<Rightarrow> string) \<Rightarrow> rat option \<Rightarrow> string option" where
  "valence_number fixed v = map_option (\<lambda>x. (if 0 < x then ''+'' else []) @ fixed x) v"

definition top_emotion :: "(string \<times> rat) list option \<Rightarrow> string option" where
  "top_emotion es =
     (case es of
        None \<Rightarrow> None
      | Some xs \<Rightarrow> fst (fold (\<lambda>(k, v) (best, score). if score < v then (Some k, v) else (best, score)) xs (None, - 1)))"

definition utterance_valence :: "('z) utterance_scheme \<Rightarrow> rat option" where
  "utterance_valence u = Option.bind (utt_tone u) tone_valence"

definition utterance_valence_class :: "'z utterance_scheme \<Rightarrow> string" where
  "utterance_valence_class u =
     (case utterance_valence u of
        None \<Rightarrow> []
      | Some v \<Rightarrow>
          if 15 / 100 < v then ''utterance-valence-pos'' else if v < - (15 / 100) then ''utterance-valence-neg''
          else ''utterance-valence-neutral'')"

definition utterance_valence_stripe_class :: "'z utterance_scheme \<Rightarrow> string" where
  "utterance_valence_stripe_class u =
     (let c = utterance_valence_class u in if c = [] then [] else ''utterance-stripe'' @ drop (length ''utterance-valence'') c)"

definition utterance_valence_hint :: "translate \<Rightarrow> (rat \<Rightarrow> string) \<Rightarrow> 'z utterance_scheme \<Rightarrow> string option" where
  "utterance_valence_hint tr fixed u =
     (let v = utterance_valence u; hint = (\<lambda>k x. tr_key tr k [] @ '' '' @ tr_key tr ''transcript.toneValenceScore'' [(''value'', fixed x)]) in
      case (valence_kind v, v) of
        (Positive, Some x) \<Rightarrow> Some (hint ''transcript.toneLineHintPositive'' x)
      | (Negative, Some x) \<Rightarrow> Some (hint ''transcript.toneLineHintNegative'' x)
      | (Neutral, Some x) \<Rightarrow> Some (hint ''transcript.toneLineHintNeutral'' x)
      | _ \<Rightarrow> None)"

record call_summary =
  cs_opening :: "rat option"
  cs_closing :: "rat option"
  cs_de_escalation :: "bool option"

datatype tone_card = NoCard | ToneUnavailable | LinesOnly "string list" | ToneCard valence valence "bool option" "string list"

definition transcript_tone_card :: "bool option \<Rightarrow> call_summary option \<Rightarrow> string list option \<Rightarrow> tone_card" where
  "transcript_tone_card has summ layers_r =
     (let layers = nullish layers_r [] in
      if has \<noteq> Some True then NoCard
      else case summ of
          None \<Rightarrow> if 0 < length layers then LinesOnly layers else ToneUnavailable
        | Some c \<Rightarrow> ToneCard (valence_kind (cs_opening c)) (valence_kind (cs_closing c)) (cs_de_escalation c) layers)"

text \<open>A figure of the card: the class of its box, its badge and text (\<open>None\<close> is a dash), and the number after it.\<close>

definition tone_stat :: "(rat \<Rightarrow> string) \<Rightarrow> rat option \<Rightarrow> string \<times> badge_tone \<times> string option \<times> string option" where
  "tone_stat fixed v =
     (let kind = valence_kind v in
      (''transcript-tone-stat-'' @ (case kind of Positive \<Rightarrow> ''positive'' | Negative \<Rightarrow> ''negative'' | Neutral \<Rightarrow> ''neutral'' | Unknown \<Rightarrow> ''unknown''),
       valence_badge_tone kind, format_valence v, valence_number fixed v))"

definition de_escalation_badge :: "call_summary \<Rightarrow> (badge_tone \<times> string) option" where
  "de_escalation_badge c =
     map_option (\<lambda>b. (if b then ToneSuccess else ToneMuted,
                      if b then ''transcript.toneDeEscalationYes'' else ''transcript.toneDeEscalationNo'')) (cs_de_escalation c)"

definition tone_layers_badges :: "(string \<Rightarrow> string \<Rightarrow> string) \<Rightarrow> string list \<Rightarrow> (badge_tone \<times> string) list" where
  "tone_layers_badges t layers = map (\<lambda>l. (ToneMuted, tone_layer_label t l)) layers"

definition utterance_tone_chip :: "(string \<Rightarrow> string \<Rightarrow> string) \<Rightarrow> 'z utterance_scheme \<Rightarrow> string option" where
  "utterance_tone_chip t u =
     (let e = top_emotion (Option.bind (utt_tone u) tone_emotions) in
      if truthy e then map_option (tone_emotion_label t) e else None)"

section \<open>The player\<close>

datatype js_num = Finite rat | PosInfinity | NotNumber

definition player_rates :: "rat list" where
  "player_rates = [1, 5 / 4, 3 / 2, 2]"

definition fmt_player :: "js_num \<Rightarrow> string" where
  "fmt_player v =
     (case v of
        Finite x \<Rightarrow> (let s = nat (max 0 \<lfloor>x\<rfloor>) in nat_str (s div 60) @ '':'' @ pad2 (nat_str (s mod 60)))
      | _ \<Rightarrow> ''0:00'')"

text \<open>The audio element, and the player over it. \<open>ap_pending\<close> are the queued events play (\<open>True\<close>) and pause.\<close>

record player =
  el_paused :: bool
  el_muted :: bool
  el_time :: rat
  el_duration :: js_num
  el_rate :: rat
  ap_playing :: bool
  ap_muted :: bool
  ap_time :: rat
  ap_duration :: js_num
  ap_rate_index :: nat
  ap_fill :: rat
  ap_dragging :: bool
  ap_pending :: "bool list"

definition update_fill :: "rat \<Rightarrow> js_num \<Rightarrow> player \<Rightarrow> player" where
  "update_fill t d s = s\<lparr>ap_fill := (case d of Finite x \<Rightarrow> if 0 < x then min 100 (t / x * 100) else 0 | _ \<Rightarrow> 0)\<rparr>"

text \<open>Setting \<open>currentTime\<close>: no position after the end.\<close>

definition el_seek :: "rat \<Rightarrow> player \<Rightarrow> player" where
  "el_seek t s = s\<lparr>el_time := (case el_duration s of Finite d \<Rightarrow> min t d | _ \<Rightarrow> t)\<rparr>"

text \<open>\<open>play ()\<close> may be refused by the browser.\<close>

definition el_play :: "bool \<Rightarrow> player \<Rightarrow> player" where
  "el_play allowed s = (if allowed \<and> el_paused s then s\<lparr>el_paused := False, ap_pending := ap_pending s @ [True]\<rparr> else s)"

definition seek_to :: "bool \<Rightarrow> rat \<Rightarrow> player \<Rightarrow> player" where
  "seek_to allowed v s =
     (let s1 = el_seek (max 0 v) s; s2 = s1\<lparr>ap_time := el_time s1\<rparr> in
      el_play allowed (update_fill (el_time s2) (el_duration s2) s2))"

definition player_event :: "player \<Rightarrow> player" where
  "player_event s = (case ap_pending s of [] \<Rightarrow> s | b # bs \<Rightarrow> s\<lparr>ap_playing := b, ap_pending := bs\<rparr>)"

definition on_duration :: "js_num \<Rightarrow> player \<Rightarrow> player" where
  "on_duration d s = update_fill (el_time s) d (s\<lparr>el_duration := d, ap_duration := d\<rparr>)"

text \<open>The element plays on to \<open>t\<close> and says so.\<close>

definition on_time :: "rat \<Rightarrow> player \<Rightarrow> player" where
  "on_time t s =
     (let s1 = s\<lparr>el_time := t\<rparr> in
      if ap_dragging s then s1 else update_fill t (el_duration s) (s1\<lparr>ap_time := t\<rparr>))"

definition player_synced :: "player \<Rightarrow> player" where
  "player_synced s =
     update_fill (el_time s) (el_duration s)
       (s\<lparr>ap_playing := \<not> el_paused s, ap_muted := el_muted s, ap_time := el_time s,
          ap_duration := (case el_duration s of Finite d \<Rightarrow> Finite d | _ \<Rightarrow> Finite 0), ap_pending := []\<rparr>)"

definition toggle_play :: "bool \<Rightarrow> player \<Rightarrow> player" where
  "toggle_play allowed s =
     (if el_paused s then el_play allowed s else s\<lparr>el_paused := True, ap_pending := ap_pending s @ [False]\<rparr>)"

definition toggle_mute :: "player \<Rightarrow> player" where
  "toggle_mute s = s\<lparr>el_muted := \<not> el_muted s, ap_muted := \<not> el_muted s\<rparr>"

definition on_scrub_input :: "rat \<Rightarrow> player \<Rightarrow> player" where
  "on_scrub_input v s = update_fill v (el_duration s) ((el_seek v s)\<lparr>ap_time := v\<rparr>)"

definition set_dragging :: "bool \<Rightarrow> player \<Rightarrow> player" where
  "set_dragging b s = s\<lparr>ap_dragging := b\<rparr>"

definition next_rate :: "player \<Rightarrow> player" where
  "next_rate s =
     (let i = (ap_rate_index s + 1) mod length player_rates in s\<lparr>ap_rate_index := i, el_rate := player_rates ! i\<rparr>)"

definition scrub_max :: "js_num \<Rightarrow> rat" where
  "scrub_max d = (case d of Finite x \<Rightarrow> if 0 < x then x else 0 | _ \<Rightarrow> 0)"

definition player_clock :: "player \<Rightarrow> string" where
  "player_clock s =
     fmt_player (Finite (ap_time s)) @ '' / ''
     @ (case ap_duration s of Finite d \<Rightarrow> if 0 < d then fmt_player (ap_duration s) else ''0:00'' | _ \<Rightarrow> ''0:00'')"

text \<open>What the markup shows: the keys of the two buttons' labels, whether the speaker counts as pressed, the clock, the
  end and the value of the slider with its filled share, and the speed.\<close>

record player_view =
  pv_play :: string
  pv_mute :: string
  pv_pressed :: bool
  pv_clock :: string
  pv_max :: rat
  pv_value :: rat
  pv_fill :: rat
  pv_rate :: rat

definition player_view_of :: "player \<Rightarrow> player_view" where
  "player_view_of s =
     \<lparr>pv_play = (if ap_playing s then ''audio.playerPause'' else ''audio.playerPlay''),
      pv_mute = (if ap_muted s then ''audio.playerUnmute'' else ''audio.playerMute''), pv_pressed = ap_muted s,
      pv_clock = player_clock s, pv_max = scrub_max (ap_duration s), pv_value = ap_time s, pv_fill = ap_fill s,
      pv_rate = player_rates ! ap_rate_index s\<rparr>"

datatype player_op =
    SeekTo bool rat | PlayerEvent | OnDuration js_num | OnTime rat | TogglePlay bool | ToggleMute | Scrub rat | Drag bool | NextRate

fun player_do :: "player_op \<Rightarrow> player \<Rightarrow> player" where
  "player_do (SeekTo a v) s = seek_to a v s"
| "player_do PlayerEvent s = player_event s"
| "player_do (OnDuration d) s = on_duration d s"
| "player_do (OnTime t) s = on_time t s"
| "player_do (TogglePlay a) s = toggle_play a s"
| "player_do ToggleMute s = toggle_mute s"
| "player_do (Scrub v) s = on_scrub_input v s"
| "player_do (Drag b) s = set_dragging b s"
| "player_do NextRate s = next_rate s"

section \<open>The wave\<close>

record wave_layer =
  wl_phase_speed :: rat
  wl_freq1 :: rat
  wl_freq2 :: rat
  wl_amp_scale :: rat
  wl_base_opacity :: rat
  wl_attack :: rat
  wl_release :: rat
  wl_level_lag :: nat

definition wave_layers :: "wave_layer list" where
  "wave_layers =
     [\<lparr>wl_phase_speed = 24 / 1000, wl_freq1 = 215 / 100, wl_freq2 = 48 / 10, wl_amp_scale = 42 / 100, wl_base_opacity = 22 / 100,
       wl_attack = 1 / 10, wl_release = 28 / 1000, wl_level_lag = 10\<rparr>,
      \<lparr>wl_phase_speed = 34 / 1000, wl_freq1 = 255 / 100, wl_freq2 = 54 / 10, wl_amp_scale = 68 / 100, wl_base_opacity = 42 / 100,
       wl_attack = 16 / 100, wl_release = 45 / 1000, wl_level_lag = 5\<rparr>,
      \<lparr>wl_phase_speed = 44 / 1000, wl_freq1 = 295 / 100, wl_freq2 = 62 / 10, wl_amp_scale = 1, wl_base_opacity = 88 / 100,
       wl_attack = 22 / 100, wl_release = 7 / 100, wl_level_lag = 0\<rparr>]"

definition wave_points :: nat where
  "wave_points = 64"

definition wave_height :: rat where
  "wave_height = 120"

definition wave_width :: rat where
  "wave_width = 400"

definition wave_center_y :: rat where
  "wave_center_y = wave_height * (54 / 100)"

definition wave_amp :: rat where
  "wave_amp = wave_height * (4 / 10)"

definition level_history :: nat where
  "level_history = 28"

definition clamp :: "rat \<Rightarrow> rat \<Rightarrow> rat \<Rightarrow> rat" where
  "clamp n lo hi = max lo (min hi n)"

text \<open>The points of a path, and its text: a start and one curve for each further point. \<open>fixed\<close> is \<open>toFixed (2)\<close>.\<close>

definition wave_pts :: "rat list \<Rightarrow> (rat \<times> rat) list" where
  "wave_pts vs =
     map (\<lambda>i. (of_nat i / of_nat (length vs - 1) * wave_width, wave_center_y - vs ! i * wave_amp)) [0 ..< length vs]"

definition curve_text :: "(rat \<Rightarrow> string) \<Rightarrow> (rat \<times> rat) list \<Rightarrow> nat \<Rightarrow> string" where
  "curve_text fixed pts i =
     (let p0 = pts ! (i - 1); p1 = pts ! i; p2 = pts ! (i + 1); p3 = pts ! min (length pts - 1) (i + 2) in
      '' C '' @ join '' ''
        (map fixed [fst p1 + (fst p2 - fst p0) / 6, snd p1 + (snd p2 - snd p0) / 6,
                    fst p2 - (fst p3 - fst p1) / 6, snd p2 - (snd p3 - snd p1) / 6, fst p2, snd p2]))"

definition smooth_wave_path :: "(rat \<Rightarrow> string) \<Rightarrow> rat list \<Rightarrow> string" where
  "smooth_wave_path fixed vs =
     (if length vs < 2 then []
      else (let pts = wave_pts vs in
        ''M '' @ fixed (fst (hd pts)) @ '' '' @ fixed (snd (hd pts))
        @ concat (map (curve_text fixed pts) [0 ..< length pts - 1])))"

text \<open>\<open>sn\<close> is \<open>Math.sin\<close>, \<open>cpi\<close> the constant.\<close>

definition siri_wave_at :: "(rat \<Rightarrow> rat) \<Rightarrow> rat \<Rightarrow> rat \<Rightarrow> rat \<Rightarrow> wave_layer \<Rightarrow> rat" where
  "siri_wave_at sn cpi t phase l =
     (sn (t * cpi * wl_freq1 l + phase) * (64 / 100) + sn (t * cpi * wl_freq2 l - phase * (78 / 100)) * (26 / 100)) * sn (t * cpi)"

definition build_layer_shape :: "(rat \<Rightarrow> rat) \<Rightarrow> rat \<Rightarrow> rat \<Rightarrow> rat \<Rightarrow> wave_layer \<Rightarrow> rat list" where
  "build_layer_shape sn cpi phase amplitude l =
     (let amp = clamp amplitude 0 1; flr = 12 / 100 * amp in
      map (\<lambda>i. siri_wave_at sn cpi (of_nat i / of_nat (wave_points - 1)) phase l * (flr + amp * wl_amp_scale l)) [0 ..< wave_points])"

text \<open>\<open>curve\<close> is the power of the root of the mean square.\<close>

definition read_mic_level :: "(rat \<Rightarrow> rat) \<Rightarrow> nat list \<Rightarrow> rat" where
  "read_mic_level curve ds =
     (let sq = fold (\<lambda>d acc. acc + ((of_nat d - 128) / 128) * ((of_nat d - 128) / 128)) ds 0 in
      clamp (curve (sq / of_nat (length ds))) 0 1)"

datatype wave_mode = WaveStarting | WaveRecording | WavePaused | WaveIdle

record wave =
  wv_phase :: "rat list"
  wv_amp :: "rat list"
  wv_level :: rat
  wv_history :: "rat list"
  wv_opacity :: "rat list"

definition wave_mounted :: wave where
  "wave_mounted =
     \<lparr>wv_phase = map (\<lambda>_. 0) wave_layers, wv_amp = map (\<lambda>_. 8 / 100) wave_layers, wv_level = 8 / 100, wv_history = [],
      wv_opacity = map (\<lambda>l. wl_base_opacity l * (35 / 100)) wave_layers\<rparr>"

definition push_level :: "rat \<Rightarrow> wave \<Rightarrow> wave" where
  "push_level v w = w\<lparr>wv_history := take level_history (v # wv_history w)\<rparr>"

definition level_at_lag :: "nat \<Rightarrow> wave \<Rightarrow> rat" where
  "level_at_lag lag w = (if wv_history w = [] then wv_level w else wv_history w ! min lag (length (wv_history w) - 1))"

text \<open>The level of a frame; \<open>mic\<close> is what the analyser reads, \<open>None\<close> without a live microphone.\<close>

definition drive_level :: "(rat \<Rightarrow> rat) \<Rightarrow> wave_mode \<Rightarrow> rat option \<Rightarrow> wave \<Rightarrow> wave" where
  "drive_level sn m mic w =
     (case (m, mic) of
        (WaveRecording, Some raw) \<Rightarrow>
          (let v = wv_level w + (raw - wv_level w) * (18 / 100) in push_level v (w\<lparr>wv_level := v\<rparr>))
      | (WaveRecording, None) \<Rightarrow> w
      | (WavePaused, _) \<Rightarrow> (push_level (wv_level w * (92 / 100)) w)\<lparr>wv_level := wv_level w * (985 / 1000)\<rparr>
      | _ \<Rightarrow>
          (let pulse = 22 / 100 + sn (hd (wv_phase w) * (9 / 10)) * (8 / 100); v = wv_level w + (pulse - wv_level w) * (4 / 100) in
           push_level v (w\<lparr>wv_level := v\<rparr>)))"

definition layer_phase_step :: "wave_mode \<Rightarrow> wave_layer \<Rightarrow> rat" where
  "layer_phase_step m l =
     (case m of WaveStarting \<Rightarrow> wl_phase_speed l * (115 / 100) | WaveIdle \<Rightarrow> wl_phase_speed l * (85 / 100) | _ \<Rightarrow> wl_phase_speed l)"

definition next_layer_amp :: "wave_layer \<Rightarrow> rat \<Rightarrow> rat \<Rightarrow> rat" where
  "next_layer_amp l trg cur = cur + (trg - cur) * (if cur \<le> trg then wl_attack l else wl_release l)"

definition layer_opacity :: "wave_layer \<Rightarrow> rat \<Rightarrow> rat" where
  "layer_opacity l amp = wl_base_opacity l * clamp (18 / 100 + amp * (105 / 100)) (12 / 100) 1"

definition wave_tick :: "(rat \<Rightarrow> rat) \<Rightarrow> wave_mode \<Rightarrow> rat option \<Rightarrow> wave \<Rightarrow> wave" where
  "wave_tick sn m mic w =
     (let w1 = drive_level sn m mic w;
          trg = (\<lambda>l. if mic \<noteq> None \<or> m = WavePaused then level_at_lag (wl_level_lag l) w1 else wv_level w1);
          amps = map (\<lambda>(l, a). next_layer_amp l (trg l) a) (zip wave_layers (wv_amp w)) in
      w1\<lparr>wv_phase := map (\<lambda>(l, p). p + layer_phase_step m l) (zip wave_layers (wv_phase w)), wv_amp := amps,
         wv_opacity := map (\<lambda>(l, a). layer_opacity l a) (zip wave_layers amps)\<rparr>)"

text \<open>A microphone is read while it records or pauses. The paths of a frame are drawn from the phases and widths after it.\<close>

definition mic_live :: "wave_mode \<Rightarrow> bool \<Rightarrow> bool" where
  "mic_live m stream \<longleftrightarrow> (m = WaveRecording \<or> m = WavePaused) \<and> stream"

definition wave_paths :: "(rat \<Rightarrow> rat) \<Rightarrow> rat \<Rightarrow> (rat \<Rightarrow> string) \<Rightarrow> wave \<Rightarrow> string list" where
  "wave_paths sn cpi fixed w =
     map (\<lambda>(l, p, a). smooth_wave_path fixed (build_layer_shape sn cpi p a l)) (zip wave_layers (zip (wv_phase w) (wv_amp w)))"

definition wave_stroke :: "wave_mode \<Rightarrow> string" where
  "wave_stroke m =
     (case m of WaveRecording \<Rightarrow> ''stroke-red-500'' | WavePaused \<Rightarrow> ''stroke-amber-500'' | _ \<Rightarrow> ''stroke-primary/55'')"

section \<open>Times read back\<close>

lemma digits_clear:
  assumes "is_digit c"
  shows "\<not> is_ws c" "c \<noteq> CHR '']''" "c \<noteq> CHR ''[''"
  using assms by (auto simp: is_digit_def digits_def is_ws_def)

lemma colon_clear: "\<not> is_ws (CHR '':'')"
  by (simp add: is_ws_def)

lemma digits_colons:
  "c \<in> set (nat_str n) \<Longrightarrow> is_digit c" "c \<in> set (pad2 (nat_str n)) \<Longrightarrow> is_digit c"
proof -
  have z: "is_digit (CHR ''0'')" by (simp add: is_digit_def digits_def)
  show "c \<in> set (nat_str n) \<Longrightarrow> is_digit c" using nat_str_digits [of n] by blast
  moreover have "set (pad2 (nat_str n)) \<subseteq> insert (CHR ''0'') (set (nat_str n))" by (auto simp: pad2_def)
  ultimately show "c \<in> set (pad2 (nat_str n)) \<Longrightarrow> is_digit c" using z by blast
qed

text \<open>The text of a clock, and its fields.\<close>

lemma media_time_fields:
  fixes n :: nat
  defines "h \<equiv> n div 3600" and "m \<equiv> n mod 3600 div 60" and "s \<equiv> n mod 60"
  shows "fmt_media_time (Some (of_nat n)) =
      (if 0 < h then nat_str h @ '':'' else []) @ pad2 (nat_str m) @ '':'' @ pad2 (nat_str s)"
    "clock_fields (fmt_media_time (Some (of_nat n))) = Some (if 0 < h then nat_str h else [], pad2 (nat_str m), pad2 (nat_str s))"
proof -
  show f: "fmt_media_time (Some (of_nat n)) =
      (if 0 < h then nat_str h @ '':'' else []) @ pad2 (nat_str m) @ '':'' @ pad2 (nat_str s)"
    by (simp add: fmt_media_time_def h_def m_def s_def Let_def)
  have ms: "m < 60" "s < 60" by (simp_all add: m_def s_def less_mult_imp_div_less)
  have sp: "split_on (CHR '':'') (fmt_media_time (Some (of_nat n))) =
      (if 0 < h then [nat_str h] else []) @ [pad2 (nat_str m), pad2 (nat_str s)]"
    unfolding f by (simp add: split_on_append split_on_clean colon_free)
  have d: "list_all is_digit (nat_str h)" "list_all is_digit (pad2 (nat_str m))" "list_all is_digit (pad2 (nat_str s))"
    using digits_colons by (auto simp: list_all_iff)
  have "length (pad2 (nat_str m)) = 2" "length (pad2 (nat_str s)) = 2" using ms length_pad2 by simp_all
  moreover from this have "pad2 (nat_str m) \<noteq> []" by auto
  ultimately show "clock_fields (fmt_media_time (Some (of_nat n))) =
      Some (if 0 < h then nat_str h else [], pad2 (nat_str m), pad2 (nat_str s))"
    unfolding clock_fields_def sp using d nat_str_nonempty [of h] by (auto simp: Let_def)
qed

lemma media_time_parts:
  "Option.bind (clock_fields (fmt_media_time (Some (of_nat n)))) parse_clock_parts = Some n"
proof -
  have "n mod 3600 div 60 < 60" "n mod 60 < 60" by (simp_all add: less_mult_imp_div_less)
  moreover have "n div 3600 * 3600 + n mod 3600 div 60 * 60 + n mod 60 = n" using clock_decompose [of n] by simp
  ultimately show ?thesis
    by (simp add: media_time_fields(2) parse_clock_parts_def nat_str_nonempty Let_def not_le)
qed

lemma media_time_chars: "c \<in> set (fmt_media_time (Some (of_nat n))) \<Longrightarrow> is_digit c \<or> c = CHR '':''"
  unfolding media_time_fields(1) using digits_colons by (auto split: if_splits)

lemma media_time_hd:
  "\<exists>c cs. fmt_media_time (Some (of_nat n)) = c # cs \<and> \<not> is_ws c \<and> c \<noteq> CHR ''[''"
proof -
  have "fmt_media_time (Some (of_nat n)) \<noteq> []" unfolding media_time_fields(1) by simp
  then obtain c cs where c: "fmt_media_time (Some (of_nat n)) = c # cs" by (cases "fmt_media_time (Some (of_nat n))") auto
  then have "is_digit c \<or> c = CHR '':''" using media_time_chars [of c n] by simp
  then have "\<not> is_ws c \<and> c \<noteq> CHR ''[''" using digits_clear [of c] colon_clear by auto
  then show ?thesis using c by simp
qed

lemma media_time_taken:
  assumes "\<not> P d" "\<And>c. is_digit c \<or> c = CHR '':'' \<Longrightarrow> P c"
  shows "takeWhile P (fmt_media_time (Some (of_nat n)) @ d # t) = fmt_media_time (Some (of_nat n))"
  using assms media_time_chars [of _ n] by (subst takeWhile_append2) auto

text \<open>A line that starts with its time, in brackets or bare, is read as that time and the rest.\<close>

theorem timestamp_reads_back:
  "parse_timestamp_from_text (''['' @ fmt_media_time (Some (of_nat n)) @ ''] '' @ r) = Some (n, trim_left r)"
  "parse_timestamp_from_text (fmt_media_time (Some (of_nat n)) @ '' '' @ r) = Some (n, r)"
proof -
  let ?f = "fmt_media_time (Some (of_nat n))"
  obtain p where p: "clock_fields ?f = Some p" "parse_clock_parts p = Some n"
    using media_time_parts [of n] by (auto simp: bind_eq_Some_conv)
  have "takeWhile (\<lambda>c. c \<noteq> CHR '']'') (?f @ CHR '']'' # CHR '' '' # r) = ?f"
    by (rule media_time_taken) (use digits_clear(2) in auto)
  then have "bracket_ts (''['' @ ?f @ ''] '' @ r) = Some (p, trim_left r)"
    using p(1) by (simp add: bracket_ts_def trim_left_def is_ws_def starts_with_def Let_def)
  then show "parse_timestamp_from_text (''['' @ ?f @ ''] '' @ r) = Some (n, trim_left r)"
    using p(2) by (simp add: parse_timestamp_from_text_def timed_def)
  obtain c cs where c: "?f = c # cs" "\<not> is_ws c" "c \<noteq> CHR ''[''" using media_time_hd by blast
  have "takeWhile (\<lambda>c. \<not> is_ws c) (?f @ CHR '' '' # r) = ?f"
    by (rule media_time_taken) (use digits_clear(1) colon_clear in \<open>auto simp: is_ws_def [of "CHR '' ''"]\<close>)
  then have "plain_ts (?f @ '' '' @ r) = Some (p, r)"
    using p(1) c by (simp add: plain_ts_def trim_left_def Let_def)
  moreover have "bracket_ts (?f @ '' '' @ r) = None"
    using c by (simp add: bracket_ts_def trim_left_def starts_with_def Let_def)
  ultimately show "parse_timestamp_from_text (?f @ '' '' @ r) = Some (n, r)"
    using p(2) by (simp add: parse_timestamp_from_text_def timed_def)
qed

text \<open>A line without other times shows the time its text starts with, and the text without it.\<close>

lemma labelled_line:
  assumes "utt_start u = None" "ru_fields u = []" "utt_text u = Some (''['' @ fmt_media_time (Some (of_nat n)) @ ''] '' @ r)"
  shows "utterance_start u = Some (of_nat n) \<and> utterance_time_label u = Some (fmt_media_time (Some (of_nat n)))
    \<and> utterance_display_text u = trim_left r"
  using assms timestamp_reads_back(1) [of n r]
  by (simp add: utterance_start_def coerce_seconds_def utterance_time_label_def utterance_display_text_def)

section \<open>Tone\<close>

lemma emotion_fold:
  "fold (\<lambda>(k, v) (best, score). if score < v then (Some k, v) else (best, score)) xs (b, m) = (b', m') \<Longrightarrow>
   m \<le> (m' :: rat) \<and> (\<forall>x \<in> set xs. snd x \<le> m')
   \<and> (b' = b \<and> m' = m \<or> (\<exists>k. b' = Some k \<and> (k, m') \<in> set xs \<and> m < m'))"
proof (induction xs arbitrary: b m)
  case Nil
  then show ?case by simp
next
  case (Cons x xs)
  obtain k v where x: "x = (k, v)" by fastforce
  show ?case
  proof (cases "m < v")
    case True
    then show ?thesis using Cons.IH [of "Some k" v] "Cons.prems" x by fastforce
  next
    case False
    then show ?thesis using Cons.IH [of b m] "Cons.prems" x by fastforce
  qed
qed

text \<open>The emotion of a line is one with the highest score, and there is none only if no score is above -1.\<close>

theorem top_emotion_is_highest:
  "case top_emotion (Some xs) of
     None \<Rightarrow> \<forall>x \<in> set xs. snd x \<le> - 1
   | Some k \<Rightarrow> \<exists>v. (k, v) \<in> set xs \<and> - 1 < v \<and> (\<forall>x \<in> set xs. snd x \<le> v)"
proof -
  obtain b m where f: "fold (\<lambda>(k, v) (best, score). if score < v then (Some k, v) else (best, score)) xs (None, - 1) = (b, m)"
    by fastforce
  then show ?thesis using emotion_fold [OF f] by (cases b) (auto simp: top_emotion_def)
qed

text \<open>The colour of a line, its stripe, its hint and its badge say the same.\<close>

lemma valence_agrees:
  "(utterance_valence_class u = [] \<longleftrightarrow> valence_kind (utterance_valence u) = Unknown)
   \<and> (utterance_valence_class u = ''utterance-valence-pos'' \<longleftrightarrow> valence_kind (utterance_valence u) = Positive)
   \<and> (utterance_valence_class u = ''utterance-valence-neg'' \<longleftrightarrow> valence_kind (utterance_valence u) = Negative)
   \<and> (utterance_valence_hint tr fixed u = None \<longleftrightarrow> utterance_valence_class u = [])
   \<and> (utterance_valence_stripe_class u = [] \<longleftrightarrow> utterance_valence_class u = [])
   \<and> (format_valence (utterance_valence u) = None \<longleftrightarrow> utterance_valence_class u = [])"
  by (cases "utterance_valence u") (simp_all add: utterance_valence_class_def valence_kind_def utterance_valence_hint_def
      utterance_valence_stripe_class_def format_valence_def Let_def)

section \<open>The player and its element\<close>

definition player_ok :: "player \<Rightarrow> bool" where
  "player_ok s \<longleftrightarrow>
     (if ap_pending s = [] then ap_playing s = (\<not> el_paused s) else last (ap_pending s) = (\<not> el_paused s))
     \<and> ap_muted s = el_muted s \<and> ap_rate_index s < length player_rates \<and> el_rate s = player_rates ! ap_rate_index s
     \<and> 0 \<le> el_time s \<and> 0 \<le> ap_fill s \<and> ap_fill s \<le> 100
     \<and> (\<forall>d. el_duration s = Finite d \<longrightarrow> 0 \<le> d)"

definition op_ok :: "player_op \<Rightarrow> bool" where
  "op_ok c = (case c of OnTime t \<Rightarrow> 0 \<le> t | Scrub v \<Rightarrow> 0 \<le> v | OnDuration (Finite d) \<Rightarrow> 0 \<le> d | _ \<Rightarrow> True)"

lemma fill_ok: "0 \<le> t \<Longrightarrow> 0 \<le> ap_fill (update_fill t d s) \<and> ap_fill (update_fill t d s) \<le> 100"
  by (cases d) (simp_all add: update_fill_def)

lemma fill_frame [simp]:
  "ap_pending (update_fill t d s) = ap_pending s" "ap_playing (update_fill t d s) = ap_playing s"
  "el_paused (update_fill t d s) = el_paused s" "ap_muted (update_fill t d s) = ap_muted s"
  "el_muted (update_fill t d s) = el_muted s" "ap_rate_index (update_fill t d s) = ap_rate_index s"
  "el_rate (update_fill t d s) = el_rate s" "el_time (update_fill t d s) = el_time s"
  "el_duration (update_fill t d s) = el_duration s" "ap_time (update_fill t d s) = ap_time s"
  by (simp_all add: update_fill_def)

lemma player_ok_shown [simp]: "player_ok (s\<lparr>ap_time := t\<rparr>) = player_ok s"
  by (simp add: player_ok_def)

lemma player_ok_fill [intro]: "player_ok s \<Longrightarrow> 0 \<le> t \<Longrightarrow> player_ok (update_fill t d s)"
  using fill_ok [of t d s] by (simp add: player_ok_def)

lemma player_ok_seek [intro]: "player_ok s \<Longrightarrow> 0 \<le> t \<Longrightarrow> player_ok (el_seek t s)"
  by (cases "el_duration s") (simp_all add: player_ok_def el_seek_def)

lemma player_ok_play [intro]: "player_ok s \<Longrightarrow> player_ok (el_play a s)"
  by (simp add: player_ok_def el_play_def)

lemma player_ok_time: "player_ok s \<Longrightarrow> 0 \<le> el_time s"
  by (simp add: player_ok_def)

text \<open>Through any run of the controls and of the element's events, the button, the speaker, the speed and the bar follow
  the element: once its events have come, the button shows whether it plays.\<close>

lemma player_op_follows:
  assumes s: "player_ok s" and c: "op_ok c"
  shows "player_ok (player_do c s)"
proof (cases c)
  case (SeekTo a v)
  have k: "player_ok (el_seek (max 0 v) s)" using s by (intro player_ok_seek) simp_all
  show ?thesis using player_ok_time [OF k] k by (simp add: SeekTo seek_to_def Let_def player_ok_play player_ok_fill)
next
  case PlayerEvent
  then show ?thesis using s by (cases "ap_pending s") (auto simp: player_event_def player_ok_def)
next
  case (OnDuration d)
  have "player_ok (s\<lparr>el_duration := d, ap_duration := d\<rparr>)" using s c OnDuration by (cases d) (simp_all add: player_ok_def op_ok_def)
  then show ?thesis using player_ok_time [OF s] by (simp add: OnDuration on_duration_def player_ok_fill)
next
  case (OnTime t)
  have t: "0 \<le> t" using c OnTime by (simp add: op_ok_def)
  then have k: "player_ok (s\<lparr>el_time := t\<rparr>)" using s by (simp add: player_ok_def)
  then show ?thesis using t player_ok_fill [of "s\<lparr>el_time := t, ap_time := t\<rparr>" t] by (simp add: OnTime on_time_def Let_def)
next
  case (TogglePlay a)
  then show ?thesis using s player_ok_play [OF s, of a] by (simp add: toggle_play_def) (simp add: player_ok_def)
next
  case ToggleMute
  then show ?thesis using s by (simp add: toggle_mute_def player_ok_def)
next
  case (Scrub v)
  have v: "0 \<le> v" using c Scrub by (simp add: op_ok_def)
  then show ?thesis using player_ok_seek [OF s v] by (simp add: Scrub on_scrub_input_def player_ok_fill)
next
  case (Drag b)
  then show ?thesis using s by (simp add: set_dragging_def player_ok_def)
next
  case NextRate
  then show ?thesis using s by (simp add: next_rate_def player_ok_def Let_def player_rates_def)
qed

theorem player_follows_element:
  assumes "player_ok s" "list_all op_ok cs"
  shows "let s' = fold player_do cs s in
    player_ok s' \<and> (ap_pending s' = [] \<longrightarrow> (pv_play (player_view_of s') = ''audio.playerPause'') = (\<not> el_paused s'))
    \<and> pv_pressed (player_view_of s') = el_muted s' \<and> pv_rate (player_view_of s') = el_rate s'
    \<and> pv_fill (player_view_of s') \<in> {0 .. 100}"
proof -
  have "player_ok (fold player_do cs s)"
    using assms by (induction cs arbitrary: s) (simp_all add: player_op_follows)
  then show ?thesis by (simp add: Let_def player_ok_def player_view_of_def)
qed

section \<open>The wave stays in its box\<close>

definition unit_range :: "rat \<Rightarrow> bool" where
  "unit_range x \<longleftrightarrow> 0 \<le> x \<and> x \<le> 1"

lemma unit_mix: "unit_range x \<Longrightarrow> unit_range y \<Longrightarrow> unit_range r \<Longrightarrow> unit_range (x + (y - x) * r)"
proof -
  assume a: "unit_range x" "unit_range y" "unit_range r"
  have e: "x + (y - x) * r = (1 - r) * x + r * y" by (simp add: algebra_simps)
  have "0 \<le> (1 - r) * x + r * y" using a by (simp add: unit_range_def)
  moreover have "(1 - r) * x + r * y \<le> 1" using a by (intro convex_bound_le) (simp_all add: unit_range_def)
  ultimately show ?thesis by (simp add: e unit_range_def)
qed

lemma unit_scaled: "unit_range x \<Longrightarrow> unit_range r \<Longrightarrow> unit_range (x * r)"
  by (simp add: unit_range_def mult_le_one)

definition wave_ok :: "wave \<Rightarrow> bool" where
  "wave_ok w \<longleftrightarrow>
     unit_range (wv_level w) \<and> list_all unit_range (wv_history w) \<and> length (wv_history w) \<le> level_history
     \<and> length (wv_phase w) = length wave_layers \<and> length (wv_amp w) = length wave_layers \<and> list_all unit_range (wv_amp w)
     \<and> list_all2 (\<lambda>l x. 12 / 100 * wl_base_opacity l \<le> x \<and> x \<le> wl_base_opacity l) wave_layers (wv_opacity w)"

lemma push_ok: "wave_ok w \<Longrightarrow> unit_range v \<Longrightarrow> wave_ok (push_level v w)"
  using set_take_subset [of level_history "v # wv_history w"] by (auto simp: wave_ok_def push_level_def list_all_iff)

lemma wave_ok_level: "wave_ok w \<Longrightarrow> unit_range v \<Longrightarrow> wave_ok (w\<lparr>wv_level := v\<rparr>)"
  by (simp add: wave_ok_def)

lemma lag_ok:
  assumes "wave_ok w"
  shows "unit_range (level_at_lag k w)"
proof -
  have "wv_history w ! min k (length (wv_history w) - 1) \<in> set (wv_history w)" if "wv_history w \<noteq> []"
    using that by (intro nth_mem) (cases "wv_history w", simp_all)
  then show ?thesis using assms by (auto simp: wave_ok_def level_at_lag_def list_all_iff)
qed

lemma drive_ok:
  assumes "wave_ok w" "\<And>x. \<bar>sn x\<bar> \<le> 1" "\<And>r. mic = Some r \<Longrightarrow> unit_range r"
  shows "wave_ok (drive_level sn m mic w)"
proof -
  let ?pulse = "22 / 100 + sn (hd (wv_phase w) * (9 / 10)) * (8 / 100)"
  have u: "unit_range (wv_level w)" using assms(1) by (simp add: wave_ok_def)
  have mix: "unit_range y \<Longrightarrow> unit_range k \<Longrightarrow>
      wave_ok (push_level (wv_level w + (y - wv_level w) * k) (w\<lparr>wv_level := wv_level w + (y - wv_level w) * k\<rparr>))" for y k
    using assms(1) u by (intro push_ok wave_ok_level unit_mix)
  have "unit_range ?pulse" using assms(2) [of "hd (wv_phase w) * (9 / 10)"] by (simp add: unit_range_def abs_le_iff)
  then have p: "wave_ok (push_level (wv_level w + (?pulse - wv_level w) * (4 / 100))
      (w\<lparr>wv_level := wv_level w + (?pulse - wv_level w) * (4 / 100)\<rparr>))"
    by (rule mix) (simp add: unit_range_def)
  have r: "wave_ok (push_level (wv_level w + (y - wv_level w) * (18 / 100))
      (w\<lparr>wv_level := wv_level w + (y - wv_level w) * (18 / 100)\<rparr>))" if "mic = Some y" for y
    using assms(3) [OF that] by (rule mix) (simp add: unit_range_def)
  have q: "wave_ok ((push_level (wv_level w * (92 / 100)) w)\<lparr>wv_level := wv_level w * (985 / 1000)\<rparr>)"
    using assms(1) u by (intro wave_ok_level push_ok unit_scaled) (simp_all add: unit_range_def)
  show ?thesis
    by (cases m; cases mic) (use assms(1) p q r in \<open>simp_all only: drive_level_def Let_def prod.case option.case wave_mode.case\<close>)
qed

lemma wave_rates: "l \<in> set wave_layers \<Longrightarrow> unit_range (wl_attack l) \<and> unit_range (wl_release l) \<and> 0 \<le> wl_base_opacity l
    \<and> unit_range (wl_amp_scale l)"
  by (auto simp: wave_layers_def unit_range_def)

lemma opacity_ok:
  assumes "l \<in> set wave_layers"
  shows "12 / 100 * wl_base_opacity l \<le> layer_opacity l a \<and> layer_opacity l a \<le> wl_base_opacity l"
proof -
  have b: "0 \<le> wl_base_opacity l" using wave_rates [OF assms] by simp
  define c where "c = clamp (18 / 100 + a * (105 / 100)) (12 / 100) 1"
  have c: "12 / 100 \<le> c" "c \<le> 1" by (simp_all add: c_def clamp_def)
  show ?thesis
    using mult_left_mono [OF c(1) b] mult_left_mono [OF c(2) b] unfolding layer_opacity_def c_def [symmetric]
    by (simp add: mult.commute)
qed

text \<open>While the sine and the level read are in range, a frame keeps the levels, the widths of the layers and the history
  between 0 and 1, the history short, and each layer between 12\% and all of its opacity.\<close>

theorem wave_stays_in_range:
  assumes "wave_ok w" "\<And>x. \<bar>sn x\<bar> \<le> 1" "\<And>r. mic = Some r \<Longrightarrow> unit_range r"
  shows "wave_ok (wave_tick sn m mic w)"
proof -
  define w1 where "w1 = drive_level sn m mic w"
  have w1: "wave_ok w1" unfolding w1_def by (rule drive_ok [OF assms])
  define trg where "trg = (\<lambda>l :: wave_layer. if mic \<noteq> None \<or> m = WavePaused then level_at_lag (wl_level_lag l) w1 else wv_level w1)"
  have t: "unit_range (trg l)" for l using w1 lag_ok by (simp add: trg_def wave_ok_def)
  let ?amps = "map (\<lambda>(l, a). next_layer_amp l (trg l) a) (zip wave_layers (wv_amp w))"
  have n: "length (wv_amp w) = length wave_layers" "length (wv_phase w) = length wave_layers" "list_all unit_range (wv_amp w)"
    using assms(1) by (simp_all add: wave_ok_def)
  have amps: "list_all unit_range ?amps"
  proof (unfold list_all_length, intro allI impI)
    fix i assume i: "i < length ?amps"
    then have l: "wave_layers ! i \<in> set wave_layers" and a: "unit_range (wv_amp w ! i)"
      using n by (simp_all add: list_all_length)
    show "unit_range (?amps ! i)"
      using i wave_rates [OF l] by (simp add: next_layer_amp_def unit_mix [OF a t])
  qed
  have ops: "list_all2 (\<lambda>l x. 12 / 100 * wl_base_opacity l \<le> x \<and> x \<le> wl_base_opacity l) wave_layers
      (map (\<lambda>(l, a). layer_opacity l a) (zip wave_layers ?amps))"
    using n opacity_ok by (auto simp: list_all2_conv_all_nth)
  have e: "wave_tick sn m mic w =
      w1\<lparr>wv_phase := map (\<lambda>(l, p). p + layer_phase_step m l) (zip wave_layers (wv_phase w)), wv_amp := ?amps,
         wv_opacity := map (\<lambda>(l, a). layer_opacity l a) (zip wave_layers ?amps)\<rparr>"
    unfolding wave_tick_def Let_def w1_def trg_def ..
  show ?thesis
    using w1 amps ops n by (simp add: e wave_ok_def del: map_map)
qed

lemma wave_mounted_ok: "wave_ok wave_mounted"
  by (simp add: wave_ok_def wave_mounted_def wave_layers_def unit_range_def level_history_def)

lemma mic_level_range: "unit_range (read_mic_level curve ds)"
  by (simp add: read_mic_level_def Let_def clamp_def unit_range_def)

lemma sine_product:
  assumes "\<bar>x\<bar> \<le> 1" "\<bar>y\<bar> \<le> 1" "\<bar>z\<bar> \<le> (1 :: rat)"
  shows "\<bar>(x * (64 / 100) + y * (26 / 100)) * z\<bar> \<le> 9 / 10"
proof -
  have "\<bar>x * (64 / 100) + y * (26 / 100)\<bar> \<le> 9 / 10" using assms(1,2) unfolding abs_le_iff by linarith
  then show ?thesis
    using mult_mono [of "\<bar>x * (64 / 100) + y * (26 / 100)\<bar>" "9 / 10" "\<bar>z\<bar>" 1] assms(3) by (simp add: abs_mult)
qed

text \<open>Every point of a layer's path lies in the view box, whatever its phase and amplitude.\<close>

theorem wave_fits_box:
  assumes sn: "\<And>x. \<bar>sn x\<bar> \<le> 1" and l: "l \<in> set wave_layers" and p: "(x, y) \<in> set (wave_pts (build_layer_shape sn cpi phase a l))"
  shows "0 \<le> x \<and> x \<le> wave_width \<and> 0 \<le> y \<and> y \<le> wave_height"
proof -
  let ?vs = "build_layer_shape sn cpi phase a l"
  have len: "length ?vs = 64" by (simp add: build_layer_shape_def Let_def wave_points_def)
  then obtain i where i: "i < 64" "x = of_nat i / of_nat 63 * wave_width" "y = wave_center_y - ?vs ! i * wave_amp"
    using p by (auto simp: wave_pts_def)
  define c where "c = clamp a 0 1"
  have c: "0 \<le> c" "c \<le> 1" by (simp_all add: c_def clamp_def)
  define k where "k = 12 / 100 * c + c * wl_amp_scale l"
  have "c * wl_amp_scale l \<le> 1 * 1" "0 \<le> c * wl_amp_scale l"
    using c wave_rates [OF l] mult_mono [of c 1 "wl_amp_scale l" 1] by (simp_all add: unit_range_def)
  then have k: "0 \<le> k" "k \<le> 112 / 100" using c by (simp_all add: k_def)
  define s where "s = siri_wave_at sn cpi (of_nat i / of_nat (wave_points - 1)) phase l"
  have s: "\<bar>s\<bar> \<le> 9 / 10" unfolding s_def siri_wave_at_def by (rule sine_product) (rule sn)+
  have "?vs ! i = s * k"
    using i(1) by (simp add: build_layer_shape_def Let_def wave_points_def s_def k_def c_def)
  moreover have "\<bar>s * k\<bar> \<le> 9 / 10 * (112 / 100)"
    using mult_mono [OF s k(2)] k(1) by (simp add: abs_mult)
  ultimately have v: "\<bar>?vs ! i\<bar> \<le> 1008 / 1000" by simp
  have "of_nat i \<le> (63 :: rat)" using i(1) by simp
  then have "0 \<le> x" "x \<le> wave_width" by (simp_all add: i(2) wave_width_def)
  moreover have "0 \<le> y" "y \<le> wave_height" using v
    by (simp_all add: i(3) wave_center_y_def wave_amp_def wave_height_def abs_le_iff)
  ultimately show ?thesis by simp
qed

end
