(* ===== verification/Page_Runs.thy ===== *)
theory Page_Runs
  imports Lists Stats
begin

text \<open>
  Whole pages: the list of tasks (\<open>pages/TasksPage.tsx\<close>), both pages of statistics (\<open>pages/StatsPage.tsx\<close>,
  \<open>pages/instance/InstanceStatsTab.tsx\<close>) and the audit log (\<open>pages/security/AuditLogTab.tsx\<close>) with every request they
  make. A handler that awaits an answer is a call in flight; answers, clicks and timers come in any order. What a handler reads
  from its rendering before the first \<open>await\<close> it also uses afterwards, whatever was chosen meanwhile.
\<close>

section \<open>The page of tasks\<close>

text \<open>Filters, offset and size of the rendering a handler belongs to.\<close>

type_synonym list_args = "(string \<times> string \<times> string) \<times> nat \<times> nat"

definition list_args :: "'z task_list_scheme \<Rightarrow> list_args" where
  "list_args s = ((tl_org_id s, tl_user_id s, tl_status s), tl_done_offset s, tl_page_size s)"

text \<open>A call of \<open>loadFilters\<close> knows the run of its effect.\<close>

datatype tasks_call =
    OrgsCall nat
  | UsersCall nat
  | CancelCall string list_args
  | RetryCall string list_args
  | PurgeCall list_args
  | PurgeReload nat

fun call_request :: "tasks_call \<Rightarrow> event list" where
  "call_request (OrgsCall k) = [EvRequest ''GET'' ''/orgs'' None]"
| "call_request (UsersCall k) = [EvRequest ''GET'' ''/org/users'' None]"
| "call_request (CancelCall i a) = [EvRequest ''DELETE'' (''/tasks/'' @ i) None]"
| "call_request (RetryCall i a) = [EvRequest ''POST'' (''/tasks/'' @ i @ ''/retry'') None]"
| "call_request (PurgeCall a) = [EvRequest ''POST'' (case fst a of (oid, uid, status) \<Rightarrow> purge_path oid uid status) None]"
| "call_request (PurgeReload n) = []"

record tasks_tab = tasks_page +
  tb_me :: "me option"
  tb_effect :: nat
  tb_calls :: "tasks_call list"

definition tb_send :: "tasks_call \<Rightarrow> 'z tasks_tab_scheme \<Rightarrow> 'z tasks_tab_scheme" where
  "tb_send c s = s\<lparr>events := events s @ call_request c, tb_calls := tb_calls s @ [c]\<rparr>"

text \<open>\<open>reload (offset, size)\<close> of the rendering of the click.\<close>

definition tb_reload :: "list_args \<Rightarrow> 'z task_list_scheme \<Rightarrow> 'z task_list_scheme" where
  "tb_reload a s =
     (case a of ((oid, uid, status), offset, sz) \<Rightarrow>
        emit (EvRequest ''GET'' (tasks_list_path oid uid status offset sz) None)
          (s\<lparr>tl_seq := tl_seq s + 1, tl_flight := tl_flight s @ [(tl_seq s + 1, Reload)]\<rparr>))"

text \<open>The effect that loads what the filters offer.\<close>

definition shows_filters :: "me option \<Rightarrow> bool" where
  "shows_filters m \<longleftrightarrow> is_instance_admin m \<or> is_org_admin m"

definition tb_load_filters :: "'z tasks_tab_scheme \<Rightarrow> 'z tasks_tab_scheme" where
  "tb_load_filters s =
     (let s1 = s\<lparr>tb_effect := tb_effect s + 1\<rparr> in
      if \<not> shows_filters (tb_me s) then s1
      else if is_instance_admin (tb_me s) then tb_send (OrgsCall (tb_effect s1)) s1
      else tb_send (UsersCall (tb_effect s1)) s1)"

definition tb_set_me :: "me option \<Rightarrow> 'z tasks_tab_scheme \<Rightarrow> 'z tasks_tab_scheme" where
  "tb_set_me m s =
     (if (is_instance_admin m, shows_filters m) = (is_instance_admin (tb_me s), shows_filters (tb_me s))
      then s\<lparr>tb_me := m\<rparr> else tb_load_filters (s\<lparr>tb_me := m\<rparr>))"

text \<open>Clicks.\<close>

definition tb_cancel :: "task \<Rightarrow> 'z tasks_tab_scheme \<Rightarrow> 'z tasks_tab_scheme" where
  "tb_cancel t s = tb_send (CancelCall (task_id t) (list_args s)) s"

definition tb_retry :: "task \<Rightarrow> 'z tasks_tab_scheme \<Rightarrow> 'z tasks_tab_scheme" where
  "tb_retry t s = tb_send (RetryCall (task_id t) (list_args s)) s"

definition tb_purge :: "'z tasks_tab_scheme \<Rightarrow> 'z tasks_tab_scheme" where
  "tb_purge s = tb_send (PurgeCall (list_args s)) (s\<lparr>tp_purge_busy := True\<rparr>)"

text \<open>
  The answers of the calls: of the lists behind the filters, and of the three buttons, which then reload the list. The purge
  stays busy until its reload has settled; the page is rendered after the handler has sent it.
\<close>

definition tb_failed :: "exn \<Rightarrow> 'z tasks_tab_scheme \<Rightarrow> 'z tasks_tab_scheme" where
  "tb_failed e s = emit (EvToast e None) s"

definition tb_orgs_answer :: "nat \<Rightarrow> exn + org list option \<Rightarrow> 'z tasks_tab_scheme \<Rightarrow> 'z tasks_tab_scheme" where
  "tb_orgs_answer k r s =
     (if k \<noteq> tb_effect s then s
      else case r of Inr gs \<Rightarrow> s\<lparr>tp_orgs := nullish gs []\<rparr> | Inl e \<Rightarrow> tb_failed e s)"

definition tb_users_answer :: "nat \<Rightarrow> exn + user list option \<Rightarrow> 'z tasks_tab_scheme \<Rightarrow> 'z tasks_tab_scheme" where
  "tb_users_answer k r s =
     (if k \<noteq> tb_effect s then s
      else case r of Inr us \<Rightarrow> s\<lparr>tp_org_users := nullish us []\<rparr> | Inl e \<Rightarrow> tb_failed e s)"

definition tb_row_answer :: "list_args \<Rightarrow> exn + unit \<Rightarrow> 'z tasks_tab_scheme \<Rightarrow> 'z tasks_tab_scheme" where
  "tb_row_answer a r s = (case r of Inr _ \<Rightarrow> tb_reload a s | Inl e \<Rightarrow> tb_failed e s)"

definition tb_purge_answer :: "list_args \<Rightarrow> exn + unit \<Rightarrow> 'z tasks_tab_scheme \<Rightarrow> 'z tasks_tab_scheme" where
  "tb_purge_answer a r s =
     (case r of
        Inl e \<Rightarrow> (tb_failed e s)\<lparr>tp_purge_busy := False\<rparr>
      | Inr _ \<Rightarrow>
          (let s1 = tb_reload (fst a, 0, snd (snd a)) s in
           set_tl_page 0 (s1\<lparr>tp_confirm_purge := False, tb_calls := tb_calls s1 @ [PurgeReload (tl_seq s1)]\<rparr>)))"

definition tb_answer ::
  "tasks_call \<Rightarrow> (exn + org list option) \<Rightarrow> (exn + user list option) \<Rightarrow> (exn + unit)
     \<Rightarrow> 'z tasks_tab_scheme \<Rightarrow> 'z tasks_tab_scheme" where
  "tb_answer c orgs_r users_r r s =
     (let s1 = s\<lparr>tb_calls := remove1 c (tb_calls s)\<rparr> in
      case c of
        OrgsCall k \<Rightarrow> tb_orgs_answer k orgs_r s1
      | UsersCall k \<Rightarrow> tb_users_answer k users_r s1
      | CancelCall _ a \<Rightarrow> tb_row_answer a r s1
      | RetryCall _ a \<Rightarrow> tb_row_answer a r s1
      | PurgeCall a \<Rightarrow> tb_purge_answer a r s1
      | PurgeReload _ \<Rightarrow> s)"

text \<open>
  An answer of the list. A tick whose answer shows that a task has ended asks for the wallet first, with no one waiting for
  it; the answer of the reload of a purge ends the purge.
\<close>

definition tb_list_answer ::
  "nat \<Rightarrow> list_request \<Rightarrow> exn + task_list_response \<Rightarrow> 'z tasks_tab_scheme \<Rightarrow> 'z tasks_tab_scheme" where
  "tb_list_answer n r q s =
     (let s1 = (if tl_wallet (tl_answer n r q s) = tl_wallet s then s
                else emit (EvRequest ''GET'' ''/org'' None) s);
          s2 = tl_answer n r q s1 in
      if r = Reload \<and> PurgeReload n \<in> set (tb_calls s2)
      then s2\<lparr>tb_calls := remove1 (PurgeReload n) (tb_calls s2), tp_purge_busy := False\<rparr> else s2)"

definition tb_blank :: "me option \<Rightarrow> tasks_tab" where
  "tb_blank m =
     \<lparr>local_store = Map.empty, session_store = Map.empty, events = [],
      tl_org_id = [], tl_user_id = [], tl_status = [], tl_page_size = default_list_page_size,
      tl_page = 0, tl_enabled = True, tl_seq = 0, tl_effect = 0, tl_flight = [], tl_timer = None,
      tl_prev_active = [], tl_active = [], tl_done = [], tl_done_total = 0, tl_wallet = 0,
      tp_orgs = [], tp_org_users = [], tp_confirm_purge = False, tp_purge_busy = False,
      tb_me = m, tb_effect = 0, tb_calls = []\<rparr>"

definition tb_mounted :: "me option \<Rightarrow> tasks_tab" where
  "tb_mounted m = tb_load_filters (tl_restart (tb_blank m))"

text \<open>\<open>ids\<close> is what the hub uses as the id of a task. A button is there for the rows that show it.\<close>

inductive tb_step :: "(string \<Rightarrow> bool) \<Rightarrow> tasks_tab \<Rightarrow> tasks_tab \<Rightarrow> bool" for ids where
  tb_org: "tb_step ids s (set_org_filter cmp v s)"
| tb_user: "tb_step ids s (set_user_filter v s)"
| tb_status: "tb_step ids s (set_status_filter v s)"
| tb_size: "tb_step ids s (change_page_size sz s)"
| tb_page: "tb_step ids s (set_tl_page p s)"
| tb_session: "tb_step ids s (tb_set_me m s)"
| tb_cancelled: "t \<in> set (tl_active s @ tl_done s) \<Longrightarrow> row_can_cancel (tb_me s) t \<Longrightarrow> tb_step ids s (tb_cancel t s)"
| tb_retried: "t \<in> set (tl_active s @ tl_done s) \<Longrightarrow> row_can_retry (tb_me s) t \<Longrightarrow> tb_step ids s (tb_retry t s)"
| tb_ask_purge: "is_instance_admin (tb_me s) \<Longrightarrow> tl_done_total s \<noteq> 0 \<Longrightarrow> tb_step ids s (s\<lparr>tp_confirm_purge := True\<rparr>)"
| tb_close_purge: "tp_confirm_purge s \<Longrightarrow> tb_step ids s (s\<lparr>tp_confirm_purge := False\<rparr>)"
| tb_purged: "tp_confirm_purge s \<Longrightarrow> \<not> tp_purge_busy s \<Longrightarrow> tb_step ids s (tb_purge s)"
| tb_answered: "c \<in> set (tb_calls s) \<Longrightarrow> tb_step ids s (tb_answer c orgs_r users_r r s)"
| tb_timer: "tl_timer s = Some d \<Longrightarrow> tb_step ids s (tl_timer_fires s)"
| tb_listed: "(n, r) \<in> set (tl_flight s)
    \<Longrightarrow> (\<And>l. q = Inr l \<Longrightarrow> list_all (\<lambda>t. ids (task_id t)) (tr_active l @ tr_done l))
    \<Longrightarrow> tb_step ids s (tb_list_answer n r q s)"

inductive tb_reach :: "(string \<Rightarrow> bool) \<Rightarrow> tasks_tab \<Rightarrow> bool" for ids where
  tb_opened: "tb_reach ids (tb_mounted m)"
| tb_went_on: "tb_reach ids s \<Longrightarrow> tb_step ids s s' \<Longrightarrow> tb_reach ids s'"

section \<open>The pages of statistics\<close>

text \<open>The users of the organisation are asked for by the effect of the hook, before the effect of the page.\<close>

definition ou_send :: "bool \<Rightarrow> 'z org_users_scheme \<Rightarrow> 'z org_users_scheme" where
  "ou_send on s =
     (if on then emit (EvRequest ''GET'' ''/org/users'' None) (s\<lparr>ou_loading := True\<rparr>) else s\<lparr>ou_users := []\<rparr>)"

definition ou_answer :: "exn + user list \<Rightarrow> 'z org_users_scheme \<Rightarrow> 'z org_users_scheme" where
  "ou_answer r s =
     (case r of
        Inr us \<Rightarrow> s\<lparr>ou_users := us, ou_loading := False\<rparr>
      | Inl e \<Rightarrow> (emit (EvToast e None) s)\<lparr>ou_users := [], ou_loading := False\<rparr>)"

text \<open>A part of a page, with the log of the page.\<close>

record 'd org_stats_tab = "'d usage_page" +
  og_users :: org_users

definition on_users :: "(org_users \<Rightarrow> org_users) \<Rightarrow> 'd org_stats_tab \<Rightarrow> 'd org_stats_tab" where
  "on_users f s = (let t = f ((og_users s)\<lparr>events := events s\<rparr>) in s\<lparr>og_users := t, events := events t\<rparr>)"

definition org_stats_opened :: "nat \<Rightarrow> me option \<Rightarrow> 'd org_stats_tab" where
  "org_stats_opened now m =
     usage_effect ''/org/stats'' False
       (on_users (ou_send (org_stats_on m))
         \<lparr>local_store = Map.empty, session_store = Map.empty, events = [], us_on = org_stats_on m,
          us_filters = initial_filters now, us_stats = None, us_ran = None, us_flights = [],
          og_users = \<lparr>local_store = Map.empty, session_store = Map.empty, events = [], ou_users = [], ou_loading = False\<rparr>\<rparr>)"

datatype org_stats_event = OrgUsage usage_event | OrgUsers "exn + user list"

fun org_stats_run :: "(string \<Rightarrow> exn + 'd) \<Rightarrow> org_stats_event list \<Rightarrow> 'd org_stats_tab \<Rightarrow> 'd org_stats_tab" where
  "org_stats_run srv [] s = s"
| "org_stats_run srv (OrgUsage e # es) s = org_stats_run srv es (usage_run ''/org/stats'' False srv [e] s)"
| "org_stats_run srv (OrgUsers r # es) s =
     org_stats_run srv es (if ou_loading (og_users s) then on_users (ou_answer r) s else s)"

text \<open>The tab of the instance: its organisations, the snapshot with its timer, and the numbers under the filters.\<close>

record 'd instance_stats_tab = "'d usage_page" +
  ig_orgs :: "org list"
  ig_orgs_out :: bool
  ig_snapshot :: "'d snapshot_poll"

definition on_snapshot ::
  "('d snapshot_poll \<Rightarrow> 'd snapshot_poll) \<Rightarrow> 'd instance_stats_tab \<Rightarrow> 'd instance_stats_tab" where
  "on_snapshot f s = (let t = f ((ig_snapshot s)\<lparr>events := events s\<rparr>) in s\<lparr>ig_snapshot := t, events := events t\<rparr>)"

definition ig_orgs_answer :: "exn + org list option \<Rightarrow> 'd instance_stats_tab \<Rightarrow> 'd instance_stats_tab" where
  "ig_orgs_answer r s =
     (let s1 = s\<lparr>ig_orgs_out := False\<rparr> in
      case r of Inr gs \<Rightarrow> s1\<lparr>ig_orgs := nullish gs []\<rparr> | Inl e \<Rightarrow> emit (EvToast e None) s1)"

definition instance_stats_opened :: "nat \<Rightarrow> 'd instance_stats_tab" where
  "instance_stats_opened now =
     usage_effect ''/instance/stats'' True
       (on_snapshot snapshot_tick
         (emit (EvRequest ''GET'' ''/orgs?include_hidden=true'' None)
           \<lparr>local_store = Map.empty, session_store = Map.empty, events = [], us_on = True,
            us_filters = initial_filters now, us_stats = None, us_ran = None, us_flights = [],
            ig_orgs = [], ig_orgs_out = True,
            ig_snapshot = \<lparr>local_store = Map.empty, session_store = Map.empty, events = [],
                           sq_open = True, sq_snapshot = None, sq_out = 0\<rparr>\<rparr>))"

datatype 'd instance_stats_event =
    InstUsage usage_event
  | InstOrgs "exn + org list option"
  | InstTick
  | InstSnapshot "exn + 'd"

fun instance_stats_run ::
  "(string \<Rightarrow> exn + 'd) \<Rightarrow> 'd instance_stats_event list \<Rightarrow> 'd instance_stats_tab \<Rightarrow> 'd instance_stats_tab" where
  "instance_stats_run srv [] s = s"
| "instance_stats_run srv (InstUsage e # es) s = instance_stats_run srv es (usage_run ''/instance/stats'' True srv [e] s)"
| "instance_stats_run srv (InstOrgs r # es) s =
     instance_stats_run srv es (if ig_orgs_out s then ig_orgs_answer r s else s)"
| "instance_stats_run srv (InstTick # es) s = instance_stats_run srv es (on_snapshot snapshot_tick s)"
| "instance_stats_run srv (InstSnapshot r # es) s =
     instance_stats_run srv es (if 0 < sq_out (ig_snapshot s) then on_snapshot (snapshot_arrives r) s else s)"

section \<open>The audit log\<close>

text \<open>The run of the list, the answer of the organisations and the download, which a click starts.\<close>

datatype audit_tab_event = AuditList audit_event | AuditOrgs "exn + org list option" | AuditExport "exn + unit"

fun audit_tab_run ::
  "(string \<Rightarrow> exn + (audit_entry list \<times> nat)) \<Rightarrow> audit_tab_event list \<Rightarrow> audit_page \<Rightarrow> audit_page" where
  "audit_tab_run srv [] s = s"
| "audit_tab_run srv (AuditList e # es) s = audit_tab_run srv es (audit_run srv [e] s)"
| "audit_tab_run srv (AuditOrgs r # es) s = audit_tab_run srv es (audit_orgs_arrive r s)"
| "audit_tab_run srv (AuditExport r # es) s = audit_tab_run srv es (snd (export_csv r s))"

section \<open>The page and its parts\<close>

text \<open>The hook's \<open>refresh\<close> is its two halves.\<close>

lemma org_users_halves:
  "snd (org_users_refresh on r s) = (if on then ou_answer r (ou_send True s) else ou_send False s)"
  by (simp add: org_users_refresh_def ou_send_def ou_answer_def run_simps show_error_def emit_def split: sum.split)

text \<open>With nothing in between, a button of a row does what its handler does as a whole.\<close>

lemma tl_seq_reload [simp]: "tl_seq (tb_reload a s) = tl_seq s + 1"
  by (simp add: tb_reload_def emit_def split: prod.split)

lemma tb_reload_now: "tb_reload (list_args s) s = tl_reload (tl_done_offset s) (tl_page_size s) s"
  by (simp add: tb_reload_def list_args_def tl_reload_def tl_send_def)

text \<open>Every task the page shows came from the hub.\<close>

definition shown_ids :: "(string \<Rightarrow> bool) \<Rightarrow> 'z task_list_scheme \<Rightarrow> bool" where
  "shown_ids ids s \<longleftrightarrow> list_all (\<lambda>t. ids (task_id t)) (tl_active s @ tl_done s)"

lemma shown_frame [simp]:
  "shown_ids ids (emit e s) = shown_ids ids s" "shown_ids ids (tl_render old s) = shown_ids ids s"
  "shown_ids ids (tl_timer_fires s) = shown_ids ids s" "shown_ids ids (tb_reload a s) = shown_ids ids s"
  "shown_ids ids (tl_restart s) = shown_ids ids s"
  by (simp_all add: shown_ids_def tl_render_def tl_restart_def tl_timer_fires_def tl_tick_def tl_send_def tb_reload_def
      emit_def Let_def split: prod.split)

lemma shown_set_query [simp]:
  "shown_ids ids (tl_set_query a b c d e s) = shown_ids ids s"
  by (simp add: tl_set_query_def) (simp add: shown_ids_def)

lemma shown_query [simp]:
  "shown_ids ids (set_tl_page p s) = shown_ids ids s" "shown_ids ids (change_page_size n s) = shown_ids ids s"
  "shown_ids ids (set_status_filter v s) = shown_ids ids s" "shown_ids ids (set_user_filter v s) = shown_ids ids s"
  "shown_ids ids (set_org_filter cmp v t) = shown_ids ids t"
  by (simp_all add: set_tl_page_def change_page_size_def set_status_filter_def set_user_filter_def set_org_filter_def Let_def)

lemma shown_send [simp]:
  "shown_ids ids (tb_send c s) = shown_ids ids s" "shown_ids ids (tb_load_filters s) = shown_ids ids s"
  by (simp_all add: shown_ids_def tb_send_def tb_load_filters_def Let_def)

lemma shown_fields [simp]:
  "shown_ids ids (s\<lparr>tb_calls := cs\<rparr>) = shown_ids ids s" "shown_ids ids (s\<lparr>tb_me := m\<rparr>) = shown_ids ids s"
  "shown_ids ids (t\<lparr>tp_purge_busy := b\<rparr>) = shown_ids ids t" "shown_ids ids (t\<lparr>tp_confirm_purge := b\<rparr>) = shown_ids ids t"
  "shown_ids ids (t\<lparr>tp_orgs := gs\<rparr>) = shown_ids ids t" "shown_ids ids (t\<lparr>tp_org_users := us\<rparr>) = shown_ids ids t"
  by (simp_all add: shown_ids_def)

lemma shown_answer [simp]: "shown_ids ids (tb_answer c orgs_r users_r r s) = shown_ids ids s"
  by (cases c)
     (simp_all add: tb_answer_def Let_def tb_orgs_answer_def tb_users_answer_def tb_row_answer_def tb_purge_answer_def
       tb_failed_def split: sum.split)

lemma shown_tl_answer:
  assumes "shown_ids ids s" "\<And>l. q = Inr l \<Longrightarrow> list_all (\<lambda>t. ids (task_id t)) (tr_active l @ tr_done l)"
  shows "shown_ids ids (tl_answer n r q s)"
proof -
  have "shown_ids ids (tl_tick_answer n k q t)" "shown_ids ids (tl_reload_answer n q t)" if "shown_ids ids t"
    for k and t :: "'a task_list_scheme"
    using that assms(2)
    by (cases q; simp add: shown_ids_def tl_tick_answer_def tl_reload_answer_def tl_show_def emit_def Let_def)+
  moreover have "shown_ids ids (s\<lparr>tl_flight := f\<rparr>)" for f using assms(1) by (simp add: shown_ids_def)
  ultimately show ?thesis by (simp add: tl_answer_def Let_def split: list_request.split)
qed

lemma shown_ids_step:
  assumes "tb_step ids s t" "shown_ids ids s"
  shows "shown_ids ids t"
  using assms
proof cases
  case (tb_listed n r q)
  have e: "shown_ids ids (tl_answer n r q s')" if "shown_ids ids s'" for s' :: tasks_tab
    by (rule shown_tl_answer) (use that tb_listed in simp_all)
  define s1 where "s1 = (if tl_wallet (tl_answer n r q s) = tl_wallet s then s else emit (EvRequest ''GET'' ''/org'' None) s)"
  have "shown_ids ids s1" using assms(2) by (simp add: s1_def)
  then have "shown_ids ids (tl_answer n r q s1)" by (rule e)
  then show ?thesis unfolding tb_listed(1) tb_list_answer_def Let_def s1_def [symmetric] by auto
qed (simp_all add: tb_set_me_def tb_cancel_def tb_retry_def tb_purge_def)

lemma shown_ids_reach: "tb_reach ids s \<Longrightarrow> shown_ids ids s"
proof (induction rule: tb_reach.induct)
  case (tb_opened m)
  show ?case by (simp add: tb_mounted_def) (simp add: shown_ids_def tb_blank_def)
next
  case (tb_went_on s s')
  then show ?case by (blast intro: shown_ids_step)
qed

section \<open>A reload under other filters\<close>

text \<open>A row's button reloads the list with the filters of its click. When they have changed meanwhile, the list of the old
  filters is asked for last and is shown under the new ones.\<close>

theorem late_reload_shows_old_filters:
  "let s1 = tb_row_answer ((oid, uid, status), offset, sz) (Inr ()) s;
       s2 = tb_list_answer (tl_seq s1) Reload (Inr r) s1 in
   events s1 = events s @ [EvRequest ''GET'' (tasks_list_path oid uid status offset sz) None]
   \<and> tl_active s2 = tr_active r \<and> tl_done s2 = tr_done r
   \<and> tl_org_id s2 = tl_org_id s \<and> tl_user_id s2 = tl_user_id s \<and> tl_status s2 = tl_status s"
proof -
  have f: "tl_active (tl_render old t) = tl_active t" "tl_done (tl_render old t) = tl_done t"
    "tl_org_id (tl_render old t) = tl_org_id t" "tl_user_id (tl_render old t) = tl_user_id t"
    "tl_status (tl_render old t) = tl_status t" "tl_wallet (tl_render old t) = tl_wallet t" for old t :: "'z task_list_scheme"
    by (simp_all add: tl_render_def tl_restart_def tl_tick_def tl_send_def emit_def Let_def)
  show ?thesis
    by (simp add: tb_row_answer_def tb_list_answer_def tl_answer_def tl_reload_answer_def tl_show_def f Let_def)
       (simp add: tb_reload_def emit_def)
qed

end
