(* ===== verification/Api_Schemas.thy ===== *)
theory Api_Schemas
  imports Js_Json
begin

text \<open>
  The data the hub and the client exchange, as the generated \<open>openapi/schema.gen.ts\<close> declares it: a type is a value of
  \<open>ts_type\<close>, a field is required, optional, or required with a default that the server fills in (\<open>@default\<close> in its
  comment). The tables follow the file; each holds the schemas of about 150 of its lines. \<open>fits\<close> says when a JSON value
  has a type.
\<close>

section \<open>Types\<close>

datatype presence = Req | Opt | Def

datatype ts_type =
    TsString | TsNumber | TsBoolean | TsNull | TsUnknown | TsNever
  | TsLit string
  | TsRef string
  | TsArray ts_type
  | TsMap ts_type
  | TsUnion "ts_type list"
  | TsBoth ts_type ts_type
  | TsObject "(string \<times> presence \<times> ts_type) list"

abbreviation nullable :: "ts_type \<Rightarrow> ts_type" where
  "nullable t \<equiv> TsUnion [t, TsNull]"

section \<open>The schemas\<close>

definition schemas_from_AccountDeleteBody :: "(string \<times> ts_type) list" where
  "schemas_from_AccountDeleteBody =
     [(''AccountDeleteBody'', TsObject [(''password'', Opt, nullable TsString), (''totp_code'', Opt, nullable TsString),
       (''successor_user_id'', Opt, nullable TsString)]),
      (''AccountDeleteCandidate'', TsObject [(''id'', Req, TsString), (''email'', Req, TsString), (''role'', Req, TsString)]),
      (''AccountDeletePreviewResponse'', TsObject [(''requires_successor'', Req, TsBoolean), (''will_delete_org'', Req, TsBoolean),
       (''candidates'', Opt, TsArray (TsRef ''AccountDeleteCandidate''))]),
      (''AccountDeleteResultResponse'', TsObject [(''status'', Def, TsString), (''org_deleted'', Req, TsBoolean),
       (''org_id'', Opt, nullable TsString)]),
      (''AgreementPreviewBody'', TsObject [(''text'', Def, TsString)]),
      (''AgreementPreviewResponse'', TsObject [(''text'', Req, TsString)]),
      (''ApiTokenCreateResponse'', TsObject [(''id'', Req, TsString), (''name'', Req, TsString), (''prefix'', Req, TsString),
       (''revoked'', Req, TsBoolean), (''blocked_by_tariff'', Req, TsBoolean), (''created_at'', Req, TsString),
       (''token'', Req, TsString)]),
      (''ApiTokenListResponse'', TsObject [(''items'', Req, TsArray (TsRef ''ApiTokenPublic''))]),
      (''ApiTokenPublic'', TsObject [(''id'', Req, TsString), (''name'', Req, TsString), (''prefix'', Req, TsString),
       (''revoked'', Req, TsBoolean), (''blocked_by_tariff'', Req, TsBoolean), (''created_at'', Req, TsString)]),
      (''ArtifactImpactActiveTasks'', TsObject [(''queued'', Def, TsNumber), (''running'', Def, TsNumber)]),
      (''ArtifactImpactRelatedItem'', TsObject [(''id'', Req, TsString), (''title'', Req, TsString)]),
      (''ArtifactImpactShareRecipient'', TsObject [(''email'', Req, TsString), (''display_name'', Req, TsString)]),
      (''AudioCreatedResponse'', TsObject [(''id'', Req, TsString), (''org_id'', Req, TsString), (''owner_user_id'', Req, TsString),
       (''filename'', Req, TsString), (''source_url'', Opt, nullable TsString), (''duration_sec'', Opt, nullable TsNumber),
       (''created_at'', Req, TsString), (''user_tags'', Opt, TsArray (TsRef ''UserTagBrief''))])]"

definition schemas_from_AudioDetailResponse :: "(string \<times> ts_type) list" where
  "schemas_from_AudioDetailResponse =
     [(''AudioDetailResponse'', TsObject [(''hidden'', Def, TsBoolean), (''owner_email'', Opt, nullable TsString),
       (''owner_display_name'', Opt, nullable TsString), (''user_tags'', Opt, TsArray (TsRef ''UserTagBrief'')),
       (''share_kind'', Opt, nullable TsString), (''shared_by'', Opt, nullable TsString),
       (''shared_with'', Opt, nullable (TsArray TsString)), (''shares'', Opt, nullable (TsArray (TsRef ''ShareRecordBrief''))),
       (''share_id'', Opt, nullable TsString), (''id'', Req, TsString), (''org_id'', Req, TsString),
       (''owner_user_id'', Req, TsString), (''filename'', Req, TsString), (''source_url'', Opt, nullable TsString),
       (''duration_sec'', Opt, nullable TsNumber), (''created_at'', Req, TsString),
       (''transcripts'', Opt, TsArray (TsRef ''TranscriptListItem'')), (''can_transcribe'', Def, TsBoolean)]),
      (''AudioListItem'', TsObject [(''hidden'', Def, TsBoolean), (''owner_email'', Opt, nullable TsString),
       (''owner_display_name'', Opt, nullable TsString), (''user_tags'', Opt, TsArray (TsRef ''UserTagBrief'')),
       (''share_kind'', Opt, nullable TsString), (''shared_by'', Opt, nullable TsString),
       (''shared_with'', Opt, nullable (TsArray TsString)), (''shares'', Opt, nullable (TsArray (TsRef ''ShareRecordBrief''))),
       (''share_id'', Opt, nullable TsString), (''id'', Req, TsString), (''org_id'', Req, TsString),
       (''owner_user_id'', Req, TsString), (''filename'', Req, TsString), (''source_url'', Opt, nullable TsString),
       (''duration_sec'', Opt, nullable TsNumber), (''created_at'', Req, TsString), (''has_transcript'', Def, TsBoolean),
       (''has_summary'', Def, TsBoolean), (''transcript_id'', Opt, nullable TsString),
       (''summary_transcript_id'', Opt, nullable TsString)]),
      (''AudioListResponse'', TsObject [(''items'', Req, TsArray (TsRef ''AudioListItem'')), (''total'', Req, TsNumber),
       (''hidden_count'', Req, TsNumber)]),
      (''AuditLogEntry'', TsObject [(''id'', Req, TsString), (''action'', Req, TsString), (''actor_email'', Opt, nullable TsString),
       (''actor_display_name'', Opt, nullable TsString), (''on_behalf_of_email'', Opt, nullable TsString),
       (''on_behalf_of_display_name'', Opt, nullable TsString), (''payload'', Opt, nullable (TsMap TsUnknown)),
       (''created_at'', Req, TsString)]),
      (''AuditLogListResponse'', TsObject [(''items'', Req, TsArray (TsRef ''AuditLogEntry'')), (''total'', Req, TsNumber)]),
      (''AuthUserBootstrapResponse'', TsObject [(''status'', Def, TsString), (''user'', Req, TsRef ''UserPublic'')])]"

definition schemas_from_BackupRestoreReportResponse :: "(string \<times> ts_type) list" where
  "schemas_from_BackupRestoreReportResponse =
     [(''BackupRestoreReportResponse'', TsObject [(''mode'', Req, TsString),
       (''skills'', Opt, TsUnion [TsRef ''BackupRestoreSectionReport'', TsMap TsNumber, TsNull]),
       (''transcripts'', Opt, TsUnion [TsRef ''BackupRestoreSectionReport'', TsMap TsNumber, TsNull]),
       (''summaries'', Opt, TsUnion [TsRef ''BackupRestoreSectionReport'', TsMap TsNumber, TsNull])]),
      (''BackupRestoreSectionReport'', TsObject [(''created'', Def, TsNumber), (''updated'', Def, TsNumber),
       (''skipped'', Def, TsNumber)]),
      (''BaseSkillBody'', TsObject [(''name'', Req, TsString), (''body'', Req, TsString)]),
      (''Body_upload_audio_api_v1_audios_post'', TsObject [(''file'', Req, TsString), (''from_microphone'', Def, TsBoolean),
       (''user_tags'', Def, TsArray TsString)]),
      (''Body_upload_backup_restore_api_v1_me_backup_restore_post'', TsObject [(''file'', Req, TsString)]),
      (''CaptureBody'', TsObject [(''meeting_url'', Req, TsString), (''pin'', Def, TsString), (''transcribe'', Def, TsBoolean),
       (''skill_ids'', Opt, TsArray TsString), (''bot_display_name'', Opt, nullable TsString), (''tone'', Def, TsBoolean),
       (''user_tags'', Opt, TsArray TsString)]),
      (''CapturePlatformsResponse'', TsObject [(''enabled'', Req, TsBoolean), (''connectors'', Opt, TsArray (TsMap TsUnknown)),
       (''jitsi_hosts'', Opt, TsArray TsString)]),
      (''CreateOrgBody'', TsObject [(''name'', Req, TsString), (''tariff_id'', Req, TsString), (''admin_email'', Req, TsString),
       (''admin_password'', Req, TsString), (''locale'', Def, TsString), (''is_personal'', Def, TsBoolean)]),
      (''CreateUserBody'', TsObject [(''email'', Req, TsString), (''password'', Req, TsString), (''role'', Def, TsString),
       (''locale'', Def, TsString)])]"

definition schemas_from_DekListResponse :: "(string \<times> ts_type) list" where
  "schemas_from_DekListResponse =
     [(''DekListResponse'', TsObject [(''active_dek_id'', Opt, nullable TsString),
       (''items'', Opt, TsArray (TsRef ''DekPublicResponse'')), (''running_job_id'', Opt, nullable TsString),
       (''deks_pending_rewrap'', Req, TsNumber), (''hub_secret_prev_configured'', Req, TsBoolean),
       (''reencrypt_available'', Req, TsBoolean)]),
      (''DekPublicResponse'', TsObject [(''id'', Req, TsString), (''status'', Req, TsString), (''created_at'', Req, TsString),
       (''retired_at'', Opt, nullable TsString), (''usage_count'', Req, TsNumber)]),
      (''EncryptionJobLatestResponse'', TsObject [(''job'', Opt, nullable (TsRef ''EncryptionJobPublicResponse''))]),
      (''EncryptionJobPublicResponse'', TsObject [(''id'', Req, TsString), (''target_dek_id'', Opt, nullable TsString),
       (''status'', Req, TsString), (''progress'', Opt, TsMap TsUnknown), (''error'', Opt, nullable TsString),
       (''started_at'', Opt, nullable TsString), (''completed_at'', Opt, nullable TsString), (''created_at'', Req, TsString)]),
      (''HTTPValidationError'', TsObject [(''detail'', Opt, TsArray (TsRef ''ValidationError''))]),
      (''ImpersonateBody'', TsObject [(''user_id'', Req, TsString)]),
      (''ImportBody'', TsObject [(''url'', Req, TsString), (''transcribe'', Def, TsBoolean), (''skill_ids'', Opt, TsArray TsString),
       (''bot_display_name'', Opt, nullable TsString), (''tone'', Def, TsBoolean), (''user_tags'', Opt, TsArray TsString)]),
      (''ImportPlatformsResponse'', TsObject [(''enabled'', Req, TsBoolean), (''platforms'', Opt, TsArray (TsMap TsUnknown)),
       (''download_proxy_required'', Req, TsBoolean), (''download_proxy_available'', Req, TsBoolean)]),
      (''InstanceOrgCreateResponse'', TsObject [(''id'', Req, TsString), (''name'', Req, TsString),
       (''is_personal'', Req, TsBoolean), (''password_ttl_days'', Req, TsNumber), (''mfa_required'', Req, TsBoolean),
       (''balance'', Req, TsString), (''unlimited'', Req, TsBoolean), (''tariff'', Req, TsRef ''TariffPublic''),
       (''sso'', Req, TsRef ''OrgSsoPublic''), (''usage'', Opt, nullable (TsRef ''OrgUsageSummary'')),
       (''public_base_url_set'', Def, TsBoolean), (''allow_public_links'', Req, TsBoolean),
       (''members'', Opt, TsArray (TsRef ''UserPublic''))])]"

definition schemas_from_InstanceOrgListItem :: "(string \<times> ts_type) list" where
  "schemas_from_InstanceOrgListItem =
     [(''InstanceOrgListItem'', TsObject [(''id'', Req, TsString), (''name'', Req, TsString), (''is_personal'', Req, TsBoolean),
       (''password_ttl_days'', Req, TsNumber), (''mfa_required'', Req, TsBoolean), (''balance'', Req, TsString),
       (''unlimited'', Req, TsBoolean), (''tariff'', Req, TsRef ''TariffPublic''), (''sso'', Req, TsRef ''OrgSsoPublic''),
       (''usage'', Opt, nullable (TsRef ''OrgUsageSummary'')), (''public_base_url_set'', Def, TsBoolean),
       (''allow_public_links'', Req, TsBoolean), (''hidden'', Def, TsBoolean), (''members'', Opt, TsArray (TsRef ''UserPublic''))]),
      (''InstanceOrgListResponse'', TsObject [(''items'', Req, TsArray (TsRef ''InstanceOrgListItem'')),
       (''hidden_count'', Req, TsNumber)])]"

definition schemas_from_InstanceSettingsResponse :: "(string \<times> ts_type) list" where
  "schemas_from_InstanceSettingsResponse =
     [(''InstanceSettingsResponse'', TsObject [(''allow_new_orgs'', Req, TsBoolean), (''public_base_url'', Opt, nullable TsString),
       (''smtp_host'', Opt, nullable TsString), (''smtp_port'', Opt, nullable TsNumber), (''smtp_user'', Opt, nullable TsString),
       (''smtp_configured'', Req, TsBoolean), (''smtp_password_configured'', Req, TsBoolean),
       (''smtp_from'', Opt, nullable TsString), (''smtp_tls'', Req, TsBoolean), (''asr_model'', Opt, nullable TsString),
       (''diarization_model'', Opt, nullable TsString), (''summarize_model'', Opt, nullable TsString),
       (''asr_models'', Opt, TsArray TsString), (''diarization_models'', Opt, TsArray TsString),
       (''summarize_models'', Opt, TsArray TsString), (''dispatchable_pairs'', Opt, nullable (TsArray (TsMap TsUnknown))),
       (''import_enabled'', Req, TsBoolean), (''import_platforms'', Opt, TsArray (TsMap TsUnknown)),
       (''capture_enabled'', Req, TsBoolean), (''capture_connectors'', Opt, TsArray (TsMap TsUnknown)),
       (''outbound_proxy_enabled'', Req, TsBoolean), (''download_proxy_url'', Opt, nullable TsString),
       (''download_proxy_configured'', Req, TsBoolean), (''download_proxy_enabled'', Req, TsBoolean),
       (''telegram_enabled'', Req, TsBoolean), (''telegram_bot_token_configured'', Req, TsBoolean),
       (''telegram_bot_username'', Opt, nullable TsString), (''telegram_use_proxy'', Req, TsBoolean),
       (''telegram_use_webhook'', Req, TsBoolean), (''download_cookies_path'', Opt, nullable TsString),
       (''import_audio_bitrate_kbps'', Req, TsNumber), (''import_max_concurrent'', Req, TsNumber),
       (''session_ttl_hours'', Req, TsNumber), (''task_history_retention_days'', Req, TsNumber),
       (''date_time_format'', Opt, nullable TsString), (''timezone'', Opt, nullable TsString),
       (''user_agreement_text_en'', Opt, nullable TsString), (''user_agreement_text_ru'', Opt, nullable TsString),
       (''user_agreement_text_es'', Opt, nullable TsString), (''user_agreement_version'', Opt, nullable TsNumber),
       (''user_agreement_published'', Opt, nullable TsBoolean), (''personal_data_consent_text_en'', Opt, nullable TsString),
       (''personal_data_consent_text_ru'', Opt, nullable TsString), (''personal_data_consent_text_es'', Opt, nullable TsString),
       (''personal_data_consent_version'', Opt, nullable TsNumber), (''personal_data_consent_published'', Opt, nullable TsBoolean),
       (''privacy_policy_text_en'', Opt, nullable TsString), (''privacy_policy_text_ru'', Opt, nullable TsString),
       (''privacy_policy_text_es'', Opt, nullable TsString), (''privacy_policy_version'', Opt, nullable TsNumber),
       (''privacy_policy_published'', Opt, nullable TsBoolean), (''landing_footer_text_en'', Opt, nullable TsString),
       (''landing_footer_text_ru'', Opt, nullable TsString), (''landing_footer_text_es'', Opt, nullable TsString),
       (''landing_footer_published'', Opt, nullable TsBoolean), (''rate_limit_enabled'', Opt, nullable TsBoolean),
       (''rate_limit_login_email'', Opt, nullable TsNumber), (''rate_limit_login_ip'', Opt, nullable TsNumber),
       (''rate_limit_login_global'', Opt, nullable TsNumber), (''rate_limit_signup_email'', Opt, nullable TsNumber),
       (''rate_limit_signup_ip'', Opt, nullable TsNumber), (''rate_limit_signup_global'', Opt, nullable TsNumber),
       (''rate_limit_reset_email'', Opt, nullable TsNumber), (''rate_limit_reset_ip'', Opt, nullable TsNumber),
       (''rate_limit_reset_global'', Opt, nullable TsNumber), (''rate_limit_reset_confirm_ip'', Opt, nullable TsNumber),
       (''rate_limit_reset_confirm_global'', Opt, nullable TsNumber), (''rate_limit_setup_ip'', Opt, nullable TsNumber),
       (''rate_limit_setup_global'', Opt, nullable TsNumber), (''rate_limit_api_user'', Opt, nullable TsNumber),
       (''rate_limit_api_ip'', Opt, nullable TsNumber), (''rate_limit_api_global'', Opt, nullable TsNumber),
       (''rate_limit_api_tasks_user'', Opt, nullable TsNumber), (''rate_limit_api_tasks_ip'', Opt, nullable TsNumber),
       (''rate_limit_mcp_poll_user'', Opt, nullable TsNumber), (''rate_limit_oauth_register_ip'', Opt, nullable TsNumber),
       (''rate_limit_oauth_register_global'', Opt, nullable TsNumber), (''rate_limit_oauth_token_ip'', Opt, nullable TsNumber),
       (''rate_limit_oauth_token_global'', Opt, nullable TsNumber), (''rate_limit_public_link_ip'', Opt, nullable TsNumber),
       (''rate_limit_public_link_global'', Opt, nullable TsNumber), (''rate_limit_public_pin_ip'', Opt, nullable TsNumber)])]"

definition schemas_from_InstanceSummarizeModelsResponse :: "(string \<times> ts_type) list" where
  "schemas_from_InstanceSummarizeModelsResponse =
     [(''InstanceSummarizeModelsResponse'', TsObject [(''summarize_models'', Opt, TsArray TsString),
       (''default_summarize_model'', Opt, nullable TsString)]),
      (''InstanceTranscribeModelsResponse'', TsObject [(''asr_models'', Opt, TsArray TsString),
       (''diarization_models'', Opt, TsArray TsString), (''dispatchable_pairs'', Opt, nullable (TsArray (TsMap TsUnknown))),
       (''default_asr_model'', Opt, nullable TsString), (''default_diarization_model'', Opt, nullable TsString)]),
      (''InstanceUsageStatsResponse'', TsObject [(''tasks_transcribe_success'', Req, TsNumber),
       (''tasks_summarize_success'', Req, TsNumber), (''audio_transcribed_sec'', Req, TsNumber), (''summary_chars'', Req, TsNumber),
       (''total_amount'', Req, TsString), (''days'', Req, TsArray (TsRef ''UsageStatsDay'')), (''orgs'', Req, TsNumber),
       (''users'', Req, TsNumber), (''telegram_users'', Req, TsNumber), (''tasks_queued'', Req, TsNumber),
       (''tasks_running'', Req, TsNumber), (''download_proxy_status'', Req, TsUnion [TsLit ''up'', TsLit ''down'', TsLit ''na'']),
       (''usage_total'', Req, TsString)]),
      (''LegalDocumentVersionDetailResponse'', TsObject [(''version'', Req, TsNumber), (''published'', Req, TsBoolean),
       (''created_at'', Req, TsString), (''created_by_user_id'', Opt, nullable TsString),
       (''created_by_email'', Opt, nullable TsString), (''key'', Req, TsString), (''text_en'', Opt, nullable TsString),
       (''text_ru'', Opt, nullable TsString), (''text_es'', Opt, nullable TsString)]),
      (''LegalDocumentVersionListResponse'', TsObject [(''key'', Req, TsString),
       (''items'', Req, TsArray (TsRef ''LegalDocumentVersionSummary''))]),
      (''LegalDocumentVersionSummary'', TsObject [(''version'', Req, TsNumber), (''published'', Req, TsBoolean),
       (''created_at'', Req, TsString), (''created_by_user_id'', Opt, nullable TsString),
       (''created_by_email'', Opt, nullable TsString)]),
      (''LibraryArtifactDeleteImpactResponse'', TsObject [(''shared_with'', Opt, TsArray (TsRef ''ArtifactImpactShareRecipient'')),
       (''transcripts'', Opt, TsArray (TsRef ''ArtifactImpactRelatedItem'')),
       (''summaries'', Opt, TsArray (TsRef ''ArtifactImpactRelatedItem'')),
       (''active_tasks'', Req, TsRef ''ArtifactImpactActiveTasks''), (''has_active_public_link'', Def, TsBoolean)]),
      (''LoginBody'', TsObject [(''email'', Req, TsString), (''password'', Req, TsString)]),
      (''LoginMfaRequiredResponse'', TsObject [(''status'', Def, TsLit ''mfa_required''), (''challenge_id'', Req, TsString)]),
      (''LoginOkResponse'', TsObject [(''status'', Def, TsLit ''ok'')])]"

definition schemas_from_MePatchBody :: "(string \<times> ts_type) list" where
  "schemas_from_MePatchBody =
     [(''MePatchBody'', TsObject [(''first_name'', Opt, nullable TsString), (''last_name'', Opt, nullable TsString),
       (''locale'', Opt, nullable TsString), (''default_route'', Opt, nullable TsString),
       (''date_time_format'', Opt, nullable TsString), (''timezone'', Opt, nullable TsString),
       (''asr_model'', Opt, nullable TsString), (''diarization_model'', Opt, nullable TsString),
       (''summarize_model'', Opt, nullable TsString), (''capture_bot_display_name'', Opt, nullable TsString),
       (''tone_analytics_enabled'', Opt, nullable TsBoolean), (''shell_show_mic'', Opt, nullable TsBoolean),
       (''shell_show_telegram_link'', Opt, nullable TsBoolean)]),
      (''MeResponse'', TsObject [(''user'', Req, TsRef ''UserPublic''), (''org'', Opt, nullable (TsRef ''OrgPublicResponse'')),
       (''impersonating'', Req, TsBoolean), (''actor'', Opt, nullable (TsRef ''UserPublic'')),
       (''date_time_prefs'', Opt, TsMap TsUnknown), (''transcribe_prefs'', Opt, TsMap TsUnknown),
       (''transcribe_models'', Opt, TsMap TsUnknown), (''summarize_prefs'', Opt, TsMap TsUnknown),
       (''summarize_models'', Opt, TsMap TsUnknown), (''capture_prefs'', Opt, TsMap TsUnknown),
       (''must_change_password'', Req, TsBoolean), (''mfa_enabled'', Req, TsBoolean), (''mfa_required'', Req, TsBoolean),
       (''mfa_enrollment_required'', Req, TsBoolean), (''user_agreement_required'', Req, TsBoolean),
       (''user_agreement'', Opt, nullable (TsMap TsUnknown)), (''user_agreement_version'', Opt, nullable TsNumber),
       (''legal_documents'', Opt, nullable (TsArray (TsMap TsUnknown))), (''csrf_token'', Opt, nullable TsString)]),
      (''MeTelegramLinkResponse'', TsObject [(''code'', Req, TsString), (''expires_at'', Req, TsString),
       (''start_command'', Req, TsString), (''bot_username'', Opt, nullable TsString), (''bot_url'', Opt, nullable TsString)]),
      (''MeTelegramStatusResponse'', TsObject [(''bot_enabled'', Req, TsBoolean), (''bot_revision'', Opt, TsNumber),
       (''bot_instance_id'', Opt, nullable TsNumber), (''bot_username'', Opt, nullable TsString),
       (''bot_url'', Opt, nullable TsString), (''linked'', Req, TsBoolean), (''linked_at'', Opt, nullable TsString)]),
      (''MfaConfirmBody'', TsObject [(''code'', Req, TsString)]),
      (''MfaDisableBody'', TsObject [(''password'', Req, TsString), (''code'', Req, TsString)]),
      (''MfaRecoverBody'', TsObject [(''challenge_id'', Req, TsString), (''recovery_code'', Req, TsString)]),
      (''MfaSetupConfirmResponse'', TsObject [(''status'', Def, TsString), (''recovery_codes'', Req, TsArray TsString)]),
      (''MfaSetupStartResponse'', TsObject [(''secret'', Req, TsString), (''otpauth_uri'', Req, TsString)])]"

definition schemas_from_MfaStatusResponse :: "(string \<times> ts_type) list" where
  "schemas_from_MfaStatusResponse =
     [(''MfaStatusResponse'', TsObject [(''enabled'', Req, TsBoolean), (''required'', Req, TsBoolean),
       (''enrollment_required'', Req, TsBoolean)]),
      (''MfaVerifyBody'', TsObject [(''challenge_id'', Req, TsString), (''code'', Req, TsString)]),
      (''OAuthAuthorizationServerMetadata'', TsObject [(''issuer'', Req, TsString), (''authorization_endpoint'', Req, TsString),
       (''token_endpoint'', Req, TsString), (''registration_endpoint'', Req, TsString), (''jwks_uri'', Req, TsString),
       (''response_types_supported'', Req, TsArray TsString), (''grant_types_supported'', Req, TsArray TsString),
       (''code_challenge_methods_supported'', Req, TsArray TsString),
       (''token_endpoint_auth_methods_supported'', Req, TsArray TsString), (''scopes_supported'', Req, TsArray TsString)]),
      (''OAuthClientRegistrationResponse'', TsObject [(''client_id'', Req, TsString), (''client_name'', Req, TsString),
       (''redirect_uris'', Req, TsArray TsString), (''grant_types'', Req, TsArray TsString),
       (''response_types'', Req, TsArray TsString), (''token_endpoint_auth_method'', Req, TsString),
       (''client_id_issued_at'', Req, TsNumber), (''client_secret'', Opt, nullable TsString)]),
      (''OAuthErrorResponse'', TsObject [(''error'', Req, TsString)]),
      (''OAuthJwksResponse'', TsBoth (TsObject [(''keys'', Opt, TsArray (TsMap TsUnknown))]) (TsMap TsUnknown)),
      (''OAuthProtectedResourceMetadata'', TsObject [(''resource'', Req, TsString),
       (''authorization_servers'', Req, TsArray TsString), (''scopes_supported'', Req, TsArray TsString),
       (''bearer_methods_supported'', Req, TsArray TsString)]),
      (''OAuthTokenResponse'', TsObject [(''access_token'', Req, TsString), (''token_type'', Req, TsString),
       (''expires_in'', Req, TsNumber), (''refresh_token'', Req, TsString), (''scope'', Req, TsString)]),
      (''ObjectTagsBody'', TsObject [(''object_type'', Req, TsString), (''object_id'', Req, TsString),
       (''tags'', Opt, TsArray TsString)]),
      (''ObjectTagsResponse'', TsObject [(''tags'', Opt, TsArray (TsRef ''UserTagBrief''))]),
      (''OffboardBody'', TsObject [(''action'', Req, TsString), (''target_user_id'', Opt, nullable TsString)]),
      (''OffboardStatusResponse'', TsObject [(''status'', Def, TsString)]),
      (''OkStatusResponse'', TsObject [(''status'', Def, TsString)]),
      (''OrgCaptureJitsiHostBody'', TsObject [(''id'', Opt, nullable TsString), (''host'', Req, TsString),
       (''jwt_secret'', Opt, nullable TsString), (''jwt_app_id'', Opt, nullable TsString), (''clear_jwt_secret'', Def, TsBoolean)])]"

definition schemas_from_OrgCaptureJitsiReplaceBody :: "(string \<times> ts_type) list" where
  "schemas_from_OrgCaptureJitsiReplaceBody =
     [(''OrgCaptureJitsiReplaceBody'', TsObject [(''items'', Opt, TsArray (TsRef ''OrgCaptureJitsiHostBody'')),
       (''bot_display_name'', Opt, nullable TsString)]),
      (''OrgCaptureJitsiResponse'', TsObject [(''allowed'', Opt, nullable TsBoolean), (''bot_display_name'', Def, TsString),
       (''items'', Opt, TsArray (TsRef ''OrgJitsiHostPublic'')), (''workers'', Opt, TsArray (TsRef ''OrgCaptureWorkerChoice''))]),
      (''OrgCaptureWorkerChoice'', TsObject [(''id'', Req, TsString), (''name'', Req, TsString)]),
      (''OrgDeleteBody'', TsObject [(''confirm_name'', Req, TsString)]),
      (''OrgJitsiHostPublic'', TsObject [(''id'', Req, TsString), (''host'', Req, TsString),
       (''jwt_app_id'', Opt, nullable TsString), (''jwt_secret_configured'', Def, TsBoolean)]),
      (''OrgLedgerEntry'', TsObject [(''id'', Req, TsString), (''entry_type'', Req, TsString), (''created_at'', Req, TsString),
       (''amount'', Req, TsString), (''usage_amount'', Opt, nullable TsString), (''kind'', Opt, nullable TsString),
       (''user_id'', Opt, nullable TsString), (''user_email'', Opt, nullable TsString),
       (''user_display_name'', Opt, nullable TsString), (''task_id'', Opt, nullable TsString),
       (''actor_email'', Opt, nullable TsString), (''actor_display_name'', Opt, nullable TsString),
       (''unlimited_skip'', Req, TsBoolean), (''audio_sec'', Opt, nullable TsNumber), (''summary_chars'', Opt, nullable TsNumber)]),
      (''OrgLedgerResponse'', TsObject [(''items'', Req, TsArray (TsRef ''OrgLedgerEntry'')), (''total_spent'', Req, TsString),
       (''total_topup'', Req, TsString), (''net'', Req, TsString)]),
      (''OrgPatch'', TsObject [(''name'', Opt, nullable TsString)]),
      (''OrgPublicLinkItem'', TsObject [(''id'', Req, TsString), (''summary_id'', Req, TsString), (''url'', Opt, nullable TsString),
       (''expires_at'', Opt, nullable TsString), (''pin_required'', Req, TsBoolean), (''created_at'', Req, TsString),
       (''revoked'', Req, TsBoolean), (''summary_title'', Opt, nullable TsString), (''owner_email'', Opt, nullable TsString),
       (''owner_display_name'', Opt, nullable TsString), (''active'', Req, TsBoolean)]),
      (''OrgPublicLinkListResponse'', TsObject [(''items'', Req, TsArray (TsRef ''OrgPublicLinkItem''))])]"

definition schemas_from_OrgPublicResponse :: "(string \<times> ts_type) list" where
  "schemas_from_OrgPublicResponse =
     [(''OrgPublicResponse'', TsObject [(''id'', Req, TsString), (''name'', Req, TsString), (''is_personal'', Req, TsBoolean),
       (''password_ttl_days'', Req, TsNumber), (''mfa_required'', Req, TsBoolean), (''balance'', Req, TsString),
       (''unlimited'', Req, TsBoolean), (''tariff'', Req, TsRef ''TariffPublic''), (''sso'', Req, TsRef ''OrgSsoPublic''),
       (''usage'', Opt, nullable (TsRef ''OrgUsageSummary'')), (''public_base_url_set'', Def, TsBoolean),
       (''allow_public_links'', Req, TsBoolean)]),
      (''OrgSettingsPatch'', TsObject [(''password_ttl_days'', Opt, nullable TsNumber), (''mfa_required'', Opt, nullable TsBoolean),
       (''allow_public_links'', Opt, nullable TsBoolean)]),
      (''OrgSsoAdminResponse'', TsObject [(''configured'', Req, TsBoolean), (''enabled'', Req, TsBoolean),
       (''login_url'', Opt, nullable TsString), (''org_id'', Req, TsString), (''public_base_url_set'', Req, TsBoolean),
       (''callback_url'', Opt, nullable TsString), (''issuer'', Opt, nullable TsString), (''client_id'', Opt, nullable TsString),
       (''has_client_secret'', Req, TsBoolean)]),
      (''OrgSsoPatch'', TsObject [(''issuer'', Opt, nullable TsString), (''client_id'', Opt, nullable TsString),
       (''client_secret'', Opt, nullable TsString), (''clear_client_secret'', Def, TsBoolean),
       (''enabled'', Opt, nullable TsBoolean)]),
      (''OrgSsoPublic'', TsObject [(''configured'', Req, TsBoolean), (''enabled'', Req, TsBoolean),
       (''login_url'', Opt, nullable TsString)]),
      (''OrgTariffBody'', TsObject [(''tariff_id'', Req, TsString)]),
      (''OrgUsageSummary'', TsObject [(''total_amount'', Req, TsString)]),
      (''OrgUserListResponse'', TsObject [(''items'', Req, TsArray (TsRef ''UserPublic''))]),
      (''OrgUserResetPasswordResponse'', TsObject [(''status'', Def, TsString), (''password'', Req, TsString)]),
      (''OrgUserRoleBody'', TsObject [(''role'', Req, TsString)]),
      (''OwnerSummaryPublicLinkCreateResponse'', TsObject [(''link'', Req, TsRef ''OwnerSummaryPublicLinkItem'')]),
      (''OwnerSummaryPublicLinkItem'', TsObject [(''id'', Req, TsString), (''summary_id'', Req, TsString),
       (''url'', Opt, nullable TsString), (''expires_at'', Opt, nullable TsString), (''pin_required'', Req, TsBoolean),
       (''created_at'', Req, TsString), (''revoked'', Req, TsBoolean)]),
      (''OwnerSummaryPublicLinkResponse'', TsObject [(''link'', Opt, nullable (TsRef ''OwnerSummaryPublicLinkItem''))]),
      (''PasswordChangeBody'', TsObject [(''current_password'', Opt, nullable TsString), (''new_password'', Req, TsString)])]"

definition schemas_from_PublicLegalDocumentDetailResponse :: "(string \<times> ts_type) list" where
  "schemas_from_PublicLegalDocumentDetailResponse =
     [(''PublicLegalDocumentDetailResponse'', TsObject [(''key'', Req, TsString), (''version'', Req, TsNumber),
       (''text'', Req, TsString)]),
      (''PublicLegalDocumentItem'', TsObject [(''key'', Req, TsString), (''version'', Req, TsNumber), (''text'', Req, TsString)]),
      (''PublicLegalDocumentsResponse'', TsObject [(''items'', Opt, TsArray (TsRef ''PublicLegalDocumentItem'')),
       (''footer_text'', Opt, nullable TsString)]),
      (''PublicSummaryResponse'', TsObject [(''pin_required'', Req, TsBoolean), (''title'', Opt, nullable TsString),
       (''display_title'', Opt, nullable TsString), (''body'', Opt, nullable TsString)]),
      (''PublicUnlockBody'', TsObject [(''pin'', Req, TsString)]),
      (''ResetConfirmBody'', TsObject [(''token'', Req, TsString), (''new_password'', Req, TsString)]),
      (''ResetRequestBody'', TsObject [(''email'', Req, TsString)]),
      (''RoleBody'', TsObject [(''role'', Req, TsString)])]"

definition schemas_from_SettingsPatch :: "(string \<times> ts_type) list" where
  "schemas_from_SettingsPatch =
     [(''SettingsPatch'', TsObject [(''allow_new_orgs'', Opt, nullable TsBoolean), (''public_base_url'', Opt, nullable TsString),
       (''smtp_host'', Opt, nullable TsString), (''smtp_port'', Opt, nullable TsNumber), (''smtp_user'', Opt, nullable TsString),
       (''smtp_password'', Opt, nullable TsString), (''smtp_from'', Opt, nullable TsString), (''smtp_tls'', Opt, nullable TsBoolean),
       (''asr_model'', Opt, nullable TsString), (''diarization_model'', Opt, nullable TsString),
       (''summarize_model'', Opt, nullable TsString), (''rate_limit_enabled'', Opt, nullable TsBoolean),
       (''rate_limit_login_email'', Opt, nullable TsNumber), (''rate_limit_login_ip'', Opt, nullable TsNumber),
       (''rate_limit_login_global'', Opt, nullable TsNumber), (''rate_limit_signup_email'', Opt, nullable TsNumber),
       (''rate_limit_signup_ip'', Opt, nullable TsNumber), (''rate_limit_signup_global'', Opt, nullable TsNumber),
       (''rate_limit_reset_email'', Opt, nullable TsNumber), (''rate_limit_reset_ip'', Opt, nullable TsNumber),
       (''rate_limit_reset_global'', Opt, nullable TsNumber), (''rate_limit_reset_confirm_ip'', Opt, nullable TsNumber),
       (''rate_limit_reset_confirm_global'', Opt, nullable TsNumber), (''rate_limit_setup_ip'', Opt, nullable TsNumber),
       (''rate_limit_setup_global'', Opt, nullable TsNumber), (''rate_limit_api_user'', Opt, nullable TsNumber),
       (''rate_limit_api_ip'', Opt, nullable TsNumber), (''rate_limit_api_global'', Opt, nullable TsNumber),
       (''rate_limit_api_tasks_user'', Opt, nullable TsNumber), (''rate_limit_api_tasks_ip'', Opt, nullable TsNumber),
       (''rate_limit_mcp_poll_user'', Opt, nullable TsNumber), (''rate_limit_oauth_register_ip'', Opt, nullable TsNumber),
       (''rate_limit_oauth_register_global'', Opt, nullable TsNumber), (''rate_limit_oauth_token_ip'', Opt, nullable TsNumber),
       (''rate_limit_oauth_token_global'', Opt, nullable TsNumber), (''rate_limit_public_link_ip'', Opt, nullable TsNumber),
       (''rate_limit_public_link_global'', Opt, nullable TsNumber), (''rate_limit_public_pin_ip'', Opt, nullable TsNumber),
       (''import_enabled'', Opt, nullable TsBoolean), (''import_allowed_extractors'', Opt, nullable (TsArray TsString)),
       (''capture_enabled'', Opt, nullable TsBoolean), (''capture_allowed_connectors'', Opt, nullable (TsArray TsString)),
       (''outbound_proxy_enabled'', Opt, nullable TsBoolean), (''download_proxy_url'', Opt, nullable TsString),
       (''download_proxy_password'', Opt, nullable TsString), (''download_proxy_enabled'', Opt, nullable TsBoolean),
       (''telegram_enabled'', Opt, nullable TsBoolean), (''telegram_bot_token'', Opt, nullable TsString),
       (''telegram_use_proxy'', Opt, nullable TsBoolean), (''telegram_use_webhook'', Opt, nullable TsBoolean),
       (''download_cookies_path'', Opt, nullable TsString), (''import_audio_bitrate_kbps'', Opt, nullable TsNumber),
       (''import_max_concurrent'', Opt, nullable TsNumber), (''session_ttl_hours'', Opt, nullable TsNumber),
       (''task_history_retention_days'', Opt, nullable TsNumber), (''date_time_format'', Opt, nullable TsString),
       (''timezone'', Opt, nullable TsString), (''user_agreement_text_en'', Opt, nullable TsString),
       (''user_agreement_text_ru'', Opt, nullable TsString), (''user_agreement_text_es'', Opt, nullable TsString),
       (''personal_data_consent_text_en'', Opt, nullable TsString), (''personal_data_consent_text_ru'', Opt, nullable TsString),
       (''personal_data_consent_text_es'', Opt, nullable TsString), (''privacy_policy_text_en'', Opt, nullable TsString),
       (''privacy_policy_text_ru'', Opt, nullable TsString), (''privacy_policy_text_es'', Opt, nullable TsString),
       (''user_agreement_published'', Opt, nullable TsBoolean), (''personal_data_consent_published'', Opt, nullable TsBoolean),
       (''privacy_policy_published'', Opt, nullable TsBoolean), (''landing_footer_text_en'', Opt, nullable TsString),
       (''landing_footer_text_ru'', Opt, nullable TsString), (''landing_footer_text_es'', Opt, nullable TsString),
       (''landing_footer_published'', Opt, nullable TsBoolean)])]"

definition schemas_from_SetupBody :: "(string \<times> ts_type) list" where
  "schemas_from_SetupBody =
     [(''SetupBody'', TsObject [(''email'', Req, TsString), (''password'', Req, TsString), (''bootstrap_token'', Req, TsString),
       (''locale'', Def, TsString)]),
      (''SetupStatusResponse'', TsObject [(''bootstrap_done'', Req, TsBoolean)]),
      (''ShareBody'', TsObject [(''object_type'', Req, TsString), (''object_id'', Req, TsString),
       (''to_user_ids'', Req, TsArray TsString)]),
      (''ShareCreateResponse'', TsObject [(''ids'', Req, TsArray TsString)]),
      (''ShareListResponse'', TsObject [(''items'', Req, TsArray (TsRef ''ShareRecordBrief''))]),
      (''ShareRecordBrief'', TsObject [(''id'', Req, TsString), (''to_user_id'', Req, TsString), (''email'', Req, TsString),
       (''display_name'', Req, TsString)]),
      (''SignupBody'', TsObject [(''email'', Req, TsString), (''password'', Req, TsString), (''tariff_id'', Req, TsString),
       (''locale'', Def, TsString), (''accept_legal_documents'', Def, TsBoolean)]),
      (''SkillBody'', TsObject [(''name'', Req, TsString), (''body'', Req, TsString)]),
      (''SkillListResponse'', TsObject [(''items'', Opt, TsArray (TsRef ''SkillPublicResponse''))]),
      (''SkillPublicResponse'', TsObject [(''id'', Req, TsString), (''scope'', Req, TsString), (''org_id'', Opt, nullable TsString),
       (''owner_user_id'', Opt, nullable TsString), (''name'', Req, TsString), (''body'', Req, TsString),
       (''created_at'', Req, TsString), (''updated_at'', Req, TsString), (''catalog'', Opt, nullable TsString),
       (''readonly'', Opt, nullable TsBoolean), (''share_kind'', Opt, nullable TsString), (''shared_by'', Opt, nullable TsString),
       (''share_id'', Opt, nullable TsString)]),
      (''SmtpTestBody'', TsObject [(''smtp_host'', Opt, nullable TsString), (''smtp_port'', Opt, nullable TsNumber),
       (''smtp_user'', Opt, nullable TsString), (''smtp_password'', Opt, nullable TsString), (''smtp_from'', Opt, nullable TsString),
       (''smtp_tls'', Opt, nullable TsBoolean)]),
      (''SmtpTestSendBody'', TsObject [(''smtp_host'', Opt, nullable TsString), (''smtp_port'', Opt, nullable TsNumber),
       (''smtp_user'', Opt, nullable TsString), (''smtp_password'', Opt, nullable TsString), (''smtp_from'', Opt, nullable TsString),
       (''smtp_tls'', Opt, nullable TsBoolean), (''to'', Opt, nullable TsString)])]"

definition schemas_from_SmtpTestSendResponse :: "(string \<times> ts_type) list" where
  "schemas_from_SmtpTestSendResponse =
     [(''SmtpTestSendResponse'', TsObject [(''status'', Def, TsString), (''to'', Req, TsString)]),
      (''SsoInfoResponse'', TsObject [(''org_id'', Req, TsString), (''org_name'', Req, TsString), (''configured'', Req, TsBoolean),
       (''enabled'', Req, TsBoolean), (''login_url'', Opt, nullable TsString)]),
      (''SummarizeBody'', TsObject [(''transcript_id'', Req, TsString), (''skill_ids'', Req, TsArray TsString)]),
      (''SummaryDetailResponse'', TsObject [(''hidden'', Def, TsBoolean), (''owner_email'', Opt, nullable TsString),
       (''owner_display_name'', Opt, nullable TsString), (''user_tags'', Opt, TsArray (TsRef ''UserTagBrief'')),
       (''share_kind'', Opt, nullable TsString), (''shared_by'', Opt, nullable TsString),
       (''shared_with'', Opt, nullable (TsArray TsString)), (''shares'', Opt, nullable (TsArray (TsRef ''ShareRecordBrief''))),
       (''share_id'', Opt, nullable TsString), (''id'', Req, TsString), (''org_id'', Req, TsString),
       (''owner_user_id'', Req, TsString), (''source_transcript_id'', Opt, nullable TsString),
       (''source_transcript_title'', Opt, nullable TsString), (''source_audio_id'', Opt, nullable TsString),
       (''skill_ids'', Opt, TsArray TsString), (''title'', Opt, nullable TsString), (''display_title'', Req, TsString),
       (''edited'', Def, TsBoolean), (''created_at'', Req, TsString), (''body'', Req, TsString)]),
      (''SummaryListItem'', TsObject [(''hidden'', Def, TsBoolean), (''owner_email'', Opt, nullable TsString),
       (''owner_display_name'', Opt, nullable TsString), (''user_tags'', Opt, TsArray (TsRef ''UserTagBrief'')),
       (''share_kind'', Opt, nullable TsString), (''shared_by'', Opt, nullable TsString),
       (''shared_with'', Opt, nullable (TsArray TsString)), (''shares'', Opt, nullable (TsArray (TsRef ''ShareRecordBrief''))),
       (''share_id'', Opt, nullable TsString), (''id'', Req, TsString), (''org_id'', Req, TsString),
       (''owner_user_id'', Req, TsString), (''source_transcript_id'', Opt, nullable TsString),
       (''source_transcript_title'', Opt, nullable TsString), (''source_audio_id'', Opt, nullable TsString),
       (''skill_ids'', Opt, TsArray TsString), (''title'', Opt, nullable TsString), (''display_title'', Req, TsString),
       (''edited'', Def, TsBoolean), (''created_at'', Req, TsString)]),
      (''SummaryListResponse'', TsObject [(''items'', Opt, TsArray (TsRef ''SummaryListItem'')),
       (''groups'', Opt, nullable (TsArray (TsRef ''SummarySourceGroup''))), (''total'', Req, TsNumber),
       (''hidden_count'', Req, TsNumber)]),
      (''SummaryPatch'', TsObject [(''body'', Opt, nullable TsString), (''title'', Opt, nullable TsString)])]"

definition schemas_from_SummaryPublicLinkBody :: "(string \<times> ts_type) list" where
  "schemas_from_SummaryPublicLinkBody =
     [(''SummaryPublicLinkBody'', TsObject [(''expires_in_days'', Def, nullable TsNumber), (''pin'', Opt, nullable TsString)]),
      (''SummarySourceGroup'', TsObject [(''source_id'', Opt, nullable TsString),
       (''items'', Req, TsArray (TsRef ''SummaryListItem''))]),
      (''TagRenameBody'', TsObject [(''name'', Req, TsString)]),
      (''TariffBody'', TsObject [(''name'', Req, TsString), (''unlimited'', Def, TsBoolean),
       (''available_on_signup'', Def, TsBoolean), (''price_per_audio_sec'', Def, TsString),
       (''price_per_1k_summary_chars'', Def, TsString), (''audio_retention_days'', Def, TsNumber), (''api_enabled'', Def, TsBoolean),
       (''signup_credit'', Def, TsString), (''max_upload_bytes'', Def, TsNumber), (''tone_analytics_enabled'', Def, TsBoolean)]),
      (''TariffChoice'', TsObject [(''id'', Req, TsString), (''name'', Req, TsString)]),
      (''TariffCloneBody'', TsObject [(''name'', Req, TsString)]),
      (''TariffDeleteBody'', TsObject [(''remediation'', Opt, nullable (TsRef ''TariffRemediation''))]),
      (''TariffDeleteImpactResponse'', TsObject [(''tariff'', Req, TsRef ''TariffDeleteImpactTariff''),
       (''last_tariff'', Req, TsBoolean), (''org_count'', Req, TsNumber), (''affected_orgs'', Opt, TsArray (TsRef ''TariffChoice'')),
       (''available_tariffs'', Opt, TsArray (TsRef ''TariffChoice'')),
       (''suggested_replacement'', Opt, nullable (TsRef ''TariffChoice'')), (''can_remediate'', Req, TsBoolean),
       (''blocking'', Req, TsBoolean)]),
      (''TariffDeleteImpactTariff'', TsObject [(''id'', Req, TsString), (''name'', Req, TsString), (''archived'', Req, TsBoolean)]),
      (''TariffDeleteResponse'', TsObject [(''status'', Def, TsString), (''remediation'', Opt, nullable (TsMap TsNumber))]),
      (''TariffListResponse'', TsObject [(''items'', Req, TsArray (TsRef ''TariffPublic''))])]"

definition schemas_from_TariffPublic :: "(string \<times> ts_type) list" where
  "schemas_from_TariffPublic =
     [(''TariffPublic'', TsObject [(''id'', Req, TsString), (''name'', Req, TsString), (''unlimited'', Req, TsBoolean),
       (''available_on_signup'', Req, TsBoolean), (''archived'', Req, TsBoolean), (''price_per_audio_sec'', Req, TsString),
       (''price_per_1k_summary_chars'', Req, TsString), (''audio_retention_days'', Req, TsNumber), (''api_enabled'', Req, TsBoolean),
       (''signup_credit'', Req, TsString), (''max_upload_bytes'', Req, TsNumber), (''tone_analytics_enabled'', Req, TsBoolean),
       (''org_count'', Opt, nullable TsNumber)]),
      (''TariffRemediation'', TsObject [(''tariff_id'', Req, TsString)]),
      (''TaskErrorBrief'', TsObject [(''code'', Req, TsString)]),
      (''TaskListItem'', TsObject [(''task_id'', Req, TsString), (''type'', Req, TsString), (''status'', Req, TsString),
       (''meta'', Opt, TsMap TsUnknown), (''max_upload_bytes'', Req, TsNumber), (''transcript_id'', Opt, nullable TsString),
       (''summary_id'', Opt, nullable TsString), (''error'', Opt, nullable (TsRef ''TaskErrorBrief'')), (''org_id'', Req, TsString),
       (''user_id'', Req, TsString), (''audio_id'', Opt, nullable TsString), (''source_transcript_id'', Opt, nullable TsString),
       (''created_at'', Req, TsString), (''updated_at'', Req, TsString), (''owner_email'', Opt, nullable TsString),
       (''owner_display_name'', Opt, nullable TsString), (''org_name'', Opt, nullable TsString),
       (''audio_filename'', Opt, nullable TsString), (''skill_ids'', Opt, TsArray TsString)]),
      (''TaskListResponse'', TsObject [(''active'', Req, TsArray (TsRef ''TaskListItem'')),
       (''done'', Req, TsArray (TsRef ''TaskListItem'')), (''done_total'', Req, TsNumber)]),
      (''TaskPurgeResponse'', TsObject [(''deleted'', Req, TsNumber)]),
      (''TelegramTestBody'', TsObject [(''telegram_bot_token'', Opt, nullable TsString),
       (''telegram_use_proxy'', Opt, nullable TsBoolean)]),
      (''TelegramTestConnectionResponse'', TsObject [(''status'', Def, TsString), (''username'', Opt, nullable TsString),
       (''first_name'', Opt, nullable TsString), (''bot_url'', Opt, nullable TsString)]),
      (''TitlePatch'', TsObject [(''title'', Req, TsString)]),
      (''TokenCreateBody'', TsObject [(''name'', Req, TsString), (''totp_code'', Opt, nullable TsString)]),
      (''TranscribeBody'', TsObject [(''audio_id'', Req, TsString), (''skill_ids'', Opt, TsArray TsString),
       (''tone'', Def, TsBoolean)])]"

definition schemas_from_TranscriptDetailResponse :: "(string \<times> ts_type) list" where
  "schemas_from_TranscriptDetailResponse =
     [(''TranscriptDetailResponse'', TsObject [(''hidden'', Def, TsBoolean), (''owner_email'', Opt, nullable TsString),
       (''owner_display_name'', Opt, nullable TsString), (''user_tags'', Opt, TsArray (TsRef ''UserTagBrief'')),
       (''share_kind'', Opt, nullable TsString), (''shared_by'', Opt, nullable TsString),
       (''shared_with'', Opt, nullable (TsArray TsString)), (''shares'', Opt, nullable (TsArray (TsRef ''ShareRecordBrief''))),
       (''share_id'', Opt, nullable TsString), (''id'', Req, TsString), (''org_id'', Req, TsString),
       (''owner_user_id'', Req, TsString), (''source_audio_id'', Opt, nullable TsString),
       (''source_filename'', Opt, nullable TsString), (''title'', Opt, nullable TsString), (''display_title'', Req, TsString),
       (''created_at'', Req, TsString), (''has_summary'', Def, TsBoolean), (''has_tone_analytics'', Def, TsBoolean),
       (''utterances'', Opt, TsArray (TsMap TsUnknown)), (''summaries'', Opt, TsArray (TsRef ''SummaryListItem'')),
       (''call_summary'', Opt, nullable (TsMap TsUnknown)), (''tone_layers'', Opt, nullable (TsArray TsUnknown))]),
      (''TranscriptListItem'', TsObject [(''hidden'', Def, TsBoolean), (''owner_email'', Opt, nullable TsString),
       (''owner_display_name'', Opt, nullable TsString), (''user_tags'', Opt, TsArray (TsRef ''UserTagBrief'')),
       (''share_kind'', Opt, nullable TsString), (''shared_by'', Opt, nullable TsString),
       (''shared_with'', Opt, nullable (TsArray TsString)), (''shares'', Opt, nullable (TsArray (TsRef ''ShareRecordBrief''))),
       (''share_id'', Opt, nullable TsString), (''id'', Req, TsString), (''org_id'', Req, TsString),
       (''owner_user_id'', Req, TsString), (''source_audio_id'', Opt, nullable TsString),
       (''source_filename'', Opt, nullable TsString), (''title'', Opt, nullable TsString), (''display_title'', Req, TsString),
       (''created_at'', Req, TsString), (''has_summary'', Def, TsBoolean), (''has_tone_analytics'', Def, TsBoolean)]),
      (''TranscriptListResponse'', TsObject [(''items'', Opt, TsArray (TsRef ''TranscriptListItem'')),
       (''groups'', Opt, nullable (TsArray (TsRef ''TranscriptSourceGroup''))), (''total'', Req, TsNumber),
       (''hidden_count'', Req, TsNumber)]),
      (''TranscriptSourceGroup'', TsObject [(''source_id'', Opt, nullable TsString),
       (''items'', Req, TsArray (TsRef ''TranscriptListItem''))]),
      (''UsageStatsDay'', TsObject [(''date'', Req, TsString), (''tasks_transcribe_success'', Req, TsNumber),
       (''tasks_summarize_success'', Req, TsNumber), (''audio_transcribed_sec'', Req, TsNumber), (''summary_chars'', Req, TsNumber),
       (''amount'', Req, TsString)])]"

definition schemas_from_UsageStatsResponse :: "(string \<times> ts_type) list" where
  "schemas_from_UsageStatsResponse =
     [(''UsageStatsResponse'', TsObject [(''tasks_transcribe_success'', Req, TsNumber),
       (''tasks_summarize_success'', Req, TsNumber), (''audio_transcribed_sec'', Req, TsNumber), (''summary_chars'', Req, TsNumber),
       (''total_amount'', Req, TsString), (''days'', Req, TsArray (TsRef ''UsageStatsDay''))]),
      (''UserPublic'', TsObject [(''id'', Req, TsString), (''email'', Req, TsString), (''first_name'', Opt, nullable TsString),
       (''last_name'', Opt, nullable TsString), (''display_name'', Req, TsString), (''locale'', Req, TsString),
       (''default_route'', Req, TsString), (''date_time_format'', Opt, nullable TsString), (''timezone'', Opt, nullable TsString),
       (''asr_model'', Opt, nullable TsString), (''diarization_model'', Opt, nullable TsString),
       (''tone_analytics_enabled'', Req, TsBoolean), (''summarize_model'', Opt, nullable TsString),
       (''capture_bot_display_name'', Opt, nullable TsString), (''show_only_my_items'', Req, TsBoolean),
       (''shell_show_mic'', Req, TsBoolean), (''shell_show_telegram_link'', Req, TsBoolean), (''disabled'', Req, TsBoolean),
       (''must_change_password'', Req, TsBoolean), (''mfa_enabled'', Req, TsBoolean), (''mfa_configured'', Opt, nullable TsBoolean),
       (''is_instance_admin'', Req, TsBoolean), (''role'', Opt, nullable TsString), (''auth_provider'', Req, TsString),
       (''user_agreement_status'', Opt, nullable TsString),
       (''legal_documents_acceptance'', Opt, nullable (TsArray (TsMap TsUnknown)))]),
      (''UserTagBrief'', TsObject [(''id'', Req, TsString), (''name'', Req, TsString), (''usage_count'', Opt, nullable TsNumber)]),
      (''UserTagListResponse'', TsObject [(''items'', Opt, TsArray (TsRef ''UserTagBrief''))]),
      (''UserTagPublicResponse'', TsObject [(''id'', Req, TsString), (''name'', Req, TsString),
       (''usage_count'', Opt, nullable TsNumber)]),
      (''ValidationError'', TsObject [(''loc'', Req, TsArray (TsUnion [TsString, TsNumber])), (''msg'', Req, TsString),
       (''type'', Req, TsString), (''input'', Opt, TsUnknown), (''ctx'', Opt, TsMap TsNever)]),
      (''WalletBody'', TsObject [(''delta'', Req, TsString)]),
      (''WorkerBody'', TsObject [(''type'', Req, TsString), (''name'', Def, TsString), (''base_url'', Req, TsString),
       (''api_token'', Opt, nullable TsString), (''weight'', Def, TsNumber), (''enabled'', Def, TsBoolean),
       (''asr_models'', Opt, nullable (TsArray TsString)), (''diarization_models'', Opt, nullable (TsArray TsString)),
       (''capture_connectors'', Opt, nullable (TsArray TsString)), (''remediation'', Opt, nullable (TsRef ''WorkerRemediation''))])]"

definition schemas_from_WorkerCapacitySummary :: "(string \<times> ts_type) list" where
  "schemas_from_WorkerCapacitySummary =
     [(''WorkerCapacitySummary'', TsObject [(''max'', Req, TsNumber), (''active'', Req, TsNumber), (''available'', Req, TsNumber)]),
      (''WorkerDeleteBody'', TsObject [(''remediation'', Opt, nullable (TsRef ''WorkerRemediation''))]),
      (''WorkerDeleteResponse'', TsObject [(''status'', Def, TsString), (''remediation'', Opt, nullable (TsMap TsUnknown)),
       (''cleanup'', Opt, nullable (TsMap TsUnknown))]),
      (''WorkerEngineOption'', TsObject [(''id'', Req, TsString), (''status'', Req, TsString),
       (''label'', Opt, nullable TsString)]),
      (''WorkerImpactResponse'', TsObject [(''action'', Opt, nullable TsString), (''worker'', Req, TsMap TsUnknown),
       (''blocking'', Req, TsBoolean), (''can_remediate'', Opt, nullable TsBoolean),
       (''remaining_transcribe_workers'', Opt, nullable TsNumber), (''lost_model_pairs'', Opt, TsArray (TsMap TsString)),
       (''available_pairs'', Opt, nullable (TsArray (TsMap TsString))), (''suggested_replacement'', Opt, nullable (TsMap TsString)),
       (''instance_defaults_broken'', Opt, nullable TsBoolean), (''instance_defaults'', Opt, nullable (TsMap TsUnknown)),
       (''affected_users'', Opt, TsArray (TsMap TsUnknown)), (''affected_users_count'', Opt, nullable TsNumber),
       (''affected_tasks'', Opt, TsArray (TsMap TsUnknown)), (''affected_tasks_count'', Opt, nullable TsNumber),
       (''remaining_summarize_workers'', Opt, nullable TsNumber), (''last_enabled_worker'', Opt, nullable TsBoolean),
       (''lost_summarize_models'', Opt, nullable (TsArray TsString)),
       (''available_summarize_models'', Opt, nullable (TsArray (TsMap TsString))),
       (''suggested_summarize_replacement'', Opt, nullable (TsMap TsString)), (''capture_jitsi_hosts'', Opt, TsArray TsUnknown),
       (''capture_jitsi_hosts_count'', Opt, nullable TsNumber), (''capture_tasks_count'', Opt, nullable TsNumber),
       (''capture_losing_jitsi'', Opt, nullable TsBoolean),
       (''available_capture_workers'', Opt, nullable (TsArray (TsMap TsUnknown))),
       (''suggested_capture_worker'', Opt, nullable (TsMap TsUnknown))]),
      (''WorkerListItem'', TsObject [(''id'', Req, TsString), (''type'', Req, TsString), (''name'', Req, TsString),
       (''base_url'', Req, TsString), (''weight'', Req, TsNumber), (''enabled'', Req, TsBoolean),
       (''last_health'', Opt, nullable (TsMap TsUnknown)), (''last_seen_version'', Opt, nullable TsString),
       (''last_health_at'', Opt, nullable TsString), (''asr_models'', Opt, TsArray TsString),
       (''diarization_models'', Opt, TsArray TsString), (''capture_connectors'', Opt, TsArray TsString),
       (''summarize_model'', Opt, nullable TsString), (''dispatch_available'', Req, TsBoolean)])]"

definition schemas_from_WorkerListResponse :: "(string \<times> ts_type) list" where
  "schemas_from_WorkerListResponse =
     [(''WorkerListResponse'', TsObject [(''items'', Req, TsArray (TsRef ''WorkerListItem'')),
       (''summary'', Req, TsRef ''WorkersListSummary'')]),
      (''WorkerMutateResponse'', TsObject [(''id'', Req, TsString), (''type'', Req, TsString), (''name'', Req, TsString),
       (''base_url'', Req, TsString), (''weight'', Req, TsNumber), (''enabled'', Req, TsBoolean),
       (''last_health'', Opt, nullable (TsMap TsUnknown)), (''last_seen_version'', Opt, nullable TsString),
       (''last_health_at'', Opt, nullable TsString), (''asr_models'', Opt, TsArray TsString),
       (''diarization_models'', Opt, TsArray TsString), (''capture_connectors'', Opt, TsArray TsString),
       (''summarize_model'', Opt, nullable TsString), (''remediation'', Opt, nullable (TsMap TsUnknown))]),
      (''WorkerProbeBody'', TsObject [(''type'', Req, TsString), (''base_url'', Req, TsString),
       (''api_token'', Opt, nullable TsString), (''worker_id'', Opt, nullable TsString)]),
      (''WorkerProbeResponse'', TsObject [(''authorized'', Req, TsBoolean), (''health_status'', Req, TsNumber),
       (''asr_models'', Opt, nullable (TsArray (TsRef ''WorkerEngineOption''))),
       (''diarization_models'', Opt, nullable (TsArray (TsRef ''WorkerEngineOption''))),
       (''connectors'', Opt, nullable (TsArray (TsRef ''WorkerEngineOption''))), (''summarize_model'', Opt, nullable TsString)]),
      (''WorkerPublicResponse'', TsObject [(''id'', Req, TsString), (''type'', Req, TsString), (''name'', Req, TsString),
       (''base_url'', Req, TsString), (''weight'', Req, TsNumber), (''enabled'', Req, TsBoolean),
       (''last_health'', Opt, nullable (TsMap TsUnknown)), (''last_seen_version'', Opt, nullable TsString),
       (''last_health_at'', Opt, nullable TsString), (''asr_models'', Opt, TsArray TsString),
       (''diarization_models'', Opt, TsArray TsString), (''capture_connectors'', Opt, TsArray TsString),
       (''summarize_model'', Opt, nullable TsString)]),
      (''WorkerRemediation'', TsObject [(''asr_model'', Opt, nullable TsString), (''diarization_model'', Opt, nullable TsString),
       (''summarize_model'', Opt, nullable TsString), (''capture_worker_id'', Opt, nullable TsString)]),
      (''WorkersByTypeSummary'', TsObject [(''transcribe'', Req, TsRef ''WorkersTypeSummary''),
       (''summarize'', Req, TsRef ''WorkersTypeSummary''), (''capture'', Req, TsRef ''WorkersTypeSummary'')]),
      (''WorkersHubLimits'', TsObject [(''import_max_concurrent'', Req, TsNumber)]),
      (''WorkersListSummary'', TsObject [(''total'', Req, TsNumber), (''enabled'', Req, TsNumber), (''available'', Req, TsNumber),
       (''by_type'', Req, TsRef ''WorkersByTypeSummary''), (''hub_limits'', Req, TsRef ''WorkersHubLimits''),
       (''capture_capacity'', Req, TsRef ''WorkerCapacitySummary''), (''transcribe_capacity'', Req, TsRef ''WorkerCapacitySummary''),
       (''summarize_capacity'', Req, TsRef ''WorkerCapacitySummary'')]),
      (''WorkersTypeSummary'', TsObject [(''total'', Req, TsNumber), (''enabled'', Req, TsNumber), (''available'', Req, TsNumber)])]"

definition api_schemas :: "(string \<times> ts_type) list" where
  "api_schemas = concat
     [schemas_from_AccountDeleteBody,
      schemas_from_AudioDetailResponse,
      schemas_from_BackupRestoreReportResponse,
      schemas_from_DekListResponse,
      schemas_from_InstanceOrgListItem,
      schemas_from_InstanceSettingsResponse,
      schemas_from_InstanceSummarizeModelsResponse,
      schemas_from_MePatchBody,
      schemas_from_MfaStatusResponse,
      schemas_from_OrgCaptureJitsiReplaceBody,
      schemas_from_OrgPublicResponse,
      schemas_from_PublicLegalDocumentDetailResponse,
      schemas_from_SettingsPatch,
      schemas_from_SetupBody,
      schemas_from_SmtpTestSendResponse,
      schemas_from_SummaryPublicLinkBody,
      schemas_from_TariffPublic,
      schemas_from_TranscriptDetailResponse,
      schemas_from_UsageStatsResponse,
      schemas_from_WorkerCapacitySummary,
      schemas_from_WorkerListResponse]"

section \<open>Values of a type\<close>

text \<open>
  \<open>fits k t v\<close> follows at most \<open>k\<close> names of schemas below one another. A value of an object type has no field the type does not
  have; a field may be missing if it is optional or has a default.
\<close>

lemma field_type_smaller: "(f, p, t) \<in> set fs \<Longrightarrow> size t < Suc (size_list (size_prod (\<lambda>_. 0) (size_prod (\<lambda>_. 0) size)) fs)"
  by (induction fs) auto

function fits :: "nat \<Rightarrow> ts_type \<Rightarrow> json \<Rightarrow> bool" where
  "fits k TsString v = (case v of JStr _ \<Rightarrow> True | _ \<Rightarrow> False)"
| "fits k TsNumber v = (case v of JNum _ \<Rightarrow> True | JDec _ \<Rightarrow> True | _ \<Rightarrow> False)"
| "fits k TsBoolean v = (case v of JBool _ \<Rightarrow> True | _ \<Rightarrow> False)"
| "fits k TsNull v = (v = JNull)"
| "fits k TsUnknown v = True"
| "fits k TsNever v = False"
| "fits k (TsLit s) v = (v = JStr s)"
| "fits k (TsRef n) v = 
     (case k of
        0 \<Rightarrow> False
      | Suc k' \<Rightarrow> list_ex (\<lambda>(m, t). m = n \<and> fits k' t v) api_schemas)"
| "fits k (TsArray t) v = (case v of JArr vs \<Rightarrow> list_all (fits k t) vs | _ \<Rightarrow> False)"
| "fits k (TsMap t) v = (case v of JObj kvs \<Rightarrow> list_all (\<lambda>(_, w). fits k t w) kvs | _ \<Rightarrow> False)"
| "fits k (TsUnion ts) v = list_ex (\<lambda>t. fits k t v) ts"
| "fits k (TsBoth a b) v = (fits k a v \<and> fits k b v)"
| "fits k (TsObject fs) v =
     (case v of
        JObj kvs \<Rightarrow>
          list_all (\<lambda>(f, p, t). case map_of kvs f of None \<Rightarrow> p \<noteq> Req | Some w \<Rightarrow> fits k t w) fs
          \<and> list_all (\<lambda>(f, _). f \<in> fst ` set fs) kvs
      | _ \<Rightarrow> False)"
  by pat_completeness auto

termination
  by (relation "measures [\<lambda>(k, t, v). k, \<lambda>(k, t, v). size t]")
    (auto dest: field_type_smaller simp: less_Suc_eq_le size_list_estimation')

declare fits.simps(8) [simp del]

lemma fits_ref: "(n, t) \<in> set api_schemas \<Longrightarrow> 0 < k \<Longrightarrow> fits (k - 1) t v \<Longrightarrow> fits k (TsRef n) v"
  by (cases k) (auto simp: fits.simps(8) list_ex_iff)

text \<open>More depth never hurts.\<close>

lemma fits_deeper: "fits k t v \<Longrightarrow> fits (Suc k) t v"
proof (induction k t v rule: fits.induct)
  case (8 k n v)
  then obtain k' t where k: "k = Suc k'" "(n, t) \<in> set api_schemas" "fits k' t v"
    by (cases k) (auto simp: fits.simps(8) list_ex_iff)
  then have "fits (Suc k') t v" using 8(1) by blast
  with k show ?case by (auto intro: fits_ref)
next
  case (9 k t v)
  then show ?case by (cases v) (auto simp: list_all_iff)
next
  case (10 k t v)
  then show ?case by (cases v) (auto simp: list_all_iff)
next
  case (11 k ts v)
  then show ?case by (auto simp: list_ex_iff)
next
  case (13 k fs v)
  then show ?case by (cases v) (auto simp: list_all_iff split: option.splits)
qed auto

end
