(* ===== verification/Api_Operations.thy ===== *)
theory Api_Operations
  imports Api_Schemas
begin

text \<open>
  The paths of the hub and the operations behind their methods (\<open>interface paths\<close> and \<open>interface operations\<close> of
  \<open>openapi/schema.gen.ts\<close>). An operation has its query and path parameters, its body with the media type, and its
  replies by status. No operation declares headers or cookies.
\<close>

record api_operation =
  op_query :: "(string \<times> presence \<times> ts_type) list"
  op_path :: "(string \<times> presence \<times> ts_type) list"
  op_body :: "(presence \<times> string \<times> ts_type) option"
  op_replies :: "(nat \<times> ts_type) list"

section \<open>Paths\<close>

definition paths_from_health :: "(string \<times> (string \<times> string) list) list" where
  "paths_from_health =
     [(''/api/v1/health'', [(''GET'', ''health_api_v1_health_get'')]),
      (''/metrics'', [(''GET'', ''metrics_metrics_get'')]),
      (''/.well-known/oauth-authorization-server'', [(''GET'', ''well_known_authorization_server__well_known_oauth_authorization_server_get'')]),
      (''/.well-known/jwks.json'', [(''GET'', ''well_known_jwks__well_known_jwks_json_get'')]),
      (''/.well-known/oauth-protected-resource/mcp'', [(''GET'', ''oauth_protected_resource_metadata__well_known_oauth_protected_resource_mcp_get'')]),
      (''/oauth/register'', [(''POST'', ''oauth_dynamic_client_registration_oauth_register_post'')]),
      (''/oauth/token'', [(''POST'', ''oauth_token_oauth_token_post'')]),
      (''/api/v1/me'', [(''GET'', ''me_api_v1_me_get''), (''PATCH'', ''patch_me_api_v1_me_patch'')])]"

definition paths_from_me_backup :: "(string \<times> (string \<times> string) list) list" where
  "paths_from_me_backup =
     [(''/api/v1/me/backup'', [(''GET'', ''download_backup_api_v1_me_backup_get'')]),
      (''/api/v1/me/backup/restore'', [(''POST'', ''upload_backup_restore_api_v1_me_backup_restore_post'')]),
      (''/api/v1/me/account-delete'', [(''GET'', ''account_delete_preview_route_api_v1_me_account_delete_get''),
       (''POST'', ''account_delete_api_v1_me_account_delete_post'')]),
      (''/api/v1/auth/mfa/verify'', [(''POST'', ''mfa_verify_api_v1_auth_mfa_verify_post'')]),
      (''/api/v1/auth/mfa/recover'', [(''POST'', ''mfa_recover_api_v1_auth_mfa_recover_post'')]),
      (''/api/v1/auth/mfa/status'', [(''GET'', ''mfa_status_api_v1_auth_mfa_status_get'')]),
      (''/api/v1/auth/mfa/setup/start'', [(''POST'', ''mfa_setup_start_api_v1_auth_mfa_setup_start_post'')]),
      (''/api/v1/auth/agreement/accept'', [(''POST'', ''accept_user_agreement_api_v1_auth_agreement_accept_post'')])]"

definition paths_from_auth_mfa_setup_confirm :: "(string \<times> (string \<times> string) list) list" where
  "paths_from_auth_mfa_setup_confirm =
     [(''/api/v1/auth/mfa/setup/confirm'', [(''POST'', ''mfa_setup_confirm_api_v1_auth_mfa_setup_confirm_post'')]),
      (''/api/v1/auth/mfa/disable'', [(''POST'', ''mfa_disable_api_v1_auth_mfa_disable_post'')]),
      (''/api/v1/auth/login'', [(''POST'', ''login_api_v1_auth_login_post'')]),
      (''/api/v1/auth/sso/{org_id}/info'', [(''GET'', ''sso_info_api_v1_auth_sso__org_id__info_get'')]),
      (''/api/v1/auth/sso/{org_id}/start'', [(''GET'', ''sso_start_api_v1_auth_sso__org_id__start_get'')]),
      (''/api/v1/auth/sso/{org_id}/callback'', [(''GET'', ''sso_callback_api_v1_auth_sso__org_id__callback_get'')]),
      (''/api/v1/auth/logout'', [(''POST'', ''logout_api_v1_auth_logout_post'')]),
      (''/api/v1/auth/password/change'', [(''POST'', ''change_password_api_v1_auth_password_change_post'')])]"

definition paths_from_auth_password_reset_request :: "(string \<times> (string \<times> string) list) list" where
  "paths_from_auth_password_reset_request =
     [(''/api/v1/auth/password/reset/request'', [(''POST'', ''reset_request_api_v1_auth_password_reset_request_post'')]),
      (''/api/v1/auth/password/reset/confirm'', [(''POST'', ''reset_confirm_api_v1_auth_password_reset_confirm_post'')]),
      (''/api/v1/setup'', [(''POST'', ''setup_api_v1_setup_post'')]),
      (''/api/v1/auth/signup'', [(''POST'', ''signup_api_v1_auth_signup_post'')]),
      (''/api/v1/auth/signup-tariffs'', [(''GET'', ''signup_tariffs_api_v1_auth_signup_tariffs_get'')]),
      (''/api/v1/setup/status'', [(''GET'', ''setup_status_api_v1_setup_status_get'')]),
      (''/api/v1/me/telegram'', [(''GET'', ''me_telegram_status_api_v1_me_telegram_get''),
       (''DELETE'', ''me_telegram_unlink_api_v1_me_telegram_delete'')]),
      (''/api/v1/me/telegram/link'', [(''POST'', ''me_telegram_link_api_v1_me_telegram_link_post'')])]"

definition paths_from_auth_tokens :: "(string \<times> (string \<times> string) list) list" where
  "paths_from_auth_tokens =
     [(''/api/v1/auth/tokens'', [(''GET'', ''list_tokens_api_v1_auth_tokens_get''),
       (''POST'', ''create_token_api_v1_auth_tokens_post'')]),
      (''/api/v1/auth/tokens/{token_id}'', [(''DELETE'', ''revoke_token_api_v1_auth_tokens__token_id__delete'')]),
      (''/api/v1/instance/audit'', [(''GET'', ''audit_log_api_v1_instance_audit_get'')]),
      (''/api/v1/instance/audit/export'', [(''GET'', ''audit_log_export_api_v1_instance_audit_export_get'')]),
      (''/api/v1/instance/stats'', [(''GET'', ''stats_api_v1_instance_stats_get'')]),
      (''/api/v1/impersonate'', [(''POST'', ''impersonate_api_v1_impersonate_post''),
       (''DELETE'', ''stop_impersonate_api_v1_impersonate_delete'')]),
      (''/api/v1/orgs/{org_id}/wallet'', [(''POST'', ''wallet_delta_api_v1_orgs__org_id__wallet_post'')]),
      (''/api/v1/orgs'', [(''GET'', ''list_orgs_api_v1_orgs_get''), (''POST'', ''create_org_api_v1_orgs_post'')])]"

definition paths_from_orgs_org_id_delete :: "(string \<times> (string \<times> string) list) list" where
  "paths_from_orgs_org_id_delete =
     [(''/api/v1/orgs/{org_id}/delete'', [(''POST'', ''delete_org_api_v1_orgs__org_id__delete_post'')]),
      (''/api/v1/orgs/{org_id}/hide'', [(''POST'', ''hide_org_api_v1_orgs__org_id__hide_post'')]),
      (''/api/v1/orgs/{org_id}/unhide'', [(''POST'', ''unhide_org_api_v1_orgs__org_id__unhide_post'')]),
      (''/api/v1/orgs/{org_id}/ledger'', [(''GET'', ''org_ledger_ep_api_v1_orgs__org_id__ledger_get'')]),
      (''/api/v1/orgs/{org_id}/users/{user_id}/reset-password'', [(''POST'', ''reset_org_admin_password_api_v1_orgs__org_id__users__user_id__reset_password_post'')]),
      (''/api/v1/orgs/{org_id}/users/{user_id}/reset-mfa'', [(''POST'', ''reset_org_user_mfa_api_v1_orgs__org_id__users__user_id__reset_mfa_post'')]),
      (''/api/v1/orgs/{org_id}/users/{user_id}'', [(''PATCH'', ''patch_org_user_role_api_v1_orgs__org_id__users__user_id__patch'')]),
      (''/api/v1/orgs/{org_id}/tariff'', [(''PATCH'', ''assign_org_tariff_api_v1_orgs__org_id__tariff_patch'')])]"

definition paths_from_instance_settings :: "(string \<times> (string \<times> string) list) list" where
  "paths_from_instance_settings =
     [(''/api/v1/instance/settings'', [(''GET'', ''get_settings_ep_api_v1_instance_settings_get''),
       (''PATCH'', ''patch_settings_api_v1_instance_settings_patch'')]),
      (''/api/v1/instance/settings/agreement/preview'', [(''POST'', ''preview_agreement_markdown_api_v1_instance_settings_agreement_preview_post'')]),
      (''/api/v1/instance/legal-documents/{key}/versions'', [(''GET'', ''list_legal_document_versions_ep_api_v1_instance_legal_documents__key__versions_get'')]),
      (''/api/v1/instance/legal-documents/{key}/versions/{version}'', [(''GET'', ''get_legal_document_version_ep_api_v1_instance_legal_documents__key__versions__version__get'')]),
      (''/api/v1/instance/telegram/test-connection'', [(''POST'', ''telegram_test_connection_api_v1_instance_telegram_test_connection_post'')]),
      (''/api/v1/instance/smtp/test-connection'', [(''POST'', ''smtp_test_connection_api_v1_instance_smtp_test_connection_post'')]),
      (''/api/v1/instance/smtp/test-send'', [(''POST'', ''smtp_test_send_api_v1_instance_smtp_test_send_post'')]),
      (''/api/v1/skills/base'', [(''GET'', ''list_base_skills_api_v1_skills_base_get''),
       (''POST'', ''create_base_skill_api_v1_skills_base_post'')])]"

definition paths_from_skills_base_skill_id :: "(string \<times> (string \<times> string) list) list" where
  "paths_from_skills_base_skill_id =
     [(''/api/v1/skills/base/{skill_id}'', [(''DELETE'', ''delete_base_skill_api_v1_skills_base__skill_id__delete''),
       (''PATCH'', ''patch_base_skill_api_v1_skills_base__skill_id__patch'')]),
      (''/api/v1/tariffs'', [(''GET'', ''list_tariffs_api_v1_tariffs_get''), (''POST'', ''create_tariff_api_v1_tariffs_post'')]),
      (''/api/v1/tariffs/{tariff_id}/clone'', [(''POST'', ''clone_tariff_api_v1_tariffs__tariff_id__clone_post'')]),
      (''/api/v1/tariffs/{tariff_id}'', [(''DELETE'', ''delete_tariff_api_v1_tariffs__tariff_id__delete''),
       (''PATCH'', ''patch_tariff_api_v1_tariffs__tariff_id__patch'')]),
      (''/api/v1/tariffs/{tariff_id}/archive'', [(''POST'', ''archive_tariff_api_v1_tariffs__tariff_id__archive_post'')]),
      (''/api/v1/tariffs/{tariff_id}/unarchive'', [(''POST'', ''unarchive_tariff_api_v1_tariffs__tariff_id__unarchive_post'')]),
      (''/api/v1/tariffs/{tariff_id}/delete-impact'', [(''GET'', ''tariff_delete_impact_api_v1_tariffs__tariff_id__delete_impact_get'')]),
      (''/api/v1/workers'', [(''GET'', ''list_workers_api_v1_workers_get''), (''POST'', ''create_worker_api_v1_workers_post'')])]"

definition paths_from_instance_transcribe_models :: "(string \<times> (string \<times> string) list) list" where
  "paths_from_instance_transcribe_models =
     [(''/api/v1/instance/transcribe-models'', [(''GET'', ''list_transcribe_models_api_v1_instance_transcribe_models_get'')]),
      (''/api/v1/instance/summarize-models'', [(''GET'', ''list_summarize_models_api_v1_instance_summarize_models_get'')]),
      (''/api/v1/workers/probe'', [(''POST'', ''probe_worker_api_v1_workers_probe_post'')]),
      (''/api/v1/workers/{worker_id}'', [(''DELETE'', ''delete_worker_api_v1_workers__worker_id__delete''),
       (''PATCH'', ''patch_worker_api_v1_workers__worker_id__patch'')]),
      (''/api/v1/workers/{worker_id}/delete-impact'', [(''GET'', ''worker_delete_impact_api_v1_workers__worker_id__delete_impact_get'')]),
      (''/api/v1/workers/{worker_id}/change-impact'', [(''POST'', ''worker_change_impact_api_v1_workers__worker_id__change_impact_post'')]),
      (''/api/v1/instance/crypto/deks'', [(''GET'', ''list_deks_api_v1_instance_crypto_deks_get''),
       (''POST'', ''add_dek_api_v1_instance_crypto_deks_post'')]),
      (''/api/v1/instance/crypto/reencrypt'', [(''POST'', ''start_reencrypt_api_v1_instance_crypto_reencrypt_post'')])]"

definition paths_from_instance_crypto_reencrypt_latest :: "(string \<times> (string \<times> string) list) list" where
  "paths_from_instance_crypto_reencrypt_latest =
     [(''/api/v1/instance/crypto/reencrypt/latest'', [(''GET'', ''reencrypt_latest_api_v1_instance_crypto_reencrypt_latest_get'')]),
      (''/api/v1/instance/crypto/reencrypt/{job_id}'', [(''GET'', ''reencrypt_status_api_v1_instance_crypto_reencrypt__job_id__get'')]),
      (''/api/v1/instance/crypto/reencrypt/{job_id}/cancel'', [(''POST'', ''cancel_reencrypt_api_v1_instance_crypto_reencrypt__job_id__cancel_post'')]),
      (''/api/v1/org/available-tariffs'', [(''GET'', ''available_tariffs_api_v1_org_available_tariffs_get'')]),
      (''/api/v1/org'', [(''GET'', ''get_org_api_v1_org_get''), (''PATCH'', ''patch_org_api_v1_org_patch'')]),
      (''/api/v1/org/stats'', [(''GET'', ''org_stats_api_v1_org_stats_get'')]),
      (''/api/v1/org/tariff'', [(''PATCH'', ''patch_org_tariff_api_v1_org_tariff_patch'')]),
      (''/api/v1/org/capture/jitsi'', [(''GET'', ''get_org_capture_jitsi_api_v1_org_capture_jitsi_get''),
       (''PUT'', ''replace_org_capture_jitsi_api_v1_org_capture_jitsi_put'')])]"

definition paths_from_org_settings :: "(string \<times> (string \<times> string) list) list" where
  "paths_from_org_settings =
     [(''/api/v1/org/settings'', [(''PATCH'', ''patch_org_settings_api_v1_org_settings_patch'')]),
      (''/api/v1/org/public-links'', [(''GET'', ''org_public_links_api_v1_org_public_links_get'')]),
      (''/api/v1/org/public-links/{link_id}'', [(''DELETE'', ''revoke_org_public_link_api_v1_org_public_links__link_id__delete'')]),
      (''/api/v1/org/sso'', [(''GET'', ''get_org_sso_api_v1_org_sso_get''), (''PATCH'', ''patch_org_sso_api_v1_org_sso_patch'')]),
      (''/api/v1/org/users'', [(''GET'', ''list_users_api_v1_org_users_get''), (''POST'', ''create_user_api_v1_org_users_post'')]),
      (''/api/v1/org/users/{user_id}'', [(''PATCH'', ''patch_user_role_api_v1_org_users__user_id__patch'')]),
      (''/api/v1/org/users/{user_id}/disable'', [(''POST'', ''disable_user_api_v1_org_users__user_id__disable_post'')]),
      (''/api/v1/org/users/{user_id}/enable'', [(''POST'', ''enable_user_api_v1_org_users__user_id__enable_post'')])]"

definition paths_from_org_users_user_id_reset_password :: "(string \<times> (string \<times> string) list) list" where
  "paths_from_org_users_user_id_reset_password =
     [(''/api/v1/org/users/{user_id}/reset-password'', [(''POST'', ''reset_user_password_api_v1_org_users__user_id__reset_password_post'')]),
      (''/api/v1/org/users/{user_id}/reset-mfa'', [(''POST'', ''reset_user_mfa_api_v1_org_users__user_id__reset_mfa_post'')]),
      (''/api/v1/org/users/{user_id}/offboard'', [(''POST'', ''offboard_user_api_v1_org_users__user_id__offboard_post'')]),
      (''/api/v1/audios'', [(''GET'', ''list_audios_api_v1_audios_get''), (''POST'', ''upload_audio_api_v1_audios_post'')]),
      (''/api/v1/audios/{audio_id}'', [(''GET'', ''get_audio_api_v1_audios__audio_id__get''),
       (''DELETE'', ''delete_audio_api_v1_audios__audio_id__delete'')]),
      (''/api/v1/audios/{audio_id}/file'', [(''GET'', ''audio_file_api_v1_audios__audio_id__file_get'')]),
      (''/api/v1/audios/{audio_id}/hide'', [(''POST'', ''hide_audio_api_v1_audios__audio_id__hide_post'')]),
      (''/api/v1/audios/{audio_id}/unhide'', [(''POST'', ''unhide_audio_api_v1_audios__audio_id__unhide_post'')])]"

definition paths_from_audios_audio_id_delete_impact :: "(string \<times> (string \<times> string) list) list" where
  "paths_from_audios_audio_id_delete_impact =
     [(''/api/v1/audios/{audio_id}/delete-impact'', [(''GET'', ''audio_delete_impact_api_v1_audios__audio_id__delete_impact_get'')]),
      (''/api/v1/capture/platforms'', [(''GET'', ''capture_platforms_api_v1_capture_platforms_get'')]),
      (''/api/v1/import/platforms'', [(''GET'', ''import_platforms_api_v1_import_platforms_get'')]),
      (''/api/v1/shares'', [(''GET'', ''list_shares_api_v1_shares_get''), (''POST'', ''create_shares_api_v1_shares_post'')]),
      (''/api/v1/shares/{share_id}'', [(''DELETE'', ''delete_share_api_v1_shares__share_id__delete'')]),
      (''/api/v1/summaries'', [(''GET'', ''list_summaries_api_v1_summaries_get'')]),
      (''/api/v1/summaries/{summary_id}'', [(''GET'', ''get_summary_api_v1_summaries__summary_id__get''),
       (''DELETE'', ''delete_summary_api_v1_summaries__summary_id__delete''),
       (''PATCH'', ''patch_summary_api_v1_summaries__summary_id__patch'')]),
      (''/api/v1/summaries/{summary_id}/export'', [(''GET'', ''export_summary_api_v1_summaries__summary_id__export_get'')])]"

definition paths_from_summaries_summary_id_hide :: "(string \<times> (string \<times> string) list) list" where
  "paths_from_summaries_summary_id_hide =
     [(''/api/v1/summaries/{summary_id}/hide'', [(''POST'', ''hide_summary_api_v1_summaries__summary_id__hide_post'')]),
      (''/api/v1/summaries/{summary_id}/unhide'', [(''POST'', ''unhide_summary_api_v1_summaries__summary_id__unhide_post'')]),
      (''/api/v1/summaries/{summary_id}/delete-impact'', [(''GET'', ''summary_delete_impact_api_v1_summaries__summary_id__delete_impact_get'')]),
      (''/api/v1/summaries/{summary_id}/public-link'', [(''GET'', ''get_summary_public_link_api_v1_summaries__summary_id__public_link_get''),
       (''POST'', ''create_summary_public_link_api_v1_summaries__summary_id__public_link_post''),
       (''DELETE'', ''delete_summary_public_link_api_v1_summaries__summary_id__public_link_delete'')]),
      (''/api/v1/transcripts'', [(''GET'', ''list_transcripts_api_v1_transcripts_get'')]),
      (''/api/v1/transcripts/{transcript_id}'', [(''GET'', ''get_transcript_api_v1_transcripts__transcript_id__get''),
       (''DELETE'', ''delete_transcript_api_v1_transcripts__transcript_id__delete''),
       (''PATCH'', ''patch_transcript_api_v1_transcripts__transcript_id__patch'')]),
      (''/api/v1/transcripts/{transcript_id}/export'', [(''GET'', ''export_transcript_api_v1_transcripts__transcript_id__export_get'')]),
      (''/api/v1/transcripts/{transcript_id}/hide'', [(''POST'', ''hide_transcript_api_v1_transcripts__transcript_id__hide_post'')])]"

definition paths_from_transcripts_transcript_id_unhide :: "(string \<times> (string \<times> string) list) list" where
  "paths_from_transcripts_transcript_id_unhide =
     [(''/api/v1/transcripts/{transcript_id}/unhide'', [(''POST'', ''unhide_transcript_api_v1_transcripts__transcript_id__unhide_post'')]),
      (''/api/v1/transcripts/{transcript_id}/delete-impact'', [(''GET'', ''transcript_delete_impact_api_v1_transcripts__transcript_id__delete_impact_get'')]),
      (''/api/v1/tags'', [(''GET'', ''get_tags_api_v1_tags_get'')]),
      (''/api/v1/tags/{tag_id}'', [(''DELETE'', ''remove_tag_api_v1_tags__tag_id__delete''),
       (''PATCH'', ''patch_tag_api_v1_tags__tag_id__patch'')]),
      (''/api/v1/object-tags'', [(''PUT'', ''put_object_tags_api_v1_object_tags_put'')]),
      (''/api/v1/tasks/transcribe'', [(''POST'', ''create_transcribe_api_v1_tasks_transcribe_post'')]),
      (''/api/v1/tasks/import'', [(''POST'', ''create_import_api_v1_tasks_import_post'')]),
      (''/api/v1/tasks/capture'', [(''POST'', ''create_capture_api_v1_tasks_capture_post'')])]"

definition paths_from_tasks_summarize :: "(string \<times> (string \<times> string) list) list" where
  "paths_from_tasks_summarize =
     [(''/api/v1/tasks/summarize'', [(''POST'', ''create_summarize_api_v1_tasks_summarize_post'')]),
      (''/api/v1/tasks/purge'', [(''POST'', ''purge_task_history_api_v1_tasks_purge_post'')]),
      (''/api/v1/tasks'', [(''GET'', ''list_tasks_api_v1_tasks_get'')]),
      (''/api/v1/tasks/{task_id}'', [(''GET'', ''get_task_api_v1_tasks__task_id__get''),
       (''DELETE'', ''cancel_task_api_v1_tasks__task_id__delete'')]),
      (''/api/v1/tasks/{task_id}/stop'', [(''POST'', ''stop_capture_task_api_v1_tasks__task_id__stop_post'')]),
      (''/api/v1/tasks/{task_id}/retry'', [(''POST'', ''retry_task_api_v1_tasks__task_id__retry_post'')]),
      (''/api/v1/skills'', [(''GET'', ''catalog_api_v1_skills_get'')]),
      (''/api/v1/skills/self'', [(''POST'', ''create_self_api_v1_skills_self_post'')])]"

definition paths_from_skills_self_skill_id :: "(string \<times> (string \<times> string) list) list" where
  "paths_from_skills_self_skill_id =
     [(''/api/v1/skills/self/{skill_id}'', [(''DELETE'', ''delete_self_api_v1_skills_self__skill_id__delete''),
       (''PATCH'', ''patch_self_api_v1_skills_self__skill_id__patch'')]),
      (''/api/v1/org/skills'', [(''POST'', ''create_org_skill_api_v1_org_skills_post'')]),
      (''/api/v1/org/skills/{skill_id}'', [(''DELETE'', ''delete_org_skill_api_v1_org_skills__skill_id__delete''),
       (''PATCH'', ''patch_org_skill_api_v1_org_skills__skill_id__patch'')]),
      (''/api/v1/skills/{skill_id}/export'', [(''GET'', ''export_skill_api_v1_skills__skill_id__export_get'')]),
      (''/api/v1/skills/{skill_id}/copy'', [(''POST'', ''copy_skill_api_v1_skills__skill_id__copy_post'')]),
      (''/api/v1/public/legal-documents'', [(''GET'', ''list_public_legal_documents_api_v1_public_legal_documents_get'')]),
      (''/api/v1/public/legal-documents/{key}'', [(''GET'', ''get_public_legal_document_api_v1_public_legal_documents__key__get'')]),
      (''/api/v1/public/summary/{token}'', [(''GET'', ''get_public_summary_api_v1_public_summary__token__get'')])]"

definition paths_from_public_summary_token_unlock :: "(string \<times> (string \<times> string) list) list" where
  "paths_from_public_summary_token_unlock =
     [(''/api/v1/public/summary/{token}/unlock'', [(''POST'', ''unlock_public_summary_api_v1_public_summary__token__unlock_post'')]),
      (''/api/v1/integrations/telegram/webhook'', [(''POST'', ''telegram_webhook_api_v1_integrations_telegram_webhook_post'')]),
      (''/{full_path}'', [(''GET'', ''spa__full_path__get'')])]"

definition api_paths :: "(string \<times> (string \<times> string) list) list" where
  "api_paths = concat
     [paths_from_health,
      paths_from_me_backup,
      paths_from_auth_mfa_setup_confirm,
      paths_from_auth_password_reset_request,
      paths_from_auth_tokens,
      paths_from_orgs_org_id_delete,
      paths_from_instance_settings,
      paths_from_skills_base_skill_id,
      paths_from_instance_transcribe_models,
      paths_from_instance_crypto_reencrypt_latest,
      paths_from_org_settings,
      paths_from_org_users_user_id_reset_password,
      paths_from_audios_audio_id_delete_impact,
      paths_from_summaries_summary_id_hide,
      paths_from_transcripts_transcript_id_unhide,
      paths_from_tasks_summarize,
      paths_from_skills_self_skill_id,
      paths_from_public_summary_token_unlock]"

section \<open>Operations\<close>

definition operations_from_health :: "(string \<times> api_operation) list" where
  "operations_from_health =
     [(''health_api_v1_health_get'', \<lparr>op_query = [], op_path = [], op_body = None,
       op_replies = [(200, TsMap TsUnknown)]\<rparr>),
      (''metrics_metrics_get'', \<lparr>op_query = [], op_path = [], op_body = None, op_replies = [(200, TsUnknown)]\<rparr>),
      (''well_known_authorization_server__well_known_oauth_authorization_server_get'', \<lparr>op_query = [], op_path = [],
       op_body = None, op_replies = [(200, TsRef ''OAuthAuthorizationServerMetadata''), (400, TsRef ''OAuthErrorResponse''),
       (404, TsRef ''OAuthErrorResponse''), (503, TsRef ''OAuthErrorResponse'')]\<rparr>),
      (''well_known_jwks__well_known_jwks_json_get'', \<lparr>op_query = [], op_path = [], op_body = None,
       op_replies = [(200, TsRef ''OAuthJwksResponse''), (404, TsRef ''OAuthErrorResponse'')]\<rparr>),
      (''oauth_protected_resource_metadata__well_known_oauth_protected_resource_mcp_get'', \<lparr>op_query = [], op_path = [],
       op_body = None, op_replies = [(200, TsRef ''OAuthProtectedResourceMetadata''), (404, TsRef ''OAuthErrorResponse'')]\<rparr>)]"

definition operations_from_oauth_dynamic_client_registration_oauth_register_post :: "(string \<times> api_operation) list" where
  "operations_from_oauth_dynamic_client_registration_oauth_register_post =
     [(''oauth_dynamic_client_registration_oauth_register_post'', \<lparr>op_query = [], op_path = [], op_body = None,
       op_replies = [(201, TsRef ''OAuthClientRegistrationResponse''), (400, TsRef ''OAuthErrorResponse''),
       (503, TsRef ''OAuthErrorResponse'')]\<rparr>),
      (''oauth_token_oauth_token_post'', \<lparr>op_query = [], op_path = [], op_body = None,
       op_replies = [(200, TsRef ''OAuthTokenResponse''), (400, TsRef ''OAuthErrorResponse''),
       (503, TsRef ''OAuthErrorResponse'')]\<rparr>),
      (''me_api_v1_me_get'', \<lparr>op_query = [], op_path = [], op_body = None,
       op_replies = [(200, TsRef ''MeResponse'')]\<rparr>),
      (''patch_me_api_v1_me_patch'', \<lparr>op_query = [], op_path = [],
       op_body = Some (Req, ''application/json'', TsRef ''MePatchBody''), op_replies = [(200, TsRef ''MeResponse''),
       (422, TsRef ''HTTPValidationError'')]\<rparr>)]"

definition operations_from_download_backup :: "(string \<times> api_operation) list" where
  "operations_from_download_backup =
     [(''download_backup_api_v1_me_backup_get'', \<lparr>op_query = [(''transcripts'', Opt, TsBoolean),
       (''summaries'', Opt, TsBoolean), (''skills'', Opt, TsBoolean), (''format'', Opt, TsString)], op_path = [], op_body = None,
       op_replies = [(200, TsUnknown), (422, TsRef ''HTTPValidationError'')]\<rparr>),
      (''upload_backup_restore_api_v1_me_backup_restore_post'', \<lparr>op_query = [], op_path = [],
       op_body = Some (Req, ''multipart/form-data'', TsRef ''Body_upload_backup_restore_api_v1_me_backup_restore_post''),
       op_replies = [(200, TsRef ''BackupRestoreReportResponse''), (422, TsRef ''HTTPValidationError'')]\<rparr>),
      (''account_delete_preview_route_api_v1_me_account_delete_get'', \<lparr>op_query = [], op_path = [], op_body = None,
       op_replies = [(200, TsRef ''AccountDeletePreviewResponse'')]\<rparr>),
      (''account_delete_api_v1_me_account_delete_post'', \<lparr>op_query = [], op_path = [],
       op_body = Some (Req, ''application/json'', TsRef ''AccountDeleteBody''),
       op_replies = [(200, TsRef ''AccountDeleteResultResponse''), (422, TsRef ''HTTPValidationError'')]\<rparr>)]"

definition operations_from_mfa_verify :: "(string \<times> api_operation) list" where
  "operations_from_mfa_verify =
     [(''mfa_verify_api_v1_auth_mfa_verify_post'', \<lparr>op_query = [], op_path = [],
       op_body = Some (Req, ''application/json'', TsRef ''MfaVerifyBody''), op_replies = [(200, TsRef ''OkStatusResponse''),
       (422, TsRef ''HTTPValidationError'')]\<rparr>),
      (''mfa_recover_api_v1_auth_mfa_recover_post'', \<lparr>op_query = [], op_path = [],
       op_body = Some (Req, ''application/json'', TsRef ''MfaRecoverBody''), op_replies = [(200, TsRef ''OkStatusResponse''),
       (422, TsRef ''HTTPValidationError'')]\<rparr>),
      (''mfa_status_api_v1_auth_mfa_status_get'', \<lparr>op_query = [], op_path = [], op_body = None,
       op_replies = [(200, TsRef ''MfaStatusResponse'')]\<rparr>),
      (''mfa_setup_start_api_v1_auth_mfa_setup_start_post'', \<lparr>op_query = [], op_path = [], op_body = None,
       op_replies = [(200, TsRef ''MfaSetupStartResponse'')]\<rparr>),
      (''accept_user_agreement_api_v1_auth_agreement_accept_post'', \<lparr>op_query = [], op_path = [], op_body = None,
       op_replies = [(200, TsRef ''MeResponse'')]\<rparr>)]"

definition operations_from_mfa_setup_confirm :: "(string \<times> api_operation) list" where
  "operations_from_mfa_setup_confirm =
     [(''mfa_setup_confirm_api_v1_auth_mfa_setup_confirm_post'', \<lparr>op_query = [], op_path = [],
       op_body = Some (Req, ''application/json'', TsRef ''MfaConfirmBody''), op_replies = [(200, TsRef ''MfaSetupConfirmResponse''),
       (422, TsRef ''HTTPValidationError'')]\<rparr>),
      (''mfa_disable_api_v1_auth_mfa_disable_post'', \<lparr>op_query = [], op_path = [],
       op_body = Some (Req, ''application/json'', TsRef ''MfaDisableBody''), op_replies = [(200, TsRef ''OkStatusResponse''),
       (422, TsRef ''HTTPValidationError'')]\<rparr>),
      (''login_api_v1_auth_login_post'', \<lparr>op_query = [], op_path = [],
       op_body = Some (Req, ''application/json'', TsRef ''LoginBody''),
       op_replies = [(200, TsUnion [TsRef ''LoginOkResponse'', TsRef ''LoginMfaRequiredResponse'']),
       (422, TsRef ''HTTPValidationError'')]\<rparr>),
      (''sso_info_api_v1_auth_sso__org_id__info_get'', \<lparr>op_query = [], op_path = [(''org_id'', Req, TsString)],
       op_body = None, op_replies = [(200, TsRef ''SsoInfoResponse''), (422, TsRef ''HTTPValidationError'')]\<rparr>)]"

definition operations_from_sso_start :: "(string \<times> api_operation) list" where
  "operations_from_sso_start =
     [(''sso_start_api_v1_auth_sso__org_id__start_get'', \<lparr>op_query = [], op_path = [(''org_id'', Req, TsString)],
       op_body = None, op_replies = [(200, TsUnknown), (422, TsRef ''HTTPValidationError'')]\<rparr>),
      (''sso_callback_api_v1_auth_sso__org_id__callback_get'', \<lparr>op_query = [(''code'', Opt, nullable TsString),
       (''state'', Opt, nullable TsString)], op_path = [(''org_id'', Req, TsString)], op_body = None, op_replies = [(200, TsUnknown),
       (422, TsRef ''HTTPValidationError'')]\<rparr>),
      (''logout_api_v1_auth_logout_post'', \<lparr>op_query = [], op_path = [], op_body = None,
       op_replies = [(200, TsRef ''OkStatusResponse'')]\<rparr>),
      (''change_password_api_v1_auth_password_change_post'', \<lparr>op_query = [], op_path = [],
       op_body = Some (Req, ''application/json'', TsRef ''PasswordChangeBody''), op_replies = [(200, TsRef ''OkStatusResponse''),
       (422, TsRef ''HTTPValidationError'')]\<rparr>)]"

definition operations_from_reset_request :: "(string \<times> api_operation) list" where
  "operations_from_reset_request =
     [(''reset_request_api_v1_auth_password_reset_request_post'', \<lparr>op_query = [], op_path = [],
       op_body = Some (Req, ''application/json'', TsRef ''ResetRequestBody''), op_replies = [(200, TsRef ''OkStatusResponse''),
       (422, TsRef ''HTTPValidationError'')]\<rparr>),
      (''reset_confirm_api_v1_auth_password_reset_confirm_post'', \<lparr>op_query = [], op_path = [],
       op_body = Some (Req, ''application/json'', TsRef ''ResetConfirmBody''), op_replies = [(200, TsRef ''OkStatusResponse''),
       (422, TsRef ''HTTPValidationError'')]\<rparr>),
      (''setup_api_v1_setup_post'', \<lparr>op_query = [], op_path = [],
       op_body = Some (Req, ''application/json'', TsRef ''SetupBody''), op_replies = [(200, TsRef ''AuthUserBootstrapResponse''),
       (422, TsRef ''HTTPValidationError'')]\<rparr>),
      (''signup_api_v1_auth_signup_post'', \<lparr>op_query = [], op_path = [],
       op_body = Some (Req, ''application/json'', TsRef ''SignupBody''), op_replies = [(200, TsRef ''AuthUserBootstrapResponse''),
       (422, TsRef ''HTTPValidationError'')]\<rparr>)]"

definition operations_from_signup_tariffs :: "(string \<times> api_operation) list" where
  "operations_from_signup_tariffs =
     [(''signup_tariffs_api_v1_auth_signup_tariffs_get'', \<lparr>op_query = [], op_path = [], op_body = None,
       op_replies = [(200, TsRef ''TariffListResponse'')]\<rparr>),
      (''setup_status_api_v1_setup_status_get'', \<lparr>op_query = [], op_path = [], op_body = None,
       op_replies = [(200, TsRef ''SetupStatusResponse'')]\<rparr>),
      (''me_telegram_status_api_v1_me_telegram_get'', \<lparr>op_query = [(''fresh'', Opt, TsBoolean)], op_path = [],
       op_body = None, op_replies = [(200, TsRef ''MeTelegramStatusResponse'')]\<rparr>),
      (''me_telegram_unlink_api_v1_me_telegram_delete'', \<lparr>op_query = [], op_path = [], op_body = None,
       op_replies = [(200, TsRef ''OkStatusResponse'')]\<rparr>),
      (''me_telegram_link_api_v1_me_telegram_link_post'', \<lparr>op_query = [], op_path = [], op_body = None,
       op_replies = [(200, TsRef ''MeTelegramLinkResponse'')]\<rparr>),
      (''list_tokens_api_v1_auth_tokens_get'', \<lparr>op_query = [], op_path = [], op_body = None,
       op_replies = [(200, TsRef ''ApiTokenListResponse'')]\<rparr>)]"

definition operations_from_create_token :: "(string \<times> api_operation) list" where
  "operations_from_create_token =
     [(''create_token_api_v1_auth_tokens_post'', \<lparr>op_query = [], op_path = [],
       op_body = Some (Req, ''application/json'', TsRef ''TokenCreateBody''), op_replies = [(200, TsRef ''ApiTokenCreateResponse''),
       (422, TsRef ''HTTPValidationError'')]\<rparr>),
      (''revoke_token_api_v1_auth_tokens__token_id__delete'', \<lparr>op_query = [], op_path = [(''token_id'', Req, TsString)],
       op_body = None, op_replies = [(200, TsRef ''OkStatusResponse''), (422, TsRef ''HTTPValidationError'')]\<rparr>),
      (''audit_log_api_v1_instance_audit_get'', \<lparr>op_query = [(''from'', Opt, nullable TsString),
       (''to'', Opt, nullable TsString), (''org_id'', Opt, nullable TsString), (''user_id'', Opt, nullable TsString),
       (''action'', Opt, nullable TsString), (''limit'', Opt, TsNumber), (''offset'', Opt, TsNumber)], op_path = [], op_body = None,
       op_replies = [(200, TsRef ''AuditLogListResponse''), (422, TsRef ''HTTPValidationError'')]\<rparr>),
      (''audit_log_export_api_v1_instance_audit_export_get'', \<lparr>op_query = [(''from'', Opt, nullable TsString),
       (''to'', Opt, nullable TsString), (''org_id'', Opt, nullable TsString), (''user_id'', Opt, nullable TsString),
       (''action'', Opt, nullable TsString)], op_path = [], op_body = None, op_replies = [(200, TsUnknown),
       (422, TsRef ''HTTPValidationError'')]\<rparr>)]"

definition operations_from_stats :: "(string \<times> api_operation) list" where
  "operations_from_stats =
     [(''stats_api_v1_instance_stats_get'', \<lparr>op_query = [(''from'', Opt, nullable TsString),
       (''to'', Opt, nullable TsString), (''org_id'', Opt, nullable TsString), (''user_id'', Opt, nullable TsString),
       (''kind'', Opt, nullable TsString)], op_path = [], op_body = None, op_replies = [(200, TsRef ''InstanceUsageStatsResponse''),
       (422, TsRef ''HTTPValidationError'')]\<rparr>),
      (''impersonate_api_v1_impersonate_post'', \<lparr>op_query = [], op_path = [],
       op_body = Some (Req, ''application/json'', TsRef ''ImpersonateBody''), op_replies = [(200, TsRef ''OkStatusResponse''),
       (422, TsRef ''HTTPValidationError'')]\<rparr>),
      (''stop_impersonate_api_v1_impersonate_delete'', \<lparr>op_query = [], op_path = [], op_body = None,
       op_replies = [(200, TsRef ''OkStatusResponse'')]\<rparr>),
      (''wallet_delta_api_v1_orgs__org_id__wallet_post'', \<lparr>op_query = [], op_path = [(''org_id'', Req, TsString)],
       op_body = Some (Req, ''application/json'', TsRef ''WalletBody''), op_replies = [(200, TsRef ''OrgPublicResponse''),
       (422, TsRef ''HTTPValidationError'')]\<rparr>)]"

definition operations_from_list_orgs :: "(string \<times> api_operation) list" where
  "operations_from_list_orgs =
     [(''list_orgs_api_v1_orgs_get'', \<lparr>op_query = [(''include_hidden'', Opt, TsBoolean)], op_path = [], op_body = None,
       op_replies = [(200, TsRef ''InstanceOrgListResponse''), (422, TsRef ''HTTPValidationError'')]\<rparr>),
      (''create_org_api_v1_orgs_post'', \<lparr>op_query = [], op_path = [],
       op_body = Some (Req, ''application/json'', TsRef ''CreateOrgBody''), op_replies = [(200, TsRef ''InstanceOrgCreateResponse''),
       (422, TsRef ''HTTPValidationError'')]\<rparr>),
      (''delete_org_api_v1_orgs__org_id__delete_post'', \<lparr>op_query = [], op_path = [(''org_id'', Req, TsString)],
       op_body = Some (Req, ''application/json'', TsRef ''OrgDeleteBody''), op_replies = [(200, TsRef ''OkStatusResponse''),
       (422, TsRef ''HTTPValidationError'')]\<rparr>),
      (''hide_org_api_v1_orgs__org_id__hide_post'', \<lparr>op_query = [], op_path = [(''org_id'', Req, TsString)], op_body = None,
       op_replies = [(200, TsRef ''OkStatusResponse''), (422, TsRef ''HTTPValidationError'')]\<rparr>)]"

definition operations_from_unhide_org :: "(string \<times> api_operation) list" where
  "operations_from_unhide_org =
     [(''unhide_org_api_v1_orgs__org_id__unhide_post'', \<lparr>op_query = [], op_path = [(''org_id'', Req, TsString)],
       op_body = None, op_replies = [(200, TsRef ''OkStatusResponse''), (422, TsRef ''HTTPValidationError'')]\<rparr>),
      (''org_ledger_ep_api_v1_orgs__org_id__ledger_get'', \<lparr>op_query = [(''from'', Opt, nullable TsString),
       (''to'', Opt, nullable TsString), (''user_id'', Opt, nullable TsString), (''kind'', Opt, nullable TsString)],
       op_path = [(''org_id'', Req, TsString)], op_body = None, op_replies = [(200, TsRef ''OrgLedgerResponse''),
       (422, TsRef ''HTTPValidationError'')]\<rparr>),
      (''reset_org_admin_password_api_v1_orgs__org_id__users__user_id__reset_password_post'', \<lparr>op_query = [],
       op_path = [(''org_id'', Req, TsString), (''user_id'', Req, TsString)], op_body = None,
       op_replies = [(200, TsRef ''OrgUserResetPasswordResponse''), (422, TsRef ''HTTPValidationError'')]\<rparr>),
      (''reset_org_user_mfa_api_v1_orgs__org_id__users__user_id__reset_mfa_post'', \<lparr>op_query = [],
       op_path = [(''org_id'', Req, TsString), (''user_id'', Req, TsString)], op_body = None,
       op_replies = [(200, TsRef ''UserPublic''), (422, TsRef ''HTTPValidationError'')]\<rparr>)]"

definition operations_from_patch_org_user_role :: "(string \<times> api_operation) list" where
  "operations_from_patch_org_user_role =
     [(''patch_org_user_role_api_v1_orgs__org_id__users__user_id__patch'', \<lparr>op_query = [],
       op_path = [(''org_id'', Req, TsString), (''user_id'', Req, TsString)],
       op_body = Some (Req, ''application/json'', TsRef ''OrgUserRoleBody''), op_replies = [(200, TsRef ''UserPublic''),
       (422, TsRef ''HTTPValidationError'')]\<rparr>),
      (''assign_org_tariff_api_v1_orgs__org_id__tariff_patch'', \<lparr>op_query = [], op_path = [(''org_id'', Req, TsString)],
       op_body = Some (Req, ''application/json'', TsRef ''OrgTariffBody''), op_replies = [(200, TsRef ''OrgPublicResponse''),
       (422, TsRef ''HTTPValidationError'')]\<rparr>),
      (''get_settings_ep_api_v1_instance_settings_get'', \<lparr>op_query = [], op_path = [], op_body = None,
       op_replies = [(200, TsRef ''InstanceSettingsResponse'')]\<rparr>),
      (''patch_settings_api_v1_instance_settings_patch'', \<lparr>op_query = [], op_path = [],
       op_body = Some (Req, ''application/json'', TsRef ''SettingsPatch''), op_replies = [(200, TsRef ''InstanceSettingsResponse''),
       (422, TsRef ''HTTPValidationError'')]\<rparr>)]"

definition operations_from_preview_agreement_markdown :: "(string \<times> api_operation) list" where
  "operations_from_preview_agreement_markdown =
     [(''preview_agreement_markdown_api_v1_instance_settings_agreement_preview_post'', \<lparr>op_query = [], op_path = [],
       op_body = Some (Req, ''application/json'', TsRef ''AgreementPreviewBody''),
       op_replies = [(200, TsRef ''AgreementPreviewResponse''), (422, TsRef ''HTTPValidationError'')]\<rparr>),
      (''list_legal_document_versions_ep_api_v1_instance_legal_documents__key__versions_get'', \<lparr>op_query = [],
       op_path = [(''key'', Req, TsString)], op_body = None, op_replies = [(200, TsRef ''LegalDocumentVersionListResponse''),
       (422, TsRef ''HTTPValidationError'')]\<rparr>),
      (''get_legal_document_version_ep_api_v1_instance_legal_documents__key__versions__version__get'', \<lparr>op_query = [],
       op_path = [(''key'', Req, TsString), (''version'', Req, TsNumber)], op_body = None,
       op_replies = [(200, TsRef ''LegalDocumentVersionDetailResponse''), (422, TsRef ''HTTPValidationError'')]\<rparr>),
      (''telegram_test_connection_api_v1_instance_telegram_test_connection_post'', \<lparr>op_query = [], op_path = [],
       op_body = Some (Req, ''application/json'', TsRef ''TelegramTestBody''),
       op_replies = [(200, TsRef ''TelegramTestConnectionResponse''), (422, TsRef ''HTTPValidationError'')]\<rparr>)]"

definition operations_from_smtp_test_connection :: "(string \<times> api_operation) list" where
  "operations_from_smtp_test_connection =
     [(''smtp_test_connection_api_v1_instance_smtp_test_connection_post'', \<lparr>op_query = [], op_path = [],
       op_body = Some (Req, ''application/json'', TsRef ''SmtpTestBody''), op_replies = [(200, TsRef ''OkStatusResponse''),
       (422, TsRef ''HTTPValidationError'')]\<rparr>),
      (''smtp_test_send_api_v1_instance_smtp_test_send_post'', \<lparr>op_query = [], op_path = [],
       op_body = Some (Req, ''application/json'', TsRef ''SmtpTestSendBody''), op_replies = [(200, TsRef ''SmtpTestSendResponse''),
       (422, TsRef ''HTTPValidationError'')]\<rparr>),
      (''list_base_skills_api_v1_skills_base_get'', \<lparr>op_query = [], op_path = [], op_body = None,
       op_replies = [(200, TsRef ''SkillListResponse'')]\<rparr>),
      (''create_base_skill_api_v1_skills_base_post'', \<lparr>op_query = [], op_path = [],
       op_body = Some (Req, ''application/json'', TsRef ''BaseSkillBody''), op_replies = [(200, TsRef ''SkillPublicResponse''),
       (422, TsRef ''HTTPValidationError'')]\<rparr>),
      (''delete_base_skill_api_v1_skills_base__skill_id__delete'', \<lparr>op_query = [], op_path = [(''skill_id'', Req, TsString)],
       op_body = None, op_replies = [(200, TsRef ''OkStatusResponse''), (422, TsRef ''HTTPValidationError'')]\<rparr>)]"

definition operations_from_patch_base_skill :: "(string \<times> api_operation) list" where
  "operations_from_patch_base_skill =
     [(''patch_base_skill_api_v1_skills_base__skill_id__patch'', \<lparr>op_query = [], op_path = [(''skill_id'', Req, TsString)],
       op_body = Some (Req, ''application/json'', TsRef ''BaseSkillBody''), op_replies = [(200, TsRef ''SkillPublicResponse''),
       (422, TsRef ''HTTPValidationError'')]\<rparr>),
      (''list_tariffs_api_v1_tariffs_get'', \<lparr>op_query = [], op_path = [], op_body = None,
       op_replies = [(200, TsRef ''TariffListResponse'')]\<rparr>),
      (''create_tariff_api_v1_tariffs_post'', \<lparr>op_query = [], op_path = [],
       op_body = Some (Req, ''application/json'', TsRef ''TariffBody''), op_replies = [(200, TsRef ''TariffPublic''),
       (422, TsRef ''HTTPValidationError'')]\<rparr>),
      (''clone_tariff_api_v1_tariffs__tariff_id__clone_post'', \<lparr>op_query = [], op_path = [(''tariff_id'', Req, TsString)],
       op_body = Some (Req, ''application/json'', TsRef ''TariffCloneBody''), op_replies = [(200, TsRef ''TariffPublic''),
       (422, TsRef ''HTTPValidationError'')]\<rparr>)]"

definition operations_from_delete_tariff :: "(string \<times> api_operation) list" where
  "operations_from_delete_tariff =
     [(''delete_tariff_api_v1_tariffs__tariff_id__delete'', \<lparr>op_query = [], op_path = [(''tariff_id'', Req, TsString)],
       op_body = Some (Opt, ''application/json'', nullable (TsRef ''TariffDeleteBody'')),
       op_replies = [(200, TsRef ''TariffDeleteResponse''), (422, TsRef ''HTTPValidationError'')]\<rparr>),
      (''patch_tariff_api_v1_tariffs__tariff_id__patch'', \<lparr>op_query = [], op_path = [(''tariff_id'', Req, TsString)],
       op_body = Some (Req, ''application/json'', TsRef ''TariffBody''), op_replies = [(200, TsRef ''TariffPublic''),
       (422, TsRef ''HTTPValidationError'')]\<rparr>),
      (''archive_tariff_api_v1_tariffs__tariff_id__archive_post'', \<lparr>op_query = [],
       op_path = [(''tariff_id'', Req, TsString)], op_body = None, op_replies = [(200, TsRef ''TariffPublic''),
       (422, TsRef ''HTTPValidationError'')]\<rparr>),
      (''unarchive_tariff_api_v1_tariffs__tariff_id__unarchive_post'', \<lparr>op_query = [],
       op_path = [(''tariff_id'', Req, TsString)], op_body = None, op_replies = [(200, TsRef ''TariffPublic''),
       (422, TsRef ''HTTPValidationError'')]\<rparr>)]"

definition operations_from_tariff_delete_impact :: "(string \<times> api_operation) list" where
  "operations_from_tariff_delete_impact =
     [(''tariff_delete_impact_api_v1_tariffs__tariff_id__delete_impact_get'', \<lparr>op_query = [],
       op_path = [(''tariff_id'', Req, TsString)], op_body = None, op_replies = [(200, TsRef ''TariffDeleteImpactResponse''),
       (422, TsRef ''HTTPValidationError'')]\<rparr>),
      (''list_workers_api_v1_workers_get'', \<lparr>op_query = [(''probe'', Opt, TsBoolean), (''refresh'', Opt, TsBoolean)],
       op_path = [], op_body = None, op_replies = [(200, TsRef ''WorkerListResponse''),
       (422, TsRef ''HTTPValidationError'')]\<rparr>),
      (''create_worker_api_v1_workers_post'', \<lparr>op_query = [], op_path = [],
       op_body = Some (Req, ''application/json'', TsRef ''WorkerBody''), op_replies = [(200, TsRef ''WorkerPublicResponse''),
       (422, TsRef ''HTTPValidationError'')]\<rparr>),
      (''list_transcribe_models_api_v1_instance_transcribe_models_get'', \<lparr>op_query = [], op_path = [], op_body = None,
       op_replies = [(200, TsRef ''InstanceTranscribeModelsResponse'')]\<rparr>),
      (''list_summarize_models_api_v1_instance_summarize_models_get'', \<lparr>op_query = [], op_path = [], op_body = None,
       op_replies = [(200, TsRef ''InstanceSummarizeModelsResponse'')]\<rparr>)]"

definition operations_from_probe_worker :: "(string \<times> api_operation) list" where
  "operations_from_probe_worker =
     [(''probe_worker_api_v1_workers_probe_post'', \<lparr>op_query = [], op_path = [],
       op_body = Some (Req, ''application/json'', TsRef ''WorkerProbeBody''), op_replies = [(200, TsRef ''WorkerProbeResponse''),
       (422, TsRef ''HTTPValidationError'')]\<rparr>),
      (''delete_worker_api_v1_workers__worker_id__delete'', \<lparr>op_query = [], op_path = [(''worker_id'', Req, TsString)],
       op_body = Some (Opt, ''application/json'', nullable (TsRef ''WorkerDeleteBody'')),
       op_replies = [(200, TsRef ''WorkerDeleteResponse''), (422, TsRef ''HTTPValidationError'')]\<rparr>),
      (''patch_worker_api_v1_workers__worker_id__patch'', \<lparr>op_query = [], op_path = [(''worker_id'', Req, TsString)],
       op_body = Some (Req, ''application/json'', TsRef ''WorkerBody''), op_replies = [(200, TsRef ''WorkerMutateResponse''),
       (422, TsRef ''HTTPValidationError'')]\<rparr>),
      (''worker_delete_impact_api_v1_workers__worker_id__delete_impact_get'', \<lparr>op_query = [],
       op_path = [(''worker_id'', Req, TsString)], op_body = None, op_replies = [(200, TsRef ''WorkerImpactResponse''),
       (422, TsRef ''HTTPValidationError'')]\<rparr>)]"

definition operations_from_worker_change_impact :: "(string \<times> api_operation) list" where
  "operations_from_worker_change_impact =
     [(''worker_change_impact_api_v1_workers__worker_id__change_impact_post'', \<lparr>op_query = [],
       op_path = [(''worker_id'', Req, TsString)], op_body = Some (Req, ''application/json'', TsRef ''WorkerBody''),
       op_replies = [(200, TsRef ''WorkerImpactResponse''), (422, TsRef ''HTTPValidationError'')]\<rparr>),
      (''list_deks_api_v1_instance_crypto_deks_get'', \<lparr>op_query = [], op_path = [], op_body = None,
       op_replies = [(200, TsRef ''DekListResponse'')]\<rparr>),
      (''add_dek_api_v1_instance_crypto_deks_post'', \<lparr>op_query = [], op_path = [], op_body = None,
       op_replies = [(200, TsRef ''DekPublicResponse'')]\<rparr>),
      (''start_reencrypt_api_v1_instance_crypto_reencrypt_post'', \<lparr>op_query = [], op_path = [], op_body = None,
       op_replies = [(200, TsRef ''EncryptionJobPublicResponse'')]\<rparr>),
      (''reencrypt_latest_api_v1_instance_crypto_reencrypt_latest_get'', \<lparr>op_query = [], op_path = [], op_body = None,
       op_replies = [(200, TsRef ''EncryptionJobLatestResponse'')]\<rparr>),
      (''reencrypt_status_api_v1_instance_crypto_reencrypt__job_id__get'', \<lparr>op_query = [],
       op_path = [(''job_id'', Req, TsString)], op_body = None, op_replies = [(200, TsRef ''EncryptionJobPublicResponse''),
       (422, TsRef ''HTTPValidationError'')]\<rparr>)]"

definition operations_from_cancel_reencrypt :: "(string \<times> api_operation) list" where
  "operations_from_cancel_reencrypt =
     [(''cancel_reencrypt_api_v1_instance_crypto_reencrypt__job_id__cancel_post'', \<lparr>op_query = [],
       op_path = [(''job_id'', Req, TsString)], op_body = None, op_replies = [(200, TsRef ''OkStatusResponse''),
       (422, TsRef ''HTTPValidationError'')]\<rparr>),
      (''available_tariffs_api_v1_org_available_tariffs_get'', \<lparr>op_query = [], op_path = [], op_body = None,
       op_replies = [(200, TsRef ''TariffListResponse'')]\<rparr>),
      (''get_org_api_v1_org_get'', \<lparr>op_query = [], op_path = [], op_body = None,
       op_replies = [(200, TsRef ''OrgPublicResponse'')]\<rparr>),
      (''patch_org_api_v1_org_patch'', \<lparr>op_query = [], op_path = [],
       op_body = Some (Req, ''application/json'', TsRef ''OrgPatch''), op_replies = [(200, TsRef ''OrgPublicResponse''),
       (422, TsRef ''HTTPValidationError'')]\<rparr>),
      (''org_stats_api_v1_org_stats_get'', \<lparr>op_query = [(''from'', Opt, nullable TsString), (''to'', Opt, nullable TsString),
       (''user_id'', Opt, nullable TsString), (''kind'', Opt, nullable TsString)], op_path = [], op_body = None,
       op_replies = [(200, TsRef ''UsageStatsResponse''), (422, TsRef ''HTTPValidationError'')]\<rparr>)]"

definition operations_from_patch_org_tariff :: "(string \<times> api_operation) list" where
  "operations_from_patch_org_tariff =
     [(''patch_org_tariff_api_v1_org_tariff_patch'', \<lparr>op_query = [], op_path = [],
       op_body = Some (Req, ''application/json'', TsRef ''OrgTariffBody''), op_replies = [(200, TsRef ''OrgPublicResponse''),
       (422, TsRef ''HTTPValidationError'')]\<rparr>),
      (''get_org_capture_jitsi_api_v1_org_capture_jitsi_get'', \<lparr>op_query = [], op_path = [], op_body = None,
       op_replies = [(200, TsRef ''OrgCaptureJitsiResponse'')]\<rparr>),
      (''replace_org_capture_jitsi_api_v1_org_capture_jitsi_put'', \<lparr>op_query = [], op_path = [],
       op_body = Some (Req, ''application/json'', TsRef ''OrgCaptureJitsiReplaceBody''),
       op_replies = [(200, TsRef ''OrgCaptureJitsiResponse''), (422, TsRef ''HTTPValidationError'')]\<rparr>),
      (''patch_org_settings_api_v1_org_settings_patch'', \<lparr>op_query = [], op_path = [],
       op_body = Some (Req, ''application/json'', TsRef ''OrgSettingsPatch''), op_replies = [(200, TsRef ''OrgPublicResponse''),
       (422, TsRef ''HTTPValidationError'')]\<rparr>),
      (''org_public_links_api_v1_org_public_links_get'', \<lparr>op_query = [], op_path = [], op_body = None,
       op_replies = [(200, TsRef ''OrgPublicLinkListResponse'')]\<rparr>)]"

definition operations_from_revoke_org_public_link :: "(string \<times> api_operation) list" where
  "operations_from_revoke_org_public_link =
     [(''revoke_org_public_link_api_v1_org_public_links__link_id__delete'', \<lparr>op_query = [],
       op_path = [(''link_id'', Req, TsString)], op_body = None, op_replies = [(200, TsRef ''OkStatusResponse''),
       (422, TsRef ''HTTPValidationError'')]\<rparr>),
      (''get_org_sso_api_v1_org_sso_get'', \<lparr>op_query = [], op_path = [], op_body = None,
       op_replies = [(200, TsRef ''OrgSsoAdminResponse'')]\<rparr>),
      (''patch_org_sso_api_v1_org_sso_patch'', \<lparr>op_query = [], op_path = [],
       op_body = Some (Req, ''application/json'', TsRef ''OrgSsoPatch''), op_replies = [(200, TsRef ''OrgSsoAdminResponse''),
       (422, TsRef ''HTTPValidationError'')]\<rparr>),
      (''list_users_api_v1_org_users_get'', \<lparr>op_query = [], op_path = [], op_body = None,
       op_replies = [(200, TsRef ''OrgUserListResponse'')]\<rparr>),
      (''create_user_api_v1_org_users_post'', \<lparr>op_query = [], op_path = [],
       op_body = Some (Req, ''application/json'', TsRef ''CreateUserBody''), op_replies = [(200, TsRef ''UserPublic''),
       (422, TsRef ''HTTPValidationError'')]\<rparr>)]"

definition operations_from_patch_user_role :: "(string \<times> api_operation) list" where
  "operations_from_patch_user_role =
     [(''patch_user_role_api_v1_org_users__user_id__patch'', \<lparr>op_query = [], op_path = [(''user_id'', Req, TsString)],
       op_body = Some (Req, ''application/json'', TsRef ''RoleBody''), op_replies = [(200, TsRef ''UserPublic''),
       (422, TsRef ''HTTPValidationError'')]\<rparr>),
      (''disable_user_api_v1_org_users__user_id__disable_post'', \<lparr>op_query = [], op_path = [(''user_id'', Req, TsString)],
       op_body = None, op_replies = [(200, TsRef ''UserPublic''), (422, TsRef ''HTTPValidationError'')]\<rparr>),
      (''enable_user_api_v1_org_users__user_id__enable_post'', \<lparr>op_query = [], op_path = [(''user_id'', Req, TsString)],
       op_body = None, op_replies = [(200, TsRef ''UserPublic''), (422, TsRef ''HTTPValidationError'')]\<rparr>),
      (''reset_user_password_api_v1_org_users__user_id__reset_password_post'', \<lparr>op_query = [],
       op_path = [(''user_id'', Req, TsString)], op_body = None, op_replies = [(200, TsRef ''OrgUserResetPasswordResponse''),
       (422, TsRef ''HTTPValidationError'')]\<rparr>)]"

definition operations_from_reset_user_mfa :: "(string \<times> api_operation) list" where
  "operations_from_reset_user_mfa =
     [(''reset_user_mfa_api_v1_org_users__user_id__reset_mfa_post'', \<lparr>op_query = [],
       op_path = [(''user_id'', Req, TsString)], op_body = None, op_replies = [(200, TsRef ''UserPublic''),
       (422, TsRef ''HTTPValidationError'')]\<rparr>),
      (''offboard_user_api_v1_org_users__user_id__offboard_post'', \<lparr>op_query = [], op_path = [(''user_id'', Req, TsString)],
       op_body = Some (Req, ''application/json'', TsRef ''OffboardBody''), op_replies = [(200, TsRef ''OffboardStatusResponse''),
       (422, TsRef ''HTTPValidationError'')]\<rparr>),
      (''list_audios_api_v1_audios_get'', \<lparr>op_query = [(''include_hidden'', Opt, TsBoolean),
       (''tag'', Opt, nullable TsString), (''owner_user_id'', Opt, nullable TsString), (''q'', Opt, nullable TsString),
       (''limit'', Opt, nullable TsNumber), (''offset'', Opt, TsNumber)], op_path = [], op_body = None,
       op_replies = [(200, TsRef ''AudioListResponse''), (422, TsRef ''HTTPValidationError'')]\<rparr>),
      (''upload_audio_api_v1_audios_post'', \<lparr>op_query = [], op_path = [],
       op_body = Some (Req, ''multipart/form-data'', TsRef ''Body_upload_audio_api_v1_audios_post''),
       op_replies = [(200, TsRef ''AudioCreatedResponse''), (422, TsRef ''HTTPValidationError'')]\<rparr>)]"

definition operations_from_get_audio :: "(string \<times> api_operation) list" where
  "operations_from_get_audio =
     [(''get_audio_api_v1_audios__audio_id__get'', \<lparr>op_query = [], op_path = [(''audio_id'', Req, TsString)], op_body = None,
       op_replies = [(200, TsRef ''AudioDetailResponse''), (422, TsRef ''HTTPValidationError'')]\<rparr>),
      (''delete_audio_api_v1_audios__audio_id__delete'', \<lparr>op_query = [], op_path = [(''audio_id'', Req, TsString)],
       op_body = None, op_replies = [(200, TsRef ''OkStatusResponse''), (422, TsRef ''HTTPValidationError'')]\<rparr>),
      (''audio_file_api_v1_audios__audio_id__file_get'', \<lparr>op_query = [(''download'', Opt, TsBoolean)],
       op_path = [(''audio_id'', Req, TsString)], op_body = None, op_replies = [(200, TsUnknown),
       (422, TsRef ''HTTPValidationError'')]\<rparr>),
      (''hide_audio_api_v1_audios__audio_id__hide_post'', \<lparr>op_query = [], op_path = [(''audio_id'', Req, TsString)],
       op_body = None, op_replies = [(200, TsRef ''OkStatusResponse''), (422, TsRef ''HTTPValidationError'')]\<rparr>)]"

definition operations_from_unhide_audio :: "(string \<times> api_operation) list" where
  "operations_from_unhide_audio =
     [(''unhide_audio_api_v1_audios__audio_id__unhide_post'', \<lparr>op_query = [], op_path = [(''audio_id'', Req, TsString)],
       op_body = None, op_replies = [(200, TsRef ''OkStatusResponse''), (422, TsRef ''HTTPValidationError'')]\<rparr>),
      (''audio_delete_impact_api_v1_audios__audio_id__delete_impact_get'', \<lparr>op_query = [],
       op_path = [(''audio_id'', Req, TsString)], op_body = None, op_replies = [(200, TsRef ''LibraryArtifactDeleteImpactResponse''),
       (422, TsRef ''HTTPValidationError'')]\<rparr>),
      (''capture_platforms_api_v1_capture_platforms_get'', \<lparr>op_query = [], op_path = [], op_body = None,
       op_replies = [(200, TsRef ''CapturePlatformsResponse'')]\<rparr>),
      (''import_platforms_api_v1_import_platforms_get'', \<lparr>op_query = [], op_path = [], op_body = None,
       op_replies = [(200, TsRef ''ImportPlatformsResponse'')]\<rparr>),
      (''list_shares_api_v1_shares_get'', \<lparr>op_query = [(''object_type'', Req, TsString), (''object_id'', Req, TsString)],
       op_path = [], op_body = None, op_replies = [(200, TsRef ''ShareListResponse''),
       (422, TsRef ''HTTPValidationError'')]\<rparr>)]"

definition operations_from_create_shares :: "(string \<times> api_operation) list" where
  "operations_from_create_shares =
     [(''create_shares_api_v1_shares_post'', \<lparr>op_query = [], op_path = [],
       op_body = Some (Req, ''application/json'', TsRef ''ShareBody''), op_replies = [(200, TsRef ''ShareCreateResponse''),
       (422, TsRef ''HTTPValidationError'')]\<rparr>),
      (''delete_share_api_v1_shares__share_id__delete'', \<lparr>op_query = [], op_path = [(''share_id'', Req, TsString)],
       op_body = None, op_replies = [(200, TsRef ''OkStatusResponse''), (422, TsRef ''HTTPValidationError'')]\<rparr>),
      (''list_summaries_api_v1_summaries_get'', \<lparr>op_query = [(''include_hidden'', Opt, TsBoolean),
       (''tag'', Opt, nullable TsString), (''owner_user_id'', Opt, nullable TsString), (''q'', Opt, nullable TsString),
       (''group_by'', Opt, nullable (TsLit ''source'')), (''limit'', Opt, nullable TsNumber), (''offset'', Opt, TsNumber)],
       op_path = [], op_body = None, op_replies = [(200, TsRef ''SummaryListResponse''),
       (422, TsRef ''HTTPValidationError'')]\<rparr>),
      (''get_summary_api_v1_summaries__summary_id__get'', \<lparr>op_query = [], op_path = [(''summary_id'', Req, TsString)],
       op_body = None, op_replies = [(200, TsRef ''SummaryDetailResponse''), (422, TsRef ''HTTPValidationError'')]\<rparr>)]"

definition operations_from_delete_summary :: "(string \<times> api_operation) list" where
  "operations_from_delete_summary =
     [(''delete_summary_api_v1_summaries__summary_id__delete'', \<lparr>op_query = [], op_path = [(''summary_id'', Req, TsString)],
       op_body = None, op_replies = [(200, TsRef ''OkStatusResponse''), (422, TsRef ''HTTPValidationError'')]\<rparr>),
      (''patch_summary_api_v1_summaries__summary_id__patch'', \<lparr>op_query = [], op_path = [(''summary_id'', Req, TsString)],
       op_body = Some (Req, ''application/json'', TsRef ''SummaryPatch''), op_replies = [(200, TsRef ''SummaryDetailResponse''),
       (422, TsRef ''HTTPValidationError'')]\<rparr>),
      (''export_summary_api_v1_summaries__summary_id__export_get'', \<lparr>op_query = [(''format'', Opt, TsString)],
       op_path = [(''summary_id'', Req, TsString)], op_body = None, op_replies = [(200, TsUnknown),
       (422, TsRef ''HTTPValidationError'')]\<rparr>),
      (''hide_summary_api_v1_summaries__summary_id__hide_post'', \<lparr>op_query = [], op_path = [(''summary_id'', Req, TsString)],
       op_body = None, op_replies = [(200, TsRef ''OkStatusResponse''), (422, TsRef ''HTTPValidationError'')]\<rparr>)]"

definition operations_from_unhide_summary :: "(string \<times> api_operation) list" where
  "operations_from_unhide_summary =
     [(''unhide_summary_api_v1_summaries__summary_id__unhide_post'', \<lparr>op_query = [],
       op_path = [(''summary_id'', Req, TsString)], op_body = None, op_replies = [(200, TsRef ''OkStatusResponse''),
       (422, TsRef ''HTTPValidationError'')]\<rparr>),
      (''summary_delete_impact_api_v1_summaries__summary_id__delete_impact_get'', \<lparr>op_query = [],
       op_path = [(''summary_id'', Req, TsString)], op_body = None,
       op_replies = [(200, TsRef ''LibraryArtifactDeleteImpactResponse''), (422, TsRef ''HTTPValidationError'')]\<rparr>),
      (''get_summary_public_link_api_v1_summaries__summary_id__public_link_get'', \<lparr>op_query = [],
       op_path = [(''summary_id'', Req, TsString)], op_body = None, op_replies = [(200, TsRef ''OwnerSummaryPublicLinkResponse''),
       (422, TsRef ''HTTPValidationError'')]\<rparr>),
      (''create_summary_public_link_api_v1_summaries__summary_id__public_link_post'', \<lparr>op_query = [],
       op_path = [(''summary_id'', Req, TsString)], op_body = Some (Req, ''application/json'', TsRef ''SummaryPublicLinkBody''),
       op_replies = [(200, TsRef ''OwnerSummaryPublicLinkCreateResponse''), (422, TsRef ''HTTPValidationError'')]\<rparr>)]"

definition operations_from_delete_summary_public_link :: "(string \<times> api_operation) list" where
  "operations_from_delete_summary_public_link =
     [(''delete_summary_public_link_api_v1_summaries__summary_id__public_link_delete'', \<lparr>op_query = [],
       op_path = [(''summary_id'', Req, TsString)], op_body = None, op_replies = [(200, TsRef ''OkStatusResponse''),
       (422, TsRef ''HTTPValidationError'')]\<rparr>),
      (''list_transcripts_api_v1_transcripts_get'', \<lparr>op_query = [(''include_hidden'', Opt, TsBoolean),
       (''tag'', Opt, nullable TsString), (''owner_user_id'', Opt, nullable TsString), (''q'', Opt, nullable TsString),
       (''group_by'', Opt, nullable (TsLit ''source'')), (''limit'', Opt, nullable TsNumber), (''offset'', Opt, TsNumber)],
       op_path = [], op_body = None, op_replies = [(200, TsRef ''TranscriptListResponse''),
       (422, TsRef ''HTTPValidationError'')]\<rparr>),
      (''get_transcript_api_v1_transcripts__transcript_id__get'', \<lparr>op_query = [],
       op_path = [(''transcript_id'', Req, TsString)], op_body = None, op_replies = [(200, TsRef ''TranscriptDetailResponse''),
       (422, TsRef ''HTTPValidationError'')]\<rparr>),
      (''delete_transcript_api_v1_transcripts__transcript_id__delete'', \<lparr>op_query = [],
       op_path = [(''transcript_id'', Req, TsString)], op_body = None, op_replies = [(200, TsRef ''OkStatusResponse''),
       (422, TsRef ''HTTPValidationError'')]\<rparr>)]"

definition operations_from_patch_transcript :: "(string \<times> api_operation) list" where
  "operations_from_patch_transcript =
     [(''patch_transcript_api_v1_transcripts__transcript_id__patch'', \<lparr>op_query = [],
       op_path = [(''transcript_id'', Req, TsString)], op_body = Some (Req, ''application/json'', TsRef ''TitlePatch''),
       op_replies = [(200, TsRef ''TranscriptListItem''), (422, TsRef ''HTTPValidationError'')]\<rparr>),
      (''export_transcript_api_v1_transcripts__transcript_id__export_get'', \<lparr>op_query = [(''format'', Opt, TsString)],
       op_path = [(''transcript_id'', Req, TsString)], op_body = None, op_replies = [(200, TsUnknown),
       (422, TsRef ''HTTPValidationError'')]\<rparr>),
      (''hide_transcript_api_v1_transcripts__transcript_id__hide_post'', \<lparr>op_query = [],
       op_path = [(''transcript_id'', Req, TsString)], op_body = None, op_replies = [(200, TsRef ''OkStatusResponse''),
       (422, TsRef ''HTTPValidationError'')]\<rparr>),
      (''unhide_transcript_api_v1_transcripts__transcript_id__unhide_post'', \<lparr>op_query = [],
       op_path = [(''transcript_id'', Req, TsString)], op_body = None, op_replies = [(200, TsRef ''OkStatusResponse''),
       (422, TsRef ''HTTPValidationError'')]\<rparr>)]"

definition operations_from_transcript_delete_impact :: "(string \<times> api_operation) list" where
  "operations_from_transcript_delete_impact =
     [(''transcript_delete_impact_api_v1_transcripts__transcript_id__delete_impact_get'', \<lparr>op_query = [],
       op_path = [(''transcript_id'', Req, TsString)], op_body = None,
       op_replies = [(200, TsRef ''LibraryArtifactDeleteImpactResponse''), (422, TsRef ''HTTPValidationError'')]\<rparr>),
      (''get_tags_api_v1_tags_get'', \<lparr>op_query = [], op_path = [], op_body = None,
       op_replies = [(200, TsRef ''UserTagListResponse'')]\<rparr>),
      (''remove_tag_api_v1_tags__tag_id__delete'', \<lparr>op_query = [], op_path = [(''tag_id'', Req, TsString)], op_body = None,
       op_replies = [(200, TsRef ''OkStatusResponse''), (422, TsRef ''HTTPValidationError'')]\<rparr>),
      (''patch_tag_api_v1_tags__tag_id__patch'', \<lparr>op_query = [], op_path = [(''tag_id'', Req, TsString)],
       op_body = Some (Req, ''application/json'', TsRef ''TagRenameBody''), op_replies = [(200, TsRef ''UserTagPublicResponse''),
       (422, TsRef ''HTTPValidationError'')]\<rparr>),
      (''put_object_tags_api_v1_object_tags_put'', \<lparr>op_query = [], op_path = [],
       op_body = Some (Req, ''application/json'', TsRef ''ObjectTagsBody''), op_replies = [(200, TsRef ''ObjectTagsResponse''),
       (422, TsRef ''HTTPValidationError'')]\<rparr>)]"

definition operations_from_create_transcribe :: "(string \<times> api_operation) list" where
  "operations_from_create_transcribe =
     [(''create_transcribe_api_v1_tasks_transcribe_post'', \<lparr>op_query = [], op_path = [],
       op_body = Some (Req, ''application/json'', TsRef ''TranscribeBody''), op_replies = [(202, TsRef ''TaskListItem''),
       (422, TsRef ''HTTPValidationError'')]\<rparr>),
      (''create_import_api_v1_tasks_import_post'', \<lparr>op_query = [], op_path = [],
       op_body = Some (Req, ''application/json'', TsRef ''ImportBody''), op_replies = [(202, TsRef ''TaskListItem''),
       (422, TsRef ''HTTPValidationError'')]\<rparr>),
      (''create_capture_api_v1_tasks_capture_post'', \<lparr>op_query = [], op_path = [],
       op_body = Some (Req, ''application/json'', TsRef ''CaptureBody''), op_replies = [(202, TsRef ''TaskListItem''),
       (422, TsRef ''HTTPValidationError'')]\<rparr>),
      (''create_summarize_api_v1_tasks_summarize_post'', \<lparr>op_query = [], op_path = [],
       op_body = Some (Req, ''application/json'', TsRef ''SummarizeBody''), op_replies = [(202, TsRef ''TaskListItem''),
       (422, TsRef ''HTTPValidationError'')]\<rparr>)]"

definition operations_from_purge_task_history :: "(string \<times> api_operation) list" where
  "operations_from_purge_task_history =
     [(''purge_task_history_api_v1_tasks_purge_post'', \<lparr>op_query = [(''org_id'', Opt, nullable TsString),
       (''user_id'', Opt, nullable TsString), (''status'', Opt, nullable TsString)], op_path = [], op_body = None,
       op_replies = [(200, TsRef ''TaskPurgeResponse''), (422, TsRef ''HTTPValidationError'')]\<rparr>),
      (''list_tasks_api_v1_tasks_get'', \<lparr>op_query = [(''org_id'', Opt, nullable TsString),
       (''user_id'', Opt, nullable TsString), (''status'', Opt, nullable TsString), (''done_limit'', Opt, TsNumber),
       (''done_offset'', Opt, TsNumber)], op_path = [], op_body = None, op_replies = [(200, TsRef ''TaskListResponse''),
       (422, TsRef ''HTTPValidationError'')]\<rparr>),
      (''get_task_api_v1_tasks__task_id__get'', \<lparr>op_query = [], op_path = [(''task_id'', Req, TsString)], op_body = None,
       op_replies = [(200, TsRef ''TaskListItem''), (422, TsRef ''HTTPValidationError'')]\<rparr>),
      (''cancel_task_api_v1_tasks__task_id__delete'', \<lparr>op_query = [], op_path = [(''task_id'', Req, TsString)],
       op_body = None, op_replies = [(200, TsRef ''TaskListItem''), (422, TsRef ''HTTPValidationError'')]\<rparr>)]"

definition operations_from_stop_capture_task :: "(string \<times> api_operation) list" where
  "operations_from_stop_capture_task =
     [(''stop_capture_task_api_v1_tasks__task_id__stop_post'', \<lparr>op_query = [], op_path = [(''task_id'', Req, TsString)],
       op_body = None, op_replies = [(202, TsRef ''TaskListItem''), (422, TsRef ''HTTPValidationError'')]\<rparr>),
      (''retry_task_api_v1_tasks__task_id__retry_post'', \<lparr>op_query = [], op_path = [(''task_id'', Req, TsString)],
       op_body = None, op_replies = [(202, TsRef ''TaskListItem''), (422, TsRef ''HTTPValidationError'')]\<rparr>),
      (''catalog_api_v1_skills_get'', \<lparr>op_query = [(''scope'', Opt, nullable TsString)], op_path = [], op_body = None,
       op_replies = [(200, TsRef ''SkillListResponse''), (422, TsRef ''HTTPValidationError'')]\<rparr>),
      (''create_self_api_v1_skills_self_post'', \<lparr>op_query = [], op_path = [],
       op_body = Some (Req, ''application/json'', TsRef ''SkillBody''), op_replies = [(200, TsRef ''SkillPublicResponse''),
       (422, TsRef ''HTTPValidationError'')]\<rparr>)]"

definition operations_from_delete_self :: "(string \<times> api_operation) list" where
  "operations_from_delete_self =
     [(''delete_self_api_v1_skills_self__skill_id__delete'', \<lparr>op_query = [], op_path = [(''skill_id'', Req, TsString)],
       op_body = None, op_replies = [(200, TsRef ''OkStatusResponse''), (422, TsRef ''HTTPValidationError'')]\<rparr>),
      (''patch_self_api_v1_skills_self__skill_id__patch'', \<lparr>op_query = [], op_path = [(''skill_id'', Req, TsString)],
       op_body = Some (Req, ''application/json'', TsRef ''SkillBody''), op_replies = [(200, TsRef ''SkillPublicResponse''),
       (422, TsRef ''HTTPValidationError'')]\<rparr>),
      (''create_org_skill_api_v1_org_skills_post'', \<lparr>op_query = [], op_path = [],
       op_body = Some (Req, ''application/json'', TsRef ''SkillBody''), op_replies = [(200, TsRef ''SkillPublicResponse''),
       (422, TsRef ''HTTPValidationError'')]\<rparr>),
      (''delete_org_skill_api_v1_org_skills__skill_id__delete'', \<lparr>op_query = [], op_path = [(''skill_id'', Req, TsString)],
       op_body = None, op_replies = [(200, TsRef ''OkStatusResponse''), (422, TsRef ''HTTPValidationError'')]\<rparr>)]"

definition operations_from_patch_org_skill :: "(string \<times> api_operation) list" where
  "operations_from_patch_org_skill =
     [(''patch_org_skill_api_v1_org_skills__skill_id__patch'', \<lparr>op_query = [], op_path = [(''skill_id'', Req, TsString)],
       op_body = Some (Req, ''application/json'', TsRef ''SkillBody''), op_replies = [(200, TsRef ''SkillPublicResponse''),
       (422, TsRef ''HTTPValidationError'')]\<rparr>),
      (''export_skill_api_v1_skills__skill_id__export_get'', \<lparr>op_query = [], op_path = [(''skill_id'', Req, TsString)],
       op_body = None, op_replies = [(200, TsUnknown), (422, TsRef ''HTTPValidationError'')]\<rparr>),
      (''copy_skill_api_v1_skills__skill_id__copy_post'', \<lparr>op_query = [], op_path = [(''skill_id'', Req, TsString)],
       op_body = None, op_replies = [(200, TsRef ''SkillPublicResponse''), (422, TsRef ''HTTPValidationError'')]\<rparr>),
      (''list_public_legal_documents_api_v1_public_legal_documents_get'', \<lparr>op_query = [], op_path = [], op_body = None,
       op_replies = [(200, TsRef ''PublicLegalDocumentsResponse'')]\<rparr>),
      (''get_public_legal_document_api_v1_public_legal_documents__key__get'', \<lparr>op_query = [],
       op_path = [(''key'', Req, TsString)], op_body = None, op_replies = [(200, TsRef ''PublicLegalDocumentDetailResponse''),
       (422, TsRef ''HTTPValidationError'')]\<rparr>)]"

definition operations_from_get_public_summary :: "(string \<times> api_operation) list" where
  "operations_from_get_public_summary =
     [(''get_public_summary_api_v1_public_summary__token__get'', \<lparr>op_query = [], op_path = [(''token'', Req, TsString)],
       op_body = None, op_replies = [(200, TsRef ''PublicSummaryResponse''), (422, TsRef ''HTTPValidationError'')]\<rparr>),
      (''unlock_public_summary_api_v1_public_summary__token__unlock_post'', \<lparr>op_query = [],
       op_path = [(''token'', Req, TsString)], op_body = Some (Req, ''application/json'', TsRef ''PublicUnlockBody''),
       op_replies = [(200, TsRef ''PublicSummaryResponse''), (422, TsRef ''HTTPValidationError'')]\<rparr>),
      (''telegram_webhook_api_v1_integrations_telegram_webhook_post'', \<lparr>op_query = [], op_path = [], op_body = None,
       op_replies = [(200, TsUnknown)]\<rparr>),
      (''spa__full_path__get'', \<lparr>op_query = [], op_path = [(''full_path'', Req, TsString)], op_body = None,
       op_replies = [(200, TsUnknown), (422, TsRef ''HTTPValidationError'')]\<rparr>)]"

definition api_operations :: "(string \<times> api_operation) list" where
  "api_operations = concat
     [operations_from_health,
      operations_from_oauth_dynamic_client_registration_oauth_register_post,
      operations_from_download_backup,
      operations_from_mfa_verify,
      operations_from_mfa_setup_confirm,
      operations_from_sso_start,
      operations_from_reset_request,
      operations_from_signup_tariffs,
      operations_from_create_token,
      operations_from_stats,
      operations_from_list_orgs,
      operations_from_unhide_org,
      operations_from_patch_org_user_role,
      operations_from_preview_agreement_markdown,
      operations_from_smtp_test_connection,
      operations_from_patch_base_skill,
      operations_from_delete_tariff,
      operations_from_tariff_delete_impact,
      operations_from_probe_worker,
      operations_from_worker_change_impact,
      operations_from_cancel_reencrypt,
      operations_from_patch_org_tariff,
      operations_from_revoke_org_public_link,
      operations_from_patch_user_role,
      operations_from_reset_user_mfa,
      operations_from_get_audio,
      operations_from_unhide_audio,
      operations_from_create_shares,
      operations_from_delete_summary,
      operations_from_unhide_summary,
      operations_from_delete_summary_public_link,
      operations_from_patch_transcript,
      operations_from_transcript_delete_impact,
      operations_from_create_transcribe,
      operations_from_purge_task_history,
      operations_from_stop_capture_task,
      operations_from_delete_self,
      operations_from_patch_org_skill,
      operations_from_get_public_summary]"

section \<open>The tables agree\<close>

text \<open>Every method of a path names the next operation of the table, and no operation is named twice.\<close>

theorem paths_name_the_operations:
  "concat (map (map snd \<circ> snd) api_paths) = map fst api_operations"
  by code_simp

end
