(* ===== verification/Contract.thy ===== *)
theory Contract
  imports Api_Operations Js_Url Hub_Effects Auth
begin

text \<open>
  What the client sends against what the hub declares. A request is declared if some path of \<open>Api_Operations\<close> with its
  method takes it: the segments of the path match, every parameter of the query is a parameter of the operation, and the
  body is a value of the operation's type. An upload must have the parts of a multipart body. The handlers of the other
  theories log what they send, so that a handler follows the contract if it keeps the log declared.
\<close>

section \<open>Declared requests\<close>

text \<open>A parameter in braces takes the text up to the next slash, at least one character.\<close>

function path_matches :: "string \<Rightarrow> string \<Rightarrow> bool" where
  "path_matches [] p = (p = [])"
| "path_matches (c # t) p =
     (if c = CHR ''{'' then
        takeWhile (\<lambda>d. d \<noteq> CHR ''/'') p \<noteq> []
        \<and> path_matches (drop 1 (dropWhile (\<lambda>d. d \<noteq> CHR ''}'') t)) (dropWhile (\<lambda>d. d \<noteq> CHR ''/'') p)
      else case p of [] \<Rightarrow> False | d # p' \<Rightarrow> if d = c then path_matches t p' else False)"
  by pat_completeness auto

termination
proof (relation "measure (\<lambda>(t, p). length t)", goal_cases)
  case (2 c t p)
  have "length (dropWhile (\<lambda>d. d \<noteq> CHR ''}'') t) \<le> length t" by (rule length_dropWhile_le)
  then show ?case by simp
qed simp_all

definition path_only :: "string \<Rightarrow> string" where
  "path_only p = ''/api/v1'' @ takeWhile (\<lambda>c. c \<noteq> CHR ''?'') p"

definition query_fits :: "(string \<times> presence \<times> ts_type) list \<Rightarrow> string \<Rightarrow> bool" where
  "query_fits qs p =
     (let ks = map fst (params_parse (query_of p)) in
      list_all (\<lambda>k. k \<in> fst ` set qs) ks \<and> list_all (\<lambda>(k, pr, _). pr = Req \<longrightarrow> k \<in> set ks) qs)"

text \<open>Schemas name one another less than eight deep in what the client sends.\<close>

definition schema_depth :: nat where
  "schema_depth = 8"

definition body_fits :: "(presence \<times> string \<times> ts_type) option \<Rightarrow> json option \<Rightarrow> bool" where
  "body_fits decl b =
     (case (decl, b) of
        (None, None) \<Rightarrow> True
      | (Some (pr, media, t), None) \<Rightarrow> pr \<noteq> Req
      | (Some (pr, media, t), Some v) \<Rightarrow> media = ''application/json'' \<and> fits schema_depth t v
      | _ \<Rightarrow> False)"

text \<open>The names of the parts of a form; their values are text.\<close>

definition part_name :: "form_part \<Rightarrow> string" where
  "part_name p = (case p of FormField n _ \<Rightarrow> n | FormFile n _ \<Rightarrow> n)"

definition form_fits :: "(presence \<times> string \<times> ts_type) option \<Rightarrow> form_part list \<Rightarrow> bool" where
  "form_fits decl parts =
     (case decl of
        Some (pr, media, TsRef n) \<Rightarrow>
          media = ''multipart/form-data''
          \<and> list_ex (\<lambda>(m, t). m = n \<and>
               (case t of
                  TsObject fs \<Rightarrow> list_all (\<lambda>p. part_name p \<in> fst ` set fs) parts
                    \<and> list_all (\<lambda>(f, pr, _). pr = Req \<longrightarrow> f \<in> set (map part_name parts)) fs
                | _ \<Rightarrow> False)) api_schemas
      | _ \<Rightarrow> False)"

definition declared :: "string \<Rightarrow> string \<Rightarrow> (api_operation \<Rightarrow> bool) \<Rightarrow> bool" where
  "declared m p ok =
     list_ex (\<lambda>(tmpl, ms). path_matches tmpl (path_only p)
       \<and> list_ex (\<lambda>(m', n). m' = m \<and> list_ex (\<lambda>(n', op). n' = n \<and> ok op) api_operations) ms) api_paths"

definition request_declared :: "string \<Rightarrow> string \<Rightarrow> json option \<Rightarrow> bool" where
  "request_declared m p b = declared m p (\<lambda>op. query_fits (op_query op) p \<and> body_fits (op_body op) b)"

definition upload_declared :: "string \<Rightarrow> form_part list \<Rightarrow> bool" where
  "upload_declared p parts = declared ''POST'' p (\<lambda>op. form_fits (op_body op) parts)"

definition event_ok :: "event \<Rightarrow> bool" where
  "event_ok e = (case e of EvRequest m p b \<Rightarrow> request_declared m p b | EvUpload p parts \<Rightarrow> upload_declared p parts | _ \<Rightarrow> True)"

text \<open>An id in a path is text without a slash or a question mark.\<close>

definition plain_segment :: "string \<Rightarrow> bool" where
  "plain_segment i \<longleftrightarrow> i \<noteq> [] \<and> CHR ''/'' \<notin> set i \<and> CHR ''?'' \<notin> set i"

section \<open>The endpoints of the client\<close>

text \<open>
  The rules below name every endpoint the client uses, in the order of the table; each looks only at the part of the tables
  that holds it.
\<close>

named_theorems contract_rules \<open>declared requests\<close>

lemma declaredI:
  assumes "(tmpl, ms) \<in> set api_paths" "path_matches tmpl (path_only p)" "(m, n) \<in> set ms" "(n, op) \<in> set api_operations" "ok op"
  shows "declared m p ok"
  using assms unfolding declared_def list_ex_iff by fast

lemma declared_at:
  assumes "(tmpl, ms) \<in> set api_paths" "path_matches tmpl (path_only p)" "(m, n) \<in> set ms" "(n, op) \<in> set api_operations"
    "query_fits (op_query op) p" "body_fits (op_body op) b"
  shows "event_ok (EvRequest m p b)"
  using assms by (simp add: event_ok_def request_declared_def declaredI)

lemma upload_at:
  assumes "(tmpl, ms) \<in> set api_paths" "path_matches tmpl (path_only p)" "(''POST'', n) \<in> set ms" "(n, op) \<in> set api_operations"
    "form_fits (op_body op) parts"
  shows "event_ok (EvUpload p parts)"
  using assms by (simp add: event_ok_def upload_declared_def declaredI)

lemma member_intros:
  "a \<in> set (a # xs)" "a \<in> set (b # a # xs)" "a \<in> set (b # c # a # xs)" "a \<in> set (b # c # d # a # xs)"
  "a \<in> set (b # c # d # e # a # xs)" "a \<in> set (b # c # d # e # f # a # xs)" "a \<in> set (b # c # d # e # f # g # a # xs)"
  "a \<in> set (b # c # d # e # f # g # h # a # xs)"
  by simp_all

lemma plain_paths:
  assumes "plain_segment i"
  shows "takeWhile (\<lambda>c. c \<noteq> CHR ''?'') i = i"
    "takeWhile (\<lambda>c. c \<noteq> CHR ''?'') (i @ t) = i @ takeWhile (\<lambda>c. c \<noteq> CHR ''?'') t"
    "takeWhile (\<lambda>c. c \<noteq> CHR ''/'') i = i"
    "takeWhile (\<lambda>c. c \<noteq> CHR ''/'') (i @ t) = i @ takeWhile (\<lambda>c. c \<noteq> CHR ''/'') t"
    "dropWhile (\<lambda>c. c \<noteq> CHR ''/'') i = []"
    "dropWhile (\<lambda>c. c \<noteq> CHR ''/'') (i @ t) = dropWhile (\<lambda>c. c \<noteq> CHR ''/'') t"
    "dropWhile (\<lambda>c. c \<noteq> CHR ''?'') (i @ t) = dropWhile (\<lambda>c. c \<noteq> CHR ''?'') t"
    "\<forall>c \<in> set i. c \<noteq> CHR ''/''" "CHR ''?'' \<notin> set i" "CHR ''/'' \<notin> set i" "i \<noteq> []"
proof -
  have i: "i \<noteq> []" "CHR ''/'' \<notin> set i" "CHR ''?'' \<notin> set i" using assms by (simp_all add: plain_segment_def)
  have w: "\<And>c. c \<in> set i \<Longrightarrow> c \<noteq> CHR ''?''" "\<And>c. c \<in> set i \<Longrightarrow> c \<noteq> CHR ''/''" using i(2,3) by auto
  show "takeWhile (\<lambda>c. c \<noteq> CHR ''?'') i = i" "takeWhile (\<lambda>c. c \<noteq> CHR ''/'') i = i"
    "dropWhile (\<lambda>c. c \<noteq> CHR ''/'') i = []"
    using w by (simp_all add: takeWhile_eq_all_conv dropWhile_eq_Nil_conv)
  show "takeWhile (\<lambda>c. c \<noteq> CHR ''?'') (i @ t) = i @ takeWhile (\<lambda>c. c \<noteq> CHR ''?'') t" using w(1) by (rule takeWhile_append2)
  show "takeWhile (\<lambda>c. c \<noteq> CHR ''/'') (i @ t) = i @ takeWhile (\<lambda>c. c \<noteq> CHR ''/'') t" using w(2) by (rule takeWhile_append2)
  show "dropWhile (\<lambda>c. c \<noteq> CHR ''/'') (i @ t) = dropWhile (\<lambda>c. c \<noteq> CHR ''/'') t" using w(2) by (rule dropWhile_append2)
  show "dropWhile (\<lambda>c. c \<noteq> CHR ''?'') (i @ t) = dropWhile (\<lambda>c. c \<noteq> CHR ''?'') t" using w(1) by (rule dropWhile_append2)
  show "\<forall>c \<in> set i. c \<noteq> CHR ''/''" using w(2) by blast
  show "CHR ''?'' \<notin> set i" "CHR ''/'' \<notin> set i" "i \<noteq> []" by fact+
qed

lemma no_query:
  assumes "CHR ''?'' \<notin> set p"
  shows "query_fits qs p = list_all (\<lambda>(k, pr, _). pr \<noteq> Req) qs"
proof -
  have "dropWhile (\<lambda>c. c \<noteq> CHR ''?'') p = []" unfolding dropWhile_eq_Nil_conv using assms by auto
  then have "query_of p = []" unfolding query_of_def by (simp only: drop_Nil)
  then have "params_parse (query_of p) = []" by (simp add: params_parse_def)
  then show ?thesis by (simp add: query_fits_def Let_def)
qed

lemmas path_eval = path_only_def plain_paths no_query

lemma path_tables:
  "x \<in> set paths_from_health \<Longrightarrow> x \<in> set api_paths"
  "x \<in> set paths_from_me_backup \<Longrightarrow> x \<in> set api_paths"
  "x \<in> set paths_from_auth_mfa_setup_confirm \<Longrightarrow> x \<in> set api_paths"
  "x \<in> set paths_from_auth_password_reset_request \<Longrightarrow> x \<in> set api_paths"
  "x \<in> set paths_from_auth_tokens \<Longrightarrow> x \<in> set api_paths"
  "x \<in> set paths_from_orgs_org_id_delete \<Longrightarrow> x \<in> set api_paths"
  "x \<in> set paths_from_instance_settings \<Longrightarrow> x \<in> set api_paths"
  "x \<in> set paths_from_skills_base_skill_id \<Longrightarrow> x \<in> set api_paths"
  "x \<in> set paths_from_instance_transcribe_models \<Longrightarrow> x \<in> set api_paths"
  "x \<in> set paths_from_instance_crypto_reencrypt_latest \<Longrightarrow> x \<in> set api_paths"
  "x \<in> set paths_from_org_settings \<Longrightarrow> x \<in> set api_paths"
  "x \<in> set paths_from_org_users_user_id_reset_password \<Longrightarrow> x \<in> set api_paths"
  "x \<in> set paths_from_audios_audio_id_delete_impact \<Longrightarrow> x \<in> set api_paths"
  "x \<in> set paths_from_summaries_summary_id_hide \<Longrightarrow> x \<in> set api_paths"
  "x \<in> set paths_from_transcripts_transcript_id_unhide \<Longrightarrow> x \<in> set api_paths"
  "x \<in> set paths_from_tasks_summarize \<Longrightarrow> x \<in> set api_paths"
  "x \<in> set paths_from_skills_self_skill_id \<Longrightarrow> x \<in> set api_paths"
  "x \<in> set paths_from_public_summary_token_unlock \<Longrightarrow> x \<in> set api_paths"
  by (simp_all add: api_paths_def)

lemma operation_tables:
  "x \<in> set operations_from_health \<Longrightarrow> x \<in> set api_operations"
  "x \<in> set operations_from_oauth_dynamic_client_registration_oauth_register_post \<Longrightarrow> x \<in> set api_operations"
  "x \<in> set operations_from_download_backup \<Longrightarrow> x \<in> set api_operations"
  "x \<in> set operations_from_mfa_verify \<Longrightarrow> x \<in> set api_operations"
  "x \<in> set operations_from_mfa_setup_confirm \<Longrightarrow> x \<in> set api_operations"
  "x \<in> set operations_from_sso_start \<Longrightarrow> x \<in> set api_operations"
  "x \<in> set operations_from_signup_tariffs \<Longrightarrow> x \<in> set api_operations"
  "x \<in> set operations_from_reset_request \<Longrightarrow> x \<in> set api_operations"
  "x \<in> set operations_from_create_token \<Longrightarrow> x \<in> set api_operations"
  "x \<in> set operations_from_stats \<Longrightarrow> x \<in> set api_operations"
  "x \<in> set operations_from_list_orgs \<Longrightarrow> x \<in> set api_operations"
  "x \<in> set operations_from_patch_org_user_role \<Longrightarrow> x \<in> set api_operations"
  "x \<in> set operations_from_unhide_org \<Longrightarrow> x \<in> set api_operations"
  "x \<in> set operations_from_smtp_test_connection \<Longrightarrow> x \<in> set api_operations"
  "x \<in> set operations_from_preview_agreement_markdown \<Longrightarrow> x \<in> set api_operations"
  "x \<in> set operations_from_patch_base_skill \<Longrightarrow> x \<in> set api_operations"
  "x \<in> set operations_from_delete_tariff \<Longrightarrow> x \<in> set api_operations"
  "x \<in> set operations_from_tariff_delete_impact \<Longrightarrow> x \<in> set api_operations"
  "x \<in> set operations_from_probe_worker \<Longrightarrow> x \<in> set api_operations"
  "x \<in> set operations_from_worker_change_impact \<Longrightarrow> x \<in> set api_operations"
  "x \<in> set operations_from_cancel_reencrypt \<Longrightarrow> x \<in> set api_operations"
  "x \<in> set operations_from_patch_org_tariff \<Longrightarrow> x \<in> set api_operations"
  "x \<in> set operations_from_revoke_org_public_link \<Longrightarrow> x \<in> set api_operations"
  "x \<in> set operations_from_patch_user_role \<Longrightarrow> x \<in> set api_operations"
  "x \<in> set operations_from_get_audio \<Longrightarrow> x \<in> set api_operations"
  "x \<in> set operations_from_unhide_audio \<Longrightarrow> x \<in> set api_operations"
  "x \<in> set operations_from_reset_user_mfa \<Longrightarrow> x \<in> set api_operations"
  "x \<in> set operations_from_create_shares \<Longrightarrow> x \<in> set api_operations"
  "x \<in> set operations_from_delete_summary \<Longrightarrow> x \<in> set api_operations"
  "x \<in> set operations_from_delete_summary_public_link \<Longrightarrow> x \<in> set api_operations"
  "x \<in> set operations_from_patch_transcript \<Longrightarrow> x \<in> set api_operations"
  "x \<in> set operations_from_unhide_summary \<Longrightarrow> x \<in> set api_operations"
  "x \<in> set operations_from_transcript_delete_impact \<Longrightarrow> x \<in> set api_operations"
  "x \<in> set operations_from_create_transcribe \<Longrightarrow> x \<in> set api_operations"
  "x \<in> set operations_from_purge_task_history \<Longrightarrow> x \<in> set api_operations"
  "x \<in> set operations_from_stop_capture_task \<Longrightarrow> x \<in> set api_operations"
  "x \<in> set operations_from_get_public_summary \<Longrightarrow> x \<in> set api_operations"
  "x \<in> set operations_from_patch_org_skill \<Longrightarrow> x \<in> set api_operations"
  "x \<in> set operations_from_delete_self \<Longrightarrow> x \<in> set api_operations"
  by (simp_all add: api_operations_def)

lemma declared_from_health [contract_rules]:
  "event_ok (EvRequest ''GET'' ''/health'' None)"
  "event_ok (EvRequest ''GET'' ''/me'' None)"
  "fits schema_depth (TsRef ''MePatchBody'') v \<Longrightarrow> event_ok (EvRequest ''PATCH'' ''/me'' (Some v))"
  by ((rule declared_at, rule path_tables(1), unfold paths_from_health_def, rule member_intros, simp add: path_eval,
      rule member_intros, rule operation_tables(1,2), unfold operations_from_health_def operations_from_oauth_dynamic_client_registration_oauth_register_post_def, rule member_intros,
      simp add: path_eval, simp add: body_fits_def)+)

lemma declared_from_me_backup [contract_rules]:
  "event_ok (EvRequest ''GET'' ''/me/account-delete'' None)"
  "fits schema_depth (TsRef ''AccountDeleteBody'') v \<Longrightarrow> event_ok (EvRequest ''POST'' ''/me/account-delete'' (Some v))"
  "event_ok (EvRequest ''POST'' ''/auth/agreement/accept'' None)"
  "fits schema_depth (TsRef ''MfaVerifyBody'') v \<Longrightarrow> event_ok (EvRequest ''POST'' ''/auth/mfa/verify'' (Some v))"
  "fits schema_depth (TsRef ''MfaRecoverBody'') v \<Longrightarrow> event_ok (EvRequest ''POST'' ''/auth/mfa/recover'' (Some v))"
  "event_ok (EvRequest ''POST'' ''/auth/mfa/setup/start'' None)"
  by ((rule declared_at, rule path_tables(2), unfold paths_from_me_backup_def, rule member_intros, simp add: path_eval,
      rule member_intros, rule operation_tables(3,4), unfold operations_from_download_backup_def operations_from_mfa_verify_def, rule member_intros,
      simp add: path_eval, simp add: body_fits_def)+)

lemma declared_from_auth_mfa_setup_confirm [contract_rules]:
  "fits schema_depth (TsRef ''LoginBody'') v \<Longrightarrow> event_ok (EvRequest ''POST'' ''/auth/login'' (Some v))"
  "event_ok (EvRequest ''POST'' ''/auth/logout'' None)"
  "fits schema_depth (TsRef ''MfaDisableBody'') v \<Longrightarrow> event_ok (EvRequest ''POST'' ''/auth/mfa/disable'' (Some v))"
  "fits schema_depth (TsRef ''MfaConfirmBody'') v \<Longrightarrow> event_ok (EvRequest ''POST'' ''/auth/mfa/setup/confirm'' (Some v))"
  "fits schema_depth (TsRef ''PasswordChangeBody'') v \<Longrightarrow> event_ok (EvRequest ''POST'' ''/auth/password/change'' (Some v))"
  "plain_segment i \<Longrightarrow> event_ok (EvRequest ''GET'' (''/auth/sso/'' @ i @ ''/info'') None)"
  by ((rule declared_at, rule path_tables(3), unfold paths_from_auth_mfa_setup_confirm_def, rule member_intros, simp add: path_eval,
      rule member_intros, rule operation_tables(5,6), unfold operations_from_mfa_setup_confirm_def operations_from_sso_start_def, rule member_intros,
      simp add: path_eval, simp add: body_fits_def)+)

lemma declared_from_auth_password_reset_request [contract_rules]:
  "event_ok (EvRequest ''GET'' ''/setup/status'' None)"
  "fits schema_depth (TsRef ''SetupBody'') v \<Longrightarrow> event_ok (EvRequest ''POST'' ''/setup'' (Some v))"
  "event_ok (EvRequest ''DELETE'' ''/me/telegram'' None)"
  "event_ok (EvRequest ''POST'' ''/me/telegram/link'' None)"
  "event_ok (EvRequest ''GET'' ''/me/telegram'' None)"
  "fits schema_depth (TsRef ''SignupBody'') v \<Longrightarrow> event_ok (EvRequest ''POST'' ''/auth/signup'' (Some v))"
  "event_ok (EvRequest ''GET'' ''/auth/signup-tariffs'' None)"
  "fits schema_depth (TsRef ''ResetRequestBody'') v \<Longrightarrow> event_ok (EvRequest ''POST'' ''/auth/password/reset/request'' (Some v))"
  "fits schema_depth (TsRef ''ResetConfirmBody'') v \<Longrightarrow> event_ok (EvRequest ''POST'' ''/auth/password/reset/confirm'' (Some v))"
  by ((rule declared_at, rule path_tables(4), unfold paths_from_auth_password_reset_request_def, rule member_intros, simp add: path_eval,
      rule member_intros, rule operation_tables(7,8), unfold operations_from_signup_tariffs_def operations_from_reset_request_def, rule member_intros,
      simp add: path_eval, simp add: body_fits_def)+)

lemma declared_from_auth_tokens [contract_rules]:
  "event_ok (EvRequest ''GET'' ''/auth/tokens'' None)"
  "fits schema_depth (TsRef ''TokenCreateBody'') v \<Longrightarrow> event_ok (EvRequest ''POST'' ''/auth/tokens'' (Some v))"
  "plain_segment i \<Longrightarrow> event_ok (EvRequest ''DELETE'' (''/auth/tokens/'' @ i) None)"
  "fits schema_depth (TsRef ''ImpersonateBody'') v \<Longrightarrow> event_ok (EvRequest ''POST'' ''/impersonate'' (Some v))"
  "event_ok (EvRequest ''DELETE'' ''/impersonate'' None)"
  "event_ok (EvRequest ''GET'' ''/orgs'' None)"
  "fits schema_depth (TsRef ''CreateOrgBody'') v \<Longrightarrow> event_ok (EvRequest ''POST'' ''/orgs'' (Some v))"
  "plain_segment i \<Longrightarrow> fits schema_depth (TsRef ''WalletBody'') v \<Longrightarrow> event_ok (EvRequest ''POST'' (''/orgs/'' @ i @ ''/wallet'') (Some v))"
  "event_ok (EvRequest ''GET'' ''/instance/stats'' None)"
  by ((rule declared_at, rule path_tables(5), unfold paths_from_auth_tokens_def, rule member_intros, simp add: path_eval,
      rule member_intros, rule operation_tables(7,9,10,11), unfold operations_from_signup_tariffs_def operations_from_create_token_def operations_from_stats_def operations_from_list_orgs_def, rule member_intros,
      simp add: path_eval, simp add: body_fits_def)+)

lemma declared_from_orgs_org_id_delete [contract_rules]:
  "plain_segment i \<Longrightarrow> fits schema_depth (TsRef ''OrgTariffBody'') v \<Longrightarrow> event_ok (EvRequest ''PATCH'' (''/orgs/'' @ i @ ''/tariff'') (Some v))"
  "plain_segment i \<Longrightarrow> fits schema_depth (TsRef ''OrgDeleteBody'') v \<Longrightarrow> event_ok (EvRequest ''POST'' (''/orgs/'' @ i @ ''/delete'') (Some v))"
  "plain_segment i \<Longrightarrow> event_ok (EvRequest ''GET'' (''/orgs/'' @ i @ ''/ledger'') None)"
  "plain_segment i \<Longrightarrow> event_ok (EvRequest ''POST'' (''/orgs/'' @ i @ ''/hide'') None)"
  "plain_segment i \<Longrightarrow> event_ok (EvRequest ''POST'' (''/orgs/'' @ i @ ''/unhide'') None)"
  "plain_segment i \<Longrightarrow> plain_segment j \<Longrightarrow> fits schema_depth (TsRef ''OrgUserRoleBody'') v \<Longrightarrow> event_ok (EvRequest ''PATCH'' (''/orgs/'' @ i @ ''/users/'' @ j) (Some v))"
  "plain_segment i \<Longrightarrow> plain_segment j \<Longrightarrow> event_ok (EvRequest ''POST'' (''/orgs/'' @ i @ ''/users/'' @ j @ ''/reset-password'') None)"
  "plain_segment i \<Longrightarrow> plain_segment j \<Longrightarrow> event_ok (EvRequest ''POST'' (''/orgs/'' @ i @ ''/users/'' @ j @ ''/reset-mfa'') None)"
  by ((rule declared_at, rule path_tables(6), unfold paths_from_orgs_org_id_delete_def, rule member_intros, simp add: path_eval,
      rule member_intros, rule operation_tables(12,11,13), unfold operations_from_patch_org_user_role_def operations_from_list_orgs_def operations_from_unhide_org_def, rule member_intros,
      simp add: path_eval, simp add: body_fits_def)+)

lemma declared_from_instance_settings [contract_rules]:
  "event_ok (EvRequest ''GET'' ''/skills/base'' None)"
  "fits schema_depth (TsRef ''BaseSkillBody'') v \<Longrightarrow> event_ok (EvRequest ''POST'' ''/skills/base'' (Some v))"
  "event_ok (EvRequest ''GET'' ''/instance/settings'' None)"
  "fits schema_depth (TsRef ''SettingsPatch'') v \<Longrightarrow> event_ok (EvRequest ''PATCH'' ''/instance/settings'' (Some v))"
  "fits schema_depth (TsRef ''AgreementPreviewBody'') v \<Longrightarrow> event_ok (EvRequest ''POST'' ''/instance/settings/agreement/preview'' (Some v))"
  "plain_segment i \<Longrightarrow> event_ok (EvRequest ''GET'' (''/instance/legal-documents/'' @ i @ ''/versions'') None)"
  "plain_segment i \<Longrightarrow> plain_segment j \<Longrightarrow> event_ok (EvRequest ''GET'' (''/instance/legal-documents/'' @ i @ ''/versions/'' @ j) None)"
  "fits schema_depth (TsRef ''SmtpTestBody'') v \<Longrightarrow> event_ok (EvRequest ''POST'' ''/instance/smtp/test-connection'' (Some v))"
  "fits schema_depth (TsRef ''SmtpTestSendBody'') v \<Longrightarrow> event_ok (EvRequest ''POST'' ''/instance/smtp/test-send'' (Some v))"
  "fits schema_depth (TsRef ''TelegramTestBody'') v \<Longrightarrow> event_ok (EvRequest ''POST'' ''/instance/telegram/test-connection'' (Some v))"
  by ((rule declared_at, rule path_tables(7), unfold paths_from_instance_settings_def, rule member_intros, simp add: path_eval,
      rule member_intros, rule operation_tables(14,12,15), unfold operations_from_smtp_test_connection_def operations_from_patch_org_user_role_def operations_from_preview_agreement_markdown_def, rule member_intros,
      simp add: path_eval, simp add: body_fits_def)+)

lemma declared_from_skills_base_skill_id [contract_rules]:
  "plain_segment i \<Longrightarrow> fits schema_depth (TsRef ''BaseSkillBody'') v \<Longrightarrow> event_ok (EvRequest ''PATCH'' (''/skills/base/'' @ i) (Some v))"
  "plain_segment i \<Longrightarrow> event_ok (EvRequest ''DELETE'' (''/skills/base/'' @ i) None)"
  "event_ok (EvRequest ''GET'' ''/workers'' None)"
  "event_ok (EvRequest ''GET'' ''/tariffs'' None)"
  "fits schema_depth (TsRef ''TariffBody'') v \<Longrightarrow> event_ok (EvRequest ''POST'' ''/tariffs'' (Some v))"
  "plain_segment i \<Longrightarrow> fits schema_depth (TsRef ''TariffBody'') v \<Longrightarrow> event_ok (EvRequest ''PATCH'' (''/tariffs/'' @ i) (Some v))"
  "plain_segment i \<Longrightarrow> fits schema_depth (nullable (TsRef ''TariffDeleteBody'')) v \<Longrightarrow> event_ok (EvRequest ''DELETE'' (''/tariffs/'' @ i) (Some v))"
  "plain_segment i \<Longrightarrow> event_ok (EvRequest ''DELETE'' (''/tariffs/'' @ i) None)"
  "plain_segment i \<Longrightarrow> fits schema_depth (TsRef ''TariffCloneBody'') v \<Longrightarrow> event_ok (EvRequest ''POST'' (''/tariffs/'' @ i @ ''/clone'') (Some v))"
  "plain_segment i \<Longrightarrow> event_ok (EvRequest ''POST'' (''/tariffs/'' @ i @ ''/archive'') None)"
  "plain_segment i \<Longrightarrow> event_ok (EvRequest ''POST'' (''/tariffs/'' @ i @ ''/unarchive'') None)"
  "plain_segment i \<Longrightarrow> event_ok (EvRequest ''GET'' (''/tariffs/'' @ i @ ''/delete-impact'') None)"
  "fits schema_depth (TsRef ''WorkerBody'') v \<Longrightarrow> event_ok (EvRequest ''POST'' ''/workers'' (Some v))"
  by ((rule declared_at, rule path_tables(8), unfold paths_from_skills_base_skill_id_def, rule member_intros, simp add: path_eval,
      rule member_intros, rule operation_tables(16,14,17,18), unfold operations_from_patch_base_skill_def operations_from_smtp_test_connection_def operations_from_delete_tariff_def operations_from_tariff_delete_impact_def, rule member_intros,
      simp add: path_eval, simp add: body_fits_def)+)

lemma declared_from_instance_transcribe_models [contract_rules]:
  "plain_segment i \<Longrightarrow> fits schema_depth (TsRef ''WorkerBody'') v \<Longrightarrow> event_ok (EvRequest ''PATCH'' (''/workers/'' @ i) (Some v))"
  "plain_segment i \<Longrightarrow> fits schema_depth (nullable (TsRef ''WorkerDeleteBody'')) v \<Longrightarrow> event_ok (EvRequest ''DELETE'' (''/workers/'' @ i) (Some v))"
  "plain_segment i \<Longrightarrow> event_ok (EvRequest ''DELETE'' (''/workers/'' @ i) None)"
  "fits schema_depth (TsRef ''WorkerProbeBody'') v \<Longrightarrow> event_ok (EvRequest ''POST'' ''/workers/probe'' (Some v))"
  "plain_segment i \<Longrightarrow> event_ok (EvRequest ''GET'' (''/workers/'' @ i @ ''/delete-impact'') None)"
  "plain_segment i \<Longrightarrow> fits schema_depth (TsRef ''WorkerBody'') v \<Longrightarrow> event_ok (EvRequest ''POST'' (''/workers/'' @ i @ ''/change-impact'') (Some v))"
  "event_ok (EvRequest ''GET'' ''/instance/crypto/deks'' None)"
  "event_ok (EvRequest ''POST'' ''/instance/crypto/deks'' None)"
  "event_ok (EvRequest ''POST'' ''/instance/crypto/reencrypt'' None)"
  by ((rule declared_at, rule path_tables(9), unfold paths_from_instance_transcribe_models_def, rule member_intros, simp add: path_eval,
      rule member_intros, rule operation_tables(19,20), unfold operations_from_probe_worker_def operations_from_worker_change_impact_def, rule member_intros,
      simp add: path_eval, simp add: body_fits_def)+)

lemma declared_from_instance_crypto_reencrypt_latest [contract_rules]:
  "event_ok (EvRequest ''GET'' ''/org'' None)"
  "event_ok (EvRequest ''GET'' ''/org/stats'' None)"
  "fits schema_depth (TsRef ''OrgPatch'') v \<Longrightarrow> event_ok (EvRequest ''PATCH'' ''/org'' (Some v))"
  "fits schema_depth (TsRef ''OrgTariffBody'') v \<Longrightarrow> event_ok (EvRequest ''PATCH'' ''/org/tariff'' (Some v))"
  "event_ok (EvRequest ''GET'' ''/org/available-tariffs'' None)"
  "event_ok (EvRequest ''GET'' ''/org/capture/jitsi'' None)"
  "fits schema_depth (TsRef ''OrgCaptureJitsiReplaceBody'') v \<Longrightarrow> event_ok (EvRequest ''PUT'' ''/org/capture/jitsi'' (Some v))"
  "event_ok (EvRequest ''GET'' ''/instance/crypto/reencrypt/latest'' None)"
  "plain_segment i \<Longrightarrow> event_ok (EvRequest ''POST'' (''/instance/crypto/reencrypt/'' @ i @ ''/cancel'') None)"
  by ((rule declared_at, rule path_tables(10), unfold paths_from_instance_crypto_reencrypt_latest_def, rule member_intros, simp add: path_eval,
      rule member_intros, rule operation_tables(21,22,20), unfold operations_from_cancel_reencrypt_def operations_from_patch_org_tariff_def operations_from_worker_change_impact_def, rule member_intros,
      simp add: path_eval, simp add: body_fits_def)+)

lemma declared_from_org_settings [contract_rules]:
  "fits schema_depth (TsRef ''OrgSettingsPatch'') v \<Longrightarrow> event_ok (EvRequest ''PATCH'' ''/org/settings'' (Some v))"
  "event_ok (EvRequest ''GET'' ''/org/sso'' None)"
  "fits schema_depth (TsRef ''OrgSsoPatch'') v \<Longrightarrow> event_ok (EvRequest ''PATCH'' ''/org/sso'' (Some v))"
  "event_ok (EvRequest ''GET'' ''/org/users'' None)"
  "fits schema_depth (TsRef ''CreateUserBody'') v \<Longrightarrow> event_ok (EvRequest ''POST'' ''/org/users'' (Some v))"
  "plain_segment i \<Longrightarrow> fits schema_depth (TsRef ''RoleBody'') v \<Longrightarrow> event_ok (EvRequest ''PATCH'' (''/org/users/'' @ i) (Some v))"
  "plain_segment i \<Longrightarrow> event_ok (EvRequest ''POST'' (''/org/users/'' @ i @ ''/enable'') None)"
  "plain_segment i \<Longrightarrow> event_ok (EvRequest ''POST'' (''/org/users/'' @ i @ ''/disable'') None)"
  "event_ok (EvRequest ''GET'' ''/org/public-links'' None)"
  "plain_segment i \<Longrightarrow> event_ok (EvRequest ''DELETE'' (''/org/public-links/'' @ i) None)"
  by ((rule declared_at, rule path_tables(11), unfold paths_from_org_settings_def, rule member_intros, simp add: path_eval,
      rule member_intros, rule operation_tables(22,23,24), unfold operations_from_patch_org_tariff_def operations_from_revoke_org_public_link_def operations_from_patch_user_role_def, rule member_intros,
      simp add: path_eval, simp add: body_fits_def)+)

lemma declared_from_org_users_user_id_reset_password [contract_rules]:
  "plain_segment i \<Longrightarrow> event_ok (EvRequest ''GET'' (''/audios/'' @ i) None)"
  "plain_segment i \<Longrightarrow> event_ok (EvRequest ''DELETE'' (''/audios/'' @ i) None)"
  "plain_segment i \<Longrightarrow> event_ok (EvRequest ''POST'' (''/audios/'' @ i @ ''/hide'') None)"
  "plain_segment i \<Longrightarrow> event_ok (EvRequest ''POST'' (''/audios/'' @ i @ ''/unhide'') None)"
  "plain_segment i \<Longrightarrow> event_ok (EvRequest ''POST'' (''/org/users/'' @ i @ ''/reset-password'') None)"
  "plain_segment i \<Longrightarrow> event_ok (EvRequest ''POST'' (''/org/users/'' @ i @ ''/reset-mfa'') None)"
  "plain_segment i \<Longrightarrow> fits schema_depth (TsRef ''OffboardBody'') v \<Longrightarrow> event_ok (EvRequest ''POST'' (''/org/users/'' @ i @ ''/offboard'') (Some v))"
  by ((rule declared_at, rule path_tables(12), unfold paths_from_org_users_user_id_reset_password_def, rule member_intros, simp add: path_eval,
      rule member_intros, rule operation_tables(25,26,24,27), unfold operations_from_get_audio_def operations_from_unhide_audio_def operations_from_patch_user_role_def operations_from_reset_user_mfa_def, rule member_intros,
      simp add: path_eval, simp add: body_fits_def)+)

lemma declared_from_audios_audio_id_delete_impact [contract_rules]:
  "plain_segment i \<Longrightarrow> event_ok (EvRequest ''GET'' (''/audios/'' @ i @ ''/delete-impact'') None)"
  "plain_segment i \<Longrightarrow> event_ok (EvRequest ''GET'' (''/summaries/'' @ i) None)"
  "plain_segment i \<Longrightarrow> fits schema_depth (TsRef ''SummaryPatch'') v \<Longrightarrow> event_ok (EvRequest ''PATCH'' (''/summaries/'' @ i) (Some v))"
  "plain_segment i \<Longrightarrow> event_ok (EvRequest ''DELETE'' (''/summaries/'' @ i) None)"
  "fits schema_depth (TsRef ''ShareBody'') v \<Longrightarrow> event_ok (EvRequest ''POST'' ''/shares'' (Some v))"
  "plain_segment i \<Longrightarrow> event_ok (EvRequest ''DELETE'' (''/shares/'' @ i) None)"
  "event_ok (EvRequest ''GET'' ''/import/platforms'' None)"
  "event_ok (EvRequest ''GET'' ''/capture/platforms'' None)"
  by ((rule declared_at, rule path_tables(13), unfold paths_from_audios_audio_id_delete_impact_def, rule member_intros, simp add: path_eval,
      rule member_intros, rule operation_tables(26,28,29), unfold operations_from_unhide_audio_def operations_from_create_shares_def operations_from_delete_summary_def, rule member_intros,
      simp add: path_eval, simp add: body_fits_def)+)

lemma declared_from_summaries_summary_id_hide [contract_rules]:
  "plain_segment i \<Longrightarrow> event_ok (EvRequest ''GET'' (''/transcripts/'' @ i) None)"
  "plain_segment i \<Longrightarrow> fits schema_depth (TsRef ''TitlePatch'') v \<Longrightarrow> event_ok (EvRequest ''PATCH'' (''/transcripts/'' @ i) (Some v))"
  "plain_segment i \<Longrightarrow> event_ok (EvRequest ''DELETE'' (''/transcripts/'' @ i) None)"
  "plain_segment i \<Longrightarrow> event_ok (EvRequest ''POST'' (''/transcripts/'' @ i @ ''/hide'') None)"
  "plain_segment i \<Longrightarrow> event_ok (EvRequest ''POST'' (''/summaries/'' @ i @ ''/hide'') None)"
  "plain_segment i \<Longrightarrow> event_ok (EvRequest ''POST'' (''/summaries/'' @ i @ ''/unhide'') None)"
  "plain_segment i \<Longrightarrow> event_ok (EvRequest ''GET'' (''/summaries/'' @ i @ ''/delete-impact'') None)"
  "plain_segment i \<Longrightarrow> event_ok (EvRequest ''GET'' (''/summaries/'' @ i @ ''/public-link'') None)"
  "plain_segment i \<Longrightarrow> fits schema_depth (TsRef ''SummaryPublicLinkBody'') v \<Longrightarrow> event_ok (EvRequest ''POST'' (''/summaries/'' @ i @ ''/public-link'') (Some v))"
  "plain_segment i \<Longrightarrow> event_ok (EvRequest ''DELETE'' (''/summaries/'' @ i @ ''/public-link'') None)"
  by ((rule declared_at, rule path_tables(14), unfold paths_from_summaries_summary_id_hide_def, rule member_intros, simp add: path_eval,
      rule member_intros, rule operation_tables(30,31,29,32), unfold operations_from_delete_summary_public_link_def operations_from_patch_transcript_def operations_from_delete_summary_def operations_from_unhide_summary_def, rule member_intros,
      simp add: path_eval, simp add: body_fits_def)+)

lemma declared_from_transcripts_transcript_id_unhide [contract_rules]:
  "plain_segment i \<Longrightarrow> event_ok (EvRequest ''POST'' (''/transcripts/'' @ i @ ''/unhide'') None)"
  "plain_segment i \<Longrightarrow> event_ok (EvRequest ''GET'' (''/transcripts/'' @ i @ ''/delete-impact'') None)"
  "event_ok (EvRequest ''GET'' ''/tags'' None)"
  "plain_segment i \<Longrightarrow> fits schema_depth (TsRef ''TagRenameBody'') v \<Longrightarrow> event_ok (EvRequest ''PATCH'' (''/tags/'' @ i) (Some v))"
  "plain_segment i \<Longrightarrow> event_ok (EvRequest ''DELETE'' (''/tags/'' @ i) None)"
  "fits schema_depth (TsRef ''ObjectTagsBody'') v \<Longrightarrow> event_ok (EvRequest ''PUT'' ''/object-tags'' (Some v))"
  "fits schema_depth (TsRef ''TranscribeBody'') v \<Longrightarrow> event_ok (EvRequest ''POST'' ''/tasks/transcribe'' (Some v))"
  "fits schema_depth (TsRef ''ImportBody'') v \<Longrightarrow> event_ok (EvRequest ''POST'' ''/tasks/import'' (Some v))"
  "fits schema_depth (TsRef ''CaptureBody'') v \<Longrightarrow> event_ok (EvRequest ''POST'' ''/tasks/capture'' (Some v))"
  by ((rule declared_at, rule path_tables(15), unfold paths_from_transcripts_transcript_id_unhide_def, rule member_intros, simp add: path_eval,
      rule member_intros, rule operation_tables(31,33,34), unfold operations_from_patch_transcript_def operations_from_transcript_delete_impact_def operations_from_create_transcribe_def, rule member_intros,
      simp add: path_eval, simp add: body_fits_def)+)

lemma declared_from_tasks_summarize [contract_rules]:
  "fits schema_depth (TsRef ''SummarizeBody'') v \<Longrightarrow> event_ok (EvRequest ''POST'' ''/tasks/summarize'' (Some v))"
  "plain_segment i \<Longrightarrow> event_ok (EvRequest ''GET'' (''/tasks/'' @ i) None)"
  "plain_segment i \<Longrightarrow> event_ok (EvRequest ''DELETE'' (''/tasks/'' @ i) None)"
  "plain_segment i \<Longrightarrow> event_ok (EvRequest ''POST'' (''/tasks/'' @ i @ ''/stop'') None)"
  "plain_segment i \<Longrightarrow> event_ok (EvRequest ''POST'' (''/tasks/'' @ i @ ''/retry'') None)"
  "event_ok (EvRequest ''POST'' ''/tasks/purge'' None)"
  "event_ok (EvRequest ''GET'' ''/skills'' None)"
  "fits schema_depth (TsRef ''SkillBody'') v \<Longrightarrow> event_ok (EvRequest ''POST'' ''/skills/self'' (Some v))"
  by ((rule declared_at, rule path_tables(16), unfold paths_from_tasks_summarize_def, rule member_intros, simp add: path_eval,
      rule member_intros, rule operation_tables(34,35,36), unfold operations_from_create_transcribe_def operations_from_purge_task_history_def operations_from_stop_capture_task_def, rule member_intros,
      simp add: path_eval, simp add: body_fits_def)+)

lemma declared_from_skills_self_skill_id [contract_rules]:
  "plain_segment i \<Longrightarrow> event_ok (EvRequest ''GET'' (''/public/summary/'' @ i) None)"
  "event_ok (EvRequest ''GET'' ''/public/legal-documents'' None)"
  "plain_segment i \<Longrightarrow> event_ok (EvRequest ''GET'' (''/public/legal-documents/'' @ i) None)"
  "plain_segment i \<Longrightarrow> fits schema_depth (TsRef ''SkillBody'') v \<Longrightarrow> event_ok (EvRequest ''PATCH'' (''/skills/self/'' @ i) (Some v))"
  "plain_segment i \<Longrightarrow> event_ok (EvRequest ''DELETE'' (''/skills/self/'' @ i) None)"
  "fits schema_depth (TsRef ''SkillBody'') v \<Longrightarrow> event_ok (EvRequest ''POST'' ''/org/skills'' (Some v))"
  "plain_segment i \<Longrightarrow> fits schema_depth (TsRef ''SkillBody'') v \<Longrightarrow> event_ok (EvRequest ''PATCH'' (''/org/skills/'' @ i) (Some v))"
  "plain_segment i \<Longrightarrow> event_ok (EvRequest ''DELETE'' (''/org/skills/'' @ i) None)"
  "plain_segment i \<Longrightarrow> event_ok (EvRequest ''POST'' (''/skills/'' @ i @ ''/copy'') None)"
  by ((rule declared_at, rule path_tables(17), unfold paths_from_skills_self_skill_id_def, rule member_intros, simp add: path_eval,
      rule member_intros, rule operation_tables(37,38,39), unfold operations_from_get_public_summary_def operations_from_patch_org_skill_def operations_from_delete_self_def, rule member_intros,
      simp add: path_eval, simp add: body_fits_def)+)

lemma declared_from_public_summary_token_unlock [contract_rules]:
  "plain_segment i \<Longrightarrow> fits schema_depth (TsRef ''PublicUnlockBody'') v \<Longrightarrow> event_ok (EvRequest ''POST'' (''/public/summary/'' @ i @ ''/unlock'') (Some v))"
  by ((rule declared_at, rule path_tables(18), unfold paths_from_public_summary_token_unlock_def, rule member_intros, simp add: path_eval,
      rule member_intros, rule operation_tables(37), unfold operations_from_get_public_summary_def, rule member_intros,
      simp add: path_eval, simp add: body_fits_def)+)

section \<open>Endpoints with a query\<close>

text \<open>What \<open>URLSearchParams\<close> writes reads back, so that the names of the parameters decide.\<close>

lemma query_keys:
  assumes "fst ` set ps \<subseteq> ks" "query_of p = params_to_string ps" "ks \<subseteq> fst ` set qs"
    "list_all (\<lambda>(k, pr, _). pr = Req \<longrightarrow> k \<in> fst ` set ps) qs"
  shows "query_fits qs p"
proof -
  have "fst ` set ps \<subseteq> fst ` set qs" using assms(1,3) by (rule subset_trans)
  then show ?thesis using assms(2,4) by (auto simp: query_fits_def params_parse_to_string list_all_iff subset_iff image_iff)
qed

lemmas query_tables = api_operation.simps list.set image_insert image_empty prod.sel subset_refl list.pred_inject
  case_prod_conv presence.distinct simp_thms

lemma params_set_keys [simp]: "fst ` set (params_set k v ps) = insert k (fst ` set ps)"
proof (induction ps)
  case (Cons p ps)
  then show ?case by (cases p) (auto simp: image_iff)
qed simp

lemma params_set_nonempty [simp]: "params_set k v ps \<noteq> []"
  using params_set_keys [of k v ps] by (metis image_is_empty insert_not_empty set_empty)

lemma queries_from_tasks_summarize [contract_rules]:
  "fst ` set ps \<subseteq> {''org_id'', ''user_id'', ''status'', ''done_limit'', ''done_offset''} \<Longrightarrow> 
     event_ok (EvRequest ''GET'' (''/tasks?'' @ params_to_string ps) None)"
  "fst ` set ps \<subseteq> {''org_id'', ''user_id'', ''status''} \<Longrightarrow> 
     event_ok (EvRequest ''POST'' (''/tasks/purge?'' @ params_to_string ps) None)"
  by ((rule declared_at, rule path_tables(16), unfold paths_from_tasks_summarize_def, rule member_intros, simp add: path_eval,
      rule member_intros, rule operation_tables(35), unfold operations_from_purge_task_history_def, rule member_intros, rule query_keys, assumption,
      simp add: query_of_def plain_paths, simp only: query_tables, (simp only: query_tables)+, simp add: body_fits_def)+)

lemma queries_from_org_users_user_id_reset_password [contract_rules]:
  "fst ` set ps \<subseteq> {''include_hidden'', ''tag'', ''owner_user_id'', ''q'', ''limit'', ''offset''} \<Longrightarrow> 
     event_ok (EvRequest ''GET'' (''/audios?'' @ params_to_string ps) None)"
  by ((rule declared_at, rule path_tables(12), unfold paths_from_org_users_user_id_reset_password_def, rule member_intros, simp add: path_eval,
      rule member_intros, rule operation_tables(27), unfold operations_from_reset_user_mfa_def, rule member_intros, rule query_keys, assumption,
      simp add: query_of_def plain_paths, simp only: query_tables, (simp only: query_tables)+, simp add: body_fits_def)+)

lemma queries_from_summaries_summary_id_hide [contract_rules]:
  "fst ` set ps \<subseteq> {''include_hidden'', ''tag'', ''owner_user_id'', ''q'', ''group_by'', ''limit'', ''offset''} \<Longrightarrow> 
     event_ok (EvRequest ''GET'' (''/transcripts?'' @ params_to_string ps) None)"
  by ((rule declared_at, rule path_tables(14), unfold paths_from_summaries_summary_id_hide_def, rule member_intros, simp add: path_eval,
      rule member_intros, rule operation_tables(30), unfold operations_from_delete_summary_public_link_def, rule member_intros, rule query_keys, assumption,
      simp add: query_of_def plain_paths, simp only: query_tables, (simp only: query_tables)+, simp add: body_fits_def)+)

lemma queries_from_audios_audio_id_delete_impact [contract_rules]:
  "fst ` set ps \<subseteq> {''include_hidden'', ''tag'', ''owner_user_id'', ''q'', ''group_by'', ''limit'', ''offset''} \<Longrightarrow> 
     event_ok (EvRequest ''GET'' (''/summaries?'' @ params_to_string ps) None)"
  "''object_type'' \<in> fst ` set ps \<Longrightarrow> ''object_id'' \<in> fst ` set ps \<Longrightarrow> fst ` set ps \<subseteq> {''object_type'', ''object_id''} \<Longrightarrow> 
     event_ok (EvRequest ''GET'' (''/shares?'' @ params_to_string ps) None)"
  by ((rule declared_at, rule path_tables(13), unfold paths_from_audios_audio_id_delete_impact_def, rule member_intros, simp add: path_eval,
      rule member_intros, rule operation_tables(28,26), unfold operations_from_create_shares_def operations_from_unhide_audio_def, rule member_intros, rule query_keys, assumption,
      simp add: query_of_def plain_paths, simp only: query_tables, (simp only: query_tables)+, simp add: body_fits_def)+)

lemma queries_from_skills_base_skill_id [contract_rules]:
  "fst ` set ps \<subseteq> {''probe'', ''refresh''} \<Longrightarrow> 
     event_ok (EvRequest ''GET'' (''/workers?'' @ params_to_string ps) None)"
  by ((rule declared_at, rule path_tables(8), unfold paths_from_skills_base_skill_id_def, rule member_intros, simp add: path_eval,
      rule member_intros, rule operation_tables(18), unfold operations_from_tariff_delete_impact_def, rule member_intros, rule query_keys, assumption,
      simp add: query_of_def plain_paths, simp only: query_tables, (simp only: query_tables)+, simp add: body_fits_def)+)

lemma queries_from_auth_tokens [contract_rules]:
  "fst ` set ps \<subseteq> {''from'', ''to'', ''org_id'', ''user_id'', ''action'', ''limit'', ''offset''} \<Longrightarrow> 
     event_ok (EvRequest ''GET'' (''/instance/audit?'' @ params_to_string ps) None)"
  "fst ` set ps \<subseteq> {''from'', ''to'', ''org_id'', ''user_id'', ''kind''} \<Longrightarrow> 
     event_ok (EvRequest ''GET'' (''/instance/stats?'' @ params_to_string ps) None)"
  "fst ` set ps \<subseteq> {''include_hidden''} \<Longrightarrow> 
     event_ok (EvRequest ''GET'' (''/orgs?'' @ params_to_string ps) None)"
  by ((rule declared_at, rule path_tables(5), unfold paths_from_auth_tokens_def, rule member_intros, simp add: path_eval,
      rule member_intros, rule operation_tables(9,10,11), unfold operations_from_create_token_def operations_from_stats_def operations_from_list_orgs_def, rule member_intros, rule query_keys, assumption,
      simp add: query_of_def plain_paths, simp only: query_tables, (simp only: query_tables)+, simp add: body_fits_def)+)

lemma queries_from_instance_crypto_reencrypt_latest [contract_rules]:
  "fst ` set ps \<subseteq> {''from'', ''to'', ''user_id'', ''kind''} \<Longrightarrow> 
     event_ok (EvRequest ''GET'' (''/org/stats?'' @ params_to_string ps) None)"
  by ((rule declared_at, rule path_tables(10), unfold paths_from_instance_crypto_reencrypt_latest_def, rule member_intros, simp add: path_eval,
      rule member_intros, rule operation_tables(21), unfold operations_from_cancel_reencrypt_def, rule member_intros, rule query_keys, assumption,
      simp add: query_of_def plain_paths, simp only: query_tables, (simp only: query_tables)+, simp add: body_fits_def)+)

lemma queries_from_orgs_org_id_delete [contract_rules]:
  "plain_segment i \<Longrightarrow> fst ` set ps \<subseteq> {''from'', ''to'', ''user_id'', ''kind''} \<Longrightarrow> 
     event_ok (EvRequest ''GET'' (''/orgs/'' @ i @ ''/ledger?'' @ params_to_string ps) None)"
  by ((rule declared_at, rule path_tables(6), unfold paths_from_orgs_org_id_delete_def, rule member_intros, simp add: path_eval,
      rule member_intros, rule operation_tables(13), unfold operations_from_unhide_org_def, rule member_intros, rule query_keys, assumption,
      simp add: query_of_def plain_paths, simp only: query_tables, (simp only: query_tables)+, simp add: body_fits_def)+)

lemma queries_from_auth_password_reset_request [contract_rules]:
  "fst ` set ps \<subseteq> {''fresh''} \<Longrightarrow> 
     event_ok (EvRequest ''GET'' (''/me/telegram?'' @ params_to_string ps) None)"
  by ((rule declared_at, rule path_tables(4), unfold paths_from_auth_password_reset_request_def, rule member_intros, simp add: path_eval,
      rule member_intros, rule operation_tables(7), unfold operations_from_signup_tariffs_def, rule member_intros, rule query_keys, assumption,
      simp add: query_of_def plain_paths, simp only: query_tables, (simp only: query_tables)+, simp add: body_fits_def)+)

section \<open>The bodies of the client\<close>

lemma fits_texts [simp]: "list_all (fits k TsString) (map JStr xs)"
  by (simp add: list_all_iff)

text \<open>A value has a named type if it has the type behind the name.\<close>

lemma schema_tables:
  "x \<in> set schemas_from_AccountDeleteBody \<Longrightarrow> x \<in> set api_schemas"
  "x \<in> set schemas_from_BackupRestoreReportResponse \<Longrightarrow> x \<in> set api_schemas"
  "x \<in> set schemas_from_DekListResponse \<Longrightarrow> x \<in> set api_schemas"
  "x \<in> set schemas_from_InstanceSummarizeModelsResponse \<Longrightarrow> x \<in> set api_schemas"
  "x \<in> set schemas_from_MePatchBody \<Longrightarrow> x \<in> set api_schemas"
  "x \<in> set schemas_from_MfaStatusResponse \<Longrightarrow> x \<in> set api_schemas"
  "x \<in> set schemas_from_OrgCaptureJitsiReplaceBody \<Longrightarrow> x \<in> set api_schemas"
  "x \<in> set schemas_from_OrgPublicResponse \<Longrightarrow> x \<in> set api_schemas"
  "x \<in> set schemas_from_PublicLegalDocumentDetailResponse \<Longrightarrow> x \<in> set api_schemas"
  "x \<in> set schemas_from_SettingsPatch \<Longrightarrow> x \<in> set api_schemas"
  "x \<in> set schemas_from_SetupBody \<Longrightarrow> x \<in> set api_schemas"
  "x \<in> set schemas_from_SmtpTestSendResponse \<Longrightarrow> x \<in> set api_schemas"
  "x \<in> set schemas_from_SummaryPublicLinkBody \<Longrightarrow> x \<in> set api_schemas"
  "x \<in> set schemas_from_TariffPublic \<Longrightarrow> x \<in> set api_schemas"
  "x \<in> set schemas_from_UsageStatsResponse \<Longrightarrow> x \<in> set api_schemas"
  "x \<in> set schemas_from_WorkerCapacitySummary \<Longrightarrow> x \<in> set api_schemas"
  "x \<in> set schemas_from_WorkerListResponse \<Longrightarrow> x \<in> set api_schemas"
  by (simp_all add: api_schemas_def)

lemma types_from_AccountDeleteBody [simp]:
  "0 < k \<Longrightarrow>
     fits (k - 1) (TsObject [(''password'', Opt, nullable TsString), (''totp_code'', Opt, nullable TsString),
     (''successor_user_id'', Opt, nullable TsString)]) v \<Longrightarrow>
   fits k (TsRef ''AccountDeleteBody'') v"
  "0 < k \<Longrightarrow>
     fits (k - 1) (TsObject [(''text'', Def, TsString)]) v \<Longrightarrow>
   fits k (TsRef ''AgreementPreviewBody'') v"
  by ((rule fits_ref, rule schema_tables(1), unfold schemas_from_AccountDeleteBody_def,
      (rule list.set_intros(1) | rule list.set_intros(2))+, assumption, assumption)+)

lemma types_from_BackupRestoreReportResponse [simp]:
  "0 < k \<Longrightarrow>
     fits (k - 1) (TsObject [(''name'', Req, TsString), (''body'', Req, TsString)]) v \<Longrightarrow>
   fits k (TsRef ''BaseSkillBody'') v"
  "0 < k \<Longrightarrow>
     fits (k - 1) (TsObject [(''meeting_url'', Req, TsString), (''pin'', Def, TsString), (''transcribe'', Def, TsBoolean),
     (''skill_ids'', Opt, TsArray TsString), (''bot_display_name'', Opt, nullable TsString), (''tone'', Def, TsBoolean),
     (''user_tags'', Opt, TsArray TsString)]) v \<Longrightarrow>
   fits k (TsRef ''CaptureBody'') v"
  "0 < k \<Longrightarrow>
     fits (k - 1) (TsObject [(''name'', Req, TsString), (''tariff_id'', Req, TsString), (''admin_email'', Req, TsString),
     (''admin_password'', Req, TsString), (''locale'', Def, TsString), (''is_personal'', Def, TsBoolean)]) v \<Longrightarrow>
   fits k (TsRef ''CreateOrgBody'') v"
  "0 < k \<Longrightarrow>
     fits (k - 1) (TsObject [(''email'', Req, TsString), (''password'', Req, TsString), (''role'', Def, TsString),
     (''locale'', Def, TsString)]) v \<Longrightarrow>
   fits k (TsRef ''CreateUserBody'') v"
  by ((rule fits_ref, rule schema_tables(2), unfold schemas_from_BackupRestoreReportResponse_def,
      (rule list.set_intros(1) | rule list.set_intros(2))+, assumption, assumption)+)

lemma types_from_DekListResponse [simp]:
  "0 < k \<Longrightarrow>
     fits (k - 1) (TsObject [(''user_id'', Req, TsString)]) v \<Longrightarrow>
   fits k (TsRef ''ImpersonateBody'') v"
  "0 < k \<Longrightarrow>
     fits (k - 1) (TsObject [(''url'', Req, TsString), (''transcribe'', Def, TsBoolean), (''skill_ids'', Opt, TsArray TsString),
     (''bot_display_name'', Opt, nullable TsString), (''tone'', Def, TsBoolean), (''user_tags'', Opt, TsArray TsString)]) v \<Longrightarrow>
   fits k (TsRef ''ImportBody'') v"
  by ((rule fits_ref, rule schema_tables(3), unfold schemas_from_DekListResponse_def,
      (rule list.set_intros(1) | rule list.set_intros(2))+, assumption, assumption)+)

lemma types_from_InstanceSummarizeModelsResponse [simp]:
  "0 < k \<Longrightarrow>
     fits (k - 1) (TsObject [(''email'', Req, TsString), (''password'', Req, TsString)]) v \<Longrightarrow>
   fits k (TsRef ''LoginBody'') v"
  by ((rule fits_ref, rule schema_tables(4), unfold schemas_from_InstanceSummarizeModelsResponse_def,
      (rule list.set_intros(1) | rule list.set_intros(2))+, assumption, assumption)+)

lemma types_from_MePatchBody [simp]:
  "0 < k \<Longrightarrow>
     fits (k - 1) (TsObject [(''first_name'', Opt, nullable TsString), (''last_name'', Opt, nullable TsString),
     (''locale'', Opt, nullable TsString), (''default_route'', Opt, nullable TsString),
     (''date_time_format'', Opt, nullable TsString), (''timezone'', Opt, nullable TsString), (''asr_model'', Opt, nullable TsString),
     (''diarization_model'', Opt, nullable TsString), (''summarize_model'', Opt, nullable TsString),
     (''capture_bot_display_name'', Opt, nullable TsString), (''tone_analytics_enabled'', Opt, nullable TsBoolean),
     (''shell_show_mic'', Opt, nullable TsBoolean), (''shell_show_telegram_link'', Opt, nullable TsBoolean)]) v \<Longrightarrow>
   fits k (TsRef ''MePatchBody'') v"
  "0 < k \<Longrightarrow>
     fits (k - 1) (TsObject [(''code'', Req, TsString)]) v \<Longrightarrow>
   fits k (TsRef ''MfaConfirmBody'') v"
  "0 < k \<Longrightarrow>
     fits (k - 1) (TsObject [(''password'', Req, TsString), (''code'', Req, TsString)]) v \<Longrightarrow>
   fits k (TsRef ''MfaDisableBody'') v"
  "0 < k \<Longrightarrow>
     fits (k - 1) (TsObject [(''challenge_id'', Req, TsString), (''recovery_code'', Req, TsString)]) v \<Longrightarrow>
   fits k (TsRef ''MfaRecoverBody'') v"
  by ((rule fits_ref, rule schema_tables(5), unfold schemas_from_MePatchBody_def,
      (rule list.set_intros(1) | rule list.set_intros(2))+, assumption, assumption)+)

lemma types_from_MfaStatusResponse [simp]:
  "0 < k \<Longrightarrow>
     fits (k - 1) (TsObject [(''challenge_id'', Req, TsString), (''code'', Req, TsString)]) v \<Longrightarrow>
   fits k (TsRef ''MfaVerifyBody'') v"
  "0 < k \<Longrightarrow>
     fits (k - 1) (TsObject [(''object_type'', Req, TsString), (''object_id'', Req, TsString), (''tags'', Opt, TsArray TsString)]) v \<Longrightarrow>
   fits k (TsRef ''ObjectTagsBody'') v"
  "0 < k \<Longrightarrow>
     fits (k - 1) (TsObject [(''action'', Req, TsString), (''target_user_id'', Opt, nullable TsString)]) v \<Longrightarrow>
   fits k (TsRef ''OffboardBody'') v"
  "0 < k \<Longrightarrow>
     fits (k - 1) (TsObject [(''id'', Opt, nullable TsString), (''host'', Req, TsString), (''jwt_secret'', Opt, nullable TsString),
     (''jwt_app_id'', Opt, nullable TsString), (''clear_jwt_secret'', Def, TsBoolean)]) v \<Longrightarrow>
   fits k (TsRef ''OrgCaptureJitsiHostBody'') v"
  by ((rule fits_ref, rule schema_tables(6), unfold schemas_from_MfaStatusResponse_def,
      (rule list.set_intros(1) | rule list.set_intros(2))+, assumption, assumption)+)

lemma types_from_OrgCaptureJitsiReplaceBody [simp]:
  "0 < k \<Longrightarrow>
     fits (k - 1) (TsObject [(''items'', Opt, TsArray (TsRef ''OrgCaptureJitsiHostBody'')),
     (''bot_display_name'', Opt, nullable TsString)]) v \<Longrightarrow>
   fits k (TsRef ''OrgCaptureJitsiReplaceBody'') v"
  "0 < k \<Longrightarrow>
     fits (k - 1) (TsObject [(''confirm_name'', Req, TsString)]) v \<Longrightarrow>
   fits k (TsRef ''OrgDeleteBody'') v"
  "0 < k \<Longrightarrow>
     fits (k - 1) (TsObject [(''name'', Opt, nullable TsString)]) v \<Longrightarrow>
   fits k (TsRef ''OrgPatch'') v"
  by ((rule fits_ref, rule schema_tables(7), unfold schemas_from_OrgCaptureJitsiReplaceBody_def,
      (rule list.set_intros(1) | rule list.set_intros(2))+, assumption, assumption)+)

lemma types_from_OrgPublicResponse [simp]:
  "0 < k \<Longrightarrow>
     fits (k - 1) (TsObject [(''password_ttl_days'', Opt, nullable TsNumber), (''mfa_required'', Opt, nullable TsBoolean),
     (''allow_public_links'', Opt, nullable TsBoolean)]) v \<Longrightarrow>
   fits k (TsRef ''OrgSettingsPatch'') v"
  "0 < k \<Longrightarrow>
     fits (k - 1) (TsObject [(''issuer'', Opt, nullable TsString), (''client_id'', Opt, nullable TsString),
     (''client_secret'', Opt, nullable TsString), (''clear_client_secret'', Def, TsBoolean),
     (''enabled'', Opt, nullable TsBoolean)]) v \<Longrightarrow>
   fits k (TsRef ''OrgSsoPatch'') v"
  "0 < k \<Longrightarrow>
     fits (k - 1) (TsObject [(''tariff_id'', Req, TsString)]) v \<Longrightarrow>
   fits k (TsRef ''OrgTariffBody'') v"
  "0 < k \<Longrightarrow>
     fits (k - 1) (TsObject [(''role'', Req, TsString)]) v \<Longrightarrow>
   fits k (TsRef ''OrgUserRoleBody'') v"
  "0 < k \<Longrightarrow>
     fits (k - 1) (TsObject [(''current_password'', Opt, nullable TsString), (''new_password'', Req, TsString)]) v \<Longrightarrow>
   fits k (TsRef ''PasswordChangeBody'') v"
  by ((rule fits_ref, rule schema_tables(8), unfold schemas_from_OrgPublicResponse_def,
      (rule list.set_intros(1) | rule list.set_intros(2))+, assumption, assumption)+)

lemma types_from_PublicLegalDocumentDetailResponse [simp]:
  "0 < k \<Longrightarrow>
     fits (k - 1) (TsObject [(''pin'', Req, TsString)]) v \<Longrightarrow>
   fits k (TsRef ''PublicUnlockBody'') v"
  "0 < k \<Longrightarrow>
     fits (k - 1) (TsObject [(''token'', Req, TsString), (''new_password'', Req, TsString)]) v \<Longrightarrow>
   fits k (TsRef ''ResetConfirmBody'') v"
  "0 < k \<Longrightarrow>
     fits (k - 1) (TsObject [(''email'', Req, TsString)]) v \<Longrightarrow>
   fits k (TsRef ''ResetRequestBody'') v"
  "0 < k \<Longrightarrow>
     fits (k - 1) (TsObject [(''role'', Req, TsString)]) v \<Longrightarrow>
   fits k (TsRef ''RoleBody'') v"
  by ((rule fits_ref, rule schema_tables(9), unfold schemas_from_PublicLegalDocumentDetailResponse_def,
      (rule list.set_intros(1) | rule list.set_intros(2))+, assumption, assumption)+)

lemma types_from_SettingsPatch [simp]:
  "0 < k \<Longrightarrow>
     fits (k - 1) (TsObject [(''allow_new_orgs'', Opt, nullable TsBoolean), (''public_base_url'', Opt, nullable TsString),
     (''smtp_host'', Opt, nullable TsString), (''smtp_port'', Opt, nullable TsNumber), (''smtp_user'', Opt, nullable TsString),
     (''smtp_password'', Opt, nullable TsString), (''smtp_from'', Opt, nullable TsString), (''smtp_tls'', Opt, nullable TsBoolean),
     (''asr_model'', Opt, nullable TsString), (''diarization_model'', Opt, nullable TsString),
     (''summarize_model'', Opt, nullable TsString), (''rate_limit_enabled'', Opt, nullable TsBoolean),
     (''rate_limit_login_email'', Opt, nullable TsNumber), (''rate_limit_login_ip'', Opt, nullable TsNumber),
     (''rate_limit_login_global'', Opt, nullable TsNumber), (''rate_limit_signup_email'', Opt, nullable TsNumber),
     (''rate_limit_signup_ip'', Opt, nullable TsNumber), (''rate_limit_signup_global'', Opt, nullable TsNumber),
     (''rate_limit_reset_email'', Opt, nullable TsNumber), (''rate_limit_reset_ip'', Opt, nullable TsNumber),
     (''rate_limit_reset_global'', Opt, nullable TsNumber), (''rate_limit_reset_confirm_ip'', Opt, nullable TsNumber),
     (''rate_limit_reset_confirm_global'', Opt, nullable TsNumber), (''rate_limit_setup_ip'', Opt, nullable TsNumber),
     (''rate_limit_setup_global'', Opt, nullable TsNumber), (''rate_limit_api_user'', Opt, nullable TsNumber),
     (''rate_limit_api_ip'', Opt, nullable TsNumber), (''rate_limit_api_global'', Opt, nullable TsNumber),
     (''rate_limit_api_tasks_user'', Opt, nullable TsNumber), (''rate_limit_api_tasks_ip'', Opt, nullable TsNumber),
     (''rate_limit_mcp_poll_user'', Opt, nullable TsNumber), (''rate_limit_oauth_register_ip'', Opt, nullable TsNumber),
     (''rate_limit_oauth_register_global'', Opt, nullable TsNumber), (''rate_limit_oauth_token_ip'', Opt, nullable TsNumber),
     (''rate_limit_oauth_token_global'', Opt, nullable TsNumber), (''rate_limit_public_link_ip'', Opt, nullable TsNumber),
     (''rate_limit_public_link_global'', Opt, nullable TsNumber), (''rate_limit_public_pin_ip'', Opt, nullable TsNumber),
     (''import_enabled'', Opt, nullable TsBoolean), (''import_allowed_extractors'', Opt, nullable (TsArray TsString)),
     (''capture_enabled'', Opt, nullable TsBoolean), (''capture_allowed_connectors'', Opt, nullable (TsArray TsString)),
     (''outbound_proxy_enabled'', Opt, nullable TsBoolean), (''download_proxy_url'', Opt, nullable TsString),
     (''download_proxy_password'', Opt, nullable TsString), (''download_proxy_enabled'', Opt, nullable TsBoolean),
     (''telegram_enabled'', Opt, nullable TsBoolean), (''telegram_bot_token'', Opt, nullable TsString),
     (''telegram_use_proxy'', Opt, nullable TsBoolean), (''telegram_use_webhook'', Opt, nullable TsBoolean),
     (''download_cookies_path'', Opt, nullable TsString), (''import_audio_bitrate_kbps'', Opt, nullable TsNumber),
     (''import_max_concurrent'', Opt, nullable TsNumber), (''session_ttl_hours'', Opt, nullable TsNumber),
     (''task_history_retention_days'', Opt, nullable TsNumber), (''date_time_format'', Opt, nullable TsString),
     (''timezone'', Opt, nullable TsString), (''user_agreement_text_en'', Opt, nullable TsString),
     (''user_agreement_text_ru'', Opt, nullable TsString), (''user_agreement_text_es'', Opt, nullable TsString),
     (''personal_data_consent_text_en'', Opt, nullable TsString), (''personal_data_consent_text_ru'', Opt, nullable TsString),
     (''personal_data_consent_text_es'', Opt, nullable TsString), (''privacy_policy_text_en'', Opt, nullable TsString),
     (''privacy_policy_text_ru'', Opt, nullable TsString), (''privacy_policy_text_es'', Opt, nullable TsString),
     (''user_agreement_published'', Opt, nullable TsBoolean), (''personal_data_consent_published'', Opt, nullable TsBoolean),
     (''privacy_policy_published'', Opt, nullable TsBoolean), (''landing_footer_text_en'', Opt, nullable TsString),
     (''landing_footer_text_ru'', Opt, nullable TsString), (''landing_footer_text_es'', Opt, nullable TsString),
     (''landing_footer_published'', Opt, nullable TsBoolean)]) v \<Longrightarrow>
   fits k (TsRef ''SettingsPatch'') v"
  by ((rule fits_ref, rule schema_tables(10), unfold schemas_from_SettingsPatch_def,
      (rule list.set_intros(1) | rule list.set_intros(2))+, assumption, assumption)+)

lemma types_from_SetupBody [simp]:
  "0 < k \<Longrightarrow>
     fits (k - 1) (TsObject [(''email'', Req, TsString), (''password'', Req, TsString), (''bootstrap_token'', Req, TsString),
     (''locale'', Def, TsString)]) v \<Longrightarrow>
   fits k (TsRef ''SetupBody'') v"
  "0 < k \<Longrightarrow>
     fits (k - 1) (TsObject [(''object_type'', Req, TsString), (''object_id'', Req, TsString),
     (''to_user_ids'', Req, TsArray TsString)]) v \<Longrightarrow>
   fits k (TsRef ''ShareBody'') v"
  "0 < k \<Longrightarrow>
     fits (k - 1) (TsObject [(''email'', Req, TsString), (''password'', Req, TsString), (''tariff_id'', Req, TsString),
     (''locale'', Def, TsString), (''accept_legal_documents'', Def, TsBoolean)]) v \<Longrightarrow>
   fits k (TsRef ''SignupBody'') v"
  "0 < k \<Longrightarrow>
     fits (k - 1) (TsObject [(''name'', Req, TsString), (''body'', Req, TsString)]) v \<Longrightarrow>
   fits k (TsRef ''SkillBody'') v"
  "0 < k \<Longrightarrow>
     fits (k - 1) (TsObject [(''smtp_host'', Opt, nullable TsString), (''smtp_port'', Opt, nullable TsNumber),
     (''smtp_user'', Opt, nullable TsString), (''smtp_password'', Opt, nullable TsString), (''smtp_from'', Opt, nullable TsString),
     (''smtp_tls'', Opt, nullable TsBoolean)]) v \<Longrightarrow>
   fits k (TsRef ''SmtpTestBody'') v"
  "0 < k \<Longrightarrow>
     fits (k - 1) (TsObject [(''smtp_host'', Opt, nullable TsString), (''smtp_port'', Opt, nullable TsNumber),
     (''smtp_user'', Opt, nullable TsString), (''smtp_password'', Opt, nullable TsString), (''smtp_from'', Opt, nullable TsString),
     (''smtp_tls'', Opt, nullable TsBoolean), (''to'', Opt, nullable TsString)]) v \<Longrightarrow>
   fits k (TsRef ''SmtpTestSendBody'') v"
  by ((rule fits_ref, rule schema_tables(11), unfold schemas_from_SetupBody_def,
      (rule list.set_intros(1) | rule list.set_intros(2))+, assumption, assumption)+)

lemma types_from_SmtpTestSendResponse [simp]:
  "0 < k \<Longrightarrow>
     fits (k - 1) (TsObject [(''transcript_id'', Req, TsString), (''skill_ids'', Req, TsArray TsString)]) v \<Longrightarrow>
   fits k (TsRef ''SummarizeBody'') v"
  "0 < k \<Longrightarrow>
     fits (k - 1) (TsObject [(''body'', Opt, nullable TsString), (''title'', Opt, nullable TsString)]) v \<Longrightarrow>
   fits k (TsRef ''SummaryPatch'') v"
  by ((rule fits_ref, rule schema_tables(12), unfold schemas_from_SmtpTestSendResponse_def,
      (rule list.set_intros(1) | rule list.set_intros(2))+, assumption, assumption)+)

lemma types_from_SummaryPublicLinkBody [simp]:
  "0 < k \<Longrightarrow>
     fits (k - 1) (TsObject [(''expires_in_days'', Def, nullable TsNumber), (''pin'', Opt, nullable TsString)]) v \<Longrightarrow>
   fits k (TsRef ''SummaryPublicLinkBody'') v"
  "0 < k \<Longrightarrow>
     fits (k - 1) (TsObject [(''name'', Req, TsString)]) v \<Longrightarrow>
   fits k (TsRef ''TagRenameBody'') v"
  "0 < k \<Longrightarrow>
     fits (k - 1) (TsObject [(''name'', Req, TsString), (''unlimited'', Def, TsBoolean), (''available_on_signup'', Def, TsBoolean),
     (''price_per_audio_sec'', Def, TsString), (''price_per_1k_summary_chars'', Def, TsString),
     (''audio_retention_days'', Def, TsNumber), (''api_enabled'', Def, TsBoolean), (''signup_credit'', Def, TsString),
     (''max_upload_bytes'', Def, TsNumber), (''tone_analytics_enabled'', Def, TsBoolean)]) v \<Longrightarrow>
   fits k (TsRef ''TariffBody'') v"
  "0 < k \<Longrightarrow>
     fits (k - 1) (TsObject [(''name'', Req, TsString)]) v \<Longrightarrow>
   fits k (TsRef ''TariffCloneBody'') v"
  "0 < k \<Longrightarrow>
     fits (k - 1) (TsObject [(''remediation'', Opt, nullable (TsRef ''TariffRemediation''))]) v \<Longrightarrow>
   fits k (TsRef ''TariffDeleteBody'') v"
  by ((rule fits_ref, rule schema_tables(13), unfold schemas_from_SummaryPublicLinkBody_def,
      (rule list.set_intros(1) | rule list.set_intros(2))+, assumption, assumption)+)

lemma types_from_TariffPublic [simp]:
  "0 < k \<Longrightarrow>
     fits (k - 1) (TsObject [(''tariff_id'', Req, TsString)]) v \<Longrightarrow>
   fits k (TsRef ''TariffRemediation'') v"
  "0 < k \<Longrightarrow>
     fits (k - 1) (TsObject [(''telegram_bot_token'', Opt, nullable TsString), (''telegram_use_proxy'', Opt, nullable TsBoolean)]) v \<Longrightarrow>
   fits k (TsRef ''TelegramTestBody'') v"
  "0 < k \<Longrightarrow>
     fits (k - 1) (TsObject [(''title'', Req, TsString)]) v \<Longrightarrow>
   fits k (TsRef ''TitlePatch'') v"
  "0 < k \<Longrightarrow>
     fits (k - 1) (TsObject [(''name'', Req, TsString), (''totp_code'', Opt, nullable TsString)]) v \<Longrightarrow>
   fits k (TsRef ''TokenCreateBody'') v"
  "0 < k \<Longrightarrow>
     fits (k - 1) (TsObject [(''audio_id'', Req, TsString), (''skill_ids'', Opt, TsArray TsString), (''tone'', Def, TsBoolean)]) v \<Longrightarrow>
   fits k (TsRef ''TranscribeBody'') v"
  by ((rule fits_ref, rule schema_tables(14), unfold schemas_from_TariffPublic_def,
      (rule list.set_intros(1) | rule list.set_intros(2))+, assumption, assumption)+)

lemma types_from_UsageStatsResponse [simp]:
  "0 < k \<Longrightarrow>
     fits (k - 1) (TsObject [(''delta'', Req, TsString)]) v \<Longrightarrow>
   fits k (TsRef ''WalletBody'') v"
  "0 < k \<Longrightarrow>
     fits (k - 1) (TsObject [(''type'', Req, TsString), (''name'', Def, TsString), (''base_url'', Req, TsString),
     (''api_token'', Opt, nullable TsString), (''weight'', Def, TsNumber), (''enabled'', Def, TsBoolean),
     (''asr_models'', Opt, nullable (TsArray TsString)), (''diarization_models'', Opt, nullable (TsArray TsString)),
     (''capture_connectors'', Opt, nullable (TsArray TsString)), (''remediation'', Opt, nullable (TsRef ''WorkerRemediation''))]) v \<Longrightarrow>
   fits k (TsRef ''WorkerBody'') v"
  by ((rule fits_ref, rule schema_tables(15), unfold schemas_from_UsageStatsResponse_def,
      (rule list.set_intros(1) | rule list.set_intros(2))+, assumption, assumption)+)

lemma types_from_WorkerCapacitySummary [simp]:
  "0 < k \<Longrightarrow>
     fits (k - 1) (TsObject [(''remediation'', Opt, nullable (TsRef ''WorkerRemediation''))]) v \<Longrightarrow>
   fits k (TsRef ''WorkerDeleteBody'') v"
  by ((rule fits_ref, rule schema_tables(16), unfold schemas_from_WorkerCapacitySummary_def,
      (rule list.set_intros(1) | rule list.set_intros(2))+, assumption, assumption)+)

lemma types_from_WorkerListResponse [simp]:
  "0 < k \<Longrightarrow>
     fits (k - 1) (TsObject [(''type'', Req, TsString), (''base_url'', Req, TsString), (''api_token'', Opt, nullable TsString),
     (''worker_id'', Opt, nullable TsString)]) v \<Longrightarrow>
   fits k (TsRef ''WorkerProbeBody'') v"
  "0 < k \<Longrightarrow>
     fits (k - 1) (TsObject [(''asr_model'', Opt, nullable TsString), (''diarization_model'', Opt, nullable TsString),
     (''summarize_model'', Opt, nullable TsString), (''capture_worker_id'', Opt, nullable TsString)]) v \<Longrightarrow>
   fits k (TsRef ''WorkerRemediation'') v"
  by ((rule fits_ref, rule schema_tables(17), unfold schemas_from_WorkerListResponse_def,
      (rule list.set_intros(1) | rule list.set_intros(2))+, assumption, assumption)+)

section \<open>Handlers that follow the contract\<close>

text \<open>The log holds declared requests only. A handler follows the contract if it keeps that true.\<close>

definition log_ok :: "'z browser_scheme \<Rightarrow> bool" where
  "log_ok s \<longleftrightarrow> list_all event_ok (events s)"

lemma log_emit [simp]: "log_ok (emit e s) \<longleftrightarrow> log_ok s \<and> event_ok e"
  by (auto simp: log_ok_def)

lemma event_ok_silent [simp]:
  "event_ok (EvToast e t)" "event_ok (EvNavigate p r n)" "event_ok (EvLocation p)" "event_ok (EvDownload p f)"
  by (simp_all add: event_ok_def)

named_theorems log_intros \<open>handlers keep the log declared\<close>

lemma log_storage [simp]:
  "log_ok (local_set k v s) = log_ok s" "log_ok (local_remove k s) = log_ok s"
  "log_ok (session_set k v s) = log_ok s" "log_ok (session_remove k s) = log_ok s"
  by (simp_all add: log_ok_def)

lemma log_api_call [log_intros]: "event_ok (EvRequest m p b) \<Longrightarrow> keeps log_ok (api_call srv m p b)"
  by (simp add: keeps_def run_simps)

lemma log_send_json [log_intros]: "event_ok (EvRequest m p b) \<Longrightarrow> keeps log_ok (send_json r m p b)"
  by (simp add: keeps_def run_simps)

lemma log_get_json [log_intros]: "event_ok (EvRequest ''GET'' p None) \<Longrightarrow> keeps log_ok (get_json r p)"
  by (simp add: keeps_def run_simps)

lemma log_effects [log_intros]:
  "keeps log_ok (navigate p b n)" "keeps log_ok (show_error e)"
  "keeps log_ok (ret x)" "keeps log_ok (throw e)" "keeps log_ok (await r)" "keeps log_ok (getsA f)"
  by (simp_all add: keeps_def navigate_def show_error_def run_simps)

lemma log_gets_bind [log_intros]: "(\<And>s. P s \<Longrightarrow> keeps P (k (f s))) \<Longrightarrow> keeps P (bindA (getsA f) k)"
  by (simp add: keeps_def run_simps)

lemma log_if [log_intros]: "(b \<Longrightarrow> keeps P m) \<Longrightarrow> (\<not> b \<Longrightarrow> keeps P n) \<Longrightarrow> keeps P (if b then m else n)"
  by simp

lemma log_when [log_intros]: "(b \<Longrightarrow> keeps P m) \<Longrightarrow> keeps P (whenA b m)"
  by (simp add: whenA_def keeps_def ret_def)

lemma log_option [log_intros]:
  "(x = None \<Longrightarrow> keeps P m) \<Longrightarrow> (\<And>y. x = Some y \<Longrightarrow> keeps P (f y)) \<Longrightarrow> keeps P (case x of None \<Rightarrow> m | Some y \<Rightarrow> f y)"
  by (cases x) simp_all

lemma log_pair [log_intros]: "keeps P (f a b) \<Longrightarrow> keeps P (case (a, b) of (x, y) \<Rightarrow> f x y)"
  by simp

lemma log_prod: "(\<And>a b. x = (a, b) \<Longrightarrow> keeps P (f a b)) \<Longrightarrow> keeps P (case x of (a, b) \<Rightarrow> f a b)"
  by (cases x) simp

lemma log_sum [log_intros]:
  "(\<And>e. x = Inl e \<Longrightarrow> keeps P (f e)) \<Longrightarrow> (\<And>y. x = Inr y \<Longrightarrow> keeps P (g y)) \<Longrightarrow>
   keeps P (case x of Inl e \<Rightarrow> f e | Inr y \<Rightarrow> g y)"
  by (cases x) simp_all

lemma log_let [log_intros]: "keeps P (f x) \<Longrightarrow> keeps P (let y = x in f y)"
  by simp

lemma log_busy_submit [log_intros]:
  "(\<And>b s. log_ok (set_b b s) = log_ok s) \<Longrightarrow> keeps log_ok m \<Longrightarrow> keeps log_ok (busy_submit set_b m)"
  unfolding busy_submit_def
  by (intro keeps_thenA keeps_finallyA keeps_tryA keeps_upd) (simp_all add: log_effects)

text \<open>The same for one run of a handler that reads its state first.\<close>

lemma run_intros:
  "keeps log_ok (thenA a b) \<Longrightarrow> log_ok s \<Longrightarrow> log_ok (snd (thenA a b s))"
  "keeps log_ok (bindA m f) \<Longrightarrow> log_ok s \<Longrightarrow> log_ok (snd (bindA m f s))"
  "keeps log_ok (tryA m h) \<Longrightarrow> log_ok s \<Longrightarrow> log_ok (snd (tryA m h s))"
  "keeps log_ok (finallyA m g) \<Longrightarrow> log_ok s \<Longrightarrow> log_ok (snd (finallyA m g s))"
  "log_ok s \<Longrightarrow> log_ok (snd (r, s))"
  "keeps log_ok (busy_submit set_b d) \<Longrightarrow> log_ok s \<Longrightarrow> log_ok (snd (busy_submit set_b d s))"
  "log_ok (snd (k x)) \<Longrightarrow> log_ok (snd (let y = x in k y))"
  "(c \<Longrightarrow> log_ok (snd p)) \<Longrightarrow> (\<not> c \<Longrightarrow> log_ok (snd q)) \<Longrightarrow> log_ok (snd (if c then p else q))"
  by (simp_all add: keeps_def)

text \<open>An id of the page or of the chosen row: if there is one, it is one segment of a path.\<close>

definition plain_id :: "string option \<Rightarrow> bool" where
  "plain_id i \<longleftrightarrow> (truthy i \<longrightarrow> plain_segment (str_or_empty i))"

lemma plain_idD: "truthy i \<Longrightarrow> plain_id i \<Longrightarrow> plain_segment (str_or_empty i)"
  by (simp add: plain_id_def)

text \<open>A page that keeps its ids: the log is declared and \<open>C\<close> holds of the rest of the state.\<close>

definition log_with :: "('z browser_scheme \<Rightarrow> bool) \<Rightarrow> 'z browser_scheme \<Rightarrow> bool" where
  "log_with C s \<longleftrightarrow> log_ok s \<and> C s"

lemma with_effects [log_intros]:
  "(\<And>s. log_with C s \<Longrightarrow> event_ok (EvRequest m p b)) \<Longrightarrow> (\<And>e s. C s \<Longrightarrow> C (emit e s)) \<Longrightarrow> keeps (log_with C) (api_call srv m p b)"
  "(\<And>e s. C s \<Longrightarrow> C (emit e s)) \<Longrightarrow> keeps (log_with C) (show_error x)"
  "(\<And>e s. C s \<Longrightarrow> C (emit e s)) \<Longrightarrow> keeps (log_with C) (navigate q r n)"
  "keeps (log_with C) (ret v)" "keeps (log_with C) (throw x)" "keeps (log_with C) (getsA g)"
  by (auto simp: keeps_def log_with_def navigate_def show_error_def run_simps)

lemmas log_structure = keeps_upd keeps_thenA keeps_tryA keeps_finallyA keeps_bindA log_prod

lemmas handler_rules = run_intros log_structure contract_rules

lemmas log_simps = log_ok_def schema_depth_def contract_rules

end
