(* ===== verification/Requests.thy ===== *)
theory Requests
  imports Contract Task_Poll Lists Tags Ingest Profile Workers Telegram Skills
begin

text \<open>
  The handlers of the client follow the contract of the hub. For each handler of the component theories: if the log holds
  declared requests only, so does the log it leaves, whatever the hub answers. A path holds ids that the hub handed out
  (a segment of a path has no slash in it); where an id comes from the page's state or the row that was clicked, the lemma
  says so. A handler that calls another rests on the lemma of the other.
\<close>

section \<open>Session, sign-in and sign-up\<close>

lemma busy_events [simp]:
  "events (lp_set_busy b s1) = events s1" "events (vp_set_busy b s2) = events s2" "events (pp_set_busy b s3) = events s3"
  "events (ap_set_busy b s4) = events s4" "events (su_set_busy b s5) = events s5" "events (st_set_busy b s6) = events s6"
  "events (fp_set_busy b s7) = events s7" "events (rp_set_busy b s8) = events s8"
  by (simp_all add: set_busy_defs)

lemma session_parts [log_intros]:
  "keeps log_ok (set_me m)" "keeps log_ok (me_from_api n)" "keeps log_ok (change_language l)" "keeps log_ok (sync_locale n)"
  unfolding set_me_def me_from_api_def sync_locale_def change_language_def
  by (intro log_structure log_intros; simp add: log_simps)+

lemma refresh_declared [log_intros]:
  "keeps log_ok (refresh a b)" "keeps log_ok (refresh_org_wallet w)"
  unfolding refresh_def refresh_org_wallet_def
  by (intro log_intros handler_rules; simp add: log_simps)+

lemma session_declared [log_intros]:
  "keeps log_ok (mount_auth a b)" "keeps log_ok (logout r)" "keeps log_ok (refresh_and_continue a b)"
  "keeps log_ok (on_enroll_complete a b)"
  unfolding mount_auth_def logout_def refresh_and_continue_def on_enroll_complete_def
  by (intro log_intros handler_rules; simp add: log_simps)+

lemma stop_impersonate_declared [log_intros]: "keeps log_ok (stop_impersonate r a b)"
  by (rule keepsI, unfold stop_impersonate_def, intro log_intros handler_rules; simp add: log_simps)

lemma preferences_declared [log_intros]:
  "fits schema_depth (TsRef ''MePatchBody'') v \<Longrightarrow> keeps log_ok (patch_me v r)"
  "keeps log_ok (set_locale l r)" "keeps log_ok (set_default_route l r)"
  "keeps log_ok (set_date_time_format f r)" "keeps log_ok (set_timezone f r)"
proof -
  show p: "keeps log_ok (patch_me v r)" if "fits schema_depth (TsRef ''MePatchBody'') v" for v
    using that unfolding patch_me_def by (intro log_intros handler_rules; simp add: log_simps)
  show "keeps log_ok (set_locale l r)" "keeps log_ok (set_default_route l r)"
    "keeps log_ok (set_date_time_format f r)" "keeps log_ok (set_timezone f r)"
    unfolding set_locale_def set_default_route_def set_date_time_format_def set_timezone_def Auth.opt_json_def
    by (intro log_structure log_intros p; simp add: schema_depth_def split: option.split)+
qed

lemma submit_declared [log_intros]:
  "keeps log_ok (on_email_submit w lg a b)" "keeps log_ok (on_verify_submit w c r a b)"
  "keeps log_ok (on_change_password_submit r a b)" "keeps log_ok (on_accept r a b)"
  "keeps log_ok (on_signup_submit r a b)" "keeps log_ok (on_setup_submit r a b)"
  "keeps log_ok (on_forgot_submit r)" "keeps log_ok (on_reset_submit r)"
  unfolding on_email_submit_def on_verify_submit_def on_change_password_submit_def on_accept_def on_signup_submit_def
    on_setup_submit_def on_forgot_submit_def on_reset_submit_def
  by (rule keepsI; (intro log_intros handler_rules;
      simp add: log_simps store_mfa_challenge_id_def clear_mfa_challenge_id_def note_rate_limit_def split: exn.split option.split))+

lemma signup_lists_declared [log_intros]: "keeps log_ok (load_signup_tariffs w ts)" "keeps log_ok (load_signup_legal_docs ds)"
  unfolding load_signup_tariffs_def load_signup_legal_docs_def
  by (intro log_intros handler_rules; simp add: log_simps)+

section \<open>The profile page\<close>

lemma sync_drafts_events [simp]: "events (sync_drafts s) = events s"
  by (simp add: sync_drafts_def sync_prefs_def sync_route_def Let_def split: option.split)

lemma profile_parts [log_intros]:
  "keeps log_ok (refresh_page a b)" "keeps log_ok m \<Longrightarrow> keeps log_ok (patch_page m)" "keeps log_ok (load_tokens ts)"
  unfolding refresh_page_def patch_page_def load_tokens_def
  by (intro log_intros handler_rules; simp add: log_simps)+

lemma save_me_declared [log_intros]:
  "fits schema_depth (TsRef ''MePatchBody'') v \<Longrightarrow> (\<And>s. events (mark s) = events s) \<Longrightarrow> keeps log_ok (save_me v r a b mark)"
  unfolding save_me_def by (intro log_intros handler_rules; simp add: log_simps)

lemma profile_preferences_declared [log_intros]:
  "keeps log_ok (save_default_route p)" "keeps log_ok (save_date_time_prefs p q)" "keeps log_ok (save_transcribe_prefs r a b)"
  "keeps log_ok (save_summarize_prefs r a b)" "keeps log_ok (save_profile_names r a b)" "keeps log_ok (save_capture_bot_prefs r a b)"
  unfolding save_default_route_def save_date_time_prefs_def save_transcribe_prefs_def save_summarize_prefs_def
    save_profile_names_def save_capture_bot_prefs_def
  by (intro log_intros handler_rules; simp add: log_simps clear_marks_def transcribe_body_def trimmed_or_null_def Auth.opt_json_def split: option.split)+

lemma account_declared [log_intros]:
  "keeps log_ok (change_pw r a b)" "keeps log_ok (mount_profile ts)" "keeps log_ok (create_token c k ts)"
  "keeps log_ok (disable_mfa r l)" "keeps log_ok (open_delete_account p)" "keeps log_ok (confirm_delete_account r l)"
  unfolding change_pw_def mount_profile_def create_token_def disable_mfa_def open_delete_account_def confirm_delete_account_def
  by (intro log_intros handler_rules; simp add: log_simps token_body_def delete_body_def split: option.split list.split)+

lemma patch_shell_prefs_declared:
  "f \<in> {''shell_show_mic'', ''shell_show_telegram_link''} \<Longrightarrow> keeps log_ok (patch_shell_prefs f v r a b)"
  unfolding patch_shell_prefs_def by (intro log_intros handler_rules; auto simp: log_simps)

lemma revoke_token_declared: "plain_segment i \<Longrightarrow> keeps log_ok (revoke_token i r ts)"
  unfolding revoke_token_def by (intro log_intros handler_rules; simp add: log_simps)

section \<open>Tasks\<close>

lemma task_page_declared:
  assumes "log_ok s" "plain_segment (tk_id s)"
  shows "log_ok (snd (stop_capture t s))" "log_ok (snd (cancel_task u s))" "log_ok (snd (retry_task t s))"
    "log_ok (snd (refresh_task t s))"
  using assms unfolding stop_capture_def cancel_task_def retry_task_def refresh_task_def task_path_def append_assoc
  by (intro log_intros handler_rules; simp add: log_simps end_pipeline_run_def)+

section \<open>Skills, the bot and the second factor\<close>

lemma skill_forms_declared:
  "keeps log_ok (load_base_skills xs)" "keeps log_ok (save_base_skill r xs)" "keeps log_ok (save_new_skill k)"
proof -
  show l: "keeps log_ok (load_base_skills xs)"
    unfolding load_base_skills_def by (intro log_intros handler_rules; simp add: log_simps)
  show "keeps log_ok (save_base_skill r xs)"
    unfolding save_base_skill_def by (intro log_intros handler_rules l; simp add: log_simps cancel_base_skill_def)
  show "keeps log_ok (save_new_skill k)"
    unfolding save_new_skill_def skill_create_path_def
    by (rule keepsI, intro log_intros handler_rules; simp add: log_simps split: skill_kind.split)
qed

lemma mfa_setup_declared: "keeps log_ok (start_mfa_setup su)" "keeps log_ok (confirm_mfa_setup cs)"
  unfolding start_mfa_setup_def confirm_mfa_setup_def
  by (intro log_intros handler_rules; simp add: log_simps)+

lemma sso_page_declared: "plain_segment i \<Longrightarrow> keeps log_ok (load_sso_info i r)"
  unfolding load_sso_info_def by (intro log_intros handler_rules; simp add: log_simps)

lemma telegram_section_declared:
  "log_ok (create_link_send s) = log_ok s" "log_ok (unlink_send s) = log_ok s"
  by (simp_all add: create_link_send_def unlink_send_def log_simps)

section \<open>Tags\<close>

lemma object_tags_fit: "fits schema_depth (TsRef ''ObjectTagsBody'') (object_tags_body t i ns)"
  by (simp add: schema_depth_def object_tags_body_def str_array_def)

lemma tag_editor_declared [log_intros]:
  "keeps log_ok (save_tags t i a b ns)" "keeps log_ok (editor_add_existing t i a b n)"
  "keeps log_ok (editor_add_tag t i a b)" "keeps log_ok (editor_remove_tag t i a b n)"
proof -
  show save: "keeps log_ok (save_tags t i a b ns)" for ns
    unfolding save_tags_def by (intro log_intros handler_rules object_tags_fit; simp add: log_simps)
  show "keeps log_ok (editor_add_existing t i a b n)" "keeps log_ok (editor_add_tag t i a b)"
    "keeps log_ok (editor_remove_tag t i a b n)"
    unfolding editor_add_existing_def editor_add_tag_def editor_remove_tag_def
    by (intro log_intros handler_rules save; simp add: log_simps)+
qed

lemma tag_load_declared [log_intros]: "keeps log_ok (td_load a)"
  unfolding td_load_def by (intro log_intros handler_rules; simp add: log_simps)

lemma tag_rename_declared: "plain_segment i \<Longrightarrow> keeps log_ok (td_save_rename r a i)"
  unfolding td_save_rename_def by (intro log_intros handler_rules; simp add: log_simps)

lemma tag_delete_declared: "keeps (log_with (\<lambda>s. plain_id (td_delete_id s))) (td_confirm_delete r a)"
  unfolding td_confirm_delete_def td_load_def
  by (intro log_intros handler_rules; auto simp: log_with_def emit_def log_simps plain_id_def)

section \<open>The lists of tasks and texts\<close>

lemma opt_param_keys [simp]: "fst ` set (opt_param k v ps) \<subseteq> K \<longleftrightarrow> (v \<noteq> [] \<longrightarrow> k \<in> K) \<and> fst ` set ps \<subseteq> K"
  by (simp add: opt_param_def)

lemma tl_send_declared [simp]: "log_ok (tl_send r i n s) = log_ok s"
proof -
  have "event_ok (EvRequest ''GET'' (tasks_list_path a b c i n) None)" for a b c
    unfolding tasks_list_path_def by (rule contract_rules) (simp add: tasks_list_params_def)
  then show ?thesis by (simp add: tl_send_def log_ok_def)
qed

lemma tl_fields_log [simp]:
  "log_ok (tl_org_id_update f s) = log_ok s" "log_ok (tl_user_id_update f s) = log_ok s" "log_ok (tl_status_update f s) = log_ok s"
  "log_ok (tl_page_size_update g s) = log_ok s" "log_ok (tl_page_update g s) = log_ok s" "log_ok (tl_timer_update h s) = log_ok s"
  "log_ok (tl_flight_update k s) = log_ok s" "log_ok (tl_effect_update g s) = log_ok s"
  by (simp_all add: log_ok_def)

lemma tl_answer_log:
  assumes "log_ok s"
  shows "log_ok (tl_tick_answer i k q s)" "log_ok (tl_reload_answer i q s)"
  using assms by (cases q; simp add: tl_tick_answer_def tl_reload_answer_def tl_show_def log_ok_def Let_def)+

lemma tl_restart_declared [simp]: "log_ok (tl_restart s) = log_ok s" "log_ok s \<Longrightarrow> log_ok (tl_render r s)"
  by (simp_all add: tl_restart_def tl_render_def tl_tick_def Let_def)

lemma tl_answer_declared:
  assumes "log_ok s"
  shows "log_ok (tl_answer i r q s)"
  using assms by (cases r) (simp_all add: tl_answer_def Let_def tl_answer_log)

text \<open>Every request of the list of tasks, in any order of ticks, reloads, filters and answers.\<close>

theorem task_list_declared:
  assumes "tl_reach rl en s"
  shows "log_ok s"
  using assms
proof induction
  case reach_mount
  show ?case by simp (simp add: tl_initial_def log_ok_def)
next
  case (reach_step s s')
  from reach_step(2,3) show ?case
    by cases (simp_all add: tl_answer_declared tl_set_query_def tl_timer_fires_def tl_tick_def tl_reload_def)
qed

lemma reload_declared [log_intros]: "keeps log_ok (reload_run a b q)"
  by (simp add: keeps_def reload_run_def upd_def Let_def tl_answer_declared tl_reload_def)

lemma purge_reload_declared [log_intros]: "keeps log_ok (purge_reload sz q)"
  by (simp add: keeps_def purge_reload_def upd_def Let_def tl_answer_declared tl_reload_def set_tl_page_def tl_set_query_def)

lemma set_page_log [simp]: "list_all event_ok (events s) \<Longrightarrow> list_all event_ok (events (set_tl_page p s))"
  unfolding log_ok_def [symmetric] set_tl_page_def tl_set_query_def by simp

lemma purge_path_declared: "event_ok (EvRequest ''POST'' (purge_path a b c) None)"
proof -
  have "event_ok (EvRequest ''POST'' (''/tasks/purge?'' @ params_to_string (opt_param ''status'' c (opt_param ''user_id'' b
      (opt_param ''org_id'' a [])))) None)"
    by (rule contract_rules) simp
  moreover have "event_ok (EvRequest ''POST'' ''/tasks/purge'' None)"
    by (rule contract_rules)
  ultimately show ?thesis by (simp add: purge_path_def Let_def)
qed

lemma task_rows_declared:
  "plain_segment i \<Longrightarrow> keeps log_ok (tasks_cancel i d q)" "plain_segment i \<Longrightarrow> keeps log_ok (tasks_retry i d q)"
  "keeps log_ok (purge_history d q)" "keeps log_ok (load_filters m xs us)"
  unfolding tasks_cancel_def tasks_retry_def purge_history_def load_filters_def
  by (intro log_intros handler_rules purge_path_declared; simp add: log_simps)+

text \<open>The page of texts groups by source where the hub can: never for recordings.\<close>

theorem library_page_declared:
  "event_ok (EvRequest ''GET'' (library_list_path (lv_tab v) (page_library_query m v)) None)"
proof -
  let ?q = "page_library_query m v" and ?ps = "library_list_params (page_library_query m v)"
  have keys: "fst ` set (library_list_params q) \<subseteq>
      {''include_hidden'', ''tag'', ''owner_user_id'', ''q'', ''limit'', ''offset''} \<union> (if lq_group_by_source q then {''group_by''} else {})" for q
    by (auto simp: library_list_params_def Let_def split: option.splits if_splits)
  have some: "?ps \<noteq> []"
    by (simp add: library_list_params_def page_library_query_def Let_def)
  show ?thesis
  proof (cases "lv_tab v = ''audio''")
    case True
    then have "fst ` set ?ps \<subseteq> {''include_hidden'', ''tag'', ''owner_user_id'', ''q'', ''limit'', ''offset''}"
      using keys [of ?q] by (simp add: page_library_query_def library_server_source_grouping_def)
    then have "event_ok (EvRequest ''GET'' (''/audios?'' @ params_to_string ?ps) None)" by (rule contract_rules)
    then show ?thesis using True some by (simp add: library_list_path_def Let_def)
  next
    case False
    have "fst ` set ?ps \<subseteq> {''include_hidden'', ''tag'', ''owner_user_id'', ''q'', ''group_by'', ''limit'', ''offset''}"
      by (rule subset_trans [OF keys]) simp
    then have "event_ok (EvRequest ''GET'' (''/transcripts?'' @ params_to_string ?ps) None)"
      "event_ok (EvRequest ''GET'' (''/summaries?'' @ params_to_string ?ps) None)"
      by (rule contract_rules)+
    then show ?thesis using False some by (simp add: library_list_path_def Let_def)
  qed
qed

section \<open>Links, files and recordings\<close>

lemma task_bodies_fit:
  "fits schema_depth (TsRef ''TranscribeBody'') (transcribe_request i p m s)"
  "fits schema_depth (TsRef ''CaptureBody'') (capture_request u c p m ts s)"
  "fits schema_depth (TsRef ''ImportBody'') (import_request u p m ts s)"
  by (simp_all add: schema_depth_def transcribe_request_def capture_request_def import_request_def skill_fields_def tag_fields_def
      pipeline_fields_def str_array_def)

lemma form_fitsI:
  assumes "(n, TsObject fs) \<in> set api_schemas" "part_name ` set parts \<subseteq> fst ` set fs"
    "list_all (\<lambda>(f, pr, _). pr = Req \<longrightarrow> f \<in> part_name ` set parts) fs"
  shows "form_fits (Some (pr, ''multipart/form-data'', TsRef n)) parts"
proof -
  have "list_all (\<lambda>p. part_name p \<in> fst ` set fs) parts" using assms(2) by (auto simp: list_all_iff)
  then show ?thesis using assms(1,3) unfolding form_fits_def list_ex_iff by (auto simp: list_all_iff intro!: bexI [OF _ assms(1)])
qed

lemma uploads_declared [contract_rules]:
  "''file'' \<in> part_name ` set ps \<Longrightarrow> part_name ` set ps \<subseteq> {''file'', ''from_microphone'', ''user_tags''} \<Longrightarrow>
     event_ok (EvUpload ''/audios'' ps)"
  "event_ok (EvUpload ''/me/backup/restore'' [FormFile ''file'' n])"
proof -
  show "event_ok (EvUpload ''/audios'' ps)"
    if "''file'' \<in> part_name ` set ps" "part_name ` set ps \<subseteq> {''file'', ''from_microphone'', ''user_tags''}"
    by (rule upload_at, rule path_tables(12), unfold paths_from_org_users_user_id_reset_password_def, rule member_intros,
        simp add: path_eval, rule member_intros, rule operation_tables(27), unfold operations_from_reset_user_mfa_def,
        rule member_intros, simp only: api_operation.simps, rule form_fitsI, rule schema_tables(2),
        unfold schemas_from_BackupRestoreReportResponse_def, rule member_intros)
      (use that in simp_all)
  show "event_ok (EvUpload ''/me/backup/restore'' [FormFile ''file'' n])"
    by (rule upload_at, rule path_tables(2), unfold paths_from_me_backup_def, rule member_intros,
        simp add: path_eval, rule member_intros, rule operation_tables(3), unfold operations_from_download_backup_def,
        rule member_intros, simp only: api_operation.simps, rule form_fitsI, rule schema_tables(2),
        unfold schemas_from_BackupRestoreReportResponse_def, rule member_intros)
      (simp_all add: part_name_def)
qed

lemma ingest_parts [log_intros]:
  "keeps log_ok begin_run" "keeps log_ok (open_task p t)"
  "event_ok (EvUpload x ps) \<Longrightarrow> (\<And>q s. log_ok (cb q s) = log_ok s) \<Longrightarrow> keeps log_ok (upload_call u x ps cb prog)"
  "keeps log_ok (start_transcription srv m p i)"
proof -
  show "keeps log_ok begin_run" by (simp add: keeps_def begin_run_run)
  show "keeps log_ok (open_task p t)" unfolding open_task_def by (intro log_intros handler_rules)
  show "keeps log_ok (start_transcription srv m p i)"
    unfolding start_transcription_def by (intro log_intros handler_rules task_bodies_fit)
  show "keeps log_ok (upload_call u x ps cb prog)" if "event_ok (EvUpload x ps)" "\<And>q s. log_ok (cb q s) = log_ok s"
  proof -
    have "log_ok (fold cb prog s) = log_ok s" for s using that(2) by (induction prog arbitrary: s) simp_all
    then show ?thesis using that(1) by (simp add: keeps_def upload_call_def)
  qed
qed

lemma links_declared [log_intros]:
  "keeps log_ok (submit_capture_url srv m u c)" "keeps log_ok (import_from_url parse srv m)"
  "keeps log_ok (try_ingest_from_url parse srv m)"
proof -
  show c: "keeps log_ok (submit_capture_url srv m u c)" for u c
    unfolding submit_capture_url_def
    by (intro log_intros handler_rules task_bodies_fit; simp add: log_ok_def reset_extra_tags_def set_extra_tags_def)
  show i: "keeps log_ok (import_from_url parse srv m)"
    unfolding import_from_url_def
    by (intro log_intros handler_rules task_bodies_fit c; simp add: log_ok_def reset_extra_tags_def set_extra_tags_def)
  show "keeps log_ok (try_ingest_from_url parse srv m)"
    unfolding try_ingest_from_url_def by (intro log_intros handler_rules i)
qed

lemma tag_parts [simp]:
  "part_name ` set (append_user_tags b ts) \<subseteq> K \<longleftrightarrow> part_name ` set b \<subseteq> K \<and> (ts \<noteq> [] \<longrightarrow> ''user_tags'' \<in> K)"
  "''file'' \<in> part_name ` set b \<Longrightarrow> ''file'' \<in> part_name ` set (append_user_tags b ts)"
  by (cases ts) (auto simp: append_user_tags_def part_name_def)

lemma part_names [simp]: "part_name (FormField n v) = n" "part_name (FormFile n v) = n"
  by (simp_all add: part_name_def)

lemma files_declared [log_intros]:
  "keeps log_ok (upload_file u prog srv m n)"
  "(\<And>q s. log_ok (cb q s) = log_ok s) \<Longrightarrow> (\<And>s. log_ok (clear s) = log_ok s) \<Longrightarrow>
     keeps log_ok (upload_microphone_recording u prog srv m n ts cb clear)"
  unfolding upload_file_def upload_microphone_recording_def Let_def
  by (intro log_intros handler_rules contract_rules; simp add: log_ok_def end_pipeline_run_def reset_extra_tags_def set_extra_tags_def)+

lemma recordings_declared [log_intros]:
  "keeps log_ok (panel_save_recording u prog srv m n)" "keeps log_ok (shell_save_recording u prog srv m n)"
proof -
  show "keeps log_ok (panel_save_recording u prog srv m n)"
    unfolding panel_save_recording_def voidA_def
    by (intro log_intros handler_rules; simp add: log_ok_def reset_extra_tags_def set_extra_tags_def save_ingest_extra_tags_def)
  have l: "keeps log_ok (\<lambda>s. case load_ingest_extra_tags SlotMic s of (tags, s') \<Rightarrow> (Inr tags, s'))"
    by (simp add: keeps_def load_ingest_extra_tags_def Let_def)
  show "keeps log_ok (shell_save_recording u prog srv m n)"
    unfolding shell_save_recording_def voidA_def
    by (intro l log_intros handler_rules; simp add: log_ok_def save_ingest_extra_tags_def)
qed

lemma restore_declared: "keeps log_ok (restore_backup n r)"
  unfolding restore_backup_def by (intro log_intros handler_rules; simp add: log_simps uploads_declared)

section \<open>Workers\<close>

lemma list_path_declared: "event_ok (EvRequest ''GET'' (workers_path p q) None)"
proof -
  let ?ps = "(if p then [] else [(''probe'', ''false'')]) @ (if q then [(''refresh'', ''true'')] else [])"
  have "event_ok (EvRequest ''GET'' (''/workers?'' @ params_to_string ?ps) None)" by (rule contract_rules) (cases p; cases q; simp)
  moreover have "event_ok (EvRequest ''GET'' ''/workers'' None)" by (rule contract_rules)
  ultimately show ?thesis by (simp add: workers_path_def Let_def)
qed

lemma workers_declared [log_intros]:
  "keeps log_ok (load_workers p q xs)" "keeps log_ok (mount_workers xs ys)"
  unfolding mount_workers_def load_workers_def
  by (intro log_intros handler_rules list_path_declared; simp add: log_simps)+

text \<open>The weight is what \<open>Number\<close> made of the field; if that is a number, the body of the form is one of the hub.\<close>

lemma remediation_fits:
  "fits 7 (TsRef ''WorkerRemediation'') (remediation_json r)"
  "fits schema_depth (nullable (TsRef ''WorkerDeleteBody'')) (JObj [(''remediation'', remediation_json r)])"
proof -
  show r: "fits 7 (TsRef ''WorkerRemediation'') (remediation_json r)"
    by (cases r) (simp_all add: remediation_json_def split: option.split)
  then show "fits schema_depth (nullable (TsRef ''WorkerDeleteBody'')) (JObj [(''remediation'', remediation_json r)])"
    by (simp add: schema_depth_def)
qed

lemma worker_body_fits:
  assumes "fits 7 TsNumber (wf_weight f)"
  shows "fits schema_depth (TsRef ''WorkerBody'') (JObj (build_worker_body f))"
    "fits schema_depth (TsRef ''WorkerBody'') (JObj (build_worker_body f @ [(''remediation'', remediation_json r)]))"
  using assms remediation_fits(1) [of r] by (simp_all add: schema_depth_def build_worker_body_def strings_json_def)

lemma worker_handlers_declared:
  assumes "fits schema_depth (TsRef ''WorkerBody'') (JObj b)" "plain_id i"
  shows "keeps log_ok (save_worker_direct b i r xs)"
proof (cases "truthy i")
  case True
  then show ?thesis using assms plain_idD [OF True] unfolding save_worker_direct_def
    by (intro log_intros handler_rules; simp add: log_ok_def reset_form_def)
next
  case False
  then show ?thesis using assms unfolding save_worker_direct_def
    by (intro log_intros handler_rules; simp add: log_ok_def reset_form_def)
qed

lemma probe_declared:
  assumes "log_ok s"
  shows "log_ok (probe_send f w c s)"
proof (cases "probe_body f w c")
  case (Some b)
  then have "fits schema_depth (TsRef ''WorkerProbeBody'') (JObj b)"
    by (auto simp: probe_body_def Let_def schema_depth_def split: if_splits)
  then have "event_ok (EvRequest ''POST'' ''/workers/probe'' (Some (JObj b)))" by (rule contract_rules)
  then show ?thesis using assms Some by (simp add: probe_send_def log_ok_def)
qed (use assms in \<open>simp add: probe_send_def\<close>)

text \<open>Saving asks what a change breaks only for a worker that exists; the dialog then sends the same body.\<close>

lemma request_save_declared:
  assumes "log_ok s" "fits 7 TsNumber (wf_weight (wt_form s))"
  shows "log_ok (snd (request_save_worker r xs s))"
proof -
  have "keeps log_ok (tryA (save_worker_direct (build_worker_body (wt_form s)) None r xs) show_error)"
    by (intro log_intros handler_rules worker_handlers_declared worker_body_fits assms) (simp add: plain_id_def)
  then have "log_ok (snd (tryA (save_worker_direct (build_worker_body (wt_form s)) None r xs) show_error s))"
    using assms(1) by (rule keepsD)
  then show ?thesis using assms(1)
    by (simp add: request_save_worker_def bindA_run getsA_run ret_def upd_def log_ok_def split: option.split)
qed

lemma confirm_worker_declared:
  assumes "log_ok s" "\<And>w b. wt_modal s = Some (w, b) \<Longrightarrow> plain_segment (worker_id w)"
    and "\<And>w b. wt_modal s = Some (w, Some b) \<Longrightarrow> \<exists>f. b = build_worker_body f \<and> fits 7 TsNumber (wf_weight f)"
  shows "log_ok (snd (confirm_worker rem r xs s))"
proof (cases "wt_modal s")
  case None
  then show ?thesis using assms(1) by (simp add: confirm_worker_def bindA_run getsA_run ret_def)
next
  case (Some m)
  obtain w b where m: "m = (w, b)" by (cases m)
  then have w: "plain_segment (worker_id w)" using assms(2) Some by simp
  show ?thesis
  proof (cases b)
    case None
    have "event_ok (EvRequest ''DELETE'' (''/workers/'' @ worker_id w) (map_option (\<lambda>x. JObj [(''remediation'', remediation_json x)]) rem))"
      by (cases rem) (simp_all only: option.map, (intro contract_rules w remediation_fits)+)
    then have "log_ok (snd (bindA (api_call (\<lambda>_ _ _. r) ''DELETE'' (''/workers/'' @ worker_id w)
        (map_option (\<lambda>x. JObj [(''remediation'', remediation_json x)]) rem)) (\<lambda>_. load_workers True False xs) s))"
      by (intro log_intros handler_rules assms(1))
    then show ?thesis using Some m None by (simp add: confirm_worker_def bindA_run getsA_run)
  next
    case (Some b')
    obtain f where f: "b' = build_worker_body f" "fits 7 TsNumber (wf_weight f)" using assms(3) \<open>wt_modal s = Some m\<close> m Some by blast
    have "log_ok (snd (save_worker_direct (b' @ (case rem of None \<Rightarrow> [] | Some x \<Rightarrow> [(''remediation'', remediation_json x)]))
        (Some (worker_id w)) r xs s))"
      using worker_body_fits(1,2) [OF f(2)] w
      by (intro keepsD [OF worker_handlers_declared] assms(1)) (simp_all add: f plain_id_def split: option.split)
    then show ?thesis using \<open>wt_modal s = Some m\<close> m Some by (simp add: confirm_worker_def bindA_run getsA_run)
  qed
qed

end
