(* ===== verification/Page_Requests.thy ===== *)
theory Page_Requests
  imports Requests Artifacts Org Instance_Settings Instance_Orgs Legal Stats Encryption
begin

text \<open>
  The handlers of the pages that show one text, of the page of an organisation and of the administration follow the contract of
  the hub. A page keeps the id of its address; a handler that reads it keeps the log declared as long as that id is one segment
  of a path, and leaves the id alone (\<open>log_with\<close>).
\<close>

section \<open>Rules for pages\<close>

lemma event_if:
  "(c \<Longrightarrow> event_ok (EvRequest m (p @ q @ a) v)) \<Longrightarrow> (\<not> c \<Longrightarrow> event_ok (EvRequest m (p @ q @ b) v)) \<Longrightarrow>
   event_ok (EvRequest m (p @ q @ (if c then a else b)) v)"
  "(c \<Longrightarrow> event_ok (EvRequest m x v)) \<Longrightarrow> (\<not> c \<Longrightarrow> event_ok (EvRequest m y v)) \<Longrightarrow> event_ok (EvRequest m (if c then x else y) v)"
  by simp_all

lemma emit_logs:
  "event_ok e \<Longrightarrow> log_ok s \<Longrightarrow> log_ok (emit e s)"
  "event_ok e \<Longrightarrow> log_with C s \<Longrightarrow> C (emit e s) \<Longrightarrow> log_with C (emit e s)"
  "list_all event_ok es \<Longrightarrow> log_ok s \<Longrightarrow> log_ok (emits es s)"
  by (simp_all add: log_with_def emits_def log_ok_def)

lemma run_more:
  "log_ok (snd (k (f s) s)) \<Longrightarrow> log_ok (snd (bindA (getsA f) k s))"
  "(b \<Longrightarrow> keeps log_ok m) \<Longrightarrow> log_ok s \<Longrightarrow> log_ok (snd (whenA b m s))"
  "log_ok (snd (g x y s)) \<Longrightarrow> log_ok (snd ((case (x, y) of (u, v) \<Rightarrow> g u v) s))"
  "(\<And>x y. q = (x, y) \<Longrightarrow> log_ok (snd (g x y s))) \<Longrightarrow> log_ok (snd ((case q of (u, v) \<Rightarrow> g u v) s))"
  "(z = None \<Longrightarrow> log_ok (snd (n s))) \<Longrightarrow> (\<And>w. z = Some w \<Longrightarrow> log_ok (snd (h w s))) \<Longrightarrow>
     log_ok (snd ((case z of None \<Rightarrow> n | Some w \<Rightarrow> h w) s))"
  "log_ok s \<Longrightarrow> log_ok (snd (ret v s))" "log_ok (c s) \<Longrightarrow> log_ok (snd (upd c s))"
  "(d \<Longrightarrow> log_ok (snd (i s))) \<Longrightarrow> (\<not> d \<Longrightarrow> log_ok (snd (j s))) \<Longrightarrow> log_ok (snd ((if d then i else j) s))"
  by (auto simp: keeps_def run_simps split: option.splits prod.splits)

lemmas page_rules = run_more event_if emit_logs log_intros handler_rules

lemma with_fields: "C s \<Longrightarrow> log_with C s \<longleftrightarrow> log_ok s"
  by (simp add: log_with_def)

section \<open>The page of a summary\<close>

definition summary_id_plain :: "'z summary_page_scheme \<Rightarrow> bool" where
  "summary_id_plain s \<longleftrightarrow> plain_id (sp_id s)"

lemmas summary_eval = log_with_def summary_id_plain_def plain_id_def emit_def log_ok_def summary_loaded_def

lemma load_summary_declared: "keeps (log_with summary_id_plain) (load_summary r)"
  unfolding load_summary_def by (intro page_rules; simp add: summary_eval)

lemma summary_page_declared:
  "keeps (log_with summary_id_plain) (mount_summary r)" "keeps (log_with summary_id_plain) (save_summary r)"
  "keeps (log_with summary_id_plain) (toggle_summary_hidden u r)" "keeps (log_with summary_id_plain) (remove_summary u)"
  "keeps (log_with summary_id_plain) (rename_summary n r)"
  unfolding mount_summary_def save_summary_def toggle_summary_hidden_def remove_summary_def rename_summary_def
  by (intro load_summary_declared page_rules; simp add: summary_eval schema_depth_def)+

section \<open>The page of a transcript\<close>

definition transcript_id_plain :: "'z transcript_page_scheme \<Rightarrow> bool" where
  "transcript_id_plain s \<longleftrightarrow> plain_id (tx_id s)"

lemmas transcript_eval = log_with_def transcript_id_plain_def plain_id_def emit_def log_ok_def

lemma pick_saved_frame [simp]: "tx_id (pick_saved_skill s) = tx_id s" "events (pick_saved_skill s) = events s"
  by (simp_all add: pick_saved_skill_def Let_def split: option.split list.split)

lemma load_transcript_declared: "keeps (log_with transcript_id_plain) (load_transcript pick r ks)"
  unfolding load_transcript_def transcript_loaded_def by (intro page_rules; simp add: transcript_eval)

lemma transcript_page_declared:
  "keeps (log_with transcript_id_plain) (mount_transcript pick r ks)"
  "keeps (log_with transcript_id_plain) (toggle_transcript_hidden u pick r ks)"
  "keeps (log_with transcript_id_plain) (delete_transcript u)" "keeps (log_with transcript_id_plain) (rename_transcript n r)"
  unfolding mount_transcript_def toggle_transcript_hidden_def delete_transcript_def rename_transcript_def
  by (intro load_transcript_declared page_rules; simp add: transcript_eval schema_depth_def)+

lemma summarize_declared: "keeps log_ok (summarize_transcript t)"
proof -
  have "keeps log_ok (begin_summarize ids)" for ids
    by (simp add: keeps_def begin_summarize_def begin_summarize_pipeline_run_def Let_def)
  then show ?thesis
    unfolding summarize_transcript_def by (intro page_rules; simp add: log_ok_def schema_depth_def)
qed

section \<open>The page of a recording\<close>

definition audio_id_plain :: "'z audio_page_scheme \<Rightarrow> bool" where
  "audio_id_plain s \<longleftrightarrow> plain_id (ax_id s)"

lemmas audio_eval = log_with_def audio_id_plain_def plain_id_def emit_def log_ok_def

lemma load_audio_declared: "keeps (log_with audio_id_plain) (load_audio r)"
  unfolding load_audio_def by (intro page_rules; simp add: audio_eval)

lemma audio_page_declared:
  "keeps (log_with audio_id_plain) (toggle_audio_hidden u r)"
  unfolding toggle_audio_hidden_def
  by (intro load_audio_declared page_rules; simp add: audio_eval)

lemma transcribe_declared: "keeps log_ok (transcribe_audio t)"
  unfolding transcribe_audio_def by (intro page_rules; simp add: log_ok_def schema_depth_def)

lemma delete_audio_declared:
  assumes "log_ok s" "plain_id (ax_id s)"
  shows "log_ok (snd (delete_audio u a b s))"
  using assms unfolding delete_audio_def by (intro page_rules; simp add: log_ok_def plain_id_def)

section \<open>Sharing\<close>

lemma pct_segment_all: "list_all (\<lambda>n. CHR ''/'' \<notin> set (pct n) \<and> CHR ''?'' \<notin> set (pct n)) [0..<256]"
  by code_simp

lemma uri_component_chars:
  assumes "c \<in> set (uri_component x)"
  shows "c \<noteq> CHR ''/'' \<and> c \<noteq> CHR ''?'' \<and> c \<noteq> CHR ''&'' \<and> c \<noteq> CHR ''=''"
proof -
  have p: "d \<in> set (pct n) \<Longrightarrow> n < 256 \<Longrightarrow> d \<noteq> CHR ''/'' \<and> d \<noteq> CHR ''?'' \<and> d \<noteq> CHR ''&'' \<and> d \<noteq> CHR ''=''" for d n
    using pct_segment_all pct_clean [of n] by (auto simp: list_all_iff)
  have u: "unreserved d \<Longrightarrow> d \<noteq> CHR ''/'' \<and> d \<noteq> CHR ''?''" for d by (auto simp: unreserved_def Let_def)
  show ?thesis using assms p utf8_less u unreserved_clean by (fastforce simp: uri_component_def split: if_splits)
qed

lemma uri_component_empty: "uri_component x = [] \<longleftrightarrow> x = []"
  by (cases x) (auto simp: uri_component_def pct_def utf8_def Let_def)

lemma plain_component: "x \<noteq> [] \<Longrightarrow> plain_segment (uri_component x)"
  using uri_component_chars [of _ x] uri_component_empty [of x] by (auto simp: plain_segment_def)

lemma share_query_names:
  "map fst (params_parse (''object_type='' @ uri_component a @ ''&object_id='' @ uri_component b)) = [''object_type'', ''object_id'']"
proof -
  have n: "CHR ''&'' \<notin> set (''object_type='' @ uri_component a)" "CHR ''&'' \<notin> set (''object_id='' @ uri_component b)"
    using uri_component_chars by auto
  have d: "form_decode ''object_type'' = ''object_type''" "form_decode ''object_id'' = ''object_id''" by code_simp+
  have "split_on (CHR ''&'') ((''object_type='' @ uri_component a) @ CHR ''&'' # (''object_id='' @ uri_component b))
      = [''object_type='' @ uri_component a, ''object_id='' @ uri_component b]"
    unfolding split_on_append [OF n(1)] split_on_clean [OF n(2)] by (rule refl)
  then show ?thesis using d by (simp add: params_parse_def parse_pair_def)
qed

lemma shares_path_declared: "event_ok (EvRequest ''GET'' (shares_path s) None)"
proof -
  have "query_of (shares_path s) = ''object_type='' @ uri_component (sd_type s) @ ''&object_id='' @ uri_component (sd_object s)"
    by (simp add: shares_path_def query_of_def)
  then have k: "map fst (params_parse (query_of (shares_path s))) = [''object_type'', ''object_id'']"
    using share_query_names by simp
  show ?thesis
    by (rule declared_at, rule path_tables(13), unfold paths_from_audios_audio_id_delete_impact_def, rule member_intros,
        simp add: shares_path_def path_eval, rule member_intros, rule operation_tables(26),
        unfold operations_from_unhide_audio_def, rule member_intros, simp add: query_fits_def k, simp add: body_fits_def)
qed

lemma share_dialog_declared [log_intros]:
  "keeps log_ok (load_shares r)" "keeps log_ok (submit_share u r)"
proof -
  show l: "keeps log_ok (load_shares r)"
    unfolding load_shares_def by (intro shares_path_declared page_rules; simp add: log_ok_def)
  show "keeps log_ok (submit_share u r)"
    unfolding submit_share_def share_body_def by (intro l page_rules; simp add: log_ok_def schema_depth_def)
qed

lemma revoke_share_declared: "plain_segment i \<Longrightarrow> keeps log_ok (revoke_share i u)"
  unfolding revoke_share_def by (intro page_rules; simp add: log_ok_def)

definition share_id_plain :: "'z share_dialog_scheme \<Rightarrow> bool" where
  "share_id_plain s \<longleftrightarrow> plain_segment (sd_object s)"

lemma link_path_declared:
  assumes "plain_segment (sd_object s)"
  shows "event_ok (EvRequest ''GET'' (public_link_path s) None)" "event_ok (EvRequest ''DELETE'' (public_link_path s) None)"
    "event_ok (EvRequest ''POST'' (public_link_path s) (Some (public_link_body s)))"
  unfolding public_link_path_def
  by (rule declared_from_summaries_summary_id_hide(8,10) [OF assms])+
    (rule declared_from_summaries_summary_id_hide(9) [OF assms], simp add: schema_depth_def public_link_body_def split: option.split)

lemma public_link_declared:
  "keeps (log_with share_id_plain) (load_public_link r)" "keeps (log_with share_id_plain) (create_public_link l)"
  "keeps (log_with share_id_plain) (revoke_public_link u)"
  unfolding load_public_link_def create_public_link_def revoke_public_link_def
  by (intro link_path_declared page_rules; simp add: log_with_def share_id_plain_def log_ok_def emit_def)+

section \<open>Skills and public texts\<close>

lemma skill_path_declared:
  assumes "plain_segment (sk_id k)"
  shows "event_ok (EvRequest ''DELETE'' (skill_path k) None)"
    and "event_ok (EvRequest ''PATCH'' (skill_path k) (Some (JObj [(''name'', JStr n), (''body'', JStr b)])))"
  unfolding skill_path_def using assms by (intro event_if contract_rules; simp add: schema_depth_def)+

lemma skill_page_declared:
  assumes "log_ok s" "\<And>k. kp_item s = Some k \<Longrightarrow> plain_segment (sk_id k)" "plain_id (Option.bind (kp_item s) sk_share_id)"
  shows "log_ok (snd (save_skill r s))" "log_ok (snd (remove_skill m u s))" "log_ok (snd (copy_skill r s))"
    "log_ok (snd (rename_skill n r s))" "log_ok (snd (decline_share m u s))"
  using assms unfolding save_skill_def remove_skill_def copy_skill_def rename_skill_def decline_share_def
  by (intro skill_path_declared page_rules; simp add: log_ok_def plain_id_def)+

lemma load_skill_declared [log_intros]: "keeps log_ok (load_skill m r)" "keeps log_ok (mount_skill m r)"
proof -
  show l: "keeps log_ok (load_skill m r)"
    unfolding load_skill_def by (intro page_rules; simp add: log_ok_def)
  show "keeps log_ok (mount_skill m r)"
    unfolding mount_skill_def by (intro l page_rules; simp add: log_ok_def)
qed

text \<open>The token of a public link is encoded, so that any token is one segment of the path.\<close>

lemma public_page_declared: "keeps log_ok (load_public r)" "keeps log_ok (unlock_public r)"
proof -
  have "plain_segment (uri_component (str_or_empty v))" if "truthy v" for v
    using that by (intro plain_component) (cases v; simp)
  then show "keeps log_ok (load_public r)" "keeps log_ok (unlock_public r)"
    unfolding load_public_def unlock_public_def public_path_def append_assoc
    by (intro page_rules; simp add: log_ok_def schema_depth_def)+
qed

section \<open>The page of an organisation\<close>

lemma org_gets_declared: "list_all event_ok (org_gets adm)"
  unfolding org_gets_def by (cases adm) (simp_all, (intro conjI contract_rules)+)

lemma org_loaded_events [simp]:
  "events (org_loaded g us ts s) = events s" "events (capture_loaded k s) = events s" "events (sso_loaded c s) = events s"
  "events (capture_saved k s) = events s" "events (reset_capture_draft s) = events s"
  by (simp_all add: org_loaded_def capture_loaded_def sso_loaded_def capture_saved_def reset_capture_draft_def)

lemma load_org_declared [log_intros]: "keeps log_ok (load_org adm a)" "keeps log_ok (mount_org a)"
proof -
  show l: "keeps log_ok (load_org adm a)" for adm
    unfolding load_org_def by (intro org_gets_declared page_rules; simp add: log_ok_def)
  show "keeps log_ok (mount_org a)"
    unfolding mount_org_def by (intro l page_rules; simp add: log_ok_def)
qed

text \<open>The hosts whose meetings are recorded are sent as a whole list, the edited one with its fields.\<close>

lemma host_bodies_fit:
  "fits 7 (TsRef ''OrgCaptureJitsiHostBody'') (capture_host_payload_row h)"
  "list_all (fits 7 (TsRef ''OrgCaptureJitsiHostBody'')) (capture_items host s)"
proof -
  have d: "fits 7 (TsRef ''OrgCaptureJitsiHostBody'') (JObj ((''id'', JStr i) # draft_fields host f))"
    "fits 7 (TsRef ''OrgCaptureJitsiHostBody'') (JObj (draft_fields host f))" for i f
    by (simp_all add: draft_fields_def)
  show r: "fits 7 (TsRef ''OrgCaptureJitsiHostBody'') (capture_host_payload_row h)" for h
    by (simp add: capture_host_payload_row_def Org.opt_json_def split: option.split)
  show "list_all (fits 7 (TsRef ''OrgCaptureJitsiHostBody'')) (capture_items host s)"
    using d r by (auto simp: capture_items_def Let_def list_all_iff)
qed

lemma hosts_declared:
  assumes "list_all (fits 7 (TsRef ''OrgCaptureJitsiHostBody'')) hs"
  shows "keeps log_ok (put_capture_host_items hs r)"
  using assms unfolding put_capture_host_items_def by (intro page_rules; simp add: log_ok_def schema_depth_def)

lemma capture_declared:
  "keeps log_ok (save_capture_bot_display_name r)" "keeps log_ok (submit_capture_draft parse r)" "keeps log_ok (remove_capture_host h r)"
proof -
  have rows: "list_all (fits 7 (TsRef ''OrgCaptureJitsiHostBody'')) (map capture_host_payload_row hs)" for hs
    using host_bodies_fit(1) by (simp add: list_all_iff)
  show "keeps log_ok (save_capture_bot_display_name r)"
    unfolding save_capture_bot_display_name_def using rows by (intro page_rules; simp add: log_ok_def schema_depth_def)
  show "keeps log_ok (submit_capture_draft parse r)"
    unfolding submit_capture_draft_def Let_def by (intro hosts_declared host_bodies_fit page_rules; simp add: log_ok_def)
  show "keeps log_ok (remove_capture_host h r)"
    unfolding remove_capture_host_def save_capture_hosts_def by (intro hosts_declared rows page_rules; simp add: log_ok_def)
qed

lemma number_fits [simp]:
  "fits k TsNumber (number_json dec v) \<longleftrightarrow> \<not> Option.is_none v" "number_json dec v = JNull \<longleftrightarrow> Option.is_none v"
  by (auto simp: number_json_def split: option.split)

lemmas number_type [simp] = number_fits(1) [unfolded fits.simps(2)]

lemma profile_patches_declared: "list_all event_ok (profile_patches dec s g)"
proof -
  have "event_ok (EvRequest ''PATCH'' ''/org'' (Some (JObj [(''name'', JStr x)])))" for x
    by (rule contract_rules) (simp add: schema_depth_def)
  moreover have "event_ok (EvRequest ''PATCH'' ''/org/settings'' (Some (JObj (settings_patch dec s g))))"
    by (rule contract_rules) (simp add: schema_depth_def settings_patch_def)
  ultimately show ?thesis by (simp add: profile_patches_def)
qed

lemma save_profile_declared: "keeps log_ok (save_profile dec u v pick a b c)"
  unfolding save_profile_def Let_def by (intro profile_patches_declared page_rules log_intros; simp add: log_ok_def)

lemma sign_on_and_tariff_declared: "keeps log_ok (save_sso u c)" "keeps log_ok (Org.save_tariff u a b c)"
  unfolding save_sso_def Org.save_tariff_def sso_body_def
  by (intro page_rules log_intros; simp add: log_ok_def schema_depth_def)+

lemma people_declared:
  assumes "plain_segment (user_id u)"
  shows "keeps log_ok (add_user rnd v c)" "keeps log_ok (change_role u x v c)" "keeps log_ok (toggle_disabled u v c)"
    "keeps log_ok (reset_pw u p c)" "keeps log_ok (impersonate_user u v a b)"
  unfolding add_user_def change_role_def toggle_disabled_def reset_pw_def impersonate_user_def
  by (intro page_rules log_intros; simp add: log_ok_def schema_depth_def assms)+

lemma people_dialogs_declared:
  assumes "log_ok s"
  shows "(\<And>u. og_mfa_reset_user s = Some u \<Longrightarrow> plain_segment (user_id u)) \<Longrightarrow> log_ok (snd (confirm_reset_mfa v a c s))"
    and "(\<And>u. og_off_user s = Some u \<Longrightarrow> plain_segment (user_id u)) \<Longrightarrow> log_ok (snd (offboard v a s))"
  using assms unfolding confirm_reset_mfa_def offboard_def offboard_body_def
  by (intro page_rules log_intros; simp add: log_ok_def schema_depth_def close_offboard_def)+

section \<open>Tariffs and organisations of the instance\<close>

text \<open>The form of a tariff fits the hub if its retention is a number.\<close>

lemma tariff_body_fits: "tf_retention f \<noteq> None \<Longrightarrow> fits schema_depth (TsRef ''TariffBody'') (tariff_body dec f)"
  by (cases "tf_retention f") (simp_all add: schema_depth_def tariff_body_def tariff_fields_def)

lemma load_tariffs_declared [log_intros]: "keeps log_ok (load_tariffs r)"
  unfolding load_tariffs_def by (intro page_rules log_intros; simp add: log_ok_def)

lemma cancel_edit_events [simp]: "events (cancel_edit_tariff s) = events s"
  by (simp add: cancel_edit_tariff_def)

lemma tariff_form_declared:
  assumes "log_ok s" "tf_retention (tt_form s) \<noteq> None" "plain_id (tt_edit s)"
  shows "log_ok (snd (save_tariff_form dec r ts s))"
  using assms unfolding save_tariff_form_def
  by (intro page_rules log_intros tariff_body_fits; simp add: log_ok_def plain_id_def)

lemma tariff_rows_declared:
  assumes "plain_segment (tariff_id x)"
  shows "keeps log_ok (archive_tariff x r ts)"
    and "log_ok s \<Longrightarrow> (\<And>y. tt_clone s = Some y \<Longrightarrow> plain_segment (tariff_id y)) \<Longrightarrow> log_ok (snd (confirm_clone r ts s))"
  using assms unfolding archive_tariff_def confirm_clone_def
  by (intro page_rules log_intros; simp add: log_ok_def schema_depth_def)+

lemma delete_tariff_declared:
  assumes "log_ok s" "plain_segment (tariff_id (td_tariff s))"
  shows "log_ok (snd (delete_tariff rem r ts s))"
proof -
  have "event_ok (EvRequest ''DELETE'' (''/tariffs/'' @ tariff_id (td_tariff s))
      (map_option (\<lambda>x. JObj [(''remediation'', JObj [(''tariff_id'', JStr x)])]) rem))"
    using assms(2) by (cases rem) (simp_all only: option.map, (intro contract_rules; simp add: schema_depth_def)+)
  then show ?thesis using assms(1) unfolding delete_tariff_def
    by (intro page_rules log_intros; simp add: log_ok_def)
qed

lemma org_requests_declared:
  "event_ok (EvRequest ''GET'' (''/orgs'' @ orgs_query s) None)"
  "event_ok (EvRequest ''GET'' ''/orgs?include_hidden=true'' None)"
  "plain_segment i \<Longrightarrow> event_ok (wallet_request i d)" "plain_segment i \<Longrightarrow> event_ok (tariff_request i d)"
proof -
  have "''/orgs?include_hidden=true'' = ''/orgs?'' @ params_to_string [(''include_hidden'', ''true'')]" by code_simp
  moreover have "event_ok (EvRequest ''GET'' (''/orgs?'' @ params_to_string [(''include_hidden'', ''true'')]) None)"
    by (rule contract_rules) simp
  ultimately show h: "event_ok (EvRequest ''GET'' ''/orgs?include_hidden=true'' None)" by simp
  have "event_ok (EvRequest ''GET'' ''/orgs'' None)" by (rule contract_rules)
  then show "event_ok (EvRequest ''GET'' (''/orgs'' @ orgs_query s) None)" using h by (simp add: orgs_query_def)
  show "event_ok (wallet_request i d)" "event_ok (tariff_request i d)" if "plain_segment i"
    using that unfolding wallet_request_def tariff_request_def by (intro contract_rules; simp add: schema_depth_def)+
qed

lemma load_orgs_declared [log_intros]: "keeps log_ok (load_orgs pick r ts)"
proof -
  have "list_all event_ok (reload_requests (orgs_query s))" for s :: "'z orgs_tab_scheme"
    unfolding reload_requests_def using org_requests_declared(1) contract_rules by simp
  then show ?thesis unfolding load_orgs_def by (intro page_rules log_intros; simp add: log_ok_def)
qed

lemma org_rows_declared:
  assumes "plain_segment (org_id g)" "plain_segment (user_id u)"
  shows "keeps log_ok (toggle_org_hidden g v pick r ts)" "keeps log_ok (change_member_role g u x v pick r ts)"
    "keeps log_ok (reset_member_password g u p)" "keeps log_ok (impersonate_member u v a b)"
  unfolding toggle_org_hidden_def change_member_role_def reset_member_password_def impersonate_member_def
  by (intro page_rules log_intros; simp add: log_ok_def schema_depth_def assms)+

lemma org_dialogs_declared:
  assumes "log_ok s"
  shows "(\<And>g. or_delete s = Some g \<Longrightarrow> plain_segment (org_id g)) \<Longrightarrow> log_ok (snd (confirm_delete_org v pick r ts s))"
    and "(\<And>i u. or_mfa_target s = Some (i, u) \<Longrightarrow> plain_segment i \<and> plain_segment (user_id u)) \<Longrightarrow>
         log_ok (snd (confirm_org_mfa_reset v pick r ts s))"
  using assms unfolding confirm_delete_org_def confirm_org_mfa_reset_def
  by (intro page_rules log_intros; simp add: log_ok_def schema_depth_def)+

text \<open>
  A new organisation needs a tariff: with no tariff chosen and none to choose, the body has no \<open>tariff_id\<close>, which the hub
  requires. The button only asks for a name and an address.
\<close>

lemma org_body_schema:
  "filter (\<lambda>(m, _). m = ''CreateOrgBody'') api_schemas =
     [(''CreateOrgBody'', TsObject [(''name'', Req, TsString), (''tariff_id'', Req, TsString), (''admin_email'', Req, TsString),
        (''admin_password'', Req, TsString), (''locale'', Def, TsString), (''is_personal'', Def, TsBoolean)])]"
  by code_simp

theorem create_org_body_fits:
  "fits schema_depth (TsRef ''CreateOrgBody'') (create_org_body s f) \<longleftrightarrow> no_tariff_id f \<noteq> [] \<or> active_tariffs s \<noteq> []"
proof
  assume "no_tariff_id f \<noteq> [] \<or> active_tariffs s \<noteq> []"
  then show "fits schema_depth (TsRef ''CreateOrgBody'') (create_org_body s f)"
    by (cases "active_tariffs s") (auto simp: schema_depth_def create_org_body_def)
next
  assume f: "fits schema_depth (TsRef ''CreateOrgBody'') (create_org_body s f)"
  have "list_ex (\<lambda>(m, t). m = n \<and> p t) xs = list_ex (\<lambda>(m, t). p t) (filter (\<lambda>(m, _). m = n) xs)" for n p and xs :: "(string \<times> ts_type) list"
    by (induction xs) auto
  with f have "list_ex (\<lambda>(m, t). fits 7 t (create_org_body s f)) (filter (\<lambda>(m, _). m = ''CreateOrgBody'') api_schemas)"
    by (simp add: schema_depth_def fits.simps(8) eval_nat_numeral)
  then show "no_tariff_id f \<noteq> [] \<or> active_tariffs s \<noteq> []"
    unfolding org_body_schema by (cases "active_tariffs s") (auto simp: create_org_body_def)
qed

lemma create_org_declared:
  assumes "log_ok s" "active_tariffs s \<noteq> []"
  shows "log_ok (snd (create_org rnd v pick r ts s))"
  using assms unfolding create_org_def Let_def
  by (intro page_rules log_intros; simp add: log_ok_def create_org_body_fits)

section \<open>Settings of the instance\<close>

text \<open>A body put together from optional fields fits if each of its fields does.\<close>

lemma fits_object:
  assumes "list_all (\<lambda>(f, w). f \<in> fst ` set fs \<and> list_all (\<lambda>(g, p, t). g = f \<longrightarrow> fits k t w) fs) kvs"
    and "list_all (\<lambda>(g, p, t). p \<noteq> Req) fs"
  shows "fits k (TsObject fs) (JObj kvs)"
proof -
  have "fits k t w" if "(g, p, t) \<in> set fs" "map_of kvs g = Some w" for g p t w
    using assms(1) that(1) map_of_SomeD [OF that(2)] by (auto simp: list_all_iff)
  then show ?thesis using assms by (fastforce simp: list_all_iff split: option.split)
qed

lemma smtp_payload_fits:
  assumes "smtp_test_payload dec s = Some p"
  shows "fits schema_depth (TsRef ''SmtpTestBody'') (JObj p)"
    "fits schema_depth (TsRef ''SmtpTestSendBody'') (JObj (p @ [(''to'', JStr a)]))"
proof -
  have "fits 7 (TsObject [(''smtp_host'', Opt, nullable TsString), (''smtp_port'', Opt, nullable TsNumber),
      (''smtp_user'', Opt, nullable TsString), (''smtp_password'', Opt, nullable TsString), (''smtp_from'', Opt, nullable TsString),
      (''smtp_tls'', Opt, nullable TsBoolean)]) (JObj p)"
    using assms unfolding smtp_test_payload_def by (intro fits_object) (auto split: option.splits)
  then show "fits schema_depth (TsRef ''SmtpTestBody'') (JObj p)" by (simp add: schema_depth_def del: fits.simps(13))
  have "fits 7 (TsObject [(''smtp_host'', Opt, nullable TsString), (''smtp_port'', Opt, nullable TsNumber),
      (''smtp_user'', Opt, nullable TsString), (''smtp_password'', Opt, nullable TsString), (''smtp_from'', Opt, nullable TsString),
      (''smtp_tls'', Opt, nullable TsBoolean), (''to'', Opt, nullable TsString)]) (JObj (p @ [(''to'', JStr a)]))"
    using assms unfolding smtp_test_payload_def by (intro fits_object) (auto split: option.splits)
  then show "fits schema_depth (TsRef ''SmtpTestSendBody'') (JObj (p @ [(''to'', JStr a)]))"
    by (simp add: schema_depth_def del: fits.simps(13))
qed

lemma notice_declared [log_intros]: "keeps log_ok (notice k)"
  unfolding notice_def by (intro page_rules log_intros; simp add: log_ok_def)

lemma settings_tests_declared:
  "keeps log_ok (test_smtp_send dec r)" "keeps log_ok (test_smtp_connection dec c r)"
proof -
  show t: "keeps log_ok (test_smtp_send dec r)"
    unfolding test_smtp_send_def by (intro page_rules log_intros; simp add: log_ok_def smtp_payload_fits)
  show "keeps log_ok (test_smtp_connection dec c r)"
    unfolding test_smtp_connection_def by (intro t page_rules log_intros; simp add: log_ok_def smtp_payload_fits)
qed

lemma telegram_test_declared: "log_ok s \<Longrightarrow> log_ok (fst (telegram_test_send s))"
proof (cases "it_settings s")
  case (Some d)
  have "event_ok (EvRequest ''POST'' ''/instance/telegram/test-connection'' (Some (telegram_test_body v d)))" for v
    by (rule contract_rules) (simp add: schema_depth_def telegram_test_body_def)
  then show "log_ok s \<Longrightarrow> log_ok (fst (telegram_test_send s))" using Some by (simp add: telegram_test_send_def log_ok_def)
qed (simp add: telegram_test_send_def)

text \<open>The patch of the settings has many fields, with names of their own; each field that is sent is one of them.\<close>

definition settings_fields :: "(string \<times> presence \<times> ts_type) list" where
  "settings_fields = (case hd schemas_from_SettingsPatch of (_, TsObject fs) \<Rightarrow> fs | _ \<Rightarrow> [])"

lemmas settings_fields_list = settings_fields_def [unfolded schemas_from_SettingsPatch_def list.sel prod.case ts_type.case]

lemma settings_names: "distinct (map fst settings_fields)"
  by code_simp

lemma settings_optional: "list_all (\<lambda>(g, p, t). p \<noteq> Req) settings_fields"
  by code_simp

lemma settings_patch_fits:
  assumes "list_all (\<lambda>(f, w). \<exists>p t. (f, p, t) \<in> set settings_fields \<and> fits 7 t w) kvs"
  shows "fits schema_depth (TsRef ''SettingsPatch'') (JObj kvs)"
proof -
  have m: "(''SettingsPatch'', TsObject settings_fields) \<in> set api_schemas"
    by (rule schema_tables(10), unfold settings_fields_list schemas_from_SettingsPatch_def, rule list.set_intros(1))
  have ok: "fits 7 t w" if "(f, w) \<in> set kvs" "(f, p, t) \<in> set settings_fields" for f p t w
    using assms settings_names that by (fastforce simp: list_all_iff dest: eq_key_imp_eq_value)
  have "list_all (\<lambda>(f, w). f \<in> fst ` set settings_fields \<and> list_all (\<lambda>(g, p, t). g = f \<longrightarrow> fits 7 t w) settings_fields) kvs"
  proof (unfold list_all_iff, intro ballI)
    fix x assume x: "x \<in> set kvs"
    obtain f w where fw: "x = (f, w)" by (cases x)
    then obtain p t where "(f, p, t) \<in> set settings_fields" using assms x by (auto simp: list_all_iff)
    then show "case x of (f, w) \<Rightarrow> f \<in> fst ` set settings_fields \<and> (\<forall>(g, p, t)\<in>set settings_fields. g = f \<longrightarrow> fits 7 t w)"
      using ok x fw by (force simp: image_iff)
  qed
  then have "fits (schema_depth - 1) (TsObject settings_fields) (JObj kvs)"
    unfolding schema_depth_def by (intro fits_object settings_optional) simp
  then show ?thesis by (intro fits_ref [OF m]) (simp_all add: schema_depth_def)
qed

lemma field_fits: "(f, p, t) \<in> set fs \<Longrightarrow> fits k t w \<Longrightarrow> \<exists>p t. (f, p, t) \<in> set fs \<and> fits k t w"
  by blast

lemma option_types [simp]:
  "fits k TsString (Org.opt_json v) \<longleftrightarrow> \<not> Option.is_none v" "Org.opt_json v = JNull \<longleftrightarrow> Option.is_none v"
  "fits k TsString (text_json v) \<longleftrightarrow> \<not> Option.is_none v" "text_json v = JNull \<longleftrightarrow> Option.is_none v"
  "fits k TsNumber (port_json dec q) \<longleftrightarrow> \<not> Option.is_none (Option.bind q (\<lambda>x. x))"
  "port_json dec q = JNull \<longleftrightarrow> Option.is_none (Option.bind q (\<lambda>x. x))"
  by (cases v; cases q; auto simp: port_json_def Org.opt_json_def text_json_def)+

lemmas option_kinds [simp] = option_types(1,3) [unfolded fits.simps(1)] option_types(5) [unfolded fits.simps(2)]

lemma settings_body_fits: "fits schema_depth (TsRef ''SettingsPatch'') (JObj (save_settings_body dec s d))"
  by (rule settings_patch_fits, unfold save_settings_body_def settings_fields_list list_all_append rate_limit_names_def list.map
      list.pred_inject case_prod_conv, intro conjI, simp_all only: TrueI if_split list.pred_inject case_prod_conv)
    ((rule field_fits, (rule list.set_intros(1) | rule list.set_intros(2))+, simp add: list_all_iff) | rule impI conjI TrueI)+

lemma save_settings_declared: "log_ok s \<Longrightarrow> log_ok (save_settings_send dec s)"
proof (cases "it_settings s")
  case (Some d)
  have "event_ok (EvRequest ''PATCH'' ''/instance/settings'' (Some (JObj (save_settings_body dec s d))))"
    by (rule contract_rules) (rule settings_body_fits)
  then show "log_ok s \<Longrightarrow> log_ok (save_settings_send dec s)" using Some by (simp add: save_settings_send_def log_ok_def)
qed (simp add: save_settings_send_def)

end
