(* ===== verification/Admin_Requests.thy ===== *)
theory Admin_Requests
  imports Page_Requests Page_Runs
begin

text \<open>
  The rest of the administration follows the contract of the hub: legal documents, statistics, the audit log, the ledger of an
  organisation and the keys. Runs of a page are covered as a whole, whatever is chosen and in whatever order answers come.
\<close>

section \<open>Legal documents\<close>

lemma key_name_plain: "plain_segment (key_name k)"
  by (cases k) (simp_all add: plain_segment_def)

lemma int_str_plain: "plain_segment (int_str v)"
proof -
  have d: "c \<noteq> CHR ''/'' \<and> c \<noteq> CHR ''?''" if "c \<in> set (nat_str n)" for c n
    using that nat_str_digits [of n] by (auto simp: is_digit_def digits_def)
  show ?thesis using d by (fastforce simp: plain_segment_def int_str_def)
qed

text \<open>Every name the two forms send is a field of the settings.\<close>

lemma legal_names:
  "list_all (\<lambda>k. list_all (\<lambda>l. (text_field k l, Opt, nullable TsString) \<in> set settings_fields) legal_doc_locales
     \<and> (published_field k, Opt, nullable TsBoolean) \<in> set settings_fields) legal_document_keys"
  "list_all (\<lambda>l. (footer_field l, Opt, nullable TsString) \<in> set settings_fields) legal_doc_locales"
  "(''landing_footer_published'', Opt, nullable TsBoolean) \<in> set settings_fields"
  by code_simp+

lemma legal_values: "fits 7 (nullable TsString) (text_json v)" "fits 7 (nullable TsBoolean) (JBool b)"
  by (cases v) (simp_all add: text_json_def)

lemma legal_body_fits: "fits schema_depth (TsRef ''SettingsPatch'') (JObj (legal_body d))"
proof (rule settings_patch_fits, unfold list_all_iff, intro ballI)
  fix x assume "x \<in> set (legal_body d)"
  then obtain k where k: "k \<in> set legal_document_keys"
    and x: "x \<in> set (map (\<lambda>l. (text_field k l, text_json (lg_texts d k l))) [En, Ru, Es]
      @ flag_json (published_field k) (lg_published d k))"
    by (auto simp only: legal_body_def set_concat set_map image_iff UN_iff bex_simps)
  have t: "(text_field k l, Opt, nullable TsString) \<in> set settings_fields" for l
    using legal_names(1) k by (cases l) (simp_all add: list_all_iff legal_doc_locales_def)
  have p: "(published_field k, Opt, nullable TsBoolean) \<in> set settings_fields"
    using legal_names(1) k by (simp add: list_all_iff)
  from x consider l where "x = (text_field k l, text_json (lg_texts d k l))" | b where "x = (published_field k, JBool b)"
    by (auto simp: flag_json_def split: option.splits)
  then show "case x of (f, w) \<Rightarrow> \<exists>p t. (f, p, t) \<in> set settings_fields \<and> fits 7 t w"
  proof cases
    case 1
    then show ?thesis using field_fits [OF t legal_values(1)] by (simp only: case_prod_conv)
  next
    case 2
    then show ?thesis using field_fits [OF p legal_values(2)] by (simp only: case_prod_conv)
  qed
qed

lemma footer_body_fits: "fits schema_depth (TsRef ''SettingsPatch'') (JObj (footer_body d))"
proof (rule settings_patch_fits, unfold list_all_iff, intro ballI)
  fix x assume x: "x \<in> set (footer_body d)"
  have t: "(footer_field l, Opt, nullable TsString) \<in> set settings_fields" for l
    using legal_names(2) by (cases l) (simp_all add: list_all_iff legal_doc_locales_def)
  from x consider l where "x = (footer_field l, text_json (lg_footer d l))" | b where "x = (''landing_footer_published'', JBool b)"
    by (auto simp: footer_body_def flag_json_def split: option.splits)
  then show "case x of (f, w) \<Rightarrow> \<exists>p t. (f, p, t) \<in> set settings_fields \<and> fits 7 t w"
  proof cases
    case 1
    then show ?thesis using field_fits [OF t legal_values(1)] by (simp only: case_prod_conv)
  next
    case 2
    then show ?thesis using field_fits [OF legal_names(3) legal_values(2)] by (simp only: case_prod_conv)
  qed
qed

lemma save_legal_declared: "log_ok s \<Longrightarrow> log_ok (save_legal_send s)" "log_ok s \<Longrightarrow> log_ok (on_legal_save_click s)"
proof -
  have e: "event_ok (EvRequest ''PATCH'' ''/instance/settings'' (Some (JObj (legal_body d))))" for d
    by (rule contract_rules) (rule legal_body_fits)
  show s: "log_ok s \<Longrightarrow> log_ok (save_legal_send s)"
    using e by (simp add: save_legal_send_def log_ok_def split: option.split)
  show "log_ok s \<Longrightarrow> log_ok (on_legal_save_click s)"
    using s by (simp add: on_legal_save_click_def log_ok_def split: option.split)
qed

lemma save_footer_declared: "log_ok s \<Longrightarrow> log_ok (save_footer_send s)"
proof -
  have "event_ok (EvRequest ''PATCH'' ''/instance/settings'' (Some (JObj (footer_body d))))" for d
    by (rule contract_rules) (rule footer_body_fits)
  then show "log_ok s \<Longrightarrow> log_ok (save_footer_send s)"
    by (simp add: save_footer_send_def log_ok_def split: option.split)
qed

lemma legal_tab_declared:
  "keeps log_ok (load_legal r)" "keeps log_ok (save_legal_answer q st me)" "keeps log_ok (save_footer_answer q)"
  unfolding load_legal_def save_legal_answer_def save_footer_answer_def
  by (intro page_rules; simp add: log_ok_def)+

lemma versions_declared:
  "event_ok (EvRequest ''GET'' (versions_path k) None)" "keeps log_ok (open_version v r)"
proof -
  show "event_ok (EvRequest ''GET'' (versions_path k) None)"
    unfolding versions_path_def by (rule contract_rules) (rule key_name_plain)
  have "event_ok (EvRequest ''GET'' (''/instance/legal-documents/'' @ key_name k @ ''/versions/'' @ int_str v) None)" for k
    by (rule contract_rules) (rule key_name_plain int_str_plain)+
  then have "event_ok (EvRequest ''GET'' (versions_path k @ ''/'' @ int_str v) None)" for k
    by (simp add: versions_path_def)
  then show "keeps log_ok (open_version v r)"
    unfolding open_version_def by (intro page_rules; simp add: log_ok_def)
qed

lemma load_legal_page_declared: "log_ok s \<Longrightarrow> pred_option plain_segment key \<Longrightarrow> log_ok (load_legal_page key r s)"
proof (cases key)
  case (Some k)
  assume "log_ok s" "pred_option plain_segment key"
  then have "event_ok (EvRequest ''GET'' (''/public/legal-documents/'' @ k) None)"
    using Some by (intro contract_rules) simp
  then show ?thesis using \<open>log_ok s\<close> Some by (cases r) (simp_all add: load_legal_page_def log_ok_def Let_def)
qed (simp add: load_legal_page_def log_ok_def)

section \<open>Statistics\<close>

lemma filter_params_keys:
  "fst ` set (filter_params n wo f) \<subseteq> insert n ({''from'', ''to'', ''user_id''} \<union> (if wo then {''org_id''} else {}))"
  by (simp add: filter_params_def)

lemma stats_asked:
  "event_ok (EvRequest ''GET'' (''/org/stats'' @ stats_query False f) None)"
  "event_ok (EvRequest ''GET'' (''/instance/stats'' @ stats_query True f) None)"
proof -
  have "event_ok (EvRequest ''GET'' (''/org/stats?'' @ params_to_string (filter_params ''kind'' False f)) None)"
    by (rule contract_rules, rule subset_trans, rule filter_params_keys) auto
  moreover have "event_ok (EvRequest ''GET'' ''/org/stats'' None)" by (rule contract_rules)
  ultimately show "event_ok (EvRequest ''GET'' (''/org/stats'' @ stats_query False f) None)"
    by (simp add: stats_query_def Let_def)
  have "event_ok (EvRequest ''GET'' (''/instance/stats?'' @ params_to_string (filter_params ''kind'' True f)) None)"
    by (rule contract_rules, rule subset_trans, rule filter_params_keys) auto
  moreover have "event_ok (EvRequest ''GET'' ''/instance/stats'' None)" by (rule contract_rules)
  ultimately show "event_ok (EvRequest ''GET'' (''/instance/stats'' @ stats_query True f) None)"
    by (simp add: stats_query_def Let_def)
qed

lemma usage_effect_declared:
  assumes "\<And>f. event_ok (EvRequest ''GET'' (base @ stats_query wo f) None)" "log_ok s"
  shows "log_ok (usage_effect base wo s)"
  using assms by (simp add: usage_effect_def log_ok_def Let_def)

lemma usage_run_declared:
  assumes q: "\<And>f. event_ok (EvRequest ''GET'' (base @ stats_query wo f) None)"
  shows "log_ok s \<Longrightarrow> log_ok (usage_run base wo srv es s)"
proof (induction es arbitrary: s)
  case (Cons e es)
  have e: "log_ok (usage_effect base wo (s\<lparr>us_filters := f\<rparr>))" for f
    using Cons.prems by (intro usage_effect_declared q) (simp add: log_ok_def)
  have a: "log_ok (usage_arrives base wo srv k s)" for k
    using Cons.prems unfolding usage_arrives_def Let_def
    by (intro usage_effect_declared q) (simp add: log_ok_def split: sum.split)
  show ?case using Cons e a by (cases e) (simp_all add: usage_filter_def)
qed simp

lemma usage_mounted_declared:
  assumes q: "\<And>f. event_ok (EvRequest ''GET'' (base @ stats_query wo f) None)"
  shows "log_ok (usage_mounted base wo now on)"
  unfolding usage_mounted_def by (intro usage_effect_declared q) (simp add: log_ok_def)

text \<open>Both pages of statistics, from their first request to any later one.\<close>

theorem stats_declared:
  "log_ok (usage_run ''/org/stats'' False srv es (org_stats_mounted now m))"
  "log_ok (usage_run ''/instance/stats'' True srv es (instance_stats_mounted now))"
  unfolding org_stats_mounted_def instance_stats_mounted_def
  by (intro usage_run_declared usage_mounted_declared stats_asked)+

lemma snapshot_declared: "log_ok s \<Longrightarrow> log_ok (snapshot_tick s)" "log_ok s \<Longrightarrow> log_ok (snapshot_arrives r s)"
proof -
  have "event_ok (EvRequest ''GET'' ''/instance/stats'' None)" by (rule contract_rules)
  then show "log_ok s \<Longrightarrow> log_ok (snapshot_tick s)" "log_ok s \<Longrightarrow> log_ok (snapshot_arrives r s)"
    by (simp_all add: snapshot_tick_def snapshot_send_def snapshot_arrives_def log_ok_def Let_def split: sum.split)
qed

section \<open>The audit log\<close>

lemma audit_asked: "event_ok (EvRequest ''GET'' (''/instance/audit'' @ audit_query s) None)"
proof -
  have "fst ` set (audit_params s) \<subseteq> {''from'', ''to'', ''org_id'', ''user_id'', ''action'', ''limit'', ''offset''}"
    using filter_params_keys [of "''action''" True "ad_filters s"] by (auto simp: audit_params_def)
  then have "event_ok (EvRequest ''GET'' (''/instance/audit?'' @ params_to_string (audit_params s)) None)"
    by (rule contract_rules)
  then show ?thesis by (simp add: audit_query_def)
qed

lemma audit_effect_declared: "log_ok s \<Longrightarrow> log_ok (audit_effect s)"
  using audit_asked [of s] by (simp add: audit_effect_def log_ok_def Let_def)

lemma audit_run_declared: "log_ok s \<Longrightarrow> log_ok (audit_run srv es s)"
proof (induction es arbitrary: s)
  case (Cons e es)
  have "log_ok (audit_filter c s)" "log_ok (audit_set_size n s)" "log_ok (audit_prev s)" "log_ok (audit_next s)" for c n
    using Cons.prems
    by (simp_all add: audit_filter_def audit_set_size_def audit_prev_def audit_next_def log_ok_def
        audit_effect_declared [unfolded log_ok_def])
  moreover have "log_ok (audit_arrives srv k s)" for k
    using Cons.prems unfolding audit_arrives_def Let_def
    by (intro audit_effect_declared) (auto simp: log_ok_def split: sum.split prod.split)
  ultimately show ?case using Cons by (cases e) simp_all
qed simp

theorem audit_declared: "log_ok (audit_run srv es (audit_mounted now))"
proof -
  have "event_ok (EvRequest ''GET'' (''/orgs?'' @ params_to_string [(''include_hidden'', ''true'')]) None)"
    by (rule contract_rules) simp
  moreover have "params_to_string [(''include_hidden'', ''true'')] = ''include_hidden=true''" by code_simp
  ultimately have "event_ok (EvRequest ''GET'' ''/orgs?include_hidden=true'' None)" by simp
  then show ?thesis unfolding audit_mounted_def
    by (intro audit_run_declared audit_effect_declared) (simp add: log_ok_def)
qed

text \<open>The file of the log is fetched under the same filters, without the page.\<close>

theorem export_declared: "request_declared ''GET'' (''/instance/audit/export?'' @ export_query s) None"
proof -
  have k: "fst ` set (filter_params ''action'' True (ad_filters s)) \<subseteq> {''from'', ''to'', ''org_id'', ''user_id'', ''action''}"
    using filter_params_keys [of "''action''" True "ad_filters s"] by auto
  have "event_ok (EvRequest ''GET'' (''/instance/audit/export?'' @ params_to_string (filter_params ''action'' True (ad_filters s))) None)"
    by (rule declared_at, rule path_tables(5), unfold paths_from_auth_tokens_def, rule member_intros, simp add: path_eval,
      rule member_intros, rule operation_tables(9), unfold operations_from_create_token_def, rule member_intros, rule query_keys,
      rule k, simp add: query_of_def plain_paths, simp only: query_tables, (simp only: query_tables)+, simp add: body_fits_def)
  then show ?thesis by (simp add: event_ok_def export_query_def)
qed

section \<open>The ledger of an organisation\<close>

lemma ledger_declared:
  assumes "log_ok s" "\<And>g. or_card s = Some g \<Longrightarrow> plain_segment (org_id g)"
  shows "log_ok (ledger_request s)"
proof (cases "or_card s")
  case (Some g)
  define p where "p = (if or_kind s \<noteq> [] then params_set ''kind'' (or_kind s) else id)
    ((if or_user_id s \<noteq> [] then params_set ''user_id'' (or_user_id s) else id)
    ((if or_to s \<noteq> [] then params_set ''to'' (or_to s) else id)
    ((if or_from s \<noteq> [] then params_set ''from'' (or_from s) else id) [])))"
  have i: "plain_segment (org_id g)" by (rule assms(2)) (rule Some)
  have "event_ok (EvRequest ''GET'' (''/orgs/'' @ org_id g @ ''/ledger?'' @ params_to_string p) None)"
    by (rule contract_rules, rule i) (auto simp: p_def)
  moreover have "event_ok (EvRequest ''GET'' (''/orgs/'' @ org_id g @ ''/ledger'') None)" by (rule contract_rules, rule i)
  moreover have "org_ledger_query s = (if params_to_string p \<noteq> [] then ''?'' @ params_to_string p else [])"
    by (simp add: org_ledger_query_def p_def Let_def)
  ultimately show ?thesis using assms(1) Some by (simp add: ledger_request_def log_ok_def)
qed (use assms in \<open>simp add: ledger_request_def\<close>)

lemma open_card_declared: "log_ok s \<Longrightarrow> plain_segment (org_id g) \<Longrightarrow> log_ok (open_org_card now g s)"
  unfolding open_org_card_def by (auto simp: log_ok_def split: prod.split intro!: ledger_declared [unfolded log_ok_def])

section \<open>Keys\<close>

text \<open>The id of a job comes from the hub; a run of the tab follows the contract as long as the ids it saw are segments.\<close>

definition job_plain :: "encryption_job option \<Rightarrow> bool" where
  "job_plain j \<longleftrightarrow> pred_option (\<lambda>x. plain_segment (ej_id x)) j"

lemma keys_asked:
  "event_ok (EvRequest ''GET'' deks_path None)" "event_ok (EvRequest ''GET'' latest_path None)"
  "event_ok (EvRequest ''POST'' deks_path None)" "event_ok (EvRequest ''POST'' reencrypt_path None)"
  unfolding deks_path_def latest_path_def reencrypt_path_def by (rule contract_rules)+

lemma cancel_asked: "plain_segment i \<Longrightarrow> event_ok (cancel_request i)"
proof -
  assume "plain_segment i"
  then have "event_ok (EvRequest ''POST'' (''/instance/crypto/reencrypt/'' @ i @ ''/cancel'') None)" by (rule contract_rules)
  then show ?thesis by (simp add: cancel_request_def reencrypt_path_def)
qed

lemma load_keys_declared: "list_all event_ok (events (load_keys s)) = list_all event_ok (events s)"
  by (simp add: load_keys_def emits_def keys_asked)

theorem encryption_step_declared:
  "encryption_step s t \<Longrightarrow> log_ok s \<Longrightarrow> job_plain (en_job s) \<Longrightarrow> log_ok t"
proof (induction rule: encryption_step.induct)
  case (es_arrive k s dr jr)
  then show ?case
    by (simp add: key_arrives_def Let_def log_ok_def load_keys_declared split: get_flight.split sum.split)
next
  case (es_answer s r)
  then show ?case
    by (simp add: run_answer_def Let_def log_ok_def load_keys_declared split: option.split sum.split tab_run.split)
next
  case (es_cancel s)
  then show ?case
    by (cases "en_job s") (simp_all add: cancel_job_def job_plain_def log_ok_def cancel_asked)
qed (simp_all add: poll_tick_def add_dek_def start_reencrypt_def log_ok_def keys_asked)

text \<open>A run of the tab in which every job it shows has such an id.\<close>

theorem encryption_declared:
  assumes "rtranclp (\<lambda>s t. encryption_step s t \<and> job_plain (en_job t)) encryption_mounted t"
  shows "log_ok t"
proof -
  have m: "log_ok encryption_mounted \<and> job_plain (en_job encryption_mounted)"
    by (simp add: encryption_mounted_def log_ok_def load_keys_declared job_plain_def)
  from assms have "log_ok t \<and> job_plain (en_job t)"
  proof (induction rule: rtranclp_induct)
    case base
    show ?case by (rule m)
  next
    case (step s t)
    then show ?case using encryption_step_declared by blast
  qed
  then show ?thesis by simp
qed

section \<open>Settings\<close>

lemma load_settings_declared: "keeps log_ok (load_settings r)"
  unfolding load_settings_def store_settings_def by (intro page_rules; simp add: log_ok_def)

section \<open>Whole pages\<close>

lemma tb_reload_declared [simp]: "log_ok (tb_reload a s) = log_ok s"
proof -
  have "event_ok (EvRequest ''GET'' (tasks_list_path x y z i n) None)" for x y z i n
    unfolding tasks_list_path_def by (rule contract_rules) (simp add: tasks_list_params_def)
  then show ?thesis by (simp add: tb_reload_def log_ok_def split: prod.split)
qed

lemma call_declared:
  assumes "case c of CancelCall i _ \<Rightarrow> plain_segment i | RetryCall i _ \<Rightarrow> plain_segment i | _ \<Rightarrow> True"
  shows "list_all event_ok (call_request c)"
proof (cases c)
  case (CancelCall i a)
  then have "event_ok (EvRequest ''DELETE'' (''/tasks/'' @ i) None)" using assms by (intro contract_rules) simp
  then show ?thesis using CancelCall by simp
next
  case (RetryCall i a)
  then have "event_ok (EvRequest ''POST'' (''/tasks/'' @ i @ ''/retry'') None)" using assms by (intro contract_rules) simp
  then show ?thesis using RetryCall by simp
next
  case (PurgeCall a)
  have "event_ok (EvRequest ''POST'' (case fst a of (x, y, z) \<Rightarrow> purge_path x y z) None)"
    by (cases "fst a") (simp only: prod.case purge_path_declared)
  then show ?thesis using PurgeCall by simp
next
  case (OrgsCall k)
  have "event_ok (EvRequest ''GET'' ''/orgs'' None)" by (rule contract_rules)
  then show ?thesis using OrgsCall by simp
next
  case (UsersCall k)
  have "event_ok (EvRequest ''GET'' ''/org/users'' None)" by (rule contract_rules)
  then show ?thesis using UsersCall by simp
qed simp

lemma tb_send_declared:
  "case c of CancelCall i _ \<Rightarrow> plain_segment i | RetryCall i _ \<Rightarrow> plain_segment i | _ \<Rightarrow> True
   \<Longrightarrow> log_ok (tb_send c s) = log_ok s"
  using call_declared [of c] by (simp add: tb_send_def log_ok_def)

lemma tasks_tab_fields_log [simp]:
  "log_ok (tb_calls_update f s) = log_ok s" "log_ok (tb_me_update g s) = log_ok s" "log_ok (tb_effect_update h s) = log_ok s"
  "log_ok (tp_purge_busy_update b t) = log_ok t" "log_ok (tp_confirm_purge_update b t) = log_ok t"
  "log_ok (tp_orgs_update j t) = log_ok t" "log_ok (tp_org_users_update l t) = log_ok t"
  by (simp_all add: log_ok_def)

lemma tl_query_declared:
  "log_ok s \<Longrightarrow> log_ok (tl_set_query a b c d e s)" "log_ok s \<Longrightarrow> log_ok (tl_timer_fires s)"
  by (simp_all add: tl_set_query_def tl_timer_fires_def tl_tick_def)

lemma tb_load_filters_declared: "log_ok s \<Longrightarrow> log_ok (tb_load_filters s)"
  by (simp add: tb_load_filters_def Let_def tb_send_declared)

lemma tb_answer_log: "log_ok s \<Longrightarrow> log_ok (tb_answer c orgs_r users_r r s)"
  by (cases c)
     (simp_all add: tb_answer_def Let_def tb_orgs_answer_def tb_users_answer_def tb_row_answer_def tb_purge_answer_def
       tb_failed_def set_tl_page_def tl_query_declared split: sum.split)

lemma tb_list_answer_log:
  assumes "log_ok s"
  shows "log_ok (tb_list_answer n r q s)"
proof -
  have "event_ok (EvRequest ''GET'' ''/org'' None)" by (rule contract_rules)
  then show ?thesis using assms by (auto simp: tb_list_answer_def Let_def tl_answer_declared)
qed

lemma tasks_tab_step_declared:
  assumes "tb_step plain_segment s t" "log_ok s" "shown_ids plain_segment s"
  shows "log_ok t"
  using assms
proof cases
  case (tb_cancelled t')
  then have "plain_segment (task_id t')" using assms(3) by (auto simp: shown_ids_def list_all_iff)
  then show ?thesis using assms(2) tb_cancelled by (simp add: tb_cancel_def tb_send_declared)
next
  case (tb_retried t')
  then have "plain_segment (task_id t')" using assms(3) by (auto simp: shown_ids_def list_all_iff)
  then show ?thesis using assms(2) tb_retried by (simp add: tb_retry_def tb_send_declared)
qed (simp_all add: set_org_filter_def set_user_filter_def set_status_filter_def change_page_size_def set_tl_page_def Let_def
    tl_query_declared tb_set_me_def tb_load_filters_declared tb_purge_def tb_send_declared tb_answer_log tb_list_answer_log)

theorem tasks_tab_declared: "tb_reach plain_segment s \<Longrightarrow> log_ok s"
proof (induction rule: tb_reach.induct)
  case (tb_opened m)
  have "log_ok (tb_blank m)" by (simp add: tb_blank_def log_ok_def)
  then show ?case by (simp add: tb_mounted_def tb_load_filters_declared)
next
  case (tb_went_on s s')
  then show ?case using tasks_tab_step_declared shown_ids_reach by blast
qed

text \<open>The parts of the pages of statistics.\<close>

lemma instance_tab_log [simp]:
  "log_ok (s\<lparr>ig_orgs := gs\<rparr>) = log_ok s" "log_ok (s\<lparr>ig_orgs_out := b\<rparr>) = log_ok s"
  by (simp_all add: log_ok_def)

lemma on_part_declared:
  "(\<And>v. log_ok v \<Longrightarrow> log_ok (f v)) \<Longrightarrow> log_ok s \<Longrightarrow> log_ok (on_users f s)"
  "(\<And>v. log_ok v \<Longrightarrow> log_ok (g v)) \<Longrightarrow> log_ok t \<Longrightarrow> log_ok (on_snapshot g t)"
  by (simp_all add: on_users_def on_snapshot_def Let_def log_ok_def)

lemma org_users_declared: "log_ok v \<Longrightarrow> log_ok (ou_send on v)" "log_ok v \<Longrightarrow> log_ok (ou_answer r v)"
proof -
  have "event_ok (EvRequest ''GET'' ''/org/users'' None)" by (rule contract_rules)
  then show "log_ok v \<Longrightarrow> log_ok (ou_send on v)" "log_ok v \<Longrightarrow> log_ok (ou_answer r v)"
    by (simp_all add: ou_send_def ou_answer_def log_ok_def split: sum.split)
qed

theorem org_stats_declared: "log_ok (org_stats_run srv es (org_stats_opened now m))"
proof -
  have "log_ok (org_stats_run srv es s)" if "log_ok s" for es and s :: "'a org_stats_tab"
    using that
  proof (induction es arbitrary: s)
    case (Cons e es)
    have u: "log_ok (usage_run ''/org/stats'' False srv [c] s)" for c
      by (rule usage_run_declared [OF stats_asked(1)]) (rule Cons.prems)
    from Cons show ?case
      by (cases e) (simp_all del: usage_run.simps add: u on_part_declared org_users_declared)
  qed simp
  moreover have "log_ok (org_stats_opened now m :: 'a org_stats_tab)"
    unfolding org_stats_opened_def
    by (intro usage_effect_declared stats_asked on_part_declared(1) org_users_declared(1)) (simp_all add: log_ok_def)
  ultimately show ?thesis .
qed

lemma hidden_orgs_asked: "event_ok (EvRequest ''GET'' ''/orgs?include_hidden=true'' None)"
proof -
  have "event_ok (EvRequest ''GET'' (''/orgs?'' @ params_to_string [(''include_hidden'', ''true'')]) None)"
    by (rule contract_rules) simp
  moreover have "params_to_string [(''include_hidden'', ''true'')] = ''include_hidden=true''" by code_simp
  ultimately show ?thesis by simp
qed

theorem instance_stats_declared: "log_ok (instance_stats_run srv es (instance_stats_opened now))"
proof -
  have ig: "log_ok s \<Longrightarrow> log_ok (ig_orgs_answer r s)" for r and s :: "'a instance_stats_tab"
    by (simp add: ig_orgs_answer_def Let_def split: sum.split)
  have "log_ok (instance_stats_run srv es s)" if "log_ok s" for es and s :: "'a instance_stats_tab"
    using that
  proof (induction es arbitrary: s)
    case (Cons e es)
    have u: "log_ok (usage_run ''/instance/stats'' True srv [c] s)" for c
      by (rule usage_run_declared [OF stats_asked(2)]) (rule Cons.prems)
    from Cons show ?case
      by (cases e) (simp_all del: usage_run.simps add: u on_part_declared snapshot_declared ig)
  qed simp
  moreover have "log_ok (instance_stats_opened now :: 'a instance_stats_tab)"
    unfolding instance_stats_opened_def
    by (intro usage_effect_declared stats_asked on_part_declared(2) snapshot_declared(1))
       (simp_all add: hidden_orgs_asked, simp add: log_ok_def)
  ultimately show ?thesis .
qed

text \<open>The audit log; a download is a request too.\<close>

definition downloads_ok :: "'z browser_scheme \<Rightarrow> bool" where
  "downloads_ok s \<longleftrightarrow>
     list_all (\<lambda>e. case e of EvDownload p _ \<Rightarrow> request_declared ''GET'' p None | _ \<Rightarrow> True) (events s)"

lemma downloads_emit [simp]:
  "downloads_ok (emit e s) \<longleftrightarrow> downloads_ok s \<and> (case e of EvDownload p _ \<Rightarrow> request_declared ''GET'' p None | _ \<Rightarrow> True)"
  by (auto simp: downloads_ok_def)

lemma audit_effect_downloads: "downloads_ok s \<Longrightarrow> downloads_ok (audit_effect s)"
  by (simp add: audit_effect_def Let_def downloads_ok_def)

lemma audit_event_downloads: "downloads_ok s \<Longrightarrow> downloads_ok (audit_run srv [e] s)"
  by (cases e)
     (simp_all add: audit_filter_def audit_set_size_def audit_prev_def audit_next_def audit_arrives_def Let_def downloads_ok_def
       audit_effect_downloads [unfolded downloads_ok_def] split: sum.split)

lemma export_csv_events:
  "events (snd (export_csv r s)) = events s
     @ EvDownload (''/instance/audit/export?'' @ export_query s) (export_name (ad_filters s))
     # (case r of Inl e \<Rightarrow> [EvToast e None] | Inr _ \<Rightarrow> [])"
  by (cases r) (simp_all add: export_csv_def run_simps show_error_def emit_def export_query_def)

lemma export_csv_declared:
  assumes "log_ok s" "downloads_ok s"
  shows "log_ok (snd (export_csv r s))" "downloads_ok (snd (export_csv r s))"
proof -
  show "log_ok (snd (export_csv r s))"
    using assms(1) by (cases r) (simp_all only: log_ok_def export_csv_events list_all_append list.pred_inject sum.case event_ok_silent simp_thms)
  show "downloads_ok (snd (export_csv r s))"
    using assms(2) export_declared [of s]
    by (cases r) (simp_all only: downloads_ok_def export_csv_events list_all_append list.pred_inject sum.case event.case simp_thms)
qed

theorem audit_tab_declared:
  "log_ok (audit_tab_run srv es (audit_mounted now)) \<and> downloads_ok (audit_tab_run srv es (audit_mounted now))"
proof -
  have "log_ok (audit_tab_run srv es s) \<and> downloads_ok (audit_tab_run srv es s)" if "log_ok s \<and> downloads_ok s" for es s
    using that
  proof (induction es arbitrary: s)
    case (Cons e es)
    have "log_ok (audit_orgs_arrive r s) \<and> downloads_ok (audit_orgs_arrive r s)" for r
      using Cons.prems by (simp add: audit_orgs_arrive_def log_ok_def downloads_ok_def split: sum.split)
    moreover have "log_ok (audit_run srv [c] s) \<and> downloads_ok (audit_run srv [c] s)" for c
      using Cons.prems audit_run_declared audit_event_downloads by blast
    moreover have "log_ok (snd (export_csv r s)) \<and> downloads_ok (snd (export_csv r s))" for r
      using Cons.prems export_csv_declared by blast
    ultimately show ?case by (cases e) (simp_all only: audit_tab_run.simps Cons.IH)
  qed simp
  moreover have "log_ok (audit_mounted now)" using audit_declared [of _ "[]"] by simp
  moreover have "downloads_ok (audit_mounted now)"
    unfolding audit_mounted_def by (intro audit_effect_downloads) (simp add: downloads_ok_def)
  ultimately show ?thesis by blast
qed

text \<open>C6: Whatever a user does on the list of tasks (filters, pager, cancelling, retrying, purging), and in whatever order answers,
timers and changes of the session come, every request the page has made is one the generated API declares: the method and the path,
the names in the query and the body. So is every request of both pages of statistics and of the audit log, whatever is
chosen and in whatever order answers come, the snapshot, the lists behind the filters and the download of the log included, and the
list request of the page of texts for every tab and filter. The ids the hub gives to tasks are taken to be segments of a path.\<close>

theorem lists_follow_the_api:
  assumes "tb_reach plain_segment s"
  shows "log_ok s
    \<and> log_ok (org_stats_run srv es (org_stats_opened now m))
    \<and> log_ok (instance_stats_run srv is (instance_stats_opened now))
    \<and> log_ok (audit_tab_run asrv as (audit_mounted now))
    \<and> downloads_ok (audit_tab_run asrv as (audit_mounted now))
    \<and> event_ok (EvRequest ''GET'' (library_list_path (lv_tab v) (page_library_query m v)) None)"
  using tasks_tab_declared [OF assms] org_stats_declared instance_stats_declared audit_tab_declared library_page_declared
  by blast

text \<open>An administrator cancels a queued task of the first answer.\<close>

definition queued_task :: task where
  "queued_task =
     \<lparr>task_id = ''t1'', task_type = ''transcribe'', task_status = ''queued'', task_meta = Map.empty, task_max_upload_bytes = None,
      task_transcript_id = None, task_summary_id = None, task_error = None, task_org_id = None, task_user_id = Some ''u1'',
      task_audio_id = None, task_source_transcript_id = None, task_created_at = None, task_updated_at = None,
      task_owner_email = None, task_org_name = None, task_audio_filename = None, task_skill_ids = None\<rparr>"

definition one_task :: tasks_tab where
  "one_task = tb_list_answer 1 (Tick 1) (Inr \<lparr>tr_active = [queued_task], tr_done = [], tr_done_total = 0\<rparr>)
     (tb_mounted (Some (example_me True False)))"

lemma first_answer_shown:
  assumes "tl_seq s = 1" "tl_effect s = 1" "tb_me s = m"
  shows "tl_active (tb_list_answer 1 (Tick 1) (Inr r) s) = tr_active r" "tb_me (tb_list_answer 1 (Tick 1) (Inr r) s) = m"
proof -
  have r: "tl_active (tl_render old t) = tl_active t" "tb_me (tl_render old' t') = tb_me t'"
    for old t :: "'z task_list_scheme" and old' t' :: "'y tasks_tab_scheme"
    by (simp_all add: tl_render_def tl_restart_def tl_tick_def tl_send_def emit_def Let_def)
  have e: "tl_seq (emit ev s) = 1" "tl_effect (emit ev s) = 1" "tb_me (emit ev s) = m" for ev
    using assms by (simp_all add: emit_def)
  have a: "tl_active (tl_answer 1 (Tick 1) (Inr r) t) = tr_active r \<and> tb_me (tl_answer 1 (Tick 1) (Inr r) t) = m"
    if "tl_seq t = 1" "tl_effect t = 1" "tb_me t = m" for t :: "'a tasks_tab_scheme"
    using that by (simp add: tl_answer_def r tl_tick_answer_def tl_show_def Let_def)
  show "tl_active (tb_list_answer 1 (Tick 1) (Inr r) s) = tr_active r" "tb_me (tb_list_answer 1 (Tick 1) (Inr r) s) = m"
    using a [OF assms] a [OF e] by (simp_all add: tb_list_answer_def Let_def)
qed

theorem lists_follow_the_api_witness: "log_ok (tb_cancel queued_task one_task)"
proof -
  have f: "(1, Tick 1) \<in> set (tl_flight (tb_mounted (Some (example_me True False))))"
    and fields: "tl_seq (tb_mounted (Some (example_me True False))) = 1" "tl_effect (tb_mounted (Some (example_me True False))) = 1"
      "tb_me (tb_mounted (Some (example_me True False))) = Some (example_me True False)"
    by (simp_all add: tb_mounted_def tb_load_filters_def tb_send_def tl_restart_def tl_tick_def tl_send_def tb_blank_def emit_def Let_def)
  have "tb_reach plain_segment one_task"
    unfolding one_task_def
    by (rule tb_went_on [OF tb_opened], rule tb_listed, rule f) (simp add: queued_task_def plain_segment_def)
  moreover have "tl_active one_task = [queued_task]" "tb_me one_task = Some (example_me True False)"
    unfolding one_task_def by (simp_all only: first_answer_shown [OF fields] task_list_response.simps)
  moreover have "row_can_cancel (Some (example_me True False)) queued_task"
    by (simp add: row_can_cancel_def row_can_manage_def can_cancel_task_def queued_task_def example_me_def example_user_def)
  ultimately have "tb_reach plain_segment (tb_cancel queued_task one_task)"
    by (intro tb_went_on [OF _ tb_cancelled]) simp_all
  then show ?thesis using lists_follow_the_api by blast
qed

end
