(* ===== verification/Spec2Isabelle.thy ===== *)
theory Spec2Isabelle
  imports Pipeline Task_Stage Routes Api_Client Auth Task_Poll Lists Tags Capture_Host Ingest Mic_Record Models Profile Js_Number Workers Artifacts Org Instance_Settings Js_Date Instance_Orgs Legal Stats Encryption Telegram Skills Media Page_Runs Admin_Requests
begin

text \<open>
  The web client of the hub (\<open>src/web/src\<close>): sign-in, the choice of a pipeline, uploads and links that become
  tasks, the pages that watch the tasks, and the library of finished texts. The client keeps its state in React
  components, in web storage and in a few module variables; it talks to the hub through one function.

  \<^bold>\<open>How the parts meet.\<close> \<open>api.ts\<close> sends every request (\<open>Api_Client\<close>); \<open>auth.tsx\<close> keeps who is signed in
  (\<open>Auth\<close>); \<open>App.tsx\<close> decides from that and the path which page shows (\<open>Routes\<close>). On the ingest page the panel
  reads the stored pipeline (\<open>Pipeline\<close>), the stored extra tags (\<open>Tags\<close>) and the kind of a pasted link
  (\<open>Capture_Host\<close>), and starts a task by link, file or microphone (\<open>Ingest\<close>, \<open>Mic_Record\<close>). The task page polls the
  task (\<open>Task_Poll\<close>) and reads its stage (\<open>Task_Stage\<close>) until it may follow it up; the task and library pages show
  paged, filtered lists (\<open>Lists\<close>).

  \<^bold>\<open>Effects.\<close> \<open>Hub_Effects\<close> holds the outside of a component: a \<open>browser\<close> record with the two web storages and a log
  of events (requests, navigations, toasts). A component's state is a record that extends it, a handler a function
  from state to state, or in the result monad (\<open>exn + 'a\<close> with the state) where the code throws. The server, the
  translation function, the URL parser, \<open>localeCompare\<close>, the clock, \<open>MediaRecorder\<close> and the browser's other
  services are arguments of the definitions that use them. Handlers that wait are step relations (\<open>poll_step\<close>,
  \<open>tl_step\<close>, \<open>tb_step\<close>, \<open>mic_step\<close>): the waiting rest of a handler is part of the state, so that any order of answers, timers
  and clicks is a run. A handler that waits once with the page locked is one function of the answer.

  \<^bold>\<open>Theories.\<close>
  \<^item> \<open>Js_Prelude\<close>: the parts of the language the code uses (trim, split, case, numbers to text, pad, truthiness),
    collections of rules. \<open>Js_Json\<close>: values, \<open>JSON.stringify\<close> and \<open>JSON.parse\<close>, which reads back what was
    written. \<open>Js_Url\<close>: percent coding and query strings. \<open>Hub_Types\<close>: the records of \<open>types.ts\<close> and of the
    generated schema that the modelled code reads.
  \<^item> \<open>Pipeline\<close>: \<open>pipeline.ts\<close>, \<open>toneAnalytics.ts\<close>. Stored choice and run, request bodies.
  \<^item> \<open>Task_Stage\<close>: \<open>taskStage.ts\<close>, \<open>taskPoll.ts\<close>, \<open>PipelineProgress.tsx\<close>, formats of \<open>util.tsx\<close>.
  \<^item> \<open>Routes\<close>: \<open>routes.ts\<close>, \<open>App.tsx\<close> and the redirects at the head of pages; a path is followed to its page with
    fuel, and three redirects are enough for every path.
  \<^item> \<open>Api_Client\<close>: \<open>api.ts\<close>. The upload, which may restart for ever, is a \<open>partial_function\<close>: \<open>None\<close> is never settling.
  \<^item> \<open>Auth\<close>: \<open>auth.tsx\<close>, \<open>mfa.ts\<close> and the pages for sign-in, second factor, password, agreement, sign-up, set-up.
  \<^item> \<open>Task_Poll\<close>: \<open>useTaskPoll.ts\<close>, \<open>TaskPage.tsx\<close>.
  \<^item> \<open>Lists\<close>: \<open>AppListPagination.tsx\<close>, \<open>userDisplay.ts\<close>, \<open>useTasksListPoll.ts\<close>, \<open>TasksPage.tsx\<close>,
    \<open>useLibraryList.ts\<close>, \<open>LibraryPage.tsx\<close>.
  \<^item> \<open>Tags\<close>: \<open>userTags.ts\<close>, \<open>ingestExtraTags.ts\<close>, the tag picker, editor and dialog.
  \<^item> \<open>Capture_Host\<close>: \<open>captureHost.ts\<close>, which links are meetings, videos or neither.
  \<^item> \<open>Ingest\<close>: \<open>IngestPanel.tsx\<close>, \<open>microphoneUpload.ts\<close>, \<open>GlobalMicRecordAccess.tsx\<close>.
  \<^item> \<open>Mic_Record\<close>: \<open>MicrophoneRecordModal.tsx\<close>, \<open>microphoneRecord.ts\<close>.
  \<^item> \<open>Models\<close>: the tables behind the choices (models, time zones, labels, tariffs of the landing page).
  \<^item> \<open>Profile\<close>: \<open>useProfilePageModel.ts\<close> and the sections and dialogs of the profile page.
  \<^item> \<open>Js_Number\<close>: \<open>Number(...)\<close> on text and JSON values, for forms that read numbers.
  \<^item> \<open>Workers\<close>: the administration of workers: capacity, the form, the dialog that shows who is hit.
  \<^item> \<open>Artifacts\<close>: the pages of a summary, transcript, recording and skill, renaming and sharing.
  \<^item> \<open>Org\<close>: \<open>OrgPage.tsx\<close>: capture hosts, profile, tariff, sign-on and the people of an organisation.
  \<^item> \<open>Instance_Settings\<close>: \<open>InstanceSettingsTab.tsx\<close>: the settings of the whole instance and their guards.
  \<^item> \<open>Js_Date\<close>: the calendar behind \<open>date.ts\<close>, the day ranges of \<open>datePreset.ts\<close> and their bar.
  \<^item> \<open>Instance_Orgs\<close>: tariffs, organisations and their ledgers on the administration pages.
  \<^item> \<open>Legal\<close>: the legal documents: editing, versions, acceptance, the public page and the preview.
  \<^item> \<open>Stats\<close>: the audit log and the pages of statistics, which ask again when a filter changes.
  \<^item> \<open>Page_Runs\<close>: the pages of tasks, of statistics and of the audit log as wholes, with every request they make; what a
    handler has read from its rendering it keeps while it waits.
  \<^item> \<open>Encryption\<close>: the keys of the hub and the job that re-encrypts, followed by a timer.
  \<^item> \<open>Telegram\<close>: linking the bot, the set-up of a second factor, the page of a single sign-on.
  \<^item> \<open>Skills\<close>: lists paged in the client (public links, skills), the forms of a skill, the panel of the pipeline.
  \<^item> \<open>Media\<close>: the times and tones of lines, the player over its element, the wave of the microphone.
  \<^item> \<open>Api_Schemas\<close>, \<open>Api_Operations\<close>: the contract of the hub that \<open>openapi/schema.gen.ts\<close> holds, as tables: the types of
    values, the paths with their methods, and for each operation its query, its body and its answers.
  \<^item> \<open>Contract\<close>: what a declared request is: a path of the table, names of the query it takes, a body of its type (\<open>fits\<close>);
    a rule for every endpoint the client uses.
  \<^item> \<open>Requests\<close>, \<open>Page_Requests\<close>, \<open>Admin_Requests\<close>: the handlers above, each with the requests it makes. A log is
    \<open>log_ok\<close> if every request in it is declared; \<open>keeps log_ok\<close> says that a handler keeps it so, whatever is answered.

  \<^bold>\<open>What the lemmas show.\<close> What is stored reads back, and what is read is well formed (C1, C2, C31); requests carry
  exactly what the state says (C4, C13, C26, C29, C35, C36); a task is in one phase (C5) and its steps are ordered (C7);
  redirects end (C9), and home is the start route the user has chosen, if he may, and a page he may see (C10, C11); the session keeps its
  invariant through every operation (C16) and every submit handler leaves its form usable (C21); a stopped poll
  changes nothing (C22), a live one reaches the end of the task (C24); lists show the newest answer where the code
  guards against late ones (C27), and may show an old one where it does not (C30); at most one microphone is live
  (C37); what a profile choice stores is what it means (C39) and each risky step asks first (C40). Where a promise
  fails, the theorem says exactly when (C15, C28, C30, C35, C37, C38, and \<open>worker_form_probes\<close>,
  \<open>summary_edit_survives\<close>, \<open>transcribe_takes_old_run\<close>, \<open>saving_discards_drafts\<close>, \<open>second_password_is_lost\<close>,
  \<open>double_click_pays_twice\<close> and \<open>saving_one_half_loses_the_other\<close> of the later theories). The later theories also
  show that every control of the settings page keeps its rules (\<open>controls_keep_rules\<close>), that a chosen day range is
  recognised again (\<open>preset_detected\<close>), that a tariff in use is replaced before it is deleted
  (\<open>replaced_before_deleted\<close>), that the preview shows the text as it is edited (\<open>preview_shows_the_text\<close>), that
  pages of the client's own lists make up the list (\<open>pages_are_the_list\<close>), that the statistics settle on the answer of
  the last filters (\<open>stats_follow_the_filters\<close>), that the time of a line reads back (\<open>timestamp_reads_back\<close>) and that the
  player shows what its element does (\<open>player_follows_element\<close>). Where one of these promises fails: a dead tab of keys
  (\<open>unseen_job_locks_the_tab\<close>), a wait that a reload ends (\<open>reload_on_profile_stops_waiting\<close>), a skill that is gone and
  stays chosen (\<open>gone_skill_stays_chosen\<close>).

  The requests of the handlers are those of the contract: the names of the paths and the operations agree
  (\<open>paths_name_the_operations\<close>), the pages of tasks, statistics and the audit log follow the contract in every run (C6), every field of the settings that is sent has
  its type (\<open>settings_body_fits\<close>, \<open>legal_body_fits\<close>), and a new organisation follows it exactly when there is a tariff for
  it (\<open>create_org_body_fits\<close>). Ids that come from the hub are assumed to be single segments of a path (\<open>plain_segment\<close>).

  \<^bold>\<open>Bounds and fuel.\<close> A path is followed with fuel 3 or more, since three redirects suffice (C9). A value is compared
  with its type to the depth \<open>schema_depth\<close> of 8 names and lists, more than any body of the client has.

  \<^bold>\<open>Not modelled.\<close> Markup and styles, the kit of UI components and the layout of the landing page; the Python service; the
  translations; libraries (React, the router beyond its matching rule, Radix); tests and scripts of the build. The answers of
  the hub are arguments: the contract is checked of what the client sends, not of what the hub answers.
\<close>

end
